(* ===== verification/Prelude.thy ===== *)
theory Prelude
  imports
    Main
    "HOL-Library.Char_ord"
    "HOL-Library.List_Lexorder"
    "HOL-Library.Multiset"
begin

text \<open>
  The prelude of the procfit development: results of fallible operations, lists and
  finite maps kept as association lists in first-seen order, lookup tables, and the
  collections of rewrite rules the component theories extend. Nothing in this theory
  mentions the program; it is the vocabulary the other theories share.
\<close>

section \<open>Collections\<close>

named_theorems result_simps \<open>rewrite rules for the result monad\<close>
named_theorems frame_simps \<open>fields an operation leaves as they were\<close>
named_theorems eval_simps \<open>unfolding rules used to evaluate concrete inputs\<close>

section \<open>Results\<close>

text \<open>
  A Go function that returns a value and an error is a function into a sum, the error on
  the left. \<open>rbind\<close> is the early return \<open>if err != nil { return err }\<close>.
\<close>

type_synonym ('e, 'a) result = "'e + 'a"

fun rbind :: "('e, 'a) result \<Rightarrow> ('a \<Rightarrow> ('e, 'b) result) \<Rightarrow> ('e, 'b) result" where
  "rbind (Inl e) f = Inl e"
| "rbind (Inr x) f = f x"

definition is_ok :: "('e, 'a) result \<Rightarrow> bool" where
  "is_ok r \<longleftrightarrow> (\<exists>x. r = Inr x)"

lemma is_ok_simps [simp, result_simps]:
  "is_ok (Inr x)" "\<not> is_ok (Inl e)"
  by (auto simp: is_ok_def)

lemma rbind_eq_Inr [result_simps]:
  "rbind r f = Inr y \<longleftrightarrow> (\<exists>x. r = Inr x \<and> f x = Inr y)"
  by (cases r) auto

lemma rbind_eq_Inl [result_simps]:
  "rbind r f = Inl e \<longleftrightarrow> r = Inl e \<or> (\<exists>x. r = Inr x \<and> f x = Inl e)"
  by (cases r) auto

lemma rbind_cong [fundef_cong]:
  "r = r' \<Longrightarrow> (\<And>x. r' = Inr x \<Longrightarrow> f x = g x) \<Longrightarrow> rbind r f = rbind r' g"
  by (cases r') auto

lemma rbind_assoc: "rbind (rbind r f) g = rbind r (\<lambda>x. rbind (f x) g)"
  by (cases r) auto

text \<open>Running a fallible step over a list, stopping at the first error.\<close>

fun rmap :: "('a \<Rightarrow> ('e, 'b) result) \<Rightarrow> 'a list \<Rightarrow> ('e, 'b list) result" where
  "rmap f [] = Inr []"
| "rmap f (x # xs) = rbind (f x) (\<lambda>y. rbind (rmap f xs) (\<lambda>ys. Inr (y # ys)))"

lemma rmap_Inr_iff:
  "rmap f xs = Inr ys \<longleftrightarrow> list_all2 (\<lambda>x y. f x = Inr y) xs ys"
proof (induction xs arbitrary: ys)
  case Nil
  then show ?case by auto
next
  case (Cons x xs)
  then show ?case by (cases ys) (auto simp: result_simps)
qed

section \<open>Lists\<close>

text \<open>
  Collecting the distinct elements of a list in the order they are first seen: what the
  code does with a \<open>seen\<close> map beside an \<open>order\<close> slice.
\<close>

fun add_new :: "'a list \<Rightarrow> 'a \<Rightarrow> 'a list" where
  "add_new acc x = (if x \<in> set acc then acc else acc @ [x])"

definition first_seen :: "'a list \<Rightarrow> 'a list \<Rightarrow> 'a list" where
  "first_seen acc xs = foldl add_new acc xs"

lemma first_seen_Nil [simp]: "first_seen acc [] = acc"
  by (simp add: first_seen_def)

lemma first_seen_Cons [simp]: "first_seen acc (x # xs) = first_seen (add_new acc x) xs"
  by (simp add: first_seen_def)

lemma set_add_new [simp]: "set (add_new acc x) = insert x (set acc)"
  by auto

lemma distinct_add_new [simp]: "distinct acc \<Longrightarrow> distinct (add_new acc x)"
  by auto

lemma set_first_seen [simp]: "set (first_seen acc xs) = set acc \<union> set xs"
proof (induction xs arbitrary: acc)
  case Nil
  then show ?case by simp
next
  case (Cons x xs)
  show ?case
    by (simp only: first_seen_Cons Cons.IH set_add_new list.set) auto
qed

lemma distinct_first_seen [simp]: "distinct acc \<Longrightarrow> distinct (first_seen acc xs)"
proof (induction xs arbitrary: acc)
  case Nil
  then show ?case by simp
next
  case (Cons x xs)
  show ?case
    by (simp only: first_seen_Cons) (rule Cons.IH, simp only: distinct_add_new Cons.prems)
qed

declare add_new.simps [simp del]

lemma first_seen_append: "first_seen acc (xs @ ys) = first_seen (first_seen acc xs) ys"
  by (simp add: first_seen_def)

lemma first_seen_subset: "set xs \<subseteq> set acc \<Longrightarrow> first_seen acc xs = acc"
proof (induction xs)
  case Nil
  then show ?case by simp
next
  case (Cons x xs)
  then show ?case by (simp add: add_new.simps)
qed

lemma first_seen_distinct:
  "distinct xs \<Longrightarrow> set xs \<inter> set acc = {} \<Longrightarrow> first_seen acc xs = acc @ xs"
proof (induction xs arbitrary: acc)
  case Nil
  then show ?case by simp
next
  case (Cons x xs)
  then show ?case by (simp add: add_new.simps)
qed

text \<open>Updating a list in place at an index that is in range.\<close>

lemma nth_list_update_other [simp]: "i \<noteq> j \<Longrightarrow> xs[i := v] ! j = xs ! j"
  by simp

text \<open>Folding a state transformer over a list keeps what every step keeps.\<close>

lemma foldl_invariant:
  assumes "P s" and "\<And>s x. x \<in> set xs \<Longrightarrow> P s \<Longrightarrow> P (f s x)"
  shows "P (foldl f s xs)"
  using assms by (induction xs arbitrary: s) auto

lemma foldl_frame:
  assumes "\<And>s x. x \<in> set xs \<Longrightarrow> g (f s x) = g s"
  shows "g (foldl f s xs) = g s"
  using assms by (induction xs arbitrary: s) auto

section \<open>Lookup tables\<close>

text \<open>
  A Go map literal with string keys is an association list; looking a key up is
  \<open>map_of\<close>. The keys of a literal are distinct (the compiler rejects duplicates).
\<close>

type_synonym 'v table = "(string \<times> 'v) list"

definition keys :: "'v table \<Rightarrow> string list" where
  "keys t = map fst t"

lemma lookup_in_keys: "map_of t k = Some v \<Longrightarrow> k \<in> set (keys t)"
  by (force simp: keys_def dest: map_of_SomeD)

lemma lookup_None_iff: "map_of t k = None \<longleftrightarrow> k \<notin> set (keys t)"
  by (simp add: keys_def map_of_eq_None_iff)

section \<open>Multisets of list transformations\<close>

lemma mset_partition: "mset (filter P xs) + mset (filter (\<lambda>x. \<not> P x) xs) = mset xs"
  by (induction xs) auto

lemma filter_concat: "filter P (concat xss) = concat (map (filter P) xss)"
  by (induction xss) auto

end
