(* ===== verification/Go_Strings.thy ===== *)
theory Go_Strings
  imports Prelude
begin

text \<open>
  The parts of Go's \<open>strings\<close> and \<open>strconv\<close> packages the program uses, on byte
  strings (a Go string is a sequence of bytes, an Isabelle \<open>char\<close> is a byte). White
  space is ASCII white space: Go also trims the Unicode spaces beyond ASCII, which the
  kernel interfaces and the query language of this program do not produce.
  \<open>parse_uint\<close> and \<open>atoi\<close> return, as Go does, a value beside the error: the clamped
  value on a range error, 0 on a syntax error.
\<close>

section \<open>Prefixes, suffixes, substrings\<close>

fun has_prefix :: "string \<Rightarrow> string \<Rightarrow> bool" where
  "has_prefix s [] = True"
| "has_prefix [] (c # cs) = False"
| "has_prefix (x # xs) (c # cs) = (x = c \<and> has_prefix xs cs)"

definition has_suffix :: "string \<Rightarrow> string \<Rightarrow> bool" where
  "has_suffix s t = has_prefix (rev s) (rev t)"

fun contains :: "string \<Rightarrow> string \<Rightarrow> bool" where
  "contains [] t = (t = [])"
| "contains (c # cs) t = (has_prefix (c # cs) t \<or> contains cs t)"

definition contains_any :: "string \<Rightarrow> string \<Rightarrow> bool" where
  "contains_any s cs = (\<exists>c \<in> set s. c \<in> set cs)"

definition cut_prefix :: "string \<Rightarrow> string \<Rightarrow> string option" where
  "cut_prefix s p = (if has_prefix s p then Some (drop (length p) s) else None)"

lemma has_prefix_iff: "has_prefix s p \<longleftrightarrow> (\<exists>r. s = p @ r)"
  by (induction s p rule: has_prefix.induct) auto

lemma has_suffix_iff: "has_suffix s p \<longleftrightarrow> (\<exists>r. s = r @ p)"
proof -
  have "has_suffix s p \<longleftrightarrow> (\<exists>r. rev s = rev p @ r)"
    by (simp add: has_suffix_def has_prefix_iff)
  also have "\<dots> \<longleftrightarrow> (\<exists>r. s = rev r @ p)"
    by (metis rev_append rev_rev_ident)
  also have "\<dots> \<longleftrightarrow> (\<exists>r. s = r @ p)"
    by (metis rev_rev_ident)
  finally show ?thesis .
qed

lemma has_prefix_append [simp]: "has_prefix (p @ r) p"
  by (auto simp: has_prefix_iff)

lemma contains_iff: "contains s t \<longleftrightarrow> (\<exists>a b. s = a @ t @ b)"
proof (induction s)
  case Nil
  then show ?case by auto
next
  case (Cons c cs)
  have "(\<exists>a b. c # cs = a @ t @ b) \<longleftrightarrow> has_prefix (c # cs) t \<or> (\<exists>a b. cs = a @ t @ b)"
    by (auto simp: has_prefix_iff Cons_eq_append_conv)
  with Cons.IH show ?case by simp
qed

lemma cut_prefix_Some: "cut_prefix s p = Some r \<longleftrightarrow> s = p @ r"
  by (auto simp: cut_prefix_def has_prefix_iff)

section \<open>Splitting\<close>

text \<open>\<open>strings.Cut(s, sep)\<close> for a one-byte separator: the first occurrence splits.\<close>

fun str_cut :: "char \<Rightarrow> string \<Rightarrow> (string \<times> string) option" where
  "str_cut d [] = None"
| "str_cut d (c # cs) =
     (if c = d then Some ([], cs)
      else case str_cut d cs of None \<Rightarrow> None | Some (a, b) \<Rightarrow> Some (c # a, b))"

lemma str_cut_append: "d \<notin> set a \<Longrightarrow> str_cut d (a @ d # b) = Some (a, b)"
  by (induction a) auto

lemma str_cut_SomeD: "str_cut d s = Some (a, b) \<Longrightarrow> s = a @ d # b \<and> d \<notin> set a"
  by (induction s arbitrary: a b) (auto split: option.splits if_splits)

lemma str_cut_Some_iff: "str_cut d s = Some (a, b) \<longleftrightarrow> s = a @ d # b \<and> d \<notin> set a"
  using str_cut_append str_cut_SomeD by blast

lemma str_cut_None_iff: "str_cut d s = None \<longleftrightarrow> d \<notin> set s"
  by (induction s) (auto split: option.splits)

text \<open>\<open>strings.LastIndexByte\<close>, as the split at the last occurrence.\<close>

definition str_cut_last :: "char \<Rightarrow> string \<Rightarrow> (string \<times> string) option" where
  "str_cut_last d s = (case str_cut d (rev s) of None \<Rightarrow> None | Some (a, b) \<Rightarrow> Some (rev b, rev a))"

lemma str_cut_last_Some_iff: "str_cut_last d s = Some (a, b) \<longleftrightarrow> s = a @ d # b \<and> d \<notin> set b"
proof -
  have "str_cut_last d s = Some (a, b) \<longleftrightarrow> str_cut d (rev s) = Some (rev b, rev a)"
    by (auto simp: str_cut_last_def split: option.splits prod.splits)
  also have "\<dots> \<longleftrightarrow> rev s = rev b @ d # rev a \<and> d \<notin> set b"
    by (simp add: str_cut_Some_iff)
  also have "\<dots> \<longleftrightarrow> s = a @ d # b \<and> d \<notin> set b"
    by (metis append_Cons append_assoc append_Nil rev.simps(2) rev_append rev_rev_ident)
  finally show ?thesis .
qed

lemma str_cut_last_None_iff: "str_cut_last d s = None \<longleftrightarrow> d \<notin> set s"
  using str_cut_None_iff [of d "rev s"] by (auto simp: str_cut_last_def split: option.splits)

text \<open>\<open>strings.Split(s, sep)\<close> for a one-byte separator: never the empty list.\<close>

fun split_on :: "char \<Rightarrow> string \<Rightarrow> string list" where
  "split_on d [] = [[]]"
| "split_on d (c # cs) =
     (if c = d then [] # split_on d cs
      else case split_on d cs of [] \<Rightarrow> [[c]] | w # ws \<Rightarrow> (c # w) # ws)"

fun join :: "string \<Rightarrow> string list \<Rightarrow> string" where
  "join sep [] = []"
| "join sep [w] = w"
| "join sep (w # ws) = w @ sep @ join sep ws"

lemma split_on_nonempty [simp]: "split_on d s \<noteq> []"
  by (induction s) (auto split: list.splits)

lemma split_on_no_sep: "d \<notin> set s \<Longrightarrow> split_on d s = [s]"
  by (induction s) auto

lemma split_on_append: "d \<notin> set w \<Longrightarrow> split_on d (w @ d # s) = w # split_on d s"
  by (induction w) auto

lemma split_join:
  "ws \<noteq> [] \<Longrightarrow> \<forall>w \<in> set ws. d \<notin> set w \<Longrightarrow> split_on d (join [d] ws) = ws"
  by (induction "[d]" ws rule: join.induct) (auto simp: split_on_no_sep split_on_append)

lemma join_split: "join [d] (split_on d s) = s"
proof (induction s)
  case Nil
  then show ?case by simp
next
  case (Cons c cs)
  then show ?case
    by (cases "split_on d cs"; cases "tl (split_on d cs)") (auto split: list.splits)
qed

lemma split_on_parts: "w \<in> set (split_on d s) \<Longrightarrow> d \<notin> set w"
  by (induction s arbitrary: w) (auto split: list.splits if_splits)

section \<open>White space\<close>

definition is_space :: "char \<Rightarrow> bool" where
  "is_space c \<longleftrightarrow> c \<in> {CHR '' '', CHR 0x09, CHR 0x0A, CHR 0x0B, CHR 0x0C, CHR 0x0D}"

definition trim_left :: "string \<Rightarrow> string" where
  "trim_left s = dropWhile is_space s"

definition trim_space :: "string \<Rightarrow> string" where
  "trim_space s = rev (trim_left (rev (trim_left s)))"

text \<open>\<open>strings.Trim\<close> with a cutset, \<open>strings.TrimRight\<close>.\<close>

definition trim_right_set :: "string \<Rightarrow> string \<Rightarrow> string" where
  "trim_right_set s cs = rev (dropWhile (\<lambda>c. c \<in> set cs) (rev s))"

definition trim_set :: "string \<Rightarrow> string \<Rightarrow> string" where
  "trim_set s cs = trim_right_set (dropWhile (\<lambda>c. c \<in> set cs) s) cs"

lemma dropWhile_id: "xs = [] \<or> \<not> P (hd xs) \<Longrightarrow> dropWhile P xs = xs"
  by (cases xs) auto

lemma trim_space_id:
  "s = [] \<or> (\<not> is_space (hd s) \<and> \<not> is_space (last s)) \<Longrightarrow> trim_space s = s"
  by (auto simp: trim_space_def trim_left_def dropWhile_id hd_rev)

lemma trim_space_no_space: "\<forall>c \<in> set s. \<not> is_space c \<Longrightarrow> trim_space s = s"
  by (rule trim_space_id) (cases s; auto)

text \<open>\<open>strings.Fields\<close>: the maximal runs of non-space bytes.\<close>

fun fields_from :: "string \<Rightarrow> string \<Rightarrow> string list" where
  "fields_from w [] = (if w = [] then [] else [rev w])"
| "fields_from w (c # cs) =
     (if is_space c then (if w = [] then fields_from [] cs else rev w # fields_from [] cs)
      else fields_from (c # w) cs)"

definition fields :: "string \<Rightarrow> string list" where
  "fields s = fields_from [] s"

definition wordy :: "string \<Rightarrow> bool" where
  "wordy w \<longleftrightarrow> w \<noteq> [] \<and> (\<forall>c \<in> set w. \<not> is_space c)"

lemma fields_from_word:
  "\<forall>c \<in> set w. \<not> is_space c \<Longrightarrow> fields_from acc (w @ s) = fields_from (rev w @ acc) s"
  by (induction w arbitrary: acc) auto

lemma fields_from_wordy:
  "\<forall>c \<in> set w. \<not> is_space c \<Longrightarrow> v \<in> set (fields_from w s) \<Longrightarrow> wordy v"
proof (induction w s rule: fields_from.induct)
  case (1 w)
  then show ?case by (simp add: wordy_def split: if_splits)
next
  case (2 w c cs)
  show ?case
  proof (cases "is_space c")
    case True
    then consider "v \<in> set (fields_from [] cs)" | "v = rev w" "w \<noteq> []"
      using "2.prems"(2) by (auto split: if_splits)
    then show ?thesis
    proof cases
      case 1
      then show ?thesis using "2.IH" True by (cases "w = []") simp_all
    next
      case 2
      then show ?thesis using "2.prems"(1) by (simp add: wordy_def)
    qed
  next
    case False
    then show ?thesis using "2.IH"(3) "2.prems" by simp
  qed
qed

lemma fields_wordy: "v \<in> set (fields s) \<Longrightarrow> wordy v"
  using fields_from_wordy [of "[]" v s] by (simp add: fields_def)

lemma is_space_blank [simp]: "is_space (CHR '' '')" "is_space (CHR 0x0A)"
  by (simp_all add: is_space_def)

lemma fields_word_blank:
  "wordy w \<Longrightarrow> fields (w @ CHR '' '' # s) = w # fields s"
  by (simp add: fields_def wordy_def fields_from_word)

lemma fields_word: "wordy w \<Longrightarrow> fields w = [w]"
  using fields_from_word [of w "[]" "[]"] by (simp add: fields_def wordy_def)

lemma fields_join:
  "\<forall>w \<in> set ws. wordy w \<Longrightarrow> fields (join '' '' ws) = ws"
proof (induction ws)
  case Nil
  then show ?case by (simp add: fields_def)
next
  case (Cons w ws)
  then show ?case
    by (cases ws) (simp_all add: fields_word fields_word_blank)
qed

lemma fields_blank [simp]: "fields (CHR '' '' # s) = fields s"
  by (simp add: fields_def)

section \<open>Decimal numbers\<close>

definition digit_char :: "nat \<Rightarrow> char" where
  "digit_char d = char_of (48 + d)"

definition is_digit :: "char \<Rightarrow> bool" where
  "is_digit c \<longleftrightarrow> 48 \<le> (of_char c :: nat) \<and> (of_char c :: nat) \<le> 57"

definition digit_val :: "char \<Rightarrow> nat" where
  "digit_val c = of_char c - 48"

lemma digit_char_props:
  assumes "d < 10"
  shows "is_digit (digit_char d)" and "digit_val (digit_char d) = d"
    and "\<not> is_space (digit_char d)"
proof -
  have oc: "(of_char (digit_char d) :: nat) = 48 + d"
    using assms by (simp add: digit_char_def)
  then show "is_digit (digit_char d)" and "digit_val (digit_char d) = d"
    using assms by (simp_all add: is_digit_def digit_val_def)
  have "is_space c \<Longrightarrow> (of_char c :: nat) \<le> 32" for c
    by (auto simp: is_space_def)
  with oc show "\<not> is_space (digit_char d)"
    by force
qed

text \<open>\<open>strconv.Itoa\<close> / \<open>%d\<close>.\<close>

fun show_nat :: "nat \<Rightarrow> string" where
  "show_nat n = (if n < 10 then [digit_char n] else show_nat (n div 10) @ [digit_char (n mod 10)])"

declare show_nat.simps [simp del]

definition show_int :: "int \<Rightarrow> string" where
  "show_int i = (if i < 0 then CHR ''-'' # show_nat (nat (- i)) else show_nat (nat i))"

definition digits_val :: "string \<Rightarrow> nat" where
  "digits_val s = foldl (\<lambda>n c. n * 10 + digit_val c) 0 s"

lemma show_nat_nonempty [simp]: "show_nat n \<noteq> []"
  by (subst show_nat.simps) simp

lemma show_nat_digits: "c \<in> set (show_nat n) \<Longrightarrow> is_digit c"
proof (induction n rule: show_nat.induct)
  case (1 n)
  then show ?case
    by (cases "n < 10") (auto simp: show_nat.simps [of n] digit_char_props)
qed

lemma digits_val_show_nat: "digits_val (show_nat n) = n"
proof (induction n rule: show_nat.induct)
  case (1 n)
  show ?case
  proof (cases "n < 10")
    case True
    then show ?thesis by (simp add: show_nat.simps [of n] digits_val_def digit_char_props)
  next
    case False
    with 1 have "digits_val (show_nat (n div 10)) = n div 10" by simp
    with False show ?thesis
      by (simp add: show_nat.simps [of n] digits_val_def digit_char_props)
  qed
qed

lemma show_nat_inject [simp]: "show_nat m = show_nat n \<longleftrightarrow> m = n"
  by (metis digits_val_show_nat)

lemma is_digit_not_special:
  "is_digit c \<Longrightarrow> c \<noteq> CHR ''-'' \<and> c \<noteq> CHR ''+'' \<and> c \<noteq> CHR ''/'' \<and> c \<noteq> CHR '':'' \<and> c \<noteq> CHR '')''
     \<and> c \<noteq> CHR ''('' \<and> c \<noteq> CHR '','' \<and> c \<noteq> CHR ''#'' \<and> \<not> is_space c"
  by (auto simp: is_digit_def is_space_def)

lemma show_nat_hd: "hd (show_nat n) \<noteq> CHR ''-'' \<and> hd (show_nat n) \<noteq> CHR ''+''"
  using is_digit_not_special [OF show_nat_digits [OF hd_in_set [OF show_nat_nonempty]], of n]
  by simp

lemma show_int_inject [simp]: "show_int i = show_int j \<longleftrightarrow> i = j"
proof -
  have "show_nat n \<noteq> CHR ''-'' # s" for n s
    using show_nat_hd [of n] by auto
  then show ?thesis
    by (auto simp: show_int_def) (metis)+
qed

lemma show_int_nonempty [simp]: "show_int i \<noteq> []"
  by (simp add: show_int_def)

lemma show_int_chars: "c \<in> set (show_int i) \<Longrightarrow> is_digit c \<or> c = CHR ''-''"
  by (auto simp: show_int_def dest: show_nat_digits split: if_splits)

lemma show_int_no_slash: "CHR ''/'' \<notin> set (show_int i)" "CHR ''/'' \<notin> set (show_nat n)"
  using show_int_chars [of "CHR ''/''" i] show_nat_digits [of "CHR ''/''" n]
  by (auto simp: is_digit_def)

subsection \<open>Parsing\<close>

datatype num_error = ErrSyntax | ErrRange

text \<open>\<open>strconv.ParseUint(s, 10, bits)\<close>: the value, and the error if there is one.\<close>

fun parse_uint_loop :: "nat \<Rightarrow> nat \<Rightarrow> string \<Rightarrow> nat \<times> num_error option" where
  "parse_uint_loop maxv n [] = (n, None)"
| "parse_uint_loop maxv n (c # cs) =
     (if \<not> is_digit c then (0, Some ErrSyntax)
      else if n * 10 + digit_val c > maxv then (maxv, Some ErrRange)
      else parse_uint_loop maxv (n * 10 + digit_val c) cs)"

definition parse_uint :: "nat \<Rightarrow> string \<Rightarrow> nat \<times> num_error option" where
  "parse_uint bits s =
     (if s = [] then (0, Some ErrSyntax) else parse_uint_loop (2 ^ bits - 1) 0 s)"

text \<open>\<open>strconv.ParseInt(s, 10, 64)\<close> and \<open>strconv.Atoi\<close> (a 64-bit \<open>int\<close>).\<close>

definition atoi :: "string \<Rightarrow> int \<times> num_error option" where
  "atoi s =
     (if s = [] then (0, Some ErrSyntax)
      else let neg = (hd s = CHR ''-'');
               body = (if hd s = CHR ''-'' \<or> hd s = CHR ''+'' then tl s else s);
               (un, e) = parse_uint 64 body
           in case e of
                Some ErrSyntax \<Rightarrow> (0, Some ErrSyntax)
              | _ \<Rightarrow> if \<not> neg \<and> un \<ge> 2 ^ 63 then (2 ^ 63 - 1, Some ErrRange)
                     else if neg \<and> un > 2 ^ 63 then (- (2 ^ 63), Some ErrRange)
                     else (if neg then - int un else int un, None))"

lemma parse_uint_loop_foldl:
  assumes "\<forall>c \<in> set s. is_digit c" and "foldl (\<lambda>n c. n * 10 + digit_val c) n s \<le> maxv"
  shows "parse_uint_loop maxv n s = (foldl (\<lambda>n c. n * 10 + digit_val c) n s, None)"
  using assms
proof (induction s arbitrary: n)
  case Nil
  then show ?case by simp
next
  case (Cons c cs)
  have mono: "m \<le> foldl (\<lambda>n c. n * 10 + digit_val c) m t" for m t
  proof (induction t arbitrary: m)
    case (Cons x t)
    have "m \<le> m * 10 + digit_val x" by simp
    also have "\<dots> \<le> foldl (\<lambda>n c. n * 10 + digit_val c) (m * 10 + digit_val x) t"
      by (rule Cons.IH)
    finally show ?case by simp
  qed simp
  from Cons.prems mono [of "n * 10 + digit_val c" cs] have "n * 10 + digit_val c \<le> maxv"
    by simp
  with Cons show ?case by simp
qed

lemma parse_uint_show_nat:
  "n < 2 ^ bits \<Longrightarrow> parse_uint bits (show_nat n) = (n, None)"
  using parse_uint_loop_foldl [of "show_nat n" 0 "2 ^ bits - 1"] show_nat_digits
    digits_val_show_nat [of n]
  by (auto simp: parse_uint_def digits_val_def)

lemma atoi_show_int:
  assumes "- (2 ^ 63) \<le> i" and "i < 2 ^ 63"
  shows "atoi (show_int i) = (i, None)"
proof (cases "i < 0")
  case True
  then have "nat (- i) < 2 ^ 64" and "nat (- i) \<le> 2 ^ 63" using assms by auto
  then show ?thesis
    using True by (simp add: atoi_def show_int_def parse_uint_show_nat)
next
  case False
  then have b: "nat i < 2 ^ 64" "nat i < 2 ^ 63" using assms by auto
  show ?thesis
    using False b show_nat_hd [of "nat i"]
    by (simp add: atoi_def show_int_def parse_uint_show_nat)
qed

lemma parse_uint_bound: "fst (parse_uint bits s) < 2 ^ bits"
proof -
  have "n \<le> maxv \<Longrightarrow> fst (parse_uint_loop maxv n t) \<le> maxv" for n maxv t
    by (induction t arbitrary: n) auto
  then have "fst (parse_uint_loop (2 ^ bits - 1) 0 s) \<le> 2 ^ bits - 1" by simp
  then show ?thesis
    by (auto simp: parse_uint_def intro: le_less_trans)
qed

section \<open>Letter case\<close>

text \<open>\<open>strings.ToLower\<close> and \<open>strings.ToUpper\<close>, on ASCII letters.\<close>

definition to_lower :: "string \<Rightarrow> string" where
  "to_lower s = map (\<lambda>c. if CHR ''A'' \<le> c \<and> c \<le> CHR ''Z'' then char_of (of_char c + 32 :: nat) else c) s"

definition to_upper :: "string \<Rightarrow> string" where
  "to_upper s = map (\<lambda>c. if CHR ''a'' \<le> c \<and> c \<le> CHR ''z'' then char_of (of_char c - 32 :: nat) else c) s"

end
