(* ===== verification/Go_Float.thy ===== *)
theory Go_Float
  imports Prelude Complex_Main "HOL-Library.Word"
begin

text \<open>
  Go's \<open>float64\<close>: IEEE 754 binary64 with rounding to nearest, ties to even. A value is
  not-a-number, an infinity (with its sign) or the rational it denotes; the two zeros are
  one value, since the modelled code only compares zeros or tests them before dividing.
  Every arithmetic result is the exact rational result rounded by \<open>rnd\<close>.
\<close>

section \<open>Rounding\<close>

datatype f64 = NaN | Inf bool | Fin rat  \<comment> \<open>\<open>Inf True\<close> is minus infinity\<close>

fun bitlen :: "nat \<Rightarrow> nat" where
  "bitlen n = (if n = 0 then 0 else Suc (bitlen (n div 2)))"

declare bitlen.simps [simp del]

text \<open>The exponent \<open>e\<close> with \<open>2 ^ e \<le> x < 2 ^ (e + 1)\<close>, for a positive \<open>x\<close>.\<close>

definition rlog2 :: "rat \<Rightarrow> int" where
  "rlog2 x =
     (let (p, q) = quotient_of x;
          e = int (bitlen (nat p)) - int (bitlen (nat q))
      in if x < 2 powi e then e - 1 else e)"

definition round_even :: "rat \<Rightarrow> int" where
  "round_even x =
     (let f = \<lfloor>x\<rfloor>; d = x - of_int f
      in if d < 1 / 2 then f else if d > 1 / 2 then f + 1 else if even f then f else f + 1)"

text \<open>53 significant bits, the smallest exponent of a subnormal is -1074.\<close>

definition rnd :: "rat \<Rightarrow> f64" where
  "rnd x =
     (if x = 0 then Fin 0
      else let q = max (- 1074) (rlog2 \<bar>x\<bar> - 52);
               y = of_int (round_even (\<bar>x\<bar> / 2 powi q)) * 2 powi q
           in if y \<ge> 2 ^ 1024 then Inf (x < 0) else Fin (sgn x * y))"

section \<open>Arithmetic and comparison\<close>

fun f_add :: "f64 \<Rightarrow> f64 \<Rightarrow> f64" where
  "f_add (Fin a) (Fin b) = rnd (a + b)"
| "f_add (Inf s) (Inf t) = (if s = t then Inf s else NaN)"
| "f_add (Inf s) (Fin b) = Inf s"
| "f_add (Fin a) (Inf t) = Inf t"
| "f_add _ _ = NaN"

fun f_mul :: "f64 \<Rightarrow> f64 \<Rightarrow> f64" where
  "f_mul (Fin a) (Fin b) = rnd (a * b)"
| "f_mul (Inf s) (Inf t) = Inf (s \<noteq> t)"
| "f_mul (Inf s) (Fin b) = (if b = 0 then NaN else Inf (s \<noteq> (b < 0)))"
| "f_mul (Fin a) (Inf t) = (if a = 0 then NaN else Inf (t \<noteq> (a < 0)))"
| "f_mul _ _ = NaN"

fun f_div :: "f64 \<Rightarrow> f64 \<Rightarrow> f64" where
  "f_div (Fin a) (Fin b) =
     (if b \<noteq> 0 then rnd (a / b) else if a = 0 then NaN else Inf (a < 0))"
| "f_div (Inf s) (Fin b) = Inf (s \<noteq> (b < 0))"
| "f_div (Fin a) (Inf t) = Fin 0"
| "f_div _ _ = NaN"

fun f_lt :: "f64 \<Rightarrow> f64 \<Rightarrow> bool" where
  "f_lt (Fin a) (Fin b) = (a < b)"
| "f_lt (Inf s) (Inf t) = (s \<and> \<not> t)"
| "f_lt (Inf s) (Fin b) = s"
| "f_lt (Fin a) (Inf t) = (\<not> t)"
| "f_lt _ _ = False"

fun f_eq :: "f64 \<Rightarrow> f64 \<Rightarrow> bool" where
  "f_eq NaN b = False"
| "f_eq a b = (a = b)"

definition f_le :: "f64 \<Rightarrow> f64 \<Rightarrow> bool" where
  "f_le a b \<longleftrightarrow> f_lt a b \<or> f_eq a b"

definition f_of_int :: "int \<Rightarrow> f64" where
  "f_of_int i = rnd (of_int i)"

definition f_of_u64 :: "64 word \<Rightarrow> f64" where
  "f_of_u64 w = f_of_int (uint w)"

section \<open>Order\<close>

lemma f_eq_iff: "f_eq a b \<longleftrightarrow> a = b \<and> a \<noteq> NaN"
  by (cases a) auto

lemma f_lt_irrefl [simp]: "\<not> f_lt a a"
  by (cases a) auto

lemma f_lt_asym: "f_lt a b \<Longrightarrow> \<not> f_lt b a"
  by (cases a; cases b) auto

lemma f_lt_trans: "f_lt a b \<Longrightarrow> f_lt b c \<Longrightarrow> f_lt a c"
  by (cases a; cases b; cases c) auto

lemma f_lt_linear: "a \<noteq> NaN \<Longrightarrow> b \<noteq> NaN \<Longrightarrow> f_lt a b \<or> a = b \<or> f_lt b a"
  by (cases a; cases b) auto

lemma f_lt_NaN [simp]: "\<not> f_lt NaN a" "\<not> f_lt a NaN"
  by (cases a; simp)+

lemma f_lt_negtrans:
  "b \<noteq> NaN \<Longrightarrow> f_lt a c \<Longrightarrow> f_lt a b \<or> f_lt b c"
  by (cases a; cases b; cases c) auto

section \<open>Exactness and signs\<close>

lemma round_even_of_int [simp]: "round_even (of_int i) = i"
  by (simp add: round_even_def)

lemma round_even_nonneg: "0 \<le> x \<Longrightarrow> 0 \<le> round_even x"
  by (auto simp: round_even_def Let_def)

definition f_nonneg :: "f64 \<Rightarrow> bool" where
  "f_nonneg v \<longleftrightarrow> (case v of NaN \<Rightarrow> False | Inf s \<Rightarrow> \<not> s | Fin x \<Rightarrow> 0 \<le> x)"

lemma f_nonneg_simps [simp]:
  "f_nonneg (Fin x) \<longleftrightarrow> 0 \<le> x" "f_nonneg (Inf s) \<longleftrightarrow> \<not> s" "\<not> f_nonneg NaN"
  by (simp_all add: f_nonneg_def)

lemma f_nonneg_rnd [simp]: "0 \<le> x \<Longrightarrow> f_nonneg (rnd x)"
  by (auto simp: rnd_def Let_def intro!: mult_nonneg_nonneg round_even_nonneg)

lemma rnd_nonpos:
  assumes "x \<le> 0"
  shows "\<not> f_lt (Fin 0) (rnd x)"
proof -
  define q where "q = max (- 1074) (rlog2 \<bar>x\<bar> - 52)"
  define y :: rat where "y = of_int (round_even (\<bar>x\<bar> / 2 powi q)) * 2 powi q"
  have "0 \<le> round_even (\<bar>x\<bar> / 2 powi q)"
    by (rule round_even_nonneg) simp
  then have "0 \<le> y" by (simp add: y_def)
  moreover have "rnd x = (if x = 0 then Fin 0 else if y \<ge> 2 ^ 1024 then Inf (x < 0) else Fin (sgn x * y))"
    unfolding rnd_def q_def y_def Let_def ..
  moreover have "sgn x \<le> 0" using assms by (auto simp: sgn_if)
  ultimately show ?thesis
    using assms by (auto simp: not_less mult_nonpos_nonneg)
qed

lemma rnd_not_NaN [simp]: "rnd x \<noteq> NaN"
  by (simp add: rnd_def Let_def)

lemma f_of_int_not_NaN [simp]: "f_of_int i \<noteq> NaN" "f_of_u64 w \<noteq> NaN"
  by (simp_all add: f_of_int_def f_of_u64_def)

lemma f_nonneg_of_int [simp]: "0 \<le> i \<Longrightarrow> f_nonneg (f_of_int i)"
  by (simp add: f_of_int_def)

lemma f_nonneg_of_u64 [simp]: "f_nonneg (f_of_u64 w)"
  by (simp add: f_of_u64_def)

lemma f_nonneg_mul:
  assumes "f_nonneg a" and "\<exists>x > 0. b = Fin x"
  shows "f_nonneg (f_mul a b)"
  using assms by (cases a) auto

lemma f_nonneg_div:
  assumes "f_nonneg a" and "\<exists>x > 0. b = Fin x"
  shows "f_nonneg (f_div a b)"
  using assms by (cases a) auto

lemma f_nonneg_add: "f_nonneg a \<Longrightarrow> f_nonneg b \<Longrightarrow> f_nonneg (f_add a b)"
  by (cases a; cases b) auto

text \<open>An integer of at most 53 bits is a \<open>float64\<close>.\<close>

lemma bitlen_bound: "n < 2 ^ bitlen n"
proof (induction n rule: bitlen.induct)
  case (1 n)
  show ?case
  proof (cases "n = 0")
    case False
    with 1 have "n div 2 < 2 ^ bitlen (n div 2)" by simp
    then have "n < 2 * 2 ^ bitlen (n div 2)" by linarith
    with False show ?thesis by (simp add: bitlen.simps [of n])
  qed simp
qed

lemma bitlen_le: "n < 2 ^ k \<Longrightarrow> bitlen n \<le> k"
proof (induction n arbitrary: k rule: bitlen.induct)
  case (1 n)
  show ?case
  proof (cases "n = 0")
    case True
    then show ?thesis by (simp add: bitlen.simps)
  next
    case False
    then obtain j where k: "k = Suc j" using 1(2) by (cases k) auto
    then have "n div 2 < 2 ^ j" using 1(2) by auto
    with 1(1) False have "bitlen (n div 2) \<le> j" by blast
    with False k show ?thesis by (simp add: bitlen.simps [of n])
  qed
qed

lemma bitlen_lower: "0 < n \<Longrightarrow> 2 ^ (bitlen n - 1) \<le> n"
proof (induction n rule: bitlen.induct)
  case (1 n)
  show ?case
  proof (cases "n = 1")
    case False
    with 1 have IH: "2 ^ (bitlen (n div 2) - 1) \<le> n div 2" by simp
    have "bitlen (n div 2) \<noteq> 0" using False 1(2) by (simp add: bitlen.simps [of "n div 2"])
    then obtain k where k: "bitlen (n div 2) = Suc k" by (cases "bitlen (n div 2)") auto
    with IH have "2 * 2 ^ k \<le> n" by simp
    with k 1(2) show ?thesis by (simp add: bitlen.simps [of n])
  qed (simp add: bitlen.simps)
qed

text \<open>\<open>rlog2\<close> is the binary exponent.\<close>

lemma rlog2_bounds:
  assumes "0 < x"
  shows "2 powi rlog2 x \<le> x" and "x < 2 powi (rlog2 x + 1)"
proof -
  obtain p q where pq: "quotient_of x = (p, q)" by (cases "quotient_of x")
  then have q: "0 < q" and x: "x = of_int p / of_int q"
    by (auto dest: quotient_of_denom_pos quotient_of_div)
  with assms have p: "0 < p" by (simp add: zero_less_divide_iff)
  define a where "a = bitlen (nat p)"
  define b where "b = bitlen (nat q)"
  have ab: "0 < a" "0 < b" using p q by (auto simp: a_def b_def bitlen.simps)
  have P: "p < 2 ^ a" "2 ^ (a - 1) \<le> p" and Q: "q < 2 ^ b" "2 ^ (b - 1) \<le> q"
    using bitlen_bound [of "nat p"] bitlen_lower [of "nat p"] bitlen_bound [of "nat q"]
      bitlen_lower [of "nat q"] p q
    by (auto simp: a_def b_def nat_less_iff le_nat_iff zless_nat_eq_int_zless)
  have P': "(of_int p :: rat) < 2 ^ a" "2 ^ (a - 1) \<le> (of_int p :: rat)"
    using P by (metis of_int_less_iff of_int_le_iff of_int_numeral of_int_power)+
  have Q': "(of_int q :: rat) < 2 ^ b" "2 ^ (b - 1) \<le> (of_int q :: rat)"
    using Q by (metis of_int_less_iff of_int_le_iff of_int_numeral of_int_power)+
  have up: "x < 2 powi (int a - int b + 1)"
  proof -
    have "x < 2 ^ a / 2 ^ (b - 1)"
      unfolding x using P' Q' q p by (intro frac_less) auto
    also have "\<dots> = 2 powi (int a - int b + 1)"
      using ab by (simp add: power_int_diff power_int_add flip: power_int_of_nat)
    finally show ?thesis .
  qed
  have lo: "2 powi (int a - int b - 1) \<le> x"
  proof -
    have "2 powi (int a - int b - 1) = (2 ^ (a - 1) / 2 ^ b :: rat)"
      using ab by (simp add: power_int_diff of_nat_diff flip: power_int_of_nat)
    also have "\<dots> \<le> x"
      unfolding x using P' Q' q p by (intro frac_le) auto
    finally show ?thesis .
  qed
  have r: "rlog2 x = (if x < 2 powi (int a - int b) then int a - int b - 1 else int a - int b)"
    by (simp add: rlog2_def pq a_def b_def Let_def)
  from lo up show "2 powi rlog2 x \<le> x" and "x < 2 powi (rlog2 x + 1)"
    by (auto simp: r)
qed

lemma rlog2_unique:
  assumes "2 powi e \<le> x" and "x < 2 powi (e + 1)"
  shows "rlog2 x = e"
proof -
  have x: "0 < x" using assms(1) by (rule less_le_trans [rotated]) simp
  have "(2 :: rat) powi e < 2 powi (rlog2 x + 1)" "(2 :: rat) powi rlog2 x < 2 powi (e + 1)"
    using rlog2_bounds [OF x] assms by auto
  then have "e < rlog2 x + 1" "rlog2 x < e + 1"
    by (metis not_less one_le_numeral power_int_increasing)+
  then show ?thesis by simp
qed

lemma rlog2_int_le:
  assumes "0 < i" and "i < 2 ^ k"
  shows "rlog2 (of_int i) < int k"
proof -
  have q: "quotient_of (of_int i :: rat) = (i, 1)"
    by (simp add: quotient_of_int flip: of_int_def)
  have "nat i < 2 ^ k" using assms by (simp add: nat_less_iff)
  then have "bitlen (nat i) \<le> k" by (rule bitlen_le)
  moreover have "bitlen 1 = 1" by (simp add: bitlen.simps)
  ultimately show ?thesis by (auto simp: rlog2_def q Let_def)
qed

lemma rnd_of_int:
  assumes "\<bar>i\<bar> < 2 ^ 53"
  shows "rnd (of_int i) = Fin (of_int i)"
proof (cases "i = 0")
  case True
  then show ?thesis by (simp add: rnd_def)
next
  case False
  define q where "q = max (- 1074) (rlog2 (of_int \<bar>i\<bar>) - 52)"
  have "rlog2 (of_int \<bar>i\<bar>) < 53"
    using rlog2_int_le [of "\<bar>i\<bar>" 53] assms False by simp
  then have q0: "q \<le> 0" by (simp add: q_def)
  then obtain n where n: "q = - int n" by (metis nonpos_int_cases)
  have scaled: "of_int \<bar>i\<bar> / 2 powi q = (of_int (\<bar>i\<bar> * 2 ^ n) :: rat)"
    by (simp add: n power_int_minus divide_inverse)
  have val: "of_int (round_even (of_int \<bar>i\<bar> / 2 powi q)) * 2 powi q = (of_int \<bar>i\<bar> :: rat)"
    unfolding scaled round_even_of_int by (simp add: n power_int_minus)
  have small: "(of_int \<bar>i\<bar> :: rat) < 2 ^ 1024"
  proof -
    have "\<bar>i\<bar> < 2 ^ 1024" using assms by (rule less_trans) simp
    then have "(of_int \<bar>i\<bar> :: rat) < of_int (2 ^ 1024)" by (simp only: of_int_less_iff)
    then show ?thesis by simp
  qed
  have "rnd (of_int i) = Fin (sgn (of_int i) * of_int \<bar>i\<bar>)"
    using False val small unfolding rnd_def q_def by (simp add: Let_def)
  also have "sgn (of_int i) * of_int \<bar>i\<bar> = (of_int i :: rat)"
    by (simp add: sgn_mult_abs)
  finally show ?thesis .
qed

lemma f_of_int_exact: "\<bar>i\<bar> < 2 ^ 53 \<Longrightarrow> f_of_int i = Fin (of_int i)"
  by (simp add: f_of_int_def rnd_of_int)

lemma f_of_u64_exact: "uint w < 2 ^ 53 \<Longrightarrow> f_of_u64 w = Fin (of_int (uint w))"
  by (simp add: f_of_u64_def f_of_int_exact)

lemma f_of_int_mono_exact:
  "\<bar>i\<bar> < 2 ^ 53 \<Longrightarrow> \<bar>j\<bar> < 2 ^ 53 \<Longrightarrow> f_lt (f_of_int i) (f_of_int j) \<longleftrightarrow> i < j"
  by (simp add: f_of_int_exact)

lemma round_even_bounds: "x - 1 < of_int (round_even x)" "of_int (round_even x) \<le> x + 1"
  by (auto simp: round_even_def Let_def) linarith+

text \<open>In the middle of the range, a positive number rounds to a positive finite one.\<close>

lemma rnd_positive:
  assumes "2 powi (- 1000) \<le> x" and "x \<le> 2 ^ 1000"
  shows "\<exists>y > 0. rnd x = Fin y"
proof -
  have x: "0 < x" using assms(1) by (rule less_le_trans [rotated]) simp
  have "(2 :: rat) powi (- 1000) < 2 powi (rlog2 x + 1)"
    using rlog2_bounds(2) [OF x] assms(1) by linarith
  then have r: "- 1000 < rlog2 x + 1"
    by (metis not_less one_le_numeral power_int_increasing)
  define q where "q = max (- 1074) (rlog2 x - 52)"
  have q: "q = rlog2 x - 52" using r by (simp add: q_def)
  have pos: "0 < (2 :: rat) powi q" by simp
  have "(2 :: rat) powi q < 2 powi rlog2 x"
    unfolding q by (intro power_int_strict_increasing) simp_all
  then have qx: "2 powi q < x"
    using rlog2_bounds(1) [OF x] by linarith
  define y :: rat where "y = of_int (round_even (x / 2 powi q)) * 2 powi q"
  have "(x / 2 powi q - 1) * 2 powi q < y" "y \<le> (x / 2 powi q + 1) * 2 powi q"
    unfolding y_def
    by (rule mult_strict_right_mono mult_right_mono, rule round_even_bounds, use pos in simp)+
  then have "x - 2 powi q < y" "y \<le> x + 2 powi q"
    using pos by (simp_all add: algebra_simps)
  then have y: "0 < y" "y \<le> 2 * 2 ^ 1000"
    using qx assms(2) by linarith+
  have "(2 :: rat) * 2 ^ 1000 < 2 ^ 1024" by simp
  then have "rnd x = Fin y"
    using x y unfolding rnd_def q_def y_def by (simp add: Let_def)
  then show ?thesis using y by blast
qed

lemma f_of_int_positive:
  assumes "0 < i" and "i \<le> 2 ^ 64"
  shows "\<exists>y > 0. f_of_int i = Fin y"
proof -
  have "(1 :: rat) \<le> of_int i" "(of_int i :: rat) \<le> 2 ^ 1000"
    using assms by simp_all
  then show ?thesis
    unfolding f_of_int_def by (intro rnd_positive) simp_all
qed

end
