(* ===== verification/Expr_Lexer.thy ===== *)
theory Expr_Lexer
  imports Go_Strings Go_Float
begin

text \<open>
  The lexer of the filter language: \<open>internal/expr/lexer.go\<close> and \<open>suffix.go\<close>. The
  lexer's state is the byte position and the rest of the input; a token is one constructor
  per \<open>tokKind\<close> with the payload that kind carries (the token's own position is written
  and never read, so it is not kept). The lemmas show that every token but the last one
  consumes input, what a token list looks like, and that the lexer inverts the spelling of
  tokens.
\<close>

section \<open>Tokens and errors\<close>

datatype token =
    TEOF
  | TIdent string
  | TStr string
  | TNum f64
  | TOp string
  | TLParen | TRParen | TLBrack | TRBrack | TComma

datatype lex_error =
    UnterminatedString nat
  | BadNumber string
  | BadSuffix string
  | UnexpectedChar char nat

section \<open>Character classes\<close>

definition is_letter :: "char \<Rightarrow> bool" where
  "is_letter c \<longleftrightarrow>
     (97 \<le> (of_char c :: nat) \<and> (of_char c :: nat) \<le> 122)
     \<or> (65 \<le> (of_char c :: nat) \<and> (of_char c :: nat) \<le> 90)"

definition is_ident_start :: "char \<Rightarrow> bool" where
  "is_ident_start c \<longleftrightarrow> is_letter c \<or> c = CHR ''_''"

definition is_ident_part :: "char \<Rightarrow> bool" where
  "is_ident_part c \<longleftrightarrow> is_ident_start c \<or> is_digit c \<or> c = CHR ''-'' \<or> c = CHR ''.''"

definition is_blank :: "char \<Rightarrow> bool" where
  "is_blank c \<longleftrightarrow> c = CHR '' '' \<or> c = CHR 0x09 \<or> c = CHR 0x0A"

section \<open>Number suffixes\<close>

definition duration_seconds :: "string \<Rightarrow> f64 option" where
  "duration_seconds s =
     (if s = ''ms'' then Some (rnd (1 / 1000))
      else if s = ''s'' then Some (f_of_int 1)
      else if s = ''m'' then Some (f_of_int 60)
      else if s = ''h'' then Some (f_of_int 3600)
      else None)"

fun scale_steps :: "nat \<Rightarrow> f64 \<Rightarrow> f64 \<Rightarrow> f64" where
  "scale_steps 0 step acc = acc"
| "scale_steps (Suc n) step acc = scale_steps n step (f_mul acc step)"

definition size_exp :: "char \<Rightarrow> nat option" where
  "size_exp c =
     (if c = CHR ''K'' then Some 1 else if c = CHR ''M'' then Some 2
      else if c = CHR ''G'' then Some 3 else if c = CHR ''T'' then Some 4
      else if c = CHR ''P'' then Some 5 else None)"

text \<open>The caller never passes the empty suffix, where the code would index \<open>s[0]\<close>.\<close>

fun byte_size :: "string \<Rightarrow> f64 option" where
  "byte_size [] = None"
| "byte_size (letter # rest) =
     (case size_exp letter of
        None \<Rightarrow> None
      | Some e \<Rightarrow>
          if rest \<noteq> [] \<and> rest \<noteq> ''B'' \<and> rest \<noteq> ''iB'' then None
          else let step = (if contains (letter # rest) ''i'' then f_of_int 1024 else f_of_int 1000)
               in Some (scale_steps e step (f_of_int 1)))"

definition apply_suffix :: "f64 \<Rightarrow> string \<Rightarrow> (lex_error, f64) result" where
  "apply_suffix base suffix =
     (if suffix = [] then Inr base
      else case duration_seconds suffix of
             Some m \<Rightarrow> Inr (f_mul base m)
           | None \<Rightarrow> (case byte_size suffix of
                       Some m \<Rightarrow> Inr (f_mul base m)
                     | None \<Rightarrow> Inl (BadSuffix suffix)))"

text \<open>
  \<open>strconv.ParseFloat\<close> on a word of digits and points, the only words the lexer passes:
  a syntax error on a second point, a range error beyond the largest finite value.
\<close>

definition parse_float_dec :: "string \<Rightarrow> f64 option" where
  "parse_float_dec s =
     (let (whole, frac) = (case str_cut (CHR ''.'') s of None \<Rightarrow> (s, []) | Some p \<Rightarrow> p)
      in if CHR ''.'' \<in> set frac \<or> whole @ frac = [] then None
         else case rnd (of_nat (digits_val (whole @ frac)) / 10 ^ length frac) of
                Fin x \<Rightarrow> Some (Fin x)
              | _ \<Rightarrow> None)"

section \<open>Scanning\<close>

definition unescape :: "char \<Rightarrow> char" where
  "unescape c =
     (if c = CHR ''n'' then CHR 0x0A else if c = CHR ''t'' then CHR 0x09
      else if c = CHR ''r'' then CHR 0x0D else c)"

text \<open>The body of \<open>lexString\<close> after the opening quote: the content, and the rest.\<close>

fun scan_string :: "char \<Rightarrow> nat \<Rightarrow> string \<Rightarrow> (string \<times> nat \<times> string) option" where
  "scan_string q pos [] = None"
| "scan_string q pos [c] = (if c = q then Some ([], pos + 1, []) else None)"
| "scan_string q pos (c # d # cs) =
     (if c = CHR 0x5C then
        (case scan_string q (pos + 2) cs of
           None \<Rightarrow> None | Some (b, p, r) \<Rightarrow> Some (unescape d # b, p, r))
      else if c = q then Some ([], pos + 1, d # cs)
      else (case scan_string q (pos + 1) (d # cs) of
              None \<Rightarrow> None | Some (b, p, r) \<Rightarrow> Some (c # b, p, r)))"

definition lex_string :: "nat \<Rightarrow> char \<Rightarrow> string \<Rightarrow> (lex_error, token \<times> nat \<times> string) result" where
  "lex_string start quote cs =
     (case scan_string quote (start + 1) cs of
        None \<Rightarrow> Inl (UnterminatedString start)
      | Some (b, p, r) \<Rightarrow> Inr (TStr b, p, r))"

definition lex_ident :: "nat \<Rightarrow> string \<Rightarrow> (lex_error, token \<times> nat \<times> string) result" where
  "lex_ident pos s =
     (let w = takeWhile is_ident_part s
      in Inr (TIdent w, pos + length w, dropWhile is_ident_part s))"

definition lex_number :: "nat \<Rightarrow> string \<Rightarrow> (lex_error, token \<times> nat \<times> string) result" where
  "lex_number pos s =
     (let numeric = (\<lambda>c. is_digit c \<or> c = CHR ''.'');
          mantissa = takeWhile numeric s;
          s' = dropWhile numeric s;
          suffix = takeWhile is_letter s';
          rest = dropWhile is_letter s'
      in case parse_float_dec mantissa of
           None \<Rightarrow> Inl (BadNumber mantissa)
         | Some base \<Rightarrow>
             rbind (apply_suffix base suffix)
               (\<lambda>v. Inr (TNum v, pos + length mantissa + length suffix, rest)))"

definition two_char_ops :: "string list" where
  "two_char_ops = [''=='', ''!='', ''<='', ''>='', ''~='', ''!~'', ''&&'', ''||'']"

definition one_char_ops :: "char list" where
  "one_char_ops = [CHR ''<'', CHR ''>'', CHR ''!'']"

fun lex_op :: "nat \<Rightarrow> string \<Rightarrow> (lex_error, token \<times> nat \<times> string) result" where
  "lex_op pos [] = Inr (TEOF, pos, [])"
| "lex_op pos (c # cs) =
     (if (case cs of [] \<Rightarrow> False | d # _ \<Rightarrow> [c, d] \<in> set two_char_ops)
      then Inr (TOp [c, hd cs], pos + 2, tl cs)
      else if c \<in> set one_char_ops then Inr (TOp [c], pos + 1, cs)
      else Inl (UnexpectedChar c pos))"

text \<open>\<open>(l *lexer) next\<close>, on the input after the blanks.\<close>

fun lex_token :: "nat \<Rightarrow> string \<Rightarrow> (lex_error, token \<times> nat \<times> string) result" where
  "lex_token pos [] = Inr (TEOF, pos, [])"
| "lex_token pos (c # cs) =
     (if c = CHR 0x22 \<or> c = CHR 0x27 then lex_string pos c cs
      else if c = CHR ''('' then Inr (TLParen, pos + 1, cs)
      else if c = CHR '')'' then Inr (TRParen, pos + 1, cs)
      else if c = CHR ''['' then Inr (TLBrack, pos + 1, cs)
      else if c = CHR '']'' then Inr (TRBrack, pos + 1, cs)
      else if c = CHR '','' then Inr (TComma, pos + 1, cs)
      else if is_digit c then lex_number pos (c # cs)
      else if is_ident_start c then lex_ident pos (c # cs)
      else lex_op pos (c # cs))"

definition lex_next :: "nat \<Rightarrow> string \<Rightarrow> (lex_error, token \<times> nat \<times> string) result" where
  "lex_next pos s =
     lex_token (pos + length (takeWhile is_blank s)) (dropWhile is_blank s)"

section \<open>Progress\<close>

lemma scan_string_shorter:
  "scan_string q pos s = Some (b, p, r) \<Longrightarrow> length r < length s"
  by (induction q pos s arbitrary: b p r rule: scan_string.induct)
    (fastforce split: if_splits option.splits)+

lemma length_dropWhile_hd: "P (hd s) \<Longrightarrow> s \<noteq> [] \<Longrightarrow> length (dropWhile P s) < length s"
  by (cases s) (auto intro: le_imp_less_Suc length_dropWhile_le)

lemma lex_number_shorter:
  assumes "lex_number pos s = Inr (t, p, r)" and "s \<noteq> []" and "is_digit (hd s)"
  shows "length r < length s"
proof -
  let ?num = "\<lambda>c. is_digit c \<or> c = CHR ''.''"
  have "r = dropWhile is_letter (dropWhile ?num s)"
    using assms(1) by (auto simp: lex_number_def Let_def result_simps split: option.splits)
  moreover have "length (dropWhile ?num s) < length s"
    using assms(2,3) by (intro length_dropWhile_hd) auto
  ultimately show ?thesis
    by (auto intro: le_less_trans [OF length_dropWhile_le])
qed

lemma lex_token_progress:
  "lex_token pos s = Inr (t, p, r) \<Longrightarrow> t = TEOF \<and> s = [] \<and> r = [] \<or> t \<noteq> TEOF \<and> length r < length s"
proof (cases s)
  case (Cons c cs)
  assume tok: "lex_token pos s = Inr (t, p, r)"
  show ?thesis
  proof (cases "is_digit c \<and> \<not> (c = CHR 0x22 \<or> c = CHR 0x27 \<or> c = CHR ''('' \<or> c = CHR '')''
      \<or> c = CHR ''['' \<or> c = CHR '']'' \<or> c = CHR '','')")
    case True
    then have "lex_number pos s = Inr (t, p, r)" using tok Cons by simp
    moreover from this have "t \<noteq> TEOF"
      by (auto simp: lex_number_def Let_def result_simps split: option.splits)
    ultimately show ?thesis using lex_number_shorter [of pos s t p r] True Cons by simp
  next
    case False
    have "length (dropWhile is_ident_part (c # cs)) < length (c # cs)" if "is_ident_start c"
      using that by (intro length_dropWhile_hd) (auto simp: is_ident_part_def)
    with False tok Cons show ?thesis
      by (auto simp: lex_string_def lex_ident_def Let_def dest: scan_string_shorter
          split: if_splits option.splits list.splits)
  qed
qed simp

lemma lex_next_progress:
  assumes "lex_next pos s = Inr (t, p, r)"
  shows "t = TEOF \<and> r = [] \<or> t \<noteq> TEOF \<and> length r < length s"
proof -
  from lex_token_progress [OF assms [unfolded lex_next_def]] length_dropWhile_le [of is_blank s]
  show ?thesis by linarith
qed

section \<open>The token loop\<close>

function lex_from :: "nat \<Rightarrow> string \<Rightarrow> (lex_error, token list) result" where
  "lex_from pos s =
     rbind (lex_next pos s) (\<lambda>(t, p, r).
       if t = TEOF then Inr [TEOF] else rbind (lex_from p r) (\<lambda>ts. Inr (t # ts)))"
  by pat_completeness auto
termination
  by (relation "measure (\<lambda>(pos, s). length s)") (auto dest: lex_next_progress)

declare lex_from.simps [simp del]

definition lex :: "string \<Rightarrow> (lex_error, token list) result" where
  "lex src = lex_from 0 src"

text \<open>The token list the parser indexes: closed by the only \<open>TEOF\<close>.\<close>

definition closed_tokens :: "token list \<Rightarrow> bool" where
  "closed_tokens ts \<longleftrightarrow> (\<exists>us. ts = us @ [TEOF] \<and> TEOF \<notin> set us)"

lemma closed_tokens_simps [simp]:
  "closed_tokens [TEOF]" "\<not> closed_tokens []"
  "t \<noteq> TEOF \<Longrightarrow> closed_tokens (t # ts) \<longleftrightarrow> closed_tokens ts"
proof -
  show "closed_tokens [TEOF]" "\<not> closed_tokens []"
    by (auto simp: closed_tokens_def)
  assume t: "t \<noteq> TEOF"
  show "closed_tokens (t # ts) \<longleftrightarrow> closed_tokens ts"
  proof
    assume "closed_tokens (t # ts)"
    then obtain us where us: "t # ts = us @ [TEOF]" "TEOF \<notin> set us"
      by (auto simp: closed_tokens_def)
    with t obtain us' where "us = t # us'" by (cases us) auto
    with us show "closed_tokens ts" by (auto simp: closed_tokens_def)
  next
    assume "closed_tokens ts"
    then obtain us where "ts = us @ [TEOF]" "TEOF \<notin> set us" by (auto simp: closed_tokens_def)
    then have "t # ts = (t # us) @ [TEOF] \<and> TEOF \<notin> set (t # us)" using t by simp
    then show "closed_tokens (t # ts)" unfolding closed_tokens_def by blast
  qed
qed

lemma closed_tokens_TEOF [simp]: "closed_tokens (TEOF # ts) \<longleftrightarrow> ts = []"
  by (auto simp: closed_tokens_def Cons_eq_append_conv)

lemma lex_from_closed: "lex_from pos s = Inr ts \<Longrightarrow> closed_tokens ts"
proof (induction pos s arbitrary: ts rule: lex_from.induct)
  case (1 pos s)
  from 1(2) obtain t p r where n: "lex_next pos s = Inr (t, p, r)"
    by (subst (asm) lex_from.simps) (auto simp: result_simps)
  show ?case
  proof (cases "t = TEOF")
    case True
    with n 1(2) show ?thesis by (subst (asm) lex_from.simps) auto
  next
    case False
    with n 1(2) obtain us where "lex_from p r = Inr us" "ts = t # us"
      by (subst (asm) lex_from.simps) (auto simp: result_simps)
    with False 1(1) [OF n] show ?thesis by simp
  qed
qed

lemma lex_closed: "lex s = Inr ts \<Longrightarrow> closed_tokens ts"
  unfolding lex_def by (rule lex_from_closed)

section \<open>Spelling of tokens\<close>

text \<open>
  The lexical grammar, from the user's side: how each token is written. A string literal is
  quoted with its quotes and backslashes escaped; a number is a decimal with an optional
  unit suffix.
\<close>

definition esc_char :: "char \<Rightarrow> string" where
  "esc_char c = (if c = CHR 0x22 \<or> c = CHR 0x5C then [CHR 0x5C, c] else [c])"

definition quoted :: "string \<Rightarrow> string" where
  "quoted s = CHR 0x22 # concat (map esc_char s) @ [CHR 0x22]"

definition ident_word :: "string \<Rightarrow> bool" where
  "ident_word w \<longleftrightarrow> w \<noteq> [] \<and> is_ident_start (hd w) \<and> (\<forall>c \<in> set w. is_ident_part c)"

inductive spells :: "token \<Rightarrow> string \<Rightarrow> bool" where
  spells_ident: "ident_word w \<Longrightarrow> spells (TIdent w) w"
| spells_str: "spells (TStr s) (quoted s)"
| spells_num: "f_of_int (int n) = Fin x \<Longrightarrow> \<forall>c \<in> set suf. is_letter c \<Longrightarrow>
     apply_suffix (Fin x) suf = Inr v \<Longrightarrow> spells (TNum v) (show_nat n @ suf)"
| spells_op2: "w \<in> set two_char_ops \<Longrightarrow> spells (TOp w) w"
| spells_op1: "c \<in> set one_char_ops \<Longrightarrow> spells (TOp [c]) [c]"
| spells_lparen: "spells TLParen ''(''"
| spells_rparen: "spells TRParen '')''"
| spells_lbrack: "spells TLBrack ''[''"
| spells_rbrack: "spells TRBrack '']''"
| spells_comma: "spells TComma '',''"

inductive_cases spells_TEOF: "spells TEOF w"

definition at_blank :: "string \<Rightarrow> bool" where
  "at_blank r \<longleftrightarrow> r = [] \<or> hd r = CHR '' ''"

lemma scan_quoted:
  "scan_string (CHR 0x22) pos (concat (map esc_char s) @ CHR 0x22 # r)
     = Some (s, pos + length (concat (map esc_char s)) + 1, r)"
proof (induction s arbitrary: pos)
  case Nil
  then show ?case by (cases r) simp_all
next
  case (Cons c s)
  show ?case
  proof (cases "c = CHR 0x22 \<or> c = CHR 0x5C")
    case True
    then have "unescape c = c" and "esc_char c = [CHR 0x5C, c]"
      by (auto simp: unescape_def esc_char_def)
    with Cons show ?thesis by simp
  next
    case False
    obtain d cs where "concat (map esc_char s) @ CHR 0x22 # r = d # cs"
      by (cases "concat (map esc_char s) @ CHR 0x22 # r") auto
    moreover have "esc_char c = [c]" using False by (simp add: esc_char_def)
    ultimately show ?thesis using False Cons [of "pos + 1"] by simp
  qed
qed

lemma char_class_blank [simp]:
  "\<not> is_ident_part (CHR '' '')" "\<not> is_letter (CHR '' '')" "\<not> is_digit (CHR '' '')"
  by (simp_all add: is_ident_part_def is_ident_start_def is_letter_def is_digit_def)

lemma takeWhile_at_blank:
  assumes "\<forall>c \<in> set w. P c" and "at_blank r" and "\<not> P (CHR '' '')"
  shows "takeWhile P (w @ r) = w" and "dropWhile P (w @ r) = r"
  using assms by (auto simp: at_blank_def takeWhile_append2 dropWhile_append2 takeWhile_eq_Nil_iff
      dropWhile_id)

lemma is_letter_not: "is_letter c \<Longrightarrow> \<not> is_digit c \<and> c \<noteq> CHR ''.''"
  by (auto simp: is_letter_def is_digit_def)

lemma lex_number_spelled:
  assumes num: "f_of_int (int n) = Fin x" and suf: "\<forall>c \<in> set suf. is_letter c"
    and val: "apply_suffix (Fin x) suf = Inr v" and r: "at_blank r"
  shows "lex_number pos (show_nat n @ suf @ r) = Inr (TNum v, pos + length (show_nat n @ suf), r)"
proof -
  let ?num = "\<lambda>c. is_digit c \<or> c = CHR ''.''"
  have digs: "\<forall>c \<in> set (show_nat n). ?num c" using show_nat_digits by auto
  have stop: "suf @ r = [] \<or> \<not> ?num (hd (suf @ r))"
    using suf r is_letter_not by (cases suf) (auto simp: at_blank_def)
  have num_split: "takeWhile ?num (show_nat n @ suf @ r) = show_nat n"
      "dropWhile ?num (show_nat n @ suf @ r) = suf @ r"
    using digs stop
    by (auto simp: takeWhile_append2 dropWhile_append2 takeWhile_eq_Nil_iff dropWhile_id)
  have suf_split: "takeWhile is_letter (suf @ r) = suf" "dropWhile is_letter (suf @ r) = r"
    using takeWhile_at_blank [of suf is_letter r] suf r by auto
  have no_point: "str_cut (CHR ''.'') (show_nat n) = None"
    using show_nat_digits [of "CHR ''.''" n] by (auto simp: str_cut_None_iff is_digit_def)
  have "parse_float_dec (show_nat n) = Some (Fin x)"
    using num by (simp add: parse_float_dec_def no_point digits_val_show_nat f_of_int_def)
  then show ?thesis
    by (simp add: lex_number_def num_split suf_split val Let_def)
qed

lemma digit_not_delim:
  "is_digit c \<Longrightarrow> c \<noteq> CHR 0x22 \<and> c \<noteq> CHR 0x27 \<and> c \<noteq> CHR ''('' \<and> c \<noteq> CHR '')'' \<and> c \<noteq> CHR ''[''
     \<and> c \<noteq> CHR '']'' \<and> c \<noteq> CHR '','' \<and> \<not> is_blank c"
  by (auto simp: is_digit_def is_blank_def)

lemma ident_not_delim:
  "is_ident_start c \<Longrightarrow> c \<noteq> CHR 0x22 \<and> c \<noteq> CHR 0x27 \<and> c \<noteq> CHR ''('' \<and> c \<noteq> CHR '')'' \<and> c \<noteq> CHR ''[''
     \<and> c \<noteq> CHR '']'' \<and> c \<noteq> CHR '','' \<and> \<not> is_digit c \<and> \<not> is_blank c"
  by (auto simp: is_ident_start_def is_letter_def is_digit_def is_blank_def)

lemma op_not_delim:
  "c \<in> set ''=!<>~&|'' \<Longrightarrow> c \<noteq> CHR 0x22 \<and> c \<noteq> CHR 0x27 \<and> c \<noteq> CHR ''('' \<and> c \<noteq> CHR '')'' \<and> c \<noteq> CHR ''[''
     \<and> c \<noteq> CHR '']'' \<and> c \<noteq> CHR '','' \<and> \<not> is_digit c \<and> \<not> is_ident_start c \<and> \<not> is_blank c"
  by (auto simp: is_digit_def is_ident_start_def is_letter_def is_blank_def)

lemma lex_two_char_op:
  assumes "w \<in> set two_char_ops"
  shows "lex_token pos (w @ r) = Inr (TOp w, pos + length w, r) \<and> w \<noteq> [] \<and> \<not> is_blank (hd w)"
proof -
  obtain c d where w: "w = [c, d]" and c: "c \<in> set ''=!<>~&|''"
    using assms unfolding two_char_ops_def by auto
  show ?thesis using assms op_not_delim [OF c] unfolding w by simp
qed

lemma lex_one_char_op:
  assumes "c \<in> set one_char_ops" and "at_blank r"
  shows "lex_token pos (c # r) = Inr (TOp [c], pos + 1, r) \<and> \<not> is_blank c"
proof -
  have c: "c \<in> set ''=!<>~&|''" using assms(1) by (auto simp: one_char_ops_def)
  have "[c, CHR '' ''] \<notin> set two_char_ops" by (simp add: two_char_ops_def)
  with assms op_not_delim [OF c] show ?thesis
    by (cases r) (auto simp: at_blank_def)
qed

lemma lex_token_spelled:
  assumes "spells t w" and "at_blank r"
  shows "lex_token pos (w @ r) = Inr (t, pos + length w, r) \<and> w \<noteq> [] \<and> \<not> is_blank (hd w)"
  using assms(1)
proof cases
  case spells_ident
  with assms(2) have "lex_ident pos (w @ r) = Inr (t, pos + length w, r)"
    using takeWhile_at_blank [of w is_ident_part r]
    by (simp add: lex_ident_def ident_word_def Let_def)
  with spells_ident show ?thesis
    using ident_not_delim [of "hd w"] by (cases w) (auto simp: ident_word_def)
next
  case (spells_str s)
  then show ?thesis
    using scan_quoted [of "pos + 1" s r]
    by (simp add: quoted_def lex_string_def is_blank_def)
next
  case (spells_num n x suf v)
  then have "lex_number pos (w @ r) = Inr (t, pos + length w, r)"
    using lex_number_spelled [OF spells_num(3,4,5) assms(2), of pos] by simp
  moreover have "is_digit (hd (show_nat n))" by (rule show_nat_digits [of _ n]) simp
  ultimately show ?thesis
    using spells_num(2) digit_not_delim [of "hd (show_nat n)"] show_nat_nonempty [of n]
    by (cases "show_nat n") auto
next
  case spells_op2
  then show ?thesis by (simp add: lex_two_char_op)
next
  case (spells_op1 c)
  then show ?thesis using lex_one_char_op [of c r pos] assms(2) by simp
qed (simp_all add: is_blank_def)

lemma lex_next_spelled:
  "spells t w \<Longrightarrow> at_blank r \<Longrightarrow> lex_next pos (w @ r) = Inr (t, pos + length w, r)"
  using lex_token_spelled [of t w r pos]
  by (cases w) (auto simp: lex_next_def)

lemma lex_next_blank: "lex_next pos (CHR '' '' # s) = lex_next (pos + 1) s"
  by (simp add: lex_next_def is_blank_def)

lemma lex_from_blank: "lex_from pos (CHR '' '' # s) = lex_from (pos + 1) s"
  by (simp add: lex_from.simps lex_next_blank)

lemma lex_from_spelled:
  "list_all2 spells ts ws \<Longrightarrow> lex_from pos (join '' '' ws) = Inr (ts @ [TEOF])"
proof (induction ts ws arbitrary: pos rule: list_all2_induct)
  case Nil
  then show ?case by (simp add: lex_from.simps lex_next_def)
next
  case (Cons t ts w ws)
  have t: "t \<noteq> TEOF" using Cons.hyps(1) by (auto elim: spells_TEOF)
  show ?case
  proof (cases ws)
    case Nil
    with Cons have ts: "ts = []" by simp
    have "lex_next pos w = Inr (t, pos + length w, [])"
      using lex_next_spelled [OF Cons.hyps(1), of "[]" pos] by (simp add: at_blank_def)
    then show ?thesis
      using t Nil ts by (simp add: lex_from.simps [of pos] lex_from.simps [of _ "[]"] lex_next_def)
  next
    case (Cons w' ws')
    let ?r = "CHR '' '' # join '' '' ws"
    have "lex_next pos (w @ ?r) = Inr (t, pos + length w, ?r)"
      using lex_next_spelled [OF Cons.hyps(1), of ?r pos] by (simp add: at_blank_def)
    then show ?thesis
      using t Cons Cons.IH [of "pos + length w + 1"]
      by (simp add: lex_from.simps [of pos] lex_from_blank)
  qed
qed

text \<open>
  Lexing inverts spelling. Any sequence of tokens, each written in one of its spellings
  and separated by a blank, is read back as exactly those tokens followed by the end marker.
\<close>

theorem lex_spelled:
  "list_all2 spells ts ws \<Longrightarrow> lex (join '' '' ws) = Inr (ts @ [TEOF])"
  unfolding lex_def by (rule lex_from_spelled)

theorem lex_spelled_witness:
  "lex ''cpu >= 5 && !'' = Inr [TIdent ''cpu'', TOp ''>='', TNum (Fin 5), TOp ''&&'', TOp ''!'', TEOF]"
proof -
  have five: "f_of_int 5 = Fin 5"
    by (simp add: f_of_int_exact)
  have "spells (TNum (Fin 5)) (show_nat 5 @ [])"
    by (rule spells_num [of 5]) (simp_all add: five apply_suffix_def)
  moreover have "show_nat 5 = ''5''" by code_simp
  ultimately have num: "spells (TNum (Fin 5)) ''5''" by simp
  have "list_all2 spells [TIdent ''cpu'', TOp ''>='', TNum (Fin 5), TOp ''&&'', TOp ''!'']
      [''cpu'', ''>='', ''5'', ''&&'', ''!'']"
    using num
    by (auto intro!: spells_ident spells_op2 spells_op1
        simp: ident_word_def is_ident_part_def is_ident_start_def is_letter_def two_char_ops_def
          one_char_ops_def)
  from lex_spelled [OF this] show ?thesis by simp
qed

end
