(* ===== verification/Expr_Eval.thy ===== *)
theory Expr_Eval
  imports Go_Strings Go_Float
begin

text \<open>
  Values, syntax trees and their evaluation: \<open>internal/expr/value.go\<close>, \<open>ast.go\<close> and
  the field collection of \<open>program.go\<close>. An environment is the \<open>Lookup\<close> method of the
  code's \<open>Env\<close> interface. Regular expressions are the one piece of the language this
  model takes as a parameter: \<open>rx p\<close> is \<open>regexp.Compile(p)\<close>, \<open>None\<close> on an invalid
  pattern, otherwise the matcher; a compiled regexp in the tree is kept as its pattern.
\<close>

section \<open>Values\<close>

datatype val = VMissing | VNum f64 | VStr string | VBool bool | VList "val list"

definition is_missing :: "val \<Rightarrow> bool" where
  "is_missing v \<longleftrightarrow> v = VMissing"

fun truthy :: "val \<Rightarrow> bool" where
  "truthy (VBool b) = b"
| "truthy _ = False"

type_synonym env = "string \<Rightarrow> val"
type_synonym regexp_compile = "string \<Rightarrow> (string \<Rightarrow> bool) option"

section \<open>Syntax trees\<close>

datatype node =
    LitN val
  | ListN "node list"
  | FieldN string
  | NotN node
  | AndN node node
  | OrN node node
  | BoolN node
  | CmpN string node node "string option"
  | FuncN string string

section \<open>Comparison operators\<close>

fun equal_val :: "val \<Rightarrow> val \<Rightarrow> bool" where
  "equal_val (VNum a) (VNum b) = f_eq a b"
| "equal_val (VStr a) (VStr b) = (a = b)"
| "equal_val (VBool a) (VBool b) = (a = b)"
| "equal_val _ _ = False"

definition order_num :: "string \<Rightarrow> f64 \<Rightarrow> f64 \<Rightarrow> bool" where
  "order_num op a b =
     (if op = ''<'' then f_lt a b
      else if op = ''<='' then f_le a b
      else if op = ''>'' then f_lt b a
      else if op = ''>='' then f_le b a
      else False)"

definition order_str :: "string \<Rightarrow> string \<Rightarrow> string \<Rightarrow> bool" where
  "order_str op a b =
     (if op = ''<'' then a < b
      else if op = ''<='' then a \<le> b
      else if op = ''>'' then a > b
      else if op = ''>='' then a \<ge> b
      else False)"

fun compare_order :: "string \<Rightarrow> val \<Rightarrow> val \<Rightarrow> bool" where
  "compare_order op (VNum a) (VNum b) = order_num op a b"
| "compare_order op (VStr a) (VStr b) = order_str op a b"
| "compare_order op _ _ = False"

fun eval_in :: "val \<Rightarrow> val \<Rightarrow> bool" where
  "eval_in needle (VList es) = list_ex (equal_val needle) es"
| "eval_in needle _ = False"

fun eval_contains :: "val \<Rightarrow> val \<Rightarrow> bool" where
  "eval_contains (VStr s) item = (case item of VStr t \<Rightarrow> contains s t | _ \<Rightarrow> False)"
| "eval_contains (VList es) item = eval_in item (VList es)"
| "eval_contains _ item = False"

definition match_regex :: "regexp_compile \<Rightarrow> string option \<Rightarrow> val \<Rightarrow> bool" where
  "match_regex rx re lv =
     (case lv of
        VStr s \<Rightarrow> (case re of
                     None \<Rightarrow> False
                   | Some p \<Rightarrow> (case rx p of None \<Rightarrow> False | Some m \<Rightarrow> m s))
      | _ \<Rightarrow> False)"

definition eval_cmp :: "regexp_compile \<Rightarrow> string \<Rightarrow> string option \<Rightarrow> val \<Rightarrow> val \<Rightarrow> bool" where
  "eval_cmp rx op re lv rv =
     (if op = ''in'' \<or> op = ''not in'' then eval_in lv rv = (op = ''in'')
      else if is_missing lv \<or> is_missing rv then False
      else if op = ''=='' then equal_val lv rv
      else if op = ''!='' then \<not> equal_val lv rv
      else if op \<in> {''<'', ''<='', ''>'', ''>=''} then compare_order op lv rv
      else if op = ''~='' \<or> op = ''!~'' then match_regex rx re lv = (op = ''~='')
      else if op = ''contains'' then eval_contains lv rv
      else False)"

definition eval_func :: "string \<Rightarrow> val \<Rightarrow> bool" where
  "eval_func name v =
     (if name = ''exists'' then \<not> is_missing v
      else if name = ''missing'' then is_missing v
      else False)"

section \<open>Evaluation\<close>

fun eval :: "regexp_compile \<Rightarrow> env \<Rightarrow> node \<Rightarrow> val" where
  "eval rx env (LitN v) = v"
| "eval rx env (ListN es) = VList (map (eval rx env) es)"
| "eval rx env (FieldN f) = env f"
| "eval rx env (NotN x) = VBool (\<not> truthy (eval rx env x))"
| "eval rx env (AndN l r) =
     (if \<not> truthy (eval rx env l) then VBool False else VBool (truthy (eval rx env r)))"
| "eval rx env (OrN l r) =
     (if truthy (eval rx env l) then VBool True else VBool (truthy (eval rx env r)))"
| "eval rx env (BoolN x) = VBool (truthy (eval rx env x))"
| "eval rx env (CmpN op l r re) = VBool (eval_cmp rx op re (eval rx env l) (eval rx env r))"
| "eval rx env (FuncN name f) = VBool (eval_func name (env f))"

text \<open>\<open>collectFields\<close>, in traversal order; the program keeps the sorted set.\<close>

fun collect_fields :: "node \<Rightarrow> string list" where
  "collect_fields (LitN v) = []"
| "collect_fields (ListN es) = concat (map collect_fields es)"
| "collect_fields (FieldN f) = [f]"
| "collect_fields (NotN x) = collect_fields x"
| "collect_fields (AndN l r) = collect_fields l @ collect_fields r"
| "collect_fields (OrN l r) = collect_fields l @ collect_fields r"
| "collect_fields (BoolN x) = collect_fields x"
| "collect_fields (CmpN op l r re) = collect_fields l @ collect_fields r"
| "collect_fields (FuncN name f) = [f]"

section \<open>Facts about evaluation\<close>

lemma truthy_VBool_iff: "truthy v \<longleftrightarrow> v = VBool True"
  by (cases v) auto

lemma eval_fields_cong:
  "\<forall>f \<in> set (collect_fields n). e1 f = e2 f \<Longrightarrow> eval rx e1 n = eval rx e2 n"
  by (induction n) auto

lemma eval_cmp_missing:
  "is_missing lv \<or> is_missing rv \<Longrightarrow> op \<noteq> ''not in'' \<Longrightarrow> \<not> eval_cmp rx op re lv rv"
proof -
  assume miss: "is_missing lv \<or> is_missing rv" and op: "op \<noteq> ''not in''"
  have "\<not> equal_val VMissing v" for v by (cases v) auto
  then have "\<not> list_ex (equal_val VMissing) es" for es by (auto simp: list_ex_iff)
  then have "\<not> eval_in lv rv" if "is_missing lv \<or> is_missing rv"
    using that by (cases rv) (auto simp: is_missing_def)
  with miss op show ?thesis by (auto simp: eval_cmp_def)
qed

text \<open>
  The logical connectives: the boolean reading of a tree is classical, whatever the
  environment says (a missing value reads as false).
\<close>

lemma truthy_not [simp]: "truthy (eval rx env (NotN x)) \<longleftrightarrow> \<not> truthy (eval rx env x)"
  and truthy_and [simp]:
    "truthy (eval rx env (AndN l r)) \<longleftrightarrow> truthy (eval rx env l) \<and> truthy (eval rx env r)"
  and truthy_or [simp]:
    "truthy (eval rx env (OrN l r)) \<longleftrightarrow> truthy (eval rx env l) \<or> truthy (eval rx env r)"
  by auto

end
