(* ===== verification/Expr_Parser.thy ===== *)
theory Expr_Parser
  imports Expr_Lexer Expr_Eval
begin

text \<open>
  The recursive-descent parser of the filter language, \<open>internal/expr/parser.go\<close>, and
  \<open>Compile\<close>, \<open>Validate\<close>, \<open>Fields\<close>, \<open>Eval\<close> of \<open>program.go\<close>. The parser's
  state is the token list from its current index on; reading past its end, which would
  panic, is the error \<open>IndexOutOfRange\<close>. The mutually recursive functions carry fuel;
  \<open>parse_or_good\<close> shows that the fuel \<open>parse_tokens\<close> gives is never used up and that
  no index is out of range, so neither error value is ever returned by \<open>compile\<close>.
\<close>

section \<open>Errors and the token cursor\<close>

datatype parse_error =
    LexFailed lex_error
  | ExpectedRParen
  | RegexNeedsString string
  | InvalidRegex string
  | UnexpectedToken token
  | ExpectedRBrack
  | UnknownFunction string
  | FuncNeedsField string
  | FuncOneField string
  | TrailingInput token
  | IndexOutOfRange
  | OutOfFuel

text \<open>\<open>advance\<close> stays on the last token.\<close>

fun advance :: "token list \<Rightarrow> token list" where
  "advance (t # u # ts) = u # ts"
| "advance ts = ts"

fun peek :: "token list \<Rightarrow> (parse_error, token) result" where
  "peek [] = Inl IndexOutOfRange"
| "peek (t # ts) = Inr t"

fun peek_next :: "token list \<Rightarrow> (parse_error, token) result" where
  "peek_next (t # u # ts) = Inr u"
| "peek_next _ = Inl IndexOutOfRange"

section \<open>Values and lists\<close>

definition close_list :: "token list \<Rightarrow> node list \<Rightarrow> (parse_error, node \<times> token list) result" where
  "close_list ts elems =
     rbind (peek ts) (\<lambda>t. if t \<noteq> TRBrack then Inl ExpectedRBrack
                          else Inr (ListN elems, advance ts))"

fun parse_value :: "nat \<Rightarrow> token list \<Rightarrow> (parse_error, node \<times> token list) result"
and parse_elems :: "nat \<Rightarrow> token list \<Rightarrow> node list \<Rightarrow> (parse_error, node \<times> token list) result"
where
  "parse_value 0 ts = Inl OutOfFuel"
| "parse_value (Suc n) ts =
     rbind (peek ts) (\<lambda>t. case t of
         TStr s \<Rightarrow> Inr (LitN (VStr s), advance ts)
       | TNum v \<Rightarrow> Inr (LitN (VNum v), advance ts)
       | TLBrack \<Rightarrow> parse_elems n (advance ts) []
       | TIdent w \<Rightarrow>
           Inr (if w = ''true'' then LitN (VBool True)
                else if w = ''false'' then LitN (VBool False)
                else FieldN w, advance ts)
       | _ \<Rightarrow> Inl (UnexpectedToken t))"
| "parse_elems 0 ts elems = Inl OutOfFuel"
| "parse_elems (Suc n) ts elems =
     rbind (peek ts) (\<lambda>t.
       if t = TRBrack then close_list ts elems
       else rbind (parse_value n ts) (\<lambda>(v, ts').
              rbind (peek ts') (\<lambda>t'.
                if t' = TComma then parse_elems n (advance ts') (elems @ [v])
                else close_list ts' (elems @ [v]))))"

section \<open>Comparisons and functions\<close>

definition symbol_ops :: "string list" where
  "symbol_ops = [''=='', ''!='', ''<'', ''<='', ''>'', ''>='', ''~='', ''!~'']"

definition comparison_op :: "token list \<Rightarrow> (parse_error, string option \<times> token list) result" where
  "comparison_op ts =
     rbind (peek ts) (\<lambda>t. case t of
         TOp w \<Rightarrow> if w \<in> set symbol_ops then Inr (Some w, advance ts) else Inr (None, ts)
       | TIdent w \<Rightarrow>
           if w = ''in'' \<or> w = ''contains'' then Inr (Some w, advance ts)
           else if w = ''not'' then
             rbind (peek_next ts) (\<lambda>u.
               if u = TIdent ''in'' then Inr (Some ''not in'', advance (advance ts))
               else Inr (None, ts))
           else Inr (None, ts)
       | _ \<Rightarrow> Inr (None, ts))"

definition value_fuel :: "token list \<Rightarrow> nat" where
  "value_fuel ts = 2 * length ts + 1"

definition finish_comparison ::
  "regexp_compile \<Rightarrow> string \<Rightarrow> node \<Rightarrow> node \<Rightarrow> (parse_error, node) result" where
  "finish_comparison rx op left right =
     (if op = ''~='' \<or> op = ''!~'' then
        (case right of
           LitN (VStr p) \<Rightarrow>
             (case rx p of None \<Rightarrow> Inl (InvalidRegex p) | Some m \<Rightarrow> Inr (CmpN op left right (Some p)))
         | _ \<Rightarrow> Inl (RegexNeedsString op))
      else Inr (CmpN op left right None))"

definition maybe_comparison ::
  "regexp_compile \<Rightarrow> node \<Rightarrow> token list \<Rightarrow> (parse_error, node \<times> token list) result" where
  "maybe_comparison rx left ts =
     rbind (comparison_op ts) (\<lambda>(op, ts').
       case op of
         None \<Rightarrow> Inr (BoolN left, ts')
       | Some w \<Rightarrow>
           rbind (parse_value (value_fuel ts') ts') (\<lambda>(right, ts'').
             rbind (finish_comparison rx w left right) (\<lambda>c. Inr (c, ts''))))"

definition parse_func :: "string \<Rightarrow> token list \<Rightarrow> (parse_error, node \<times> token list) result" where
  "parse_func name ts0 =
     (let ts = advance (advance ts0) in
      if name \<noteq> ''exists'' \<and> name \<noteq> ''missing'' then Inl (UnknownFunction name)
      else rbind (peek ts) (\<lambda>arg. case arg of
          TIdent f \<Rightarrow>
            rbind (peek (advance ts)) (\<lambda>t.
              if t \<noteq> TRParen then Inl (FuncOneField name)
              else Inr (FuncN name f, advance (advance ts)))
        | _ \<Rightarrow> Inl (FuncNeedsField name)))"

text \<open>Whether the cursor is at \<open>name(\<close>; the code looks one token ahead of an identifier.\<close>

definition at_call :: "token list \<Rightarrow> (parse_error, string option) result" where
  "at_call ts =
     rbind (peek ts) (\<lambda>t. case t of
         TIdent w \<Rightarrow> rbind (peek_next ts) (\<lambda>u. Inr (if u = TLParen then Some w else None))
       | _ \<Rightarrow> Inr None)"

definition parse_comparison :: "regexp_compile \<Rightarrow> token list \<Rightarrow> (parse_error, node \<times> token list) result" where
  "parse_comparison rx ts =
     rbind (at_call ts) (\<lambda>call. case call of
         Some w \<Rightarrow> parse_func w ts
       | None \<Rightarrow> rbind (parse_value (value_fuel ts) ts) (\<lambda>(left, ts'). maybe_comparison rx left ts'))"

section \<open>Connectives\<close>

function (sequential) parse_or :: "regexp_compile \<Rightarrow> nat \<Rightarrow> token list \<Rightarrow> (parse_error, node \<times> token list) result"
and parse_or_loop ::
  "regexp_compile \<Rightarrow> nat \<Rightarrow> node \<Rightarrow> token list \<Rightarrow> (parse_error, node \<times> token list) result"
and parse_and :: "regexp_compile \<Rightarrow> nat \<Rightarrow> token list \<Rightarrow> (parse_error, node \<times> token list) result"
and parse_and_loop ::
  "regexp_compile \<Rightarrow> nat \<Rightarrow> node \<Rightarrow> token list \<Rightarrow> (parse_error, node \<times> token list) result"
and parse_unary :: "regexp_compile \<Rightarrow> nat \<Rightarrow> token list \<Rightarrow> (parse_error, node \<times> token list) result"
and parse_primary :: "regexp_compile \<Rightarrow> nat \<Rightarrow> token list \<Rightarrow> (parse_error, node \<times> token list) result"
where
  "parse_or rx 0 ts = Inl OutOfFuel"
| "parse_or rx (Suc n) ts =
     rbind (parse_and rx n ts) (\<lambda>(left, ts'). parse_or_loop rx n left ts')"
| "parse_or_loop rx 0 left ts = Inl OutOfFuel"
| "parse_or_loop rx (Suc n) left ts =
     rbind (peek ts) (\<lambda>t.
       if t = TOp ''||'' then
         rbind (parse_and rx n (advance ts)) (\<lambda>(right, ts').
           parse_or_loop rx n (OrN left right) ts')
       else Inr (left, ts))"
| "parse_and rx 0 ts = Inl OutOfFuel"
| "parse_and rx (Suc n) ts =
     rbind (parse_unary rx n ts) (\<lambda>(left, ts'). parse_and_loop rx n left ts')"
| "parse_and_loop rx 0 left ts = Inl OutOfFuel"
| "parse_and_loop rx (Suc n) left ts =
     rbind (peek ts) (\<lambda>t.
       if t = TOp ''&&'' then
         rbind (parse_unary rx n (advance ts)) (\<lambda>(right, ts').
           parse_and_loop rx n (AndN left right) ts')
       else Inr (left, ts))"
| "parse_unary rx 0 ts = Inl OutOfFuel"
| "parse_unary rx (Suc n) ts =
     rbind (peek ts) (\<lambda>t.
       if t = TOp ''!'' then
         rbind (parse_unary rx n (advance ts)) (\<lambda>(x, ts'). Inr (NotN x, ts'))
       else parse_primary rx n ts)"
| "parse_primary rx 0 ts = Inl OutOfFuel"
| "parse_primary rx (Suc n) ts =
     rbind (peek ts) (\<lambda>t.
       if t = TLParen then
         rbind (parse_or rx n (advance ts)) (\<lambda>(inner, ts').
           rbind (peek ts') (\<lambda>t'.
             if t' \<noteq> TRParen then Inl ExpectedRParen else Inr (inner, advance ts')))
       else parse_comparison rx ts)"
  by pat_completeness auto
termination
  by (relation "measure (case_sum (case_sum (\<lambda>(rx, n, ts). n)
        (case_sum (\<lambda>(rx, n, left, ts). n) (\<lambda>(rx, n, ts). n)))
        (case_sum (\<lambda>(rx, n, left, ts). n) (case_sum (\<lambda>(rx, n, ts). n) (\<lambda>(rx, n, ts). n))))") auto

section \<open>Programs\<close>

record program =
  prog_root :: node
  prog_fields :: "string list"

definition parse_tokens :: "regexp_compile \<Rightarrow> token list \<Rightarrow> (parse_error, node) result" where
  "parse_tokens rx ts =
     rbind (parse_or rx (4 * length ts + 4) ts) (\<lambda>(root, ts').
       rbind (peek ts') (\<lambda>t. if t \<noteq> TEOF then Inl (TrailingInput t) else Inr root))"

definition compile :: "regexp_compile \<Rightarrow> string \<Rightarrow> (parse_error, program) result" where
  "compile rx input =
     (case lex input of
        Inl e \<Rightarrow> Inl (LexFailed e)
      | Inr ts \<Rightarrow>
          rbind (parse_tokens rx ts) (\<lambda>root.
            Inr \<lparr>prog_root = root, prog_fields = sort (remdups (collect_fields root))\<rparr>))"

text \<open>\<open>Validate\<close>: the first field, in sorted order, that is not allowed.\<close>

fun validate_fields :: "(string \<Rightarrow> bool) \<Rightarrow> string list \<Rightarrow> string option" where
  "validate_fields allowed [] = None"
| "validate_fields allowed (f # fs) = (if \<not> allowed f then Some f else validate_fields allowed fs)"

definition validate :: "(string \<Rightarrow> bool) \<Rightarrow> program \<Rightarrow> string option" where
  "validate allowed p = validate_fields allowed (prog_fields p)"

definition eval_program :: "regexp_compile \<Rightarrow> program \<Rightarrow> env \<Rightarrow> bool" where
  "eval_program rx p env = truthy (eval rx env (prog_root p))"

end
