(* ===== verification/Expr_Correct.thy ===== *)
theory Expr_Correct
  imports Expr_Parser
begin

text \<open>
  Correctness of the expression language: parsing always returns, never reads past the
  token list and returns well-formed trees only; printing a well-formed tree and compiling
  the text gives the tree back; a compiled program reads exactly the fields it reports.
\<close>

section \<open>The cursor on a closed token list\<close>

lemma closed_tokens_cases:
  assumes "closed_tokens ts"
  obtains (eof) "ts = [TEOF]"
  | (more) t us where "ts = t # us" "t \<noteq> TEOF" "closed_tokens us"
  using assms by (cases ts; cases "hd ts = TEOF") auto

lemma closed_tokens_nonempty: "closed_tokens ts \<Longrightarrow> ts \<noteq> []"
  by auto

lemma advance_closed: "t \<noteq> TEOF \<Longrightarrow> closed_tokens (t # us) \<Longrightarrow> advance (t # us) = us \<and> closed_tokens us"
  by (cases us) auto

text \<open>A parsing step is good when it neither runs out of fuel nor out of tokens, and leaves
  a closed token list shorter than \<open>k\<close>.\<close>

definition good :: "nat \<Rightarrow> (parse_error, 'a \<times> token list) result \<Rightarrow> bool" where
  "good k r \<longleftrightarrow>
     (case r of
        Inl e \<Rightarrow> e \<noteq> OutOfFuel \<and> e \<noteq> IndexOutOfRange
      | Inr (x, ts) \<Rightarrow> closed_tokens ts \<and> length ts < k)"

lemma good_simps [simp]:
  "good k (Inl e) \<longleftrightarrow> e \<noteq> OutOfFuel \<and> e \<noteq> IndexOutOfRange"
  "good k (Inr (x, ts)) \<longleftrightarrow> closed_tokens ts \<and> length ts < k"
  by (simp_all add: good_def)

lemma good_bind:
  assumes "good k r"
    and "\<And>x ts. r = Inr (x, ts) \<Longrightarrow> closed_tokens ts \<Longrightarrow> length ts < k \<Longrightarrow> good j (f (x, ts))"
  shows "good j (rbind r f)"
  using assms by (cases r) auto

lemma good_mono: "good k r \<Longrightarrow> k \<le> j \<Longrightarrow> good j r"
  by (auto simp: good_def split: sum.splits)

lemma good_close_list: "closed_tokens ts \<Longrightarrow> good (Suc (length ts)) (close_list ts es)"
  by (erule closed_tokens_cases) (auto simp: close_list_def dest: advance_closed)

lemma parse_value_good:
  "closed_tokens ts \<Longrightarrow> 2 * length ts \<le> n \<Longrightarrow> good (length ts) (parse_value n ts)"
  and parse_elems_good:
  "closed_tokens ts \<Longrightarrow> 2 * length ts < n \<Longrightarrow> good (Suc (length ts)) (parse_elems n ts es)"
proof (induction n ts and n ts es rule: parse_value_parse_elems.induct)
  case (1 ts)
  then show ?case by (auto dest: closed_tokens_nonempty)
next
  case (2 n ts)
  from "2.prems"(1) show ?case
  proof (cases rule: closed_tokens_cases)
    case (more t us)
    then have adv: "advance ts = us" by (metis advance_closed "2.prems"(1))
    have "good (Suc (length us)) (parse_elems n us [])" if "t = TLBrack"
      using "2.IH" [of t] more adv that "2.prems"(2) by simp
    with more adv show ?thesis by (auto split: token.split intro: good_mono)
  qed simp
next
  case (3 ts es)
  then show ?case by simp
next
  case (4 n ts es)
  obtain t us where ts: "ts = t # us" using "4.prems"(1) by (cases ts) auto
  show ?case
  proof (cases "t = TRBrack")
    case True
    then show ?thesis using ts good_close_list [OF "4.prems"(1)] by simp
  next
    case False
    have "good (length ts) (parse_value n ts)"
      using "4.IH"(1) [of t] ts False "4.prems" by simp
    then have "good (Suc (length ts)) (rbind (parse_value n ts) (\<lambda>(v, ts').
              rbind (peek ts') (\<lambda>t'. if t' = TComma then parse_elems n (advance ts') (es @ [v])
                else close_list ts' (es @ [v]))))"
    proof (rule good_bind, goal_cases)
      case (1 v ts')
      from 1(2) obtain t' us' where ts': "ts' = t' # us'" by (cases ts') auto
      show ?case
      proof (cases "t' = TComma")
        case True
        with 1(2) ts' have us': "advance ts' = us'" "closed_tokens us'"
          using advance_closed [of t' us'] by auto
        have "good (Suc (length us')) (parse_elems n us' (es @ [v]))"
          using "4.IH"(2) [of t "(v, ts')" v ts' t'] ts ts' False True us' 1 "4.prems"(2) by simp
        then show ?thesis using True ts' us' 1(3) by (auto intro: good_mono)
      next
        case False
        then show ?thesis
          using ts' 1(3) good_mono [OF good_close_list [OF 1(2)], of "Suc (length ts)"] by simp
      qed
    qed
    with ts False show ?thesis by simp
  qed
qed


lemma good_value: "closed_tokens ts \<Longrightarrow> good (length ts) (parse_value (value_fuel ts) ts)"
  by (rule parse_value_good) (simp_all add: value_fuel_def)

lemma peek_next_closed: "closed_tokens (t # us) \<Longrightarrow> t \<noteq> TEOF \<Longrightarrow> \<exists>u vs. us = u # vs \<and> peek_next (t # us) = Inr u"
  by (cases us) auto

lemma good_comparison_op:
  assumes "closed_tokens ts"
  shows "good (Suc (length ts)) (comparison_op ts)"
  using assms
proof (cases rule: closed_tokens_cases)
  case (more t us)
  have adv: "advance ts = us" using more advance_closed assms by metis
  show ?thesis
  proof (cases "t = TIdent ''not''")
    case True
    obtain u vs where us: "us = u # vs" using more by (cases us) auto
    have "advance us = vs \<and> closed_tokens vs" if "u = TIdent ''in''"
      using advance_closed [of u vs] more us that by simp
    with True more us adv assms show ?thesis
      by (auto simp: comparison_op_def)
  next
    case False
    with more adv assms show ?thesis
      by (auto simp: comparison_op_def split: token.split)
  qed
qed (simp add: comparison_op_def)

lemma good_finish:
  "closed_tokens ts \<Longrightarrow> length ts < k \<Longrightarrow>
     good k (rbind (finish_comparison rx op l r) (\<lambda>c. Inr (c, ts)))"
  by (cases r; cases "case r of LitN v \<Rightarrow> v | _ \<Rightarrow> VMissing")
    (auto simp: finish_comparison_def split: option.split)

lemma good_maybe_comparison:
  "closed_tokens ts \<Longrightarrow> good (Suc (length ts)) (maybe_comparison rx l ts)"
  unfolding maybe_comparison_def
proof (rule good_bind [OF good_comparison_op])
  fix op ts'
  assume ts': "closed_tokens ts'" "length ts' < Suc (length ts)"
  have "good (Suc (length ts)) (rbind (parse_value (value_fuel ts') ts')
      (\<lambda>(r, us). rbind (finish_comparison rx w l r) (\<lambda>c. Inr (c, us))))" for w
    by (rule good_bind [OF good_value [OF ts'(1)]]) (use ts'(2) in \<open>auto intro: good_finish\<close>)
  with ts' show "good (Suc (length ts)) (case (op, ts') of
      (None, ts') \<Rightarrow> Inr (BoolN l, ts')
    | (Some w, ts') \<Rightarrow> rbind (parse_value (value_fuel ts') ts')
        (\<lambda>(r, us). rbind (finish_comparison rx w l r) (\<lambda>c. Inr (c, us))))"
    by (cases op) auto
qed

lemma good_parse_func:
  assumes "closed_tokens (TIdent w # TLParen # ts)"
  shows "good (length (TIdent w # TLParen # ts)) (parse_func w (TIdent w # TLParen # ts))"
proof -
  have ts: "closed_tokens ts" using assms by simp
  then obtain t us where t: "ts = t # us" by (cases ts) auto
  have adv: "advance (advance (TIdent w # TLParen # ts)) = ts" using t by simp
  show ?thesis
  proof (cases "\<exists>f. t = TIdent f")
    case True
    then obtain u vs where u: "us = u # vs" using ts t by (cases us) auto
    have "closed_tokens vs \<and> vs \<noteq> []" if "u = TRParen"
      using ts t u True that by auto
    moreover have "advance (u # vs) = vs" if "vs \<noteq> []" using that by (cases vs) auto
    ultimately show ?thesis
      using True t u ts by (auto simp: parse_func_def adv Let_def)
  next
    case False
    then show ?thesis by (auto simp: parse_func_def adv t Let_def split: token.split)
  qed
qed

lemma good_parse_comparison:
  assumes "closed_tokens ts"
  shows "good (length ts) (parse_comparison rx ts)"
proof -
  have val: "good (length ts) (rbind (parse_value (value_fuel ts) ts)
      (\<lambda>(left, ts'). maybe_comparison rx left ts'))"
    by (rule good_bind [OF good_value [OF assms]])
      (auto intro: good_mono [OF good_maybe_comparison])
  show ?thesis
    using assms
  proof (cases rule: closed_tokens_cases)
    case eof
    with val show ?thesis by (simp add: parse_comparison_def at_call_def)
  next
    case (more t us)
    then obtain u vs where us: "us = u # vs" by (cases us) auto
    show ?thesis
    proof (cases "\<exists>w. t = TIdent w \<and> u = TLParen")
      case True
      with more us good_parse_func show ?thesis
        using assms by (auto simp: parse_comparison_def at_call_def)
    next
      case False
      then have "at_call ts = Inr None"
        using more us by (auto simp: at_call_def split: token.split)
      with val show ?thesis by (simp add: parse_comparison_def)
    qed
  qed
qed

section \<open>The parser always answers\<close>

lemma peek_closed: "closed_tokens ts \<Longrightarrow> peek ts = Inr (hd ts)"
  by (cases ts) auto

lemma advance_hd:
  "closed_tokens ts \<Longrightarrow> hd ts \<noteq> TEOF \<Longrightarrow> closed_tokens (advance ts) \<and> Suc (length (advance ts)) = length ts"
  by (cases ts) (use advance_closed in force)+

lemma parse_or_good:
  "closed_tokens ts \<Longrightarrow> 4 * length ts + 3 < n \<Longrightarrow> good (length ts) (parse_or rx n ts)"
  and parse_or_loop_good:
  "closed_tokens ts \<Longrightarrow> 4 * length ts < n \<Longrightarrow> good (Suc (length ts)) (parse_or_loop rx n left ts)"
  and parse_and_good:
  "closed_tokens ts \<Longrightarrow> 4 * length ts + 2 < n \<Longrightarrow> good (length ts) (parse_and rx n ts)"
  and parse_and_loop_good:
  "closed_tokens ts \<Longrightarrow> 4 * length ts < n \<Longrightarrow> good (Suc (length ts)) (parse_and_loop rx n left ts)"
  and parse_unary_good:
  "closed_tokens ts \<Longrightarrow> 4 * length ts + 1 < n \<Longrightarrow> good (length ts) (parse_unary rx n ts)"
  and parse_primary_good:
  "closed_tokens ts \<Longrightarrow> 4 * length ts < n \<Longrightarrow> good (length ts) (parse_primary rx n ts)"
proof (induction rx n ts and rx n left ts and rx n ts and rx n left ts and rx n ts and rx n ts
    rule: parse_or_parse_or_loop_parse_and_parse_and_loop_parse_unary_parse_primary.induct)
  case (2 rx n ts)
  show ?case unfolding parse_or.simps
    by (rule good_bind [OF "2.IH"(1)]) (use "2.prems" in \<open>auto intro: good_mono [OF "2.IH"(2)]\<close>)
next
  case (4 rx n left ts)
  note adv = advance_hd [OF "4.prems"(1)]
  have "good (Suc (length ts)) (rbind (parse_and rx n (advance ts))
      (\<lambda>(right, ts'). parse_or_loop rx n (OrN left right) ts'))" if "hd ts = TOp ''||''"
    by (rule good_bind [OF "4.IH"(1)])
      (use "4.prems" adv that in \<open>auto simp: peek_closed intro: good_mono [OF "4.IH"(2)]\<close>)
  with "4.prems" show ?case by (simp add: peek_closed)
next
  case (6 rx n ts)
  show ?case unfolding parse_and.simps
    by (rule good_bind [OF "6.IH"(1)]) (use "6.prems" in \<open>auto intro: good_mono [OF "6.IH"(2)]\<close>)
next
  case (8 rx n left ts)
  note adv = advance_hd [OF "8.prems"(1)]
  have "good (Suc (length ts)) (rbind (parse_unary rx n (advance ts))
      (\<lambda>(right, ts'). parse_and_loop rx n (AndN left right) ts'))" if "hd ts = TOp ''&&''"
    by (rule good_bind [OF "8.IH"(1)])
      (use "8.prems" adv that in \<open>auto simp: peek_closed intro: good_mono [OF "8.IH"(2)]\<close>)
  with "8.prems" show ?case by (simp add: peek_closed)
next
  case (10 rx n ts)
  note adv = advance_hd [OF "10.prems"(1)]
  have "good (length ts) (rbind (parse_unary rx n (advance ts)) (\<lambda>(x, ts'). Inr (NotN x, ts')))"
    if "hd ts = TOp ''!''"
    by (rule good_bind [OF "10.IH"(1)]) (use "10.prems" adv that in \<open>auto simp: peek_closed\<close>)
  with "10.prems" "10.IH"(2) show ?case by (auto simp: peek_closed)
next
  case (12 rx n ts)
  note adv = advance_hd [OF "12.prems"(1)]
  have "good (length ts) (rbind (parse_or rx n (advance ts)) (\<lambda>(inner, ts').
      rbind (peek ts') (\<lambda>t'. if t' \<noteq> TRParen then Inl ExpectedRParen else Inr (inner, advance ts'))))"
    if "hd ts = TLParen"
    by (rule good_bind [OF "12.IH"(1)])
      (use "12.prems" adv that in \<open>auto simp: peek_closed dest: advance_hd\<close>)
  with "12.prems" good_parse_comparison show ?case by (auto simp: peek_closed)
qed auto

text \<open>
  Parsing is total and safe. Whatever the input, \<open>Compile\<close> returns a program or one of
  the code's own errors: the recursive descent never reads past the token list (the code
  would panic) and always returns within the fuel, which bounds the depth of the recursion
  by four calls per token.
\<close>

theorem compile_total:
  "compile rx input \<noteq> Inl IndexOutOfRange \<and> compile rx input \<noteq> Inl OutOfFuel"
proof (cases "lex input")
  case (Inr ts)
  then have cl: "closed_tokens ts" by (rule lex_closed)
  then have "good (length ts) (parse_or rx (4 * length ts + 4) ts)"
    by (rule parse_or_good) simp
  then show ?thesis
    by (cases "parse_or rx (4 * length ts + 4) ts")
      (auto simp: compile_def Inr parse_tokens_def result_simps peek_closed split: if_splits)
qed (simp add: compile_def)

section \<open>Well-formed trees\<close>

definition comparison_words :: "string list" where
  "comparison_words = symbol_ops @ [''in'', ''contains'', ''not in'']"

fun wf_val :: "node \<Rightarrow> bool" where
  "wf_val (LitN (VStr s)) = True"
| "wf_val (LitN (VNum x)) = True"
| "wf_val (LitN (VBool b)) = True"
| "wf_val (FieldN f) = (f \<noteq> ''true'' \<and> f \<noteq> ''false'')"
| "wf_val (ListN es) = list_all wf_val es"
| "wf_val _ = False"

text \<open>A match operator carries the pattern of its right operand, which compiles.\<close>

definition wf_cmp :: "regexp_compile \<Rightarrow> string \<Rightarrow> node \<Rightarrow> string option \<Rightarrow> bool" where
  "wf_cmp rx op r re \<longleftrightarrow>
     op \<in> set comparison_words \<and>
     (if op = ''~='' \<or> op = ''!~'' then (\<exists>p. r = LitN (VStr p) \<and> re = Some p \<and> rx p \<noteq> None)
      else re = None)"

fun wf_node :: "regexp_compile \<Rightarrow> node \<Rightarrow> bool" where
  "wf_node rx (OrN l r) = (wf_node rx l \<and> wf_node rx r)"
| "wf_node rx (AndN l r) = (wf_node rx l \<and> wf_node rx r)"
| "wf_node rx (NotN x) = wf_node rx x"
| "wf_node rx (BoolN x) = wf_val x"
| "wf_node rx (CmpN op l r re) = (wf_val l \<and> wf_val r \<and> wf_cmp rx op r re)"
| "wf_node rx (FuncN g f) = (g = ''exists'' \<or> g = ''missing'')"
| "wf_node rx _ = False"

definition yields :: "('a \<Rightarrow> bool) \<Rightarrow> (parse_error, 'a \<times> token list) result \<Rightarrow> bool" where
  "yields P r \<longleftrightarrow> (\<forall>x ts. r = Inr (x, ts) \<longrightarrow> P x)"

lemma yields_simps [simp]: "yields P (Inl e)" "yields P (Inr (x, ts)) \<longleftrightarrow> P x"
  by (simp_all add: yields_def)

lemma yields_bind:
  assumes "yields P r" and "\<And>x ts. r = Inr (x, ts) \<Longrightarrow> P x \<Longrightarrow> yields Q (f (x, ts))"
  shows "yields Q (rbind r f)"
  using assms by (cases r) (auto simp: yields_def)

lemma yields_peek: "(\<And>t. peek ts = Inr t \<Longrightarrow> yields P (f t)) \<Longrightarrow> yields P (rbind (peek ts) f)"
  by (cases "peek ts") auto

lemma yields_close_list: "list_all wf_val es \<Longrightarrow> yields wf_val (close_list ts es)"
  unfolding close_list_def by (rule yields_peek) simp

lemma parse_value_wf: "yields wf_val (parse_value n ts)"
  and parse_elems_wf: "list_all wf_val es \<Longrightarrow> yields wf_val (parse_elems n ts es)"
proof (induction n ts and n ts es rule: parse_value_parse_elems.induct)
  case (2 n ts)
  show ?case unfolding parse_value.simps
    by (rule yields_peek) (auto split: token.split intro: "2.IH")
next
  case (4 n ts es)
  show ?case unfolding parse_elems.simps
  proof (rule yields_peek, goal_cases)
    case (1 t)
    show ?case
    proof (cases "t = TRBrack")
      case True
      then show ?thesis using "4.prems" by (simp add: yields_close_list)
    next
      case False
      have "yields wf_val (rbind (parse_value n ts) (\<lambda>(v, ts').
              rbind (peek ts') (\<lambda>t'. if t' = TComma then parse_elems n (advance ts') (es @ [v])
                else close_list ts' (es @ [v]))))"
      proof (rule yields_bind [OF "4.IH"(1) [OF 1 False]], clarsimp, rule yields_peek)
        fix v ts' t'
        assume "parse_value n ts = Inr (v, ts')" "wf_val v" "peek ts' = Inr t'"
        with "4.IH"(2) [OF 1 False, of "(v, ts')" v ts' t'] "4.prems"
        show "yields wf_val (if t' = TComma then parse_elems n (advance ts') (es @ [v])
                else close_list ts' (es @ [v]))"
          by (simp add: yields_close_list)
      qed
      with False show ?thesis by simp
    qed
  qed
qed auto

lemma comparison_op_words:
  "yields (\<lambda>op. \<forall>w. op = Some w \<longrightarrow> w \<in> set comparison_words) (comparison_op ts)"
  unfolding comparison_op_def
  by (rule yields_peek)
    (auto simp: comparison_words_def yields_def result_simps split: token.split if_splits)

lemma finish_comparison_wf:
  "wf_val l \<Longrightarrow> wf_val r \<Longrightarrow> w \<in> set comparison_words \<Longrightarrow>
     finish_comparison rx w l r = Inr c \<Longrightarrow> wf_node rx c"
  by (auto simp: finish_comparison_def wf_cmp_def split: if_splits node.splits val.splits option.splits)

lemma maybe_comparison_wf: "wf_val l \<Longrightarrow> yields (wf_node rx) (maybe_comparison rx l ts)"
  unfolding maybe_comparison_def
proof (rule yields_bind [OF comparison_op_words], goal_cases)
  case (1 op ts')
  show ?case
  proof (cases op)
    case (Some w)
    have "yields (wf_node rx) (rbind (parse_value (value_fuel ts') ts')
      (\<lambda>(r, us). rbind (finish_comparison rx w l r) (\<lambda>c. Inr (c, us))))"
      by (rule yields_bind [OF parse_value_wf])
        (use 1 Some in \<open>auto simp: yields_def result_simps dest: finish_comparison_wf\<close>)
    with Some show ?thesis by simp
  qed (use 1 in simp)
qed

lemma parse_comparison_wf: "yields (wf_node rx) (parse_comparison rx ts)"
proof -
  have "yields (wf_node rx) (parse_func w ts)" for w
    by (auto simp: parse_func_def Let_def intro!: yields_peek split: token.split)
  moreover have "yields (wf_node rx) (rbind (parse_value (value_fuel ts) ts)
      (\<lambda>(left, ts'). maybe_comparison rx left ts'))"
    by (rule yields_bind [OF parse_value_wf]) (auto intro: maybe_comparison_wf)
  ultimately show ?thesis
    unfolding parse_comparison_def
    by (cases "at_call ts") (auto split: option.split)
qed

lemma parse_or_wf: "yields (wf_node rx) (parse_or rx n ts)"
  and parse_or_loop_wf: "wf_node rx left \<Longrightarrow> yields (wf_node rx) (parse_or_loop rx n left ts)"
  and parse_and_wf: "yields (wf_node rx) (parse_and rx n ts)"
  and parse_and_loop_wf: "wf_node rx left \<Longrightarrow> yields (wf_node rx) (parse_and_loop rx n left ts)"
  and parse_unary_wf: "yields (wf_node rx) (parse_unary rx n ts)"
  and parse_primary_wf: "yields (wf_node rx) (parse_primary rx n ts)"
proof (induction rx n ts and rx n left ts and rx n ts and rx n left ts and rx n ts and rx n ts
    rule: parse_or_parse_or_loop_parse_and_parse_and_loop_parse_unary_parse_primary.induct)
  case (2 rx n ts)
  show ?case unfolding parse_or.simps
    by (rule yields_bind [OF "2.IH"(1)]) (auto intro: "2.IH"(2))
next
  case (4 rx n left ts)
  have "yields (wf_node rx) (rbind (parse_and rx n (advance ts)) (\<lambda>(right, ts').
           parse_or_loop rx n (OrN left right) ts'))" if "peek ts = Inr (TOp ''||'')"
    by (rule yields_bind [OF "4.IH"(1)]) (use that "4.prems" in \<open>auto intro: "4.IH"(2)\<close>)
  with "4.prems" show ?case unfolding parse_or_loop.simps by (intro yields_peek) auto
next
  case (6 rx n ts)
  show ?case unfolding parse_and.simps
    by (rule yields_bind [OF "6.IH"(1)]) (auto intro: "6.IH"(2))
next
  case (8 rx n left ts)
  have "yields (wf_node rx) (rbind (parse_unary rx n (advance ts)) (\<lambda>(right, ts').
           parse_and_loop rx n (AndN left right) ts'))" if "peek ts = Inr (TOp ''&&'')"
    by (rule yields_bind [OF "8.IH"(1)]) (use that "8.prems" in \<open>auto intro: "8.IH"(2)\<close>)
  with "8.prems" show ?case unfolding parse_and_loop.simps by (intro yields_peek) auto
next
  case (10 rx n ts)
  have "yields (wf_node rx) (rbind (parse_unary rx n (advance ts)) (\<lambda>(x, ts'). Inr (NotN x, ts')))"
    if "peek ts = Inr (TOp ''!'')"
    by (rule yields_bind [OF "10.IH"(1)]) (use that in auto)
  with "10.IH"(2) show ?case unfolding parse_unary.simps by (intro yields_peek) auto
next
  case (12 rx n ts)
  have "yields (wf_node rx) (rbind (parse_or rx n (advance ts)) (\<lambda>(inner, ts').
      rbind (peek ts') (\<lambda>t'. if t' \<noteq> TRParen then Inl ExpectedRParen else Inr (inner, advance ts'))))"
    if "peek ts = Inr TLParen"
    by (rule yields_bind [OF "12.IH"]) (use that in \<open>auto intro: yields_peek\<close>)
  with parse_comparison_wf show ?case unfolding parse_primary.simps by (intro yields_peek) auto
qed auto

lemma parse_tokens_wf: "parse_tokens rx ts = Inr e \<Longrightarrow> wf_node rx e"
  using parse_or_wf [of rx "4 * length ts + 4" ts]
  by (auto simp: parse_tokens_def yields_def result_simps split: if_splits)

lemma compile_wf: "compile rx input = Inr p \<Longrightarrow> wf_node rx (prog_root p)"
  by (auto simp: compile_def result_simps dest: parse_tokens_wf split: sum.splits)

section \<open>Printing\<close>

text \<open>The tokens of a tree, with the parentheses its precedence needs.\<close>

fun print_val :: "node \<Rightarrow> token list" and print_vals :: "node list \<Rightarrow> token list" where
  "print_val (LitN (VStr s)) = [TStr s]"
| "print_val (LitN (VNum x)) = [TNum x]"
| "print_val (LitN (VBool b)) = [TIdent (if b then ''true'' else ''false'')]"
| "print_val (FieldN f) = [TIdent f]"
| "print_val (ListN es) = TLBrack # print_vals es @ [TRBrack]"
| "print_val _ = []"
| "print_vals [] = []"
| "print_vals [v] = print_val v"
| "print_vals (v # vs) = print_val v @ TComma # print_vals vs"

definition op_tokens :: "string \<Rightarrow> token list" where
  "op_tokens op =
     (if op = ''not in'' then [TIdent ''not'', TIdent ''in'']
      else if op = ''in'' \<or> op = ''contains'' then [TIdent op]
      else [TOp op])"

definition parens :: "bool \<Rightarrow> token list \<Rightarrow> token list" where
  "parens b ts = (if b then TLParen # ts @ [TRParen] else ts)"

fun print_node :: "nat \<Rightarrow> node \<Rightarrow> token list" where
  "print_node p (OrN l r) = parens (p > 0) (print_node 0 l @ TOp ''||'' # print_node 1 r)"
| "print_node p (AndN l r) = parens (p > 1) (print_node 1 l @ TOp ''&&'' # print_node 2 r)"
| "print_node p (NotN x) = TOp ''!'' # print_node 2 x"
| "print_node p (BoolN x) = print_val x"
| "print_node p (CmpN op l r re) = print_val l @ op_tokens op @ print_val r"
| "print_node p (FuncN g f) = [TIdent g, TLParen, TIdent f, TRParen]"
| "print_node p _ = []"

lemma advance_Cons [simp]: "ts \<noteq> [] \<Longrightarrow> advance (t # ts) = ts"
  by (cases ts) auto

lemma parse_value_print:
  "wf_val v \<Longrightarrow> rest \<noteq> [] \<Longrightarrow> 2 * length (print_val v) \<le> n \<Longrightarrow>
     parse_value n (print_val v @ rest) = Inr (v, rest)"
  and parse_elems_print:
  "list_all wf_val vs \<Longrightarrow> rest \<noteq> [] \<Longrightarrow> 2 * length (print_vals vs) < n \<Longrightarrow>
     parse_elems n (print_vals vs @ TRBrack # rest) es = Inr (ListN (es @ vs), rest)"
proof (induction v and vs arbitrary: n rest and n rest es rule: print_val_print_vals.induct)
  case (5 vs)
  then obtain m where m: "n = Suc m" by (cases n) auto
  with 5 show ?case by simp
next
  case 7
  then obtain m where "n = Suc m" by (cases n) auto
  with 7 show ?case by (simp add: close_list_def)
next
  case (8 v)
  then obtain m where m: "n = Suc m" by (cases n) auto
  have "parse_value m (print_val v @ TRBrack # rest) = Inr (v, TRBrack # rest)"
    by (rule "8.IH") (use 8 m in auto)
  moreover have "\<exists>t us. print_val v = t # us \<and> t \<noteq> TRBrack"
    using "8.prems"(1) by (cases v rule: wf_val.cases) auto
  ultimately show ?case using m 8(3) by (auto simp: close_list_def)
next
  case (9 v w vs)
  then obtain m where m: "n = Suc m" by (cases n) auto
  let ?tail = "TComma # print_vals (w # vs) @ TRBrack # rest"
  have "parse_value m (print_val v @ ?tail) = Inr (v, ?tail)"
    by (rule "9.IH"(1)) (use 9 m in auto)
  moreover have "parse_elems m (print_vals (w # vs) @ TRBrack # rest) (es @ [v])
      = Inr (ListN ((es @ [v]) @ (w # vs)), rest)"
    by (rule "9.IH"(2)) (use 9 m in auto)
  moreover have "\<exists>t us. print_val v = t # us \<and> t \<noteq> TRBrack"
    using "9.prems"(1) by (cases v rule: wf_val.cases) auto
  ultimately show ?case using m by auto
qed (auto simp: numeral_2_eq_2 dest!: Suc_le_D)

lemma parse_value_printed:
  "wf_val v \<Longrightarrow> rest \<noteq> [] \<Longrightarrow>
     parse_value (value_fuel (print_val v @ rest)) (print_val v @ rest) = Inr (v, rest)"
  by (rule parse_value_print) (auto simp: value_fuel_def)

text \<open>What may follow a comparison.\<close>

definition ends :: "token list \<Rightarrow> bool" where
  "ends rest \<longleftrightarrow> rest \<noteq> [] \<and> hd rest \<in> {TEOF, TRParen, TOp ''||'', TOp ''&&''}"

lemma ends_nonempty: "ends rest \<Longrightarrow> rest \<noteq> []"
  by (simp add: ends_def)

lemma comparison_op_none: "ends rest \<Longrightarrow> comparison_op rest = Inr (None, rest)"
  by (cases rest) (auto simp: ends_def comparison_op_def symbol_ops_def)

lemma comparison_op_print:
  "op \<in> set comparison_words \<Longrightarrow> rest \<noteq> [] \<Longrightarrow> comparison_op (op_tokens op @ rest) = Inr (Some op, rest)"
  by (auto simp: comparison_words_def symbol_ops_def op_tokens_def comparison_op_def)

lemma print_val_head:
  "wf_val v \<Longrightarrow> \<exists>t us. print_val v = t # us \<and> (\<forall>w. t = TIdent w \<longrightarrow> us = [])
      \<and> t \<noteq> TLParen \<and> t \<noteq> TOp ''!''"
  by (cases v rule: wf_val.cases) auto

lemma at_call_val:
  assumes "wf_val v" and "rest \<noteq> []" and "hd rest \<noteq> TLParen"
  shows "at_call (print_val v @ rest) = Inr None"
  using print_val_head [OF assms(1)] assms(2,3)
  by (cases rest) (auto simp: at_call_def split: token.split)

lemma op_tokens_head: "op \<in> set comparison_words \<Longrightarrow> op_tokens op @ ts \<noteq> [] \<and> hd (op_tokens op @ ts) \<noteq> TLParen"
  by (auto simp: op_tokens_def)

lemma ends_not_lparen: "ends rest \<Longrightarrow> hd rest \<noteq> TLParen"
  by (auto simp: ends_def)

lemma parse_comparison_bool:
  assumes "wf_val v" and "ends rest"
  shows "parse_comparison rx (print_val v @ rest) = Inr (BoolN v, rest)"
  using assms at_call_val [OF assms(1) ends_nonempty ends_not_lparen] parse_value_printed
  by (simp add: parse_comparison_def maybe_comparison_def comparison_op_none ends_nonempty)

lemma parse_comparison_cmp:
  assumes "wf_val l" and "wf_val r" and "wf_cmp rx op r re" and "rest \<noteq> []"
  shows "parse_comparison rx (print_val l @ op_tokens op @ print_val r @ rest) = Inr (CmpN op l r re, rest)"
proof -
  have op: "op \<in> set comparison_words" using assms(3) by (simp add: wf_cmp_def)
  have "finish_comparison rx op l r = Inr (CmpN op l r re)"
    using assms(3) by (auto simp: wf_cmp_def finish_comparison_def split: if_splits)
  then show ?thesis
    using assms op_tokens_head [OF op, of "print_val r @ rest"]
      at_call_val [OF assms(1), of "op_tokens op @ print_val r @ rest"]
      comparison_op_print [OF op, of "print_val r @ rest"]
      parse_value_printed [OF assms(1), of "op_tokens op @ print_val r @ rest"]
      parse_value_printed [OF assms(2,4)]
    by (simp add: parse_comparison_def maybe_comparison_def)
qed

lemma parse_comparison_func:
  "g = ''exists'' \<or> g = ''missing'' \<Longrightarrow> rest \<noteq> [] \<Longrightarrow>
     parse_comparison rx (TIdent g # TLParen # TIdent f # TRParen # rest) = Inr (FuncN g f, rest)"
  by (auto simp: parse_comparison_def at_call_def parse_func_def Let_def)

text \<open>
  The three levels of the grammar, together: a tree printed at a level and followed by
  anything that ends it is parsed back by that level's function. For the left-associative
  levels the function is left in its loop, with the tree as the accumulator.
\<close>

definition parses_unary :: "regexp_compile \<Rightarrow> node \<Rightarrow> bool" where
  "parses_unary rx e \<longleftrightarrow>
     (\<forall>n rest. ends rest \<longrightarrow> 4 * length (print_node 2 e @ rest) + 1 < n \<longrightarrow>
        parse_unary rx n (print_node 2 e @ rest) = Inr (e, rest))"

definition parses_and :: "regexp_compile \<Rightarrow> node \<Rightarrow> bool" where
  "parses_and rx e \<longleftrightarrow>
     (\<forall>n rest. ends rest \<longrightarrow> 4 * length (print_node 1 e @ rest) + 2 < n \<longrightarrow>
        (\<exists>m > 4 * length rest. parse_and rx n (print_node 1 e @ rest) = parse_and_loop rx m e rest))"

definition parses_or :: "regexp_compile \<Rightarrow> node \<Rightarrow> bool" where
  "parses_or rx e \<longleftrightarrow>
     (\<forall>n rest. ends rest \<longrightarrow> hd rest \<noteq> TOp ''&&'' \<longrightarrow> 4 * length (print_node 0 e @ rest) + 3 < n \<longrightarrow>
        (\<exists>m > 4 * length rest. parse_or rx n (print_node 0 e @ rest) = parse_or_loop rx m e rest))"

lemma parse_and_loop_stop:
  "ts \<noteq> [] \<Longrightarrow> hd ts \<noteq> TOp ''&&'' \<Longrightarrow> 0 < m \<Longrightarrow> parse_and_loop rx m e ts = Inr (e, ts)"
  by (cases ts; cases m) auto

lemma parse_or_loop_stop:
  "ts \<noteq> [] \<Longrightarrow> hd ts \<noteq> TOp ''||'' \<Longrightarrow> 0 < m \<Longrightarrow> parse_or_loop rx m e ts = Inr (e, ts)"
  by (cases ts; cases m) auto

lemma parses_andD:
  "parses_and rx e \<Longrightarrow> ends rest \<Longrightarrow> 4 * length (print_node 1 e @ rest) + 2 < n \<Longrightarrow>
     \<exists>m > 4 * length rest. parse_and rx n (print_node 1 e @ rest) = parse_and_loop rx m e rest"
  unfolding parses_and_def by blast

lemma parses_orD:
  "parses_or rx e \<Longrightarrow> ends rest \<Longrightarrow> hd rest \<noteq> TOp ''&&'' \<Longrightarrow>
     4 * length (print_node 0 e @ rest) + 3 < n \<Longrightarrow>
     \<exists>m > 4 * length rest. parse_or rx n (print_node 0 e @ rest) = parse_or_loop rx m e rest"
  unfolding parses_or_def by blast

lemma parses_andI_unary:
  assumes "parses_unary rx e" and "print_node 1 e = print_node 2 e"
  shows "parses_and rx e"
  unfolding parses_and_def
proof (intro allI impI)
  fix n rest
  assume "ends rest" and n: "4 * length (print_node 1 e @ rest) + 2 < n"
  then obtain m where m: "n = Suc m" by (cases n) auto
  with assms n \<open>ends rest\<close> have "parse_unary rx m (print_node 1 e @ rest) = Inr (e, rest)"
    by (simp add: parses_unary_def)
  with m n show "\<exists>m > 4 * length rest.
      parse_and rx n (print_node 1 e @ rest) = parse_and_loop rx m e rest"
    by (intro exI [of _ m]) simp
qed

lemma parses_orI_and:
  assumes "parses_and rx e" and "print_node 0 e = print_node 1 e"
  shows "parses_or rx e"
  unfolding parses_or_def
proof (intro allI impI)
  fix n rest
  assume ends: "ends rest" "hd rest \<noteq> TOp ''&&''" and n: "4 * length (print_node 0 e @ rest) + 3 < n"
  then obtain m where m: "n = Suc m" by (cases n) auto
  with assms n ends obtain k where "k > 4 * length rest"
      "parse_and rx m (print_node 0 e @ rest) = parse_and_loop rx k e rest"
    unfolding parses_and_def by force
  with ends have "parse_and rx m (print_node 0 e @ rest) = Inr (e, rest)"
    by (simp add: parse_and_loop_stop ends_nonempty)
  with m n show "\<exists>m > 4 * length rest.
      parse_or rx n (print_node 0 e @ rest) = parse_or_loop rx m e rest"
    by (intro exI [of _ m]) simp
qed

lemma parse_or_closed_paren:
  assumes "parses_or rx e" and "4 * length (print_node 0 e @ TRParen # rest) + 3 < n"
  shows "parse_or rx n (print_node 0 e @ TRParen # rest) = Inr (e, TRParen # rest)"
proof -
  have "ends (TRParen # rest)" by (simp add: ends_def)
  with assms obtain m where "m > 4 * length (TRParen # rest)"
      "parse_or rx n (print_node 0 e @ TRParen # rest) = parse_or_loop rx m e (TRParen # rest)"
    unfolding parses_or_def by force
  then show ?thesis by (simp add: parse_or_loop_stop)
qed

lemma parses_unaryI_paren:
  assumes "parses_or rx e" and pr: "print_node 2 e = TLParen # print_node 0 e @ [TRParen]"
  shows "parses_unary rx e"
  unfolding parses_unary_def
proof (intro allI impI)
  fix n rest
  assume "ends rest" and n: "4 * length (print_node 2 e @ rest) + 1 < n"
  then obtain m where m: "n = Suc (Suc m)" by (cases n; cases "n - 1") auto
  with n have "parse_or rx m (print_node 0 e @ TRParen # rest) = Inr (e, TRParen # rest)"
    by (intro parse_or_closed_paren [OF assms(1)]) (simp add: pr)
  with m show "parse_unary rx n (print_node 2 e @ rest) = Inr (e, rest)"
    by (simp add: pr ends_nonempty [OF \<open>ends rest\<close>])
qed

lemma parses_unary_not: "parses_unary rx x \<Longrightarrow> parses_unary rx (NotN x)"
  unfolding parses_unary_def
proof (intro allI impI)
  fix n rest
  assume x: "\<forall>n rest. ends rest \<longrightarrow> 4 * length (print_node 2 x @ rest) + 1 < n \<longrightarrow>
        parse_unary rx n (print_node 2 x @ rest) = Inr (x, rest)"
    and e: "ends rest" and n: "4 * length (print_node 2 (NotN x) @ rest) + 1 < n"
  then obtain m where m: "n = Suc m" by (cases n) auto
  from x e n m show "parse_unary rx n (print_node 2 (NotN x) @ rest) = Inr (NotN x, rest)"
    by (simp add: ends_nonempty [OF e])
qed

lemma parses_unary_comparison:
  assumes "\<And>rest. ends rest \<Longrightarrow> parse_comparison rx (print_node 2 e @ rest) = Inr (e, rest)"
    and head: "\<exists>t us. print_node 2 e = t # us \<and> t \<noteq> TLParen \<and> t \<noteq> TOp ''!''"
  shows "parses_unary rx e"
  unfolding parses_unary_def
proof (intro allI impI)
  fix n rest
  assume e: "ends rest" and n: "4 * length (print_node 2 e @ rest) + 1 < n"
  then obtain m where m: "n = Suc (Suc m)" by (cases n; cases "n - 1") auto
  from head obtain t us where "print_node 2 e = t # us" "t \<noteq> TLParen" "t \<noteq> TOp ''!''" by blast
  with assms(1) [OF e] m show "parse_unary rx n (print_node 2 e @ rest) = Inr (e, rest)"
    by simp
qed

lemma parses_and_AndN:
  assumes "parses_and rx l" and "parses_unary rx r"
  shows "parses_and rx (AndN l r)"
  unfolding parses_and_def
proof (intro allI impI)
  fix n rest
  let ?tail = "TOp ''&&'' # print_node 2 r @ rest"
  assume e: "ends rest" and n: "4 * length (print_node 1 (AndN l r) @ rest) + 2 < n"
  have "ends ?tail" by (simp add: ends_def)
  with n obtain m where m: "m > 4 * length ?tail"
      "parse_and rx n (print_node 1 l @ ?tail) = parse_and_loop rx m l ?tail"
    using parses_andD [OF assms(1), of ?tail n] by (auto simp: parens_def)
  then obtain k where k: "m = Suc k" by (cases m) auto
  with m e assms(2) have "parse_unary rx k (print_node 2 r @ rest) = Inr (r, rest)"
    unfolding parses_unary_def by simp
  with m k e show "\<exists>m > 4 * length rest.
      parse_and rx n (print_node 1 (AndN l r) @ rest) = parse_and_loop rx m (AndN l r) rest"
    by (intro exI [of _ k]) (simp add: parens_def ends_nonempty)
qed

lemma parses_or_OrN:
  assumes "parses_or rx l" and "parses_and rx r"
  shows "parses_or rx (OrN l r)"
  unfolding parses_or_def
proof (intro allI impI)
  fix n rest
  let ?tail = "TOp ''||'' # print_node 1 r @ rest"
  assume e: "ends rest" "hd rest \<noteq> TOp ''&&''"
    and n: "4 * length (print_node 0 (OrN l r) @ rest) + 3 < n"
  have "ends ?tail" "hd ?tail \<noteq> TOp ''&&''" by (simp_all add: ends_def)
  with n obtain m where m: "m > 4 * length ?tail"
      "parse_or rx n (print_node 0 l @ ?tail) = parse_or_loop rx m l ?tail"
    using parses_orD [OF assms(1), of ?tail n] by (auto simp: parens_def)
  then obtain k where k: "m = Suc k" by (cases m) auto
  with m obtain j where "j > 4 * length rest"
      "parse_and rx k (print_node 1 r @ rest) = parse_and_loop rx j r rest"
    using parses_andD [OF assms(2) e(1), of k] by auto
  with e have "parse_and rx k (print_node 1 r @ rest) = Inr (r, rest)"
    by (simp add: parse_and_loop_stop ends_nonempty)
  with m k e show "\<exists>m > 4 * length rest.
      parse_or rx n (print_node 0 (OrN l r) @ rest) = parse_or_loop rx m (OrN l r) rest"
    by (intro exI [of _ k]) (simp add: parens_def ends_nonempty)
qed

lemma parses_allI_unary:
  "parses_unary rx e \<Longrightarrow> print_node 1 e = print_node 2 e \<Longrightarrow> print_node 0 e = print_node 1 e \<Longrightarrow>
     parses_unary rx e \<and> parses_and rx e \<and> parses_or rx e"
  using parses_andI_unary parses_orI_and by blast

lemma parses_levels:
  "wf_node rx e \<Longrightarrow> parses_unary rx e \<and> parses_and rx e \<and> parses_or rx e"
proof (induction e)
  case (NotN x)
  then have "parses_unary rx (NotN x)" by (simp add: parses_unary_not)
  then show ?case by (rule parses_allI_unary) simp_all
next
  case (AndN l r)
  then have "parses_and rx (AndN l r)" by (simp add: parses_and_AndN)
  moreover from this have "parses_or rx (AndN l r)"
    by (rule parses_orI_and) (simp add: parens_def)
  ultimately show ?case by (auto intro: parses_unaryI_paren simp: parens_def)
next
  case (OrN l r)
  then have "parses_or rx (OrN l r)" by (simp add: parses_or_OrN)
  moreover from this have "parses_unary rx (OrN l r)"
    by (rule parses_unaryI_paren) (simp add: parens_def)
  ultimately show ?case by (auto intro: parses_andI_unary simp: parens_def)
next
  case (BoolN x)
  then have x: "wf_val x" by simp
  have "parses_unary rx (BoolN x)"
    by (rule parses_unary_comparison)
      (simp add: parse_comparison_bool [OF x], use print_val_head [OF x] in auto)
  then show ?case by (rule parses_allI_unary) simp_all
next
  case (CmpN op l r re)
  then have l: "wf_val l" and r: "wf_val r" and re: "wf_cmp rx op r re" by simp_all
  have "parses_unary rx (CmpN op l r re)"
    by (rule parses_unary_comparison)
      (simp add: parse_comparison_cmp [OF l r re] ends_nonempty, use print_val_head [OF l] in auto)
  then show ?case by (rule parses_allI_unary) simp_all
next
  case (FuncN g f)
  then have "parses_unary rx (FuncN g f)"
    by (auto intro!: parses_unary_comparison parse_comparison_func ends_nonempty)
  then show ?case by (rule parses_allI_unary) simp_all
qed auto

lemma parse_tokens_print:
  assumes "wf_node rx e"
  shows "parse_tokens rx (print_node 0 e @ [TEOF]) = Inr e"
proof -
  have ends: "ends [TEOF]" by (simp add: ends_def)
  have "4 * length (print_node 0 e @ [TEOF]) + 3 < 4 * length (print_node 0 e @ [TEOF]) + 4"
    by simp
  with parses_levels [OF assms] ends obtain m where "m > 4 * length [TEOF]"
      "parse_or rx (4 * length (print_node 0 e @ [TEOF]) + 4) (print_node 0 e @ [TEOF])
        = parse_or_loop rx m e [TEOF]"
    unfolding parses_or_def by (metis list.sel(1) token.distinct(7))
  then show ?thesis by (simp add: parse_tokens_def parse_or_loop_stop)
qed

text \<open>
  C34: the round trip of the filter language. Take any well-formed tree (these are exactly
  the trees the parser produces), print its tokens with the parentheses precedence needs,
  write each token in one of its spellings, separated by blanks: compiling that text gives
  the same tree back, with its fields sorted and without duplicates.
\<close>

theorem compile_print:
  assumes "wf_node rx e" and "list_all2 spells (print_node 0 e) ws"
  shows "compile rx (join '' '' ws)
    = Inr \<lparr>prog_root = e, prog_fields = sort (remdups (collect_fields e))\<rparr>"
  using lex_from_spelled [OF assms(2), of 0] parse_tokens_print [OF assms(1)]
  by (simp add: compile_def lex_def)

theorem compile_print_witness:
  "compile (\<lambda>_. None) ''! ( cpu || exists ( rss ) )''
     = Inr \<lparr>prog_root = NotN (OrN (BoolN (FieldN ''cpu'')) (FuncN ''exists'' ''rss'')),
            prog_fields = [''cpu'', ''rss'']\<rparr>"
proof -
  let ?e = "NotN (OrN (BoolN (FieldN ''cpu'')) (FuncN ''exists'' ''rss''))"
  have "list_all2 spells (print_node 0 ?e)
      [''!'', ''('', ''cpu'', ''||'', ''exists'', ''('', ''rss'', '')'', '')'']"
    by (auto simp: parens_def ident_word_def is_ident_part_def is_ident_start_def is_letter_def
        two_char_ops_def one_char_ops_def
        intro!: spells_ident spells_op2 spells_op1 spells_lparen spells_rparen)
  moreover have "wf_node (\<lambda>_. None) ?e" by simp
  ultimately show ?thesis
    using compile_print [of "\<lambda>_. None" ?e
        "[''!'', ''('', ''cpu'', ''||'', ''exists'', ''('', ''rss'', '')'', '')'']"]
    by (simp del: print_node.simps)
qed

text \<open>
  C35: what \<open>Compile\<close> returns. The tree is well-formed (every operator is one of the
  language, every match operator carries a pattern that compiles; \<open>true\<close> and \<open>false\<close> as operands are
  literals and not fields, while the argument of \<open>exists\<close> and \<open>missing\<close> is a field whatever its name), the reported fields are sorted, without duplicates, and the
  program's value depends on the environment through those fields only.
\<close>

theorem compile_sound:
  assumes "compile rx input = Inr p"
  shows "wf_node rx (prog_root p)
    \<and> sorted (prog_fields p) \<and> distinct (prog_fields p)
    \<and> (\<forall>e1 e2. (\<forall>f \<in> set (prog_fields p). e1 f = e2 f)
          \<longrightarrow> eval_program rx p e1 = eval_program rx p e2)"
proof -
  have f: "prog_fields p = sort (remdups (collect_fields (prog_root p)))"
    using assms by (auto simp: compile_def result_simps split: sum.splits)
  then have "\<forall>e1 e2. (\<forall>f \<in> set (prog_fields p). e1 f = e2 f)
      \<longrightarrow> eval_program rx p e1 = eval_program rx p e2"
    using eval_fields_cong [of "prog_root p" _ _ rx]
    unfolding eval_program_def by (metis set_remdups set_sort)
  with compile_wf [OF assms] show ?thesis by (simp add: f)
qed

text \<open>
  Missing values. When an operand of a comparison is missing the comparison is false,
  \<open>!=\<close> included, with one exception in the code: \<open>not in\<close> is true. The functions
  \<open>exists\<close> and \<open>missing\<close> are the two ways to ask, and exactly one of them holds.
\<close>

theorem missing_operand:
  assumes "is_missing (eval rx env l) \<or> is_missing (eval rx env r)"
  shows "truthy (eval rx env (CmpN op l r re)) \<longleftrightarrow> op = ''not in''"
proof -
  have no_eq: "\<not> equal_val VMissing v" for v by (cases v) auto
  have "\<not> eval_in VMissing v" for v by (cases v) (auto simp: list_ex_iff no_eq)
  then have "\<not> eval_in (eval rx env l) (eval rx env r)"
    using assms by (auto simp: is_missing_def)
  with assms show ?thesis by (auto simp: eval_cmp_def)
qed

theorem missing_operand_witness:
  "\<not> truthy (eval (\<lambda>_. None) (\<lambda>_. VMissing) (CmpN ''!='' (FieldN ''cpu'') (LitN (VNum (Fin 1))) None))
   \<and> truthy (eval (\<lambda>_. None) (\<lambda>_. VMissing) (CmpN ''not in'' (FieldN ''cpu'') (ListN []) None))"
  using missing_operand [of "\<lambda>_. None" "\<lambda>_. VMissing" "FieldN ''cpu''" "LitN (VNum (Fin 1))" "''!=''" None]
    missing_operand [of "\<lambda>_. None" "\<lambda>_. VMissing" "FieldN ''cpu''" "ListN []" "''not in''" None]
  by (simp add: is_missing_def)

theorem compile_sound_witness:
  "wf_node (\<lambda>_. None) (prog_root \<lparr>prog_root = BoolN (FieldN ''cpu''), prog_fields = [''cpu'']\<rparr>)"
proof -
  have "compile (\<lambda>_. None) (join '' '' [''cpu''])
      = Inr \<lparr>prog_root = BoolN (FieldN ''cpu''), prog_fields = [''cpu'']\<rparr>"
    using lex_from_spelled [of "[TIdent ''cpu'']" "[''cpu'']" 0]
      parse_tokens_print [of "\<lambda>_. None" "BoolN (FieldN ''cpu'')"]
    by (simp add: compile_def lex_def spells_ident ident_word_def is_ident_part_def
        is_ident_start_def is_letter_def)
  from compile_sound [OF this] show ?thesis by simp
qed

end
