(* ===== verification/Model_Core.thy ===== *)
theory Model_Core
  imports Go_Strings Go_Float
begin

text \<open>
  The domain model, \<open>internal/model\<close>: readings that carry their availability, the identity
  of a process instance, namespace sets, display names, and the normalised process. Go
  strings that enumerate a few constants are datatypes, with a constructor for the zero
  value \<open>""\<close> where the code can see it.
\<close>

section \<open>Readings (\<open>value.go\<close>)\<close>

datatype availability =
    AvUnset | Available | WarmingUp | Disabled | Unsupported | PermissionDenied | Vanished | ReadError

fun av_valid :: "availability \<Rightarrow> bool" where
  "av_valid AvUnset = False"
| "av_valid _ = True"

datatype quality = QUnset | Exact | Sampled | Estimated | Derived | Mixed

record 'a reading =
  rd_value :: 'a
  rd_avail :: availability
  rd_quality :: quality
  rd_source :: string

type_synonym metric_value = "f64 reading"
type_synonym metric_id = string

definition present :: "'a reading \<Rightarrow> bool" where
  "present v \<longleftrightarrow> rd_avail v = Available"

text \<open>\<open>Get\<close>: the payload, only where it is present.\<close>

definition get_reading :: "'a reading \<Rightarrow> 'a option" where
  "get_reading v = (if present v then Some (rd_value v) else None)"

definition new_value :: "'a \<Rightarrow> quality \<Rightarrow> string \<Rightarrow> 'a reading" where
  "new_value v q src = \<lparr>rd_value = v, rd_avail = Available, rd_quality = q, rd_source = src\<rparr>"

definition unavailable :: "availability \<Rightarrow> string \<Rightarrow> metric_value" where
  "unavailable reason src =
     \<lparr>rd_value = Fin 0, rd_avail = reason, rd_quality = QUnset, rd_source = src\<rparr>"

lemma reading_simps [simp]:
  "get_reading (new_value v q src) = Some v"
  "present (new_value v q src)"
  "rd_avail (new_value v q src) = Available"
  "rd_value (new_value v q src) = v"
  "rd_avail (unavailable a src) = a"
  "present (unavailable a src) \<longleftrightarrow> a = Available"
  by (auto simp: get_reading_def present_def new_value_def unavailable_def)

lemma get_unavailable [simp]: "a \<noteq> Available \<Longrightarrow> get_reading (unavailable a src) = None"
  by (simp add: get_reading_def)

section \<open>Identity (\<open>identity.go\<close>)\<close>

record process_id =
  id_boot :: string
  id_pidns :: "64 word"
  id_pid :: int
  id_start :: "64 word"

definition zero_id :: process_id where
  "zero_id = \<lparr>id_boot = [], id_pidns = 0, id_pid = 0, id_start = 0\<rparr>"

definition same_process :: "process_id \<Rightarrow> process_id \<Rightarrow> bool" where
  "same_process a b =
     (if id_pid a \<noteq> id_pid b \<or> id_start a \<noteq> id_start b then False
      else if id_boot a \<noteq> [] \<and> id_boot b \<noteq> [] \<and> id_boot a \<noteq> id_boot b then False
      else if id_pidns a \<noteq> 0 \<and> id_pidns b \<noteq> 0 \<and> id_pidns a \<noteq> id_pidns b then False
      else True)"

definition show_u64 :: "64 word \<Rightarrow> string" where
  "show_u64 w = show_nat (unat w)"

definition process_key :: "process_id \<Rightarrow> string" where
  "process_key i = id_boot i @ ''/'' @ show_u64 (id_pidns i) @ ''/'' @ show_int (id_pid i)
     @ ''/'' @ show_u64 (id_start i)"

definition process_id_string :: "process_id \<Rightarrow> string" where
  "process_id_string i = ''pid:'' @ show_int (id_pid i) @ ''@'' @ show_u64 (id_start i)"

record thread_id =
  tid_process :: process_id
  tid_tid :: int
  tid_start :: "64 word"

definition same_thread :: "thread_id \<Rightarrow> thread_id \<Rightarrow> bool" where
  "same_thread a b \<longleftrightarrow>
     tid_tid a = tid_tid b \<and> tid_start a = tid_start b \<and> same_process (tid_process a) (tid_process b)"

definition thread_key :: "thread_id \<Rightarrow> string" where
  "thread_key t = process_key (tid_process t) @ ''#'' @ show_int (tid_tid t) @ ''/''
     @ show_u64 (tid_start t)"

lemma show_u64_inject [simp]: "show_u64 a = show_u64 b \<longleftrightarrow> a = b"
  by (auto simp: show_u64_def word_unat_eq_iff)

lemma append_last_sep:
  fixes d :: char
  assumes "d \<notin> set x" and "d \<notin> set y"
  shows "a @ d # x = b @ d # y \<longleftrightarrow> a = b \<and> x = y"
proof
  assume "a @ d # x = b @ d # y"
  then obtain us where "a @ us = b \<and> d # x = us @ d # y \<or> a = b @ us \<and> us @ d # x = d # y"
    by (auto simp: append_eq_append_conv2)
  then show "a = b \<and> x = y"
    using assms by (cases us) auto
qed simp

lemma show_no_slash [simp]:
  "CHR ''/'' \<notin> set (show_u64 w)" "CHR ''/'' \<notin> set (show_int i)"
  using show_int_no_slash by (simp_all add: show_u64_def)

text \<open>Both keys, read from the right: each separator is the last one of what precedes the rest.\<close>

lemma process_key_nested:
  "process_key i = ((id_boot i @ CHR ''/'' # show_u64 (id_pidns i)) @ CHR ''/'' # show_int (id_pid i))
     @ CHR ''/'' # show_u64 (id_start i)"
  by (simp add: process_key_def)

lemma thread_key_nested:
  "thread_key t = (process_key (tid_process t) @ ''#'' @ show_int (tid_tid t))
     @ CHR ''/'' # show_u64 (tid_start t)"
  by (simp add: thread_key_def)

lemma process_key_eq_iff: "process_key a = process_key b \<longleftrightarrow> a = b"
proof
  assume "process_key a = process_key b"
  then have "id_boot a = id_boot b \<and> id_pidns a = id_pidns b \<and> id_pid a = id_pid b
      \<and> id_start a = id_start b"
    by (simp only: process_key_nested append_last_sep show_no_slash not_False_eq_True
        show_u64_inject show_int_inject simp_thms)
  then show "a = b" by simp
qed simp

lemma thread_key_eq_iff: "thread_key s = thread_key t \<longleftrightarrow> s = t"
proof
  have tid: "CHR ''#'' \<notin> set (show_int i)" for i
    using show_int_chars [of "CHR ''#''" i] by (auto simp: is_digit_def)
  assume eq: "thread_key s = thread_key t"
  then have "process_key (tid_process s) @ ''#'' @ show_int (tid_tid s)
        = process_key (tid_process t) @ ''#'' @ show_int (tid_tid t) \<and> tid_start s = tid_start t"
    by (simp only: thread_key_nested append_last_sep show_no_slash not_False_eq_True show_u64_inject)
  moreover from this have "process_key (tid_process s) = process_key (tid_process t) \<and> tid_tid s = tid_tid t"
    by (simp only: append_Cons append_Nil append_last_sep tid not_False_eq_True show_int_inject)
  ultimately show "s = t" by (simp add: process_key_eq_iff)
qed simp

text \<open>
  The identity keys. Two process instances have the same key exactly when all four
  components of their identity agree, whatever characters the boot id contains, and two
  threads when process, thread id and start time agree; in particular a reused pid (same
  pid, another start time) has another key.
\<close>

theorem identity_keys_inject:
  "(process_key a = process_key b \<longleftrightarrow> a = b) \<and> (thread_key s = thread_key t \<longleftrightarrow> s = t)"
  using process_key_eq_iff thread_key_eq_iff by blast

lemma same_process_refl [simp]: "same_process a a"
  by (simp add: same_process_def)

lemma same_process_sym: "same_process a b = same_process b a"
  by (auto simp: same_process_def)

lemma same_process_pid: "same_process a b \<Longrightarrow> id_pid a = id_pid b \<and> id_start a = id_start b"
  by (auto simp: same_process_def split: if_splits)

text \<open>On fully known identities \<open>SameProcess\<close> is equality.\<close>

definition known_id :: "process_id \<Rightarrow> bool" where
  "known_id i \<longleftrightarrow> id_boot i \<noteq> [] \<and> id_pidns i \<noteq> 0"

lemma same_process_known: "known_id a \<Longrightarrow> known_id b \<Longrightarrow> same_process a b \<longleftrightarrow> a = b"
  by (auto simp: same_process_def known_id_def)

end
