(* ===== verification/Model_Process.thy ===== *)
theory Model_Process
  imports Model_Core
begin

text \<open>
  The rest of \<open>internal/model\<close>: namespace sets and their grouping key, process states, display
  names, battery states, and the normalised \<open>Process\<close> and \<open>Thread\<close> with their metric maps.
  A Go map is an Isabelle map; a nil map and an empty one are the same value here, as for
  every read of the code.
\<close>

section \<open>Namespaces (\<open>namespace.go\<close>)\<close>

datatype ns_type = NSPID | NSMount | NSNet | NSUser | NSUTS | NSIPC | NSCgroup | NSTime

fun ns_name :: "ns_type \<Rightarrow> string" where
  "ns_name NSPID = ''pid''"
| "ns_name NSMount = ''mnt''"
| "ns_name NSNet = ''net''"
| "ns_name NSUser = ''user''"
| "ns_name NSUTS = ''uts''"
| "ns_name NSIPC = ''ipc''"
| "ns_name NSCgroup = ''cgroup''"
| "ns_name NSTime = ''time''"

definition all_namespace_types :: "ns_type list" where
  "all_namespace_types = [NSPID, NSMount, NSNet, NSUser, NSUTS, NSIPC, NSCgroup, NSTime]"

record namespace_id =
  nsid_type :: ns_type
  nsid_inode :: "64 word"

definition namespace_id_string :: "namespace_id \<Rightarrow> string" where
  "namespace_id_string n = ns_name (nsid_type n) @ '':'' @ show_u64 (nsid_inode n)"

type_synonym namespace_set = "ns_type \<rightharpoonup> 64 word"

definition ns_entry :: "namespace_set \<Rightarrow> ns_type \<Rightarrow> string" where
  "ns_entry s t = ns_name t @ '':'' @ show_u64 (the (s t))"

definition ns_known :: "namespace_set \<Rightarrow> ns_type list" where
  "ns_known s = sort_key ns_name (filter (\<lambda>t. s t \<noteq> None) all_namespace_types)"

definition ns_set_key :: "namespace_set \<Rightarrow> string" where
  "ns_set_key s = (case ns_known s of [] \<Rightarrow> [] | ts \<Rightarrow> join '','' (map (ns_entry s) ts))"

lemma set_all_namespace_types [simp]: "set all_namespace_types = UNIV"
  by (auto simp: all_namespace_types_def intro: ns_type.exhaust)

lemma set_ns_known [simp]: "set (ns_known s) = dom s"
  by (auto simp: ns_known_def)

lemma ns_name_inject [simp]: "ns_name a = ns_name b \<longleftrightarrow> a = b"
  by (cases a; cases b; simp)

lemma ns_name_chars: "CHR '':'' \<notin> set (ns_name t)" "CHR '','' \<notin> set (ns_name t)"
  by (cases t; simp)+

lemma show_u64_chars: "CHR '':'' \<notin> set (show_u64 w)" "CHR '','' \<notin> set (show_u64 w)"
  using show_nat_digits by (fastforce simp: show_u64_def is_digit_def)+

lemma ns_entry_inject:
  assumes "ns_entry s a = ns_entry t b"
  shows "a = b \<and> the (s a) = the (t b)"
proof -
  have "ns_name a = ns_name b \<and> show_u64 (the (s a)) = show_u64 (the (t b))"
    using assms append_last_sep [OF show_u64_chars(1) show_u64_chars(1)]
    by (simp only: ns_entry_def append_Cons append_Nil)
  then show ?thesis by auto
qed

lemma ns_entry_no_comma: "CHR '','' \<notin> set (ns_entry s t)"
  by (auto simp: ns_entry_def ns_name_chars show_u64_chars)

lemma ns_entries_eq:
  assumes "ns_entry s ` dom s = ns_entry t ` dom t"
  shows "s = t"
proof
  have half: "s' x = Some v \<Longrightarrow> t' x = Some v" if "ns_entry s' ` dom s' \<subseteq> ns_entry t' ` dom t'" for s' t' x v
  proof -
    assume "s' x = Some v"
    then have "ns_entry s' x \<in> ns_entry t' ` dom t'"
      using that by blast
    then obtain y where "y \<in> dom t'" "ns_entry s' x = ns_entry t' y"
      by blast
    then show ?thesis
      using ns_entry_inject [of s' x t' y] \<open>s' x = Some v\<close> by auto
  qed
  fix x
  show "s x = t x"
    using half [of s t x] half [of t s x] assms by (cases "s x"; cases "t x") auto
qed

text \<open>
  The namespace-set key. Two processes get the same key, and so fall in one
  namespace-set group, exactly when they belong to the same namespaces of every kind; the
  key does not depend on any iteration order.
\<close>

theorem ns_set_key_inject: "ns_set_key s = ns_set_key t \<longleftrightarrow> s = t"
proof
  assume eq: "ns_set_key s = ns_set_key t"
  have key: "ns_set_key u = join '','' (map (ns_entry u) (ns_known u))" for u
    by (simp add: ns_set_key_def split: list.split)
  have empty: "ns_known u = []" if "ns_set_key u = []" for u
  proof (rule ccontr)
    assume "ns_known u \<noteq> []"
    then obtain x xs where "ns_known u = x # xs" by (cases "ns_known u") auto
    then show False
      using that by (cases xs) (auto simp: key ns_entry_def)
  qed
  have "map (ns_entry s) (ns_known s) = map (ns_entry t) (ns_known t)"
  proof (cases "ns_set_key s = []")
    case True
    then show ?thesis using empty eq by simp
  next
    case False
    then have "ns_known s \<noteq> []" "ns_known t \<noteq> []"
      using eq by (auto simp: key)
    moreover have "ns_known u \<noteq> [] \<Longrightarrow>
        split_on (CHR '','') (ns_set_key u) = map (ns_entry u) (ns_known u)" for u
      unfolding key by (rule split_join) (auto simp: ns_entry_no_comma)
    ultimately show ?thesis
      using eq by metis
  qed
  then have "ns_entry s ` dom s = ns_entry t ` dom t"
    by (metis image_set set_ns_known)
  then show "s = t" by (rule ns_entries_eq)
qed simp

section \<open>States (\<open>state.go\<close>)\<close>

text \<open>The state code is one ASCII letter; the zero rune is the NUL character.\<close>

definition no_state :: char where "no_state = char_of (0 :: nat)"

definition state_description :: "char \<Rightarrow> string" where
  "state_description c =
     (if c = CHR ''R'' then ''running''
      else if c = CHR ''S'' then ''sleeping''
      else if c = CHR ''D'' then ''disk-sleep''
      else if c = CHR ''T'' then ''stopped''
      else if c = CHR ''t'' then ''tracing-stop''
      else if c = CHR ''Z'' then ''zombie''
      else if c = CHR ''X'' then ''dead''
      else if c = CHR ''I'' then ''idle''
      else if c = no_state then ''unknown''
      else [c])"

definition state_stopped :: "char \<Rightarrow> bool" where
  "state_stopped c \<longleftrightarrow> c = CHR ''T'' \<or> c = CHR ''t''"

record process_flags =
  fl_session_leader :: bool
  fl_multithreaded :: bool
  fl_foreground :: bool
  fl_high_priority :: bool
  fl_low_priority :: bool
  fl_locked_memory :: bool

section \<open>Batteries (\<open>battery.go\<close>)\<close>

text \<open>The codes are a public numbering; a code off the table reads \<open>unknown\<close>.\<close>

definition battery_state_labels :: "int \<rightharpoonup> string" where
  "battery_state_labels = map_of
     [(0, ''unknown''), (1, ''charging''), (2, ''discharging''), (3, ''not-charging''),
      (4, ''full''), (5, ''missing''), (6, ''mixed'')]"

definition battery_label :: "int \<Rightarrow> string" where
  "battery_label s = (case battery_state_labels s of Some l \<Rightarrow> l | None \<Rightarrow> ''unknown'')"

definition battery_state_from_status :: "string \<Rightarrow> int" where
  "battery_state_from_status st =
     (if st = ''Charging'' then 1
      else if st = ''Discharging'' then 2
      else if st = ''Not charging'' then 3
      else if st = ''Full'' then 4
      else 0)"

text \<open>The conversion \<open>int(code)\<close> of a float: truncation; off the range the hardware's value.\<close>

fun f_trunc :: "f64 \<Rightarrow> int" where
  "f_trunc (Fin q) =
     (let i = (if q < 0 then \<lceil>q\<rceil> else \<lfloor>q\<rfloor>) in
      if - (2 ^ 63) \<le> i \<and> i < 2 ^ 63 then i else - (2 ^ 63))"
| "f_trunc _ = - (2 ^ 63)"

definition enum_label :: "metric_id \<Rightarrow> f64 \<Rightarrow> string option" where
  "enum_label i code = (if i = ''battery-state'' then Some (battery_label (f_trunc code)) else None)"

section \<open>Processes and threads (\<open>process.go\<close>)\<close>

record thread =
  th_id :: thread_id
  th_comm :: string
  th_state :: char
  th_metrics :: "metric_id \<rightharpoonup> metric_value"

record process =
  p_id :: process_id
  p_pid :: int
  p_tgid :: int
  p_ppid :: int
  p_pgid :: int
  p_sid :: int
  p_uid :: "32 word"
  p_euid :: "32 word"
  p_gid :: "32 word"
  p_egid :: "32 word"
  p_comm :: string
  p_user :: string
  p_cmdline :: "string list"
  p_cmdline_avail :: availability
  p_exe :: string
  p_cwd :: string
  p_cgroup_path :: string
  p_systemd_unit :: string
  p_app_id :: string
  p_container_id :: string
  p_pod_uid :: string
  p_wchan :: string
  p_hostname :: string
  p_namespaces :: namespace_set
  p_state :: char
  p_flags :: process_flags
  p_nice :: int
  p_nice_avail :: availability
  p_num_threads :: int
  p_start_ticks :: "64 word"
  p_metrics :: "metric_id \<rightharpoonup> metric_value"
  p_threads :: "thread list"

definition no_flags :: process_flags where
  "no_flags = \<lparr>fl_session_leader = False, fl_multithreaded = False, fl_foreground = False,
     fl_high_priority = False, fl_low_priority = False, fl_locked_memory = False\<rparr>"

definition zero_process :: process where
  "zero_process = \<lparr>p_id = zero_id, p_pid = 0, p_tgid = 0, p_ppid = 0, p_pgid = 0, p_sid = 0,
     p_uid = 0, p_euid = 0, p_gid = 0, p_egid = 0, p_comm = [], p_user = [], p_cmdline = [],
     p_cmdline_avail = AvUnset, p_exe = [], p_cwd = [], p_cgroup_path = [],
     p_systemd_unit = [], p_app_id = [], p_container_id = [], p_pod_uid = [], p_wchan = [],
     p_hostname = [], p_namespaces = Map.empty, p_state = no_state, p_flags = no_flags,
     p_nice = 0, p_nice_avail = AvUnset, p_num_threads = 0, p_start_ticks = 0,
     p_metrics = Map.empty, p_threads = []\<rparr>"

definition metric :: "process \<Rightarrow> metric_id \<Rightarrow> metric_value" where
  "metric p i = (case p_metrics p i of Some v \<Rightarrow> v | None \<Rightarrow> unavailable Disabled [])"

definition set_metric :: "metric_id \<Rightarrow> metric_value \<Rightarrow> process \<Rightarrow> process" where
  "set_metric i v p = p\<lparr>p_metrics := (p_metrics p)(i \<mapsto> v)\<rparr>"

lemma metric_set_metric [simp]:
  "metric (set_metric i v p) j = (if i = j then v else metric p j)"
  by (simp add: metric_def set_metric_def)

lemma set_metric_frame [frame_simps]:
  "p_id (set_metric i v p) = p_id p" "p_pid (set_metric i v p) = p_pid p"
  "p_threads (set_metric i v p) = p_threads p" "p_num_threads (set_metric i v p) = p_num_threads p"
  by (simp_all add: set_metric_def)

section \<open>Display names (\<open>name.go\<close>)\<close>

text \<open>\<open>path.Base\<close> of the standard library.\<close>

definition path_base :: "string \<Rightarrow> string" where
  "path_base p =
     (if p = [] then ''.''
      else let q = rev (dropWhile ((=) (CHR ''/'')) (rev p));
               b = (case str_cut_last (CHR ''/'') q of Some (_, x) \<Rightarrow> x | None \<Rightarrow> q)
           in if b = [] then ''/'' else b)"

definition base_name :: "string \<Rightarrow> string" where
  "base_name s =
     (if has_prefix s ''/'' then
        path_base (case str_cut (CHR '' '') s of Some (first, _) \<Rightarrow> first | None \<Rightarrow> s)
      else if contains s ''/'' \<and> \<not> contains s '' '' then path_base s
      else s)"

definition display_name_cap :: nat where "display_name_cap = 256"

definition cap64 :: "string \<Rightarrow> string" where
  "cap64 s = (if length s > display_name_cap then take display_name_cap s else s)"

definition display_name :: "process \<Rightarrow> string" where
  "display_name p =
     (case p_cmdline p of
        a # _ \<Rightarrow> if a \<noteq> [] then cap64 (base_name a)
                else if p_exe p \<noteq> [] then cap64 (base_name (p_exe p)) else p_comm p
      | [] \<Rightarrow> if p_exe p \<noteq> [] then cap64 (base_name (p_exe p)) else p_comm p)"

lemma path_base_nonempty [simp]: "path_base p \<noteq> []"
  by (auto simp: path_base_def Let_def split: option.splits)

lemma base_name_nonempty [simp]: "base_name s = [] \<longleftrightarrow> s = []"
  by (auto simp: base_name_def)

lemma cap64_length: "length (cap64 s) \<le> 256"
  by (simp add: cap64_def display_name_cap_def)

end
