(* ===== verification/Metrics_Registry.thy ===== *)
theory Metrics_Registry
  imports Model_Process
begin

text \<open>
  The metric registry, \<open>internal/metrics/descriptor.go\<close> and \<open>registry.go\<close>: descriptors as data,
  registration with the errors it reports (and what a failed registration leaves behind),
  lookup by id or alias. \<open>MustRegister\<close> panics on an error, the value \<open>None\<close> here.
\<close>

section \<open>Descriptors (\<open>descriptor.go\<close>)\<close>

datatype metric_unit =
    UnitPercentOneCPU | UnitPercentHost | UnitPercent | UnitRatio | UnitBytes | UnitBytesPerSec
  | UnitCount | UnitPerSec | UnitDuration | UnitInteger | UnitEnum | UnitWatts | UnitCelsius
  | UnitMilliAmpHours | UnitWattHours | UnitUnset

datatype metric_scope = ScopeHost | ScopeProcess | ScopeThread | ScopeUnset

datatype metric_kind = KindGauge | KindCounter | KindRate | KindEnum | KindUnset

datatype cost = Cost0Light | Cost1FD | Cost2Event | Cost3Perf

datatype aggregation =
    AggSum | AggSumOncePerProc | AggMin | AggMax | AggMixed | AggNone | AggUnset

record descriptor =
  d_id :: metric_id
  d_aliases :: "string list"
  d_unit :: metric_unit
  d_scope :: metric_scope
  d_kind :: metric_kind
  d_cost :: cost
  d_collector :: string
  d_agg :: aggregation
  d_rate :: bool
  d_desc :: string

definition is_rate :: "descriptor \<Rightarrow> bool" where
  "is_rate d \<longleftrightarrow> d_rate d \<or> d_kind d = KindRate"

definition zero_descriptor :: descriptor where
  "zero_descriptor = \<lparr>d_id = [], d_aliases = [], d_unit = UnitUnset, d_scope = ScopeUnset,
     d_kind = KindUnset, d_cost = Cost0Light, d_collector = [], d_agg = AggUnset,
     d_rate = False, d_desc = []\<rparr>"

section \<open>The registry (\<open>registry.go\<close>)\<close>

record registry =
  by_id :: "metric_id \<rightharpoonup> descriptor"
  by_alias :: "string \<rightharpoonup> metric_id"
  reg_order :: "metric_id list"

datatype register_error =
    EmptyMetricId | DuplicateId metric_id | IdIsAlias metric_id | DuplicateAlias string metric_id

definition new_registry :: registry where
  "new_registry = \<lparr>by_id = Map.empty, by_alias = Map.empty, reg_order = []\<rparr>"

text \<open>The loop over the aliases: it stops at the first taken one and keeps what it has added.\<close>

fun add_aliases ::
  "metric_id \<Rightarrow> string list \<Rightarrow> (string \<rightharpoonup> metric_id) \<Rightarrow> (string \<rightharpoonup> metric_id) \<times> register_error option"
where
  "add_aliases i [] m = (m, None)"
| "add_aliases i (a # as) m =
     (if m a \<noteq> None then (m, Some (DuplicateAlias a i)) else add_aliases i as (m(a \<mapsto> i)))"

definition register :: "registry \<Rightarrow> descriptor \<Rightarrow> registry \<times> register_error option" where
  "register r d =
     (if d_id d = [] then (r, Some EmptyMetricId)
      else if by_id r (d_id d) \<noteq> None then (r, Some (DuplicateId (d_id d)))
      else if by_alias r (d_id d) \<noteq> None then (r, Some (IdIsAlias (d_id d)))
      else let r1 = r\<lparr>by_id := (by_id r)(d_id d \<mapsto> d)\<rparr> in
        (case add_aliases (d_id d) (d_aliases d) ((by_alias r1)(d_id d \<mapsto> d_id d)) of
           (m, Some e) \<Rightarrow> (r1\<lparr>by_alias := m\<rparr>, Some e)
         | (m, None) \<Rightarrow> (r1\<lparr>by_alias := m, reg_order := reg_order r @ [d_id d]\<rparr>, None)))"

definition must_register :: "registry \<Rightarrow> descriptor \<Rightarrow> registry option" where
  "must_register r d = (case register r d of (r', None) \<Rightarrow> Some r' | (_, Some _) \<Rightarrow> None)"

fun register_all :: "registry \<Rightarrow> descriptor list \<Rightarrow> registry option" where
  "register_all r [] = Some r"
| "register_all r (d # ds) =
     (case must_register r d of Some r' \<Rightarrow> register_all r' ds | None \<Rightarrow> None)"

definition resolve_id :: "registry \<Rightarrow> string \<Rightarrow> metric_id option" where
  "resolve_id r name = by_alias r name"

definition by_id_or_zero :: "registry \<Rightarrow> metric_id \<Rightarrow> descriptor" where
  "by_id_or_zero r i = (case by_id r i of Some d \<Rightarrow> d | None \<Rightarrow> zero_descriptor)"

definition reg_get :: "registry \<Rightarrow> string \<Rightarrow> descriptor option" where
  "reg_get r name = (case by_alias r name of None \<Rightarrow> None | Some i \<Rightarrow> Some (by_id_or_zero r i))"

definition reg_has :: "registry \<Rightarrow> string \<Rightarrow> bool" where
  "reg_has r name \<longleftrightarrow> by_alias r name \<noteq> None"

definition reg_all :: "registry \<Rightarrow> descriptor list" where
  "reg_all r = map (by_id_or_zero r) (reg_order r)"

definition reg_ids :: "registry \<Rightarrow> metric_id list" where
  "reg_ids r = sort (reg_order r)"

section \<open>The registry's invariant\<close>

text \<open>
  What every registration keeps, the failing ones included: the id table and the alias table
  agree, and the order lists known ids once each.
\<close>

definition reg_wf :: "registry \<Rightarrow> bool" where
  "reg_wf r \<longleftrightarrow> distinct (reg_order r) \<and> set (reg_order r) \<subseteq> dom (by_id r) \<and>
     ran (by_alias r) \<subseteq> dom (by_id r) \<and>
     (\<forall>i d. by_id r i = Some d \<longrightarrow> d_id d = i \<and> i \<noteq> [] \<and> by_alias r i = Some i)"

lemma new_registry_wf [simp]: "reg_wf new_registry"
  by (simp add: reg_wf_def new_registry_def)

lemma add_aliases_mono: "m x = Some y \<Longrightarrow> fst (add_aliases i as m) x = Some y"
proof (induction i as m rule: add_aliases.induct)
  case (2 i a as m)
  show ?case
  proof (cases "m a")
    case None
    then have "a \<noteq> x" using 2 by auto
    then show ?thesis using 2 None by (simp add: fun_upd_def)
  qed (use 2 in simp)
qed simp

lemma add_aliases_ran: "fst (add_aliases i as m) x = Some y \<Longrightarrow> m x = Some y \<or> y = i"
proof (induction i as m rule: add_aliases.induct)
  case (2 i a as m)
  then show ?case by (cases "m a"; cases "a = x") (auto simp: fun_upd_def)
qed simp

lemma register_wf:
  assumes "reg_wf r"
  shows "reg_wf (fst (register r d))"
proof -
  have own: "by_alias r i = Some j \<Longrightarrow> by_id r j \<noteq> None" for i j
    using assms by (auto simp: reg_wf_def ran_def)
  obtain m e where add: "add_aliases (d_id d) (d_aliases d) ((by_alias r)(d_id d \<mapsto> d_id d)) = (m, e)"
    by fastforce
  then have keep: "((by_alias r)(d_id d \<mapsto> d_id d)) x = Some y \<Longrightarrow> m x = Some y" for x y
    using add_aliases_mono [of "(by_alias r)(d_id d \<mapsto> d_id d)" x y "d_id d" "d_aliases d"] by simp
  have from_r: "m x = Some y \<Longrightarrow> by_alias r x = Some y \<or> y = d_id d" for x y
    using add add_aliases_ran [of "d_id d" "d_aliases d" "(by_alias r)(d_id d \<mapsto> d_id d)" x y]
    by (auto split: if_splits)
  have dom: "ran m \<subseteq> insert (d_id d) (dom (by_id r))"
    using from_r own by (fastforce simp: ran_def)
  have old: "i \<noteq> d_id d \<and> by_id r i = Some e \<Longrightarrow> m i = Some i" for i e
    using assms keep [of i i] by (auto simp: reg_wf_def)
  have new: "m (d_id d) = Some (d_id d)"
    using keep [of "d_id d" "d_id d"] by simp
  have fresh: "by_id r (d_id d) = None \<Longrightarrow> d_id d \<notin> set (reg_order r)"
    using assms by (auto simp: reg_wf_def)
  show ?thesis
    using assms dom old new fresh
    by (auto simp: register_def reg_wf_def Let_def add split: option.splits)
qed

lemma must_register_wf: "reg_wf r \<Longrightarrow> must_register r d = Some r' \<Longrightarrow> reg_wf r'"
  using register_wf [of r d] by (auto simp: must_register_def split: prod.splits option.splits)

lemma register_all_wf: "reg_wf r \<Longrightarrow> register_all r ds = Some r' \<Longrightarrow> reg_wf r'"
  by (induction ds arbitrary: r) (auto split: option.splits intro: must_register_wf)

lemma reg_all_ids: "reg_wf r \<Longrightarrow> map d_id (reg_all r) = reg_order r"
  by (auto simp: reg_wf_def reg_all_def by_id_or_zero_def intro!: map_idI split: option.split)

lemma resolve_id_known: "reg_wf r \<Longrightarrow> resolve_id r n = Some i \<Longrightarrow> by_id r i \<noteq> None"
  by (auto simp: reg_wf_def resolve_id_def ran_def)

lemma resolve_id_canonical: "reg_wf r \<Longrightarrow> resolve_id r n = Some i \<Longrightarrow> resolve_id r i = Some i"
  using resolve_id_known [of r n i] by (auto simp: reg_wf_def resolve_id_def)

section \<open>When registration succeeds\<close>

definition names_of :: "descriptor \<Rightarrow> string list" where
  "names_of d = d_id d # d_aliases d"

lemma add_aliases_ok:
  "snd (add_aliases i as m) = None \<longleftrightarrow> distinct as \<and> set as \<inter> dom m = {}"
  by (induction as arbitrary: m) auto

lemma add_aliases_dom:
  "snd (add_aliases i as m) = None \<Longrightarrow> dom (fst (add_aliases i as m)) = dom m \<union> set as"
  by (induction as arbitrary: m) (auto split: if_splits)

lemma must_register_ok:
  assumes "reg_wf r"
  shows "must_register r d \<noteq> None \<longleftrightarrow>
    d_id d \<noteq> [] \<and> distinct (names_of d) \<and> set (names_of d) \<inter> dom (by_alias r) = {}"
proof -
  have "by_id r (d_id d) \<noteq> None \<Longrightarrow> by_alias r (d_id d) \<noteq> None"
    using assms by (auto simp: reg_wf_def)
  then show ?thesis
    using add_aliases_ok [of "d_id d" "d_aliases d" "(by_alias r)(d_id d \<mapsto> d_id d)"]
    by (auto simp: must_register_def register_def names_of_def Let_def split: prod.splits option.splits)
qed

lemma must_register_result:
  assumes "must_register r d = Some r'"
  shows "dom (by_alias r') = dom (by_alias r) \<union> set (names_of d)"
    and "reg_order r' = reg_order r @ [d_id d]"
    and "by_id r' = (by_id r)(d_id d \<mapsto> d)"
  using assms add_aliases_dom [of "d_id d" "d_aliases d" "(by_alias r)(d_id d \<mapsto> d_id d)"]
  by (simp_all add: must_register_def register_def names_of_def Let_def
      split: prod.splits option.splits if_splits) (hypsubst, simp)+

lemma register_all_ok:
  "reg_wf r \<Longrightarrow> register_all r ds \<noteq> None \<longleftrightarrow>
    (\<forall>d \<in> set ds. d_id d \<noteq> []) \<and> distinct (concat (map names_of ds)) \<and>
    set (concat (map names_of ds)) \<inter> dom (by_alias r) = {}"
proof (induction ds arbitrary: r)
  case (Cons d ds)
  show ?case
  proof (cases "must_register r d")
    case None
    then show ?thesis using must_register_ok [OF Cons.prems, of d] by auto
  next
    case (Some r')
    have ok: "d_id d \<noteq> []" "distinct (names_of d)" "set (names_of d) \<inter> dom (by_alias r) = {}"
      using must_register_ok [OF Cons.prems, of d] Some by auto
    show ?thesis
      using Cons.IH [OF must_register_wf [OF Cons.prems Some]] must_register_result(1) [OF Some] ok Some
      by (simp add: Int_Un_distrib2 Int_Un_distrib) (auto simp: disjoint_iff)
  qed
qed simp

lemma register_all_result:
  assumes "register_all r ds = Some r'"
  shows "reg_order r' = reg_order r @ map d_id ds"
    and "dom (by_alias r') = dom (by_alias r) \<union> set (concat (map names_of ds))"
    and "by_id r' = by_id r ++ map_of (map (\<lambda>d. (d_id d, d)) (rev ds))"
  using assms
  by (induction ds arbitrary: r)
    (auto simp: must_register_result map_add_upd_left split: option.splits)

end
