(* ===== verification/Metrics_Builtin.thy ===== *)
theory Metrics_Builtin
  imports Metrics_Registry
begin

text \<open>
  The built-in metrics, \<open>internal/metrics/builtin*.go\<close>, with their constructors, and
  \<open>NewDefault\<close>. Descriptions that are not ASCII are written with the bytes of their UTF-8.
\<close>

definition mem_gauge :: "string \<Rightarrow> string \<Rightarrow> cost \<Rightarrow> string \<Rightarrow> descriptor" where
  "mem_gauge i collector c desc = \<lparr>d_id = i, d_aliases = [], d_unit = UnitBytes,
     d_scope = ScopeProcess, d_kind = KindGauge, d_cost = c, d_collector = collector,
     d_agg = AggSumOncePerProc, d_rate = False, d_desc = desc\<rparr>"

definition psi_metric :: "string \<Rightarrow> string \<Rightarrow> descriptor" where
  "psi_metric i desc = \<lparr>d_id = i, d_aliases = [], d_unit = UnitPercent,
     d_scope = ScopeHost, d_kind = KindGauge, d_cost = Cost1FD, d_collector = ''psi'',
     d_agg = AggMax, d_rate = False, d_desc = desc\<rparr>"

definition fd_gauge :: "string \<Rightarrow> string \<Rightarrow> descriptor" where
  "fd_gauge i desc = \<lparr>d_id = i, d_aliases = [], d_unit = UnitCount,
     d_scope = ScopeProcess, d_kind = KindGauge, d_cost = Cost1FD, d_collector = ''fd'',
     d_agg = AggSum, d_rate = False, d_desc = desc\<rparr>"

definition sock_gauge :: "string \<Rightarrow> string \<Rightarrow> descriptor" where
  "sock_gauge i desc = \<lparr>d_id = i, d_aliases = [], d_unit = UnitCount,
     d_scope = ScopeProcess, d_kind = KindGauge, d_cost = Cost1FD, d_collector = ''socket'',
     d_agg = AggSum, d_rate = False, d_desc = desc\<rparr>"

definition gpu_engine :: "string \<Rightarrow> string \<Rightarrow> descriptor" where
  "gpu_engine i desc = \<lparr>d_id = i, d_aliases = [], d_unit = UnitPercent,
     d_scope = ScopeProcess, d_kind = KindRate, d_cost = Cost1FD, d_collector = ''gpu'',
     d_agg = AggSumOncePerProc, d_rate = True, d_desc = desc\<rparr>"

definition event_rate :: "string \<Rightarrow> string \<Rightarrow> descriptor" where
  "event_rate i desc = \<lparr>d_id = i, d_aliases = [], d_unit = UnitPerSec,
     d_scope = ScopeProcess, d_kind = KindRate, d_cost = Cost2Event, d_collector = ''ebpf'',
     d_agg = AggSum, d_rate = True, d_desc = desc\<rparr>"

definition perf_gauge :: "string \<Rightarrow> metric_unit \<Rightarrow> string \<Rightarrow> descriptor" where
  "perf_gauge i u desc = \<lparr>d_id = i, d_aliases = [], d_unit = u,
     d_scope = ScopeProcess, d_kind = KindGauge, d_cost = Cost3Perf, d_collector = ''perf'',
     d_agg = AggSum, d_rate = False, d_desc = desc\<rparr>"

definition power_domain :: "string \<Rightarrow> string \<Rightarrow> descriptor" where
  "power_domain i desc = \<lparr>d_id = i, d_aliases = [], d_unit = UnitWatts,
     d_scope = ScopeHost, d_kind = KindGauge, d_cost = Cost1FD, d_collector = ''power'',
     d_agg = AggMax, d_rate = False, d_desc = desc\<rparr>"

definition host_gauge :: "string \<Rightarrow> metric_unit \<Rightarrow> string \<Rightarrow> string \<Rightarrow> descriptor" where
  "host_gauge i u collector desc = \<lparr>d_id = i, d_aliases = [], d_unit = u,
     d_scope = ScopeHost, d_kind = KindGauge, d_cost = Cost1FD, d_collector = collector,
     d_agg = AggMax, d_rate = False, d_desc = desc\<rparr>"

definition temp_sensor_descriptor :: "metric_id \<Rightarrow> string \<Rightarrow> descriptor" where
  "temp_sensor_descriptor i desc = host_gauge i UnitCelsius ''temp'' desc"

definition builtin_light :: "descriptor list" where
  "builtin_light =
    [\<lparr>d_id = ''cpu'', d_aliases = [], d_unit = UnitPercentOneCPU, d_scope = ScopeProcess, d_kind = KindRate,
       d_cost = Cost0Light, d_collector = ''proc'', d_agg = AggSum, d_rate = True,
       d_desc = ''CPU usage as percent of one CPU (user+system); may exceed 100 for multithreaded processes''\<rparr>,
     \<lparr>d_id = ''cpu-normalized'', d_aliases = [], d_unit = UnitPercentHost, d_scope = ScopeProcess, d_kind = KindRate,
       d_cost = Cost0Light, d_collector = ''proc'', d_agg = AggSum, d_rate = True,
       d_desc = ''CPU usage as percent of total host capacity (cpu / online CPUs)''\<rparr>,
     \<lparr>d_id = ''cpu-user'', d_aliases = [], d_unit = UnitPercentOneCPU, d_scope = ScopeProcess, d_kind = KindRate,
       d_cost = Cost0Light, d_collector = ''proc'', d_agg = AggSum, d_rate = True,
       d_desc = ''User-mode CPU percent of one CPU (delta of utime)''\<rparr>,
     \<lparr>d_id = ''cpu-system'', d_aliases = [], d_unit = UnitPercentOneCPU, d_scope = ScopeProcess, d_kind = KindRate,
       d_cost = Cost0Light, d_collector = ''proc'', d_agg = AggSum, d_rate = True,
       d_desc = ''Kernel-mode CPU percent of one CPU (delta of stime)''\<rparr>,
     \<lparr>d_id = ''rss'', d_aliases = [], d_unit = UnitBytes, d_scope = ScopeProcess, d_kind = KindGauge,
       d_cost = Cost0Light, d_collector = ''proc'', d_agg = AggSumOncePerProc, d_rate = False,
       d_desc = ''Resident set size in bytes''\<rparr>,
     \<lparr>d_id = ''vsz'', d_aliases = [], d_unit = UnitBytes, d_scope = ScopeProcess, d_kind = KindGauge,
       d_cost = Cost0Light, d_collector = ''proc'', d_agg = AggSumOncePerProc, d_rate = False,
       d_desc = ''Virtual memory size in bytes''\<rparr>,
     \<lparr>d_id = ''threads'', d_aliases = [], d_unit = UnitCount, d_scope = ScopeProcess, d_kind = KindGauge,
       d_cost = Cost0Light, d_collector = ''proc'', d_agg = AggSumOncePerProc, d_rate = False,
       d_desc = ''Number of threads''\<rparr>,
     \<lparr>d_id = ''minor-faults'', d_aliases = [], d_unit = UnitPerSec, d_scope = ScopeProcess, d_kind = KindRate,
       d_cost = Cost0Light, d_collector = ''proc'', d_agg = AggSum, d_rate = True,
       d_desc = ''Minor page faults per second''\<rparr>,
     \<lparr>d_id = ''major-faults'', d_aliases = [], d_unit = UnitPerSec, d_scope = ScopeProcess, d_kind = KindRate,
       d_cost = Cost0Light, d_collector = ''proc'', d_agg = AggSum, d_rate = True,
       d_desc = ''Major page faults per second''\<rparr>,
     \<lparr>d_id = ''ctxsw-voluntary'', d_aliases = [], d_unit = UnitPerSec, d_scope = ScopeProcess, d_kind = KindRate,
       d_cost = Cost0Light, d_collector = ''proc'', d_agg = AggSum, d_rate = True,
       d_desc = ''Voluntary context switches per second''\<rparr>,
     \<lparr>d_id = ''ctxsw-involuntary'', d_aliases = [], d_unit = UnitPerSec, d_scope = ScopeProcess, d_kind = KindRate,
       d_cost = Cost0Light, d_collector = ''proc'', d_agg = AggSum, d_rate = True,
       d_desc = ''Involuntary context switches per second''\<rparr>,
     \<lparr>d_id = ''disk-rbps'', d_aliases = [''disk-read-bytes''], d_unit = UnitBytesPerSec, d_scope = ScopeProcess, d_kind = KindRate,
       d_cost = Cost0Light, d_collector = ''proc'', d_agg = AggSum, d_rate = True,
       d_desc = ''Storage-accounted read bytes per second (delta of /proc/PID/io read_bytes)''\<rparr>,
     \<lparr>d_id = ''disk-wbps'', d_aliases = [''disk-write-bytes''], d_unit = UnitBytesPerSec, d_scope = ScopeProcess, d_kind = KindRate,
       d_cost = Cost0Light, d_collector = ''proc'', d_agg = AggSum, d_rate = True,
       d_desc = ''Storage-accounted write bytes per second (delta of write_bytes)''\<rparr>,
     \<lparr>d_id = ''io-rchar'', d_aliases = [], d_unit = UnitBytesPerSec, d_scope = ScopeProcess, d_kind = KindRate,
       d_cost = Cost0Light, d_collector = ''proc'', d_agg = AggSum, d_rate = True,
       d_desc = ''Bytes read via syscalls per second (includes cache); delta of rchar''\<rparr>,
     \<lparr>d_id = ''io-wchar'', d_aliases = [], d_unit = UnitBytesPerSec, d_scope = ScopeProcess, d_kind = KindRate,
       d_cost = Cost0Light, d_collector = ''proc'', d_agg = AggSum, d_rate = True,
       d_desc = ''Bytes written via syscalls per second (includes cache); delta of wchar''\<rparr>,
     \<lparr>d_id = ''read-syscalls'', d_aliases = [], d_unit = UnitPerSec, d_scope = ScopeProcess, d_kind = KindRate,
       d_cost = Cost0Light, d_collector = ''proc'', d_agg = AggSum, d_rate = True,
       d_desc = ''Read syscalls per second (delta of syscr); not physical disk ops''\<rparr>,
     \<lparr>d_id = ''write-syscalls'', d_aliases = [], d_unit = UnitPerSec, d_scope = ScopeProcess, d_kind = KindRate,
       d_cost = Cost0Light, d_collector = ''proc'', d_agg = AggSum, d_rate = True,
       d_desc = ''Write syscalls per second (delta of syscw); not physical disk ops''\<rparr>,
     \<lparr>d_id = ''pnice'', d_aliases = [], d_unit = UnitInteger, d_scope = ScopeProcess, d_kind = KindGauge,
       d_cost = Cost0Light, d_collector = ''proc'', d_agg = AggMixed, d_rate = False,
       d_desc = ''Observed process nice value''\<rparr>,
     \<lparr>d_id = ''age'', d_aliases = [], d_unit = UnitDuration, d_scope = ScopeProcess, d_kind = KindGauge,
       d_cost = Cost0Light, d_collector = ''proc'', d_agg = AggMax, d_rate = False,
       d_desc = ''Uptime: how long the process (or thread, under --leaf thread) has been alive, from start time''\<rparr>,
     \<lparr>d_id = ''cpu-time'', d_aliases = [], d_unit = UnitDuration, d_scope = ScopeProcess, d_kind = KindGauge,
       d_cost = Cost0Light, d_collector = ''proc'', d_agg = AggSum, d_rate = False,
       d_desc = ''Cumulative CPU time consumed (user+system), seconds; per-process or per-thread under --leaf thread''\<rparr>]"

definition builtin_mem :: "descriptor list" where
  "builtin_mem =
    [mem_gauge ''swap'' ''proc'' Cost0Light ''swapped-out memory (VmSwap)'',
     mem_gauge ''mem-peak'' ''proc'' Cost0Light ''peak resident memory (VmHWM)'',
     mem_gauge ''rss-anon'' ''proc'' Cost0Light ''resident anonymous memory (heap/stack)'',
     mem_gauge ''rss-file'' ''proc'' Cost0Light ''resident file-backed memory'',
     mem_gauge ''rss-shmem'' ''proc'' Cost0Light ''resident shared memory'',
     mem_gauge ''pss'' ''procmem'' Cost1FD ''proportional set size (shared memory attributed fairly)'',
     mem_gauge ''uss'' ''procmem'' Cost1FD ''unique set size (private resident memory)'',
     mem_gauge ''swap-pss'' ''procmem'' Cost1FD ''proportional swapped-out memory'',
     \<lparr>d_id = ''oom-score'', d_aliases = [], d_unit = UnitInteger, d_scope = ScopeProcess, d_kind = KindGauge,
       d_cost = Cost1FD, d_collector = ''procmem'', d_agg = AggMax, d_rate = False,
       d_desc = (''OOM kill-likelihood score (0'' @ [CHR 0xE2, CHR 0x80, CHR 0x93] @ ''1000; higher is killed first)'')\<rparr>,
     \<lparr>d_id = ''oom-score-adj'', d_aliases = [], d_unit = UnitInteger, d_scope = ScopeProcess, d_kind = KindGauge,
       d_cost = Cost1FD, d_collector = ''procmem'', d_agg = AggMax, d_rate = False,
       d_desc = ''OOM score adjustment (-1000..1000; user/policy bias)''\<rparr>]"

definition builtin_load :: "descriptor list" where
  "builtin_load =
    [\<lparr>d_id = ''blkio-delay'', d_aliases = [], d_unit = UnitPercent, d_scope = ScopeProcess, d_kind = KindRate,
       d_cost = Cost0Light, d_collector = ''proc'', d_agg = AggSum, d_rate = True,
       d_desc = ''% of wall time blocked on block I/O (needs kernel delay accounting)''\<rparr>,
     \<lparr>d_id = ''runq-delay'', d_aliases = [], d_unit = UnitPercent, d_scope = ScopeProcess, d_kind = KindRate,
       d_cost = Cost1FD, d_collector = ''schedstat'', d_agg = AggSum, d_rate = True,
       d_desc = ''% of wall time runnable but waiting for a CPU (needs CONFIG_SCHEDSTATS)''\<rparr>]"

definition builtin_pressure :: "descriptor list" where
  "builtin_pressure =
    [psi_metric ''psi-cpu'' ''host CPU pressure: % of time some task stalled on CPU (avg10, /proc/pressure/cpu)'',
     psi_metric ''psi-io'' ''host I/O pressure: % of time some task stalled on I/O (avg10, /proc/pressure/io)'',
     psi_metric ''psi-mem'' ''host memory pressure: % of time some task stalled on memory (avg10, /proc/pressure/memory)'',
     \<lparr>d_id = ''threads-running'', d_aliases = [], d_unit = UnitInteger, d_scope = ScopeProcess, d_kind = KindGauge,
       d_cost = Cost1FD, d_collector = ''threadstate'', d_agg = AggSum, d_rate = False,
       d_desc = (''count of this process's threads in R (runnable) state '' @ [CHR 0xE2, CHR 0x80, CHR 0x94] @ '' its direct load contribution'')\<rparr>,
     \<lparr>d_id = ''threads-uninterruptible'', d_aliases = [], d_unit = UnitInteger, d_scope = ScopeProcess, d_kind = KindGauge,
       d_cost = Cost1FD, d_collector = ''threadstate'', d_agg = AggSum, d_rate = False,
       d_desc = (''count of this process's threads in D (uninterruptible) state '' @ [CHR 0xE2, CHR 0x80, CHR 0x94] @ '' its I/O-wait load contribution'')\<rparr>]"

definition builtin_fd :: "descriptor list" where
  "builtin_fd =
    [fd_gauge ''fd-total'' ''total open file descriptors'',
     fd_gauge ''fd-files'' ''regular-file descriptors'',
     fd_gauge ''fd-sockets'' ''socket descriptors'',
     fd_gauge ''fd-pipes'' ''pipe descriptors'',
     fd_gauge ''fd-anon'' ''anonymous-inode descriptors'',
     fd_gauge ''fd-eventfd'' ''eventfd descriptors'',
     fd_gauge ''fd-epoll'' ''epoll descriptors'',
     fd_gauge ''fd-timerfd'' ''timerfd descriptors'',
     fd_gauge ''fd-signalfd'' ''signalfd descriptors'',
     fd_gauge ''fd-inotify'' ''inotify descriptors'']"

definition builtin_socket :: "descriptor list" where
  "builtin_socket =
    [sock_gauge ''sock-tcp'' ''TCP sockets held by the process'',
     sock_gauge ''sock-udp'' ''UDP sockets held by the process'',
     sock_gauge ''sock-unix'' ''UNIX-domain sockets held by the process'',
     sock_gauge ''sock-listen'' ''listening TCP sockets (server side)'',
     sock_gauge ''sock-estab'' ''established TCP connections'',
     sock_gauge ''sock-timewait'' ''TCP sockets in TIME_WAIT'',
     sock_gauge ''sock-closewait'' ''TCP sockets in CLOSE_WAIT'']"

definition builtin_gpu :: "descriptor list" where
  "builtin_gpu =
    [\<lparr>d_id = ''gpu'', d_aliases = [], d_unit = UnitPercent, d_scope = ScopeProcess, d_kind = KindRate,
       d_cost = Cost1FD, d_collector = ''gpu'', d_agg = AggSumOncePerProc, d_rate = True,
       d_desc = ''per-process GPU engine utilization % (summed across engines, DRM fdinfo)''\<rparr>,
     \<lparr>d_id = ''gpu-mem'', d_aliases = [], d_unit = UnitBytes, d_scope = ScopeProcess, d_kind = KindGauge,
       d_cost = Cost1FD, d_collector = ''gpu'', d_agg = AggSumOncePerProc, d_rate = False,
       d_desc = ''per-process GPU memory, resident/used (DRM fdinfo)''\<rparr>,
     gpu_engine ''gpu-render'' ''per-process GPU render/3D engine utilization % (DRM fdinfo)'',
     gpu_engine ''gpu-compute'' ''per-process GPU compute engine utilization % (DRM fdinfo)'',
     gpu_engine ''gpu-copy'' ''per-process GPU copy/DMA engine utilization % (DRM fdinfo)'',
     gpu_engine ''gpu-video'' ''per-process GPU video decode/encode engine utilization % (DRM fdinfo)'',
     gpu_engine ''gpu-video-enhance'' ''per-process GPU video-enhance engine utilization % (DRM fdinfo)'']"

definition builtin_event :: "descriptor list" where
  "builtin_event =
    [event_rate ''wakeups'' ''scheduler wakeups per second (eBPF waker attribution; falls back to /proc/PID/sched nr_wakeups, no root)'',
     event_rate ''timer-wakeups'' ''timer-driven wakeups per second'',
     event_rate ''net-rx-bps'' ''per-process received bytes/sec (requires eBPF/accounting)'',
     event_rate ''net-tx-bps'' ''per-process transmitted bytes/sec (requires eBPF/accounting)'',
     event_rate ''net-rx-pps'' ''per-process received packets/sec'',
     event_rate ''net-tx-pps'' ''per-process transmitted packets/sec'']"

definition builtin_perf :: "descriptor list" where
  "builtin_perf =
    [perf_gauge ''cycles'' UnitCount ''CPU cycles per second'',
     perf_gauge ''instructions'' UnitCount ''instructions retired per second'',
     perf_gauge ''ipc'' UnitRatio ''instructions per cycle (higher is better; <1 is stall-heavy)'',
     perf_gauge ''cache-references'' UnitCount ''last-level cache references per second'',
     perf_gauge ''cache-misses'' UnitCount ''last-level cache misses per second (pair with cache-references for miss rate)'']"

definition builtin_power :: "descriptor list" where
  "builtin_power =
    [\<lparr>d_id = ''cstate-deep-residency'', d_aliases = [], d_unit = UnitPercent, d_scope = ScopeHost, d_kind = KindGauge,
       d_cost = Cost1FD, d_collector = ''cstate'', d_agg = AggMax, d_rate = False,
       d_desc = ''host % of CPU-time in deep idle (C-states deeper than C1), from cpuidle sysfs''\<rparr>,
     power_domain ''power-pkg'' ''host CPU package power draw (watts): RAPL/hwmon, else battery'',
     power_domain ''power-core'' ''host CPU core-domain power draw (watts): RAPL core domain'',
     power_domain ''power-uncore'' ''host CPU uncore-domain power draw (watts): RAPL uncore domain'',
     power_domain ''power-dram'' ''host DRAM power draw (watts): RAPL dram domain'',
     power_domain ''power-system'' ''whole-system power draw (watts): laptop battery (any vendor/arch)'']"

definition builtin_sys :: "descriptor list" where
  "builtin_sys =
    [host_gauge ''load-1'' UnitRatio ''loadavg'' ''host load average over 1 minute (/proc/loadavg)'',
     host_gauge ''load-5'' UnitRatio ''loadavg'' ''host load average over 5 minutes'',
     host_gauge ''load-15'' UnitRatio ''loadavg'' ''host load average over 15 minutes'',
     host_gauge ''battery-state'' UnitEnum ''battery'' ''battery state: charging/discharging/full/not-charging/missing/unknown (mixed if batteries disagree)'',
     host_gauge ''battery-pct'' UnitPercent ''battery'' ''battery charge level % (all batteries combined)'',
     host_gauge ''battery-time-left'' UnitDuration ''battery'' ''battery time left: to empty while discharging, to full while charging'',
     host_gauge ''battery-charge-left'' UnitMilliAmpHours ''battery'' ''remaining battery charge in mAh (batteries that report charge_now)'',
     host_gauge ''battery-energy-left'' UnitWattHours ''battery'' ''remaining battery energy in Wh (batteries that report energy_now)'',
     host_gauge ''temp-cpu'' UnitCelsius ''temp'' (''CPU temperature '' @ [CHR 0xC2, CHR 0xB0] @ ''C (hottest CPU sensor: coretemp/k10temp/cpu_thermal'' @ [CHR 0xE2, CHR 0x80, CHR 0xA6] @ '')''),
     host_gauge ''temp-max'' UnitCelsius ''temp'' (''hottest temperature '' @ [CHR 0xC2, CHR 0xB0] @ ''C across all detected sensors'')]"

text \<open>\<open>NewDefault\<close>: the groups in the order the code registers them.\<close>

definition builtin_metrics :: "descriptor list" where
  "builtin_metrics = builtin_light @ builtin_mem @ builtin_load @ builtin_pressure @ builtin_fd
     @ builtin_socket @ builtin_gpu @ builtin_event @ builtin_perf @ builtin_power @ builtin_sys"

definition new_default :: "registry option" where
  "new_default = register_all new_registry builtin_metrics"

lemma distinct_ids: "distinct (concat (map names_of ds)) \<Longrightarrow> distinct (map d_id ds)"
  by (induction ds) (auto simp: names_of_def)

lemma map_of_ids:
  assumes "distinct (map d_id ds)" and "set es = set ds" and "d \<in> set ds" and "distinct (map d_id es)"
  shows "map_of (map (\<lambda>d. (d_id d, d)) es) (d_id d) = Some d"
  using assms by (intro map_of_is_SomeI) (auto simp: comp_def)

lemma by_id_or_zero_map_of:
  assumes "distinct (map d_id ds)" and "by_id r = map_of (map (\<lambda>d. (d_id d, d)) (rev ds))"
  shows "map (by_id_or_zero r \<circ> d_id) ds = ds"
  using map_of_ids [of ds "rev ds"] assms
  by (intro map_idI) (simp add: by_id_or_zero_def rev_map [symmetric])

lemmas builtin_constructors =
  mem_gauge_def psi_metric_def fd_gauge_def sock_gauge_def gpu_engine_def event_rate_def
  perf_gauge_def power_domain_def host_gauge_def

lemmas builtin_groups =
  builtin_light_def builtin_mem_def builtin_load_def builtin_pressure_def builtin_fd_def
  builtin_socket_def builtin_gpu_def builtin_event_def builtin_perf_def builtin_power_def
  builtin_sys_def

text \<open>All names the built-in metrics bring, computed once.\<close>

lemma builtin_names_distinct: "distinct (concat (map names_of builtin_metrics))"
  by code_simp

lemma builtin_ids_nonempty: "\<forall>d \<in> set builtin_metrics. d_id d \<noteq> []"
  by code_simp

text \<open>
  \<open>NewDefault\<close> does not panic. The built-in descriptors have non-empty ids, and no id or
  alias twice, so every \<open>MustRegister\<close> succeeds; the registry it returns lists exactly the
  built-in metrics in source order and keeps the registry invariant.
\<close>

theorem new_default_ok:
  "\<exists>r. new_default = Some r \<and> reg_wf r \<and> reg_order r = map d_id builtin_metrics
       \<and> reg_all r = builtin_metrics"
proof -
  have "register_all new_registry builtin_metrics \<noteq> None"
    using register_all_ok [of new_registry builtin_metrics] builtin_names_distinct builtin_ids_nonempty
    by (simp add: new_registry_def [symmetric]) (simp add: new_registry_def)
  then obtain r where r: "register_all new_registry builtin_metrics = Some r"
    by blast
  have order: "reg_order r = map d_id builtin_metrics"
    using register_all_result(1) [OF r] by (simp add: new_registry_def)
  have ids: "distinct (map d_id builtin_metrics)"
    using builtin_names_distinct by (rule distinct_ids)
  have "by_id r = map_of (map (\<lambda>d. (d_id d, d)) (rev builtin_metrics))"
    using register_all_result(3) [OF r] by (simp add: new_registry_def)
  then have "reg_all r = builtin_metrics"
    using ids by (simp add: reg_all_def order by_id_or_zero_map_of)
  then show ?thesis
    using r order register_all_wf [OF new_registry_wf r] by (auto simp: new_default_def)
qed

end
