(* ===== verification/Metrics_Selection.thy ===== *)
theory Metrics_Selection
  imports Metrics_Builtin
begin

text \<open>
  Metric profiles and selections, \<open>internal/metrics/profile.go\<close> and \<open>selection.go\<close>: the
  profile table, its expansion over a registry, and the overrides applied to it.
\<close>

section \<open>Profiles (\<open>profile.go\<close>)\<close>

record profile =
  pf_metrics :: "metric_id list"
  pf_columns :: "string list"
  pf_sort :: string
  pf_group_by :: string
  pf_having :: string

definition known_profiles :: "string list" where
  "known_profiles =
     [''none'', ''light'', ''process'', ''memory'', ''io'', ''network'', ''power'', ''battery'',
      ''sysload'', ''pressure'', ''system'', ''perf'', ''all'']"

definition profile_specs :: "string \<rightharpoonup> profile" where
  "profile_specs = map_of
    [(''process'', \<lparr>pf_metrics =
       [''cpu'', ''cpu-time'', ''age'', ''rss'', ''vsz'', ''threads'', ''pnice''],
      pf_columns = [''target'', ''pid'', ''pstate'', ''cpu'', ''cpu-time'', ''age'', ''rss'', ''vsz'',
        ''threads'', ''pnice''],
      pf_sort = [], pf_group_by = [], pf_having = []\<rparr>),
     (''memory'', \<lparr>pf_metrics =
       [''rss'', ''pss'', ''uss'', ''swap'', ''mem-peak'', ''rss-anon'', ''oom-score'',
        ''major-faults''],
      pf_columns = [''target'', ''pid'', ''rss'', ''pss'', ''uss'', ''swap'', ''mem-peak'',
        ''rss-anon'', ''oom-score'', ''major-faults''],
      pf_sort = ''pss:desc'', pf_group_by = [], pf_having = []\<rparr>),
     (''io'', \<lparr>pf_metrics =
       [''disk-rbps'', ''disk-wbps'', ''io-rchar'', ''io-wchar'', ''read-syscalls'',
        ''write-syscalls''],
      pf_columns = [],
      pf_sort = [], pf_group_by = [], pf_having = []\<rparr>),
     (''network'', \<lparr>pf_metrics =
       [''sock-tcp'', ''sock-listen'', ''sock-estab'', ''sock-timewait'',
        ''sock-closewait'', ''sock-udp'', ''sock-unix''],
      pf_columns = [''target'', ''pid'', ''sock-tcp'', ''sock-listen'', ''sock-estab'',
        ''sock-timewait'', ''sock-closewait'', ''sock-udp'', ''sock-unix''],
      pf_sort = ''sock-tcp:desc'', pf_group_by = [], pf_having = []\<rparr>),
     (''power'', \<lparr>pf_metrics =
       [''power-pkg'', ''power-core'', ''power-uncore'', ''power-dram'', ''power-system'',
        ''cstate-deep-residency'', ''temp-cpu'', ''temp-max'', ''cpu''],
      pf_columns = [],
      pf_sort = [], pf_group_by = [], pf_having = []\<rparr>),
     (''battery'', \<lparr>pf_metrics =
       [''battery-state'', ''battery-pct'', ''battery-time-left'', ''battery-charge-left'',
        ''battery-energy-left'', ''power-system'', ''temp-cpu'', ''cstate-deep-residency'',
        ''cpu'', ''cpu-normalized'', ''wakeups'', ''timer-wakeups'', ''ctxsw-voluntary'',
        ''gpu'', ''gpu-mem''],
      pf_columns = [],
      pf_sort = [], pf_group_by = [], pf_having = []\<rparr>),
     (''sysload'', \<lparr>pf_metrics =
       [''load-1'', ''load-5'', ''load-15'', ''cpu'', ''runq-delay'', ''blkio-delay'',
        ''ctxsw-involuntary'', ''major-faults''],
      pf_columns = [''target'', ''pid'', ''pstate'', ''wchan'', ''cpu'', ''runq-delay'',
        ''blkio-delay'', ''ctxsw-involuntary'', ''major-faults''],
      pf_sort = ''runq-delay:desc'', pf_group_by = [], pf_having = []\<rparr>),
     (''perf'', \<lparr>pf_metrics =
       [''cycles'', ''instructions'', ''ipc'', ''cache-references'', ''cache-misses''],
      pf_columns = [],
      pf_sort = [], pf_group_by = [], pf_having = []\<rparr>),
     (''pressure'', \<lparr>pf_metrics =
       [''load-1'', ''load-5'', ''load-15'', ''psi-cpu'', ''psi-io'', ''psi-mem'',
        ''threads-running'', ''threads-uninterruptible''],
      pf_columns = [''target'', ''pid'', ''pstate'', ''threads-running'', ''threads-uninterruptible''],
      pf_sort = ''threads-uninterruptible:desc'', pf_group_by = [], pf_having = []\<rparr>),
     (''system'', \<lparr>pf_metrics =
       [''load-1'', ''load-5'', ''load-15'', ''psi-cpu'', ''psi-io'', ''psi-mem'',
        ''battery-state'', ''battery-pct'', ''battery-time-left'', ''battery-charge-left'',
        ''battery-energy-left'', ''power-system'', ''power-pkg'', ''cstate-deep-residency'',
        ''temp-cpu'', ''temp-max'', ''cpu''],
      pf_columns = [''target'', ''pid'', ''pt'', ''cpu''],
      pf_sort = ''cpu:desc'', pf_group_by = [], pf_having = []\<rparr>)]"

definition profile_defaults :: "string \<Rightarrow> profile option" where
  "profile_defaults name = profile_specs name"

definition is_known_profile :: "string \<Rightarrow> bool" where
  "is_known_profile name =
     (if name = ''none'' \<or> name = ''light'' \<or> name = ''all'' then True
      else profile_specs name \<noteq> None)"

datatype selection_error = UnknownProfile string | UnknownMetric string

definition resolve_profile :: "registry \<Rightarrow> string \<Rightarrow> (selection_error, metric_id list) result" where
  "resolve_profile r name =
     (if name = ''none'' then Inr []
      else if name = ''all'' then Inr (reg_ids r)
      else if name = ''light'' then
        Inr (sort (map d_id (filter (\<lambda>d. d_cost d = Cost0Light) (reg_all r))))
      else (case profile_specs name of
          None \<Rightarrow> Inl (UnknownProfile name)
        | Some spec \<Rightarrow> Inr (sort (filter (reg_has r) (pf_metrics spec)))))"

section \<open>Selections (\<open>selection.go\<close>)\<close>

record override =
  ov_add :: bool
  ov_id :: string

text \<open>The ordered set the code keeps: the presence map and the order slice.\<close>

type_synonym selection = "(metric_id \<Rightarrow> bool) \<times> metric_id list"

definition empty_selection :: selection where
  "empty_selection = ((\<lambda>_. False), [])"

definition sel_add :: "metric_id \<Rightarrow> selection \<Rightarrow> selection" where
  "sel_add i s = (let (present, order) = s in
     if \<not> present i then (present(i := True), order @ [i]) else (present, order))"

definition sel_remove :: "metric_id \<Rightarrow> selection \<Rightarrow> selection" where
  "sel_remove i s = (let (present, order) = s in
     if present i then (present(i := False), remove1 i order) else (present, order))"

fun apply_overrides ::
  "registry \<Rightarrow> override list \<Rightarrow> selection \<Rightarrow> (selection_error, selection) result" where
  "apply_overrides r [] s = Inr s"
| "apply_overrides r (ov # ovs) s =
     (case resolve_id r (ov_id ov) of
        None \<Rightarrow> Inl (UnknownMetric (ov_id ov))
      | Some i \<Rightarrow> apply_overrides r ovs (if ov_add ov then sel_add i s else sel_remove i s))"

definition resolve_selection ::
  "registry \<Rightarrow> string \<Rightarrow> override list \<Rightarrow> (selection_error, metric_id list) result" where
  "resolve_selection r name ovs =
     rbind (resolve_profile r name) (\<lambda>base.
     rbind (apply_overrides r ovs (fold sel_add base empty_selection)) (\<lambda>s.
     Inr (snd s)))"

section \<open>Profiles resolve\<close>

lemma resolve_profile_known:
  assumes "reg_wf r" and "resolve_profile r name = Inr ids" and "i \<in> set ids"
  shows "resolve_id r i \<noteq> None"
proof -
  have order: "j \<in> set (reg_order r) \<Longrightarrow> by_alias r j \<noteq> None" for j
    using assms(1) by (fastforce simp: reg_wf_def)
  have "d \<in> set (reg_all r) \<Longrightarrow> d_id d \<in> set (reg_order r)" for d
    using reg_all_ids [OF assms(1)] by (metis image_eqI list.set_map)
  then show ?thesis
    using assms(2,3) order
    by (auto simp: resolve_profile_def reg_ids_def resolve_id_def reg_has_def
        split: if_splits option.splits)
qed

text \<open>Every metric a built-in profile names is a built-in metric, under its canonical id.\<close>

lemma profiles_use_builtins:
  "\<forall>n \<in> set known_profiles. case profile_specs n of None \<Rightarrow> True
     | Some p \<Rightarrow> \<forall>m \<in> set (pf_metrics p). m \<in> set (map d_id builtin_metrics)"
  by code_simp

lemma dom_profile_specs: "set (filter (\<lambda>n. profile_specs n \<noteq> None) known_profiles) = dom profile_specs"
proof -
  have "dom profile_specs \<subseteq> set known_profiles"
    unfolding profile_specs_def dom_map_of_conv_image_fst by (simp add: known_profiles_def)
  then show ?thesis by auto
qed

text \<open>
  Profiles. Resolving a profile fails exactly when \<open>IsKnownProfile\<close> says the name is
  unknown, and the names \<open>KnownProfiles\<close> lists are exactly the known ones, whatever the
  registry holds.
\<close>

theorem profile_known_iff:
  "(is_ok (resolve_profile r name) \<longleftrightarrow> is_known_profile name) \<and>
   (is_known_profile name \<longleftrightarrow> name \<in> set known_profiles)"
proof -
  have mem: "name \<in> dom profile_specs \<Longrightarrow> name \<in> set known_profiles"
    using dom_profile_specs by auto
  have all: "\<forall>n \<in> set known_profiles. is_known_profile n" by code_simp
  have derived: "\<forall>n \<in> {''none'', ''light'', ''all''}. n \<in> set known_profiles"
    by (simp add: known_profiles_def)
  show ?thesis
    using mem all derived
    by (auto simp: resolve_profile_def is_known_profile_def split: option.splits)
qed

section \<open>Selections resolve\<close>

definition sel_wf :: "selection \<Rightarrow> bool" where
  "sel_wf s \<longleftrightarrow> distinct (snd s) \<and> (\<forall>i. fst s i \<longleftrightarrow> i \<in> set (snd s))"

lemma sel_wf_ops [simp]:
  "sel_wf empty_selection"
  "sel_wf s \<Longrightarrow> sel_wf (sel_add i s)"
  "sel_wf s \<Longrightarrow> sel_wf (sel_remove i s)"
  by (auto simp: sel_wf_def empty_selection_def sel_add_def sel_remove_def split: prod.splits)

lemma sel_ops_set:
  "sel_wf s \<Longrightarrow> set (snd (sel_add i s)) = insert i (set (snd s))"
  "sel_wf s \<Longrightarrow> set (snd (sel_remove i s)) = set (snd s) - {i}"
  by (auto simp: sel_wf_def sel_add_def sel_remove_def split: prod.splits)

lemma sel_add_order: "sel_wf s \<Longrightarrow> snd (sel_add i s) = add_new (snd s) i"
  by (auto simp: sel_wf_def sel_add_def add_new.simps split: prod.splits)

lemma sel_base:
  "sel_wf s \<Longrightarrow> sel_wf (fold sel_add ids s) \<and> set (snd (fold sel_add ids s)) = set (snd s) \<union> set ids"
  by (induction ids arbitrary: s) (auto simp: sel_ops_set)

text \<open>What the overrides ask of a metric: the last one that names it decides.\<close>

fun wanted :: "registry \<Rightarrow> override list \<Rightarrow> metric_id \<Rightarrow> bool \<Rightarrow> bool" where
  "wanted r [] i w = w"
| "wanted r (ov # ovs) i w =
     wanted r ovs i (if resolve_id r (ov_id ov) = Some i then ov_add ov else w)"

lemma apply_overrides_wanted:
  "sel_wf s \<Longrightarrow> apply_overrides r ovs s = Inr s' \<Longrightarrow>
    sel_wf s' \<and> (\<forall>i. i \<in> set (snd s') \<longleftrightarrow> wanted r ovs i (i \<in> set (snd s)))"
proof (induction ovs arbitrary: s)
  case (Cons ov ovs)
  then obtain i where i: "resolve_id r (ov_id ov) = Some i"
    by (auto split: option.splits)
  show ?case
    using Cons.IH [of "if ov_add ov then sel_add i s else sel_remove i s"] Cons.prems i
    by (auto simp: sel_ops_set split: if_splits)
qed simp

lemma apply_overrides_ok:
  "is_ok (apply_overrides r ovs s) \<longleftrightarrow> (\<forall>ov \<in> set ovs. resolve_id r (ov_id ov) \<noteq> None)"
  by (induction ovs arbitrary: s) (auto split: option.splits)

text \<open>
  Metric selection. A selection is resolved exactly when the profile is known and every
  override names a known metric; then it has no duplicates, and a metric is in it exactly
  when the last override naming it (by id or alias) adds it, or no override names it and the
  profile has it.
\<close>

theorem resolve_selection_spec:
  "(is_ok (resolve_selection r name ovs) \<longleftrightarrow>
      is_known_profile name \<and> (\<forall>ov \<in> set ovs. resolve_id r (ov_id ov) \<noteq> None)) \<and>
   (\<forall>base ids. resolve_profile r name = Inr base \<longrightarrow> resolve_selection r name ovs = Inr ids \<longrightarrow>
      distinct ids \<and> (\<forall>i. i \<in> set ids \<longleftrightarrow> wanted r ovs i (i \<in> set base)))"
proof (intro conjI allI impI)
  have known: "is_ok (resolve_profile r name) \<longleftrightarrow> is_known_profile name"
    by (auto simp: resolve_profile_def is_known_profile_def split: option.splits)
  show "is_ok (resolve_selection r name ovs) \<longleftrightarrow>
      is_known_profile name \<and> (\<forall>ov \<in> set ovs. resolve_id r (ov_id ov) \<noteq> None)"
  proof (cases "resolve_profile r name")
    case (Inr base)
    let ?r = "apply_overrides r ovs (fold sel_add base empty_selection)"
    have "is_ok (resolve_selection r name ovs) \<longleftrightarrow> is_ok ?r"
      by (cases ?r) (simp_all add: resolve_selection_def Inr)
    then show ?thesis
      using known Inr by (simp add: apply_overrides_ok)
  qed (use known in \<open>simp add: resolve_selection_def\<close>)
next
  fix base ids
  assume base: "resolve_profile r name = Inr base" and ids: "resolve_selection r name ovs = Inr ids"
  let ?s = "fold sel_add base empty_selection"
  have s: "sel_wf ?s" "set (snd ?s) = set base"
    using sel_base [OF sel_wf_ops(1), of base] by (simp_all add: empty_selection_def [THEN arg_cong [of _ _ snd]])
  from ids base obtain s' where "apply_overrides r ovs ?s = Inr s'" "ids = snd s'"
    by (auto simp: resolve_selection_def result_simps)
  with s show "distinct ids" "\<And>i. i \<in> set ids \<longleftrightarrow> wanted r ovs i (i \<in> set base)"
    using apply_overrides_wanted [of ?s r ovs s'] by (auto simp: sel_wf_def)
qed

definition sample_registry :: registry where
  "sample_registry = the (register_all new_registry builtin_perf)"

definition sample_overrides :: "override list" where
  "sample_overrides = [\<lparr>ov_add = False, ov_id = ''ipc''\<rparr>, \<lparr>ov_add = True, ov_id = ''cycles''\<rparr>]"

lemma sample_selection:
  "resolve_profile sample_registry ''perf'' =
     Inr [''cache-misses'', ''cache-references'', ''cycles'', ''instructions'', ''ipc''] \<and>
   resolve_selection sample_registry ''perf'' sample_overrides =
     Inr [''cache-misses'', ''cache-references'', ''cycles'', ''instructions'']"
  by code_simp

theorem resolve_selection_spec_witness:
  "\<exists>ids. resolve_selection sample_registry ''perf'' sample_overrides = Inr ids \<and> distinct ids \<and>
     (''ipc'' \<in> set ids \<longleftrightarrow> wanted sample_registry sample_overrides ''ipc'' True)"
proof -
  obtain base ids where r: "resolve_profile sample_registry ''perf'' = Inr base" "''ipc'' \<in> set base"
      "resolve_selection sample_registry ''perf'' sample_overrides = Inr ids"
    using sample_selection by simp
  have "distinct ids \<and> (\<forall>i. i \<in> set ids \<longleftrightarrow> wanted sample_registry sample_overrides i (i \<in> set base))"
    using resolve_selection_spec [of sample_registry "''perf''" sample_overrides] r(1,3) by blast
  then show ?thesis using r by auto
qed

end
