(* ===== verification/Query_Group.thy ===== *)
theory Query_Group
  imports Metrics_Builtin
begin

text \<open>
  Grouping, the first half of \<open>internal/query\<close>: the dimensions and what they extract
  (\<open>dimension.go\<close>), the query and row types (\<open>spec.go\<close>), bucketing and row helpers
  (\<open>helpers.go\<close>), and the aggregation of a group's metrics (\<open>aggregate.go\<close>).
\<close>

section \<open>Dimensions (\<open>dimension.go\<close>)\<close>

text \<open>
  \<open>extract\<close> gives the stable key and the label, or nothing when the value is unavailable (the
  code then returns empty strings beside \<open>false\<close>).
\<close>

record dimension =
  dim_id :: string
  dim_label :: string
  dim_desc :: string
  dim_extract :: "process \<Rightarrow> (string \<times> string) option"

record dimensions =
  dims_by_id :: "string \<rightharpoonup> dimension"
  dims_order :: "string list"

definition dim_key :: "dimension \<Rightarrow> process \<Rightarrow> (string \<times> string) option" where
  "dim_key d p = dim_extract d p"

definition describe :: "dimension \<Rightarrow> string \<Rightarrow> dimension" where
  "describe d s = d\<lparr>dim_desc := s\<rparr>"

definition dims_get :: "dimensions \<Rightarrow> string \<Rightarrow> dimension option" where
  "dims_get ds i = dims_by_id ds i"

definition dims_has :: "dimensions \<Rightarrow> string \<Rightarrow> bool" where
  "dims_has ds i \<longleftrightarrow> dims_by_id ds i \<noteq> None"

definition dims_ids :: "dimensions \<Rightarrow> string list" where
  "dims_ids ds = dims_order ds"

definition ns_dim :: "string \<Rightarrow> string \<Rightarrow> ns_type \<Rightarrow> dimension" where
  "ns_dim i l t = \<lparr>dim_id = i, dim_label = l, dim_desc = [], dim_extract =
     (\<lambda>p. case p_namespaces p t of
            None \<Rightarrow> None
          | Some ino \<Rightarrow> Some (show_u64 ino, ns_name t @ '':'' @ show_u64 ino))\<rparr>"

definition str_field :: "string \<Rightarrow> string \<Rightarrow> (process \<Rightarrow> string) \<Rightarrow> dimension" where
  "str_field i l get = \<lparr>dim_id = i, dim_label = l, dim_desc = [], dim_extract =
     (\<lambda>p. let v = get p in if v = [] then None else Some (v, v))\<rparr>"

definition int_field :: "string \<Rightarrow> string \<Rightarrow> (process \<Rightarrow> int) \<Rightarrow> dimension" where
  "int_field i l get = \<lparr>dim_id = i, dim_label = l, dim_desc = [], dim_extract =
     (\<lambda>p. let s = show_int (get p) in Some (s, s))\<rparr>"

definition default_dims :: "dimension list" where
  "default_dims =
    [describe \<lparr>dim_id = ''host'', dim_label = ''HOST'', dim_desc = [],
       dim_extract = (\<lambda>_. Some (''host'', ''HOST''))\<rparr> ''the whole host (a single group)'',
     str_field ''comm'' ''COMM'' p_comm,
     str_field ''name'' ''NAME'' display_name,
     str_field ''user'' ''USER'' p_user,
     describe (str_field ''exe'' ''EXE'' p_exe) ''executable path'',
     describe (str_field ''app'' ''APP'' p_app_id) ''application id (desktop/systemd app)'',
     describe (str_field ''cgroup'' ''CGROUP'' p_cgroup_path) ''control-group path (cgroup v2)'',
     str_field ''pstate'' ''PSTATE'' (\<lambda>p. [p_state p]),
     str_field ''wchan'' ''WCHAN'' p_wchan,
     str_field ''hostname'' ''HOSTNAME'' p_hostname,
     describe (str_field ''systemd-unit'' ''UNIT'' p_systemd_unit) ''systemd unit'',
     describe (str_field ''container'' ''CONTAINER'' p_container_id) ''container id'',
     describe (str_field ''pod'' ''POD'' p_pod_uid) ''pod uid'',
     int_field ''pid'' ''PID'' p_pid,
     int_field ''ppid'' ''PPID'' p_ppid,
     describe (int_field ''session'' ''SID'' p_sid) ''session id (SID)'',
     describe (int_field ''process-group'' ''PGID'' p_pgid) ''process-group id (PGID)'',
     \<lparr>dim_id = ''uid'', dim_label = ''UID'', dim_desc = [],
       dim_extract = (\<lambda>p. let s = show_nat (unat (p_uid p)) in Some (s, s))\<rparr>,
     describe (ns_dim ''pidns'' ''PIDNS'' NSPID) ''PID namespace inode'',
     describe (ns_dim ''netns'' ''NETNS'' NSNet) ''network namespace inode'',
     describe (ns_dim ''mntns'' ''MNTNS'' NSMount) ''mount namespace inode'',
     describe (ns_dim ''userns'' ''USERNS'' NSUser) ''user namespace inode'',
     describe (ns_dim ''cgroupns'' ''CGROUPNS'' NSCgroup) ''cgroup namespace inode'',
     describe \<lparr>dim_id = ''namespace-set'', dim_label = ''NS-SET'', dim_desc = [],
       dim_extract = (\<lambda>p. let k = ns_set_key (p_namespaces p) in
         if k = [] then None else Some (k, k))\<rparr> ''combined namespace membership key'']"

definition new_dimensions :: dimensions where
  "new_dimensions = foldl
     (\<lambda>reg d. reg\<lparr>dims_by_id := (dims_by_id reg)(dim_id d \<mapsto> d), dims_order := dims_order reg @ [dim_id d]\<rparr>)
     \<lparr>dims_by_id = Map.empty, dims_order = []\<rparr> default_dims"

section \<open>Queries and rows (\<open>spec.go\<close>)\<close>

datatype row_kind = RowHost | RowGroup | RowProcess | RowThread

fun kind_name :: "row_kind \<Rightarrow> string" where
  "kind_name RowHost = ''host''"
| "kind_name RowGroup = ''group''"
| "kind_name RowProcess = ''process''"
| "kind_name RowThread = ''thread''"

text \<open>A leaf mode is a string; \<open>process\<close> is also what an unknown one means to the engine.\<close>

type_synonym leaf_mode = string

definition LeafProcess :: leaf_mode where "LeafProcess = ''process''"
definition LeafThread :: leaf_mode where "LeafThread = ''thread''"
definition LeafNone :: leaf_mode where "LeafNone = ''none''"

record sort_field =
  sk_field :: string
  sk_descending :: bool

record row_data =
  r_kind :: row_kind
  r_dimension_id :: string
  r_key :: string
  r_label :: string
  r_children :: int
  r_procs :: int
  r_threads :: int
  r_leaves :: int
  r_metrics :: "metric_id \<rightharpoonup> metric_value"
  r_process :: "process option"
  r_thread :: "thread option"

datatype row = Row (row_data: row_data) (row_sub: "row list")

text \<open>All the rows of a tree, a row before the rows below it.\<close>

fun nodes :: "row \<Rightarrow> row_data list" where
  "nodes (Row d sub) = d # concat (map nodes sub)"

definition forest :: "row list \<Rightarrow> row_data list" where
  "forest rows = concat (map nodes rows)"

record query_spec =
  q_metrics :: "metric_id list"
  q_select :: "(process \<Rightarrow> bool) option"
  q_group_by :: "string list"
  q_leaf :: leaf_mode
  q_having :: "(row \<Rightarrow> bool) option"
  q_sort :: "sort_field list"
  q_columns :: "string list"
  q_limit :: int

section \<open>Buckets and row helpers (\<open>helpers.go\<close>)\<close>

definition unknown_key :: string where
  "unknown_key = char_of (0 :: nat) # ''unknown''"

definition bucket_key :: "dimension \<Rightarrow> process \<Rightarrow> string" where
  "bucket_key d p = (case dim_key d p of Some (k, _) \<Rightarrow> k | None \<Rightarrow> unknown_key)"

definition bucket_step ::
  "dimension \<Rightarrow> string list \<times> (string \<rightharpoonup> process list) \<Rightarrow> process \<Rightarrow>
    string list \<times> (string \<rightharpoonup> process list)" where
  "bucket_step d st p = (let (order, buckets) = st; k = bucket_key d p in
     (case buckets k of
        None \<Rightarrow> (order @ [k], buckets(k \<mapsto> [p]))
      | Some ps \<Rightarrow> (order, buckets(k \<mapsto> ps @ [p]))))"

definition bucket_by ::
  "process list \<Rightarrow> dimension \<Rightarrow> string list \<times> (string \<rightharpoonup> process list)" where
  "bucket_by procs d = foldl (bucket_step d) ([], Map.empty) procs"

definition bucket_label :: "dimension \<Rightarrow> process list \<Rightarrow> string \<Rightarrow> string" where
  "bucket_label d procs key =
     (if key = unknown_key then dim_id d @ '':?''
      else (case procs of
          p # _ \<Rightarrow> (case dim_key d p of Some (_, l) \<Rightarrow> l | None \<Rightarrow> key)
        | [] \<Rightarrow> key))"

definition leaf_label :: "process \<Rightarrow> string" where
  "leaf_label p = (let n = display_name p in if n \<noteq> [] then n else ''pid:'' @ show_int (p_pid p))"

definition proc_thread_count :: "process \<Rightarrow> int" where
  "proc_thread_count p =
     (if length (p_threads p) > 0 then int (length (p_threads p)) else p_num_threads p)"

definition project_metrics ::
  "(metric_id \<rightharpoonup> metric_value) \<Rightarrow> metric_id list \<Rightarrow> (metric_id \<rightharpoonup> metric_value)" where
  "project_metrics src ids = foldl
     (\<lambda>out i. out(i \<mapsto> (case src i of Some v \<Rightarrow> v | None \<Rightarrow> unavailable Disabled [])))
     Map.empty ids"

section \<open>Aggregation (\<open>aggregate.go\<close>)\<close>

definition present_values :: "process list \<Rightarrow> metric_id \<Rightarrow> f64 list" where
  "present_values procs i = List.map_filter (\<lambda>p. get_reading (metric p i)) procs"

definition minf :: "f64 \<Rightarrow> f64 \<Rightarrow> f64" where
  "minf a b = (if f_lt b a then b else a)"

definition maxf :: "f64 \<Rightarrow> f64 \<Rightarrow> f64" where
  "maxf a b = (if f_lt a b then b else a)"

definition mixed_value :: "f64 \<Rightarrow> f64 list \<Rightarrow> metric_value" where
  "mixed_value first vals =
     (if (\<exists>v \<in> set vals. \<not> f_eq v first)
      then \<lparr>rd_value = first, rd_avail = Available, rd_quality = Mixed, rd_source = ''aggregate''\<rparr>
      else new_value first Derived ''aggregate'')"

definition aggregate_one :: "aggregation \<Rightarrow> metric_id \<Rightarrow> process list \<Rightarrow> metric_value" where
  "aggregate_one agg i procs =
     (case present_values procs i of
        [] \<Rightarrow> unavailable Disabled ''aggregate''
      | v # vs \<Rightarrow>
          (case agg of
             AggMin \<Rightarrow> new_value (foldl minf v vs) Derived ''aggregate''
           | AggMax \<Rightarrow> new_value (foldl maxf v vs) Derived ''aggregate''
           | AggMixed \<Rightarrow> mixed_value v vs
           | _ \<Rightarrow> new_value (foldl f_add v vs) Derived ''aggregate''))"

definition aggregation_of :: "registry \<Rightarrow> metric_id \<Rightarrow> aggregation" where
  "aggregation_of reg i = (case reg_get reg i of Some d \<Rightarrow> d_agg d | None \<Rightarrow> AggSum)"

definition aggregate_metrics ::
  "registry \<Rightarrow> process list \<Rightarrow> metric_id list \<Rightarrow> (metric_id \<rightharpoonup> metric_value)" where
  "aggregate_metrics reg procs ids =
     foldl (\<lambda>out i. out(i \<mapsto> aggregate_one (aggregation_of reg i) i procs)) Map.empty ids"

section \<open>The dimension registry\<close>

lemma dims_fold:
  "dims_order (foldl (\<lambda>reg d. reg\<lparr>dims_by_id := (dims_by_id reg)(dim_id d \<mapsto> d),
      dims_order := dims_order reg @ [dim_id d]\<rparr>) r ds) = dims_order r @ map dim_id ds"
  "dims_by_id (foldl (\<lambda>reg d. reg\<lparr>dims_by_id := (dims_by_id reg)(dim_id d \<mapsto> d),
      dims_order := dims_order reg @ [dim_id d]\<rparr>) r ds) =
    dims_by_id r ++ map_of (map (\<lambda>d. (dim_id d, d)) (rev ds))"
  by (induction ds arbitrary: r) (simp_all add: map_add_upd_left)

lemmas default_dims_simps =
  default_dims_def str_field_def int_field_def ns_dim_def describe_def

lemma default_dims_ids: "map dim_id default_dims =
    [''host'', ''comm'', ''name'', ''user'', ''exe'', ''app'', ''cgroup'', ''pstate'', ''wchan'',
     ''hostname'', ''systemd-unit'', ''container'', ''pod'', ''pid'', ''ppid'', ''session'',
     ''process-group'', ''uid'', ''pidns'', ''netns'', ''mntns'', ''userns'', ''cgroupns'',
     ''namespace-set'']"
  by (simp add: default_dims_simps)

lemma default_dims_distinct: "distinct (map dim_id default_dims)"
  unfolding default_dims_ids by code_simp

lemma new_dimensions_get:
  "dims_get new_dimensions i = Some d \<longleftrightarrow> d \<in> set default_dims \<and> dim_id d = i"
proof -
  have "distinct (map fst (map (\<lambda>d. (dim_id d, d)) (rev default_dims)))"
    using default_dims_distinct by (simp add: comp_def rev_map [symmetric])
  from map_of_eq_Some_iff [OF this] show ?thesis
    by (auto simp: dims_get_def new_dimensions_def dims_fold)
qed

section \<open>Bucketing\<close>

lemma bucket_fold:
  assumes "\<And>k. buckets k = None \<longleftrightarrow> k \<notin> set order"
  shows "foldl (bucket_step d) (order, buckets) procs =
    (first_seen order (map (bucket_key d) procs),
     \<lambda>k. if k \<in> set order \<union> bucket_key d ` set procs
          then Some (case buckets k of Some ps \<Rightarrow> ps @ filter (\<lambda>p. bucket_key d p = k) procs
                                   | None \<Rightarrow> filter (\<lambda>p. bucket_key d p = k) procs) else None)"
  using assms
proof (induction procs arbitrary: order buckets)
  case Nil
  then show ?case by (auto simp: fun_eq_iff split: option.split)
next
  case (Cons p procs)
  let ?k = "bucket_key d p"
  let ?order = "add_new order ?k"
  let ?buckets = "buckets(?k \<mapsto> (case buckets ?k of Some ps \<Rightarrow> ps @ [p] | None \<Rightarrow> [p]))"
  have step: "bucket_step d (order, buckets) p = (?order, ?buckets)"
    using Cons.prems [of ?k]
    by (cases "buckets ?k") (auto simp: bucket_step_def add_new.simps Let_def)
  have "\<And>k. ?buckets k = None \<longleftrightarrow> k \<notin> set ?order"
    using Cons.prems by auto
  note IH = Cons.IH [OF this]
  show ?case
    unfolding foldl_Cons step IH
    using Cons.prems [of ?k] by (auto simp: fun_eq_iff split: option.split)
qed

lemma bucket_by_eq:
  "bucket_by procs d = (first_seen [] (map (bucket_key d) procs),
     \<lambda>k. if k \<in> bucket_key d ` set procs then Some (filter (\<lambda>p. bucket_key d p = k) procs) else None)"
  using bucket_fold [of Map.empty "[]" d procs] by (simp add: bucket_by_def cong: if_cong)

text \<open>Taking the buckets one after the other only reorders the processes.\<close>

lemma mset_buckets:
  assumes "distinct order" and "f ` set xs \<subseteq> set order"
  shows "mset (concat (map (\<lambda>k. filter (\<lambda>x. f x = k) xs) order)) = mset xs"
  using assms
proof (induction order arbitrary: xs)
  case (Cons k order)
  let ?rest = "filter (\<lambda>x. f x \<noteq> k) xs"
  have "map (\<lambda>j. filter (\<lambda>x. f x = j) xs) order = map (\<lambda>j. filter (\<lambda>x. f x = j) ?rest) order"
    using Cons.prems(1) by (auto intro!: filter_cong)
  moreover have "mset (concat (map (\<lambda>j. filter (\<lambda>x. f x = j) ?rest) order)) = mset ?rest"
    using Cons.prems by (intro Cons.IH) auto
  ultimately have "mset (concat (map (\<lambda>j. filter (\<lambda>x. f x = j) xs) order)) = mset ?rest"
    by (simp only:)
  then show ?case
    using mset_partition [of "\<lambda>x. f x = k" xs] by simp
qed simp

text \<open>
  Buckets. Whatever the dimension extracts, bucketing splits the processes: every
  process is in the bucket of its own key (or of the unknown key), none is lost or repeated,
  every bucket keeps the snapshot order, and no bucket is empty or listed twice.
\<close>

theorem bucket_by_splits:
  "\<exists>order buckets. bucket_by procs d = (order, buckets) \<and> distinct order \<and> dom buckets = set order \<and>
     set order = bucket_key d ` set procs \<and>
     (\<forall>k. buckets k = (if k \<in> set order then Some (filter (\<lambda>p. bucket_key d p = k) procs) else None)) \<and>
     mset (concat (map (the \<circ> buckets) order)) = mset procs"
proof -
  let ?order = "first_seen [] (map (bucket_key d) procs)"
  have "mset (concat (map (\<lambda>k. filter (\<lambda>p. bucket_key d p = k) procs) ?order)) = mset procs"
    by (rule mset_buckets) simp_all
  moreover have "map (the \<circ> snd (bucket_by procs d)) ?order =
      map (\<lambda>k. filter (\<lambda>p. bucket_key d p = k) procs) ?order"
    by (auto simp: bucket_by_eq)
  ultimately have "mset (concat (map (the \<circ> snd (bucket_by procs d)) ?order)) = mset procs"
    by (simp only:)
  then show ?thesis
    by (intro exI [of _ ?order] exI [of _ "snd (bucket_by procs d)"])
      (auto simp: bucket_by_eq dom_def)
qed

section \<open>Projection and aggregation\<close>

lemma foldl_map_upd:
  "foldl (\<lambda>out i. out(i \<mapsto> f i)) m ids = (\<lambda>i. if i \<in> set ids then Some (f i) else m i)"
  by (induction ids arbitrary: m) (auto simp: fun_eq_iff)

lemma project_metrics_eq:
  "project_metrics src ids = (\<lambda>i. if i \<in> set ids
     then Some (case src i of Some v \<Rightarrow> v | None \<Rightarrow> unavailable Disabled []) else None)"
  by (simp add: project_metrics_def foldl_map_upd)

lemma aggregate_metrics_eq:
  "aggregate_metrics reg procs ids = (\<lambda>i. if i \<in> set ids
     then Some (aggregate_one (aggregation_of reg i) i procs) else None)"
  by (simp add: aggregate_metrics_def foldl_map_upd)

lemma present_values_Nil_iff:
  "present_values procs i = [] \<longleftrightarrow> (\<forall>p \<in> set procs. \<not> present (metric p i))"
  by (induction procs) (auto simp: present_values_def map_filter_simps get_reading_def split: option.split)

lemma foldl_extreme:
  assumes "v \<noteq> NaN" and "\<forall>x \<in> set vs. x \<noteq> NaN"
  shows "foldl maxf v vs \<in> set (v # vs) \<and> (\<forall>x \<in> set (v # vs). \<not> f_lt (foldl maxf v vs) x)"
    and "foldl minf v vs \<in> set (v # vs) \<and> (\<forall>x \<in> set (v # vs). \<not> f_lt x (foldl minf v vs))"
proof -
  show "foldl maxf v vs \<in> set (v # vs) \<and> (\<forall>x \<in> set (v # vs). \<not> f_lt (foldl maxf v vs) x)"
    using assms
  proof (induction vs arbitrary: v)
    case (Cons w vs)
    have "maxf v w \<noteq> NaN" using Cons.prems by (simp add: maxf_def)
    moreover have "\<not> f_lt (maxf v w) v" "\<not> f_lt (maxf v w) w" "maxf v w \<in> {v, w}"
      using f_lt_asym [of v w] by (auto simp: maxf_def)
    moreover have "\<not> f_lt a b \<Longrightarrow> \<not> f_lt b c \<Longrightarrow> b \<noteq> NaN \<Longrightarrow> \<not> f_lt a c" for a b c
      using f_lt_negtrans by blast
    ultimately show ?case
      using Cons.IH [of "maxf v w"] Cons.prems by auto
  qed simp
  show "foldl minf v vs \<in> set (v # vs) \<and> (\<forall>x \<in> set (v # vs). \<not> f_lt x (foldl minf v vs))"
    using assms
  proof (induction vs arbitrary: v)
    case (Cons w vs)
    have "minf v w \<noteq> NaN" using Cons.prems by (simp add: minf_def)
    moreover have "\<not> f_lt v (minf v w)" "\<not> f_lt w (minf v w)" "minf v w \<in> {v, w}"
      using f_lt_asym [of w v] by (auto simp: minf_def)
    moreover have "\<not> f_lt a b \<Longrightarrow> \<not> f_lt b c \<Longrightarrow> b \<noteq> NaN \<Longrightarrow> \<not> f_lt a c" for a b c
      using f_lt_negtrans by blast
    ultimately show ?case
      using Cons.IH [of "minf v w"] Cons.prems by auto
  qed simp
qed

lemma aggregate_one_present:
  "present (aggregate_one agg i procs) \<longleftrightarrow> (\<exists>p \<in> set procs. present (metric p i))"
proof -
  have "present (mixed_value v vs)" for v vs
    by (simp add: mixed_value_def present_def new_value_def)
  then show ?thesis
    using present_values_Nil_iff [of procs i]
    by (cases "present_values procs i"; cases agg) (auto simp: aggregate_one_def)
qed

text \<open>
  Unknown is not zero. A group's metric is available exactly when some member has a
  reading of it; members without one take no part: the aggregate is that of the other
  members alone.
\<close>

theorem aggregate_unknown_not_zero:
  "(present (aggregate_one agg i procs) \<longleftrightarrow> (\<exists>p \<in> set procs. present (metric p i))) \<and>
   aggregate_one agg i procs = aggregate_one agg i (filter (\<lambda>p. present (metric p i)) procs)"
proof -
  have "present_values procs i = present_values (filter (\<lambda>p. present (metric p i)) procs) i"
    by (induction procs) (auto simp: present_values_def map_filter_simps get_reading_def)
  then show ?thesis
    using aggregate_one_present [of agg i procs] by (simp add: aggregate_one_def)
qed

end
