(* ===== verification/Query_Sort.thy ===== *)
theory Query_Sort
  imports Query_Group
begin

text \<open>
  Sorting, \<open>internal/query/sort.go\<close>. The interface of a comparison the standard library's
  stable sort can be used with is the locale \<open>weak_order\<close>; its facts about the sort are
  proved once, and the comparison of the code is an instance wherever no compared metric is
  a NaN (a NaN compares with everything and the order is then not one).
\<close>

section \<open>Strict weak orders and the stable sort\<close>

text \<open>
  \<open>sort.SliceStable\<close> documents a stable result for a strict weak order, which determines it;
  this is the insertion sort it runs on short slices, the sorted prefix held reversed.
\<close>

fun go_insert :: "('a \<Rightarrow> 'a \<Rightarrow> bool) \<Rightarrow> 'a \<Rightarrow> 'a list \<Rightarrow> 'a list" where
  "go_insert lt x [] = [x]"
| "go_insert lt x (r # rs) = (if lt x r then r # go_insert lt x rs else x # r # rs)"

definition stable_sort :: "('a \<Rightarrow> 'a \<Rightarrow> bool) \<Rightarrow> 'a list \<Rightarrow> 'a list" where
  "stable_sort lt xs = rev (foldl (\<lambda>rs x. go_insert lt x rs) [] xs)"

lemma mset_go_insert [simp]: "mset (go_insert lt x rs) = add_mset x (mset rs)"
  by (induction rs) auto

lemma mset_go_inserts: "mset (foldl (\<lambda>rs x. go_insert lt x rs) rs xs) = mset rs + mset xs"
  by (induction xs arbitrary: rs) auto

lemma mset_stable_sort [simp]: "mset (stable_sort lt xs) = mset xs"
  by (simp add: stable_sort_def mset_go_inserts)

lemma set_stable_sort [simp]: "set (stable_sort lt xs) = set xs"
  by (rule mset_eq_setD) simp

lemma set_go_insert [simp]: "set (go_insert lt x rs) = insert x (set rs)"
  by (induction rs) auto

lemma go_insert_map:
  "go_insert lt (f x) (map f rs) = map f (go_insert (\<lambda>a b. lt (f a) (f b)) x rs)"
  by (induction rs) auto

lemma stable_sort_map: "stable_sort lt (map f xs) = map f (stable_sort (\<lambda>a b. lt (f a) (f b)) xs)"
proof -
  have "foldl (\<lambda>rs x. go_insert lt x rs) (map f rs) (map f xs)
      = map f (foldl (\<lambda>rs x. go_insert (\<lambda>a b. lt (f a) (f b)) x rs) rs xs)" for rs
    by (induction xs arbitrary: rs) (simp_all add: go_insert_map)
  from this [of "[]"] show ?thesis by (simp add: stable_sort_def rev_map)
qed

locale weak_order =
  fixes carrier :: "'a \<Rightarrow> bool" and lt :: "'a \<Rightarrow> 'a \<Rightarrow> bool"
  assumes asym: "carrier x \<Longrightarrow> carrier y \<Longrightarrow> lt x y \<Longrightarrow> \<not> lt y x"
    and negtrans: "carrier x \<Longrightarrow> carrier y \<Longrightarrow> carrier z \<Longrightarrow> lt x z \<Longrightarrow> lt x y \<or> lt y z"
begin

definition tied :: "'a \<Rightarrow> 'a \<Rightarrow> bool" where
  "tied x y \<longleftrightarrow> \<not> lt x y \<and> \<not> lt y x"

lemma insert_sorted:
  assumes "carrier x" and "\<forall>r \<in> set rs. carrier r" and "sorted_wrt (\<lambda>a b. \<not> lt a b) rs"
  shows "sorted_wrt (\<lambda>a b. \<not> lt a b) (go_insert lt x rs)"
  using assms
proof (induction rs)
  case (Cons r rs)
  show ?case
  proof (cases "lt x r")
    case True
    then show ?thesis using Cons asym by auto
  next
    case False
    then have "\<forall>y \<in> set rs. \<not> lt x y"
      using Cons.prems negtrans [of x r] by auto
    then show ?thesis using False Cons.prems by auto
  qed
qed simp

lemma insert_stable:
  assumes "carrier a" and "carrier x" and "\<forall>r \<in> set rs. carrier r"
  shows "filter (tied a) (go_insert lt x rs) = (if tied a x then [x] else []) @ filter (tied a) rs"
  using assms(3)
proof (induction rs)
  case (Cons r rs)
  have "tied a x \<Longrightarrow> lt x r \<Longrightarrow> \<not> tied a r"
    using negtrans [of x a r] assms Cons.prems by (auto simp: tied_def)
  then show ?case using Cons by auto
qed simp

lemma stable_sort_sorted:
  assumes "\<forall>x \<in> set xs. carrier x"
  shows "sorted_wrt (\<lambda>a b. \<not> lt b a) (stable_sort lt xs)"
proof -
  have "sorted_wrt (\<lambda>a b. \<not> lt a b) (foldl (\<lambda>rs x. go_insert lt x rs) rs xs)"
    if "\<forall>x \<in> set rs. carrier x" "sorted_wrt (\<lambda>a b. \<not> lt a b) rs" for rs
    using assms that by (induction xs arbitrary: rs) (simp_all add: insert_sorted)
  from this [of "[]"] show ?thesis
    by (simp add: stable_sort_def sorted_wrt_rev)
qed

lemma stable_sort_stable:
  assumes "\<forall>x \<in> set xs. carrier x" and "carrier a"
  shows "filter (tied a) (stable_sort lt xs) = filter (tied a) xs"
proof -
  have "filter (tied a) (foldl (\<lambda>rs x. go_insert lt x rs) rs xs)
      = rev (filter (tied a) xs) @ filter (tied a) rs"
    if "\<forall>x \<in> set rs. carrier x" for rs
    using assms that by (induction xs arbitrary: rs) (simp_all add: insert_stable)
  from this [of "[]"] show ?thesis
    by (simp add: stable_sort_def rev_filter [symmetric])
qed

end

text \<open>Comparing by one order and, where it ties, by the next.\<close>

lemma weak_order_lex:
  assumes "weak_order C l1" and "weak_order C l2"
  shows "weak_order C (\<lambda>a b. l1 a b \<or> (\<not> l1 b a \<and> l2 a b))"
proof (unfold_locales, goal_cases)
  case (1 x y)
  then show ?case
    using weak_order.asym [OF assms(1), of x y] weak_order.asym [OF assms(2), of x y] by auto
next
  case (2 x y z)
  then show ?case
    using weak_order.negtrans [OF assms(1), of x y z] weak_order.negtrans [OF assms(1), of y z x]
      weak_order.negtrans [OF assms(1), of z x y] weak_order.asym [OF assms(1), of y z]
      weak_order.asym [OF assms(1), of x y] weak_order.negtrans [OF assms(2), of x y z]
    by blast
qed

lemma weak_order_cong:
  assumes "weak_order C l1" and "\<And>x y. C x \<Longrightarrow> C y \<Longrightarrow> l1 x y = l2 x y"
  shows "weak_order C l2"
  using assms unfolding weak_order_def by metis

lemma weak_order_subset: "weak_order C l \<Longrightarrow> (\<And>x. D x \<Longrightarrow> C x) \<Longrightarrow> weak_order D l"
  unfolding weak_order_def by metis

lemma weak_order_measure: "weak_order C (\<lambda>a b. f a < (f b :: 'k :: linorder))"
  by unfold_locales auto

section \<open>Comparing rows (\<open>sort.go\<close>)\<close>

text \<open>A row is compared by its own data; what is below it plays no part.\<close>

definition field_value :: "row_data \<Rightarrow> string \<Rightarrow> f64 \<times> bool \<times> string \<times> bool" where
  "field_value r field =
     (if field = ''target'' \<or> field = ''label'' \<or> field = ''comm'' \<or> field = ''name''
        then (Fin 0, False, r_label r, True)
      else if field = ''procs'' then (f_of_int (r_procs r), True, [], False)
      else if field = ''threads'' then (f_of_int (r_threads r), True, [], False)
      else if field = ''children'' then (f_of_int (r_children r), True, [], False)
      else if field = ''leaves'' then (f_of_int (r_leaves r), True, [], False)
      else if field = ''pid'' then
        (case r_process r of
           Some p \<Rightarrow> (f_of_int (p_pid p), True, [], False)
         | None \<Rightarrow> (Fin 0, False, [], False))
      else (case r_metrics r field of
          Some v \<Rightarrow> (case get_reading v of
              Some x \<Rightarrow> (x, True, [], False)
            | None \<Rightarrow> (Fin 0, False, [], False))
        | None \<Rightarrow> (Fin 0, False, [], False)))"

definition cmp_string :: "string \<Rightarrow> string \<Rightarrow> int" where
  "cmp_string a b = (if a < b then - 1 else if a > b then 1 else 0)"

definition less_string :: "string \<Rightarrow> string \<Rightarrow> bool \<Rightarrow> bool \<times> bool" where
  "less_string as bs desc =
     (let c = cmp_string as bs in
      if c = 0 then (False, False)
      else if desc then (True, c > 0)
      else (True, c < 0))"

definition less_numeric :: "f64 \<Rightarrow> bool \<Rightarrow> f64 \<Rightarrow> bool \<Rightarrow> bool \<Rightarrow> bool \<times> bool" where
  "less_numeric an a_ok bn b_ok desc =
     (if \<not> a_ok \<and> \<not> b_ok then (False, False)
      else if a_ok \<and> \<not> b_ok then (True, True)
      else if \<not> a_ok \<and> b_ok then (True, False)
      else if f_eq an bn then (False, False)
      else if desc then (True, f_lt bn an)
      else (True, f_lt an bn))"

definition less_by_key :: "row_data \<Rightarrow> row_data \<Rightarrow> sort_field \<Rightarrow> bool \<times> bool" where
  "less_by_key a b k =
     (let (an, a_ok, as, a_str) = field_value a (sk_field k);
          (bn, b_ok, bs, b_str) = field_value b (sk_field k)
      in if a_str \<or> b_str then less_string as bs (sk_descending k)
         else less_numeric an a_ok bn b_ok (sk_descending k))"

definition tie_break :: "row_data \<Rightarrow> row_data \<Rightarrow> bool" where
  "tie_break a b =
     (if r_kind a \<noteq> r_kind b then kind_name (r_kind a) < kind_name (r_kind b)
      else if r_label a \<noteq> r_label b then r_label a < r_label b
      else r_key a < r_key b)"

fun row_less :: "sort_field list \<Rightarrow> row_data \<Rightarrow> row_data \<Rightarrow> bool" where
  "row_less [] a b = tie_break a b"
| "row_less (k # ks) a b =
     (case less_by_key a b k of (decided, a_first) \<Rightarrow> if decided then a_first else row_less ks a b)"

definition sort_rows :: "sort_field list \<Rightarrow> row list \<Rightarrow> row list" where
  "sort_rows ks rows = stable_sort (\<lambda>a b. row_less ks (row_data a) (row_data b)) rows"

lemma set_sort_rows [simp]: "set (sort_rows ks rows) = set rows"
  by (simp add: sort_rows_def)

lemma size_row_sub: "r \<in> set rows \<Longrightarrow> size_list size (row_sub r) < size_list size rows"
proof (induction rows)
  case (Cons r' rows)
  then show ?case by (cases r) (auto simp: less_Suc_eq_le)
qed simp

function sort_tree :: "sort_field list \<Rightarrow> row list \<Rightarrow> row list" where
  "sort_tree ks rows =
     map (\<lambda>r. Row (row_data r) (sort_tree ks (row_sub r))) (sort_rows ks rows)"
  by auto
termination
  by (relation "measure (\<lambda>(_, rows). size_list size rows)") (auto intro: size_row_sub)

declare sort_tree.simps [simp del]

section \<open>The comparison is a strict weak order\<close>

text \<open>What a key reads of a row: a label, or a number where there is one.\<close>

definition numeric_value :: "row_data \<Rightarrow> string \<Rightarrow> f64 option" where
  "numeric_value r field = (case field_value r field of (x, ok, _, _) \<Rightarrow> if ok then Some x else None)"

definition is_label_field :: "string \<Rightarrow> bool" where
  "is_label_field field \<longleftrightarrow> field = ''target'' \<or> field = ''label'' \<or> field = ''comm'' \<or> field = ''name''"

text \<open>No key reads a NaN from the row.\<close>

definition nan_free :: "sort_field list \<Rightarrow> row_data \<Rightarrow> bool" where
  "nan_free ks r \<longleftrightarrow> (\<forall>k \<in> set ks. numeric_value r (sk_field k) \<noteq> Some NaN)"

definition key_less :: "sort_field \<Rightarrow> row_data \<Rightarrow> row_data \<Rightarrow> bool" where
  "key_less k a b \<longleftrightarrow> less_by_key a b k = (True, True)"

lemma field_value_label:
  "is_label_field f \<Longrightarrow> field_value r f = (Fin 0, False, r_label r, True)"
  by (auto simp: field_value_def is_label_field_def)

lemma field_value_numeric:
  assumes "\<not> is_label_field f"
  obtains (some) x where "field_value r f = (x, True, [], False)" "numeric_value r f = Some x"
    | (none) "field_value r f = (Fin 0, False, [], False)" "numeric_value r f = None"
proof -
  have "(\<exists>x. field_value r f = (x, True, [], False)) \<or> field_value r f = (Fin 0, False, [], False)"
    using assms by (auto simp: field_value_def is_label_field_def split: option.splits)
  then show ?thesis
    using that by (auto simp: numeric_value_def)
qed

lemma key_less_label:
  assumes "is_label_field (sk_field k)"
  shows "key_less k a b \<longleftrightarrow> (if sk_descending k then r_label b < r_label a else r_label a < r_label b)"
    and "less_by_key a b k = (r_label a \<noteq> r_label b, key_less k a b)"
  by (auto simp: key_less_def less_by_key_def field_value_label [OF assms] less_string_def
      cmp_string_def)

lemma key_less_numeric:
  assumes "\<not> is_label_field (sk_field k)"
  shows "key_less k a b \<longleftrightarrow>
    (case (numeric_value a (sk_field k), numeric_value b (sk_field k)) of
       (Some x, Some y) \<Rightarrow> if sk_descending k then f_lt y x else f_lt x y
     | (Some _, None) \<Rightarrow> True
     | (None, _) \<Rightarrow> False)"
  by (rule field_value_numeric [OF assms, of a]; rule field_value_numeric [OF assms, of b])
    (auto simp: key_less_def less_by_key_def less_numeric_def f_eq_iff split: if_splits)

lemma key_less_weak_order: "weak_order (nan_free [k]) (key_less k)"
proof (cases "is_label_field (sk_field k)")
  case True
  then show ?thesis
    by unfold_locales (auto simp: key_less_label split: if_splits)
next
  case False
  show ?thesis
  proof (unfold_locales, goal_cases)
    case (1 x y)
    then show ?case
      using f_lt_asym by (auto simp: key_less_numeric [OF False] split: option.splits if_splits)
  next
    case (2 x y z)
    then show ?case
      using f_lt_negtrans
      by (auto simp: key_less_numeric [OF False] nan_free_def split: option.splits if_splits) blast+
  qed
qed

lemma less_by_key_decided:
  assumes "nan_free [k] a" and "nan_free [k] b"
  shows "less_by_key a b k = (key_less k a b \<or> key_less k b a, key_less k a b)"
proof (cases "is_label_field (sk_field k)")
  case True
  then show ?thesis by (auto simp: key_less_label)
next
  case False
  show ?thesis
    by (rule field_value_numeric [OF False, of a]; rule field_value_numeric [OF False, of b])
      (use f_lt_linear assms in \<open>auto simp: key_less_numeric [OF False] less_by_key_def
        less_numeric_def f_eq_iff nan_free_def dest: f_lt_asym\<close>)
qed

lemma kind_name_inject [simp]: "kind_name a = kind_name b \<longleftrightarrow> a = b"
  by (cases a; cases b; simp)

lemma tie_break_weak_order: "weak_order C tie_break"
proof (rule weak_order_cong)
  show "weak_order C (\<lambda>a b. kind_name (r_kind a) < kind_name (r_kind b) \<or>
      (\<not> kind_name (r_kind b) < kind_name (r_kind a) \<and>
        (r_label a < r_label b \<or> (\<not> r_label b < r_label a \<and> r_key a < r_key b))))"
    by (rule weak_order_lex weak_order_measure)+
  show "(kind_name (r_kind a) < kind_name (r_kind b) \<or>
      (\<not> kind_name (r_kind b) < kind_name (r_kind a) \<and>
        (r_label a < r_label b \<or> (\<not> r_label b < r_label a \<and> r_key a < r_key b)))) = tie_break a b" for a b
    unfolding tie_break_def
    by (cases "kind_name (r_kind a)" "kind_name (r_kind b)" rule: linorder_cases;
        cases "r_label a" "r_label b" rule: linorder_cases) auto
qed

lemma row_less_Cons:
  assumes "nan_free [k] a" and "nan_free [k] b"
  shows "row_less (k # ks) a b \<longleftrightarrow> key_less k a b \<or> (\<not> key_less k b a \<and> row_less ks a b)"
  using less_by_key_decided [OF assms] weak_order.asym [OF key_less_weak_order assms]
  by auto

lemma row_less_weak_order: "weak_order (nan_free ks) (row_less ks)"
proof (induction ks)
  case Nil
  show ?case
    by (rule weak_order_cong [OF tie_break_weak_order]) simp
next
  case (Cons k ks)
  have "weak_order (nan_free (k # ks)) (key_less k)" "weak_order (nan_free (k # ks)) (row_less ks)"
    by (rule weak_order_subset [OF key_less_weak_order] weak_order_subset [OF Cons.IH],
        simp add: nan_free_def)+
  from weak_order_lex [OF this] show ?case
    by (rule weak_order_cong) (simp add: row_less_Cons nan_free_def del: row_less.simps)
qed

text \<open>The rows, with the data compared: an instance of the sort's interface.\<close>

interpretation rows: weak_order "\<lambda>r. nan_free ks (row_data r)" "\<lambda>a b. row_less ks (row_data a) (row_data b)" for ks
  using row_less_weak_order [of ks] by unfold_locales (auto simp: weak_order_def)

definition rows_tied :: "sort_field list \<Rightarrow> row \<Rightarrow> row \<Rightarrow> bool" where
  "rows_tied ks a b \<longleftrightarrow>
     \<not> row_less ks (row_data a) (row_data b) \<and> \<not> row_less ks (row_data b) (row_data a)"

definition rows_ordered :: "sort_field list \<Rightarrow> row list \<Rightarrow> bool" where
  "rows_ordered ks = sorted_wrt (\<lambda>a b. \<not> row_less ks (row_data b) (row_data a))"

lemma sort_rows_ordered:
  "\<forall>r \<in> set rows. nan_free ks (row_data r) \<Longrightarrow> rows_ordered ks (sort_rows ks rows)"
  unfolding rows_ordered_def sort_rows_def by (rule rows.stable_sort_sorted)

text \<open>
  Sorting siblings. Where no sort key reads a NaN, \<open>sortRows\<close> permutes the rows, leaves
  none before a row that must precede it, and keeps rows that tie on every key in their
  first-seen order.
\<close>

theorem sort_rows_correct:
  assumes "\<forall>r \<in> set rows. nan_free ks (row_data r)"
  shows "mset (sort_rows ks rows) = mset rows \<and> rows_ordered ks (sort_rows ks rows) \<and>
    (\<forall>r \<in> set rows. filter (rows_tied ks r) (sort_rows ks rows) = filter (rows_tied ks r) rows)"
proof -
  have "rows_tied ks = rows.tied ks"
    by (simp add: fun_eq_iff rows_tied_def rows.tied_def)
  then show ?thesis
    using assms sort_rows_ordered [OF assms] rows.stable_sort_stable [OF assms]
    by (simp add: sort_rows_def)
qed

text \<open>A concrete forest to try the sort on: two measured rows and one without a reading.\<close>

definition sample_row :: "string \<Rightarrow> metric_value option \<Rightarrow> row" where
  "sample_row l v = Row \<lparr>r_kind = RowProcess, r_dimension_id = [], r_key = l, r_label = l,
     r_children = 0, r_procs = 1, r_threads = 1, r_leaves = 1, r_metrics = (\<lambda>i. if i = ''cpu'' then v else None),
     r_process = None, r_thread = None\<rparr> []"

definition sample_rows :: "row list" where
  "sample_rows = [sample_row ''x'' None, sample_row ''a'' (Some (new_value (Fin 2) Exact [])),
     sample_row ''b'' (Some (new_value (Fin 7) Exact []))]"

definition by_cpu :: "bool \<Rightarrow> sort_field list" where
  "by_cpu desc = [\<lparr>sk_field = ''cpu'', sk_descending = desc\<rparr>]"

lemmas sample_simps =
  sample_rows_def sample_row_def by_cpu_def nan_free_def numeric_value_def field_value_def

lemma sample_rows_nan_free: "\<forall>r \<in> set sample_rows. nan_free (by_cpu desc) (row_data r)"
  by (simp add: sample_simps)

theorem sort_rows_correct_witness:
  "rows_ordered (by_cpu True) (sort_rows (by_cpu True) sample_rows)"
  using sort_rows_correct [OF sample_rows_nan_free] by blast

text \<open>
  Unavailable last. Sorting by a metric puts every row that has a reading before every
  row that has none, ascending and descending alike: a missing value never wins as a zero.
\<close>

theorem unavailable_sort_last:
  assumes "\<forall>r \<in> set rows. nan_free (k # ks) (row_data r)" and "\<not> is_label_field (sk_field k)"
    and "i < j" and "j < length rows"
    and "numeric_value (row_data (sort_rows (k # ks) rows ! i)) (sk_field k) = None"
  shows "numeric_value (row_data (sort_rows (k # ks) rows ! j)) (sk_field k) = None"
proof (rule ccontr)
  let ?rows = "sort_rows (k # ks) rows"
  assume *: "numeric_value (row_data (?rows ! j)) (sk_field k) \<noteq> None"
  have len: "length ?rows = length rows"
    by (metis mset_stable_sort size_mset sort_rows_def)
  have "?rows ! i \<in> set rows" "?rows ! j \<in> set rows"
    using assms(3,4) len nth_mem [of _ ?rows] by simp_all
  then have "nan_free [k] (row_data (?rows ! i))" "nan_free [k] (row_data (?rows ! j))"
    using assms(1) by (auto simp: nan_free_def)
  moreover have "\<not> row_less (k # ks) (row_data (?rows ! j)) (row_data (?rows ! i))"
    using sort_rows_ordered [OF assms(1)] assms(3,4) len
    by (auto simp: rows_ordered_def sorted_wrt_iff_nth_less)
  ultimately show False
    using * assms(5) by (auto simp: row_less_Cons key_less_numeric [OF assms(2)] simp del: row_less.simps)
qed

theorem unavailable_sort_last_witness:
  "numeric_value (row_data (sort_rows (by_cpu True) (sample_rows @ sample_rows) ! 5)) ''cpu'' = None"
proof -
  have "sort_rows (by_cpu True) (sample_rows @ sample_rows) ! 4 = sample_row ''x'' None"
    by (simp add: sort_rows_def stable_sort_def sample_rows_def sample_row_def by_cpu_def
        less_by_key_def field_value_def less_numeric_def tie_break_def)
  then show ?thesis
    using unavailable_sort_last [of "sample_rows @ sample_rows" "hd (by_cpu True)" "[]" 4 5]
      sample_rows_nan_free [of True]
    by (auto simp: by_cpu_def is_label_field_def sample_rows_def sample_row_def numeric_value_def field_value_def)
qed

section \<open>Every level\<close>

fun every_level :: "nat \<Rightarrow> (row list \<Rightarrow> bool) \<Rightarrow> row list \<Rightarrow> bool" where
  "every_level 0 P rows = P rows"
| "every_level (Suc n) P rows = (P rows \<and> (\<forall>r \<in> set rows. every_level n P (row_sub r)))"

lemma nodes_eq: "nodes r = row_data r # forest (row_sub r)"
  by (cases r) (simp add: forest_def)

lemma forest_Cons: "forest (r # rs) = row_data r # forest (row_sub r) @ forest rs"
  by (simp add: forest_def nodes_eq)

lemma forest_mset_eq: "mset (forest rs) = (\<Sum>r \<in># mset rs. mset (nodes r))"
  by (induction rs) (simp_all add: forest_def)

lemma forest_mset: "mset rs = mset rs' \<Longrightarrow> mset (forest rs) = mset (forest rs')"
  by (simp add: forest_mset_eq)

lemma sort_tree_nodes: "mset (forest (sort_tree ks rows)) = mset (forest rows)"
proof (induction ks rows rule: sort_tree.induct)
  case (1 ks rows)
  have sub: "mset (forest (sort_tree ks (row_sub r))) = mset (forest (row_sub r))" if "r \<in> set rows" for r
    using that 1 by simp
  have "mset (forest (map (\<lambda>r. Row (row_data r) (sort_tree ks (row_sub r))) rs)) = mset (forest rs)"
    if "set rs \<subseteq> set rows" for rs
    using that
  proof (induction rs)
    case (Cons r rs)
    then show ?case using sub [of r] by (simp add: forest_Cons)
  qed simp
  from this [of "sort_rows ks rows"]
  have "mset (forest (sort_tree ks rows)) = mset (forest (sort_rows ks rows))"
    by (simp add: sort_tree.simps [of ks rows])
  also have "\<dots> = mset (forest rows)"
    by (rule forest_mset) (simp add: sort_rows_def)
  finally show ?case .
qed

lemma set_forest: "set (forest rows) = (\<Union>r \<in> set rows. insert (row_data r) (set (forest (row_sub r))))"
  by (induction rows) (simp_all add: forest_Cons forest_def [of "[]"])

lemma forest_sub: "r \<in> set rows \<Longrightarrow> set (forest (row_sub r)) \<subseteq> set (forest rows)"
  by (subst (2) set_forest) blast

lemma sort_tree_ordered:
  assumes "\<forall>d \<in> set (forest rows). nan_free ks d"
  shows "rows_ordered ks (sort_tree ks rows)"
proof -
  have "\<forall>r \<in> set rows. nan_free ks (row_data r)"
    using assms by (subst (asm) set_forest) blast
  from sort_rows_ordered [OF this] show ?thesis
    by (simp add: sort_tree.simps [of ks rows] rows_ordered_def sorted_wrt_map)
qed

text \<open>
  Sorting the result tree. \<open>sortTree\<close> orders the siblings at every depth, and only moves
  rows among their siblings: the rows of the whole tree are the same.
\<close>

theorem sort_tree_correct:
  assumes "\<forall>d \<in> set (forest rows). nan_free ks d"
  shows "every_level n (rows_ordered ks) (sort_tree ks rows) \<and>
    mset (forest (sort_tree ks rows)) = mset (forest rows)"
proof -
  have "every_level n (rows_ordered ks) (sort_tree ks rows)"
    using assms
  proof (induction n arbitrary: rows)
    case 0
    then show ?case by (simp add: sort_tree_ordered)
  next
    case (Suc n)
    have "every_level n (rows_ordered ks) (sort_tree ks (row_sub r))" if "r \<in> set rows" for r
      using Suc.prems forest_sub [OF that] by (intro Suc.IH) blast
    then show ?case
      using sort_tree_ordered [OF Suc.prems] by (auto simp: sort_tree.simps [of ks rows])
  qed
  then show ?thesis using sort_tree_nodes by blast
qed

lemma sample_forest_nan_free: "\<forall>d \<in> set (forest sample_rows). nan_free (by_cpu desc) d"
  by (simp add: sample_simps forest_def)

theorem sort_tree_correct_witness: "every_level 1 (rows_ordered (by_cpu True)) (sort_tree (by_cpu True) sample_rows)"
  using sort_tree_correct [OF sample_forest_nan_free] by blast

end
