(* ===== verification/Query_Engine.thy ===== *)
theory Query_Engine
  imports Query_Sort
begin

text \<open>
  The observation engine, \<open>internal/query/engine.go\<close> and \<open>having.go\<close>: selecting processes,
  validating the group-by list, building the tree of groups and leaves with their counts and
  aggregates, the having filter, and the whole pipeline \<open>Build\<close>. The engine of the code is
  the pair of registries its methods read.
\<close>

record engine =
  e_reg :: registry
  e_dims :: dimensions

record query_input =
  in_generation :: int
  in_wall_time :: int
  in_elapsed :: int
  in_processes :: "process list"
  in_host_metrics :: "metric_id \<rightharpoonup> metric_value"

record query_result =
  res_generation :: int
  res_wall_time :: int
  res_elapsed :: int
  res_columns :: "string list"
  res_rows :: "row list"
  res_host_metrics :: "metric_id \<rightharpoonup> metric_value"

section \<open>Group-by validation\<close>

datatype group_error = NoneNotAlone | DuplicateDimension string | UnknownDimension string

fun resolve_dims ::
  "dimensions \<Rightarrow> (string \<Rightarrow> bool) \<Rightarrow> string list \<Rightarrow> (group_error, dimension list) result" where
  "resolve_dims ds seen [] = Inr []"
| "resolve_dims ds seen (i # ids) =
     (if i = ''none'' then Inl NoneNotAlone
      else if seen i then Inl (DuplicateDimension i)
      else (case dims_get ds i of
          None \<Rightarrow> Inl (UnknownDimension i)
        | Some d \<Rightarrow> rbind (resolve_dims ds (seen(i := True)) ids) (\<lambda>rest. Inr (d # rest))))"

definition resolve_group_by :: "engine \<Rightarrow> string list \<Rightarrow> (group_error, dimension list) result" where
  "resolve_group_by e ids =
     (if length ids = 0 then Inr []
      else if length ids = 1 \<and> ids ! 0 = ''none'' then Inr []
      else resolve_dims (e_dims e) (\<lambda>_. False) ids)"

section \<open>Selecting and building\<close>

definition select_processes :: "process list \<Rightarrow> (process \<Rightarrow> bool) option \<Rightarrow> process list" where
  "select_processes all pred =
     filter (\<lambda>p. case pred of None \<Rightarrow> True | Some f \<Rightarrow> f p) all"

definition process_leaf :: "metric_id list \<Rightarrow> process \<Rightarrow> row" where
  "process_leaf ids p = Row \<lparr>r_kind = RowProcess, r_dimension_id = [], r_key = process_key (p_id p),
     r_label = leaf_label p, r_children = 0, r_procs = 1, r_threads = proc_thread_count p,
     r_leaves = 1, r_metrics = project_metrics (p_metrics p) ids, r_process = Some p,
     r_thread = None\<rparr> []"

definition process_leaves :: "process list \<Rightarrow> metric_id list \<Rightarrow> row list" where
  "process_leaves procs ids = map (process_leaf ids) procs"

definition thread_leaf :: "metric_id list \<Rightarrow> thread \<Rightarrow> row" where
  "thread_leaf ids th = Row \<lparr>r_kind = RowThread, r_dimension_id = [], r_key = thread_key (th_id th),
     r_label = th_comm th, r_children = 0, r_procs = 0, r_threads = 1, r_leaves = 1,
     r_metrics = project_metrics (th_metrics th) ids, r_process = None, r_thread = Some th\<rparr> []"

definition thread_leaves :: "process list \<Rightarrow> metric_id list \<Rightarrow> row list" where
  "thread_leaves procs ids = concat (map (\<lambda>p. map (thread_leaf ids) (p_threads p)) procs)"

definition make_leaves :: "process list \<Rightarrow> leaf_mode \<Rightarrow> metric_id list \<Rightarrow> row list" where
  "make_leaves procs leaf ids =
     (if leaf = LeafNone then []
      else if leaf = LeafThread then thread_leaves procs ids
      else process_leaves procs ids)"

fun count_leaves :: "row \<Rightarrow> int" where
  "count_leaves (Row d sub) =
     (if r_kind d = RowProcess \<or> r_kind d = RowThread then 1
      else sum_list (map count_leaves sub))"

definition fill_group :: "engine \<Rightarrow> row \<Rightarrow> process list \<Rightarrow> metric_id list \<Rightarrow> row" where
  "fill_group e r procs ids = Row ((row_data r)
     \<lparr>r_children := int (length (row_sub r)), r_procs := int (length procs),
      r_threads := sum_list (map proc_thread_count procs), r_leaves := count_leaves r,
      r_metrics := aggregate_metrics (e_reg e) procs ids\<rparr>) (row_sub r)"

definition group_row :: "row_kind \<Rightarrow> string \<Rightarrow> string \<Rightarrow> string \<Rightarrow> row list \<Rightarrow> row" where
  "group_row kind did key label sub = Row \<lparr>r_kind = kind, r_dimension_id = did, r_key = key,
     r_label = label, r_children = 0, r_procs = 0, r_threads = 0, r_leaves = 0,
     r_metrics = Map.empty, r_process = None, r_thread = None\<rparr> sub"

fun build_rows ::
  "engine \<Rightarrow> process list \<Rightarrow> dimension list \<Rightarrow> leaf_mode \<Rightarrow> metric_id list \<Rightarrow> row list" where
  "build_rows e procs [] leaf ids = make_leaves procs leaf ids"
| "build_rows e procs (d # ds) leaf ids =
     (let (order, buckets) = bucket_by procs d in
      map (\<lambda>key. let bp = the (buckets key) in
             fill_group e (group_row RowGroup (dim_id d) key (bucket_label d bp key)
               (build_rows e bp ds leaf ids)) bp ids) order)"

definition host_total :: "engine \<Rightarrow> process list \<Rightarrow> metric_id list \<Rightarrow> row" where
  "host_total e procs ids = fill_group e (group_row RowHost [] ''host'' ''HOST'' []) procs ids"

section \<open>Having (\<open>having.go\<close>)\<close>

function having_rows :: "(row \<Rightarrow> bool) \<Rightarrow> row list \<Rightarrow> row list" where
  "having_rows f [] = []"
| "having_rows f (r # rs) =
     (let r' = Row (row_data r) (having_rows f (row_sub r)) in
      if f r' \<or> length (row_sub r') > 0 then r' # having_rows f rs else having_rows f rs)"
  by pat_completeness auto
termination
proof (relation "measure (\<lambda>(_, rows). size_list size rows)")
  fix f :: "row \<Rightarrow> bool" and r :: row and rs :: "row list"
  show "((f, row_sub r), (f, r # rs)) \<in> measure (\<lambda>(_, rows). size_list size rows)"
    using size_row_sub [of r "r # rs"] by simp
qed auto

definition apply_having :: "row list \<Rightarrow> (row \<Rightarrow> bool) option \<Rightarrow> row list" where
  "apply_having rows pred = (case pred of None \<Rightarrow> rows | Some f \<Rightarrow> having_rows f rows)"

section \<open>The pipeline\<close>

definition leaf_or_default :: "leaf_mode \<Rightarrow> leaf_mode" where
  "leaf_or_default leaf = (if leaf = [] then LeafProcess else leaf)"

definition raw_rows :: "engine \<Rightarrow> query_input \<Rightarrow> query_spec \<Rightarrow> dimension list \<Rightarrow> row list" where
  "raw_rows e inp spec dims =
     (let leaf = leaf_or_default (q_leaf spec);
          procs = select_processes (in_processes inp) (q_select spec)
      in if length dims = 0 \<and> leaf = LeafNone then [host_total e procs (q_metrics spec)]
         else build_rows e procs dims leaf (q_metrics spec))"

definition build_query ::
  "engine \<Rightarrow> query_input \<Rightarrow> query_spec \<Rightarrow> (group_error, query_result) result" where
  "build_query e inp spec =
     rbind (resolve_group_by e (q_group_by spec)) (\<lambda>dims.
       let rows = sort_tree (q_sort spec) (apply_having (raw_rows e inp spec dims) (q_having spec));
           rows = (if q_limit spec > 0 \<and> int (length rows) > q_limit spec
                   then take (nat (q_limit spec)) rows else rows)
       in Inr \<lparr>res_generation = in_generation inp, res_wall_time = in_wall_time inp,
            res_elapsed = in_elapsed inp, res_columns = q_columns spec, res_rows = rows,
            res_host_metrics = in_host_metrics inp\<rparr>)"

section \<open>Group-by validation is exact\<close>

lemma resolve_dims_ok:
  "resolve_dims ds seen ids = Inr dims \<longleftrightarrow>
     distinct ids \<and> ''none'' \<notin> set ids \<and> (\<forall>i \<in> set ids. \<not> seen i) \<and>
     map (dims_get ds) ids = map Some dims"
proof (induction ids arbitrary: seen dims)
  case (Cons i ids)
  show ?case
    by (cases "dims_get ds i"; cases dims) (auto simp: result_simps Cons.IH)
qed (simp, blast)

text \<open>
  The group-by list. It is accepted exactly when it is empty, or just \<open>none\<close>, or a list of
  known dimensions without repetition and without \<open>none\<close>; the result is then those
  dimensions in that order.
\<close>

theorem resolve_group_by_ok:
  "resolve_group_by e ids = Inr dims \<longleftrightarrow>
     ((ids = [] \<or> ids = [''none'']) \<and> dims = []) \<or>
     (ids \<noteq> [] \<and> distinct ids \<and> ''none'' \<notin> set ids \<and> map (dims_get (e_dims e)) ids = map Some dims)"
proof -
  have "length ids = 1 \<and> ids ! 0 = ''none'' \<longleftrightarrow> ids = [''none'']"
    by (cases ids) auto
  then have "resolve_group_by e ids = (if ids = [] \<or> ids = [''none''] then Inr []
      else resolve_dims (e_dims e) (\<lambda>_. False) ids)"
    by (simp add: resolve_group_by_def)
  moreover have "Inr [] = (Inr dims :: (group_error, dimension list) result) \<longleftrightarrow> dims = []"
    by (rule iffI) simp_all
  ultimately show ?thesis
    by (simp only: resolve_dims_ok split: if_split) auto
qed

section \<open>The tree holds every process once\<close>

lemma build_rows_Cons:
  "build_rows e procs (d # ds) leaf ids =
     map (\<lambda>key. let bp = filter (\<lambda>p. bucket_key d p = key) procs in
             fill_group e (group_row RowGroup (dim_id d) key (bucket_label d bp key)
               (build_rows e bp ds leaf ids)) bp ids)
       (first_seen [] (map (bucket_key d) procs))"
  by (auto simp: bucket_by_eq Let_def)

declare build_rows.simps(2) [simp del]

lemma group_row_simps [simp]:
  "row_sub (group_row k d key l sub) = sub"
  "row_sub (fill_group e r procs ids) = row_sub r"
  "r_kind (row_data (group_row k d key l sub)) = k"
  "r_kind (row_data (fill_group e r procs ids)) = r_kind (row_data r)"
  "r_process (row_data (group_row k d key l sub)) = None"
  "r_process (row_data (fill_group e r procs ids)) = r_process (row_data r)"
  "r_thread (row_data (group_row k d key l sub)) = None"
  "r_thread (row_data (fill_group e r procs ids)) = r_thread (row_data r)"
  "r_key (row_data (group_row k d key l sub)) = key"
  "r_key (row_data (fill_group e r procs ids)) = r_key (row_data r)"
  by (simp_all add: group_row_def fill_group_def)

text \<open>The processes and the threads a forest shows, in order.\<close>

definition shown_processes :: "row list \<Rightarrow> process list" where
  "shown_processes rows = List.map_filter r_process (forest rows)"

definition shown_threads :: "row list \<Rightarrow> thread list" where
  "shown_threads rows = List.map_filter r_thread (forest rows)"

lemma map_filter_append: "List.map_filter f (xs @ ys) = List.map_filter f xs @ List.map_filter f ys"
  by (simp add: List.map_filter_def)

lemma shown_Cons:
  "shown_processes (r # rs) = (case r_process (row_data r) of None \<Rightarrow> [] | Some p \<Rightarrow> [p]) @
     shown_processes (row_sub r) @ shown_processes rs"
  "shown_threads (r # rs) = (case r_thread (row_data r) of None \<Rightarrow> [] | Some p \<Rightarrow> [p]) @
     shown_threads (row_sub r) @ shown_threads rs"
  by (simp_all add: shown_processes_def shown_threads_def forest_Cons map_filter_append
      map_filter_simps split: option.split)

lemma shown_Nil [simp]: "shown_processes [] = []" "shown_threads [] = []"
  by (simp_all add: shown_processes_def shown_threads_def forest_def map_filter_simps)

lemma shown_mset:
  assumes "mset (forest rs) = mset (forest rs')"
  shows "mset (shown_processes rs) = mset (shown_processes rs')"
    and "mset (shown_threads rs) = mset (shown_threads rs')"
  using assms by (simp_all add: shown_processes_def shown_threads_def List.map_filter_def)

lemma shown_groups:
  "shown_processes (map (\<lambda>k. fill_group e (group_row RowGroup i k (l k) (sub k)) (m k) ids) order) =
     concat (map (\<lambda>k. shown_processes (sub k)) order)"
  "shown_threads (map (\<lambda>k. fill_group e (group_row RowGroup i k (l k) (sub k)) (m k) ids) order) =
     concat (map (\<lambda>k. shown_threads (sub k)) order)"
  by (induction order) (simp_all add: shown_Cons)

lemma shown_leaves:
  "shown_processes (process_leaves procs ids) = procs"
  "shown_threads (process_leaves procs ids) = []"
  "shown_processes (thread_leaves procs ids) = []"
  "shown_threads (thread_leaves procs ids) = concat (map p_threads procs)"
proof -
  have t: "shown_processes (map (thread_leaf ids) ths @ rs) = shown_processes rs"
       "shown_threads (map (thread_leaf ids) ths @ rs) = ths @ shown_threads rs" for ths rs
    by (induction ths) (simp_all add: shown_Cons thread_leaf_def)
  show "shown_processes (process_leaves procs ids) = procs"
    "shown_threads (process_leaves procs ids) = []"
    by (induction procs) (simp_all add: process_leaves_def shown_Cons process_leaf_def)
  show "shown_processes (thread_leaves procs ids) = []"
    "shown_threads (thread_leaves procs ids) = concat (map p_threads procs)"
    by (induction procs) (simp_all add: thread_leaves_def t)
qed

lemma mset_concat_map_cong:
  fixes f g :: "'a \<Rightarrow> 'b list"
  assumes "\<And>x. mset (f x) = mset (g x)"
  shows "mset (concat (map f xs)) = mset (concat (map g xs))"
  using assms by (induction xs) auto

lemma concat_map_concat:
  "concat (map (\<lambda>k. concat (map f (g k))) ks) = concat (map f (concat (map g ks)))"
  by (induction ks) simp_all

lemma sum_list_mset_eq:
  "mset xs = mset ys \<Longrightarrow> sum_list (map n xs) = sum_list (map (n :: 'a \<Rightarrow> int) ys)"
  by (simp add: sum_mset_sum_list [symmetric] del: sum_mset_sum_list)

lemma mset_concat_map: "mset xs = mset ys \<Longrightarrow> mset (concat (map f xs)) = mset (concat (map f ys))"
proof -
  have "mset (concat (map f zs)) = (\<Sum>z \<in># mset zs. mset (f z))" for zs
    by (induction zs) simp_all
  then show "mset xs = mset ys \<Longrightarrow> ?thesis" by simp
qed

lemma build_rows_shown:
  "mset (shown_processes (build_rows e procs ds leaf ids)) = mset (shown_processes (make_leaves procs leaf ids)) \<and>
   mset (shown_threads (build_rows e procs ds leaf ids)) = mset (shown_threads (make_leaves procs leaf ids))"
proof (induction ds arbitrary: procs)
  case (Cons d ds)
  let ?order = "first_seen [] (map (bucket_key d) procs)"
  let ?bp = "\<lambda>key. filter (\<lambda>p. bucket_key d p = key) procs"
  have all: "mset (concat (map ?bp ?order)) = mset procs"
    by (rule mset_buckets) simp_all
  note IH = Cons.IH [THEN conjunct1] Cons.IH [THEN conjunct2]
  have "mset (shown_processes (build_rows e procs (d # ds) leaf ids)) =
      mset (concat (map (\<lambda>key. shown_processes (make_leaves (?bp key) leaf ids)) ?order))"
    unfolding build_rows_Cons Let_def shown_groups by (intro mset_concat_map_cong IH)
  also have "\<dots> = mset (shown_processes (make_leaves procs leaf ids))"
    using all by (auto simp: make_leaves_def shown_leaves)
  finally have procs: "mset (shown_processes (build_rows e procs (d # ds) leaf ids)) = \<dots>" .
  define f :: "process \<Rightarrow> thread list" where "f p = (if leaf = LeafThread \<and> leaf \<noteq> LeafNone then p_threads p else [])" for p
  have f: "shown_threads (make_leaves ps leaf ids) = concat (map f ps)" for ps
    by (auto simp: make_leaves_def shown_leaves f_def cong: map_cong)
  have "mset (shown_threads (build_rows e procs (d # ds) leaf ids)) =
      mset (concat (map (\<lambda>key. concat (map f (?bp key))) ?order))"
    unfolding build_rows_Cons Let_def shown_groups f [symmetric] by (intro mset_concat_map_cong IH)
  also have "concat (map (\<lambda>key. concat (map f (?bp key))) ?order) = concat (map f (concat (map ?bp ?order)))"
    by (rule concat_map_concat)
  also have "mset (concat (map f (concat (map ?bp ?order)))) = mset (concat (map f procs))"
    using all by (rule mset_concat_map)
  finally show ?case using procs by (simp add: f)
qed simp

text \<open>
  Nothing is lost or repeated by grouping. Whatever the group-by list, the tree shows
  every selected process exactly once with process leaves, every thread of every process
  exactly once with thread leaves, and no leaf at all without them.
\<close>

theorem build_rows_conserves:
  "mset (shown_processes (build_rows e procs ds leaf ids)) =
     (if leaf = LeafNone \<or> leaf = LeafThread then {#} else mset procs) \<and>
   mset (shown_threads (build_rows e procs ds leaf ids)) =
     (if leaf = LeafThread then mset (concat (map p_threads procs)) else {#})"
  using build_rows_shown [of e procs ds leaf ids]
  by (auto simp: make_leaves_def shown_leaves LeafNone_def LeafThread_def)

section \<open>What a group row says\<close>

fun subtrees :: "row \<Rightarrow> row list" where
  "subtrees (Row d sub) = Row d sub # concat (map subtrees sub)"

definition all_rows :: "row list \<Rightarrow> row list" where
  "all_rows rows = concat (map subtrees rows)"

lemma subtrees_eq: "subtrees r = r # all_rows (row_sub r)"
  by (cases r) (simp add: all_rows_def)

lemma set_all_rows: "set (all_rows rows) = (\<Union>r \<in> set rows. insert r (set (all_rows (row_sub r))))"
  by (subst (1) all_rows_def) (simp add: subtrees_eq)

lemma shown_single: "r_process (row_data r) = None \<Longrightarrow> shown_processes [r] = shown_processes (row_sub r)"
  by (simp add: shown_Cons)

lemma count_leaves_eq:
  "count_leaves r = (if r_kind (row_data r) = RowProcess \<or> r_kind (row_data r) = RowThread then 1
     else sum_list (map count_leaves (row_sub r)))"
  by (cases r) simp

lemma count_leaves_fill [simp]:
  "count_leaves (fill_group e (group_row RowGroup d k l sub) procs ids) = sum_list (map count_leaves sub)"
  "count_leaves (group_row RowGroup d k l sub) = sum_list (map count_leaves sub)"
  by (simp_all add: fill_group_def group_row_def)

lemma sum_list_map_concat:
  "sum_list (map n (concat (map f ks))) = sum_list (map (\<lambda>k. sum_list (map n (f k))) ks)"
  by (induction ks) simp_all

text \<open>The leaves counted are the leaf rows, at every depth.\<close>

lemma count_leaves_build:
  "sum_list (map count_leaves (build_rows e procs ds leaf ids)) =
     (if leaf = LeafNone then 0
      else if leaf = LeafThread then int (length (concat (map p_threads procs)))
      else int (length procs))"
proof (induction ds arbitrary: procs)
  case Nil
  have "sum_list (map count_leaves (map (process_leaf ids) ps)) = int (length ps)"
    "sum_list (map count_leaves (map (thread_leaf ids) ths)) = int (length ths)" for ps ths
    by (induction ps, simp_all add: process_leaf_def) (induction ths, simp_all add: thread_leaf_def)
  note leaf = this
  have "sum_list (map count_leaves (thread_leaves procs ids)) = int (length (concat (map p_threads procs)))"
    by (induction procs) (simp_all add: thread_leaves_def leaf del: map_map)
  then show ?case
    by (simp add: make_leaves_def process_leaves_def leaf LeafNone_def LeafThread_def del: map_map)
next
  case (Cons d ds)
  let ?order = "first_seen [] (map (bucket_key d) procs)"
  let ?bp = "\<lambda>key. filter (\<lambda>p. bucket_key d p = key) procs"
  have all: "mset (concat (map ?bp ?order)) = mset procs"
    by (rule mset_buckets) simp_all
  define n :: "process \<Rightarrow> int" where
    "n p = (if leaf = LeafNone then 0 else if leaf = LeafThread then int (length (p_threads p)) else 1)" for p
  have n: "(if leaf = LeafNone then 0 else if leaf = LeafThread then int (length (concat (map p_threads ps)))
      else int (length ps)) = sum_list (map n ps)" for ps
    by (induction ps) (auto simp: n_def)
  have "sum_list (map count_leaves (build_rows e procs (d # ds) leaf ids)) =
      sum_list (map (\<lambda>key. sum_list (map n (?bp key))) ?order)"
    by (simp add: build_rows_Cons Let_def comp_def Cons.IH n)
  also have "\<dots> = sum_list (map n (concat (map ?bp ?order)))"
    by (simp add: sum_list_map_concat)
  also have "\<dots> = sum_list (map n procs)"
    using all by (rule sum_list_mset_eq)
  finally show ?case by (simp only: n)
qed

text \<open>
  What holds of a group over its members: its counts, its aggregates, the dimension value its
  members share.
\<close>

definition group_ok :: "engine \<Rightarrow> dimension list \<Rightarrow> metric_id list \<Rightarrow> row \<Rightarrow> process list \<Rightarrow> bool" where
  "group_ok e ds ids r members \<longleftrightarrow>
     members \<noteq> [] \<and>
     mset (shown_processes (row_sub r)) = mset members \<and>
     r_procs (row_data r) = int (length members) \<and>
     r_leaves (row_data r) = int (length members) \<and>
     r_children (row_data r) = int (length (row_sub r)) \<and>
     r_threads (row_data r) = sum_list (map proc_thread_count members) \<and>
     r_metrics (row_data r) = aggregate_metrics (e_reg e) members ids \<and>
     (\<exists>d \<in> set ds. r_dimension_id (row_data r) = dim_id d \<and>
        (\<forall>p \<in> set members. bucket_key d p = r_key (row_data r)))"

lemma group_ok_weaken: "group_ok e ds ids r m \<Longrightarrow> set ds \<subseteq> set ds' \<Longrightarrow> group_ok e ds' ids r m"
  by (auto simp: group_ok_def)

text \<open>
  C33: every group of the tree, at every depth, with process leaves: its process and leaf
  counts, its thread count, its number of children and its aggregated metrics are those of
  exactly the processes shown below it, which all share the group's dimension value.
\<close>

theorem group_rows_correct:
  assumes "leaf \<noteq> LeafNone" and "leaf \<noteq> LeafThread"
  shows "\<forall>r \<in> set (all_rows (build_rows e procs ds leaf ids)).
    r_kind (row_data r) = RowGroup \<longrightarrow> (\<exists>members. group_ok e ds ids r members)"
proof (induction ds arbitrary: procs)
  case Nil
  show ?case
    using assms by (auto simp: make_leaves_def process_leaves_def process_leaf_def all_rows_def)
next
  case (Cons d ds)
  show ?case
  proof (intro ballI impI)
    fix r
    assume r: "r \<in> set (all_rows (build_rows e procs (d # ds) leaf ids))" "r_kind (row_data r) = RowGroup"
    let ?bp = "\<lambda>key. filter (\<lambda>p. bucket_key d p = key) procs"
    let ?g = "\<lambda>key. fill_group e (group_row RowGroup (dim_id d) key (bucket_label d (?bp key) key)
               (build_rows e (?bp key) ds leaf ids)) (?bp key) ids"
    obtain key where key: "key \<in> bucket_key d ` set procs"
        and cases: "r = ?g key \<or> r \<in> set (all_rows (build_rows e (?bp key) ds leaf ids))"
      using r(1) by (subst (asm) set_all_rows) (auto simp: build_rows_Cons Let_def)
    from cases show "\<exists>members. group_ok e (d # ds) ids r members"
    proof
      assume "r = ?g key"
      moreover have "group_ok e (d # ds) ids (?g key) (?bp key)"
        using key build_rows_shown [of e "?bp key" ds leaf ids] count_leaves_build [of e "?bp key" ds leaf ids] assms
        by (auto simp: group_ok_def fill_group_def group_row_def filter_empty_conv make_leaves_def shown_leaves)
      ultimately show ?thesis by blast
    next
      assume "r \<in> set (all_rows (build_rows e (?bp key) ds leaf ids))"
      then obtain members where "group_ok e ds ids r members"
        using Cons.IH r(2) by blast
      then show ?thesis
        using group_ok_weaken [of e ds ids r members "d # ds"] by auto
    qed
  qed
qed

definition sample_engine :: engine where
  "sample_engine = \<lparr>e_reg = new_registry, e_dims = new_dimensions\<rparr>"

definition sample_procs :: "process list" where
  "sample_procs = [zero_process\<lparr>p_pid := 1, p_comm := ''sh''\<rparr>, zero_process\<lparr>p_pid := 2, p_comm := ''vi''\<rparr>,
     zero_process\<lparr>p_pid := 3, p_comm := ''sh''\<rparr>]"

theorem group_rows_correct_witness:
  "length (build_rows sample_engine sample_procs [str_field ''comm'' ''COMM'' p_comm] LeafProcess []) = 2 \<and>
   (\<exists>members. group_ok sample_engine [str_field ''comm'' ''COMM'' p_comm] []
     (hd (build_rows sample_engine sample_procs [str_field ''comm'' ''COMM'' p_comm] LeafProcess [])) members)"
proof -
  let ?rows = "build_rows sample_engine sample_procs [str_field ''comm'' ''COMM'' p_comm] LeafProcess []"
  have leaf: "LeafProcess \<noteq> LeafNone" "LeafProcess \<noteq> LeafThread"
    by (simp_all add: LeafProcess_def LeafNone_def LeafThread_def)
  have "length ?rows = 2"
    by (simp add: build_rows_Cons sample_procs_def bucket_key_def dim_key_def str_field_def zero_process_def
        add_new.simps Let_def)
  moreover have "\<forall>r \<in> set ?rows. r \<in> set (all_rows ?rows) \<and> r_kind (row_data r) = RowGroup"
    by (subst set_all_rows) (auto simp: build_rows_Cons Let_def)
  moreover from \<open>length ?rows = 2\<close> have "hd ?rows \<in> set ?rows"
    by (intro hd_in_set) auto
  ultimately show ?thesis
    using group_rows_correct [OF leaf, of sample_engine sample_procs "[str_field ''comm'' ''COMM'' p_comm]" "[]"]
    by blast
qed

section \<open>The having filter\<close>

text \<open>
  A predicate of the having stage sees a row's own fields (\<open>RowEnv\<close> reads nothing below it).
  The reference: a row stays when it or a row below it matches.
\<close>

definition matches_below :: "(row_data \<Rightarrow> bool) \<Rightarrow> row \<Rightarrow> bool" where
  "matches_below g r \<longleftrightarrow> (\<exists>d \<in> set (nodes r). g d)"

lemma forest_simps [simp]: "forest [] = []"
  by (simp add: forest_def)

lemma having_nonempty:
  "having_rows (\<lambda>r. g (row_data r)) rows \<noteq> [] \<longleftrightarrow> (\<exists>d \<in> set (forest rows). g d)"
proof (induction "\<lambda>r. g (row_data r)" rows rule: having_rows.induct)
  case (2 r rs)
  then show ?case by (auto simp: forest_Cons Let_def)
qed simp

lemma having_matching:
  "filter g (forest (having_rows (\<lambda>r. g (row_data r)) rows)) = filter g (forest rows)"
proof (induction "\<lambda>r. g (row_data r)" rows rule: having_rows.induct)
  case (2 r rs)
  show ?case
  proof (cases "g (row_data r) \<or> having_rows (\<lambda>r. g (row_data r)) (row_sub r) \<noteq> []")
    case True
    then show ?thesis using 2 by (auto simp: forest_Cons Let_def)
  next
    case False
    then have "filter g (forest (row_sub r)) = []"
      using having_nonempty [of g "row_sub r"] by (auto simp: filter_empty_conv)
    then show ?thesis using False 2 by (auto simp: forest_Cons Let_def)
  qed
qed simp

lemma having_all_match:
  "r \<in> set (all_rows (having_rows (\<lambda>r. g (row_data r)) rows)) \<Longrightarrow> matches_below g r"
proof (induction "\<lambda>r. g (row_data r)" rows arbitrary: r rule: having_rows.induct)
  case (2 r' rs)
  let ?sub = "having_rows (\<lambda>r. g (row_data r)) (row_sub r')"
  have "g (row_data r') \<or> ?sub \<noteq> [] \<Longrightarrow> matches_below g (Row (row_data r') ?sub)"
  proof (elim disjE)
    assume "?sub \<noteq> []"
    then have "\<exists>d \<in> set (forest ?sub). g d"
      using having_nonempty [of g "row_sub r'"] having_matching [of g "row_sub r'"]
      by (metis filter_empty_conv)
    then show ?thesis by (auto simp: matches_below_def forest_def)
  qed (simp add: matches_below_def)
  moreover have "set (all_rows (Row (row_data r') ?sub # xs)) =
      insert (Row (row_data r') ?sub) (set (all_rows ?sub) \<union> set (all_rows xs))" for xs
    by (simp add: all_rows_def)
  ultimately show ?case
    using 2 by (auto simp: Let_def split: if_splits)
qed (simp add: all_rows_def)

lemma having_top:
  "map row_data (having_rows (\<lambda>r. g (row_data r)) rows) = map row_data (filter (matches_below g) rows)"
proof (induction rows)
  case (Cons r rs)
  have "matches_below g r \<longleftrightarrow> g (row_data r) \<or> having_rows (\<lambda>r. g (row_data r)) (row_sub r) \<noteq> []"
    using having_nonempty [of g "row_sub r"] by (auto simp: matches_below_def nodes_eq)
  then show ?case using Cons by (simp add: Let_def)
qed simp

text \<open>
  The having filter. The rows kept at a level are, in order and with their counts as they
  were, those that match or have a match below; no matching row is dropped anywhere in the
  tree, and every row that stays has a match at or below it.
\<close>

theorem apply_having_correct:
  "map row_data (apply_having rows (Some (\<lambda>r. g (row_data r)))) =
     map row_data (filter (matches_below g) rows) \<and>
   filter g (forest (apply_having rows (Some (\<lambda>r. g (row_data r))))) = filter g (forest rows) \<and>
   set (all_rows (apply_having rows (Some (\<lambda>r. g (row_data r))))) \<subseteq> {r. matches_below g r}"
  using having_top [of g rows] having_matching [of g rows] having_all_match [of _ g rows]
  by (auto simp: apply_having_def)

section \<open>The whole pipeline\<close>

lemma set_sort_tree_rows: "map row_data (sort_tree ks rows) = map row_data (sort_rows ks rows)"
  by (simp add: sort_tree.simps [of ks rows])

lemma build_query_shown:
  assumes "build_query e inp spec = Inr res" and "q_limit spec = 0" and "q_having spec = None"
    and "leaf_or_default (q_leaf spec) = LeafProcess"
  shows "mset (shown_processes (res_rows res)) = mset (select_processes (in_processes inp) (q_select spec))"
proof -
  let ?procs = "select_processes (in_processes inp) (q_select spec)"
  obtain dims where "res_rows res = sort_tree (q_sort spec) (raw_rows e inp spec dims)"
    using assms(1-3) by (auto simp: build_query_def Let_def result_simps apply_having_def)
  moreover have "raw_rows e inp spec dims = build_rows e ?procs dims LeafProcess (q_metrics spec)"
    using assms(4) by (simp add: raw_rows_def Let_def LeafProcess_def LeafNone_def)
  ultimately have "mset (shown_processes (res_rows res)) =
      mset (shown_processes (build_rows e ?procs dims LeafProcess (q_metrics spec)))"
    using shown_mset(1) [OF sort_tree_nodes] by simp
  also have "\<dots> = mset ?procs"
    using build_rows_shown [of e ?procs dims LeafProcess "q_metrics spec"]
    by (auto simp: make_leaves_def shown_leaves LeafProcess_def LeafNone_def LeafThread_def)
  finally show ?thesis .
qed

text \<open>
  C32: \<open>Build\<close>. It fails only on the group-by list. Without a having filter and a limit the
  result shows exactly the selected processes, once each (process leaves); a positive limit
  keeps the first rows of that result and nothing else changes.
\<close>

theorem build_query_correct:
  "(is_ok (build_query e inp spec) \<longleftrightarrow> is_ok (resolve_group_by e (q_group_by spec))) \<and>
   (\<forall>res. build_query e inp (spec\<lparr>q_limit := 0\<rparr>) = Inr res \<longrightarrow>
      (q_having spec = None \<and> leaf_or_default (q_leaf spec) = LeafProcess \<longrightarrow>
         mset (shown_processes (res_rows res)) = mset (select_processes (in_processes inp) (q_select spec))) \<and>
      (0 < n \<longrightarrow> build_query e inp (spec\<lparr>q_limit := n\<rparr>) =
         Inr (res\<lparr>res_rows := take (nat n) (res_rows res)\<rparr>)))"
proof (intro conjI allI impI)
  show "is_ok (build_query e inp spec) \<longleftrightarrow> is_ok (resolve_group_by e (q_group_by spec))"
    by (cases "resolve_group_by e (q_group_by spec)") (simp_all add: build_query_def Let_def)
next
  fix res
  assume ok: "build_query e inp (spec\<lparr>q_limit := 0\<rparr>) = Inr res"
    and h: "q_having spec = None \<and> leaf_or_default (q_leaf spec) = LeafProcess"
  show "mset (shown_processes (res_rows res)) = mset (select_processes (in_processes inp) (q_select spec))"
    using build_query_shown [OF ok] h by simp
next
  fix res
  assume ok: "build_query e inp (spec\<lparr>q_limit := 0\<rparr>) = Inr res" and n: "0 < n"
  have raw: "raw_rows e inp (spec\<lparr>q_limit := m\<rparr>) dims = raw_rows e inp spec dims" for m dims
    by (simp add: raw_rows_def Let_def)
  show "build_query e inp (spec\<lparr>q_limit := n\<rparr>) = Inr (res\<lparr>res_rows := take (nat n) (res_rows res)\<rparr>)"
    using ok n by (auto simp: build_query_def Let_def result_simps raw)
qed

definition sample_spec :: query_spec where
  "sample_spec = \<lparr>q_metrics = [], q_select = Some (\<lambda>p. p_pid p < 3), q_group_by = [''comm''], q_leaf = [],
     q_having = None, q_sort = [], q_columns = [], q_limit = 0\<rparr>"

definition sample_input :: query_input where
  "sample_input = \<lparr>in_generation = 1, in_wall_time = 0, in_elapsed = 0, in_processes = sample_procs,
     in_host_metrics = Map.empty\<rparr>"

lemma sample_group_by:
  "map_sum (\<lambda>_. ()) (\<lambda>_. ()) (resolve_group_by sample_engine [''comm'']) = Inr ()"
  by code_simp

theorem build_query_correct_witness:
  "\<exists>res. build_query sample_engine sample_input sample_spec = Inr res \<and>
     mset (shown_processes (res_rows res)) = mset (take 2 sample_procs) \<and>
     build_query sample_engine sample_input (sample_spec\<lparr>q_limit := 1\<rparr>) =
       Inr (res\<lparr>res_rows := take 1 (res_rows res)\<rparr>)"
proof -
  have "is_ok (resolve_group_by sample_engine (q_group_by sample_spec))"
    using sample_group_by by (cases "resolve_group_by sample_engine [''comm'']") (simp_all add: sample_spec_def)
  moreover have "select_processes (in_processes sample_input) (q_select sample_spec) = take 2 sample_procs"
    by (simp add: select_processes_def sample_input_def sample_spec_def sample_procs_def)
  moreover have "sample_spec\<lparr>q_limit := 0\<rparr> = sample_spec" "q_having sample_spec = None"
      "leaf_or_default (q_leaf sample_spec) = LeafProcess"
    by (simp_all add: sample_spec_def leaf_or_default_def)
  ultimately show ?thesis
    using build_query_correct [of sample_engine sample_input sample_spec 1] by (auto simp: is_ok_def)
qed

end
