(* ===== verification/Query_Spec.thy ===== *)
theory Query_Spec
  imports Expr_Parser Metrics_Selection Query_Engine
begin

text \<open>
  From flags to a query, \<open>internal/queryspec\<close>: the environments in which select and having
  expressions are evaluated and the fields they may use (\<open>env.go\<close>), and the compilation of the
  flags into a query specification with the metrics it needs (\<open>queryspec.go\<close>). The regular
  expression compiler is the parameter \<open>rx\<close> of the expression language.
\<close>

section \<open>Environments (\<open>env.go\<close>)\<close>

definition entity_num_fields :: "string \<rightharpoonup> (process \<Rightarrow> f64)" where
  "entity_num_fields = map_of
     [(''pid'', \<lambda>p. f_of_int (p_pid p)),
      (''ppid'', \<lambda>p. f_of_int (p_ppid p)),
      (''pgid'', \<lambda>p. f_of_int (p_pgid p)),
      (''sid'', \<lambda>p. f_of_int (p_sid p)),
      (''session'', \<lambda>p. f_of_int (p_sid p)),
      (''uid'', \<lambda>p. f_of_int (uint (p_uid p))),
      (''gid'', \<lambda>p. f_of_int (uint (p_gid p)))]"

definition entity_str_fields :: "string \<rightharpoonup> (process \<Rightarrow> string)" where
  "entity_str_fields = map_of
     [(''comm'', p_comm), (''name'', display_name), (''user'', p_user), (''exe'', p_exe),
      (''app'', p_app_id), (''cgroup'', p_cgroup_path), (''systemd-unit'', p_systemd_unit),
      (''container'', p_container_id), (''pod'', p_pod_uid), (''state'', \<lambda>p. [p_state p]),
      (''pstate'', \<lambda>p. [p_state p]), (''wchan'', p_wchan), (''hostname'', p_hostname)]"

definition ns_field_type :: "string \<rightharpoonup> ns_type" where
  "ns_field_type = map_of
     [(''pidns'', NSPID), (''netns'', NSNet), (''mntns'', NSMount), (''userns'', NSUser),
      (''cgroupns'', NSCgroup)]"

definition ns_field :: "process \<Rightarrow> string \<Rightarrow> 64 word option" where
  "ns_field p field = (case ns_field_type field of None \<Rightarrow> None | Some t \<Rightarrow> p_namespaces p t)"

definition entity_field :: "process \<Rightarrow> string \<Rightarrow> val" where
  "entity_field p field =
     (case entity_num_fields field of
        Some g \<Rightarrow> VNum (g p)
      | None \<Rightarrow>
     (case entity_str_fields field of
        Some g \<Rightarrow> VStr (g p)
      | None \<Rightarrow>
        if field = ''nice'' then
          (if p_nice_avail p = Available then VNum (f_of_int (p_nice p)) else VMissing)
        else (case ns_field p field of
            Some ino \<Rightarrow> VNum (f_of_u64 ino)
          | None \<Rightarrow> VMissing)))"

definition entity_lookup :: "process \<Rightarrow> env" where
  "entity_lookup p field =
     (case p_metrics p field of
        Some v \<Rightarrow> (case get_reading v of Some n \<Rightarrow> VNum n | None \<Rightarrow> VMissing)
      | None \<Rightarrow> entity_field p field)"

definition row_agg_field :: "row_data \<Rightarrow> string \<Rightarrow> val option" where
  "row_agg_field r field =
     (if field = ''procs'' then Some (VNum (f_of_int (r_procs r)))
      else if field = ''threads'' then Some (VNum (f_of_int (r_threads r)))
      else if field = ''children'' then Some (VNum (f_of_int (r_children r)))
      else if field = ''leaves'' then Some (VNum (f_of_int (r_leaves r)))
      else if field = ''target'' \<or> field = ''label'' \<or> field = ''comm'' \<or> field = ''name''
        then Some (VStr (r_label r))
      else if field = ''kind'' then Some (VStr (kind_name (r_kind r)))
      else None)"

definition row_state :: "row_data \<Rightarrow> string option" where
  "row_state r =
     (case r_process r of
        Some p \<Rightarrow> Some [p_state p]
      | None \<Rightarrow> (case r_thread r of Some th \<Rightarrow> Some [th_state th] | None \<Rightarrow> None))"

definition row_leaf_field :: "row_data \<Rightarrow> string \<Rightarrow> val" where
  "row_leaf_field r field =
     (if field = ''state'' \<or> field = ''pstate'' then
        (case row_state r of Some s \<Rightarrow> VStr s | None \<Rightarrow> VMissing)
      else if field = ''wchan'' then
        (case r_process r of Some p \<Rightarrow> VStr (p_wchan p) | None \<Rightarrow> VMissing)
      else if field = ''hostname'' then
        (case r_process r of Some p \<Rightarrow> VStr (p_hostname p) | None \<Rightarrow> VMissing)
      else VMissing)"

definition row_lookup :: "row_data \<Rightarrow> env" where
  "row_lookup r field =
     (case r_metrics r field of
        Some v \<Rightarrow> (case get_reading v of Some n \<Rightarrow> VNum n | None \<Rightarrow> VMissing)
      | None \<Rightarrow> (case row_agg_field r field of Some v \<Rightarrow> v | None \<Rightarrow> row_leaf_field r field))"

definition eval_entity :: "regexp_compile \<Rightarrow> program \<Rightarrow> process \<Rightarrow> bool" where
  "eval_entity rx prog p = eval_program rx prog (entity_lookup p)"

definition eval_row :: "regexp_compile \<Rightarrow> program \<Rightarrow> row \<Rightarrow> bool" where
  "eval_row rx prog r = eval_program rx prog (row_lookup (row_data r))"

definition metric_field :: "registry \<Rightarrow> string \<Rightarrow> bool" where
  "metric_field reg f \<longleftrightarrow> (\<exists>d \<in> set (reg_all reg). f = d_id d \<or> f \<in> set (d_aliases d))"

definition entity_fields :: "string list" where
  "entity_fields =
     [''pid'', ''ppid'', ''pgid'', ''sid'', ''session'', ''uid'', ''gid'', ''comm'', ''name'', ''user'',
      ''exe'', ''app'', ''cgroup'', ''systemd-unit'', ''container'', ''pod'', ''state'', ''pstate'',
      ''wchan'', ''hostname'', ''nice'', ''pidns'', ''netns'', ''mntns'', ''userns'', ''cgroupns'']"

definition row_fields :: "string list" where
  "row_fields =
     [''procs'', ''threads'', ''children'', ''leaves'', ''target'', ''label'', ''comm'', ''name'',
      ''kind'', ''state'', ''pstate'', ''wchan'', ''hostname'']"

definition allowed_entity_fields :: "registry \<Rightarrow> string \<Rightarrow> bool" where
  "allowed_entity_fields reg f \<longleftrightarrow> f \<in> set entity_fields \<or> metric_field reg f"

definition allowed_row_fields :: "registry \<Rightarrow> string \<Rightarrow> bool" where
  "allowed_row_fields reg f \<longleftrightarrow> f \<in> set row_fields \<or> metric_field reg f"

section \<open>Flags (\<open>queryspec.go\<close>)\<close>

record flags =
  flg_group_by :: string
  flg_leaf :: string
  flg_sort :: string
  flg_columns :: string
  flg_profile :: string
  flg_overrides :: "string list"
  flg_format :: string
  flg_select :: string
  flg_having :: string
  flg_number :: int
  flg_human :: bool
  flg_target_width :: int
  flg_collapse_groups :: bool

record resolved =
  rv_spec :: query_spec
  rv_needed :: "metric_id list"
  rv_columns :: "string list"
  rv_format :: string
  rv_human :: bool
  rv_target_width :: int
  rv_expr_fields :: "string list"

datatype spec_error =
    SelectionFailed selection_error
  | BadSortDirection string string
  | ExprFailed parse_error
  | FieldNotAllowed string

definition default_columns :: "string list" where
  "default_columns = [''target'', ''pid'', ''pt'', ''cpu'', ''rss'', ''disk-rbps'', ''disk-wbps'', ''pstate'']"

definition wide_columns :: "string list" where
  "wide_columns =
     [''target'', ''pt'', ''user'', ''pid'', ''cpu'', ''cpu-user'', ''cpu-system'', ''rss'', ''vsz'',
      ''minor-faults'', ''major-faults'', ''disk-rbps'', ''disk-wbps'', ''pstate'', ''pnice'']"

definition split_comma :: "string \<Rightarrow> string list" where
  "split_comma s = (if s = [] then []
     else filter (\<lambda>p. p \<noteq> []) (map trim_space (split_on (CHR '','') s)))"

fun parse_override :: "string \<Rightarrow> override" where
  "parse_override r =
     (if hd r = CHR ''+'' then \<lparr>ov_add = True, ov_id = tl r\<rparr>
      else if hd r = CHR ''-'' then \<lparr>ov_add = False, ov_id = tl r\<rparr>
      else \<lparr>ov_add = True, ov_id = r\<rparr>)"

definition parse_overrides :: "string list \<Rightarrow> override list" where
  "parse_overrides raw = map parse_override (filter (\<lambda>r. r \<noteq> []) raw)"

definition parse_sort_key :: "string \<Rightarrow> (spec_error, sort_field) result" where
  "parse_sort_key part =
     (case str_cut (CHR '':'') part of
        Some (field, dir) \<Rightarrow>
          if dir = ''asc'' then Inr \<lparr>sk_field = field, sk_descending = False\<rparr>
          else if dir = ''desc'' then Inr \<lparr>sk_field = field, sk_descending = True\<rparr>
          else Inl (BadSortDirection dir part)
      | None \<Rightarrow>
          if has_prefix part ''-'' then Inr \<lparr>sk_field = tl part, sk_descending = True\<rparr>
          else if has_prefix part ''+'' then Inr \<lparr>sk_field = tl part, sk_descending = False\<rparr>
          else Inr \<lparr>sk_field = part, sk_descending = False\<rparr>)"

definition parse_sort :: "string \<Rightarrow> (spec_error, sort_field list) result" where
  "parse_sort spec = (if spec = [] then Inr [] else rmap parse_sort_key (split_comma spec))"

definition apply_profile_defaults :: "flags \<Rightarrow> flags" where
  "apply_profile_defaults f =
     (if flg_profile f = [] then f
      else (case profile_defaults (flg_profile f) of
          None \<Rightarrow> f
        | Some p \<Rightarrow>
            let f = (if flg_sort f = [] then f\<lparr>flg_sort := pf_sort p\<rparr> else f);
                f = (if flg_group_by f = [] then f\<lparr>flg_group_by := pf_group_by p\<rparr> else f)
            in (if flg_having f = [] then f\<lparr>flg_having := pf_having p\<rparr> else f)))"

definition flags_selection :: "registry \<Rightarrow> flags \<Rightarrow> (selection_error, metric_id list) result" where
  "flags_selection reg f =
     (let profile = (if flg_profile f = [] then ''light'' else flg_profile f) in
      resolve_selection reg profile (parse_overrides (flg_overrides f)))"

text \<open>The columns of a profile, and whether the profile lists them itself.\<close>

definition profile_columns :: "registry \<Rightarrow> string \<Rightarrow> (string list \<times> bool) option" where
  "profile_columns reg profile =
     (if profile = [] \<or> profile = ''none'' \<or> profile = ''light'' \<or> profile = ''all'' then None
      else
        let explicit = (case profile_defaults profile of
              Some p \<Rightarrow> if length (pf_columns p) > 0 then Some (pf_columns p) else None
            | None \<Rightarrow> None)
        in (case explicit of
              Some cols \<Rightarrow> Some (cols, True)
            | None \<Rightarrow> (case resolve_profile reg profile of
                Inl _ \<Rightarrow> None
              | Inr ids \<Rightarrow> if length ids = 0 then None else Some (ids, False))))"

fun insert_after_first :: "string \<Rightarrow> string \<Rightarrow> string list \<Rightarrow> string list" where
  "insert_after_first x y [] = []"
| "insert_after_first x y (c # cs) = (if c = x then c # y # cs else c # insert_after_first x y cs)"

definition with_group_size :: "string list \<Rightarrow> string list" where
  "with_group_size cols =
     (if ''pt'' \<in> set cols then cols
      else if ''target'' \<in> set cols then insert_after_first ''target'' ''pt'' cols
      else ''pt'' # cols)"

definition leaf_identifiers :: "string \<Rightarrow> string list \<Rightarrow> string list" where
  "leaf_identifiers leaf cols =
     [''target'', ''pid''] @ (if leaf = LeafThread then [''tid''] else []) @ cols"

definition with_tid :: "string list \<Rightarrow> string list" where
  "with_tid cols = concat (map (\<lambda>c. if c = ''pid'' then [c, ''tid''] else [c]) cols)"

definition choose_columns :: "registry \<Rightarrow> flags \<Rightarrow> string list" where
  "choose_columns reg f =
     (if flg_columns f \<noteq> [] then split_comma (flg_columns f)
      else if flg_format f = ''wide'' then wide_columns
      else (case profile_columns reg (flg_profile f) of
          Some (cols, True) \<Rightarrow> with_group_size cols
        | Some (cols, False) \<Rightarrow> with_group_size (leaf_identifiers (flg_leaf f) cols)
        | None \<Rightarrow> if flg_leaf f = LeafThread then with_tid default_columns else default_columns))"

definition compile_validated ::
  "regexp_compile \<Rightarrow> string \<Rightarrow> (string \<Rightarrow> bool) \<Rightarrow> (spec_error, program) result" where
  "compile_validated rx src allowed =
     (case compile rx src of
        Inl e \<Rightarrow> Inl (ExprFailed e)
      | Inr prog \<Rightarrow> (case validate allowed prog of
            Some f \<Rightarrow> Inl (FieldNotAllowed f)
          | None \<Rightarrow> Inr prog))"

definition optional_program ::
  "regexp_compile \<Rightarrow> string \<Rightarrow> (string \<Rightarrow> bool) \<Rightarrow> (spec_error, program option) result" where
  "optional_program rx src allowed =
     (if src = [] then Inr None else rbind (compile_validated rx src allowed) (\<lambda>p. Inr (Some p)))"

definition opt_fields :: "program option \<Rightarrow> string list" where
  "opt_fields p = (case p of Some prog \<Rightarrow> prog_fields prog | None \<Rightarrow> [])"

definition compile_predicates ::
  "regexp_compile \<Rightarrow> registry \<Rightarrow> flags \<Rightarrow>
    (spec_error, (process \<Rightarrow> bool) option \<times> (row \<Rightarrow> bool) option \<times> string list) result" where
  "compile_predicates rx reg f =
     rbind (optional_program rx (flg_select f) (allowed_entity_fields reg)) (\<lambda>sel.
     rbind (optional_program rx (flg_having f) (allowed_row_fields reg)) (\<lambda>hav.
       Inr (map_option (eval_entity rx) sel, map_option (eval_row rx) hav,
            opt_fields sel @ opt_fields hav)))"

text \<open>The ordered set of ids: the selection, then what columns, expressions and sort keys name.\<close>

definition needed_metrics ::
  "registry \<Rightarrow> metric_id list \<Rightarrow> string list \<Rightarrow> sort_field list \<Rightarrow> metric_id list" where
  "needed_metrics reg selection cols ks =
     first_seen (first_seen (first_seen [] selection) (List.map_filter (resolve_id reg) cols))
       (List.map_filter (\<lambda>k. resolve_id reg (sk_field k)) ks)"

definition build_spec :: "regexp_compile \<Rightarrow> registry \<Rightarrow> flags \<Rightarrow> (spec_error, resolved) result" where
  "build_spec rx reg flags0 =
     (let f = apply_profile_defaults flags0 in
      case flags_selection reg f of
        Inl e \<Rightarrow> Inl (SelectionFailed e)
      | Inr selection \<Rightarrow>
        let cols = choose_columns reg f in
        rbind (parse_sort (flg_sort f)) (\<lambda>ks.
        let leaf = (if flg_leaf f = [] then LeafProcess else flg_leaf f) in
        rbind (compile_predicates rx reg f) (\<lambda>(sel, hav, fields).
        let needed = needed_metrics reg selection (cols @ fields) ks in
        Inr \<lparr>rv_spec = \<lparr>q_metrics = needed, q_select = sel, q_group_by = split_comma (flg_group_by f),
               q_leaf = leaf, q_having = hav, q_sort = ks, q_columns = cols, q_limit = flg_number f\<rparr>,
             rv_needed = needed, rv_columns = cols, rv_format = flg_format f, rv_human = flg_human f,
             rv_target_width = flg_target_width f, rv_expr_fields = fields\<rparr>)))"

section \<open>Fields an expression may use\<close>

text \<open>
  Structural fields. Every field a select expression may use, metrics apart, is served by
  \<open>EntityField\<close> for every process: it is missing only for a nice value that was not read and
  for a namespace the process's set does not know.
\<close>

theorem entity_field_served:
  assumes "f \<in> set entity_fields"
  shows "entity_field p f = VMissing \<longleftrightarrow>
    (f = ''nice'' \<and> p_nice_avail p \<noteq> Available) \<or>
    (\<exists>t. ns_field_type f = Some t \<and> p_namespaces p t = None)"
  using assms
  by (simp add: entity_fields_def)
    (elim disjE; simp add: entity_field_def entity_num_fields_def entity_str_fields_def ns_field_def
      ns_field_type_def split: option.split)

theorem entity_field_served_witness: "entity_field zero_process ''netns'' = VMissing"
  using entity_field_served [of "''netns''" zero_process]
  by (simp add: entity_fields_def ns_field_type_def zero_process_def)

text \<open>
  The metric map of a process is keyed by canonical ids. An alias is accepted by the
  validation of expressions but is no key of the map: it reads as missing.
\<close>

definition canonical_metrics :: "registry \<Rightarrow> process \<Rightarrow> bool" where
  "canonical_metrics reg p \<longleftrightarrow> (\<forall>i \<in> dom (p_metrics p). resolve_id reg i = Some i)"

lemma entity_field_other:
  "f \<notin> set entity_fields \<Longrightarrow> entity_field p f = VMissing"
  by (simp add: entity_fields_def entity_field_def entity_num_fields_def entity_str_fields_def
      ns_field_def ns_field_type_def)

text \<open>
  Aliases in expressions. A metric's alias passes the validation of a select expression,
  and then reads as missing for every process whose metrics are stored under canonical ids,
  so no ordinary comparison with it ever holds.
\<close>

theorem alias_field_is_missing:
  assumes "metric_field reg a" and "resolve_id reg a = Some i" and "i \<noteq> a" and "a \<notin> set entity_fields"
    and "canonical_metrics reg p"
  shows "allowed_entity_fields reg a \<and> entity_lookup p a = VMissing"
proof -
  have "p_metrics p a = None"
    using assms(2,3,5) by (cases "p_metrics p a") (auto simp: canonical_metrics_def dom_def)
  then show ?thesis
    using assms(1,4) by (simp add: allowed_entity_fields_def entity_lookup_def entity_field_other)
qed

definition alias_registry :: registry where
  "alias_registry = fst (register new_registry
     \<lparr>d_id = ''disk-rbps'', d_aliases = [''disk-read-bytes''], d_unit = UnitBytesPerSec,
      d_scope = ScopeProcess, d_kind = KindRate, d_cost = Cost0Light, d_collector = ''proc'',
      d_agg = AggSum, d_rate = True, d_desc = []\<rparr>)"

theorem alias_field_is_missing_witness:
  "entity_lookup (set_metric ''disk-rbps'' (new_value (Fin 9) Exact []) zero_process) ''disk-read-bytes'' = VMissing"
proof -
  have "metric_field alias_registry ''disk-read-bytes''"
    "resolve_id alias_registry ''disk-read-bytes'' = Some ''disk-rbps''"
    "''disk-read-bytes'' \<notin> set entity_fields"
    "canonical_metrics alias_registry (set_metric ''disk-rbps'' (new_value (Fin 9) Exact []) zero_process)"
    by (simp_all add: alias_registry_def register_def new_registry_def resolve_id_def metric_field_def
        reg_all_def by_id_or_zero_def entity_fields_def canonical_metrics_def set_metric_def zero_process_def)
  then show ?thesis
    using alias_field_is_missing [of alias_registry "''disk-read-bytes''" "''disk-rbps''"] by simp
qed

section \<open>The metrics a query needs\<close>

lemma set_map_filter: "set (List.map_filter f xs) = {y. \<exists>x \<in> set xs. f x = Some y}"
  by (force simp: List.map_filter_def)

text \<open>
  Needed metrics. The list has no duplicates, keeps the selection in front, and holds
  exactly the selected metrics and those a column, an expression field or a sort key names by
  id or alias.
\<close>

theorem needed_metrics_spec:
  "distinct (needed_metrics reg selection cols ks) \<and>
   set (needed_metrics reg selection cols ks) =
     set selection \<union> {i. \<exists>c \<in> set cols. resolve_id reg c = Some i}
       \<union> {i. \<exists>k \<in> set ks. resolve_id reg (sk_field k) = Some i} \<and>
   (\<exists>rest. needed_metrics reg selection cols ks = first_seen [] selection @ rest)"
proof -
  have "\<exists>rest. first_seen acc xs = acc @ rest" for acc xs :: "metric_id list"
  proof (induction xs arbitrary: acc)
    case (Cons x xs)
    obtain rest where "first_seen (add_new acc x) xs = add_new acc x @ rest"
      using Cons.IH by blast
    then show ?case by (auto simp: add_new.simps)
  qed simp
  then have "\<exists>rest. needed_metrics reg selection cols ks = first_seen [] selection @ rest"
    unfolding needed_metrics_def by (metis append_assoc)
  then show ?thesis
    by (auto simp: needed_metrics_def set_map_filter)
qed

section \<open>Built queries\<close>

lemma validate_all: "validate allowed prog = None \<longleftrightarrow> (\<forall>f \<in> set (prog_fields prog). allowed f)"
proof -
  have "validate_fields allowed fs = None \<longleftrightarrow> (\<forall>f \<in> set fs. allowed f)" for fs
    by (induction fs) auto
  then show ?thesis by (simp add: validate_def)
qed

lemma compile_fields:
  "compile rx src = Inr prog \<Longrightarrow> set (prog_fields prog) = set (collect_fields (prog_root prog))"
  by (auto simp: compile_def result_simps split: sum.splits)

lemma optional_program_SomeD:
  assumes "optional_program rx src allowed = Inr (Some prog)"
  shows "compile rx src = Inr prog \<and> (\<forall>f \<in> set (prog_fields prog). allowed f)"
  using assms
  by (auto simp: optional_program_def compile_validated_def result_simps validate_all[symmetric]
      split: if_splits sum.splits option.splits)

lemma build_spec_select:
  assumes "build_spec rx reg fl = Inr r" and "q_select (rv_spec r) = Some pred"
  obtains prog ks sel where "pred = eval_entity rx prog"
    and "compile rx (flg_select (apply_profile_defaults fl)) = Inr prog"
    and "set (prog_fields prog) \<subseteq> set (rv_expr_fields r)"
    and "rv_needed r = needed_metrics reg sel (rv_columns r @ rv_expr_fields r) ks"
  using assms
  by (auto simp: build_spec_def Let_def result_simps compile_predicates_def opt_fields_def
      dest!: optional_program_SomeD split: sum.splits prod.splits)

lemma display_name_metrics [simp]: "display_name (p\<lparr>p_metrics := m\<rparr>) = display_name p"
  by (cases "p_cmdline p") (simp_all add: display_name_def)

lemma entity_field_metrics [simp]: "entity_field (p\<lparr>p_metrics := m\<rparr>) f = entity_field p f"
proof -
  have "entity_num_fields f = Some g \<Longrightarrow> g (p\<lparr>p_metrics := m\<rparr>) = g p" for g
    by (auto simp: entity_num_fields_def split: if_splits)
  moreover have "entity_str_fields f = Some g \<Longrightarrow> g (p\<lparr>p_metrics := m\<rparr>) = g p" for g
    by (auto simp: entity_str_fields_def split: if_splits)
  ultimately show ?thesis
    by (auto simp: entity_field_def ns_field_def split: option.splits)
qed

text \<open>
  The needed metrics suffice. The select predicate of a built query gives the same answer
  when the process carries only the needed metrics: collecting no others never changes which
  processes are selected.
\<close>

theorem select_needs_only_needed:
  assumes "build_spec rx reg fl = Inr r" and "q_select (rv_spec r) = Some pred"
    and "canonical_metrics reg p"
  shows "pred (p\<lparr>p_metrics := p_metrics p |` set (rv_needed r)\<rparr>) = pred p"
proof -
  obtain prog ks sel where prog: "pred = eval_entity rx prog"
      "compile rx (flg_select (apply_profile_defaults fl)) = Inr prog"
      and cols: "set (prog_fields prog) \<subseteq> set (rv_expr_fields r)"
      "rv_needed r = needed_metrics reg sel (rv_columns r @ rv_expr_fields r) ks"
    by (rule build_spec_select [OF assms(1,2)])
  let ?p = "p\<lparr>p_metrics := p_metrics p |` set (rv_needed r)\<rparr>"
  have "entity_lookup ?p f = entity_lookup p f" if "f \<in> set (collect_fields (prog_root prog))" for f
  proof (cases "p_metrics p f")
    case None
    then show ?thesis
      by (simp add: entity_lookup_def restrict_map_def)
  next
    case (Some v)
    then have "resolve_id reg f = Some f"
      using assms(3) by (auto simp: canonical_metrics_def)
    then have "f \<in> set (rv_needed r)"
      using that cols compile_fields [OF prog(2)] by (auto simp: needed_metrics_def set_map_filter)
    then show ?thesis using Some by (simp add: entity_lookup_def)
  qed
  then show ?thesis
    using eval_fields_cong [of "prog_root prog" "entity_lookup ?p" "entity_lookup p" rx]
    by (simp add: prog(1) eval_entity_def eval_program_def)
qed

definition sample_flags :: flags where
  "sample_flags = \<lparr>flg_group_by = ''user'', flg_leaf = [], flg_sort = ''cpu:desc'', flg_columns = [],
     flg_profile = ''none'', flg_overrides = [], flg_format = [], flg_select = ''comm == 'sh' '',
     flg_having = [], flg_number = 0, flg_human = False, flg_target_width = 0,
     flg_collapse_groups = False\<rparr>"

lemma sample_flags_build:
  "case build_spec (\<lambda>_. None) new_registry sample_flags of
     Inl _ \<Rightarrow> False
   | Inr r \<Rightarrow> (case q_select (rv_spec r) of None \<Rightarrow> False | Some _ \<Rightarrow> True)"
  by code_simp

theorem select_needs_only_needed_witness:
  "\<exists>r pred. build_spec (\<lambda>_. None) new_registry sample_flags = Inr r \<and> q_select (rv_spec r) = Some pred \<and>
     pred (zero_process\<lparr>p_metrics := p_metrics zero_process |` set (rv_needed r)\<rparr>) = pred zero_process"
proof -
  obtain r pred where "build_spec (\<lambda>_. None) new_registry sample_flags = Inr r" "q_select (rv_spec r) = Some pred"
    using sample_flags_build by (auto split: sum.splits option.splits)
  moreover have "canonical_metrics new_registry zero_process"
    by (simp add: canonical_metrics_def zero_process_def)
  ultimately show ?thesis
    using select_needs_only_needed by blast
qed

section \<open>Lists of names and sort keys\<close>

text \<open>A name as the user writes it in a list: not empty, no comma, no blank at either end.\<close>

definition list_word :: "string \<Rightarrow> bool" where
  "list_word w \<longleftrightarrow> w \<noteq> [] \<and> CHR '','' \<notin> set w \<and> trim_space w = w"

lemma split_comma_join: "\<forall>w \<in> set ws. list_word w \<Longrightarrow> split_comma (join '','' ws) = ws"
proof (cases "ws = []")
  case False
  assume ws: "\<forall>w \<in> set ws. list_word w"
  then have "split_on (CHR '','') (join '','' ws) = ws"
    using False by (intro split_join) (auto simp: list_word_def)
  moreover have "map trim_space ws = ws" "filter (\<lambda>p. p \<noteq> []) ws = ws"
    using ws by (auto simp: list_word_def intro!: map_idI filter_True)
  moreover have "join '','' ws \<noteq> []"
    using ws False by (cases ws rule: remdups_adj.cases) (auto simp: list_word_def)
  ultimately show ?thesis by (simp add: split_comma_def)
qed (simp add: split_comma_def)

definition show_sort_key :: "sort_field \<Rightarrow> string" where
  "show_sort_key k = sk_field k @ '':'' @ (if sk_descending k then ''desc'' else ''asc'')"

definition sort_key_ok :: "sort_field \<Rightarrow> bool" where
  "sort_key_ok k \<longleftrightarrow> CHR '':'' \<notin> set (sk_field k) \<and> list_word (show_sort_key k)"

lemma parse_sort_key_show: "CHR '':'' \<notin> set (sk_field k) \<Longrightarrow> parse_sort_key (show_sort_key k) = Inr k"
  by (simp add: parse_sort_key_def show_sort_key_def str_cut_append)

lemma parse_shown_sort:
  assumes "\<forall>k \<in> set ks. sort_key_ok k"
  shows "parse_sort (join '','' (map show_sort_key ks)) = Inr ks"
proof (cases "ks = []")
  case False
  have "split_comma (join '','' (map show_sort_key ks)) = map show_sort_key ks"
    using assms by (intro split_comma_join) (auto simp: sort_key_ok_def)
  moreover have "rmap parse_sort_key (map show_sort_key ks) = Inr ks"
    using assms by (induction ks) (auto simp: sort_key_ok_def parse_sort_key_show)
  moreover have "join '','' (map show_sort_key ks) \<noteq> []"
    using False by (cases ks rule: remdups_adj.cases) (auto simp: show_sort_key_def)
  ultimately show ?thesis by (simp add: parse_sort_def)
qed (simp add: parse_sort_def)

text \<open>
  Sort keys. Writing keys as \<open>field:asc\<close> or \<open>field:desc\<close>, separated by commas, and parsing
  the result gives the keys back in order, for every list of fields without commas, colons
  and surrounding blanks.
\<close>

theorem parse_sort_show:
  assumes "\<forall>k \<in> set ks. sort_key_ok k"
  shows "parse_sort (join '','' (map show_sort_key ks)) = Inr ks"
  using assms by (rule parse_shown_sort)

theorem parse_sort_show_witness: "parse_sort ''rss:desc,pid:asc'' =
    Inr [\<lparr>sk_field = ''rss'', sk_descending = True\<rparr>, \<lparr>sk_field = ''pid'', sk_descending = False\<rparr>]"
  using parse_sort_show [of "[\<lparr>sk_field = ''rss'', sk_descending = True\<rparr>, \<lparr>sk_field = ''pid'', sk_descending = False\<rparr>]"]
  by (simp add: sort_key_ok_def show_sort_key_def list_word_def trim_space_no_space is_space_def)

end
