(* ===== verification/Collect.thy ===== *)
theory Collect
  imports Model_Process
begin

text \<open>
  The sampler, \<open>internal/collect\<close>, and the raw readings it consumes (\<open>internal/ports/process.go\<close>):
  counters are 64-bit words, rates are computed from the difference of two generations in
  binary64 arithmetic. What the process source and the clock return at a sample is an
  argument of the sample.
\<close>

section \<open>Raw readings (\<open>ports/process.go\<close>)\<close>

record proc_io =
  io_read_bytes :: "64 word"
  io_write_bytes :: "64 word"
  io_rchar :: "64 word"
  io_wchar :: "64 word"
  io_syscr :: "64 word"
  io_syscw :: "64 word"
  io_cancelled :: "64 word"

record thread_stat =
  ts_tid :: int
  ts_start_ticks :: "64 word"
  ts_comm :: string
  ts_state :: char
  ts_utime :: "64 word"
  ts_stime :: "64 word"

record proc_stat =
  ps_id :: process_id
  ps_pid :: int
  ps_ppid :: int
  ps_pgid :: int
  ps_sid :: int
  ps_tgid :: int
  ps_uid :: "32 word"
  ps_euid :: "32 word"
  ps_gid :: "32 word"
  ps_egid :: "32 word"
  ps_comm :: string
  ps_cmdline :: "string list"
  ps_cmdline_avail :: availability
  ps_exe :: string
  ps_exe_avail :: availability
  ps_cwd :: string
  ps_cgroup_path :: string
  ps_state :: char
  ps_nice :: int
  ps_nice_avail :: availability
  ps_num_threads :: int
  ps_start_ticks :: "64 word"
  ps_wchan :: string
  ps_hostname :: string
  ps_utime :: "64 word"
  ps_stime :: "64 word"
  ps_min_flt :: "64 word"
  ps_maj_flt :: "64 word"
  ps_voluntary :: "64 word"
  ps_involuntary :: "64 word"
  ps_blkio :: "64 word"
  ps_blkio_avail :: availability
  ps_rss :: "64 word"
  ps_vsz :: "64 word"
  ps_rss_peak :: "64 word"
  ps_rss_anon :: "64 word"
  ps_rss_file :: "64 word"
  ps_rss_shmem :: "64 word"
  ps_swap :: "64 word"
  ps_io :: proc_io
  ps_io_avail :: availability
  ps_namespaces :: namespace_set
  ps_threads :: "thread_stat list"

section \<open>Metric specifications (\<open>metricspec.go\<close>)\<close>

text \<open>Times are nanoseconds, wall time since the epoch; boot time is in seconds.\<close>

record sysctx =
  sc_hz :: f64
  sc_cpus :: f64
  sc_boot_unix :: int
  sc_wall_now :: int

record rate_spec =
  rs_get :: "proc_stat \<Rightarrow> 64 word \<times> availability"
  rs_conv :: "f64 \<Rightarrow> sysctx \<Rightarrow> f64"

type_synonym gauge_reading = "f64 \<times> availability \<times> quality"

definition cpu_conv :: "f64 \<Rightarrow> sysctx \<Rightarrow> f64" where
  "cpu_conv per_sec s =
     (if f_eq (sc_hz s) (Fin 0) then Fin 0 else f_mul (f_div per_sec (sc_hz s)) (Fin 100))"

definition normalized_conv :: "f64 \<Rightarrow> sysctx \<Rightarrow> f64" where
  "normalized_conv per_sec s =
     (let v = cpu_conv per_sec s in if f_lt (Fin 0) (sc_cpus s) then f_div v (sc_cpus s) else v)"

definition identity_rate :: "f64 \<Rightarrow> sysctx \<Rightarrow> f64" where
  "identity_rate per_sec s = per_sec"

definition io_avail :: "proc_stat \<Rightarrow> 64 word \<Rightarrow> 64 word \<times> availability" where
  "io_avail p v = (if ps_io_avail p \<noteq> Available then (0, ps_io_avail p) else (v, Available))"

definition blkio_get :: "proc_stat \<Rightarrow> 64 word \<times> availability" where
  "blkio_get p = (if ps_blkio_avail p \<noteq> AvUnset \<and> ps_blkio_avail p \<noteq> Available
     then (0, ps_blkio_avail p) else (ps_blkio p, Available))"

definition rate_specs :: "metric_id \<rightharpoonup> rate_spec" where
  "rate_specs = map_of
     [(''cpu'', \<lparr>rs_get = \<lambda>p. (ps_utime p + ps_stime p, Available), rs_conv = cpu_conv\<rparr>),
      (''cpu-user'', \<lparr>rs_get = \<lambda>p. (ps_utime p, Available), rs_conv = cpu_conv\<rparr>),
      (''cpu-system'', \<lparr>rs_get = \<lambda>p. (ps_stime p, Available), rs_conv = cpu_conv\<rparr>),
      (''cpu-normalized'', \<lparr>rs_get = \<lambda>p. (ps_utime p + ps_stime p, Available), rs_conv = normalized_conv\<rparr>),
      (''minor-faults'', \<lparr>rs_get = \<lambda>p. (ps_min_flt p, Available), rs_conv = identity_rate\<rparr>),
      (''major-faults'', \<lparr>rs_get = \<lambda>p. (ps_maj_flt p, Available), rs_conv = identity_rate\<rparr>),
      (''ctxsw-voluntary'', \<lparr>rs_get = \<lambda>p. (ps_voluntary p, Available), rs_conv = identity_rate\<rparr>),
      (''ctxsw-involuntary'', \<lparr>rs_get = \<lambda>p. (ps_involuntary p, Available), rs_conv = identity_rate\<rparr>),
      (''disk-rbps'', \<lparr>rs_get = \<lambda>p. io_avail p (io_read_bytes (ps_io p)), rs_conv = identity_rate\<rparr>),
      (''disk-wbps'', \<lparr>rs_get = \<lambda>p. io_avail p (io_write_bytes (ps_io p)), rs_conv = identity_rate\<rparr>),
      (''io-rchar'', \<lparr>rs_get = \<lambda>p. io_avail p (io_rchar (ps_io p)), rs_conv = identity_rate\<rparr>),
      (''io-wchar'', \<lparr>rs_get = \<lambda>p. io_avail p (io_wchar (ps_io p)), rs_conv = identity_rate\<rparr>),
      (''read-syscalls'', \<lparr>rs_get = \<lambda>p. io_avail p (io_syscr (ps_io p)), rs_conv = identity_rate\<rparr>),
      (''write-syscalls'', \<lparr>rs_get = \<lambda>p. io_avail p (io_syscw (ps_io p)), rs_conv = identity_rate\<rparr>),
      (''blkio-delay'', \<lparr>rs_get = blkio_get, rs_conv = cpu_conv\<rparr>)]"

text \<open>\<open>Time.Sub\<close> saturates a duration at the range of \<open>int64\<close>; \<open>Seconds\<close> splits off whole seconds.\<close>

definition saturate64 :: "int \<Rightarrow> int" where
  "saturate64 d = max (- (2 ^ 63)) (min (2 ^ 63 - 1) d)"

definition duration_secs :: "int \<Rightarrow> f64" where
  "duration_secs d =
     (let sec = sgn d * (\<bar>d\<bar> div 1000000000); nsec = sgn d * (\<bar>d\<bar> mod 1000000000) in
      f_add (f_of_int sec) (f_div (f_of_int nsec) (Fin 1000000000)))"

definition age_seconds :: "64 word \<Rightarrow> sysctx \<Rightarrow> gauge_reading" where
  "age_seconds start_ticks s =
     (if sc_boot_unix s = 0 \<or> f_eq (sc_hz s) (Fin 0) then (Fin 0, Unsupported, QUnset)
      else
        let start_wall = f_add (f_of_int (sc_boot_unix s)) (f_div (f_of_u64 start_ticks) (sc_hz s));
            age = duration_secs (saturate64 (sc_wall_now s - f_trunc start_wall * 1000000000))
        in (if f_lt age (Fin 0) then Fin 0 else age, Available, Derived))"

definition cpu_time_seconds :: "64 word \<Rightarrow> sysctx \<Rightarrow> gauge_reading" where
  "cpu_time_seconds ticks s =
     (if f_eq (sc_hz s) (Fin 0) then (Fin 0, Unsupported, QUnset)
      else (f_div (f_of_u64 ticks) (sc_hz s), Available, Exact))"

definition exact_gauge :: "f64 \<Rightarrow> gauge_reading" where
  "exact_gauge v = (v, Available, Exact)"

definition gauge_specs :: "metric_id \<rightharpoonup> (proc_stat \<Rightarrow> sysctx \<Rightarrow> gauge_reading)" where
  "gauge_specs = map_of
     [(''rss'', \<lambda>p s. exact_gauge (f_of_u64 (ps_rss p))),
      (''vsz'', \<lambda>p s. exact_gauge (f_of_u64 (ps_vsz p))),
      (''threads'', \<lambda>p s. exact_gauge (f_of_int (ps_num_threads p))),
      (''swap'', \<lambda>p s. exact_gauge (f_of_u64 (ps_swap p))),
      (''mem-peak'', \<lambda>p s. exact_gauge (f_of_u64 (ps_rss_peak p))),
      (''rss-anon'', \<lambda>p s. exact_gauge (f_of_u64 (ps_rss_anon p))),
      (''rss-file'', \<lambda>p s. exact_gauge (f_of_u64 (ps_rss_file p))),
      (''rss-shmem'', \<lambda>p s. exact_gauge (f_of_u64 (ps_rss_shmem p))),
      (''pnice'', \<lambda>p s. if ps_nice_avail p \<noteq> Available then (Fin 0, ps_nice_avail p, QUnset)
                     else exact_gauge (f_of_int (ps_nice p))),
      (''age'', \<lambda>p s. age_seconds (ps_start_ticks p) s),
      (''cpu-time'', \<lambda>p s. cpu_time_seconds (ps_utime p + ps_stime p) s)]"

section \<open>Metric values (\<open>sampler.go\<close>)\<close>

definition gauge_value :: "gauge_reading \<Rightarrow> string \<Rightarrow> metric_value" where
  "gauge_value g src = (case g of (v, av, q) \<Rightarrow>
     if av \<noteq> Available then unavailable av src else new_value v q src)"

text \<open>
  The previous reading is an option (the code passes a zero value beside \<open>hadPrev\<close> and tests
  the flag before it reads the value).
\<close>

definition compute_rate ::
  "rate_spec \<Rightarrow> proc_stat \<Rightarrow> proc_stat option \<Rightarrow> f64 \<Rightarrow> sysctx \<Rightarrow> metric_value" where
  "compute_rate spec cur prev elapsed sc =
     (case rs_get spec cur of (cur_v, cur_avail) \<Rightarrow>
        if cur_avail \<noteq> Available then unavailable cur_avail ''proc''
        else (case prev of
            None \<Rightarrow> unavailable WarmingUp ''proc''
          | Some p \<Rightarrow>
              if f_le elapsed (Fin 0) then unavailable WarmingUp ''proc''
              else (case rs_get spec p of (prev_v, prev_avail) \<Rightarrow>
                  if prev_avail \<noteq> Available then unavailable WarmingUp ''proc''
                  else if cur_v < prev_v then unavailable WarmingUp ''proc''
                  else new_value (rs_conv spec (f_div (f_of_u64 (cur_v - prev_v)) elapsed) sc)
                         Derived ''proc'')))"

definition compute_metric ::
  "metric_id \<Rightarrow> proc_stat \<Rightarrow> proc_stat option \<Rightarrow> f64 \<Rightarrow> sysctx \<Rightarrow> metric_value" where
  "compute_metric i cur prev elapsed sc =
     (case rate_specs i of
        Some spec \<Rightarrow> compute_rate spec cur prev elapsed sc
      | None \<Rightarrow> (case gauge_specs i of
            Some get \<Rightarrow> gauge_value (get cur sc) ''proc''
          | None \<Rightarrow> unavailable Disabled ''proc''))"

definition thread_counters :: "metric_id \<rightharpoonup> (thread_stat \<Rightarrow> 64 word)" where
  "thread_counters = map_of
     [(''cpu'', \<lambda>t. ts_utime t + ts_stime t), (''cpu-user'', ts_utime), (''cpu-system'', ts_stime)]"

definition thread_gauges :: "metric_id \<rightharpoonup> (thread_stat \<Rightarrow> sysctx \<Rightarrow> gauge_reading)" where
  "thread_gauges = map_of
     [(''cpu-time'', \<lambda>t s. cpu_time_seconds (ts_utime t + ts_stime t) s),
      (''age'', \<lambda>t s. age_seconds (ts_start_ticks t) s)]"

definition thread_metric ::
  "metric_id \<Rightarrow> thread_stat \<Rightarrow> thread_stat option \<Rightarrow> f64 \<Rightarrow> sysctx \<Rightarrow> metric_value" where
  "thread_metric i cur prev elapsed sc =
     (case thread_gauges i of
        Some g \<Rightarrow> gauge_value (g cur sc) ''thread''
      | None \<Rightarrow> (case thread_counters i of
            None \<Rightarrow> unavailable Disabled ''thread''
          | Some get \<Rightarrow> (case prev of
                None \<Rightarrow> unavailable WarmingUp ''thread''
              | Some p \<Rightarrow>
                  if f_le elapsed (Fin 0) then unavailable WarmingUp ''thread''
                  else if get cur < get p then unavailable WarmingUp ''thread''
                  else new_value (cpu_conv (f_div (f_of_u64 (get cur - get p)) elapsed) sc)
                         Derived ''thread'')))"

section \<open>The sampler (\<open>sampler.go\<close>)\<close>

record sampler =
  sm_prev :: "string \<rightharpoonup> proc_stat"
  sm_prev_threads :: "string \<rightharpoonup> thread_stat"
  sm_prev_mono :: int
  sm_has_prev :: bool
  sm_gen :: int

text \<open>What the source and the clock answer during one sample.\<close>

record source_reading =
  sr_list :: "(string, proc_stat list) result"
  sr_boot_id :: string
  sr_hz :: int
  sr_cpus :: int
  sr_boot_unix :: int
  sr_mono :: int
  sr_wall :: int

record snapshot =
  sn_generation :: int
  sn_boot_id :: string
  sn_wall_time :: int
  sn_elapsed :: int
  sn_processes :: "process list"

definition new_sampler :: sampler where
  "new_sampler = \<lparr>sm_prev = Map.empty, sm_prev_threads = Map.empty, sm_prev_mono = 0,
     sm_has_prev = False, sm_gen = 0\<rparr>"

definition normalize_stat :: "proc_stat \<Rightarrow> process" where
  "normalize_stat st = zero_process
     \<lparr>p_id := ps_id st, p_pid := ps_pid st, p_ppid := ps_ppid st, p_pgid := ps_pgid st,
      p_sid := ps_sid st, p_tgid := ps_tgid st, p_uid := ps_uid st, p_euid := ps_euid st,
      p_gid := ps_gid st, p_egid := ps_egid st, p_comm := ps_comm st, p_cmdline := ps_cmdline st,
      p_cmdline_avail := ps_cmdline_avail st, p_exe := ps_exe st, p_cwd := ps_cwd st,
      p_cgroup_path := ps_cgroup_path st, p_wchan := ps_wchan st, p_hostname := ps_hostname st,
      p_namespaces := ps_namespaces st, p_state := ps_state st, p_nice := ps_nice st,
      p_nice_avail := ps_nice_avail st, p_start_ticks := ps_start_ticks st,
      p_num_threads := ps_num_threads st\<rparr>"

definition build_process ::
  "proc_stat \<Rightarrow> proc_stat option \<Rightarrow> f64 \<Rightarrow> sysctx \<Rightarrow> metric_id list \<Rightarrow> process" where
  "build_process st prev elapsed sc want =
     foldl (\<lambda>p i. set_metric i (compute_metric i st prev elapsed sc) p) (normalize_stat st) want"

definition thread_id_of :: "proc_stat \<Rightarrow> thread_stat \<Rightarrow> thread_id" where
  "thread_id_of st t = \<lparr>tid_process = ps_id st, tid_tid = ts_tid t, tid_start = ts_start_ticks t\<rparr>"

definition build_thread ::
  "proc_stat \<Rightarrow> (string \<rightharpoonup> thread_stat) \<Rightarrow> f64 \<Rightarrow> sysctx \<Rightarrow> metric_id list \<Rightarrow> thread_stat \<Rightarrow> thread" where
  "build_thread st prevs elapsed sc want t =
     (let i = thread_id_of st t; prev = prevs (thread_key i) in
      \<lparr>th_id = i, th_comm = ts_comm t, th_state = ts_state t,
       th_metrics = foldl (\<lambda>m mid. m(mid \<mapsto> thread_metric mid t prev elapsed sc)) Map.empty want\<rparr>)"

definition build_threads ::
  "sampler \<Rightarrow> proc_stat \<Rightarrow> f64 \<Rightarrow> sysctx \<Rightarrow> metric_id list \<Rightarrow> thread list" where
  "build_threads s st elapsed sc want =
     map (build_thread st (sm_prev_threads s) elapsed sc want) (ps_threads st)"

definition next_threads :: "proc_stat list \<Rightarrow> (string \<rightharpoonup> thread_stat)" where
  "next_threads stats = foldl (\<lambda>m st. foldl (\<lambda>m t. m(thread_key (thread_id_of st t) \<mapsto> t)) m (ps_threads st))
     Map.empty stats"

definition next_procs :: "proc_stat list \<Rightarrow> (string \<rightharpoonup> proc_stat)" where
  "next_procs stats = foldl (\<lambda>m st. m(process_key (ps_id st) \<mapsto> st)) Map.empty stats"

definition elapsed_seconds :: "sampler \<Rightarrow> int \<Rightarrow> f64" where
  "elapsed_seconds s now =
     (if sm_has_prev s then f_div (f_of_int (now - sm_prev_mono s)) (Fin 1000000000) else Fin 0)"

definition sysctx_of :: "source_reading \<Rightarrow> sysctx" where
  "sysctx_of r = \<lparr>sc_hz = f_of_int (sr_hz r), sc_cpus = f_of_int (sr_cpus r),
     sc_boot_unix = sr_boot_unix r, sc_wall_now = sr_wall r\<rparr>"

definition sample :: "sampler \<Rightarrow> source_reading \<Rightarrow> metric_id list \<Rightarrow> sampler \<times> (string, snapshot) result" where
  "sample s r want =
     (case sr_list r of
        Inl e \<Rightarrow> (s, Inl e)
      | Inr stats \<Rightarrow>
        let elapsed = elapsed_seconds s (sr_mono r);
            sc = sysctx_of r;
            procs = map (\<lambda>st. (build_process st (sm_prev s (process_key (ps_id st))) elapsed sc want)
                \<lparr>p_threads := build_threads s st elapsed sc want\<rparr>) stats
        in (\<lparr>sm_prev = next_procs stats, sm_prev_threads = next_threads stats, sm_prev_mono = sr_mono r,
             sm_has_prev = True, sm_gen = sm_gen s + 1\<rparr>,
            Inr \<lparr>sn_generation = sm_gen s + 1, sn_boot_id = sr_boot_id r, sn_wall_time = sr_wall r,
              sn_elapsed = (if sm_has_prev s then sr_mono r - sm_prev_mono s else 0),
              sn_processes = procs\<rparr>))"

section \<open>Rates\<close>

lemma unavailable_not_present [simp]: "a \<noteq> Available \<Longrightarrow> \<not> present (unavailable a src)"
  by simp

text \<open>
  When a rate is reported. A rate has a value exactly when its counter was readable in
  this sample and the previous one, time has passed, and the counter did not go back; the
  value is then the converted quotient of the difference and the elapsed seconds. Otherwise
  the reading is unavailable: a first sample, a reset or a vanished counter never shows as a
  number.
\<close>

theorem rate_present_iff:
  "(present (compute_rate spec cur prev elapsed sc) \<longleftrightarrow>
     (\<exists>c p b. rs_get spec cur = (c, Available) \<and> prev = Some p \<and> \<not> f_le elapsed (Fin 0) \<and>
        rs_get spec p = (b, Available) \<and> b \<le> c)) \<and>
   (\<forall>c p b. rs_get spec cur = (c, Available) \<longrightarrow> prev = Some p \<longrightarrow> rs_get spec p = (b, Available) \<longrightarrow>
      b \<le> c \<longrightarrow> \<not> f_le elapsed (Fin 0) \<longrightarrow>
      compute_rate spec cur prev elapsed sc =
        new_value (rs_conv spec (f_div (f_of_u64 (c - b)) elapsed) sc) Derived ''proc'')"
  by (auto simp: compute_rate_def not_less split: prod.splits option.splits)

lemma metric_fold:
  "metric (foldl (\<lambda>p i. set_metric i (f i) p) p want) i = (if i \<in> set want then f i else metric p i)"
  by (induction want arbitrary: p) auto

lemma metric_normalize_stat: "metric (normalize_stat st) i = unavailable Disabled []"
  by (simp add: metric_def normalize_stat_def zero_process_def)

lemma metric_build_process:
  "metric (build_process st prev elapsed sc want) i =
     (if i \<in> set want then compute_metric i st prev elapsed sc else unavailable Disabled [])"
  by (simp add: build_process_def metric_fold metric_normalize_stat)

lemma metric_threads [simp]: "metric (p\<lparr>p_threads := ths\<rparr>) i = metric p i"
  by (simp add: metric_def)

lemma sample_processes:
  assumes "sample s r want = (s', Inr snap)" and "p \<in> set (sn_processes snap)"
  obtains stats st where "sr_list r = Inr stats" and "st \<in> set stats"
    and "p = (build_process st (sm_prev s (process_key (ps_id st))) (elapsed_seconds s (sr_mono r))
        (sysctx_of r) want)\<lparr>p_threads := build_threads s st (elapsed_seconds s (sr_mono r)) (sysctx_of r) want\<rparr>"
  using assms by (auto simp: sample_def Let_def split: sum.splits)

lemma compute_metric_rate: "rate_specs i = Some spec \<Longrightarrow> compute_metric i = compute_rate spec"
  by (simp add: compute_metric_def fun_eq_iff)

lemma compute_rate_no_prev [simp]: "\<not> present (compute_rate spec cur None elapsed sc)"
  by (auto simp: compute_rate_def split: prod.split)

text \<open>
  Warming up. The first sample of a sampler gives no rate metric of any process a value.
\<close>

theorem first_sample_has_no_rates:
  assumes "sample new_sampler r want = (s', Inr snap)"
    and "p \<in> set (sn_processes snap)" and "rate_specs i \<noteq> None"
  shows "\<not> present (metric p i)"
proof -
  obtain spec where spec: "rate_specs i = Some spec" using assms(3) by blast
  obtain st where "p = (build_process st None (elapsed_seconds new_sampler (sr_mono r))
        (sysctx_of r) want)\<lparr>p_threads := build_threads new_sampler st (elapsed_seconds new_sampler (sr_mono r)) (sysctx_of r) want\<rparr>"
    by (rule sample_processes [OF assms(1,2)]) (simp add: new_sampler_def)
  then show ?thesis
    by (simp add: metric_build_process compute_metric_rate [OF spec])
qed

section \<open>Rates are not negative\<close>

text \<open>What the platform answers: a tick rate and a processor count in the range of the port.\<close>

definition sane_source :: "source_reading \<Rightarrow> bool" where
  "sane_source r \<longleftrightarrow> 0 \<le> sr_hz r \<and> sr_hz r < 2 ^ 63 \<and> sr_cpus r < 2 ^ 63"

lemma f_of_u64_finite: "\<exists>a \<ge> 0. f_of_u64 w = Fin a"
proof (cases "uint w = 0")
  case True
  then show ?thesis by (simp add: f_of_u64_def f_of_int_exact)
next
  case False
  then have "0 < uint w" using uint_ge_0 [of w] by linarith
  moreover have "uint w \<le> 2 ^ 64" using uint_lt2p [of w] by simp
  ultimately show ?thesis
    using f_of_int_positive [of "uint w"] by (auto simp: f_of_u64_def intro: less_imp_le)
qed

lemma f_nonneg_quotient: "f_lt (Fin 0) b \<Longrightarrow> 0 \<le> a \<Longrightarrow> f_nonneg (f_div (Fin a) b)"
  by (cases b) auto

lemma elapsed_not_NaN: "elapsed_seconds s now \<noteq> NaN"
  by (cases "f_of_int (now - sm_prev_mono s)") (auto simp: elapsed_seconds_def f_of_int_def)

lemma positive_elapsed: "\<not> f_le e (Fin 0) \<Longrightarrow> e \<noteq> NaN \<Longrightarrow> f_lt (Fin 0) e"
  using f_lt_linear [of e "Fin 0"] by (auto simp: f_le_def f_eq_iff)

lemma cpu_conv_nonneg:
  assumes "f_nonneg v" and "sane_source r"
  shows "f_nonneg (cpu_conv v (sysctx_of r))"
proof (cases "sr_hz r = 0")
  case True
  then show ?thesis by (simp add: cpu_conv_def sysctx_of_def f_of_int_exact)
next
  case False
  then obtain h where "h > 0" "f_of_int (sr_hz r) = Fin h"
    using f_of_int_positive [of "sr_hz r"] assms(2) by (auto simp: sane_source_def)
  then show ?thesis
    using assms(1) by (auto simp: cpu_conv_def sysctx_of_def intro!: f_nonneg_mul f_nonneg_div)
qed

lemma normalized_conv_nonneg:
  assumes "f_nonneg v" and "sane_source r"
  shows "f_nonneg (normalized_conv v (sysctx_of r))"
proof (cases "0 < sr_cpus r")
  case True
  then obtain c where "c > 0" "f_of_int (sr_cpus r) = Fin c"
    using f_of_int_positive [of "sr_cpus r"] assms(2) by (auto simp: sane_source_def)
  then show ?thesis
    using cpu_conv_nonneg [OF assms]
    by (auto simp: normalized_conv_def Let_def sysctx_of_def intro: f_nonneg_div)
next
  case False
  have "\<not> f_lt (Fin 0) (f_of_int (sr_cpus r))"
    unfolding f_of_int_def by (rule rnd_nonpos) (use False in simp)
  then show ?thesis
    using cpu_conv_nonneg [OF assms] by (simp add: normalized_conv_def Let_def sysctx_of_def)
qed

lemma rate_conv_nonneg:
  assumes "rate_specs i = Some spec" and "f_nonneg v" and "sane_source r"
  shows "f_nonneg (rs_conv spec v (sysctx_of r))"
  using assms cpu_conv_nonneg [OF assms(2,3)] normalized_conv_nonneg [OF assms(2,3)]
  by (auto simp: rate_specs_def identity_rate_def split: if_splits)

text \<open>
  C25: rates are never negative and never NaN, at any sample of any sampler state, however the
  counters wrapped, restarted or were read: a value that is reported is a number at or above
  zero.
\<close>

theorem rates_never_negative:
  assumes "sample s r want = (s', Inr snap)" and "sane_source r"
    and "p \<in> set (sn_processes snap)" and "rate_specs i \<noteq> None" and "get_reading (metric p i) = Some v"
  shows "f_nonneg v"
proof -
  obtain spec where spec: "rate_specs i = Some spec" using assms(4) by blast
  let ?e = "elapsed_seconds s (sr_mono r)"
  obtain st where st: "p = (build_process st (sm_prev s (process_key (ps_id st))) ?e
        (sysctx_of r) want)\<lparr>p_threads := build_threads s st ?e (sysctx_of r) want\<rparr>"
    by (rule sample_processes [OF assms(1,3)])
  have "get_reading (compute_rate spec st (sm_prev s (process_key (ps_id st))) ?e (sysctx_of r)) = Some v"
    using assms(5) by (auto simp: st metric_build_process compute_metric_rate [OF spec] split: if_splits)
  then obtain c b where e: "\<not> f_le ?e (Fin 0)"
      and v: "v = rs_conv spec (f_div (f_of_u64 (c - b)) ?e) (sysctx_of r)"
    by (auto simp: compute_rate_def split: prod.splits option.splits if_splits)
  have "f_nonneg (f_div (f_of_u64 (c - b)) ?e)"
    using f_of_u64_finite [of "c - b"] f_nonneg_quotient [OF positive_elapsed [OF e elapsed_not_NaN]] by auto
  then show ?thesis
    unfolding v by (rule rate_conv_nonneg [OF spec _ assms(2)])
qed

section \<open>Identity, not pid\<close>

text \<open>The last reading of the previous generation with exactly this identity.\<close>

definition last_with_id :: "process_id \<Rightarrow> proc_stat list \<Rightarrow> proc_stat option" where
  "last_with_id i stats = (case filter (\<lambda>st. ps_id st = i) (rev stats) of [] \<Rightarrow> None | st # _ \<Rightarrow> Some st)"

lemma next_procs_lookup: "next_procs stats (process_key i) = last_with_id i stats"
proof -
  have "foldl (\<lambda>m st. m(process_key (ps_id st) \<mapsto> st)) m stats (process_key i) =
      (case last_with_id i stats of Some st \<Rightarrow> Some st | None \<Rightarrow> m (process_key i))" for m
  proof (induction stats rule: rev_induct)
    case (snoc st stats)
    have "process_key (ps_id st) = process_key i \<longleftrightarrow> ps_id st = i"
      using process_key_eq_iff by blast
    then show ?case using snoc by (auto simp: last_with_id_def)
  qed (simp add: last_with_id_def)
  then show ?thesis by (simp add: next_procs_def split: option.split)
qed

lemma sample_metric:
  assumes "sample s r want = (s', Inr snap)" and "sr_list r = Inr stats"
    and "k < length stats" and "i \<in> set want"
  shows "metric (sn_processes snap ! k) i =
    compute_metric i (stats ! k) (sm_prev s (process_key (ps_id (stats ! k))))
      (elapsed_seconds s (sr_mono r)) (sysctx_of r)"
  using assms by (auto simp: sample_def Let_def metric_build_process)

lemma sample_prev:
  "sample s r want = (s', Inr snap) \<Longrightarrow> sr_list r = Inr stats \<Longrightarrow>
    sm_prev s' (process_key i) = last_with_id i stats \<and> length (sn_processes snap) = length stats \<and>
    sm_prev_mono s' = sr_mono r \<and> sm_has_prev s'"
  by (auto simp: sample_def Let_def next_procs_lookup)

text \<open>
  C26: rates belong to process instances. At the second of two samples every metric of every
  process is computed against the reading of the first sample that has the very same
  identity, boot, pid namespace, pid and start time; a process that only shares its pid with
  an earlier one gets no rate.
\<close>

theorem rates_keyed_by_instance:
  assumes "sample s0 r1 want = (s1, Inr snap1)" and "sr_list r1 = Inr stats1"
    and "sample s1 r2 want = (s2, Inr snap2)" and "sr_list r2 = Inr stats2"
    and "k < length stats2" and "i \<in> set want"
  shows "metric (sn_processes snap2 ! k) i =
      compute_metric i (stats2 ! k) (last_with_id (ps_id (stats2 ! k)) stats1)
        (elapsed_seconds s1 (sr_mono r2)) (sysctx_of r2) \<and>
    (rate_specs i \<noteq> None \<and> (\<forall>st \<in> set stats1. ps_id st \<noteq> ps_id (stats2 ! k)) \<longrightarrow>
      \<not> present (metric (sn_processes snap2 ! k) i))"
proof -
  have eq: "metric (sn_processes snap2 ! k) i =
      compute_metric i (stats2 ! k) (last_with_id (ps_id (stats2 ! k)) stats1)
        (elapsed_seconds s1 (sr_mono r2)) (sysctx_of r2)"
    using sample_metric [OF assms(3-6)] sample_prev [OF assms(1,2)] by simp
  moreover have "last_with_id (ps_id (stats2 ! k)) stats1 = None"
    if "\<forall>st \<in> set stats1. ps_id st \<noteq> ps_id (stats2 ! k)"
    using that by (simp add: last_with_id_def filter_empty_conv split: list.split)
  ultimately show ?thesis
    by (auto simp: compute_metric_rate compute_rate_no_prev)
qed

section \<open>Two samples of one process\<close>

definition sample_stat :: "64 word \<Rightarrow> 64 word \<Rightarrow> proc_stat" where
  "sample_stat start faults =
     \<lparr>ps_id = \<lparr>id_boot = ''b'', id_pidns = 1, id_pid = 7, id_start = start\<rparr>,
     ps_pid = 7, ps_ppid = 0, ps_pgid = 0, ps_sid = 0, ps_tgid = 0, ps_uid = 0, ps_euid = 0, ps_gid
     = 0, ps_egid = 0, ps_comm = [], ps_cmdline = [], ps_cmdline_avail = Available, ps_exe = [],
     ps_exe_avail = Available, ps_cwd = [], ps_cgroup_path = [], ps_state = CHR ''S'', ps_nice = 0,
     ps_nice_avail = Available, ps_num_threads = 1, ps_start_ticks = 0, ps_wchan = [], ps_hostname =
     [], ps_utime = 0, ps_stime = 0, ps_min_flt = faults, ps_maj_flt = 0, ps_voluntary = 0,
     ps_involuntary = 0, ps_blkio = 0, ps_blkio_avail = Available, ps_rss = 0, ps_vsz = 0,
     ps_rss_peak = 0, ps_rss_anon = 0, ps_rss_file = 0, ps_rss_shmem = 0, ps_swap = 0, ps_io =
     \<lparr>io_read_bytes = 0, io_write_bytes = 0, io_rchar = 0, io_wchar = 0, io_syscr = 0,
     io_syscw = 0, io_cancelled = 0\<rparr>, ps_io_avail = Available, ps_namespaces = Map.empty,
     ps_threads = []\<rparr>"

definition sample_reading :: "int \<Rightarrow> proc_stat list \<Rightarrow> source_reading" where
  "sample_reading now stats = \<lparr>sr_list = Inr stats, sr_boot_id = ''b'', sr_hz = 100, sr_cpus = 4,
     sr_boot_unix = 0, sr_mono = now, sr_wall = 0\<rparr>"

definition after_first :: "sampler \<times> (string, snapshot) result" where
  "after_first = sample new_sampler (sample_reading 0 [sample_stat 5 10]) [''minor-faults'']"

definition after_second :: "sampler \<times> (string, snapshot) result" where
  "after_second = sample (fst after_first) (sample_reading 1000000000 [sample_stat 5 15]) [''minor-faults'']"

definition after_reuse :: "sampler \<times> (string, snapshot) result" where
  "after_reuse = sample (fst after_first) (sample_reading 1000000000 [sample_stat 6 15]) [''minor-faults'']"

lemma sample_ok:
  "\<exists>snap. sample s (sample_reading now stats) want = (fst (sample s (sample_reading now stats) want), Inr snap) \<and>
    length (sn_processes snap) = length stats"
  by (simp add: sample_def Let_def sample_reading_def)

lemma sample_elapsed: "elapsed_seconds (fst after_first) 1000000000 = Fin 1"
  using rnd_of_int [of 1]
  by (simp add: after_first_def sample_def sample_reading_def elapsed_seconds_def Let_def f_of_int_exact)

lemma sample_rate:
  "compute_metric ''minor-faults'' (sample_stat 5 15) (Some (sample_stat 5 10)) (Fin 1) sc =
     new_value (Fin 5) Derived ''proc''"
  using rnd_of_int [of 5]
  by (simp add: compute_metric_def rate_specs_def compute_rate_def sample_stat_def identity_rate_def
      f_of_u64_exact f_le_def)

theorem rate_present_iff_witness:
  "present (compute_rate \<lparr>rs_get = \<lambda>p. (ps_min_flt p, Available), rs_conv = identity_rate\<rparr>
     (sample_stat 5 15) (Some (sample_stat 5 10)) (Fin 1) (sysctx_of (sample_reading 0 [])))"
  by (subst rate_present_iff [THEN conjunct1]) (simp add: sample_stat_def f_le_def)

theorem first_sample_has_no_rates_witness:
  "\<exists>snap. snd after_first = Inr snap \<and> \<not> present (metric (sn_processes snap ! 0) ''minor-faults'')"
proof -
  obtain snap where snap: "after_first = (fst after_first, Inr snap)" "length (sn_processes snap) = 1"
    using sample_ok [of new_sampler 0 "[sample_stat 5 10]"] by (auto simp: after_first_def)
  have "rate_specs ''minor-faults'' \<noteq> None" by (simp add: rate_specs_def)
  then show ?thesis
    using first_sample_has_no_rates [OF snap(1) [unfolded after_first_def], of "sn_processes snap ! 0" "''minor-faults''"]
      snap by (metis nth_mem snd_conv zero_less_one)
qed

lemma sample_second:
  "\<exists>snap. after_second = (fst after_second, Inr snap) \<and> length (sn_processes snap) = 1 \<and>
     metric (sn_processes snap ! 0) ''minor-faults'' = new_value (Fin 5) Derived ''proc''"
proof -
  obtain snap1 where 1: "sample new_sampler (sample_reading 0 [sample_stat 5 10]) [''minor-faults''] = (fst after_first, Inr snap1)"
    using sample_ok [of new_sampler 0 "[sample_stat 5 10]"] unfolding after_first_def by blast
  obtain snap where 2: "sample (fst after_first) (sample_reading 1000000000 [sample_stat 5 15]) [''minor-faults'']
      = (fst after_second, Inr snap)" "length (sn_processes snap) = 1"
    using sample_ok [of "fst after_first" 1000000000 "[sample_stat 5 15]"] by (auto simp: after_second_def)
  have "last_with_id (ps_id (sample_stat 5 15)) [sample_stat 5 10] = Some (sample_stat 5 10)"
    by (simp add: last_with_id_def sample_stat_def)
  then have "metric (sn_processes snap ! 0) ''minor-faults'' = new_value (Fin 5) Derived ''proc''"
    using sample_metric [OF 2(1), of "[sample_stat 5 15]" 0 "''minor-faults''"]
      sample_prev [OF 1, of "[sample_stat 5 10]"] sample_elapsed sample_rate
    by (simp add: sample_reading_def)
  then show ?thesis
    using 2 unfolding after_second_def by blast
qed

theorem rates_never_negative_witness: "\<exists>snap. snd after_second = Inr snap \<and>
   (\<exists>v. get_reading (metric (sn_processes snap ! 0) ''minor-faults'') = Some v \<and> f_nonneg v)"
proof -
  obtain snap where 2: "sample (fst after_first) (sample_reading 1000000000 [sample_stat 5 15]) [''minor-faults'']
      = (fst after_second, Inr snap)" "length (sn_processes snap) = 1"
      "metric (sn_processes snap ! 0) ''minor-faults'' = new_value (Fin 5) Derived ''proc''"
    using sample_second by (auto simp: after_second_def)
  have "sane_source (sample_reading 1000000000 [sample_stat 5 15])"
    by (simp add: sane_source_def sample_reading_def)
  moreover have "sn_processes snap ! 0 \<in> set (sn_processes snap)" using 2(2) by simp
  moreover have "rate_specs ''minor-faults'' \<noteq> None" by (simp add: rate_specs_def)
  ultimately have "f_nonneg (Fin 5)"
    using rates_never_negative [OF 2(1), of "sn_processes snap ! 0" "''minor-faults''" "Fin 5"] 2(3) by simp
  moreover have "snd after_second = Inr snap"
    using 2(1) by (metis after_second_def snd_conv)
  ultimately show ?thesis
    using 2(3) by auto
qed

theorem rates_keyed_by_instance_witness: "\<exists>snap. snd after_reuse = Inr snap \<and>
   \<not> present (metric (sn_processes snap ! 0) ''minor-faults'')"
proof -
  obtain snap1 where 1: "sample new_sampler (sample_reading 0 [sample_stat 5 10]) [''minor-faults''] = (fst after_first, Inr snap1)"
    using sample_ok [of new_sampler 0 "[sample_stat 5 10]"] unfolding after_first_def by blast
  obtain snap where 2: "sample (fst after_first) (sample_reading 1000000000 [sample_stat 6 15]) [''minor-faults'']
      = (fst after_reuse, Inr snap)"
    using sample_ok [of "fst after_first" 1000000000 "[sample_stat 6 15]"] by (auto simp: after_reuse_def)
  have "rate_specs ''minor-faults'' \<noteq> None" by (simp add: rate_specs_def)
  moreover have "\<forall>st \<in> set [sample_stat 5 10]. ps_id st \<noteq> ps_id ([sample_stat 6 15] ! 0)"
    by (simp add: sample_stat_def)
  moreover have "sr_list (sample_reading 0 [sample_stat 5 10]) = Inr [sample_stat 5 10]"
    "sr_list (sample_reading 1000000000 [sample_stat 6 15]) = Inr [sample_stat 6 15]"
    "0 < length [sample_stat 6 15]" "''minor-faults'' \<in> set [''minor-faults'']"
    by (simp_all add: sample_reading_def)
  ultimately have "\<not> present (metric (sn_processes snap ! 0) ''minor-faults'')"
    using rates_keyed_by_instance [OF 1 _ 2, of "[sample_stat 5 10]" "[sample_stat 6 15]" 0 "''minor-faults''",
        THEN conjunct2]
    by blast
  moreover have "snd after_reuse = Inr snap"
    using 2 by (metis after_reuse_def snd_conv)
  ultimately show ?thesis by blast
qed

end
