(* ===== verification/Control_Model.thy ===== *)
theory Control_Model
  imports Model_Process "HOL-Library.Sublist"
begin

text \<open>
  The data of the control plane: \<open>internal/control/model.go\<close>, the software safeguards
  (\<open>safeguards.go\<close>), the freeze guard (\<open>freeze_guard.go\<close>), the controller port
  (\<open>internal/ports/control.go\<close>) and the audit events (\<open>internal/history\<close>) an operation records.
  Pointer fields are options; an operation returns the updated value.
\<close>

section \<open>Targets and bindings (\<open>model.go\<close>)\<close>

datatype field_status =
    StUnset | StApplied | StUnchanged | StDrifted | StRestored | StUnavailable | StVanished
  | StStale | StDenied | StFailed | StSkipped

record nice_field =
  nf_original :: int
  nf_desired :: int
  nf_observed :: int
  nf_status :: field_status
  nf_backend :: string
  nf_captured_at :: int
  nf_changed_at :: int
  nf_observed_at :: int
  nf_error :: string

record stop_field =
  sf_desired_stop :: bool
  sf_pre_stopped :: bool
  sf_status :: field_status
  sf_changed_at :: int
  sf_error :: string

record binding =
  b_id :: process_id
  b_pid :: int
  b_name :: string
  b_nice :: "nice_field option"
  b_stop :: "stop_field option"

datatype binding_mode = ModeUnset | ModeFollow | ModeSnapshot

datatype origin = OriginRuntime | OriginConfig

record target =
  t_id :: string
  t_name :: string
  t_origin :: origin
  t_binding_mode :: binding_mode
  t_selector :: string
  t_snapshot_ids :: "process_id list"
  t_desired_nice :: "int option"
  t_desired_stop :: "bool option"
  t_desired_freeze :: "bool option"
  t_on_drift :: string
  t_bindings :: "binding list"
  t_last_seen :: int
  t_active :: bool

record control_state =
  st_schema_version :: int
  st_boot_id :: string
  st_owner_uid :: int
  st_generation :: int
  st_updated_at :: int
  st_targets :: "target list"

definition schema_version :: int where "schema_version = 1"

definition zero_nice :: nice_field where
  "zero_nice = \<lparr>nf_original = 0, nf_desired = 0, nf_observed = 0, nf_status = StUnset,
     nf_backend = [], nf_captured_at = 0, nf_changed_at = 0, nf_observed_at = 0, nf_error = []\<rparr>"

definition zero_stop :: stop_field where
  "zero_stop = \<lparr>sf_desired_stop = False, sf_pre_stopped = False, sf_status = StUnset,
     sf_changed_at = 0, sf_error = []\<rparr>"

section \<open>Audit events and results\<close>

record event =
  ev_action :: string
  ev_pid :: int
  ev_field :: string
  ev_from :: string
  ev_to :: string

record binding_result =
  br_pid :: int
  br_status :: field_status
  br_error :: string

record apply_result =
  ar_results :: "binding_result list"
  ar_counts :: "field_status \<Rightarrow> int"

definition new_apply_result :: apply_result where
  "new_apply_result = \<lparr>ar_results = [], ar_counts = (\<lambda>_. 0)\<rparr>"

definition add_result :: "int \<Rightarrow> field_status \<Rightarrow> string \<Rightarrow> apply_result \<Rightarrow> apply_result" where
  "add_result pid status err r =
     \<lparr>ar_results = ar_results r @ [\<lparr>br_pid = pid, br_status = status, br_error = err\<rparr>],
      ar_counts = (ar_counts r)(status := ar_counts r status + 1)\<rparr>"

text \<open>The counts are those of the results, however many are added.\<close>

definition counts_ok :: "apply_result \<Rightarrow> bool" where
  "counts_ok r \<longleftrightarrow> (\<forall>s. ar_counts r s = int (count_list (map br_status (ar_results r)) s))"

lemma counts_ok_simps [simp]:
  "counts_ok new_apply_result"
  "counts_ok r \<Longrightarrow> counts_ok (add_result pid s e r)"
  by (auto simp: counts_ok_def new_apply_result_def add_result_def)

section \<open>The controller and clock ports (\<open>ports/control.go\<close>, \<open>ports/clock.go\<close>)\<close>

text \<open>A signal is a string; the ones the code names, and any other.\<close>

datatype signal = SigStop | SigCont | SigTerm | SigKill | SigHUP | SigINT | SigOther string

fun signal_name :: "signal \<Rightarrow> string" where
  "signal_name SigStop = ''STOP''"
| "signal_name SigCont = ''CONT''"
| "signal_name SigTerm = ''TERM''"
| "signal_name SigKill = ''KILL''"
| "signal_name SigHUP = ''HUP''"
| "signal_name SigINT = ''INT''"
| "signal_name (SigOther s) = s"

record control_caps =
  cap_nice :: bool
  cap_signal :: bool
  cap_freeze :: bool

text \<open>
  An adapter over worlds \<open>'w\<close>: reads answer from the world, the mutating calls answer an error
  message or nothing and give the next world. The clock is read from the world too.
\<close>

record 'w controller =
  ct_get_nice :: "'w \<Rightarrow> int \<Rightarrow> (string, int) result"
  ct_set_nice :: "'w \<Rightarrow> int \<Rightarrow> int \<Rightarrow> 'w \<times> string option"
  ct_send_signal :: "'w \<Rightarrow> int \<Rightarrow> signal \<Rightarrow> 'w \<times> string option"
  ct_read_identity :: "'w \<Rightarrow> int \<Rightarrow> process_id option"
  ct_read_cgroup :: "'w \<Rightarrow> int \<Rightarrow> string option"
  ct_freeze_cgroup :: "'w \<Rightarrow> string \<Rightarrow> bool \<Rightarrow> 'w \<times> string option"
  ct_now :: "'w \<Rightarrow> int"

section \<open>Safeguards (\<open>safeguards.go\<close>)\<close>

record safeguards =
  sg_self_pid :: int
  sg_self_ppid :: int
  sg_safety_max :: int

definition new_safeguards :: "int \<Rightarrow> int \<Rightarrow> safeguards" where
  "new_safeguards self_pid self_ppid =
     \<lparr>sg_self_pid = self_pid, sg_self_ppid = self_ppid, sg_safety_max = 256\<rparr>"

definition check_pid :: "safeguards \<Rightarrow> int \<Rightarrow> bool \<times> string" where
  "check_pid s pid =
     (if pid \<le> 1 then (False, ''refusing to control PID 1 / invalid pid'')
      else if pid = sg_self_pid s then (False, ''refusing to control the procfit process itself'')
      else if sg_self_ppid s \<noteq> 0 \<and> pid = sg_self_ppid s
        then (False, ''refusing to control procfit's parent process'')
      else (True, []))"

definition check_count :: "safeguards \<Rightarrow> int \<Rightarrow> bool \<Rightarrow> string option" where
  "check_count s n confirmed =
     (if sg_safety_max s > 0 \<and> n > sg_safety_max s \<and> \<not> confirmed
      then Some (''target resolves to '' @ show_int n @ '' instances (limit '' @ show_int (sg_safety_max s)
        @ ''); confirm to proceed'')
      else None)"

text \<open>The processes that must never be controlled: PID 1, invalid pids, procfit and its parent.\<close>

definition protected_pid :: "safeguards \<Rightarrow> int \<Rightarrow> bool" where
  "protected_pid s pid \<longleftrightarrow>
     pid \<le> 1 \<or> pid = sg_self_pid s \<or> (sg_self_ppid s \<noteq> 0 \<and> pid = sg_self_ppid s)"

lemma check_pid_iff: "fst (check_pid s pid) \<longleftrightarrow> \<not> protected_pid s pid"
  by (auto simp: protected_pid_def check_pid_def)

section \<open>The freeze guard (\<open>freeze_guard.go\<close>)\<close>

definition trim_slashes :: "string \<Rightarrow> string" where
  "trim_slashes s = trim_set s ''/''"

definition is_ancestor_or_equal :: "string \<Rightarrow> string \<Rightarrow> bool" where
  "is_ancestor_or_equal anc desc =
     (let anc = ''/'' @ trim_slashes anc; desc = ''/'' @ trim_slashes desc
      in desc = anc \<or> has_prefix desc (anc @ ''/''))"

definition is_session_cgroup :: "string \<Rightarrow> bool" where
  "is_session_cgroup cg =
     (let base = path_base (''/'' @ trim_slashes cg) in
      if has_prefix base ''session-'' \<and> has_suffix base ''.scope'' then True
      else if has_prefix base ''user@'' \<and> has_suffix base ''.service'' then True
      else if has_prefix base ''user-'' \<and> has_suffix base ''.slice'' then True
      else False)"

definition freeze_safety :: "string \<Rightarrow> string \<Rightarrow> bool \<times> string" where
  "freeze_safety cg self_cg =
     (if cg = [] \<or> cg = ''/'' then (False, ''refusing to freeze the root cgroup'')
      else if self_cg \<noteq> [] \<and> is_ancestor_or_equal cg self_cg
        then (False, ''would freeze procfit's own session (cgroup '' @ cg @ '')'')
      else if is_session_cgroup cg
        then (False, ''targets a login session / user slice (cgroup '' @ cg @ '')'')
      else (True, []))"

text \<open>The components of a cgroup path.\<close>

definition path_parts :: "string \<Rightarrow> string list" where
  "path_parts p = split_on (CHR ''/'') (trim_slashes p)"

lemma split_on_append_sep: "split_on d (a @ d # b) = split_on d a @ split_on d b"
proof (induction a)
  case (Cons c a)
  then show ?case by (cases "split_on d a") (auto split: list.split)
qed simp

lemma join_append:
  "xs \<noteq> [] \<Longrightarrow> ys \<noteq> [] \<Longrightarrow> join sep (xs @ ys) = join sep xs @ sep @ join sep ys"
proof (induction sep xs rule: join.induct)
  case (2 sep w)
  then show ?case by (cases ys) auto
qed auto

lemma prefix_split:
  "prefix (split_on d a) (split_on d b) \<longleftrightarrow> b = a \<or> (\<exists>r. b = a @ d # r)"
proof
  assume "prefix (split_on d a) (split_on d b)"
  then obtain zs where zs: "split_on d b = split_on d a @ zs" by (auto elim: prefixE)
  show "b = a \<or> (\<exists>r. b = a @ d # r)"
  proof (cases "zs = []")
    case True
    then show ?thesis using zs by (metis append_Nil2 join_split)
  next
    case False
    have "b = join [d] (split_on d a @ zs)" using zs join_split [of d b] by simp
    also have "\<dots> = a @ d # join [d] zs"
      using False by (simp add: join_append join_split)
    finally show ?thesis by blast
  qed
qed (auto simp: split_on_append_sep)

lemma ancestor_iff_prefix:
  "is_ancestor_or_equal anc desc \<longleftrightarrow> prefix (path_parts anc) (path_parts desc)"
  by (auto simp: is_ancestor_or_equal_def path_parts_def prefix_split has_prefix_iff)

text \<open>
  The freeze guard. A cgroup may be frozen exactly when it is not the root, is not an
  ancestor of (or the same as) the cgroup procfit runs in, component by component of the
  paths, and is not a login session or user slice.
\<close>

theorem freeze_safety_iff:
  "fst (freeze_safety cg self_cg) \<longleftrightarrow>
     cg \<noteq> [] \<and> cg \<noteq> ''/'' \<and> \<not> (self_cg \<noteq> [] \<and> prefix (path_parts cg) (path_parts self_cg)) \<and>
     \<not> is_session_cgroup cg"
  by (simp add: freeze_safety_def ancestor_iff_prefix)

end
