(* ===== verification/Control_Manager.thy ===== *)
theory Control_Manager
  imports Control_Model
begin

text \<open>
  The control manager, \<open>internal/control/manager.go\<close>, \<open>manager_ops.go\<close> and \<open>reconcile.go\<close>. An
  operation works on the state and a context: the world behind the controller, the audit
  log, the result being accumulated and the set of cgroups already handled. Pointers to
  captured fields are values: they are shared only when two bindings of one target carry
  the same identity.
\<close>

record instance_ref =
  in_id :: process_id
  in_pid :: int
  in_name :: string

record manager =
  mg_safeguards :: safeguards
  mg_boot_id :: string
  mg_state :: control_state

record 'w ctx =
  cx_world :: 'w
  cx_log :: "event list"
  cx_result :: apply_result
  cx_done :: "string \<Rightarrow> bool"

datatype control_error = TargetNotFound string

definition new_manager :: "safeguards \<Rightarrow> string \<Rightarrow> manager" where
  "new_manager sg boot_id = \<lparr>mg_safeguards = sg, mg_boot_id = boot_id,
     mg_state = \<lparr>st_schema_version = schema_version, st_boot_id = boot_id, st_owner_uid = 0,
       st_generation = 0, st_updated_at = 0, st_targets = []\<rparr>\<rparr>"

definition add :: "int \<Rightarrow> field_status \<Rightarrow> string \<Rightarrow> 'w ctx \<Rightarrow> 'w ctx" where
  "add pid status err c = c\<lparr>cx_result := add_result pid status err (cx_result c)\<rparr>"

definition audit :: "string \<Rightarrow> int \<Rightarrow> string \<Rightarrow> string \<Rightarrow> string \<Rightarrow> 'w ctx \<Rightarrow> 'w ctx" where
  "audit action pid field from to c = c\<lparr>cx_log := cx_log c @
     [\<lparr>ev_action = action, ev_pid = pid, ev_field = field, ev_from = from, ev_to = to\<rparr>]\<rparr>"

definition set_world :: "'w \<Rightarrow> 'w ctx \<Rightarrow> 'w ctx" where
  "set_world w c = c\<lparr>cx_world := w\<rparr>"

text \<open>The loops over a target's bindings, which update each binding in place.\<close>

fun each_binding :: "(binding \<Rightarrow> 's \<Rightarrow> binding \<times> 's) \<Rightarrow> binding list \<Rightarrow> 's \<Rightarrow> binding list \<times> 's" where
  "each_binding f [] s = ([], s)"
| "each_binding f (b # bs) s =
     (let (b', s') = f b s; (bs', s'') = each_binding f bs s' in (b' # bs', s''))"

section \<open>Identity and nice (\<open>manager.go\<close>)\<close>

definition revalidate :: "'w controller \<Rightarrow> binding \<Rightarrow> 'w ctx \<Rightarrow> bool" where
  "revalidate ct b c =
     (case ct_read_identity ct (cx_world c) (b_pid b) of
        None \<Rightarrow> False
      | Some i \<Rightarrow> same_process i (b_id b))"

definition observe_nice :: "'w controller \<Rightarrow> int \<Rightarrow> nice_field \<Rightarrow> 'w ctx \<Rightarrow> nice_field" where
  "observe_nice ct pid f c =
     (case ct_get_nice ct (cx_world c) pid of
        Inl err \<Rightarrow> f\<lparr>nf_status := StVanished, nf_error := err\<rparr>
      | Inr obs \<Rightarrow>
          let f = f\<lparr>nf_observed := obs, nf_observed_at := ct_now ct (cx_world c)\<rparr> in
          if obs = nf_desired f then f\<lparr>nf_status := StApplied, nf_error := []\<rparr>
          else f\<lparr>nf_status := StDrifted\<rparr>)"

text \<open>The capture of the original, and the application to a captured field.\<close>

definition capture_nice :: "'w controller \<Rightarrow> binding \<Rightarrow> 'w ctx \<Rightarrow> (string, nice_field) result" where
  "capture_nice ct b c =
     (case b_nice b of
        Some f \<Rightarrow> Inr f
      | None \<Rightarrow> (case ct_get_nice ct (cx_world c) (b_pid b) of
            Inl err \<Rightarrow> Inl err
          | Inr orig \<Rightarrow> Inr (zero_nice\<lparr>nf_original := orig, nf_backend := ''setpriority'',
                nf_captured_at := ct_now ct (cx_world c)\<rparr>)))"

definition apply_nice_binding ::
  "'w controller \<Rightarrow> safeguards \<Rightarrow> int \<Rightarrow> bool \<Rightarrow> binding \<Rightarrow> 'w ctx \<Rightarrow> binding \<times> 'w ctx" where
  "apply_nice_binding ct sg desired dry b c =
     (if \<not> fst (check_pid sg (b_pid b)) then (b, add (b_pid b) StSkipped ''protected'' c)
      else if \<not> revalidate ct b c then (b, add (b_pid b) StStale ''identity changed (pid reused)'' c)
      else if dry then (b, add (b_pid b) StUnchanged ''dry-run'' c)
      else (case capture_nice ct b c of
          Inl err \<Rightarrow> (b, add (b_pid b) StFailed err c)
        | Inr f0 \<Rightarrow>
            let f = f0\<lparr>nf_desired := desired\<rparr>; (w, failure) = ct_set_nice ct (cx_world c) (b_pid b) desired;
                c = set_world w c
            in (case failure of
                Some err \<Rightarrow>
                  (b\<lparr>b_nice := Some (f\<lparr>nf_status := StDenied, nf_error := err\<rparr>)\<rparr>,
                   add (b_pid b) StDenied err c)
              | None \<Rightarrow>
                  let f = observe_nice ct (b_pid b) (f\<lparr>nf_changed_at := ct_now ct (cx_world c)\<rparr>) c;
                      c = (if nf_status f = StApplied
                           then audit ''applied'' (b_pid b) ''nice'' (show_int (nf_original f)) (show_int (nf_desired f)) c
                           else c)
                  in (b\<lparr>b_nice := Some f\<rparr>, add (b_pid b) (nf_status f) (nf_error f) c))))"

section \<open>Targets (\<open>manager.go\<close>)\<close>

fun find_target :: "target list \<Rightarrow> string \<Rightarrow> nat option" where
  "find_target [] n = None"
| "find_target (t # ts) n =
     (if t_id t = n \<or> t_name t = n then Some 0 else map_option Suc (find_target ts n))"

definition load_state :: "control_state option \<Rightarrow> manager \<Rightarrow> manager" where
  "load_state loaded m =
     (case loaded of
        None \<Rightarrow> m
      | Some s \<Rightarrow>
          let s = (if st_boot_id s \<noteq> mg_boot_id m
                   then s\<lparr>st_targets := map (\<lambda>t. t\<lparr>t_bindings := [], t_active := False\<rparr>) (st_targets s),
                          st_boot_id := mg_boot_id m\<rparr>
                   else s)
          in m\<lparr>mg_state := s\<rparr>)"

definition bind_one :: "binding list \<Rightarrow> instance_ref \<Rightarrow> binding" where
  "bind_one old i =
     (let b = \<lparr>b_id = in_id i, b_pid = in_pid i, b_name = in_name i, b_nice = None, b_stop = None\<rparr> in
      case map_of (rev (map (\<lambda>b. (process_key (b_id b), b)) old)) (process_key (in_id i)) of
        None \<Rightarrow> b
      | Some prev \<Rightarrow>
          let b = b\<lparr>b_nice := b_nice prev, b_stop := b_stop prev\<rparr>
          in if b_name b = [] then b\<lparr>b_name := b_name prev\<rparr> else b)"

definition bind_target :: "int \<Rightarrow> instance_ref list \<Rightarrow> target \<Rightarrow> target" where
  "bind_target now insts t =
     (let bs = map (bind_one (t_bindings t)) insts;
          t = t\<lparr>t_bindings := bs, t_active := length bs > 0\<rparr>
      in if t_active t then t\<lparr>t_last_seen := now\<rparr> else t)"

definition update_target :: "nat \<Rightarrow> target \<Rightarrow> control_state \<Rightarrow> control_state" where
  "update_target i t s = s\<lparr>st_targets := (st_targets s)[i := t]\<rparr>"

definition bind_instances :: "int \<Rightarrow> nat \<Rightarrow> instance_ref list \<Rightarrow> control_state \<Rightarrow> control_state" where
  "bind_instances now i insts s =
     (update_target i (bind_target now insts (st_targets s ! i)) s)
       \<lparr>st_generation := st_generation s + 1, st_updated_at := now\<rparr>"

definition new_target :: "string \<Rightarrow> binding_mode \<Rightarrow> string \<Rightarrow> target" where
  "new_target name mode selector =
     \<lparr>t_id = ''runtime:'' @ name, t_name = name, t_origin = OriginRuntime, t_binding_mode = mode,
      t_selector = selector, t_snapshot_ids = [], t_desired_nice = None, t_desired_stop = None,
      t_desired_freeze = None, t_on_drift = [], t_bindings = [], t_last_seen = 0, t_active = False\<rparr>"

text \<open>\<open>Manage\<close>: the new state and the index of the target.\<close>

definition manage ::
  "int \<Rightarrow> string \<Rightarrow> binding_mode \<Rightarrow> string \<Rightarrow> instance_ref list \<Rightarrow> control_state \<Rightarrow> control_state \<times> nat" where
  "manage now name mode selector insts s =
     (let (s, i) = (case find_target (st_targets s) name of
            Some i \<Rightarrow> (s, i)
          | None \<Rightarrow> (s\<lparr>st_targets := st_targets s @ [new_target name mode selector]\<rparr>, length (st_targets s)));
          t = (st_targets s ! i)\<lparr>t_binding_mode := mode\<rparr>;
          t = (if mode = ModeSnapshot then t\<lparr>t_snapshot_ids := map in_id insts\<rparr> else t)
      in (bind_instances now i insts (update_target i t s), i))"

text \<open>The operations on one target, and their lifting to a target found by id or name.\<close>

definition nice_target :: "'w controller \<Rightarrow> safeguards \<Rightarrow> int \<Rightarrow> bool \<Rightarrow> target \<Rightarrow> 'w ctx \<Rightarrow> target \<times> 'w ctx" where
  "nice_target ct sg nice dry t c =
     (let t = t\<lparr>t_desired_nice := Some nice\<rparr>;
          (bs, c) = each_binding (apply_nice_binding ct sg nice dry) (t_bindings t) c
      in (t\<lparr>t_bindings := bs\<rparr>, c))"

definition start_ctx :: "'w \<Rightarrow> event list \<Rightarrow> 'w ctx" where
  "start_ctx w evs = \<lparr>cx_world = w, cx_log = evs, cx_result = new_apply_result, cx_done = (\<lambda>_. False)\<rparr>"

definition on_target ::
  "'w controller \<Rightarrow> (target \<Rightarrow> 'w ctx \<Rightarrow> target \<times> 'w ctx) \<Rightarrow> string \<Rightarrow>
    manager \<Rightarrow> 'w \<Rightarrow> event list \<Rightarrow>
    (control_error, apply_result) result \<times> manager \<times> 'w \<times> event list" where
  "on_target ct f name m w evs =
     (case find_target (st_targets (mg_state m)) name of
        None \<Rightarrow> (Inl (TargetNotFound name), m, w, evs)
      | Some i \<Rightarrow>
          let (t, c) = f (st_targets (mg_state m) ! i) (start_ctx w evs);
              s = (update_target i t (mg_state m))\<lparr>st_updated_at := ct_now ct (cx_world c)\<rparr>
          in (Inr (cx_result c), m\<lparr>mg_state := s\<rparr>, cx_world c, cx_log c))"

definition set_nice where
  "set_nice ct name nice dry m = on_target ct (nice_target ct (mg_safeguards m) nice dry) name m"

section \<open>Restore, stop, freeze, signals (\<open>manager_ops.go\<close>)\<close>

definition restore_stop_binding ::
  "'w controller \<Rightarrow> bool \<Rightarrow> binding \<Rightarrow> 'w ctx \<Rightarrow> binding \<times> 'w ctx" where
  "restore_stop_binding ct dry b c =
     (case b_stop b of
        None \<Rightarrow> (b, c)
      | Some sf \<Rightarrow>
          if \<not> sf_desired_stop sf then (b, c)
          else if \<not> revalidate ct b c then (b, add (b_pid b) StStale ''identity changed (pid reused)'' c)
          else if dry then (b, add (b_pid b) StUnchanged ''dry-run: would continue (SIGCONT)'' c)
          else let (w, failure) = ct_send_signal ct (cx_world c) (b_pid b) SigCont; c = set_world w c in
            (case failure of
               Some err \<Rightarrow> (b, add (b_pid b) StDenied err c)
             | None \<Rightarrow> (b\<lparr>b_stop := Some (sf\<lparr>sf_desired_stop := False, sf_status := StRestored\<rparr>)\<rparr>,
                 add (b_pid b) StRestored [] (audit ''continued'' (b_pid b) ''stop'' [] ''false'' c))))"

definition restore_nice_binding ::
  "'w controller \<Rightarrow> bool \<Rightarrow> bool \<Rightarrow> binding \<Rightarrow> 'w ctx \<Rightarrow> binding \<times> 'w ctx" where
  "restore_nice_binding ct force dry b c =
     (case b_nice b of
        None \<Rightarrow> (b, c)
      | Some f \<Rightarrow>
          if \<not> revalidate ct b c then (b, add (b_pid b) StStale ''identity changed (pid reused)'' c)
          else (case ct_get_nice ct (cx_world c) (b_pid b) of
              Inl err \<Rightarrow> (b, add (b_pid b) StVanished err c)
            | Inr obs \<Rightarrow>
                if obs \<noteq> nf_desired f \<and> \<not> force then
                  (if dry then (b, add (b_pid b) StDrifted ''dry-run: would refuse (drifted; use --force)'' c)
                   else (b\<lparr>b_nice := Some (f\<lparr>nf_observed := obs, nf_status := StDrifted\<rparr>)\<rparr>,
                     add (b_pid b) StDrifted
                       ''observed value drifted from desired; refuse to overwrite (use --force)'' c))
                else if dry then (b, add (b_pid b) StUnchanged
                    (''dry-run: would restore nice'' @ [CHR 0xE2, CHR 0x86, CHR 0x92] @ show_int (nf_original f)) c)
                else let (w, failure) = ct_set_nice ct (cx_world c) (b_pid b) (nf_original f); c = set_world w c in
                  (case failure of
                     Some err \<Rightarrow> (b, add (b_pid b) StDenied err c)
                   | None \<Rightarrow>
                       let f = (observe_nice ct (b_pid b) (f\<lparr>nf_desired := nf_original f\<rparr>) c)\<lparr>nf_status := StRestored\<rparr>
                       in (b\<lparr>b_nice := Some f\<rparr>,
                           add (b_pid b) StRestored []
                             (audit ''restored'' (b_pid b) ''nice'' [] (show_int (nf_original f)) c)))))"

definition signal_one ::
  "'w controller \<Rightarrow> safeguards \<Rightarrow> signal \<Rightarrow> bool \<Rightarrow> 'w ctx \<Rightarrow> instance_ref \<Rightarrow> 'w ctx" where
  "signal_one ct sg sig dry c i =
     (if \<not> fst (check_pid sg (in_pid i)) then add (in_pid i) StSkipped ''protected'' c
      else if (case ct_read_identity ct (cx_world c) (in_pid i) of
                 None \<Rightarrow> True | Some pid \<Rightarrow> \<not> same_process pid (in_id i))
        then add (in_pid i) StStale ''identity changed or vanished'' c
      else if dry then add (in_pid i) StUnchanged (''dry-run: would send SIG'' @ signal_name sig) c
      else let (w, failure) = ct_send_signal ct (cx_world c) (in_pid i) sig; c = set_world w c in
        (case failure of
           Some err \<Rightarrow> add (in_pid i) StFailed err c
         | None \<Rightarrow> add (in_pid i) StApplied [] c))"

definition signal_instances ::
  "'w controller \<Rightarrow> safeguards \<Rightarrow> instance_ref list \<Rightarrow> signal \<Rightarrow> bool \<Rightarrow> 'w \<Rightarrow> apply_result \<times> 'w" where
  "signal_instances ct sg insts sig dry w =
     (let c = foldl (signal_one ct sg sig dry) (start_ctx w []) insts in (cx_result c, cx_world c))"

definition apply_stop_binding ::
  "'w controller \<Rightarrow> safeguards \<Rightarrow> bool \<Rightarrow> bool \<Rightarrow> binding \<Rightarrow> 'w ctx \<Rightarrow> binding \<times> 'w ctx" where
  "apply_stop_binding ct sg stop dry b c =
     (if \<not> fst (check_pid sg (b_pid b)) then (b, add (b_pid b) StSkipped ''protected'' c)
      else if \<not> revalidate ct b c then (b, add (b_pid b) StStale ''identity changed (pid reused)'' c)
      else if \<not> stop \<and> (case b_stop b of None \<Rightarrow> True | Some sf \<Rightarrow> \<not> sf_desired_stop sf)
        then (b, add (b_pid b) StSkipped ''not stopped by procfit; refusing to continue'' c)
      else if dry then
        (b, add (b_pid b) StUnchanged
           (''dry-run: would '' @ (if stop then ''stop (SIGSTOP)'' else ''continue (SIGCONT)'')) c)
      else let (w, failure) = ct_send_signal ct (cx_world c) (b_pid b) (if stop then SigStop else SigCont);
               c = set_world w c
        in (case failure of
              Some err \<Rightarrow> (b, add (b_pid b) StFailed err c)
            | None \<Rightarrow>
                let sf = (case b_stop b of None \<Rightarrow> zero_stop | Some sf \<Rightarrow> sf);
                    sf = sf\<lparr>sf_desired_stop := stop, sf_changed_at := ct_now ct (cx_world c), sf_status := StApplied\<rparr>
                in (b\<lparr>b_stop := Some sf\<rparr>,
                    add (b_pid b) StApplied []
                      (audit (if stop then ''stopped'' else ''continued'') (b_pid b) ''stop'' []
                        (if stop then ''true'' else ''false'') c))))"

definition stop_target :: "'w controller \<Rightarrow> safeguards \<Rightarrow> bool \<Rightarrow> bool \<Rightarrow> target \<Rightarrow> 'w ctx \<Rightarrow> target \<times> 'w ctx" where
  "stop_target ct sg stop dry t c =
     (let t = (if \<not> dry then t\<lparr>t_desired_stop := Some stop\<rparr> else t);
          (bs, c) = each_binding (apply_stop_binding ct sg stop dry) (t_bindings t) c
      in (t\<lparr>t_bindings := bs\<rparr>, c))"

definition set_stop where
  "set_stop ct name stop dry m = on_target ct (stop_target ct (mg_safeguards m) stop dry) name m"

definition freeze_allowed :: "'w controller \<Rightarrow> safeguards \<Rightarrow> string \<Rightarrow> 'w ctx \<Rightarrow> bool \<times> string" where
  "freeze_allowed ct sg cg c =
     freeze_safety cg (case ct_read_cgroup ct (cx_world c) (sg_self_pid sg) of Some p \<Rightarrow> p | None \<Rightarrow> [])"

definition freeze_binding ::
  "'w controller \<Rightarrow> safeguards \<Rightarrow> bool \<Rightarrow> bool \<Rightarrow> bool \<Rightarrow> binding \<Rightarrow> 'w ctx \<Rightarrow> binding \<times> 'w ctx" where
  "freeze_binding ct sg freeze force dry b c =
     (if \<not> fst (check_pid sg (b_pid b)) then (b, add (b_pid b) StSkipped ''protected'' c)
      else (case ct_read_cgroup ct (cx_world c) (b_pid b) of
          None \<Rightarrow> (b, add (b_pid b) StUnavailable ''no cgroup'' c)
        | Some cg \<Rightarrow>
            if cg = [] then (b, add (b_pid b) StUnavailable ''no cgroup'' c)
            else if cx_done c cg then (b, add (b_pid b) StUnchanged ''cgroup already handled'' c)
            else
              let c = c\<lparr>cx_done := (cx_done c)(cg := True)\<rparr> in
              if freeze \<and> \<not> force \<and> \<not> fst (freeze_allowed ct sg cg c)
                then (b, add (b_pid b) StSkipped (snd (freeze_allowed ct sg cg c)) c)
              else if dry then
                (b, add (b_pid b) StUnchanged
                   (''dry-run: would '' @ (if freeze then ''freeze'' else ''thaw'') @ '' '' @ cg) c)
              else let (w, failure) = ct_freeze_cgroup ct (cx_world c) cg freeze; c = set_world w c in
                (case failure of
                   Some err \<Rightarrow> (b, add (b_pid b) StFailed err c)
                 | None \<Rightarrow> (b, add (b_pid b) StApplied []
                     (audit (if freeze then ''frozen'' else ''thawed'') (b_pid b) ''freeze'' [] cg c)))))"

definition freeze_target ::
  "'w controller \<Rightarrow> safeguards \<Rightarrow> bool \<Rightarrow> bool \<Rightarrow> bool \<Rightarrow> target \<Rightarrow> 'w ctx \<Rightarrow> target \<times> 'w ctx" where
  "freeze_target ct sg freeze force dry t c =
     (let t = (if \<not> dry then t\<lparr>t_desired_freeze := Some freeze\<rparr> else t);
          (bs, c) = each_binding (freeze_binding ct sg freeze force dry) (t_bindings t) c
      in (t\<lparr>t_bindings := bs\<rparr>, c))"

definition set_freeze where
  "set_freeze ct name freeze force dry m =
     on_target ct (freeze_target ct (mg_safeguards m) freeze force dry) name m"

definition restore_binding ::
  "'w controller \<Rightarrow> bool \<Rightarrow> bool \<Rightarrow> binding \<Rightarrow> 'w ctx \<Rightarrow> binding \<times> 'w ctx" where
  "restore_binding ct force dry b c =
     (let (b, c) = restore_nice_binding ct force dry b c in restore_stop_binding ct dry b c)"

definition restore_target ::
  "'w controller \<Rightarrow> safeguards \<Rightarrow> bool \<Rightarrow> bool \<Rightarrow> target \<Rightarrow> 'w ctx \<Rightarrow> target \<times> 'w ctx" where
  "restore_target ct sg force dry t c =
     (let (bs, c) = (if t_desired_freeze t = Some True
                     then each_binding (freeze_binding ct sg False False dry) (t_bindings t) c
                     else (t_bindings t, c));
          (bs, c) = each_binding (restore_binding ct force dry) bs c;
          t = t\<lparr>t_bindings := bs\<rparr>
      in (if dry then t
          else t\<lparr>t_desired_nice := None, t_desired_stop := None, t_desired_freeze := None\<rparr>, c))"

definition restore where
  "restore ct name force dry m = on_target ct (restore_target ct (mg_safeguards m) force dry) name m"

definition restore_nice_target ::
  "'w controller \<Rightarrow> bool \<Rightarrow> target \<Rightarrow> 'w ctx \<Rightarrow> target \<times> 'w ctx" where
  "restore_nice_target ct dry t c =
     (let (bs, c) = each_binding (restore_nice_binding ct False dry) (t_bindings t) c;
          t = t\<lparr>t_bindings := bs\<rparr>
      in (if dry then t else t\<lparr>t_desired_nice := None\<rparr>, c))"

definition restore_nice where
  "restore_nice ct name dry m = on_target ct (restore_nice_target ct dry) name m"

definition unmanage :: "int \<Rightarrow> string \<Rightarrow> control_state \<Rightarrow> (control_error, control_state) result" where
  "unmanage now name s =
     (case find_target (st_targets s) name of
        None \<Rightarrow> Inl (TargetNotFound name)
      | Some i \<Rightarrow> Inr (s\<lparr>st_targets := take i (st_targets s) @ drop (Suc i) (st_targets s),
            st_updated_at := now\<rparr>))"

definition instances_of :: "string \<Rightarrow> control_state \<Rightarrow> (control_error, instance_ref list) result" where
  "instances_of name s =
     (case find_target (st_targets s) name of
        None \<Rightarrow> Inl (TargetNotFound name)
      | Some i \<Rightarrow> Inr (map (\<lambda>b. \<lparr>in_id = b_id b, in_pid = b_pid b, in_name = []\<rparr>) (t_bindings (st_targets s ! i))))"

definition rebind :: "int \<Rightarrow> string \<Rightarrow> instance_ref list \<Rightarrow> control_state \<Rightarrow> (control_error, control_state) result" where
  "rebind now name insts s =
     (case find_target (st_targets s) name of
        None \<Rightarrow> Inl (TargetNotFound name)
      | Some i \<Rightarrow>
          if t_binding_mode (st_targets s ! i) = ModeSnapshot then Inr s
          else Inr (bind_instances now i insts s))"

section \<open>Policies (\<open>reconcile.go\<close>)\<close>

record policy_spec =
  po_name :: string
  po_selector :: string
  po_nice :: "int option"
  po_stop :: "bool option"
  po_on_drift :: string

definition normalize_drift :: "string \<Rightarrow> string" where
  "normalize_drift mode =
     (if mode = ''reapply'' \<or> mode = ''adopt'' \<or> mode = ''ignore'' then mode else ''report'')"

definition policy_target :: "(string \<rightharpoonup> target) \<Rightarrow> policy_spec \<Rightarrow> target" where
  "policy_target prev s =
     \<lparr>t_id = ''config:'' @ po_name s, t_name = po_name s, t_origin = OriginConfig,
      t_binding_mode = ModeFollow, t_selector = po_selector s, t_snapshot_ids = [],
      t_desired_nice = po_nice s, t_desired_stop = po_stop s, t_desired_freeze = None,
      t_on_drift = normalize_drift (po_on_drift s),
      t_bindings = (case prev (po_name s) of Some old \<Rightarrow> t_bindings old | None \<Rightarrow> []),
      t_last_seen = 0, t_active = False\<rparr>"

definition set_policies :: "policy_spec list \<Rightarrow> control_state \<Rightarrow> control_state" where
  "set_policies specs s =
     (let olds = filter (\<lambda>t. t_origin t = OriginConfig) (st_targets s);
          prev = map_of (rev (map (\<lambda>t. (t_name t, t)) olds));
          kept = filter (\<lambda>t. t_origin t \<noteq> OriginConfig) (st_targets s)
      in s\<lparr>st_targets := kept @ map (policy_target prev) specs\<rparr>)"

definition reconcile_drift ::
  "'w controller \<Rightarrow> int \<Rightarrow> string \<Rightarrow> nice_field \<Rightarrow> binding \<Rightarrow> 'w ctx \<Rightarrow> binding \<times> 'w ctx" where
  "reconcile_drift ct desired mode f b c =
     (if \<not> revalidate ct b c then (b\<lparr>b_nice := Some (f\<lparr>nf_status := StStale\<rparr>)\<rparr>, c)
      else (case ct_get_nice ct (cx_world c) (b_pid b) of
          Inl _ \<Rightarrow> (b\<lparr>b_nice := Some (f\<lparr>nf_status := StVanished\<rparr>)\<rparr>, c)
        | Inr obs \<Rightarrow>
            let f = f\<lparr>nf_observed := obs, nf_observed_at := ct_now ct (cx_world c)\<rparr> in
            if obs = desired then (b\<lparr>b_nice := Some (f\<lparr>nf_status := StApplied\<rparr>)\<rparr>, c)
            else if mode = ''reapply'' then
              (let (w, failure) = ct_set_nice ct (cx_world c) (b_pid b) desired; c = set_world w c in
               case failure of
                 None \<Rightarrow> (b\<lparr>b_nice := Some (observe_nice ct (b_pid b) (f\<lparr>nf_desired := desired\<rparr>) c)\<rparr>, c)
               | Some _ \<Rightarrow> (b\<lparr>b_nice := Some f\<rparr>, c))
            else if mode = ''adopt'' then (b\<lparr>b_nice := Some (f\<lparr>nf_desired := obs, nf_status := StApplied\<rparr>)\<rparr>, c)
            else if mode = ''ignore'' then (b\<lparr>b_nice := Some (f\<lparr>nf_status := StApplied\<rparr>)\<rparr>, c)
            else (b\<lparr>b_nice := Some (f\<lparr>nf_status := StDrifted\<rparr>)\<rparr>, c)))"

definition reconcile_binding ::
  "'w controller \<Rightarrow> safeguards \<Rightarrow> int \<Rightarrow> string \<Rightarrow> binding \<Rightarrow> 'w ctx \<Rightarrow> binding \<times> 'w ctx" where
  "reconcile_binding ct sg desired mode b c =
     (case b_nice b of
        None \<Rightarrow> apply_nice_binding ct sg desired False b c
      | Some f \<Rightarrow> reconcile_drift ct desired mode f b c)"

definition reconcile_nice ::
  "'w controller \<Rightarrow> safeguards \<Rightarrow> int \<Rightarrow> target \<Rightarrow> 'w ctx \<Rightarrow> target \<times> 'w ctx" where
  "reconcile_nice ct sg desired t c =
     (let (bs, c) = each_binding (reconcile_binding ct sg desired (t_on_drift t)) (t_bindings t)
            (c\<lparr>cx_result := new_apply_result\<rparr>)
      in (t\<lparr>t_bindings := bs\<rparr>, c))"

text \<open>
  One round over the targets in order. The resolver is a call into the caller; it sees the
  world of the moment it is called.
\<close>

fun reconcile_targets ::
  "'w controller \<Rightarrow> safeguards \<Rightarrow> ('w \<Rightarrow> string \<Rightarrow> ('e, instance_ref list) result) \<Rightarrow>
    nat \<Rightarrow> nat \<Rightarrow> control_state \<Rightarrow> 'w ctx \<Rightarrow> control_state \<times> 'w ctx" where
  "reconcile_targets ct sg resolve i 0 s c = (s, c)"
| "reconcile_targets ct sg resolve i (Suc n) s c =
     (let t = st_targets s ! i in
      if t_origin t \<noteq> OriginConfig then reconcile_targets ct sg resolve (Suc i) n s c
      else (case resolve (cx_world c) (t_selector t) of
          Inl _ \<Rightarrow> reconcile_targets ct sg resolve (Suc i) n s c
        | Inr insts \<Rightarrow>
            let s = bind_instances (ct_now ct (cx_world c)) i insts s in
            (case t_desired_nice (st_targets s ! i) of
               None \<Rightarrow> reconcile_targets ct sg resolve (Suc i) n s c
             | Some desired \<Rightarrow>
                 let (t, c) = reconcile_nice ct sg desired (st_targets s ! i) c
                 in reconcile_targets ct sg resolve (Suc i) n (update_target i t s) c)))"

definition reconcile ::
  "'w controller \<Rightarrow> ('w \<Rightarrow> string \<Rightarrow> ('e, instance_ref list) result) \<Rightarrow>
    manager \<Rightarrow> 'w \<Rightarrow> event list \<Rightarrow> manager \<times> 'w \<times> event list" where
  "reconcile ct resolve m w evs =
     (let (s, c) = reconcile_targets ct (mg_safeguards m) resolve 0 (length (st_targets (mg_state m)))
            (mg_state m) (start_ctx w evs);
          s = s\<lparr>st_updated_at := ct_now ct (cx_world c)\<rparr>
      in (m\<lparr>mg_state := s\<rparr>, cx_world c, cx_log c))"

end
