(* ===== verification/Control_Safety.thy ===== *)
theory Control_Safety
  imports Control_Manager
begin

text \<open>
  Safety of the control operations, for every controller: what a dry run may touch, which
  processes a mutating call may reach, what happens to captured originals. The calls an
  operation makes are observed by running it on a controller that records them with the
  world each was made in.
\<close>

section \<open>Operations on a target\<close>

datatype target_op =
    OpNice int bool
  | OpStop bool bool
  | OpFreeze bool bool bool
  | OpRestore bool bool
  | OpRestoreNice bool
  | OpReconcile int

fun run_op :: "'w controller \<Rightarrow> safeguards \<Rightarrow> target_op \<Rightarrow> target \<Rightarrow> 'w ctx \<Rightarrow> target \<times> 'w ctx" where
  "run_op ct sg (OpNice n dry) t c = nice_target ct sg n dry t c"
| "run_op ct sg (OpStop stop dry) t c = stop_target ct sg stop dry t c"
| "run_op ct sg (OpFreeze freeze force dry) t c = freeze_target ct sg freeze force dry t c"
| "run_op ct sg (OpRestore force dry) t c = restore_target ct sg force dry t c"
| "run_op ct sg (OpRestoreNice dry) t c = restore_nice_target ct dry t c"
| "run_op ct sg (OpReconcile desired) t c = reconcile_nice ct sg desired t c"

fun is_dry :: "target_op \<Rightarrow> bool" where
  "is_dry (OpNice n dry) = dry"
| "is_dry (OpStop stop dry) = dry"
| "is_dry (OpFreeze freeze force dry) = dry"
| "is_dry (OpRestore force dry) = dry"
| "is_dry (OpRestoreNice dry) = dry"
| "is_dry (OpReconcile desired) = False"

section \<open>Loops over bindings\<close>

lemma each_binding_Cons:
  "fst (each_binding f (b # bs) c) = fst (f b c) # fst (each_binding f bs (snd (f b c)))"
  "snd (each_binding f (b # bs) c) = snd (each_binding f bs (snd (f b c)))"
  by (simp_all add: case_prod_beta Let_def)

declare each_binding.simps(2) [simp del]

lemma each_binding_inv:
  assumes "P c" and "\<And>b c. b \<in> set bs \<Longrightarrow> P c \<Longrightarrow> P (snd (f b c))"
  shows "P (snd (each_binding f bs c))"
  using assms by (induction bs arbitrary: c) (simp_all add: each_binding_Cons)

lemma each_binding_rel:
  assumes "\<And>b c. b \<in> set bs \<Longrightarrow> R b (fst (f b c))"
  shows "list_all2 R bs (fst (each_binding f bs c))"
  using assms by (induction bs arbitrary: c) (simp_all add: each_binding_Cons)

lemma ctx_simps [simp]:
  "cx_world (add p s e c) = cx_world c" "cx_log (add p s e c) = cx_log c"
  "cx_done (add p s e c) = cx_done c"
  "cx_world (audit a p f x y c) = cx_world c" "cx_result (audit a p f x y c) = cx_result c"
  "cx_done (audit a p f x y c) = cx_done c"
  "cx_world (set_world w c) = w" "cx_log (set_world w c) = cx_log c"
  "cx_result (set_world w c) = cx_result c" "cx_done (set_world w c) = cx_done c"
  "cx_result (add p s e c) = add_result p s e (cx_result c)"
  by (simp_all add: add_def audit_def set_world_def)

lemmas binding_ops =
  apply_nice_binding_def apply_stop_binding_def freeze_binding_def restore_nice_binding_def
  restore_stop_binding_def restore_binding_def reconcile_binding_def reconcile_drift_def
  capture_nice_def

lemmas target_ops =
  nice_target_def stop_target_def freeze_target_def restore_target_def restore_nice_target_def
  reconcile_nice_def

section \<open>Dry runs\<close>

definition same_world :: "'w ctx \<Rightarrow> 'w ctx \<Rightarrow> bool" where
  "same_world c c' \<longleftrightarrow> cx_world c' = cx_world c \<and> cx_log c' = cx_log c"

definition dry_step :: "(binding \<Rightarrow> 'w ctx \<Rightarrow> binding \<times> 'w ctx) \<Rightarrow> bool" where
  "dry_step f \<longleftrightarrow> (\<forall>b c. fst (f b c) = b \<and> same_world c (snd (f b c)))"

lemma dry_stepI:
  "(\<And>b c. fst (f b c) = b) \<Longrightarrow> (\<And>b c. cx_world (snd (f b c)) = cx_world c) \<Longrightarrow>
    (\<And>b c. cx_log (snd (f b c)) = cx_log c) \<Longrightarrow> dry_step f"
  by (simp add: dry_step_def same_world_def)

lemma dry_nice: "dry_step (apply_nice_binding ct sg n True)"
  by (rule dry_stepI) (simp_all add: apply_nice_binding_def)

lemma dry_stop: "dry_step (apply_stop_binding ct sg st True)"
  by (rule dry_stepI) (simp_all add: apply_stop_binding_def)

lemma dry_freeze: "dry_step (freeze_binding ct sg fr fo True)"
  by (rule dry_stepI) (simp_all add: freeze_binding_def Let_def split: option.split)

lemma dry_restore_nice: "dry_step (restore_nice_binding ct fo True)"
  by (rule dry_stepI) (simp_all add: restore_nice_binding_def split: option.split sum.split)

lemma dry_restore_stop: "dry_step (restore_stop_binding ct True)"
  by (rule dry_stepI) (simp_all add: restore_stop_binding_def split: option.split)

lemma dry_restore: "dry_step (restore_binding ct fo True)"
  by (rule dry_stepI)
    (simp_all add: restore_binding_def case_prod_beta dry_restore_nice [unfolded dry_step_def same_world_def]
      dry_restore_stop [unfolded dry_step_def same_world_def])

lemma dry_each:
  assumes "dry_step f"
  shows "fst (each_binding f bs c) = bs" and "same_world c (snd (each_binding f bs c))"
proof -
  show "fst (each_binding f bs c) = bs"
    using assms by (induction bs arbitrary: c) (simp_all add: each_binding_Cons dry_step_def)
  show "same_world c (snd (each_binding f bs c))"
  proof (rule each_binding_inv [of "same_world c"])
    show "same_world c (snd (f b c'))" if "same_world c c'" for b c'
      using assms that unfolding dry_step_def same_world_def by metis
  qed (simp add: same_world_def)
qed

lemmas dry_loops = dry_each [OF dry_nice] dry_each [OF dry_stop] dry_each [OF dry_freeze]
  dry_each [OF dry_restore_nice] dry_each [OF dry_restore]

text \<open>
  Dry runs. Whatever the controller, an operation run dry makes no change to the world,
  writes no audit event and leaves every binding of the target as it was.
\<close>

theorem dry_run_changes_nothing:
  assumes "is_dry op" and "run_op ct sg op t c = (t', c')"
  shows "cx_world c' = cx_world c \<and> cx_log c' = cx_log c \<and> t_bindings t' = t_bindings t"
  using assms
  by (cases op) (auto simp: target_ops Let_def case_prod_beta dry_loops [unfolded same_world_def])

text \<open>
  One field escapes: \<open>SetNice\<close> records its desired value on the target even when run dry (stop
  and freeze do not), so a later reconciliation of a policy target would apply it.
\<close>

lemma dry_nice_records_intent:
  "t_desired_nice (fst (run_op ct sg (OpNice n True) t c)) = Some n"
  "t_desired_stop (fst (run_op ct sg (OpStop s True) t c)) = t_desired_stop t"
  "t_desired_freeze (fst (run_op ct sg (OpFreeze fr fo True) t c)) = t_desired_freeze t"
  by (simp_all add: target_ops Let_def case_prod_beta)

section \<open>Which calls are made\<close>

datatype call = CallNice int int | CallSignal int signal | CallFreeze string bool

definition logged :: "'w controller \<Rightarrow> ('w \<times> ('w \<times> call) list) controller" where
  "logged ct = \<lparr>
     ct_get_nice = (\<lambda>(w, l) pid. ct_get_nice ct w pid),
     ct_set_nice = (\<lambda>(w, l) pid n. let (w', e) = ct_set_nice ct w pid n in ((w', l @ [(w, CallNice pid n)]), e)),
     ct_send_signal = (\<lambda>(w, l) pid s. let (w', e) = ct_send_signal ct w pid s in ((w', l @ [(w, CallSignal pid s)]), e)),
     ct_read_identity = (\<lambda>(w, l) pid. ct_read_identity ct w pid),
     ct_read_cgroup = (\<lambda>(w, l) pid. ct_read_cgroup ct w pid),
     ct_freeze_cgroup = (\<lambda>(w, l) cg f. let (w', e) = ct_freeze_cgroup ct w cg f in ((w', l @ [(w, CallFreeze cg f)]), e)),
     ct_now = (\<lambda>(w, l). ct_now ct w)\<rparr>"

text \<open>
  A call made for a binding: nice and signal calls name its pid, and in the world of the call
  the live process has the bound identity; a freeze names the cgroup its pid is in.
\<close>

fun call_for :: "'w controller \<Rightarrow> process_id \<Rightarrow> int \<Rightarrow> 'w \<times> call \<Rightarrow> bool" where
  "call_for ct i pid (w, CallNice p n) \<longleftrightarrow>
     p = pid \<and> (\<exists>live. ct_read_identity ct w pid = Some live \<and> same_process live i)"
| "call_for ct i pid (w, CallSignal p s) \<longleftrightarrow>
     p = pid \<and> (\<exists>live. ct_read_identity ct w pid = Some live \<and> same_process live i)"
| "call_for ct i pid (w, CallFreeze cg f) \<longleftrightarrow> ct_read_cgroup ct w pid = Some cg"

definition calls :: "('w \<times> ('w \<times> call) list) ctx \<Rightarrow> ('w \<times> call) list" where
  "calls c = snd (cx_world c)"

lemma calls_simps [simp]:
  "calls (add p s e c) = calls c" "calls (audit a p f x y c) = calls c"
  "calls (c\<lparr>cx_done := d\<rparr>) = calls c" "calls (c\<lparr>cx_result := r\<rparr>) = calls c"
  "calls (set_world w c) = snd w"
  by (simp_all add: calls_def)

lemma logged_simps:
  "ct_get_nice (logged ct) w = ct_get_nice ct (fst w)"
  "ct_read_identity (logged ct) w = ct_read_identity ct (fst w)"
  "ct_read_cgroup (logged ct) w = ct_read_cgroup ct (fst w)"
  "ct_set_nice (logged ct) w pid n =
     ((fst (ct_set_nice ct (fst w) pid n), snd w @ [(fst w, CallNice pid n)]), snd (ct_set_nice ct (fst w) pid n))"
  "ct_send_signal (logged ct) w pid s =
     ((fst (ct_send_signal ct (fst w) pid s), snd w @ [(fst w, CallSignal pid s)]), snd (ct_send_signal ct (fst w) pid s))"
  "ct_freeze_cgroup (logged ct) w cg f =
     ((fst (ct_freeze_cgroup ct (fst w) cg f), snd w @ [(fst w, CallFreeze cg f)]), snd (ct_freeze_cgroup ct (fst w) cg f))"
  by (simp_all add: logged_def fun_eq_iff Let_def split: prod.split)

text \<open>What every binding step adds to the calls satisfies a predicate.\<close>

definition adds_only :: "('w \<times> call \<Rightarrow> bool) \<Rightarrow> ('w \<times> ('w \<times> call) list) ctx \<Rightarrow> ('w \<times> ('w \<times> call) list) ctx \<Rightarrow> bool" where
  "adds_only P c c' \<longleftrightarrow> (\<exists>l. calls c' = calls c @ l \<and> list_all P l)"

lemma adds_only_simps:
  "adds_only P c c" "calls c' = calls c \<Longrightarrow> adds_only P c c'"
  "calls c' = calls c @ [x] \<Longrightarrow> P x \<Longrightarrow> adds_only P c c'"
  by (simp_all add: adds_only_def)

lemma adds_only_trans: "adds_only P a b \<Longrightarrow> adds_only P b c \<Longrightarrow> adds_only P a c"
  by (auto simp: adds_only_def)

lemma adds_only_mono: "adds_only P a b \<Longrightarrow> (\<And>x. P x \<Longrightarrow> Q x) \<Longrightarrow> adds_only Q a b"
  by (auto simp: adds_only_def list_all_iff)

lemma each_adds_only:
  assumes "\<And>b c. b \<in> set bs \<Longrightarrow> adds_only P c (snd (f b c))"
  shows "adds_only P c (snd (each_binding f bs c))"
proof (rule each_binding_inv)
  show "adds_only P c c" by (rule adds_only_simps)
qed (use assms adds_only_trans in blast)

lemmas call_simps = logged_simps revalidate_def capture_nice_def case_prod_beta Let_def calls_def
  check_pid_iff adds_only_def

lemma apply_nice_calls:
  "adds_only (\<lambda>x. call_for ct (b_id b) (b_pid b) x \<and> \<not> protected_pid sg (b_pid b)) c
     (snd (apply_nice_binding (logged ct) sg n dry b c))"
  by (auto simp: apply_nice_binding_def call_simps split: option.splits sum.splits)

lemma apply_stop_calls:
  "adds_only (\<lambda>x. call_for ct (b_id b) (b_pid b) x \<and> \<not> protected_pid sg (b_pid b)) c
     (snd (apply_stop_binding (logged ct) sg st dry b c))"
  by (auto simp: apply_stop_binding_def call_simps split: option.splits sum.splits)

lemma freeze_calls:
  "adds_only (\<lambda>x. call_for ct (b_id b) (b_pid b) x \<and> \<not> protected_pid sg (b_pid b)) c
     (snd (freeze_binding (logged ct) sg fr fo dry b c))"
  by (auto simp: freeze_binding_def call_simps split: option.splits sum.splits)

lemma restore_nice_calls:
  "adds_only (call_for ct (b_id b) (b_pid b)) c (snd (restore_nice_binding (logged ct) fo dry b c))"
  by (auto simp: restore_nice_binding_def call_simps split: option.splits sum.splits)

lemma restore_stop_calls:
  "adds_only (call_for ct (b_id b) (b_pid b)) c (snd (restore_stop_binding (logged ct) dry b c))"
  by (auto simp: restore_stop_binding_def call_simps split: option.splits sum.splits)

lemma reconcile_drift_calls:
  "adds_only (call_for ct (b_id b) (b_pid b)) c (snd (reconcile_drift (logged ct) n mode f b c))"
  by (auto simp: reconcile_drift_def call_simps split: option.splits sum.splits)

text \<open>No operation changes which process a binding is bound to.\<close>

definition same_binding :: "binding \<Rightarrow> binding \<Rightarrow> bool" where
  "same_binding b b' \<longleftrightarrow> b_id b' = b_id b \<and> b_pid b' = b_pid b \<and> b_name b' = b_name b"

lemma same_binding_steps:
  "same_binding b (fst (apply_nice_binding ct sg n dry b c))"
  "same_binding b (fst (apply_stop_binding ct sg st dry b c))"
  "same_binding b (fst (restore_nice_binding ct fo dry b c))"
  "same_binding b (fst (restore_stop_binding ct dry b c))"
  "same_binding b (fst (reconcile_drift ct n mode f b c))"
  by (auto simp: same_binding_def binding_ops Let_def case_prod_beta split: option.splits sum.splits)

lemma freeze_fst [simp]: "fst (freeze_binding ct sg fr fo dry b c) = b"
  by (auto simp: freeze_binding_def Let_def case_prod_beta split: option.splits)

lemma freeze_loop_fst [simp]: "fst (each_binding (freeze_binding ct sg fr fo dry) bs c) = bs"
  by (induction bs arbitrary: c) (simp_all add: each_binding_Cons)

lemma restore_calls:
  "adds_only (call_for ct (b_id b) (b_pid b)) c (snd (restore_binding (logged ct) fo dry b c))"
proof -
  let ?r = "restore_nice_binding (logged ct) fo dry b c"
  have "adds_only (call_for ct (b_id b) (b_pid b)) (snd ?r) (snd (restore_stop_binding (logged ct) dry (fst ?r) (snd ?r)))"
    using restore_stop_calls [of ct "fst ?r" "snd ?r" dry] same_binding_steps(3) [of b "logged ct" fo dry c]
    by (simp add: same_binding_def)
  then show ?thesis
    using adds_only_trans [OF restore_nice_calls] by (simp add: restore_binding_def case_prod_beta)
qed

lemma reconcile_binding_calls:
  "adds_only (call_for ct (b_id b) (b_pid b)) c (snd (reconcile_binding (logged ct) sg n mode b c))"
  using adds_only_mono [OF apply_nice_calls [of ct b sg c n False], of "call_for ct (b_id b) (b_pid b)"]
    reconcile_drift_calls [of ct b c n mode]
  by (auto simp: reconcile_binding_def split: option.split)

definition call_bound :: "'w controller \<Rightarrow> binding list \<Rightarrow> 'w \<times> call \<Rightarrow> bool" where
  "call_bound ct bs x \<longleftrightarrow> (\<exists>b \<in> set bs. call_for ct (b_id b) (b_pid b) x)"

lemma each_call_bound:
  assumes "\<And>b c. adds_only (call_for ct (b_id b) (b_pid b)) c (snd (f b c))"
  shows "adds_only (call_bound ct bs) c (snd (each_binding f bs c))"
proof (rule each_adds_only)
  fix b c assume "b \<in> set bs"
  then show "adds_only (call_bound ct bs) c (snd (f b c))"
    by (intro adds_only_mono [OF assms]) (auto simp: call_bound_def)
qed

lemma run_op_calls: "adds_only (call_bound ct (t_bindings t)) c (snd (run_op (logged ct) sg op t c))"
proof -
  note weaken = adds_only_mono [OF apply_nice_calls] adds_only_mono [OF apply_stop_calls]
    adds_only_mono [OF freeze_calls]
  have loops: "adds_only (call_bound ct (t_bindings t)) c (snd (each_binding (apply_nice_binding (logged ct) sg n dry) (t_bindings t) c))"
    "adds_only (call_bound ct (t_bindings t)) c (snd (each_binding (apply_stop_binding (logged ct) sg st dry) (t_bindings t) c))"
    "adds_only (call_bound ct (t_bindings t)) c (snd (each_binding (freeze_binding (logged ct) sg fr fo dry) (t_bindings t) c))"
    "adds_only (call_bound ct (t_bindings t)) c (snd (each_binding (restore_nice_binding (logged ct) fo dry) (t_bindings t) c))"
    "adds_only (call_bound ct (t_bindings t)) c (snd (each_binding (restore_binding (logged ct) fo dry) (t_bindings t) c))"
    "adds_only (call_bound ct (t_bindings t)) c (snd (each_binding (reconcile_binding (logged ct) sg n mode) (t_bindings t) c))"
    for n dry st fr fo mode c
    by (rule each_call_bound, rule weaken restore_nice_calls restore_calls reconcile_binding_calls, blast?)+
  have "adds_only (call_bound ct (t_bindings t)) c (snd (restore_target (logged ct) sg force dry t c))" for force dry
    using adds_only_trans [OF loops(3) loops(5)] loops(5)
    by (auto simp: restore_target_def Let_def case_prod_beta)
  moreover have "adds_only (call_bound ct (t_bindings t)) c (snd (reconcile_nice (logged ct) sg n t c))" for n
    using loops(6) [of "c\<lparr>cx_result := new_apply_result\<rparr>" n "t_on_drift t"]
    by (simp add: reconcile_nice_def case_prod_beta adds_only_def)
  ultimately show ?thesis
    using loops by (cases op) (auto simp: nice_target_def stop_target_def freeze_target_def restore_nice_target_def Let_def case_prod_beta)
qed

text \<open>
  C1: stale identities. Whatever the controller answers and however its world changes between
  calls, every renice and every signal an operation on a target makes goes to the pid of a
  binding of that target whose live process was, in the world of that very call, the bound
  instance: a reused pid is never touched. A freeze only ever names the cgroup a bound pid is in.
\<close>

theorem operations_reach_bound_instances:
  assumes "run_op (logged ct) sg op t c = (t', c')" and "calls c = []" and "x \<in> set (calls c')"
  shows "\<exists>b \<in> set (t_bindings t). call_for ct (b_id b) (b_pid b) x"
  using run_op_calls [of ct t c sg op] assms
  by (auto simp: adds_only_def list_all_iff call_bound_def)

section \<open>Protected processes\<close>

fun guarded_op :: "target_op \<Rightarrow> bool" where
  "guarded_op (OpNice n dry) = True"
| "guarded_op (OpStop stop dry) = True"
| "guarded_op (OpFreeze freeze force dry) = True"
| "guarded_op _ = False"

definition call_allowed :: "'w controller \<Rightarrow> safeguards \<Rightarrow> binding list \<Rightarrow> 'w \<times> call \<Rightarrow> bool" where
  "call_allowed ct sg bs x \<longleftrightarrow>
     (\<exists>b \<in> set bs. call_for ct (b_id b) (b_pid b) x \<and> \<not> protected_pid sg (b_pid b))"

lemma each_call_allowed:
  assumes "\<And>b c. adds_only (\<lambda>x. call_for ct (b_id b) (b_pid b) x \<and> \<not> protected_pid sg (b_pid b)) c (snd (f b c))"
  shows "adds_only (call_allowed ct sg bs) c (snd (each_binding f bs c))"
proof (rule each_adds_only)
  fix b c assume "b \<in> set bs"
  then show "adds_only (call_allowed ct sg bs) c (snd (f b c))"
    by (intro adds_only_mono [OF assms]) (auto simp: call_allowed_def)
qed

lemma guarded_op_calls:
  "guarded_op op \<Longrightarrow> adds_only (call_allowed ct sg (t_bindings t)) c (snd (run_op (logged ct) sg op t c))"
  using each_call_allowed [OF apply_nice_calls] each_call_allowed [OF apply_stop_calls]
    each_call_allowed [OF freeze_calls]
  by (cases op) (auto simp: target_ops Let_def case_prod_beta)

lemma signal_calls:
  "adds_only (\<lambda>x. call_for ct (in_id i) (in_pid i) x \<and> \<not> protected_pid sg (in_pid i)) c
     (signal_one (logged ct) sg sig dry c i)"
  by (auto simp: signal_one_def call_simps split: option.splits)

lemma signal_loop_calls:
  "adds_only (\<lambda>x. \<exists>i \<in> set insts. call_for ct (in_id i) (in_pid i) x \<and> \<not> protected_pid sg (in_pid i)) c
     (foldl (signal_one (logged ct) sg sig dry) c insts)"
proof (induction insts arbitrary: c)
  case Nil
  show ?case by (simp add: adds_only_def)
next
  case (Cons i insts)
  show ?case
    using adds_only_trans [OF adds_only_mono [OF signal_calls [of ct i sg c sig dry]] adds_only_mono [OF Cons.IH]]
    by (simp add: bex_Un)
qed

text \<open>
  A freeze pauses a cgroup with all that runs in it. This one is neither the root nor a login session and does not
  contain the cgroup that procfit runs in, as far as that can be read in the world of the call.
\<close>

fun pause_guarded :: "'w controller \<Rightarrow> safeguards \<Rightarrow> 'w \<times> call \<Rightarrow> bool" where
  "pause_guarded ct sg (w, CallFreeze cg True) \<longleftrightarrow>
     cg \<notin> {[], ''/''} \<and> \<not> is_session_cgroup cg \<and>
     (case ct_read_cgroup ct w (sg_self_pid sg) of
        None \<Rightarrow> True | Some own \<Rightarrow> own = [] \<or> \<not> prefix (path_parts cg) (path_parts own))"
| "pause_guarded ct sg _ \<longleftrightarrow> True"

fun forced :: "target_op \<Rightarrow> bool" where
  "forced (OpFreeze freeze force dry) = force"
| "forced _ = False"

lemma freeze_pauses:
  "adds_only (pause_guarded ct sg) c (snd (freeze_binding (logged ct) sg fr False dry b c))"
  by (cases fr)
    (auto simp: freeze_binding_def freeze_allowed_def freeze_safety_iff call_simps split: option.splits)

lemma nice_pauses: "adds_only (pause_guarded ct sg) c (snd (apply_nice_binding (logged ct) sg n dry b c))"
  by (auto simp: apply_nice_binding_def call_simps split: option.splits sum.splits)

lemma stop_pauses: "adds_only (pause_guarded ct sg) c (snd (apply_stop_binding (logged ct) sg st dry b c))"
  by (auto simp: apply_stop_binding_def call_simps split: option.splits sum.splits)

lemma restore_pauses:
  "adds_only (pause_guarded ct sg) c (snd (restore_nice_binding (logged ct) fo dry b c))"
  "adds_only (pause_guarded ct sg) c (snd (restore_stop_binding (logged ct) dry b c))"
  "adds_only (pause_guarded ct sg) c (snd (reconcile_drift (logged ct) n mode f b c))"
  "adds_only (pause_guarded ct sg) c (snd (freeze_binding (logged ct) sg' False fo dry b c))"
  by (auto simp: restore_nice_binding_def restore_stop_binding_def reconcile_drift_def freeze_binding_def call_simps
      split: option.splits sum.splits)

lemma both_pause: "adds_only (pause_guarded ct sg) c (snd (restore_binding (logged ct) fo dry b c))"
  by (simp add: restore_binding_def case_prod_beta adds_only_trans [OF restore_pauses(1) restore_pauses(2)])

lemma reconcile_pauses: "adds_only (pause_guarded ct sg) c (snd (reconcile_binding (logged ct) sg n mode b c))"
  by (auto simp: reconcile_binding_def nice_pauses restore_pauses(3) split: option.split)

text \<open>No operation pauses more, unless it is a forced freeze.\<close>

lemma run_op_pauses:
  assumes "\<not> forced op"
  shows "adds_only (pause_guarded ct sg) c (snd (run_op (logged ct) sg op t c))"
proof -
  note loops = each_adds_only [of "t_bindings t" "pause_guarded ct sg", OF nice_pauses]
    each_adds_only [of "t_bindings t" "pause_guarded ct sg", OF stop_pauses]
    each_adds_only [of "t_bindings t" "pause_guarded ct sg", OF freeze_pauses]
    each_adds_only [of "t_bindings t" "pause_guarded ct sg", OF restore_pauses(1)]
    each_adds_only [of "t_bindings t" "pause_guarded ct sg", OF restore_pauses(4)]
    each_adds_only [of "t_bindings t" "pause_guarded ct sg", OF both_pause]
  have reconciled: "adds_only (pause_guarded ct sg) c (snd (each_binding (reconcile_binding (logged ct) sg n mode) (t_bindings t) c))"
    for n mode c by (rule each_adds_only) (rule reconcile_pauses)
  have "adds_only (pause_guarded ct sg) c (snd (restore_target (logged ct) sg force dry t c))" for force dry
    using adds_only_trans [OF loops(5) loops(6)] loops(6)
    by (auto simp: restore_target_def Let_def case_prod_beta)
  moreover have "adds_only (pause_guarded ct sg) c (snd (reconcile_nice (logged ct) sg n t c))" for n
    using reconciled [of "c\<lparr>cx_result := new_apply_result\<rparr>" n "t_on_drift t"]
    by (simp add: reconcile_nice_def case_prod_beta adds_only_def)
  ultimately show ?thesis
    using assms loops
    by (cases op) (auto simp: nice_target_def stop_target_def freeze_target_def restore_nice_target_def Let_def case_prod_beta)
qed

text \<open>
  C2: protected processes. Renice and stop of a target, and a signal to a list of instances, never reach PID 1, an invalid
  pid, procfit itself or its parent: every such call is made for a bound instance whose pid passes the safeguards. A freeze acts on a
  whole cgroup: it names the one that a bound pid passing the safeguards reads as its own, and unless it is forced this is not the
  root, not a login session or user slice, and does not contain the cgroup procfit runs in. What else a cgroup holds is
  not looked at, and a forced freeze is not guarded by where procfit runs.
\<close>

theorem protected_pids_never_touched:
  assumes "guarded_op op" and "run_op (logged ct) sg op t c = (t', c')" and "calls c = []"
  shows "(\<forall>x \<in> set (calls c'). call_allowed ct sg (t_bindings t) x \<and> (\<not> forced op \<longrightarrow> pause_guarded ct sg x)) \<and>
    (\<forall>x \<in> set (snd (snd (signal_instances (logged ct) sg insts sig dry (w, [])))).
       \<exists>i \<in> set insts. call_for ct (in_id i) (in_pid i) x \<and> \<not> protected_pid sg (in_pid i))"
  using guarded_op_calls [OF assms(1), of ct sg t c] run_op_pauses [of op ct sg c t] assms(2,3)
    signal_loop_calls [of insts ct sg "start_ctx (w, []) []" sig dry]
  by (auto simp: adds_only_def list_all_iff signal_instances_def Let_def calls_def start_ctx_def)

section \<open>Drift\<close>

definition restores_original :: "'w controller \<Rightarrow> binding list \<Rightarrow> 'w \<times> call \<Rightarrow> bool" where
  "restores_original ct bs x \<longleftrightarrow> (\<forall>w pid n. x = (w, CallNice pid n) \<longrightarrow>
     (\<exists>b \<in> set bs. \<exists>f. b_pid b = pid \<and> b_nice b = Some f \<and> n = nf_original f \<and>
        ct_get_nice ct w pid = Inr (nf_desired f)))"

lemma restore_nice_undrifted:
  "b \<in> set bs \<Longrightarrow> adds_only (restores_original ct bs) c (snd (restore_nice_binding (logged ct) False dry b c))"
  by (auto simp: restore_nice_binding_def call_simps restores_original_def split: option.splits sum.splits)

lemma restore_stop_undrifted:
  "adds_only (restores_original ct bs) c (snd (restore_stop_binding (logged ct) dry b c))"
  by (auto simp: restore_stop_binding_def call_simps restores_original_def split: option.splits sum.splits)

lemma freeze_undrifted:
  "adds_only (restores_original ct bs) c (snd (freeze_binding (logged ct) sg fr fo dry b c))"
  by (auto simp: freeze_binding_def call_simps restores_original_def split: option.splits sum.splits)

text \<open>
  C3: restoring. Without \<open>force\<close>, a restore renices a process only to its captured original and
  only when the nice value read in that very world is still the one procfit set: a value
  changed from outside is never overwritten.
\<close>

theorem restore_never_overwrites_drift:
  assumes "op = OpRestore False dry \<or> op = OpRestoreNice dry"
    and "run_op (logged ct) sg op t c = (t', c')" and "calls c = []" and "x \<in> set (calls c')"
  shows "restores_original ct (t_bindings t) x"
proof -
  let ?bs = "t_bindings t"
  have nice: "adds_only (restores_original ct ?bs) c (snd (each_binding (restore_nice_binding (logged ct) False dry) ?bs c))"
    for c by (rule each_adds_only) (rule restore_nice_undrifted)
  have freeze: "adds_only (restores_original ct ?bs) c (snd (each_binding (freeze_binding (logged ct) sg False False dry) ?bs c))"
    for c by (rule each_adds_only) (rule freeze_undrifted)
  have both: "adds_only (restores_original ct ?bs) c (snd (each_binding (restore_binding (logged ct) False dry) ?bs c))" for c
  proof (rule each_adds_only)
    fix b c assume "b \<in> set ?bs"
    from adds_only_trans [OF restore_nice_undrifted [OF this] restore_stop_undrifted]
    show "adds_only (restores_original ct ?bs) c (snd (restore_binding (logged ct) False dry b c))"
      by (simp add: restore_binding_def case_prod_beta)
  qed
  have "adds_only (restores_original ct ?bs) c (snd (restore_target (logged ct) sg False dry t c))"
    using adds_only_trans [OF freeze both] both by (auto simp: restore_target_def Let_def case_prod_beta)
  moreover have "adds_only (restores_original ct ?bs) c (snd (restore_nice_target (logged ct) dry t c))"
    using nice by (auto simp: restore_nice_target_def Let_def case_prod_beta)
  ultimately have "adds_only (restores_original ct ?bs) c (snd (run_op (logged ct) sg op t c))"
    using assms(1) by auto
  then show ?thesis
    using assms(2-4) by (auto simp: adds_only_def list_all_iff)
qed

definition reapplies :: "'w controller \<Rightarrow> int \<Rightarrow> target \<Rightarrow> 'w \<times> call \<Rightarrow> bool" where
  "reapplies ct desired t x \<longleftrightarrow> (\<exists>w pid. x = (w, CallNice pid desired) \<and>
     (\<exists>b \<in> set (t_bindings t). b_pid b = pid \<and>
        (b_nice b = None \<or> (t_on_drift t = ''reapply'' \<and> (\<exists>obs. ct_get_nice ct w pid = Inr obs \<and> obs \<noteq> desired)))))"

lemma reconcile_binding_reapplies:
  "b \<in> set (t_bindings t) \<Longrightarrow>
    adds_only (reapplies ct desired t) c (snd (reconcile_binding (logged ct) sg desired (t_on_drift t) b c))"
  by (auto simp: reconcile_binding_def apply_nice_binding_def reconcile_drift_def call_simps reapplies_def
      split: option.splits sum.splits)

text \<open>
  Reconciliation. It only renices, only to the desired value, and only a process met for
  the first time or, in mode \<open>reapply\<close>, one observed at another value in that very world; the
  modes report, adopt and ignore leave every process already captured alone.
\<close>

theorem reconcile_reapplies_only_drift:
  assumes "run_op (logged ct) sg (OpReconcile desired) t c = (t', c')" and "calls c = []"
    and "x \<in> set (calls c')"
  shows "reapplies ct desired t x"
proof -
  have "adds_only (reapplies ct desired t) (c\<lparr>cx_result := new_apply_result\<rparr>)
      (snd (each_binding (reconcile_binding (logged ct) sg desired (t_on_drift t)) (t_bindings t)
        (c\<lparr>cx_result := new_apply_result\<rparr>)))"
    by (rule each_adds_only) (rule reconcile_binding_reapplies)
  then show ?thesis
    using assms by (auto simp: reconcile_nice_def case_prod_beta adds_only_def list_all_iff)
qed

section \<open>Each cgroup once\<close>

definition frozen_once :: "('w \<times> ('w \<times> call) list) ctx \<Rightarrow> bool" where
  "frozen_once c \<longleftrightarrow> distinct (map snd (calls c)) \<and>
     (\<forall>x \<in> set (calls c). \<exists>cg f. snd x = CallFreeze cg f \<and> cx_done c cg)"

lemma frozen_once_step:
  assumes "frozen_once c"
  shows "frozen_once (snd (freeze_binding (logged ct) sg fr fo dry b c))"
proof (cases "calls (snd (freeze_binding (logged ct) sg fr fo dry b c)) = calls c")
  case True
  moreover have "cx_done c cg \<Longrightarrow> cx_done (snd (freeze_binding (logged ct) sg fr fo dry b c)) cg" for cg
    by (auto simp: freeze_binding_def Let_def case_prod_beta split: option.splits)
  ultimately show ?thesis using assms by (fastforce simp: frozen_once_def)
next
  case False
  then obtain cg where cg: "\<not> cx_done c cg"
      "calls (snd (freeze_binding (logged ct) sg fr fo dry b c)) = calls c @ [(fst (cx_world c), CallFreeze cg fr)]"
      "cx_done (snd (freeze_binding (logged ct) sg fr fo dry b c)) = (cx_done c)(cg := True)"
    by (auto simp: freeze_binding_def logged_simps Let_def case_prod_beta calls_def split: option.splits if_splits)
  then show ?thesis
    using assms by (fastforce simp: frozen_once_def)
qed

text \<open>
  Freezing. However many of a target's processes share a cgroup, one freeze or thaw makes
  at most one call for it.
\<close>

theorem freeze_each_cgroup_once:
  assumes "set_freeze (logged ct) name fr fo dry m (w, []) evs = (res, m', (w', l), evs')"
  shows "distinct (map snd l) \<and> (\<forall>x \<in> set l. \<exists>cg. snd x = CallFreeze cg fr)"
proof -
  let ?c0 = "start_ctx (w, []) evs :: ('a \<times> ('a \<times> call) list) ctx"
  have "adds_only (\<lambda>x. \<exists>cg. snd x = CallFreeze cg fr) c (snd (each_binding (freeze_binding (logged ct) sg fr fo dry) bs c))"
    for sg bs c
    by (rule each_adds_only) (auto simp: freeze_binding_def call_simps split: option.splits)
  note only = this
  have once: "frozen_once (snd (each_binding (freeze_binding (logged ct) sg fr fo dry) bs ?c0))" for sg bs
  proof (rule each_binding_inv)
    show "frozen_once ?c0" by (simp add: frozen_once_def calls_def start_ctx_def)
  qed (rule frozen_once_step)
  have target: "distinct (map snd (calls (snd (freeze_target (logged ct) sg fr fo dry t ?c0)))) \<and>
      (\<forall>x \<in> set (calls (snd (freeze_target (logged ct) sg fr fo dry t ?c0))). \<exists>cg. snd x = CallFreeze cg fr)" for sg t
  proof -
    have "calls (snd (freeze_target (logged ct) sg fr fo dry t ?c0)) =
        calls (snd (each_binding (freeze_binding (logged ct) sg fr fo dry) (t_bindings t) ?c0))"
      by (simp add: freeze_target_def Let_def case_prod_beta)
    moreover have "calls ?c0 = []" by (simp add: calls_def start_ctx_def)
    ultimately show ?thesis
      using only [of ?c0 sg "t_bindings t"] once [of sg "t_bindings t"]
      by (simp add: frozen_once_def adds_only_def list_all_iff)
  qed
  show ?thesis
  proof (cases "find_target (st_targets (mg_state m)) name")
    case None
    then show ?thesis using assms by (simp add: set_freeze_def on_target_def)
  next
    case (Some i)
    have "l = calls (snd (freeze_target (logged ct) (mg_safeguards m) fr fo dry (st_targets (mg_state m) ! i) ?c0))"
      using assms Some by (simp add: set_freeze_def on_target_def Let_def case_prod_beta calls_def)
    then show ?thesis using target by simp
  qed
qed

end
