(* ===== verification/Control_Fake.thy ===== *)
theory Control_Fake
  imports Control_Model
begin

text \<open>
  The contract of the controller port, as a locale, and the in-memory adapter of
  \<open>internal/testutil/controller.go\<close> (with the fake clock of \<open>clock.go\<close>), which satisfies it.
\<close>

section \<open>The contract\<close>

text \<open>
  What the manager relies on: a successful renice to a value in the kernel's range (it clamps
  others) is read back, a failed one changes nothing, and neither a renice nor a signal nor a
  freeze changes the nice value of another process or which process a pid is.
\<close>

definition nice_range :: "int \<Rightarrow> bool" where
  "nice_range n \<longleftrightarrow> - 20 \<le> n \<and> n \<le> 19"

locale controller_laws =
  fixes ct :: "'w controller"
  assumes set_get: "nice_range n \<Longrightarrow> ct_set_nice ct w pid n = (w', None) \<Longrightarrow> ct_get_nice ct w' pid = Inr n"
    and set_other: "ct_set_nice ct w pid n = (w', r) \<Longrightarrow> p \<noteq> pid \<Longrightarrow> ct_get_nice ct w' p = ct_get_nice ct w p"
    and set_failed: "ct_set_nice ct w pid n = (w', Some e) \<Longrightarrow> ct_get_nice ct w' p = ct_get_nice ct w p"
    and set_identity: "ct_set_nice ct w pid n = (w', r) \<Longrightarrow> ct_read_identity ct w' p = ct_read_identity ct w p"
    and signal_nice: "ct_send_signal ct w pid s = (w', r) \<Longrightarrow> ct_get_nice ct w' p = ct_get_nice ct w p"
    and signal_identity: "ct_send_signal ct w pid s = (w', r) \<Longrightarrow> ct_read_identity ct w' p = ct_read_identity ct w p"
    and freeze_nice: "ct_freeze_cgroup ct w cg f = (w', r) \<Longrightarrow> ct_get_nice ct w' p = ct_get_nice ct w p"
    and freeze_identity: "ct_freeze_cgroup ct w cg f = (w', r) \<Longrightarrow> ct_read_identity ct w' p = ct_read_identity ct w p"

section \<open>The fake controller (\<open>testutil/controller.go\<close>)\<close>

record fake_controller =
  fc_caps :: control_caps
  fc_nice :: "int \<rightharpoonup> int"
  fc_identity :: "int \<rightharpoonup> process_id"
  fc_signals :: "int \<Rightarrow> signal list"
  fc_set_nice_err :: "int \<rightharpoonup> string"
  fc_cgroups :: "int \<rightharpoonup> string"
  fc_frozen :: "string \<rightharpoonup> bool"
  fc_freeze_err :: "string \<rightharpoonup> string"

definition new_fake_controller :: fake_controller where
  "new_fake_controller = \<lparr>fc_caps = \<lparr>cap_nice = True, cap_signal = True, cap_freeze = True\<rparr>,
     fc_nice = Map.empty, fc_identity = Map.empty, fc_signals = (\<lambda>_. []), fc_set_nice_err = Map.empty,
     fc_cgroups = Map.empty, fc_frozen = Map.empty, fc_freeze_err = Map.empty\<rparr>"

definition fake_add :: "int \<Rightarrow> int \<Rightarrow> process_id \<Rightarrow> fake_controller \<Rightarrow> fake_controller" where
  "fake_add pid nice i f = f\<lparr>fc_nice := (fc_nice f)(pid \<mapsto> nice), fc_identity := (fc_identity f)(pid \<mapsto> i)\<rparr>"

definition fake_remove :: "int \<Rightarrow> fake_controller \<Rightarrow> fake_controller" where
  "fake_remove pid f = f\<lparr>fc_nice := (fc_nice f)(pid := None), fc_identity := (fc_identity f)(pid := None)\<rparr>"

definition pid_not_found :: "int \<Rightarrow> string" where
  "pid_not_found pid = ''pid '' @ show_int pid @ '' not found''"

definition fake_get_nice :: "fake_controller \<Rightarrow> int \<Rightarrow> (string, int) result" where
  "fake_get_nice f pid = (case fc_nice f pid of None \<Rightarrow> Inl (pid_not_found pid) | Some n \<Rightarrow> Inr n)"

definition fake_set_nice :: "fake_controller \<Rightarrow> int \<Rightarrow> int \<Rightarrow> fake_controller \<times> string option" where
  "fake_set_nice f pid nice =
     (case fc_set_nice_err f pid of
        Some e \<Rightarrow> (f, Some e)
      | None \<Rightarrow>
          if fc_nice f pid = None then (f, Some (pid_not_found pid))
          else (f\<lparr>fc_nice := (fc_nice f)(pid \<mapsto> nice)\<rparr>, None))"

definition fake_send_signal :: "fake_controller \<Rightarrow> int \<Rightarrow> signal \<Rightarrow> fake_controller \<times> string option" where
  "fake_send_signal f pid sig =
     (if fc_identity f pid = None then (f, Some (pid_not_found pid))
      else (f\<lparr>fc_signals := (fc_signals f)(pid := fc_signals f pid @ [sig])\<rparr>, None))"

definition fake_freeze_cgroup :: "fake_controller \<Rightarrow> string \<Rightarrow> bool \<Rightarrow> fake_controller \<times> string option" where
  "fake_freeze_cgroup f rel freeze =
     (case fc_freeze_err f rel of
        Some e \<Rightarrow> (f, Some e)
      | None \<Rightarrow> (f\<lparr>fc_frozen := (fc_frozen f)(rel \<mapsto> freeze)\<rparr>, None))"

text \<open>The fake clock: a wall time and a monotonic one.\<close>

record fake_clock =
  fk_wall :: int
  fk_mono :: int

definition fake_advance :: "int \<Rightarrow> fake_clock \<Rightarrow> fake_clock" where
  "fake_advance d c = c\<lparr>fk_wall := fk_wall c + d, fk_mono := fk_mono c + d\<rparr>"

definition fake :: "(fake_controller \<times> fake_clock) controller" where
  "fake = \<lparr>
     ct_get_nice = (\<lambda>(f, k) pid. fake_get_nice f pid),
     ct_set_nice = (\<lambda>(f, k) pid n. let (f', e) = fake_set_nice f pid n in ((f', k), e)),
     ct_send_signal = (\<lambda>(f, k) pid s. let (f', e) = fake_send_signal f pid s in ((f', k), e)),
     ct_read_identity = (\<lambda>(f, k) pid. fc_identity f pid),
     ct_read_cgroup = (\<lambda>(f, k) pid. fc_cgroups f pid),
     ct_freeze_cgroup = (\<lambda>(f, k) cg b. let (f', e) = fake_freeze_cgroup f cg b in ((f', k), e)),
     ct_now = (\<lambda>(f, k). fk_wall k)\<rparr>"

lemmas fake_defs =
  fake_def fake_get_nice_def fake_set_nice_def fake_send_signal_def fake_freeze_cgroup_def

interpretation fake: controller_laws fake
  by unfold_locales
    (auto simp: fake_defs Let_def case_prod_beta split: option.splits if_splits prod.splits)

end
