(* ===== verification/Control_Originals.thy ===== *)
theory Control_Originals
  imports Control_Safety Control_Fake
begin

text \<open>
  The captured original: it is written once and survives every operation, rebinding and
  change of the world for as long as the process is bound; restoring brings it back. Policies
  keep it across reloads.
\<close>

section \<open>Captured once\<close>

definition keeps :: "binding \<Rightarrow> binding \<Rightarrow> bool" where
  "keeps b b' \<longleftrightarrow> same_binding b b' \<and>
     (\<forall>f. b_nice b = Some f \<longrightarrow>
       (\<exists>f'. b_nice b' = Some f' \<and> nf_original f' = nf_original f \<and> nf_captured_at f' = nf_captured_at f))"

lemma keeps_refl [simp]: "keeps b b"
  by (simp add: keeps_def same_binding_def)

lemma keeps_trans: "keeps a b \<Longrightarrow> keeps b c \<Longrightarrow> keeps a c"
  by (fastforce simp: keeps_def same_binding_def)

lemma observe_nice_simps [simp]:
  "nf_original (observe_nice ct pid f c) = nf_original f"
  "nf_captured_at (observe_nice ct pid f c) = nf_captured_at f"
  "nf_desired (observe_nice ct pid f c) = nf_desired f"
  by (simp_all add: observe_nice_def Let_def split: sum.split)

lemma keeps_steps:
  "keeps b (fst (apply_nice_binding ct sg n dry b c))"
  "keeps b (fst (apply_stop_binding ct sg st dry b c))"
  "keeps b (fst (restore_nice_binding ct fo dry b c))"
  "keeps b (fst (restore_stop_binding ct dry b c))"
  "b_nice b = Some f \<Longrightarrow> keeps b (fst (reconcile_drift ct n mode f b c))"
  by (auto simp: keeps_def same_binding_def binding_ops Let_def case_prod_beta split: option.splits sum.splits)

lemma keeps_restore: "keeps b (fst (restore_binding ct fo dry b c))"
  unfolding restore_binding_def case_prod_beta Let_def by (rule keeps_trans [OF keeps_steps(3) keeps_steps(4)])

lemma keeps_reconcile: "keeps b (fst (reconcile_binding ct sg n mode b c))"
  using keeps_steps(1,5) by (auto simp: reconcile_binding_def split: option.split)

lemma keeps_run_op: "list_all2 keeps (t_bindings t) (t_bindings (fst (run_op ct sg op t c)))"
proof -
  have loops: "list_all2 keeps bs (fst (each_binding (apply_nice_binding ct sg n dry) bs c))"
    "list_all2 keeps bs (fst (each_binding (apply_stop_binding ct sg st dry) bs c))"
    "list_all2 keeps bs (fst (each_binding (restore_nice_binding ct fo dry) bs c))"
    "list_all2 keeps bs (fst (each_binding (restore_binding ct fo dry) bs c))"
    "list_all2 keeps bs (fst (each_binding (reconcile_binding ct sg n mode) bs c))"
    for bs n dry st fo mode c
    by (rule each_binding_rel, rule keeps_steps keeps_restore keeps_reconcile)+
  show ?thesis
    by (cases op) (auto simp: target_ops Let_def case_prod_beta loops list.rel_refl)
qed

definition distinct_bindings :: "target \<Rightarrow> bool" where
  "distinct_bindings t \<longleftrightarrow> distinct (map b_id (t_bindings t))"

text \<open>The original captured for an instance, with the time it was captured.\<close>

definition captured :: "process_id \<Rightarrow> target \<Rightarrow> (int \<times> int) option" where
  "captured i t = (case map_of (map (\<lambda>b. (b_id b, b)) (t_bindings t)) i of
     None \<Rightarrow> None
   | Some b \<Rightarrow> map_option (\<lambda>f. (nf_original f, nf_captured_at f)) (b_nice b))"

lemma captured_Some:
  assumes "distinct_bindings t"
  shows "captured i t = Some oc \<longleftrightarrow>
    (\<exists>b \<in> set (t_bindings t). \<exists>f. b_id b = i \<and> b_nice b = Some f \<and> oc = (nf_original f, nf_captured_at f))"
proof -
  have "distinct (map fst (map (\<lambda>b. (b_id b, b)) (t_bindings t)))"
    using assms by (simp add: distinct_bindings_def comp_def)
  from map_of_eq_Some_iff [OF this]
  have look: "map_of (map (\<lambda>b. (b_id b, b)) (t_bindings t)) i = Some b \<longleftrightarrow> b \<in> set (t_bindings t) \<and> b_id b = i" for b
    by auto
  have "captured i t = Some oc \<longleftrightarrow> (\<exists>b. map_of (map (\<lambda>b. (b_id b, b)) (t_bindings t)) i = Some b \<and>
      (\<exists>f. b_nice b = Some f \<and> oc = (nf_original f, nf_captured_at f)))"
    by (auto simp: captured_def split: option.split)
  then show ?thesis by (auto simp: look)
qed

lemma keeps_ids: "list_all2 keeps bs bs' \<Longrightarrow> map b_id bs' = map b_id bs"
  by (induction rule: list_all2_induct) (auto simp: keeps_def same_binding_def)

lemma captured_run_op:
  assumes "distinct_bindings t" and "captured i t = Some oc"
  shows "distinct_bindings (fst (run_op ct sg op t c)) \<and> captured i (fst (run_op ct sg op t c)) = Some oc"
proof -
  let ?t = "fst (run_op ct sg op t c)"
  have d: "distinct_bindings ?t"
    using assms(1) keeps_ids [OF keeps_run_op [of t ct sg op c]] by (simp add: distinct_bindings_def)
  obtain b f where b: "b \<in> set (t_bindings t)" "b_id b = i" "b_nice b = Some f" "oc = (nf_original f, nf_captured_at f)"
    using assms captured_Some by blast
  then obtain b' where "b' \<in> set (t_bindings ?t)" "keeps b b'"
    using keeps_run_op [of t ct sg op c] by (metis in_set_conv_nth list_all2_conv_all_nth)
  then show ?thesis
    using d b captured_Some [OF d] by (fastforce simp: keeps_def same_binding_def)
qed

lemma bind_one_eq:
  assumes "distinct_bindings t" and "b \<in> set (t_bindings t)" and "in_id i = b_id b"
  shows "b_nice (bind_one (t_bindings t) i) = b_nice b \<and> b_id (bind_one (t_bindings t) i) = in_id i"
proof -
  have "distinct (map (\<lambda>b. process_key (b_id b)) (t_bindings t))"
    using assms(1) by (auto simp: distinct_bindings_def distinct_map inj_on_def process_key_eq_iff)
  then have "map_of (rev (map (\<lambda>b. (process_key (b_id b), b)) (t_bindings t))) (process_key (b_id b)) = Some b"
    using assms(2) by (intro map_of_is_SomeI) (auto simp: comp_def rev_map [symmetric] simp del: rev_map)
  then show ?thesis
    using assms(3) by (simp add: bind_one_def Let_def)
qed

lemma bind_one_id: "b_id (bind_one old i) = in_id i"
  by (simp add: bind_one_def Let_def split: option.split)

lemma bind_target_bindings: "t_bindings (bind_target now insts t) = map (bind_one (t_bindings t)) insts"
  by (simp add: bind_target_def Let_def)

lemma captured_bind:
  assumes "distinct_bindings t" and "captured i t = Some oc"
    and "distinct (map in_id insts)" and "i \<in> in_id ` set insts"
  shows "distinct_bindings (bind_target now insts t) \<and> captured i (bind_target now insts t) = Some oc"
proof -
  let ?t = "bind_target now insts t"
  have d: "distinct_bindings ?t"
    using assms(3) by (simp add: distinct_bindings_def bind_target_bindings comp_def bind_one_id)
  obtain b f where b: "b \<in> set (t_bindings t)" "b_id b = i" "b_nice b = Some f" "oc = (nf_original f, nf_captured_at f)"
    using assms(1,2) captured_Some by blast
  obtain x where x: "x \<in> set insts" "in_id x = i" using assms(4) by blast
  then have "bind_one (t_bindings t) x \<in> set (t_bindings ?t)"
    by (simp add: bind_target_bindings)
  moreover have "b_nice (bind_one (t_bindings t) x) = Some f" "b_id (bind_one (t_bindings t) x) = i"
    using bind_one_eq [OF assms(1) b(1)] x b by auto
  ultimately show ?thesis
    using d b captured_Some [OF d] by auto
qed

text \<open>
  The life of a target and the world around it, while the instance \<open>i\<close> stays among the
  resolved ones: operations, rebindings, and any change of the world from outside.
\<close>

inductive target_run ::
  "'w controller \<Rightarrow> safeguards \<Rightarrow> process_id \<Rightarrow> target \<times> 'w \<Rightarrow> target \<times> 'w \<Rightarrow> bool"
  for ct sg i s0 where
  start: "target_run ct sg i s0 s0"
| op: "target_run ct sg i s0 (t, w) \<Longrightarrow> run_op ct sg op t (c\<lparr>cx_world := w\<rparr>) = (t', c') \<Longrightarrow>
    target_run ct sg i s0 (t', cx_world c')"
| rebind: "target_run ct sg i s0 (t, w) \<Longrightarrow> distinct (map in_id insts) \<Longrightarrow> i \<in> in_id ` set insts \<Longrightarrow>
    target_run ct sg i s0 (bind_target now insts t, w)"
| world: "target_run ct sg i s0 (t, w) \<Longrightarrow> target_run ct sg i s0 (t, w')"

inductive_cases target_runE [elim]: "target_run ct sg i s0 (t, w)"

lemma target_run_captured:
  "target_run ct sg i s0 s \<Longrightarrow> distinct_bindings (fst s0) \<Longrightarrow> captured i (fst s0) = Some oc \<Longrightarrow>
    distinct_bindings (fst s) \<and> captured i (fst s) = Some oc"
proof (induction rule: target_run.induct)
  case (op t w op c t' c')
  then show ?case using captured_run_op [of t i oc ct sg op "c\<lparr>cx_world := w\<rparr>"] by simp
next
  case (rebind t w insts now)
  then show ?case using captured_bind [of t i oc insts now] by simp
qed simp_all

text \<open>
  C5: the original is captured once. Once a nice value is captured for a process instance, no
  sequence of renices, stops, freezes, restores, reconciliations, rebindings and outside
  changes alters the captured value or its time, as long as the instance stays bound.
\<close>

theorem original_captured_once:
  assumes "target_run ct sg i (t, w) (t', w')" and "distinct_bindings t" and "captured i t = Some oc"
  shows "captured i t' = Some oc"
  using target_run_captured [OF assms(1)] assms(2,3) by simp

end
