(* ===== verification/Control_Restore.thy ===== *)
theory Control_Restore
  imports Control_Originals
begin

text \<open>
  Renicing and restoring, against the contract of the controller port: a restore that follows a
  renice puts every process of the target back to the nice value it had, or says that the
  kernel denied it; processes outside the target keep theirs throughout.
\<close>

section \<open>Loops over bindings with distinct pids\<close>

definition denied :: "int \<Rightarrow> 'w ctx \<Rightarrow> bool" where
  "denied pid c \<longleftrightarrow> (\<exists>r \<in> set (ar_results (cx_result c)). br_pid r = pid \<and> br_status r = StDenied)"

lemma add_result_results [simp]:
  "ar_results (add_result p s e r) = ar_results r @ [\<lparr>br_pid = p, br_status = s, br_error = e\<rparr>]"
  by (simp add: add_result_def)

lemma denied_simps [simp]:
  "denied pid (add p s e c) \<longleftrightarrow> denied pid c \<or> (p = pid \<and> s = StDenied)"
  "denied pid (audit a p x y z c) \<longleftrightarrow> denied pid c" "denied pid (set_world w c) \<longleftrightarrow> denied pid c"
  by (auto simp: denied_def)

text \<open>
  A step for one pid leaves the nice values of the other pids and every identity alone, and
  takes back no denial. \<open>untouched\<close> is what such steps leave for a pid that is not theirs.
\<close>

definition untouched :: "'w controller \<Rightarrow> int \<Rightarrow> 'w ctx \<Rightarrow> 'w ctx \<Rightarrow> bool" where
  "untouched ct p c c' \<longleftrightarrow> ct_get_nice ct (cx_world c') p = ct_get_nice ct (cx_world c) p \<and>
     ct_read_identity ct (cx_world c') p = ct_read_identity ct (cx_world c) p \<and> (denied p c \<longrightarrow> denied p c')"

definition local_step :: "'w controller \<Rightarrow> int \<Rightarrow> 'w ctx \<Rightarrow> 'w ctx \<Rightarrow> bool" where
  "local_step ct pid c c' \<longleftrightarrow> (\<forall>p. p \<noteq> pid \<longrightarrow> untouched ct p c c')"

lemma untouched_refl [simp]: "untouched ct p c c"
  by (simp add: untouched_def)

lemma untouched_trans: "untouched ct p a b \<Longrightarrow> untouched ct p b c \<Longrightarrow> untouched ct p a c"
  by (simp add: untouched_def)

lemma loop_untouched:
  assumes "\<And>b c. local_step ct (b_pid b) c (snd (f b c))" and "p \<notin> b_pid ` set bs"
  shows "untouched ct p c (snd (each_binding f bs c))"
  using assms(2)
proof (induction bs arbitrary: c)
  case (Cons b bs)
  then show ?case
    using untouched_trans [of ct p c "snd (f b c)"] assms(1) [of b c]
    by (simp add: each_binding_Cons local_step_def)
qed simp

text \<open>
  What each step achieves for its own binding, once its surroundings are known to leave it
  alone, holds of every binding after the loop.
\<close>

lemma loop_each:
  assumes local: "\<And>b c. local_step ct (b_pid b) c (snd (f b c))"
    and step: "\<And>b c d e. b \<in> set bs \<Longrightarrow> untouched ct (b_pid b) d c \<Longrightarrow> untouched ct (b_pid b) (snd (f b c)) e \<Longrightarrow> P d e b (fst (f b c))"
    and dist: "distinct (map b_pid bs)"
    and before: "\<And>b. b \<in> set bs \<Longrightarrow> untouched ct (b_pid b) d c"
  shows "list_all2 (P d (snd (each_binding f bs c))) bs (fst (each_binding f bs c))"
  using step dist before
proof (induction bs arbitrary: c)
  case (Cons b bs)
  have "P d (snd (each_binding f bs (snd (f b c)))) b (fst (f b c))"
    using Cons.prems(2) by (intro Cons.prems(1) Cons.prems(3) loop_untouched local) auto
  moreover have "list_all2 (P d (snd (each_binding f bs (snd (f b c))))) bs (fst (each_binding f bs (snd (f b c))))"
  proof (rule Cons.IH)
    show "distinct (map b_pid bs)" using Cons.prems(2) by simp
    show "P d e b' (fst (f b' c'))"
      if "b' \<in> set bs" "untouched ct (b_pid b') d c'" "untouched ct (b_pid b') (snd (f b' c')) e" for b' c' d e
      by (rule Cons.prems(1)) (use that in simp_all)
    show "untouched ct (b_pid x) d (snd (f b c))" if "x \<in> set bs" for x
    proof (rule untouched_trans)
      show "untouched ct (b_pid x) d c" using Cons.prems(3) that by simp
      show "untouched ct (b_pid x) c (snd (f b c))"
        using local [of b c] Cons.prems(2) imageI [OF that, of b_pid]
        by (cases "b_pid x = b_pid b") (simp_all add: local_step_def)
    qed
  qed
  ultimately show ?case by (simp add: each_binding_Cons)
qed simp

section \<open>Renice, then restore\<close>

text \<open>After the renice: the original is known wherever a value was captured, and the process has it or the desired one.\<close>

definition reniced :: "'w controller \<Rightarrow> 'w ctx \<Rightarrow> 'w ctx \<Rightarrow> binding \<Rightarrow> binding \<Rightarrow> bool" where
  "reniced ct c c' b b' \<longleftrightarrow> b_pid b' = b_pid b \<and> b_id b' = b_id b \<and>
     ct_read_identity ct (cx_world c') (b_pid b) = ct_read_identity ct (cx_world c) (b_pid b) \<and>
     (ct_get_nice ct (cx_world c') (b_pid b) = ct_get_nice ct (cx_world c) (b_pid b) \<or>
      (\<exists>f. b_nice b' = Some f \<and> ct_get_nice ct (cx_world c') (b_pid b) = Inr (nf_desired f) \<and> revalidate ct b c)) \<and>
     (\<forall>f. b_nice b' = Some f \<longrightarrow> ct_get_nice ct (cx_world c) (b_pid b) = Inr (nf_original f))"

text \<open>After the restore: the value of before, unless the kernel denied it.\<close>

definition undone :: "'w controller \<Rightarrow> 'w ctx \<Rightarrow> 'w ctx \<Rightarrow> binding \<Rightarrow> bool" where
  "undone ct c c' b \<longleftrightarrow>
     ct_get_nice ct (cx_world c') (b_pid b) = ct_get_nice ct (cx_world c) (b_pid b) \<or> denied (b_pid b) c'"

context controller_laws
begin

lemma set_nice_frame:
  "p \<noteq> pid \<Longrightarrow> ct_get_nice ct (fst (ct_set_nice ct w pid n)) p = ct_get_nice ct w p"
  "ct_read_identity ct (fst (ct_set_nice ct w pid n)) q = ct_read_identity ct w q"
  "snd (ct_set_nice ct w pid n) = Some e \<Longrightarrow> ct_get_nice ct (fst (ct_set_nice ct w pid n)) q = ct_get_nice ct w q"
  "nice_range n \<Longrightarrow> snd (ct_set_nice ct w pid n) = None \<Longrightarrow> ct_get_nice ct (fst (ct_set_nice ct w pid n)) pid = Inr n"
proof -
  show "p \<noteq> pid \<Longrightarrow> ct_get_nice ct (fst (ct_set_nice ct w pid n)) p = ct_get_nice ct w p"
    using set_other by (metis prod.collapse)
  show "ct_read_identity ct (fst (ct_set_nice ct w pid n)) q = ct_read_identity ct w q"
    using set_identity by (metis prod.collapse)
  show "snd (ct_set_nice ct w pid n) = Some e \<Longrightarrow> ct_get_nice ct (fst (ct_set_nice ct w pid n)) q = ct_get_nice ct w q"
    using set_failed by (metis prod.collapse)
  show "nice_range n \<Longrightarrow> snd (ct_set_nice ct w pid n) = None \<Longrightarrow> ct_get_nice ct (fst (ct_set_nice ct w pid n)) pid = Inr n"
    using set_get by (metis prod.collapse)
qed

lemma local_steps:
  "local_step ct (b_pid b) c (snd (apply_nice_binding ct sg n dry b c))"
  "local_step ct (b_pid b) c (snd (restore_nice_binding ct fo dry b c))"
  by (auto simp: local_step_def untouched_def apply_nice_binding_def restore_nice_binding_def
      set_nice_frame Let_def case_prod_beta split: option.splits sum.splits)

lemma renice_step:
  assumes "nice_range n" and "b_nice b = None" and "untouched ct (b_pid b) d c"
    and "untouched ct (b_pid b) (snd (apply_nice_binding ct sg n False b c)) e"
  shows "reniced ct d e b (fst (apply_nice_binding ct sg n False b c))"
  using assms
  by (auto simp: reniced_def untouched_def apply_nice_binding_def revalidate_def capture_nice_def
      set_nice_frame Let_def case_prod_beta split: option.splits sum.splits if_splits)

lemma restore_step:
  assumes "\<And>v. ct_get_nice ct (cx_world d) (b_pid b) = Inr v \<Longrightarrow> nice_range v"
    and "reniced ct d e b b'" and "untouched ct (b_pid b) e c"
    and "untouched ct (b_pid b) (snd (restore_nice_binding ct False False b' c)) z"
  shows "undone ct d z b"
  using assms
  by (auto simp: undone_def reniced_def untouched_def restore_nice_binding_def revalidate_def
      set_nice_frame Let_def case_prod_beta split: option.splits sum.splits if_splits)

lemma loop_undone:
  assumes range: "nice_range n" "\<And>b v. b \<in> set bs \<Longrightarrow> ct_get_nice ct (cx_world c) (b_pid b) = Inr v \<Longrightarrow> nice_range v"
  assumes "distinct (map b_pid bs)" and "\<And>b. b \<in> set bs \<Longrightarrow> b_nice b = None"
    and "c1 = snd (each_binding (apply_nice_binding ct sg n False) bs c)"
    and "bs1 = fst (each_binding (apply_nice_binding ct sg n False) bs c)"
    and "cx_world c1' = cx_world c1"
  shows "\<forall>b \<in> set bs. undone ct c (snd (each_binding (restore_nice_binding ct False False) bs1 c1')) b"
proof -
  let ?f = "apply_nice_binding ct sg n False" and ?g = "restore_nice_binding ct False False"
  have one: "list_all2 (reniced ct c c1) bs bs1"
    unfolding assms(5,6)
    by (rule loop_each [OF local_steps(1) _ assms(3)]) (use assms(4) renice_step range in simp_all)
  then have pids: "map b_pid bs1 = map b_pid bs"
    by (induction rule: list_all2_induct) (auto simp: reniced_def)
  have "list_all2 (\<lambda>b' b''. \<forall>b \<in> set bs. reniced ct c c1' b b' \<longrightarrow> undone ct c (snd (each_binding ?g bs1 c1')) b) bs1 (fst (each_binding ?g bs1 c1'))"
  proof (rule loop_each [OF local_steps(2), where P = "\<lambda>d e b' b''. \<forall>b \<in> set bs. reniced ct c d b b' \<longrightarrow> undone ct c e b"])
    show "distinct (map b_pid bs1)" using assms(3) pids by simp
    show "\<forall>b \<in> set bs. reniced ct c d b b' \<longrightarrow> undone ct c e b"
      if "untouched ct (b_pid b') d x" "untouched ct (b_pid b') (snd (?g b' x)) e" for b' x d e
      using restore_step [of c _ d b' x e] range(2) that by (auto simp: reniced_def)
  qed simp
  then show ?thesis
    using one assms(7) by (fastforce simp: list_all2_conv_all_nth in_set_conv_nth reniced_def)
qed

lemma restore_undoes:
  assumes range: "nice_range n"
      "\<And>b v. b \<in> set (t_bindings t) \<Longrightarrow> ct_get_nice ct (cx_world c) (b_pid b) = Inr v \<Longrightarrow> nice_range v"
    and "distinct (map b_pid (t_bindings t))" and "\<And>b. b \<in> set (t_bindings t) \<Longrightarrow> b_nice b = None"
    and "nice_target ct sg n False t c = (t1, c1)"
    and "restore_nice_target ct False t1 (start_ctx (cx_world c1) evs) = (t2, c2)"
  shows "(\<forall>b \<in> set (t_bindings t). undone ct c c2 b) \<and>
    (\<forall>p. p \<notin> b_pid ` set (t_bindings t) \<longrightarrow> ct_get_nice ct (cx_world c2) p = ct_get_nice ct (cx_world c) p)"
proof -
  let ?f = "apply_nice_binding ct sg n False" and ?g = "restore_nice_binding ct False False"
  let ?c1 = "start_ctx (cx_world c1) evs :: 'w ctx"
  have t1: "t_bindings t1 = fst (each_binding ?f (t_bindings t) c)" "c1 = snd (each_binding ?f (t_bindings t) c)"
    using assms(5) by (auto simp: nice_target_def Let_def case_prod_beta)
  have c2: "c2 = snd (each_binding ?g (t_bindings t1) ?c1)"
    using assms(6) by (auto simp: restore_nice_target_def Let_def case_prod_beta)
  have "list_all2 same_binding (t_bindings t) (t_bindings t1)"
    unfolding t1 by (rule each_binding_rel) (rule same_binding_steps)
  then have pids: "b_pid ` set (t_bindings t1) = b_pid ` set (t_bindings t)"
    by (induction rule: list_all2_induct) (auto simp: same_binding_def)
  have "ct_get_nice ct (cx_world c2) p = ct_get_nice ct (cx_world c) p" if "p \<notin> b_pid ` set (t_bindings t)" for p
    using loop_untouched [of ct ?f p "t_bindings t" c, OF local_steps(1)] that pids
      loop_untouched [of ct ?g p "t_bindings t1" ?c1, OF local_steps(2)]
    by (simp add: untouched_def t1(2) [symmetric] c2 start_ctx_def)
  moreover have "\<forall>b \<in> set (t_bindings t). undone ct c c2 b"
    unfolding c2 t1(1)
    by (rule loop_undone [OF range assms(3) _ t1(2) refl]) (simp_all add: assms(4) start_ctx_def)
  ultimately show ?thesis by blast
qed

end

text \<open>
  C4: restore undoes renice. For every controller that keeps the contract of the port: when a
  target whose processes were not managed before is reniced (to a value in the kernel's range)
  and then restored, each of its processes has the nice value it had before the renice, unless the kernel denied putting it
  back and the result says so; and no process outside the target was reniced.
\<close>

theorem restore_undoes_renice:
  assumes "controller_laws ct" and "nice_range n"
    and "\<And>b v. b \<in> set (t_bindings t) \<Longrightarrow> ct_get_nice ct (cx_world c) (b_pid b) = Inr v \<Longrightarrow> nice_range v"
    and "distinct (map b_pid (t_bindings t))" and "\<And>b. b \<in> set (t_bindings t) \<Longrightarrow> b_nice b = None"
    and "nice_target ct sg n False t c = (t1, c1)"
    and "restore_nice_target ct False t1 (start_ctx (cx_world c1) evs) = (t2, c2)"
  shows "(\<forall>b \<in> set (t_bindings t). undone ct c c2 b) \<and>
    (\<forall>p. p \<notin> b_pid ` set (t_bindings t) \<longrightarrow> ct_get_nice ct (cx_world c2) p = ct_get_nice ct (cx_world c) p)"
  by (rule controller_laws.restore_undoes [OF assms(1,2) _ assms(4) _ assms(6,7)]) (use assms(3,5) in blast)+

end
