(* ===== verification/Control_Examples.thy ===== *)
theory Control_Examples
  imports Control_Restore
begin

text \<open>
  The control properties at concrete inputs: a target of two processes on the fake controller,
  behind the recording one, in the states the operations take it through.
\<close>

definition ex_id :: "int \<Rightarrow> process_id" where
  "ex_id pid = \<lparr>id_boot = ''b'', id_pidns = 1, id_pid = pid, id_start = 7\<rparr>"

definition ex_bind :: "int \<Rightarrow> binding" where
  "ex_bind pid = \<lparr>b_id = ex_id pid, b_pid = pid, b_name = ''w'', b_nice = None, b_stop = None\<rparr>"

definition ex_target :: target where
  "ex_target = (new_target ''jobs'' ModeFollow ''comm == w'')\<lparr>t_bindings := [ex_bind 100, ex_bind 101], t_active := True\<rparr>"

definition ex_world :: "fake_controller \<times> fake_clock" where
  "ex_world = ((fake_add 101 2 (ex_id 101) (fake_add 100 0 (ex_id 100) new_fake_controller))
      \<lparr>fc_cgroups := [100 \<mapsto> ''/app'', 101 \<mapsto> ''/app'', 2 \<mapsto> ''/self'']\<rparr>, \<lparr>fk_wall = 5, fk_mono = 0\<rparr>)"

definition ex_sg :: safeguards where "ex_sg = new_safeguards 2 3"

definition ex_ctx :: "((fake_controller \<times> fake_clock) \<times> ((fake_controller \<times> fake_clock) \<times> call) list) ctx" where
  "ex_ctx = start_ctx (ex_world, []) []"

lemmas ex_defs = ex_id_def ex_bind_def ex_target_def ex_world_def ex_sg_def ex_ctx_def

lemma run_op_split: "run_op ct sg op t c = (fst (run_op ct sg op t c), snd (run_op ct sg op t c))"
  by simp

definition ex_reniced :: "target \<times> ((fake_controller \<times> fake_clock) \<times> ((fake_controller \<times> fake_clock) \<times> call) list) ctx" where
  "ex_reniced = run_op (logged fake) ex_sg (OpNice 5 False) ex_target ex_ctx"

type_synonym ex_ctx = "((fake_controller \<times> fake_clock) \<times> ((fake_controller \<times> fake_clock) \<times> call) list) ctx"

definition again :: "ex_ctx \<Rightarrow> ex_ctx" where
  "again c = start_ctx (fst (cx_world c), []) []"

lemma again_calls: "calls (again c) = []"
  by (simp add: calls_def again_def start_ctx_def)

lemma ex_calls: "calls ex_ctx = []"
  by (simp add: calls_def ex_ctx_def start_ctx_def)

lemma ex_reniced_calls: "map snd (calls (snd ex_reniced)) = [CallNice 100 5, CallNice 101 5]"
  by code_simp


theorem dry_run_changes_nothing_witness:
  "cx_world (snd (run_op fake ex_sg (OpNice 5 True) ex_target (start_ctx ex_world []))) = ex_world \<and>
   t_bindings (fst (run_op fake ex_sg (OpNice 5 True) ex_target (start_ctx ex_world []))) = t_bindings ex_target"
  using dry_run_changes_nothing [OF _ run_op_split, of "OpNice 5 True" fake ex_sg ex_target "start_ctx ex_world []"]
  by (simp add: start_ctx_def)

lemma ex_hd: "map snd xs = y # ys \<Longrightarrow> hd xs \<in> set xs \<and> snd (hd xs) = y"
  by (cases xs) auto

theorem operations_reach_bound_instances_witness:
  "snd (hd (calls (snd ex_reniced))) = CallNice 100 5 \<and>
   (\<exists>b \<in> set (t_bindings ex_target). call_for fake (b_id b) (b_pid b) (hd (calls (snd ex_reniced))))"
  using operations_reach_bound_instances [OF run_op_split ex_calls] ex_hd [OF ex_reniced_calls]
  unfolding ex_reniced_def by blast

theorem protected_pids_never_touched_witness:
  "list_all (call_allowed fake ex_sg (t_bindings ex_target)) (calls (snd ex_reniced)) \<and>
   length (calls (snd ex_reniced)) = 2"
proof
  show "list_all (call_allowed fake ex_sg (t_bindings ex_target)) (calls (snd ex_reniced))"
    using protected_pids_never_touched [OF _ run_op_split ex_calls, of "OpNice 5 False"]
    by (simp add: ex_reniced_def list_all_iff)
  show "length (calls (snd ex_reniced)) = 2"
    using arg_cong [OF ex_reniced_calls, of length] by simp
qed

definition ex_restored :: "target \<times> ex_ctx" where
  "ex_restored = run_op (logged fake) ex_sg (OpRestore False False) (fst ex_reniced) (again (snd ex_reniced))"

lemma ex_restored_calls: "map snd (calls (snd ex_restored)) = [CallNice 100 0, CallNice 101 2]"
  by code_simp

theorem restore_never_overwrites_drift_witness:
  "snd (hd (calls (snd ex_restored))) = CallNice 100 0 \<and>
   restores_original fake (t_bindings (fst ex_reniced)) (hd (calls (snd ex_restored)))"
  using restore_never_overwrites_drift [OF _ run_op_split again_calls] ex_hd [OF ex_restored_calls]
  unfolding ex_restored_def by blast

definition ex_policy :: target where
  "ex_policy = (fst ex_reniced)\<lparr>t_on_drift := ''reapply''\<rparr>"

definition ex_reconciled :: "target \<times> ex_ctx" where
  "ex_reconciled = run_op (logged fake) ex_sg (OpReconcile 4) ex_policy (again (snd ex_reniced))"

lemma ex_reconciled_calls: "map snd (calls (snd ex_reconciled)) = [CallNice 100 4, CallNice 101 4]"
  by code_simp

theorem reconcile_reapplies_only_drift_witness:
  "snd (hd (calls (snd ex_reconciled))) = CallNice 100 4 \<and> reapplies fake 4 ex_policy (hd (calls (snd ex_reconciled)))"
  using reconcile_reapplies_only_drift [OF run_op_split again_calls] ex_hd [OF ex_reconciled_calls]
  unfolding ex_reconciled_def by blast

definition ex_manager :: manager where
  "ex_manager = (new_manager ex_sg ''b'')\<lparr>mg_state := (mg_state (new_manager ex_sg ''b''))\<lparr>st_targets := [ex_target]\<rparr>\<rparr>"

definition ex_frozen where
  "ex_frozen = set_freeze (logged fake) ''jobs'' True False False ex_manager (ex_world, []) []"

lemma ex_frozen_calls: "map snd (snd (fst (snd (snd ex_frozen)))) = [CallFreeze ''/app'' True]"
  by code_simp

theorem freeze_each_cgroup_once_witness:
  "distinct (map snd (snd (fst (snd (snd ex_frozen))))) \<and> map snd (snd (fst (snd (snd ex_frozen)))) = [CallFreeze ''/app'' True]"
proof -
  have "set_freeze (logged fake) ''jobs'' True False False ex_manager (ex_world, []) [] =
      (fst ex_frozen, fst (snd ex_frozen), (fst (fst (snd (snd ex_frozen))), snd (fst (snd (snd ex_frozen)))), snd (snd (snd ex_frozen)))"
    by (simp add: ex_frozen_def)
  from freeze_each_cgroup_once [OF this] ex_frozen_calls show ?thesis by simp
qed

lemma ex_captured: "captured (ex_id 100) (fst ex_reniced) = Some (0, 5)"
  by code_simp

lemma ex_distinct: "distinct_bindings (fst ex_reniced)"
  by code_simp

theorem original_captured_once_witness: "captured (ex_id 100) (fst ex_restored) = Some (0, 5)"
proof -
  have "target_run (logged fake) ex_sg (ex_id 100) (fst ex_reniced, cx_world (again (snd ex_reniced)))
      (fst ex_restored, cx_world (snd ex_restored))"
    by (rule target_run.op [OF target_run.start, where c = "again (snd ex_reniced)" and op = "OpRestore False False"])
      (simp add: ex_restored_def)
  from original_captured_once [OF this ex_distinct ex_captured] show ?thesis .
qed

definition ex_done where
  "ex_done = (let (t, c) = nice_target fake ex_sg 5 False ex_target (start_ctx ex_world [])
     in (c, snd (restore_nice_target fake False t (start_ctx (cx_world c) []))))"

lemma ex_done_values:
  "ct_get_nice fake (cx_world (fst ex_done)) 101 = Inr 5 \<and> denied 101 (snd ex_done) = False \<and>
   ct_get_nice fake (cx_world (snd ex_done)) 101 = Inr 2"
  by code_simp

lemma ex_start: "ct_get_nice fake (cx_world (start_ctx ex_world [])) 100 = Inr 0" "ct_get_nice fake (cx_world (start_ctx ex_world [])) 101 = Inr 2"
  by code_simp+

theorem restore_undoes_renice_witness:
  "undone fake (start_ctx ex_world []) (snd ex_done) (ex_bind 101) \<and>
   ct_get_nice fake (cx_world (fst ex_done)) 101 = Inr 5 \<and> ct_get_nice fake (cx_world (snd ex_done)) 101 = Inr 2"
proof -
  have bs: "t_bindings ex_target = [ex_bind 100, ex_bind 101]"
    by (simp add: ex_target_def)
  have "\<forall>b \<in> set (t_bindings ex_target). undone fake (start_ctx ex_world []) (snd ex_done) b"
    by (rule conjunct1, rule restore_undoes_renice [OF fake.controller_laws_axioms, where n = 5 and sg = ex_sg and evs = "[]"])
      (auto simp: nice_range_def ex_start bs ex_bind_def ex_done_def Let_def case_prod_beta prod_eq_iff)
  then show ?thesis using ex_done_values by (simp add: bs)
qed

end
