(* ===== verification/Go_Duration.thy ===== *)
theory Go_Duration
  imports Go_Strings Go_Float Model_Process
begin

text \<open>
  The durations of the standard library as the configuration uses them: \<open>time.ParseDuration\<close> and
  \<open>Duration.String\<close>, in nanoseconds, and the round trip between the two. The sums of the parser
  are those of a \<open>uint64\<close>; the fraction of a unit is scaled in floating point.
\<close>

section \<open>Parsing\<close>

text \<open>\<open>leadingInt\<close>: the digits in front, unless they overflow.\<close>

fun leading_int :: "int \<Rightarrow> string \<Rightarrow> (int \<times> string) option" where
  "leading_int x [] = Some (x, [])"
| "leading_int x (c # s) =
     (if \<not> is_digit c then Some (x, c # s)
      else if x > 2 ^ 63 div 10 then None
      else let x = x * 10 + int (digit_val c) in if x > 2 ^ 63 then None else leading_int x s)"

text \<open>\<open>leadingFraction\<close>: further digits of an overflowing fraction are dropped.\<close>

fun leading_fraction :: "int \<Rightarrow> f64 \<Rightarrow> bool \<Rightarrow> string \<Rightarrow> int \<times> f64 \<times> string" where
  "leading_fraction x scale over [] = (x, scale, [])"
| "leading_fraction x scale over (c # s) =
     (if \<not> is_digit c then (x, scale, c # s)
      else if over then leading_fraction x scale True s
      else if x > (2 ^ 63 - 1) div 10 then leading_fraction x scale True s
      else let y = x * 10 + int (digit_val c) in
        if y > 2 ^ 63 then leading_fraction x scale True s
        else leading_fraction y (f_mul scale (f_of_int 10)) False s)"

definition micro :: string where "micro = [CHR 0xC2, CHR 0xB5, CHR ''s'']"

definition unit_map :: "string \<rightharpoonup> int" where
  "unit_map = map_of [(''ns'', 1), (''us'', 1000), (micro, 1000), ([CHR 0xCE, CHR 0xBC, CHR ''s''], 1000),
     (''ms'', 1000000), (''s'', 1000000000), (''m'', 60000000000), (''h'', 3600000000000)]"

definition is_number_char :: "char \<Rightarrow> bool" where
  "is_number_char c \<longleftrightarrow> c = CHR ''.'' \<or> is_digit c"

text \<open>One number with its unit: the nanoseconds, and the rest of the text.\<close>

definition duration_part :: "string \<Rightarrow> (int \<times> string) option" where
  "duration_part s =
     (if s = [] \<or> \<not> is_number_char (hd s) then None
      else (case leading_int 0 s of
          None \<Rightarrow> None
        | Some (v, s1) \<Rightarrow>
            let pre = (length s1 \<noteq> length s);
                (f, scale, s2, post) =
                  (if s1 \<noteq> [] \<and> hd s1 = CHR ''.''
                   then (let (f, scale, s2) = leading_fraction 0 (f_of_int 1) False (tl s1)
                         in (f, scale, s2, length s2 \<noteq> length (tl s1)))
                   else (0, f_of_int 1, s1, False))
            in if \<not> pre \<and> \<not> post then None
               else
                 let u = takeWhile (\<lambda>c. \<not> is_number_char c) s2; s3 = dropWhile (\<lambda>c. \<not> is_number_char c) s2 in
                 if u = [] then None
                 else (case unit_map u of
                     None \<Rightarrow> None
                   | Some unit \<Rightarrow>
                       if v > 2 ^ 63 div unit then None
                       else
                         let v = v * unit;
                             v = (if f > 0 then v + f_trunc (f_mul (f_of_int f) (f_div (f_of_int unit) scale)) else v)
                         in if v > 2 ^ 63 then None else Some (v, s3))))"

lemma leading_int_length: "leading_int x s = Some (v, r) \<Longrightarrow> length r \<le> length s"
  by (induction s arbitrary: x) (fastforce simp: Let_def split: if_splits)+

lemma leading_fraction_length: "leading_fraction x sc ov s = (f, sc', r) \<Longrightarrow> length r \<le> length s"
  by (induction s arbitrary: x sc ov) (fastforce simp: Let_def split: if_splits)+

lemma duration_part_length:
  assumes "duration_part s = Some (v, r)"
  shows "length r < length s"
proof -
  obtain x s1 where s1: "leading_int 0 s = Some (x, s1)"
    using assms by (auto simp: duration_part_def split: if_splits option.splits)
  have drop: "length (dropWhile P t) < length t" if "takeWhile P t \<noteq> []" for P and t :: string
  proof (cases t)
    case (Cons c t')
    then show ?thesis using that length_dropWhile_le [of P t'] by (auto split: if_splits)
  qed (use that in simp)
  have "length s1 \<le> length s" using s1 by (rule leading_int_length)
  then show ?thesis
    using assms s1 leading_fraction_length [of 0 "f_of_int 1" False "tl s1"] drop
    by (auto simp: duration_part_def Let_def split: if_splits option.splits prod.splits)
      (fastforce dest: drop)+
qed

function parse_parts :: "int \<Rightarrow> string \<Rightarrow> int option" where
  "parse_parts d s =
     (if s = [] then Some d
      else (case duration_part s of
          None \<Rightarrow> None
        | Some (v, r) \<Rightarrow> let d = (d + v) mod 2 ^ 64 in if d > 2 ^ 63 then None else parse_parts d r))"
  by pat_completeness auto
termination
  by (relation "measure (\<lambda>(d, s). length s)") (auto dest: duration_part_length)

declare parse_parts.simps [simp del]

definition parse_duration :: "string \<Rightarrow> int option" where
  "parse_duration s =
     (let neg = (s \<noteq> [] \<and> hd s = CHR ''-'');
          body = (if s \<noteq> [] \<and> (hd s = CHR ''-'' \<or> hd s = CHR ''+'') then tl s else s)
      in if body = ''0'' then Some 0
         else if body = [] then None
         else (case parse_parts 0 body of
             None \<Rightarrow> None
           | Some d \<Rightarrow> if neg then Some (- d) else if d > 2 ^ 63 - 1 then None else Some d))"

section \<open>Printing\<close>

text \<open>\<open>fmtFrac\<close>: the last \<open>prec\<close> digits without trailing zeros, the rest of the number.\<close>

fun fmt_frac_loop :: "nat \<Rightarrow> nat \<Rightarrow> string \<Rightarrow> string \<times> nat" where
  "fmt_frac_loop 0 v acc = (acc, v)"
| "fmt_frac_loop (Suc n) v acc =
     fmt_frac_loop n (v div 10) (if acc \<noteq> [] \<or> v mod 10 \<noteq> 0 then digit_char (v mod 10) # acc else [])"

definition fmt_frac :: "nat \<Rightarrow> nat \<Rightarrow> string \<times> nat" where
  "fmt_frac prec v = (let (ds, v) = fmt_frac_loop prec v [] in (if ds = [] then [] else CHR ''.'' # ds, v))"

definition show_abs_duration :: "nat \<Rightarrow> string" where
  "show_abs_duration u =
     (if u = 0 then ''0s''
      else if u < 1000 then show_nat u @ ''ns''
      else if u < 1000000 then (let (f, w) = fmt_frac 3 u in show_nat w @ f @ micro)
      else if u < 1000000000 then (let (f, w) = fmt_frac 6 u in show_nat w @ f @ ''ms'')
      else
        let (f, w) = fmt_frac 9 u;
            secs = show_nat (w mod 60) @ f @ ''s'' in
        if w div 60 = 0 then secs
        else let mins = show_nat (w div 60 mod 60) @ ''m'' @ secs in
          if w div 60 div 60 = 0 then mins else show_nat (w div 60 div 60) @ ''h'' @ mins)"

definition show_duration :: "int \<Rightarrow> string" where
  "show_duration d = (if d < 0 then CHR ''-'' # show_abs_duration (nat (- d)) else show_abs_duration (nat d))"

section \<open>The round trip\<close>

definition fold_digits :: "nat \<Rightarrow> string \<Rightarrow> nat" where
  "fold_digits n s = foldl (\<lambda>n c. n * 10 + digit_val c) n s"

lemma fold_digits_simps [simp]:
  "fold_digits n [] = n" "fold_digits n (c # s) = fold_digits (n * 10 + digit_val c) s"
  by (simp_all add: fold_digits_def)

lemma fold_digits_mono: "n \<le> fold_digits n s"
proof (induction s arbitrary: n)
  case (Cons c s)
  have "n \<le> n * 10 + digit_val c" by simp
  also have "\<dots> \<le> fold_digits (n * 10 + digit_val c) s" by (rule Cons.IH)
  finally show ?case by simp
qed simp

definition no_digit_next :: "string \<Rightarrow> bool" where
  "no_digit_next r \<longleftrightarrow> r = [] \<or> \<not> is_digit (hd r)"

lemma leading_int_digits:
  assumes "\<forall>c \<in> set ds. is_digit c" and "no_digit_next r" and "int (fold_digits n ds) \<le> 2 ^ 63"
  shows "leading_int (int n) (ds @ r) = Some (int (fold_digits n ds), r)"
  using assms
proof (induction ds arbitrary: n)
  case Nil
  then show ?case by (cases r) (auto simp: no_digit_next_def)
next
  case (Cons c ds)
  have "int (n * 10 + digit_val c) \<le> 2 ^ 63"
    using fold_digits_mono [of "n * 10 + digit_val c" ds] Cons.prems(3) by (simp del: of_nat_add of_nat_mult)
  then show ?case
    using Cons.prems Cons.IH [of "n * 10 + digit_val c"] by simp
qed

lemma scale_step: "k < 15 \<Longrightarrow> f_mul (Fin (10 ^ k)) (f_of_int 10) = Fin (10 ^ Suc k)"
proof -
  assume k: "k < 15"
  have "\<bar>10 ^ Suc k :: int\<bar> < 2 ^ 53"
    using power_increasing [of "Suc k" 15 "10 :: int"] k by simp
  from rnd_of_int [OF this] show ?thesis
    by (simp add: f_of_int_exact mult.commute)
qed

lemma leading_fraction_digits:
  assumes "\<forall>c \<in> set ds. is_digit c" and "no_digit_next r" and "fold_digits n ds < 10 ^ 9"
    and "k + length ds \<le> 15"
  shows "leading_fraction (int n) (Fin (10 ^ k)) False (ds @ r) =
    (int (fold_digits n ds), Fin (10 ^ (k + length ds)), r)"
  using assms
proof (induction ds arbitrary: n k)
  case Nil
  then show ?case by (cases r) (auto simp: no_digit_next_def)
next
  case (Cons c ds)
  have "n * 10 + digit_val c < 10 ^ 9"
    using fold_digits_mono [of "n * 10 + digit_val c" ds] Cons.prems(3) by simp
  then show ?case
    using Cons.prems Cons.IH [of "n * 10 + digit_val c" "Suc k"] scale_step [of k] by simp
qed

text \<open>The fraction a number ends in, as \<open>fmtFrac\<close> writes it.\<close>

definition frac_text :: "nat \<Rightarrow> nat \<Rightarrow> string \<Rightarrow> bool" where
  "frac_text prec m f \<longleftrightarrow> (m = 0 \<and> f = []) \<or>
     (\<exists>ds. f = CHR ''.'' # ds \<and> ds \<noteq> [] \<and> (\<forall>c \<in> set ds. is_digit c) \<and> length ds \<le> prec \<and>
        fold_digits 0 ds * 10 ^ (prec - length ds) = m)"

lemma fold_digits_Cons: "fold_digits 0 (digit_char d # ds) = d * 10 ^ length ds + fold_digits 0 ds" if "d < 10"
proof -
  have "fold_digits n ds = n * 10 ^ length ds + fold_digits 0 ds" for n
  proof (induction ds arbitrary: n)
    case (Cons c ds)
    show ?case using Cons.IH [of "n * 10 + digit_val c"] Cons.IH [of "digit_val c"] by (simp add: algebra_simps)
  qed simp
  from this [of d] show ?thesis using that by (simp add: digit_char_props)
qed

lemma fmt_frac_loop_value:
  assumes "\<forall>c \<in> set acc. is_digit c" and "length acc \<le> i"
    and "fold_digits 0 acc * 10 ^ (i - length acc) = m" and "acc = [] \<longleftrightarrow> m = 0" and "m < 10 ^ i"
  shows "\<exists>ds. fmt_frac_loop n v acc = (ds, v div 10 ^ n) \<and> (\<forall>c \<in> set ds. is_digit c) \<and> length ds \<le> i + n \<and>
    fold_digits 0 ds * 10 ^ (i + n - length ds) = m + 10 ^ i * (v mod 10 ^ n) \<and> (ds = [] \<longleftrightarrow> m + 10 ^ i * (v mod 10 ^ n) = 0)"
  using assms
proof (induction n arbitrary: v acc i m)
  case (Suc n)
  let ?d = "v mod 10" let ?acc = "if acc \<noteq> [] \<or> ?d \<noteq> 0 then digit_char ?d # acc else []"
  let ?m = "m + 10 ^ i * ?d"
  have d: "?d < 10" by simp
  have pow: "10 ^ length acc * 10 ^ (i - length acc) = (10 ^ i :: nat)"
    using Suc.prems(2) by (simp flip: power_add)
  have val: "fold_digits 0 ?acc * 10 ^ (Suc i - length ?acc) = ?m"
  proof (cases "acc \<noteq> [] \<or> ?d \<noteq> 0")
    case True
    have "fold_digits 0 (digit_char ?d # acc) * 10 ^ (i - length acc) = ?d * (10 ^ length acc * 10 ^ (i - length acc)) + m"
      using Suc.prems(3) fold_digits_Cons [OF d, of acc] by (simp add: algebra_simps del: fold_digits_simps)
    then show ?thesis using True by (simp add: pow algebra_simps del: fold_digits_simps)
  next
    case False
    then show ?thesis using Suc.prems(4) by simp
  qed
  have bound: "?m < 10 ^ Suc i"
  proof -
    have "10 ^ i * ?d \<le> 10 ^ i * 9" by (rule mult_le_mono2) (use d in simp)
    then show ?thesis unfolding power_Suc using Suc.prems(5) by linarith
  qed
  have digits: "\<forall>c \<in> set ?acc. is_digit c" using Suc.prems(1) d by (auto simp: digit_char_props)
  have empty: "?acc = [] \<longleftrightarrow> ?m = 0" using Suc.prems(4) by auto
  have split: "?m + 10 ^ Suc i * (v div 10 mod 10 ^ n) = m + 10 ^ i * (v mod 10 ^ Suc n)"
    by (simp add: mod_mult2_eq algebra_simps)
  show ?case
    using Suc.IH [OF digits _ val empty bound, of "v div 10"] Suc.prems(2) split
    by (auto simp: div_mult2_eq)
qed auto

lemma fmt_frac_text:
  obtains f where "fmt_frac prec v = (f, v div 10 ^ prec)" "frac_text prec (v mod 10 ^ prec) f"
proof -
  obtain ds where ds: "fmt_frac_loop prec v [] = (ds, v div 10 ^ prec)" "\<forall>c \<in> set ds. is_digit c" "length ds \<le> prec"
      "fold_digits 0 ds * 10 ^ (prec - length ds) = v mod 10 ^ prec" "ds = [] \<longleftrightarrow> v mod 10 ^ prec = 0"
    using fmt_frac_loop_value [of "[]" 0 0 prec v] by auto
  show thesis
    by (rule that [of "if ds = [] then [] else CHR ''.'' # ds"]) (use ds in \<open>auto simp: fmt_frac_def frac_text_def\<close>)
qed

text \<open>The fraction scaled in floating point is exact.\<close>

lemma scaled_fraction:
  assumes "l \<le> prec" and "prec \<le> 9" and "F * 10 ^ (prec - l) = m" and "m < 10 ^ prec"
  shows "f_trunc (f_mul (f_of_int (int F)) (f_div (f_of_int (10 ^ prec)) (Fin (10 ^ l)))) = int m"
proof -
  have p9: "(10 :: nat) ^ prec \<le> 10 ^ 9" using assms(2) by (intro power_increasing) simp_all
  have m: "m < 10 ^ 9" using p9 assms(4) by simp
  have "F \<le> m" using assms(3) by (cases "F = 0") auto
  then have F: "\<bar>int F\<bar> < 2 ^ 53" using m by simp
  have e: "(10 :: int) ^ k < 2 ^ 53" if "k \<le> 9" for k
    using power_increasing [OF that, of "10 :: int"] by simp
  have "(10 ^ prec / 10 ^ l :: rat) = of_int (10 ^ (prec - l))"
    using assms(1) by (auto simp: power_add dest!: le_Suc_ex)
  moreover have "rnd (of_int (10 ^ (prec - l))) = Fin (of_int (10 ^ (prec - l)))"
    using e [of "prec - l"] assms(2) by (intro rnd_of_int) simp
  ultimately have div: "f_div (f_of_int (10 ^ prec)) (Fin (10 ^ l)) = Fin (of_int (10 ^ (prec - l)))"
    using e [OF assms(2)] by (simp add: f_of_int_exact)
  have prod: "of_int (int F) * of_int (10 ^ (prec - l)) = (of_int (int m) :: rat)"
    using assms(3) by (metis of_int_mult of_nat_mult of_nat_numeral of_nat_power of_int_of_nat_eq)
  have "f_mul (f_of_int (int F)) (Fin (of_int (10 ^ (prec - l)))) = rnd (of_int (int m))"
    unfolding f_of_int_exact [OF F] f_mul.simps prod ..
  also have "\<dots> = Fin (of_int (int m))" using m by (intro rnd_of_int) simp
  finally show ?thesis
    using m unfolding div by (simp add: Let_def)
qed

lemma fold_digits_show_nat: "fold_digits 0 (show_nat n) = n"
  using digits_val_show_nat [of n] by (simp add: fold_digits_def digits_val_def)

text \<open>One part of the text: the number, its fraction if it has one, and the unit.\<close>

lemma duration_part_text:
  assumes "unit_map u = Some unit" and "u \<noteq> []" and "\<forall>c \<in> set u. \<not> is_number_char c"
    and "rest = [] \<or> is_number_char (hd rest)" and "frac_text prec m f" and "prec \<le> 9"
    and "m = 0 \<or> unit = 10 ^ prec" and "0 < unit" and "m < 10 ^ prec" and "int w * unit + int m \<le> 2 ^ 63"
  shows "duration_part (show_nat w @ f @ u @ rest) = Some (int w * unit + int m, rest)"
proof -
  have w: "int w * unit \<le> 2 ^ 63" using assms(10) by simp
  have "int w \<le> int w * unit" using assms(8) by (cases "w = 0") simp_all
  then have wb: "int (fold_digits 0 (show_nat w)) \<le> 2 ^ 63" using w by (simp add: fold_digits_show_nat)
  have unum: "\<not> is_digit (hd u)" "hd u \<noteq> CHR ''.''"
    using assms(2,3) hd_in_set [of u] by (auto simp: is_number_char_def)
  have follow: "no_digit_next (f @ u @ rest)"
    using assms(2,5) unum by (auto simp: no_digit_next_def frac_text_def is_digit_def)
  have li: "leading_int 0 (show_nat w @ f @ u @ rest) = Some (int w, f @ u @ rest)"
    using leading_int_digits [of "show_nat w" "f @ u @ rest" 0] wb follow show_nat_digits
    by (simp add: fold_digits_show_nat)
  have hd: "is_number_char (hd (show_nat w @ f @ u @ rest))"
    using show_nat_digits [OF hd_in_set [OF show_nat_nonempty]] by (simp add: is_number_char_def)
  have unitpart: "takeWhile (\<lambda>c. \<not> is_number_char c) (u @ rest) = u" "dropWhile (\<lambda>c. \<not> is_number_char c) (u @ rest) = rest"
    using assms(3,4) by (cases rest; simp)+
  have div: "int w \<le> 2 ^ 63 div unit"
    using zdiv_mono1 [OF w assms(8)] assms(8) by simp
  show ?thesis
  proof (cases "f = []")
    case True
    then have "m = 0" using assms(5) by (auto simp: frac_text_def)
    then show ?thesis
      using True hd li unitpart assms(1,2) unum div w by (auto simp: duration_part_def)
  next
    case False
    then obtain ds where ds: "f = CHR ''.'' # ds" "ds \<noteq> []" "\<forall>c \<in> set ds. is_digit c" "length ds \<le> prec"
        "fold_digits 0 ds * 10 ^ (prec - length ds) = m"
      using assms(5) by (auto simp: frac_text_def)
    let ?F = "fold_digits 0 ds"
    have "?F \<le> m" using ds(5) by (cases "?F = 0") auto
    moreover have "(10 :: nat) ^ prec \<le> 10 ^ 9" using assms(6) by (intro power_increasing) simp_all
    ultimately have F: "?F < 10 ^ 9" using assms(9) by simp
    have one: "f_of_int 1 = Fin (10 ^ 0)" by (simp add: f_of_int_exact)
    have lf: "leading_fraction 0 (f_of_int 1) False (ds @ u @ rest) = (int ?F, Fin (10 ^ length ds), u @ rest)"
      using leading_fraction_digits [OF ds(3), of "u @ rest" 0 0] F ds(4) assms(2,6) unum
      unfolding one by (simp add: no_digit_next_def)
    have frac: "(if 0 < int ?F then int w * unit + f_trunc (f_mul (f_of_int (int ?F)) (f_div (f_of_int unit) (Fin (10 ^ length ds))))
        else int w * unit) = int w * unit + int m"
    proof (cases "m = 0")
      case True
      then show ?thesis using ds(5) by auto
    next
      case False
      then have "unit = 10 ^ prec" "0 < ?F" using assms(7) ds(5) by (auto intro: gr0I)
      then show ?thesis using scaled_fraction [OF ds(4) assms(6) ds(5) assms(9)] by simp
    qed
    have "show_nat w @ f @ u @ rest \<noteq> []" "length (f @ u @ rest) \<noteq> length (show_nat w @ f @ u @ rest)"
      by simp_all
    then show ?thesis
      using hd li lf unitpart assms(1,2,10) div frac ds(1) by (simp add: duration_part_def Let_def)
  qed
qed

lemma parse_parts_step:
  assumes "duration_part s = Some (v, r)" and "0 \<le> d" and "0 \<le> v" and "d + v \<le> 2 ^ 63"
  shows "parse_parts d s = parse_parts (d + v) r"
  using assms by (cases "s = []") (simp_all add: parse_parts.simps [of d s] duration_part_def)

lemma parse_parts_Nil [simp]: "parse_parts d [] = Some d"
  by (simp add: parse_parts.simps)

lemma no_number_chars:
  "\<not> is_number_char (CHR ''s'')" "\<not> is_number_char (CHR ''m'')" "\<not> is_number_char (CHR ''h'')"
  "\<not> is_number_char (CHR ''n'')" "\<not> is_number_char (CHR 0xC2)" "\<not> is_number_char (CHR 0xB5)"
  by (simp_all add: is_number_char_def is_digit_def)

lemma number_start: "is_number_char (hd (show_nat n @ t))" "is_number_char (hd (show_nat n))"
  using show_nat_digits [OF hd_in_set [OF show_nat_nonempty]] by (simp_all add: is_number_char_def)

text \<open>A last part, with its fraction, and a part without one.\<close>

lemma last_part:
  assumes "unit_map u = Some (10 ^ prec)" and "u \<noteq> []" and "\<forall>c \<in> set u. \<not> is_number_char c" and "prec \<le> 9"
    and "frac_text prec m f" and "m < 10 ^ prec" and "0 \<le> d" and "d + int w * 10 ^ prec + int m \<le> 2 ^ 63"
  shows "parse_parts d (show_nat w @ f @ u) = Some (d + int w * 10 ^ prec + int m)"
proof -
  have "duration_part (show_nat w @ f @ u) = Some (int w * 10 ^ prec + int m, [])"
    using duration_part_text [of u "10 ^ prec" "[]" prec m f w] assms by simp
  from parse_parts_step [OF this, of d] show ?thesis using assms(7,8) by (simp add: algebra_simps)
qed

lemma first_part:
  assumes "unit_map u = Some unit" and "u \<noteq> []" and "\<forall>c \<in> set u. \<not> is_number_char c" and "0 < unit"
    and "is_number_char (hd rest)" and "0 \<le> d" and "d + int w * unit \<le> 2 ^ 63"
  shows "parse_parts d (show_nat w @ u @ rest) = parse_parts (d + int w * unit) rest"
proof -
  have "frac_text 0 0 []" by (simp add: frac_text_def)
  then have "duration_part (show_nat w @ u @ rest) = Some (int w * unit, rest)"
    using duration_part_text [of u unit rest 0 0 "[]" w] assms by simp
  from parse_parts_step [OF this, of d] show ?thesis using assms(4,6,7) by simp
qed

lemma units:
  "unit_map ''ns'' = Some (10 ^ 0)" "unit_map micro = Some (10 ^ 3)" "unit_map ''ms'' = Some (10 ^ 6)"
  "unit_map ''s'' = Some (10 ^ 9)" "unit_map ''m'' = Some 60000000000" "unit_map ''h'' = Some 3600000000000"
  by (simp_all add: unit_map_def micro_def)

lemma parse_seconds:
  fixes u :: nat
  assumes "10 ^ 9 \<le> u" and "int u \<le> 2 ^ 63"
  shows "parse_parts 0 (show_abs_duration u) = Some (int u)"
proof -
  obtain f where f: "fmt_frac 9 u = (f, u div 10 ^ 9)" "frac_text 9 (u mod 10 ^ 9) f"
    by (rule fmt_frac_text [of 9 u])
  define w where "w = u div 10 ^ 9"
  define h m s r where hms: "h = w div 60 div 60" "m = w div 60 mod 60" "s = w mod 60" "r = u mod 10 ^ 9"
  have u: "u = ((h * 60 + m) * 60 + s) * 10 ^ 9 + r"
    unfolding hms w_def by simp
  then have iu: "int u = int h * 3600000000000 + int m * 60000000000 + int s * 10 ^ 9 + int r"
    by simp
  have r: "r < 10 ^ 9" by (simp add: hms)
  have wd: "u div 1000000000 = w" by (simp add: w_def)
  let ?secs = "show_nat s @ f @ ''s''" let ?mins = "show_nat m @ ''m'' @ ?secs"
  have last: "parse_parts d ?secs = Some (d + int s * 10 ^ 9 + int r)" if "0 \<le> d" "d + int s * 10 ^ 9 + int r \<le> 2 ^ 63" for d
    using last_part [OF units(4) _ _ _ f(2), of d s] that r by (simp add: no_number_chars hms(4))
  have mins: "parse_parts d ?mins = Some (d + int m * 60000000000 + int s * 10 ^ 9 + int r)"
    if "0 \<le> d" "d + int m * 60000000000 + int s * 10 ^ 9 + int r \<le> 2 ^ 63" for d
    using first_part [OF units(5), of ?secs d m] last [of "d + int m * 60000000000"] that
    by (simp add: no_number_chars number_start)
  have hours: "parse_parts 0 (show_nat h @ ''h'' @ ?mins) = Some (int u)"
    using first_part [OF units(6), of ?mins 0 h] mins [of "int h * 3600000000000"] assms(2) iu
    by (simp add: no_number_chars number_start)
  have "show_abs_duration u = (if w div 60 = 0 then ?secs else if h = 0 then ?mins else show_nat h @ ''h'' @ ?mins)"
    using assms(1) f(1) wd by (simp add: show_abs_duration_def Let_def hms)
  moreover have "w div 60 = 0 \<Longrightarrow> h = 0 \<and> m = 0" by (simp add: hms)
  ultimately show ?thesis
    using hours mins [of 0] last [of 0] assms(2) iu by auto
qed

lemma parse_show_abs:
  fixes u :: nat
  assumes "0 < u" and "int u \<le> 2 ^ 63"
  shows "parse_parts 0 (show_abs_duration u) = Some (int u)"
proof -
  have part: "parse_parts 0 (let (f, w) = fmt_frac prec u in show_nat w @ f @ x) = Some (int u)"
    if "unit_map x = Some (10 ^ prec)" "x \<noteq> []" "\<forall>c \<in> set x. \<not> is_number_char c" "prec \<le> 9" for prec x
  proof -
    obtain f where f: "fmt_frac prec u = (f, u div 10 ^ prec)" "frac_text prec (u mod 10 ^ prec) f"
      by (rule fmt_frac_text [of prec u])
    have "int (u div 10 ^ prec) * 10 ^ prec + int (u mod 10 ^ prec) = int u"
      using arg_cong [OF div_mult_mod_eq [of u "10 ^ prec"], of int] by simp
    then show ?thesis
      using last_part [OF that f(2), of 0 "u div 10 ^ prec"] assms(2) f(1) by simp
  qed
  consider "u < 1000" | "1000 \<le> u" "u < 1000000" | "1000000 \<le> u" "u < 1000000000" | "1000000000 \<le> u"
    by linarith
  then show ?thesis
  proof cases
    case 1
    then have "show_abs_duration u = show_nat u @ ''ns''" using assms(1) by (simp add: show_abs_duration_def)
    then show ?thesis using part [OF units(1)] by (simp add: no_number_chars fmt_frac_def)
  next
    case 2
    then have "show_abs_duration u = (let (f, w) = fmt_frac 3 u in show_nat w @ f @ micro)"
      unfolding show_abs_duration_def by simp
    then show ?thesis using part [OF units(2)] by (simp only: micro_def) (simp add: no_number_chars)
  next
    case 3
    then have "show_abs_duration u = (let (f, w) = fmt_frac 6 u in show_nat w @ f @ ''ms'')"
      unfolding show_abs_duration_def by simp
    then show ?thesis using part [OF units(3)] by (simp only:) (simp add: no_number_chars)
  next
    case 4
    then show ?thesis using parse_seconds [of u] assms(2) by simp
  qed
qed

lemma show_abs_form: "\<exists>k t. show_abs_duration u = show_nat k @ t \<and> t \<noteq> []"
proof (cases "u = 0")
  case True
  have "show_nat 0 = ''0''" by code_simp
  then have "show_abs_duration u = show_nat 0 @ ''s''" using True by (simp add: show_abs_duration_def)
  then show ?thesis by blast
next
  case False
  then show ?thesis by (auto simp: show_abs_duration_def micro_def Let_def split: prod.split)
qed

text \<open>Every duration a configuration can hold is read back from what is printed.\<close>

lemma parse_show_duration:
  assumes "0 \<le> d" and "d < 2 ^ 63"
  shows "parse_duration (show_duration d) = Some d"
proof (cases "d = 0")
  case True
  have "show_nat 0 = ''0''" by code_simp
  then have "parse_parts 0 ''0s'' = Some 0"
    using last_part [OF units(4), of 0 "[]" 0 0] by (simp add: no_number_chars frac_text_def)
  then show ?thesis using True
    by (simp add: show_duration_def show_abs_duration_def parse_duration_def)
next
  case False
  let ?t = "show_abs_duration (nat d)"
  obtain k t where t: "?t = show_nat k @ t" "t \<noteq> []" using show_abs_form by blast
  then have "is_digit (hd ?t)"
    using show_nat_digits [OF hd_in_set [OF show_nat_nonempty], of k] by simp
  then have sign: "hd ?t \<noteq> CHR ''-''" "hd ?t \<noteq> CHR ''+''"
    using is_digit_not_special by blast+
  have "?t \<noteq> ''0''" "?t \<noteq> []"
    using t show_nat_nonempty [of k] by (auto simp: append_eq_Cons_conv)
  moreover have "parse_parts 0 ?t = Some d"
    using parse_show_abs [of "nat d"] False assms by simp
  ultimately show ?thesis
    using assms sign by (simp add: parse_duration_def show_duration_def)
qed

end
