(* ===== verification/Config.thy ===== *)
theory Config
  imports Go_Duration Expr_Parser
begin

text \<open>
  The configuration, \<open>internal/config\<close>: the schema as it is on disk and normalized (\<open>model.go\<close>),
  \<open>normalize.go\<close>, \<open>validate.go\<close>, the view that is written back (\<open>encode.go\<close>), the choice of the
  file (\<open>load.go\<close>) and of the format (\<open>decode.go\<close>). The TOML, YAML and JSON libraries are outside:
  a decoder is a parameter. Tables keep the order in which the code happens to iterate over them;
  absent and empty lists are the same.
\<close>

section \<open>The schema (\<open>model.go\<close>)\<close>

record raw_metrics =
  rm_profile :: "string option"
  rm_enable :: "string list"
  rm_disable :: "string list"

record raw_sort =
  rs_field :: string
  rs_direction :: string

record raw_state =
  rst_runtime_dir :: "string option"
  rst_history :: "bool option"

record raw_daemon =
  rd_use :: "string option"
  rd_socket :: "string option"

record raw_preset =
  rp_extends :: "string option"
  rp_interval :: "string option"
  rp_group_by :: "string list"
  rp_leaf :: "string option"
  rp_columns :: "string list"
  rp_having :: "string option"
  rp_metrics :: "raw_metrics option"
  rp_sort :: "raw_sort list"

record raw_view =
  rv_group_by :: "string list"
  rv_leaf :: "string option"
  rv_view_columns :: "string list"

record control_intent =
  ci_nice :: "int option"
  ci_freeze :: "bool option"
  ci_stop :: "bool option"

record raw_managed =
  rma_name :: string
  rma_selector :: string
  rma_on_drift :: "string option"
  rma_view :: "raw_view option"
  rma_control :: "control_intent option"

record raw_config =
  rc_version :: "int option"
  rc_interval :: "string option"
  rc_group_by :: "string list"
  rc_leaf :: "string option"
  rc_columns :: "string list"
  rc_intervals :: "string table"
  rc_metrics :: "raw_metrics option"
  rc_sort :: "raw_sort list"
  rc_state :: "raw_state option"
  rc_daemon :: "raw_daemon option"
  rc_presets :: "raw_preset table"
  rc_managed :: "raw_managed list"
  rc_target_width :: "int option"
  rc_collapse_groups :: "bool option"
  rc_allow_override :: "bool option"

record metrics_sel =
  ms_profile :: string
  ms_enable :: "string list"
  ms_disable :: "string list"

record sort_dir =
  sd_field :: string
  sd_direction :: string

record preset =
  pr_extends :: string
  pr_interval :: int
  pr_group_by :: "string list"
  pr_leaf :: string
  pr_columns :: "string list"
  pr_having :: string
  pr_metrics :: metrics_sel
  pr_sort :: "sort_dir list"

record view =
  vw_group_by :: "string list"
  vw_leaf :: string
  vw_columns :: "string list"

record managed =
  ma_name :: string
  ma_selector :: string
  ma_on_drift :: string
  ma_view :: view
  ma_control :: control_intent
  ma_has_control :: bool

record config =
  cf_version :: int
  cf_interval :: int
  cf_group_by :: "string list"
  cf_leaf :: string
  cf_columns :: "string list"
  cf_intervals :: "int table"
  cf_metrics :: metrics_sel
  cf_sort :: "sort_dir list"
  cf_runtime_dir :: string
  cf_history :: bool
  cf_daemon_use :: string
  cf_daemon_socket :: string
  cf_presets :: "preset table"
  cf_managed :: "managed list"
  cf_target_width :: int
  cf_collapse_groups :: bool
  cf_allow_override :: bool

datatype config_error =
    BadDuration string string
  | NegativeDuration string string
  | BadVersion int
  | BadLeaf string string
  | NegativeWidth int
  | NoneNotOnly
  | DuplicateGroup string
  | UnknownGroup string
  | ConfigProfile string
  | ConfigMetric string
  | EmptySortField
  | BadDirection string string
  | BadDaemonUse string
  | InPreset string config_error
  | BadHaving parse_error
  | MissingParent string
  | InheritanceCycle string
  | EmptyRuleName
  | DuplicateRule string
  | BadDrift string string
  | EmptySelector string
  | BadRuleSelector string parse_error
  | RateInSelector string string
  | UnknownSelectorField string string
  | DecodeFailed string
  | BadExtension string
  | ReadFailed string
  | ManyDefaults "string list"

section \<open>Normalizing (\<open>normalize.go\<close>)\<close>

definition or_default :: "'a \<Rightarrow> 'a option \<Rightarrow> 'a" where
  "or_default d x = (case x of None \<Rightarrow> d | Some v \<Rightarrow> v)"

definition set_duration :: "string option \<Rightarrow> string \<Rightarrow> (config_error, int) result" where
  "set_duration s field =
     (case s of
        None \<Rightarrow> Inr 0
      | Some t \<Rightarrow> (case parse_duration t of
            None \<Rightarrow> Inl (BadDuration field t)
          | Some d \<Rightarrow> if d < 0 then Inl (NegativeDuration field t) else Inr d))"

fun normalize_intervals :: "string table \<Rightarrow> (config_error, int table) result" where
  "normalize_intervals [] = Inr []"
| "normalize_intervals ((k, v) # t) =
     rbind (set_duration (Some v) (''intervals.'' @ k)) (\<lambda>d. rbind (normalize_intervals t) (\<lambda>t'. Inr ((k, d) # t')))"

definition normalize_metrics :: "raw_metrics option \<Rightarrow> metrics_sel" where
  "normalize_metrics m =
     (case m of
        None \<Rightarrow> \<lparr>ms_profile = [], ms_enable = [], ms_disable = []\<rparr>
      | Some r \<Rightarrow> \<lparr>ms_profile = or_default [] (rm_profile r), ms_enable = rm_enable r, ms_disable = rm_disable r\<rparr>)"

definition normalize_sort :: "raw_sort list \<Rightarrow> sort_dir list" where
  "normalize_sort = map (\<lambda>s. \<lparr>sd_field = rs_field s,
     sd_direction = (if rs_direction s = [] then ''asc'' else rs_direction s)\<rparr>)"

definition normalize_preset :: "string \<Rightarrow> raw_preset \<Rightarrow> (config_error, preset) result" where
  "normalize_preset name r =
     rbind (set_duration (rp_interval r) (''presets.'' @ name @ ''.interval'')) (\<lambda>d.
       Inr \<lparr>pr_extends = or_default [] (rp_extends r), pr_interval = d, pr_group_by = rp_group_by r,
         pr_leaf = or_default [] (rp_leaf r), pr_columns = rp_columns r, pr_having = or_default [] (rp_having r),
         pr_metrics = normalize_metrics (rp_metrics r), pr_sort = normalize_sort (rp_sort r)\<rparr>)"

fun normalize_presets :: "raw_preset table \<Rightarrow> (config_error, preset table) result" where
  "normalize_presets [] = Inr []"
| "normalize_presets ((k, r) # t) =
     rbind (normalize_preset k r) (\<lambda>p. rbind (normalize_presets t) (\<lambda>t'. Inr ((k, p) # t')))"

definition no_view :: view where
  "no_view = \<lparr>vw_group_by = [], vw_leaf = [], vw_columns = []\<rparr>"

definition no_control :: control_intent where
  "no_control = \<lparr>ci_nice = None, ci_freeze = None, ci_stop = None\<rparr>"

definition normalize_rule :: "raw_managed \<Rightarrow> managed" where
  "normalize_rule r =
     \<lparr>ma_name = rma_name r, ma_selector = rma_selector r, ma_on_drift = or_default ''report'' (rma_on_drift r),
      ma_view = (case rma_view r of
          None \<Rightarrow> no_view
        | Some v \<Rightarrow> \<lparr>vw_group_by = rv_group_by v, vw_leaf = or_default [] (rv_leaf v), vw_columns = rv_view_columns v\<rparr>),
      ma_control = or_default no_control (rma_control r), ma_has_control = (rma_control r \<noteq> None)\<rparr>"

definition normalize_managed :: "raw_managed list \<Rightarrow> managed list" where
  "normalize_managed = map normalize_rule"

definition normalize_config :: "raw_config \<Rightarrow> (config_error, config) result" where
  "normalize_config r =
     rbind (set_duration (rc_interval r) ''interval'') (\<lambda>interval.
     rbind (normalize_intervals (rc_intervals r)) (\<lambda>intervals.
     rbind (normalize_presets (rc_presets r)) (\<lambda>presets.
       Inr \<lparr>cf_version = or_default 1 (rc_version r), cf_interval = interval, cf_group_by = rc_group_by r,
         cf_leaf = or_default ''process'' (rc_leaf r), cf_columns = rc_columns r, cf_intervals = intervals,
         cf_metrics = normalize_metrics (rc_metrics r), cf_sort = normalize_sort (rc_sort r),
         cf_runtime_dir = (case rc_state r of None \<Rightarrow> [] | Some s \<Rightarrow> or_default [] (rst_runtime_dir s)),
         cf_history = (case rc_state r of None \<Rightarrow> False | Some s \<Rightarrow> or_default False (rst_history s)),
         cf_daemon_use = (case rc_daemon r of None \<Rightarrow> ''auto'' | Some d \<Rightarrow> or_default ''auto'' (rd_use d)),
         cf_daemon_socket = (case rc_daemon r of None \<Rightarrow> [] | Some d \<Rightarrow> or_default [] (rd_socket d)),
         cf_presets = presets, cf_managed = normalize_managed (rc_managed r),
         cf_target_width = or_default 0 (rc_target_width r),
         cf_collapse_groups = or_default False (rc_collapse_groups r),
         cf_allow_override = or_default False (rc_allow_override r)\<rparr>)))"

section \<open>Validating (\<open>validate.go\<close>)\<close>

text \<open>What the registries answer; an absent predicate checks nothing.\<close>

record validator =
  vd_regexp :: regexp_compile
  vd_has_metric :: "(string \<Rightarrow> bool) option"
  vd_has_dimension :: "(string \<Rightarrow> bool) option"
  vd_is_rate_field :: "(string \<Rightarrow> bool) option"
  vd_entity_fields :: "(string \<Rightarrow> bool) option"
  vd_known_profile :: "(string \<Rightarrow> bool) option"

definition valid_leaf :: "string \<Rightarrow> bool" where
  "valid_leaf s \<longleftrightarrow> s = ''process'' \<or> s = ''thread'' \<or> s = ''none''"

definition valid_dir :: "string \<Rightarrow> bool" where
  "valid_dir s \<longleftrightarrow> s = ''asc'' \<or> s = ''desc''"

definition valid_drift :: "string \<Rightarrow> bool" where
  "valid_drift s \<longleftrightarrow> s = ''report'' \<or> s = ''reapply'' \<or> s = ''adopt'' \<or> s = ''ignore''"

definition valid_daemon_use :: "string \<Rightarrow> bool" where
  "valid_daemon_use s \<longleftrightarrow> s = ''auto'' \<or> s = ''require'' \<or> s = ''never''"

definition refused :: "('a \<Rightarrow> bool) option \<Rightarrow> 'a \<Rightarrow> bool" where
  "refused check x = (case check of None \<Rightarrow> False | Some p \<Rightarrow> \<not> p x)"

fun validate_dims :: "validator \<Rightarrow> (string \<Rightarrow> bool) \<Rightarrow> string list \<Rightarrow> config_error option" where
  "validate_dims v seen [] = None"
| "validate_dims v seen (d # ds) =
     (if d = ''none'' then Some NoneNotOnly
      else if seen d then Some (DuplicateGroup d)
      else if refused (vd_has_dimension v) d then Some (UnknownGroup d)
      else validate_dims v (seen(d := True)) ds)"

definition validate_group_by :: "validator \<Rightarrow> string list \<Rightarrow> config_error option" where
  "validate_group_by v gb =
     (if gb = [] then None
      else if gb = [''none''] then None
      else validate_dims v (\<lambda>_. False) gb)"

definition validate_metrics :: "validator \<Rightarrow> metrics_sel \<Rightarrow> config_error option" where
  "validate_metrics v m =
     (if ms_profile m \<noteq> [] \<and> refused (vd_known_profile v) (ms_profile m)
      then Some (ConfigProfile (ms_profile m))
      else map_option ConfigMetric (List.find (refused (vd_has_metric v)) (ms_enable m @ ms_disable m)))"

fun validate_sort :: "sort_dir list \<Rightarrow> config_error option" where
  "validate_sort [] = None"
| "validate_sort (k # ks) =
     (if sd_field k = [] then Some EmptySortField
      else if \<not> valid_dir (sd_direction k) then Some (BadDirection (sd_direction k) (sd_field k))
      else validate_sort ks)"

text \<open>The first check that fails decides.\<close>

fun or_else :: "config_error option \<Rightarrow> config_error option \<Rightarrow> config_error option" where
  "or_else (Some e) r = Some e"
| "or_else None r = r"

definition validate_preset :: "validator \<Rightarrow> string \<Rightarrow> preset \<Rightarrow> config_error option" where
  "validate_preset v name p =
     or_else (if pr_leaf p \<noteq> [] \<and> \<not> valid_leaf (pr_leaf p) then Some (InPreset name (BadLeaf ''leaf'' (pr_leaf p))) else None)
     (or_else (map_option (InPreset name) (validate_group_by v (pr_group_by p)))
     (or_else (map_option (InPreset name) (validate_metrics v (pr_metrics p)))
       (if pr_having p = [] then None
        else (case compile (vd_regexp v) (pr_having p) of
            Inl e \<Rightarrow> Some (InPreset name (BadHaving e))
          | Inr _ \<Rightarrow> None))))"

datatype color = White | Gray | Black

text \<open>
  The depth-first search along \<open>extends\<close>. The presets visited so far are gray while their parent
  is being visited and black afterwards.
\<close>

definition white_count :: "preset table \<Rightarrow> (string \<Rightarrow> color) \<Rightarrow> nat" where
  "white_count ps c = length (filter (\<lambda>k. c k = White) (map fst ps))"

lemma filter_length_mono:
  "(\<And>x. P x \<Longrightarrow> Q x) \<Longrightarrow> length (filter P xs) \<le> length (filter Q xs)"
  by (induction xs) (auto simp: le_SucI)

lemma filter_length_strict:
  assumes imp: "\<And>x. P x \<Longrightarrow> Q x" and x: "x \<in> set xs" "Q x" "\<not> P x"
  shows "length (filter P xs) < length (filter Q xs)"
  using x
proof (induction xs)
  case (Cons y ys)
  have le: "length (filter P ys) \<le> length (filter Q ys)" by (rule filter_length_mono) (rule imp)
  show ?case
  proof (cases "y = x")
    case True
    then show ?thesis using Cons.prems le by simp
  next
    case False
    then have "length (filter P ys) < length (filter Q ys)" using Cons by simp
    then show ?thesis using imp [of y] by simp
  qed
qed simp

lemma white_count_visit:
  "c k = White \<Longrightarrow> k \<in> fst ` set ps \<Longrightarrow> white_count ps (c(k := Gray)) < white_count ps c"
  unfolding white_count_def by (rule filter_length_strict [of _ _ k]) (auto split: if_splits)

lemma white_count_le: "white_count ps (c(k := Gray)) \<le> white_count ps c"
  unfolding white_count_def by (rule filter_length_mono) (auto split: if_splits)

function visit :: "preset table \<Rightarrow> string \<Rightarrow> (string \<Rightarrow> color) \<Rightarrow> (config_error, string \<Rightarrow> color) result" where
  "visit ps name c =
     (case map_of ps name of
        None \<Rightarrow> Inl (MissingParent name)
      | Some p \<Rightarrow>
          let c = c(name := Gray) in
          if pr_extends p = [] then Inr (c(name := Black))
          else (case c (pr_extends p) of
              Gray \<Rightarrow> Inl (InheritanceCycle (pr_extends p))
            | White \<Rightarrow> (case visit ps (pr_extends p) c of
                  Inl e \<Rightarrow> Inl e
                | Inr c \<Rightarrow> Inr (c(name := Black)))
            | Black \<Rightarrow> Inr (c(name := Black))))"
  by pat_completeness auto
termination
proof (relation "measure (\<lambda>(ps, name, c). 2 * white_count ps c + (if c name = White then 0 else 1))", goal_cases)
  case (2 ps name c p c')
  then have "name \<in> fst ` set ps" by (metis map_of_SomeD fst_conv image_eqI)
  with 2 show ?case
    using white_count_visit [of c name ps] white_count_le [of ps c name] by auto
qed simp

declare visit.simps [simp del]

fun visit_all :: "preset table \<Rightarrow> string list \<Rightarrow> (string \<Rightarrow> color) \<Rightarrow> config_error option" where
  "visit_all ps [] c = None"
| "visit_all ps (name # names) c =
     (if c name = White
      then (case visit ps name c of Inl e \<Rightarrow> Some e | Inr c \<Rightarrow> visit_all ps names c)
      else visit_all ps names c)"

definition detect_preset_cycles :: "preset table \<Rightarrow> config_error option" where
  "detect_preset_cycles ps = visit_all ps (map fst ps) (\<lambda>_. White)"

fun validate_each :: "validator \<Rightarrow> preset table \<Rightarrow> config_error option" where
  "validate_each v [] = None"
| "validate_each v ((name, p) # t) = or_else (validate_preset v name p) (validate_each v t)"

definition validate_presets :: "validator \<Rightarrow> preset table \<Rightarrow> config_error option" where
  "validate_presets v ps = or_else (validate_each v ps) (detect_preset_cycles ps)"

fun validate_fields_of :: "validator \<Rightarrow> string \<Rightarrow> string list \<Rightarrow> config_error option" where
  "validate_fields_of v name [] = None"
| "validate_fields_of v name (f # fs) =
     (if (case vd_is_rate_field v of None \<Rightarrow> False | Some p \<Rightarrow> p f) then Some (RateInSelector name f)
      else if refused (vd_entity_fields v) f then Some (UnknownSelectorField name f)
      else validate_fields_of v name fs)"

definition validate_selector :: "validator \<Rightarrow> string \<Rightarrow> string \<Rightarrow> config_error option" where
  "validate_selector v name sel =
     (if sel = [] then Some (EmptySelector name)
      else (case compile (vd_regexp v) sel of
          Inl e \<Rightarrow> Some (BadRuleSelector name e)
        | Inr prog \<Rightarrow> validate_fields_of v name (prog_fields prog)))"

fun validate_rules :: "validator \<Rightarrow> (string \<Rightarrow> bool) \<Rightarrow> managed list \<Rightarrow> config_error option" where
  "validate_rules v seen [] = None"
| "validate_rules v seen (m # ms) =
     (if ma_name m = [] then Some EmptyRuleName
      else if seen (ma_name m) then Some (DuplicateRule (ma_name m))
      else if ma_on_drift m \<noteq> [] \<and> \<not> valid_drift (ma_on_drift m) then Some (BadDrift (ma_name m) (ma_on_drift m))
      else or_else (validate_selector v (ma_name m) (ma_selector m))
        (validate_rules v (seen(ma_name m := True)) ms))"

definition validate_config :: "validator \<Rightarrow> config \<Rightarrow> config_error option" where
  "validate_config v c =
     (if cf_version c \<noteq> 1 then Some (BadVersion (cf_version c))
      else if \<not> valid_leaf (cf_leaf c) then Some (BadLeaf ''leaf'' (cf_leaf c))
      else if cf_target_width c < 0 then Some (NegativeWidth (cf_target_width c))
      else or_else (validate_group_by v (cf_group_by c))
        (or_else (validate_metrics v (cf_metrics c))
        (or_else (validate_sort (cf_sort c))
        (if \<not> valid_daemon_use (cf_daemon_use c) then Some (BadDaemonUse (cf_daemon_use c))
         else or_else (validate_presets v (cf_presets c)) (validate_rules v (\<lambda>_. False) (cf_managed c))))))"

section \<open>Loading (\<open>load.go\<close>, \<open>decode.go\<close>)\<close>

datatype format = TOML | YAML | JSON

definition format_from_ext :: "string \<Rightarrow> format option" where
  "format_from_ext ext =
     (let e = to_lower (if has_prefix ext ''.'' then tl ext else ext) in
      if e = ''toml'' then Some TOML
      else if e = ''yaml'' \<or> e = ''yml'' then Some YAML
      else if e = ''json'' then Some JSON
      else None)"

text \<open>\<open>Load\<close>, over a decoder of the three formats.\<close>

definition load :: "(format \<Rightarrow> string \<Rightarrow> (string, raw_config) result) \<Rightarrow> string \<Rightarrow> format \<Rightarrow> validator \<Rightarrow> (config_error, config) result" where
  "load decode data fmt v =
     (case decode fmt data of
        Inl e \<Rightarrow> Inl (DecodeFailed e)
      | Inr raw \<Rightarrow> rbind (normalize_config raw) (\<lambda>c.
          case validate_config v c of Some e \<Rightarrow> Inl e | None \<Rightarrow> Inr c))"

record discovery =
  di_no_config :: bool
  di_explicit :: string
  di_env_value :: string
  di_config_dir :: string

text \<open>\<open>Discover\<close>, over the paths that exist; the directory is a clean path.\<close>

definition discover :: "(string \<Rightarrow> bool) \<Rightarrow> discovery \<Rightarrow> (config_error, string) result" where
  "discover exists d =
     (if di_no_config d then Inr []
      else if di_explicit d \<noteq> [] then Inr (di_explicit d)
      else if di_env_value d \<noteq> [] then Inr (di_env_value d)
      else if di_config_dir d = [] then Inr []
      else (case filter exists (map (\<lambda>f. di_config_dir d @ ''/'' @ f)
                [''config.toml'', ''config.yaml'', ''config.yml'', ''config.json'']) of
          [] \<Rightarrow> Inr []
        | [p] \<Rightarrow> Inr p
        | found \<Rightarrow> Inl (ManyDefaults found)))"

end
