(* ===== verification/Config_Encode.thy ===== *)
theory Config_Encode
  imports Config
begin

text \<open>
  Writing a configuration, \<open>internal/config/encode.go\<close>, and what the loader makes of it. The
  encoders and decoders of the three formats are outside; \<open>read_back\<close> says what a document
  written from the output view holds, as the \<open>omitempty\<close> tags of its fields ask for.
\<close>

section \<open>The output view (\<open>encode.go\<close>)\<close>

record out_metrics =
  om_profile :: string
  om_enable :: "string list"
  om_disable :: "string list"

record out_preset =
  op_extends :: string
  op_interval :: string
  op_group_by :: "string list"
  op_leaf :: string
  op_columns :: "string list"
  op_having :: string
  op_metrics :: "out_metrics option"
  op_sort :: "sort_dir list"

record out_managed =
  oma_name :: string
  oma_selector :: string
  oma_on_drift :: string
  oma_control :: "control_intent option"

record out_config =
  oc_version :: int
  oc_interval :: string
  oc_group_by :: "string list"
  oc_leaf :: string
  oc_columns :: "string list"
  oc_intervals :: "string table"
  oc_metrics :: "out_metrics option"
  oc_sort :: "sort_dir list"
  oc_runtime_dir :: string
  oc_history :: bool
  oc_daemon_use :: string
  oc_daemon_socket :: string
  oc_presets :: "out_preset table"
  oc_managed :: "out_managed list"
  oc_target_width :: int
  oc_collapse_groups :: bool

definition dur :: "int \<Rightarrow> string" where
  "dur d = (if d = 0 then [] else show_duration d)"

definition metrics_to_out :: "metrics_sel \<Rightarrow> out_metrics option" where
  "metrics_to_out m =
     (if ms_profile m \<noteq> [] \<or> ms_enable m \<noteq> [] \<or> ms_disable m \<noteq> []
      then Some \<lparr>om_profile = ms_profile m, om_enable = ms_enable m, om_disable = ms_disable m\<rparr>
      else None)"

definition preset_to_out :: "preset \<Rightarrow> out_preset" where
  "preset_to_out p =
     \<lparr>op_extends = pr_extends p, op_interval = dur (pr_interval p), op_group_by = pr_group_by p,
      op_leaf = pr_leaf p, op_columns = pr_columns p, op_having = pr_having p,
      op_metrics = metrics_to_out (pr_metrics p), op_sort = pr_sort p\<rparr>"

definition presets_to_out :: "preset table \<Rightarrow> out_preset table" where
  "presets_to_out = map (\<lambda>(name, p). (name, preset_to_out p))"

definition managed_to_out :: "managed list \<Rightarrow> out_managed list" where
  "managed_to_out = map (\<lambda>m. \<lparr>oma_name = ma_name m, oma_selector = ma_selector m,
     oma_on_drift = ma_on_drift m, oma_control = (if ma_has_control m then Some (ma_control m) else None)\<rparr>)"

definition to_out :: "config \<Rightarrow> out_config" where
  "to_out c =
     \<lparr>oc_version = cf_version c, oc_interval = dur (cf_interval c), oc_group_by = cf_group_by c,
      oc_leaf = cf_leaf c, oc_columns = cf_columns c,
      oc_intervals = map (\<lambda>(k, v). (k, show_duration v)) (cf_intervals c),
      oc_metrics = metrics_to_out (cf_metrics c), oc_sort = cf_sort c,
      oc_runtime_dir = cf_runtime_dir c, oc_history = cf_history c,
      oc_daemon_use = cf_daemon_use c, oc_daemon_socket = cf_daemon_socket c,
      oc_presets = presets_to_out (cf_presets c), oc_managed = managed_to_out (cf_managed c),
      oc_target_width = cf_target_width c, oc_collapse_groups = cf_collapse_groups c\<rparr>"

text \<open>\<open>Encode\<close>, over the three marshallers.\<close>

definition encode :: "(format \<Rightarrow> out_config \<Rightarrow> string) \<Rightarrow> config \<Rightarrow> format \<Rightarrow> string" where
  "encode marshal c fmt = marshal fmt (to_out c)"

section \<open>What a written document holds\<close>

text \<open>A field tagged \<open>omitempty\<close> is absent when its value is the zero value.\<close>

definition kept :: "'a \<Rightarrow> 'a \<Rightarrow> 'a option" where
  "kept zero v = (if v = zero then None else Some v)"

definition metrics_back :: "out_metrics option \<Rightarrow> raw_metrics option" where
  "metrics_back = map_option (\<lambda>m. \<lparr>rm_profile = kept [] (om_profile m), rm_enable = om_enable m, rm_disable = om_disable m\<rparr>)"

definition sort_back :: "sort_dir list \<Rightarrow> raw_sort list" where
  "sort_back = map (\<lambda>s. \<lparr>rs_field = sd_field s, rs_direction = sd_direction s\<rparr>)"

definition preset_back :: "out_preset \<Rightarrow> raw_preset" where
  "preset_back out =
     \<lparr>rp_extends = kept [] (op_extends out), rp_interval = kept [] (op_interval out), rp_group_by = op_group_by out,
      rp_leaf = kept [] (op_leaf out), rp_columns = op_columns out, rp_having = kept [] (op_having out),
      rp_metrics = metrics_back (op_metrics out), rp_sort = sort_back (op_sort out)\<rparr>"

definition managed_back :: "out_managed \<Rightarrow> raw_managed" where
  "managed_back out =
     \<lparr>rma_name = oma_name out, rma_selector = oma_selector out, rma_on_drift = kept [] (oma_on_drift out),
      rma_view = None, rma_control = oma_control out\<rparr>"

definition read_back :: "out_config \<Rightarrow> raw_config" where
  "read_back out =
     \<lparr>rc_version = Some (oc_version out), rc_interval = kept [] (oc_interval out), rc_group_by = oc_group_by out,
      rc_leaf = kept [] (oc_leaf out), rc_columns = oc_columns out, rc_intervals = oc_intervals out,
      rc_metrics = metrics_back (oc_metrics out), rc_sort = sort_back (oc_sort out),
      rc_state = Some \<lparr>rst_runtime_dir = kept [] (oc_runtime_dir out), rst_history = Some (oc_history out)\<rparr>,
      rc_daemon = Some \<lparr>rd_use = kept [] (oc_daemon_use out), rd_socket = kept [] (oc_daemon_socket out)\<rparr>,
      rc_presets = map (\<lambda>(name, p). (name, preset_back p)) (oc_presets out),
      rc_managed = map managed_back (oc_managed out),
      rc_target_width = kept 0 (oc_target_width out), rc_collapse_groups = kept False (oc_collapse_groups out),
      rc_allow_override = None\<rparr>"

section \<open>The round trip\<close>

text \<open>What is lost: the views of managed rules and the permission to override built-in presets.\<close>

definition strip_rule :: "managed \<Rightarrow> managed" where
  "strip_rule m = m\<lparr>ma_view := no_view, ma_on_drift := (if ma_on_drift m = [] then ''report'' else ma_on_drift m)\<rparr>"

definition strip :: "config \<Rightarrow> config" where
  "strip c = c\<lparr>cf_managed := map strip_rule (cf_managed c), cf_allow_override := False\<rparr>"

text \<open>What normalizing ensures: durations of the type, sort directions filled in, no stray intent.\<close>

definition dur_ok :: "int \<Rightarrow> bool" where "dur_ok d \<longleftrightarrow> 0 \<le> d \<and> d < 2 ^ 63"

definition sort_ok :: "sort_dir list \<Rightarrow> bool" where
  "sort_ok ks \<longleftrightarrow> (\<forall>k \<in> set ks. sd_direction k \<noteq> [])"

definition normal :: "config \<Rightarrow> bool" where
  "normal c \<longleftrightarrow> dur_ok (cf_interval c) \<and> (\<forall>x \<in> set (cf_intervals c). dur_ok (snd x)) \<and>
     (\<forall>x \<in> set (cf_presets c). dur_ok (pr_interval (snd x)) \<and> sort_ok (pr_sort (snd x))) \<and> sort_ok (cf_sort c) \<and>
     (\<forall>m \<in> set (cf_managed c). \<not> ma_has_control m \<longrightarrow> ma_control m = no_control)"

named_theorems backs

lemma parse_parts_bound: "0 \<le> d \<Longrightarrow> d \<le> 2 ^ 63 \<Longrightarrow> parse_parts d s = Some v \<Longrightarrow> 0 \<le> v \<and> v \<le> 2 ^ 63"
proof (induction d s rule: parse_parts.induct)
  case (1 d s)
  show ?case
  proof (cases "s = []")
    case False
    with "1.prems"(3) obtain x r where part: "duration_part s = Some (x, r)"
      by (subst (asm) parse_parts.simps) (auto split: option.splits)
    let ?d = "(d + x) mod 2 ^ 64"
    have "\<not> ?d > 2 ^ 63 \<and> parse_parts ?d r = Some v"
      using "1.prems"(3) False part unfolding parse_parts.simps [of d s]
      by (simp add: Let_def del: parse_parts.simps split: if_splits)
    then show ?thesis using "1.IH" [OF False part refl refl] by simp
  qed (use 1 in \<open>simp add: parse_parts.simps [of d s]\<close>)
qed

lemma parse_duration_bound: "parse_duration s = Some d \<Longrightarrow> d < 2 ^ 63"
  using parse_parts_bound [of 0] by (fastforce simp: parse_duration_def Let_def split: if_splits option.splits)

lemma set_duration_ok: "set_duration s f = Inr d \<Longrightarrow> dur_ok d"
  using parse_duration_bound by (auto simp: set_duration_def dur_ok_def split: option.splits if_splits)

lemma set_duration_dur [backs]: "dur_ok d \<Longrightarrow> set_duration (kept [] (dur d)) f = Inr d"
proof -
  assume d: "dur_ok d"
  have "show_duration d \<noteq> []"
    using parse_show_duration [of d] d by (auto simp: dur_ok_def parse_duration_def)
  then show ?thesis using d parse_show_duration [of d]
    by (simp add: set_duration_def dur_def kept_def dur_ok_def)
qed

lemma set_duration_show [backs]: "dur_ok d \<Longrightarrow> set_duration (Some (show_duration d)) f = Inr d"
  using parse_show_duration [of d] by (simp add: set_duration_def dur_ok_def)

lemma default_kept [backs]: "or_default z (kept z v) = v"
  by (simp add: or_default_def kept_def)

lemma metrics_round [backs]: "normalize_metrics (metrics_back (metrics_to_out m)) = m"
  by (simp add: normalize_metrics_def metrics_back_def metrics_to_out_def default_kept)

lemma sort_round [backs]: "sort_ok ks \<Longrightarrow> normalize_sort (sort_back ks) = ks"
  by (simp add: normalize_sort_def sort_back_def sort_ok_def map_idI)

lemma intervals_round [backs]:
  "\<forall>x \<in> set t. dur_ok (snd x) \<Longrightarrow> normalize_intervals (map (\<lambda>(k, v). (k, show_duration v)) t) = Inr t"
  by (induction t) (auto simp: backs)

lemma preset_round [backs]:
  "dur_ok (pr_interval p) \<Longrightarrow> sort_ok (pr_sort p) \<Longrightarrow> normalize_preset k (preset_back (preset_to_out p)) = Inr p"
  by (simp add: normalize_preset_def preset_back_def preset_to_out_def backs)

lemma presets_round [backs]:
  "\<forall>x \<in> set t. dur_ok (pr_interval (snd x)) \<and> sort_ok (pr_sort (snd x)) \<Longrightarrow>
    normalize_presets (map (\<lambda>(name, p). (name, preset_back p)) (presets_to_out t)) = Inr t"
  by (induction t) (auto simp: presets_to_out_def backs)

lemma managed_round [backs]:
  "\<forall>m \<in> set ms. \<not> ma_has_control m \<longrightarrow> ma_control m = no_control \<Longrightarrow>
    normalize_managed (map managed_back (managed_to_out ms)) = map strip_rule ms"
  by (induction ms)
    (auto simp: normalize_managed_def normalize_rule_def managed_back_def managed_to_out_def strip_rule_def
      or_default_def kept_def)

lemma config_round:
  assumes "normal c" and "cf_leaf c \<noteq> []" and "cf_daemon_use c \<noteq> []"
  shows "normalize_config (read_back (to_out c)) = Inr (strip c)"
proof -
  have lists: "dur_ok (cf_interval c)" "\<forall>x \<in> set (cf_intervals c). dur_ok (snd x)" "sort_ok (cf_sort c)"
    "\<forall>x \<in> set (cf_presets c). dur_ok (pr_interval (snd x)) \<and> sort_ok (pr_sort (snd x))"
    "\<forall>m \<in> set (cf_managed c). \<not> ma_has_control m \<longrightarrow> ma_control m = no_control"
    using assms(1) by (simp_all add: normal_def)
  have filled: "or_default z (kept [] v) = v" if "v \<noteq> []" for z v :: string
    using that by (simp add: or_default_def kept_def)
  show ?thesis
    using assms(2,3) by (simp add: normalize_config_def read_back_def to_out_def strip_def filled
        backs lists or_default_def [of _ "Some _"] or_default_def [of _ None])
qed

lemma normalize_intervals_ok: "normalize_intervals t = Inr t' \<Longrightarrow> (k, d) \<in> set t' \<Longrightarrow> dur_ok d"
  by (induction t arbitrary: t') (auto simp: rbind_eq_Inr dest!: set_duration_ok)

lemma normalize_sort_ok: "sort_ok (normalize_sort ks)"
  by (auto simp: sort_ok_def normalize_sort_def)

lemma normalize_presets_ok:
  "normalize_presets t = Inr t' \<Longrightarrow> (k, p) \<in> set t' \<Longrightarrow> dur_ok (pr_interval p) \<and> sort_ok (pr_sort p)"
  by (induction t arbitrary: t') (auto simp: rbind_eq_Inr normalize_preset_def normalize_sort_ok dest!: set_duration_ok)

lemma normalize_normal: "normalize_config r = Inr c \<Longrightarrow> normal c"
  by (auto simp: normalize_config_def rbind_eq_Inr normal_def normalize_sort_ok normalize_managed_def
      normalize_rule_def or_default_def dest: set_duration_ok normalize_intervals_ok normalize_presets_ok)

section \<open>Validity does not depend on what is lost\<close>

lemma valid_not_empty: "valid_leaf s \<Longrightarrow> s \<noteq> []" "valid_daemon_use s \<Longrightarrow> s \<noteq> []" "valid_drift ''report''"
  by (auto simp: valid_leaf_def valid_daemon_use_def valid_drift_def)

lemma validate_rules_strip: "validate_rules v seen (map strip_rule ms) = validate_rules v seen ms"
  by (induction ms arbitrary: seen) (simp_all add: strip_rule_def valid_not_empty)

lemma validate_strip: "validate_config v (strip c) = validate_config v c"
  by (simp add: validate_config_def strip_def validate_rules_strip)

lemma validated_fields:
  assumes "validate_config v c = None"
  shows "cf_leaf c \<noteq> [] \<and> cf_daemon_use c \<noteq> []"
proof -
  have "or_else a b = None \<longleftrightarrow> a = None \<and> b = None" for a b by (cases a) auto
  then show ?thesis using assms valid_not_empty by (auto simp: validate_config_def split: if_splits)
qed

text \<open>
  Writing a loaded configuration and loading it again, in any format whose decoder reads back
  what its encoder was given, yields the same configuration, except that the views of managed
  rules are gone, overriding built-in presets is no longer allowed and an empty drift mode is
  spelled out.
\<close>

theorem encode_load_round:
  assumes loaded: "load decode data fmt v = Inr c"
    and codec: "decode fmt' (marshal fmt' (to_out c)) = Inr (read_back (to_out c))"
  shows "load decode (encode marshal c fmt') fmt' v = Inr (strip c)"
proof -
  obtain raw where c: "normalize_config raw = Inr c" "validate_config v c = None"
    using loaded by (auto simp: load_def rbind_eq_Inr split: sum.splits option.splits)
  have "normalize_config (read_back (to_out c)) = Inr (strip c)"
    using config_round [OF normalize_normal [OF c(1)]] validated_fields [OF c(2)] by simp
  then show ?thesis using codec c(2) by (simp add: load_def encode_def validate_strip)
qed

end
