(* ===== verification/Config_Correct.thy ===== *)
theory Config_Correct
  imports Config
begin

text \<open>
  What the validation of presets decides: \<open>detect_preset_cycles\<close> accepts exactly the tables in
  which every preset is built on existing presets in finitely many steps, whatever the order of
  the iteration, and the error names a missing parent or a preset on a cycle.
\<close>

section \<open>The specification\<close>

text \<open>A preset and the one it extends.\<close>

definition extends_of :: "preset table \<Rightarrow> (string \<times> string) set" where
  "extends_of ps = {(n, m). \<exists>p. map_of ps n = Some p \<and> pr_extends p \<noteq> [] \<and> m = pr_extends p}"

inductive rooted_at :: "preset table \<Rightarrow> nat \<Rightarrow> string \<Rightarrow> bool" for ps where
  rooted_base: "map_of ps n = Some p \<Longrightarrow> pr_extends p = [] \<Longrightarrow> rooted_at ps 0 n"
| rooted_step: "map_of ps n = Some p \<Longrightarrow> pr_extends p \<noteq> [] \<Longrightarrow> rooted_at ps d (pr_extends p) \<Longrightarrow>
    rooted_at ps (Suc d) n"

definition rooted :: "preset table \<Rightarrow> string \<Rightarrow> bool" where
  "rooted ps n \<longleftrightarrow> (\<exists>d. rooted_at ps d n)"

inductive_cases rooted_atE: "rooted_at ps d n"

lemma rooted_known: "rooted ps n \<Longrightarrow> map_of ps n \<noteq> None"
  by (auto simp: rooted_def elim: rooted_atE)

lemma rooted_extends:
  "rooted_at ps d n \<Longrightarrow> (n, m) \<in> extends_of ps \<Longrightarrow> \<exists>e < d. rooted_at ps e m"
proof (induction rule: rooted_at.cases)
  case (rooted_step n p d)
  then show ?case by (auto simp: extends_of_def)
qed (auto simp: extends_of_def)

lemma rooted_extends_plus:
  "(n, m) \<in> (extends_of ps)\<^sup>+ \<Longrightarrow> rooted_at ps d n \<Longrightarrow> \<exists>e < d. rooted_at ps e m"
proof (induction rule: trancl_induct)
  case (step y z)
  then show ?case using rooted_extends by (meson order.strict_trans)
qed (rule rooted_extends)

lemma rooted_at_unique: "rooted_at ps d n \<Longrightarrow> rooted_at ps e n \<Longrightarrow> d = e"
proof (induction arbitrary: e rule: rooted_at.induct)
  case (rooted_base n p)
  from rooted_base(3) show ?case by (rule rooted_atE) (use rooted_base(1,2) in \<open>simp_all\<close>)
next
  case (rooted_step n p d)
  from rooted_step.prems show ?case
  proof (rule rooted_atE)
    fix q d' assume "e = Suc d'" "map_of ps n = Some q" "rooted_at ps d' (pr_extends q)"
    then show "Suc d = e" using rooted_step.IH [of d'] rooted_step(1) by simp
  qed (use rooted_step(1,2) in simp)
qed

lemma rooted_no_cycle: "rooted ps n \<Longrightarrow> (n, n) \<notin> (extends_of ps)\<^sup>+"
  unfolding rooted_def using rooted_extends_plus rooted_at_unique by (metis nat_neq_iff)

section \<open>The search\<close>

text \<open>The colours mean what they say: black presets are rooted, gray ones are being visited.\<close>

definition coloured :: "preset table \<Rightarrow> string \<Rightarrow> (string \<Rightarrow> color) \<Rightarrow> bool" where
  "coloured ps name c \<longleftrightarrow>
     (\<forall>n. c n = Black \<longrightarrow> rooted ps n) \<and> (\<forall>n. c n = Gray \<longrightarrow> (n, name) \<in> (extends_of ps)\<^sup>*)"

text \<open>What a visit promises: success roots the preset and leaves no new gray one behind.\<close>

definition visit_ok :: "preset table \<Rightarrow> string \<Rightarrow> (string \<Rightarrow> color) \<Rightarrow> (config_error, string \<Rightarrow> color) result \<Rightarrow> bool" where
  "visit_ok ps name c r =
     (case r of
        Inr c' \<Rightarrow> rooted ps name \<and> (\<forall>n. c' n = Black \<longrightarrow> rooted ps n) \<and> (\<forall>n. c' n = Gray \<longrightarrow> c n = Gray)
      | Inl (MissingParent m) \<Rightarrow> map_of ps m = None \<and> (name, m) \<in> (extends_of ps)\<^sup>*
      | Inl (InheritanceCycle m) \<Rightarrow> (name, m) \<in> (extends_of ps)\<^sup>* \<and> (m, m) \<in> (extends_of ps)\<^sup>+
      | _ \<Rightarrow> False)"

lemma visit_meets: "coloured ps name c \<Longrightarrow> visit_ok ps name c (visit ps name c)"
proof (induction ps name c rule: visit.induct)
  case (1 ps name c)
  show ?case
  proof (cases "map_of ps name")
    case None
    then show ?thesis by (simp add: visit.simps [of ps name] visit_ok_def)
  next
    case (Some p)
    let ?c = "c(name := Gray)" and ?m = "pr_extends p"
    have black: "rooted ps n" if "c n = Black" for n
      using 1(2) that by (simp add: coloured_def)
    show ?thesis
    proof (cases "?m = []")
      case True
      then have "rooted ps name" using Some rooted_base by (auto simp: rooted_def)
      then show ?thesis using Some True black by (auto simp: visit.simps [of ps name] visit_ok_def)
    next
      case False
      then have edge: "(name, ?m) \<in> extends_of ps" using Some by (auto simp: extends_of_def)
      have up: "rooted ps name" if "rooted ps ?m"
        using that rooted_step [OF Some False] by (auto simp: rooted_def)
      have col: "coloured ps ?m ?c"
        using 1(2) edge black unfolding coloured_def
        by (auto split: if_splits intro: rtrancl_into_rtrancl r_into_rtrancl)
      show ?thesis
      proof (cases "?c ?m")
        case Gray
        then have "(?m, name) \<in> (extends_of ps)\<^sup>*"
          using 1(2) by (auto simp: coloured_def split: if_splits)
        then have "(?m, ?m) \<in> (extends_of ps)\<^sup>+" using edge by (rule rtrancl_into_trancl1)
        then show ?thesis using Some False Gray edge
          by (auto simp: visit.simps [of ps name] visit_ok_def)
      next
        case Black
        then have "rooted ps ?m" using black by (auto split: if_splits)
        then show ?thesis using Some False Black black up
          by (auto simp: visit.simps [of ps name] visit_ok_def Let_def)
      next
        case White
        have IH: "visit_ok ps ?m ?c (visit ps ?m ?c)"
          by (rule "1.IH" [OF Some refl False White col])
        show ?thesis
        proof (cases "visit ps ?m ?c")
          case (Inl e)
          then show ?thesis using IH Some False White edge
            by (auto simp: visit.simps [of ps name] visit_ok_def Let_def
                split: config_error.splits intro: converse_rtrancl_into_rtrancl)
        next
          case (Inr c')
          then show ?thesis using IH Some False White up
            by (auto simp: visit.simps [of ps name] visit_ok_def Let_def split: if_splits)
        qed
      qed
    qed
  qed
qed

text \<open>Between two visits nothing is gray.\<close>

definition settled :: "preset table \<Rightarrow> (string \<Rightarrow> color) \<Rightarrow> bool" where
  "settled ps c \<longleftrightarrow> (\<forall>n. c n = Black \<longrightarrow> rooted ps n) \<and> (\<forall>n. c n \<noteq> Gray)"

lemma visit_settled:
  assumes "settled ps c" and "visit ps name c = Inr c'"
  shows "settled ps c' \<and> rooted ps name"
proof -
  have "coloured ps name c" using assms(1) by (simp add: settled_def coloured_def)
  from visit_meets [OF this] show ?thesis using assms by (auto simp: visit_ok_def settled_def)
qed

lemma visit_all_ok:
  "settled ps c \<Longrightarrow> visit_all ps names c = None \<Longrightarrow> n \<in> set names \<Longrightarrow> rooted ps n"
proof (induction names arbitrary: c)
  case (Cons name names)
  show ?case
  proof (cases "c name")
    case White
    then obtain c' where c': "visit ps name c = Inr c'" "visit_all ps names c' = None"
      using Cons.prems by (auto split: sum.splits)
    from visit_settled [OF Cons.prems(1) c'(1)] show ?thesis
      using Cons.IH [OF _ c'(2)] Cons.prems(3) by auto
  qed (use Cons in \<open>auto simp: settled_def\<close>)
qed simp

lemma visit_all_error:
  "settled ps c \<Longrightarrow> visit_all ps names c = Some e \<Longrightarrow>
    \<exists>n \<in> set names. \<exists>m. (n, m) \<in> (extends_of ps)\<^sup>* \<and>
      ((e = MissingParent m \<and> map_of ps m = None) \<or> (e = InheritanceCycle m \<and> (m, m) \<in> (extends_of ps)\<^sup>+))"
proof (induction names arbitrary: c)
  case (Cons name names)
  show ?case
  proof (cases "c name = White")
    case True
    show ?thesis
    proof (cases "visit ps name c")
      case (Inl e')
      have "coloured ps name c" using Cons.prems(1) by (simp add: settled_def coloured_def)
      from visit_meets [OF this] show ?thesis
        using Inl True Cons.prems(2) by (auto simp: visit_ok_def split: config_error.splits)
    next
      case (Inr c')
      then show ?thesis using visit_settled [OF Cons.prems(1)] Cons True by auto
    qed
  qed (use Cons in auto)
qed simp

lemma rooted_reaches: "(n, m) \<in> (extends_of ps)\<^sup>* \<Longrightarrow> rooted ps n \<Longrightarrow> rooted ps m"
  by (induction rule: rtrancl_induct) (auto simp: rooted_def dest: rooted_extends)

text \<open>A refused table is refused for a reason it has.\<close>

lemma preset_cycles_error:
  assumes "detect_preset_cycles ps = Some e"
  shows "(\<exists>n. e = MissingParent n \<and> map_of ps n = None \<and> n \<in> snd ` extends_of ps) \<or>
    (\<exists>n. e = InheritanceCycle n \<and> (n, n) \<in> (extends_of ps)\<^sup>+)"
proof -
  have "settled ps (\<lambda>_. White)" by (simp add: settled_def)
  from visit_all_error [OF this assms [unfolded detect_preset_cycles_def]] obtain n m where
    n: "n \<in> set (map fst ps)" "(n, m) \<in> (extends_of ps)\<^sup>*"
    and m: "(e = MissingParent m \<and> map_of ps m = None) \<or> (e = InheritanceCycle m \<and> (m, m) \<in> (extends_of ps)\<^sup>+)"
    by auto
  from m show ?thesis
  proof (elim disjE conjE)
    assume e: "e = MissingParent m" "map_of ps m = None"
    then have "n \<noteq> m" using n(1) by (auto simp: map_of_eq_None_iff)
    with n(2) obtain k where "(k, m) \<in> extends_of ps" by (metis rtranclE)
    then show ?thesis using e by force
  qed blast
qed

lemma preset_cycles_accepts:
  "detect_preset_cycles ps = None \<longleftrightarrow> (\<forall>n \<in> set (map fst ps). rooted ps n)"
proof
  assume "detect_preset_cycles ps = None"
  then show "\<forall>n \<in> set (map fst ps). rooted ps n"
    using visit_all_ok [of ps "\<lambda>_. White"] by (auto simp: settled_def detect_preset_cycles_def)
next
  assume all: "\<forall>n \<in> set (map fst ps). rooted ps n"
  have known: "rooted ps n" if "(n, m) \<in> extends_of ps" for n m
    using that all by (force simp: extends_of_def dest: map_of_SomeD)
  show "detect_preset_cycles ps = None"
  proof (rule ccontr)
    assume "detect_preset_cycles ps \<noteq> None"
    then obtain e where e: "detect_preset_cycles ps = Some e" by blast
    from preset_cycles_error [OF this] consider
      n k where "map_of ps n = None" "(k, n) \<in> extends_of ps" | n where "(n, n) \<in> (extends_of ps)\<^sup>+"
      by auto
    then show False
    proof cases
      case 1
      then show False using known rooted_reaches rooted_known by blast
    next
      case (2 n)
      then have "rooted ps n" using known by (metis tranclD)
      then show False using 2 rooted_no_cycle by blast
    qed
  qed
qed

text \<open>
  C36: inheritance of presets. The check accepts a table exactly when every preset in it is
  rooted, that is its chain of parents exists and ends, in whatever order the table is iterated.
  Otherwise the error is true: the preset reported missing is extended by one of the table and
  absent from it, and a preset reported as a cycle lies on one.
\<close>

theorem preset_cycles_spec:
  "case detect_preset_cycles ps of
     None \<Rightarrow> list_all (rooted ps) (map fst ps)
   | Some e \<Rightarrow> \<not> list_all (rooted ps) (map fst ps) \<and>
       ((\<exists>n. e = MissingParent n \<and> map_of ps n = None \<and> n \<in> snd ` extends_of ps) \<or>
        (\<exists>n. e = InheritanceCycle n \<and> (n, n) \<in> (extends_of ps)\<^sup>+))"
  using preset_cycles_accepts [of ps] preset_cycles_error [of ps]
  by (auto simp: list_all_iff split: option.split)

end
