(* ===== verification/Daemon.thy ===== *)
theory Daemon
  imports Control_Restore Collect Query_Spec
begin

text \<open>
  The daemon, \<open>internal/daemon\<close>: the engine that samples and reconciles (\<open>engine.go\<close>,
  \<open>resolve.go\<close>), the control requests (\<open>control.go\<close>) and the dispatch of the protocol
  (\<open>server.go\<close>, \<open>protocol.go\<close>). A request and a tick each work on the engine state, the world
  behind the ports and the audit log. JSON and sockets stay outside: requests and responses
  are values.
\<close>

section \<open>State and messages\<close>

record dengine =
  de_reg :: registry
  de_dims :: dimensions
  de_resolvers :: "(process \<Rightarrow> process) list"
  de_sampler :: sampler
  de_mgr :: manager
  de_latest :: "process list"
  de_generation :: int
  de_wall_time :: int
  de_elapsed :: int

text \<open>The ports of the engine and the server: regular expressions, the controller, the state saver.\<close>

record 'w ports =
  pt_regexp :: regexp_compile
  pt_controller :: "'w controller"
  pt_caps :: "'w \<Rightarrow> control_caps"
  pt_saver :: "('w \<Rightarrow> control_state \<Rightarrow> 'w \<times> string option) option"
  pt_owner_uid :: int

datatype daemon_error =
    BadPid string
  | PidNotFound int
  | BadSelector parse_error
  | ControlFailed control_error
  | BadGroupTarget string
  | UnknownTargetKind string
  | NiceMissing
  | UnknownOp string
  | MissingPayload
  | SaveFailed string
  | SpecFailed spec_error
  | QueryFailed group_error
  | UnknownRequest
  | SampleFailed string
  | BadRequest string
  | Unauthorized

record query_req =
  qr_group_by :: string
  qr_leaf :: string
  qr_sort :: string
  qr_columns :: string
  qr_metrics :: string
  qr_select :: string
  qr_having :: string

record control_req =
  cr_op :: string
  cr_target :: string
  cr_nice :: "int option"
  cr_force :: bool
  cr_signal :: string
  cr_dry_run :: bool

record request =
  rq_version :: int
  rq_type :: string
  rq_query :: "query_req option"
  rq_control :: "control_req option"

record health_resp =
  he_generation :: int
  he_clients :: int
  he_processes :: int

record hello_resp =
  hr_version :: int
  hr_nice_ctl :: bool
  hr_signal_ctl :: bool

datatype response =
    RespError daemon_error
  | RespHello hello_resp
  | RespRows query_result
  | RespManaged "target list"
  | RespControl apply_result
  | RespHealth health_resp

definition protocol_version :: int where "protocol_version = 1"

text \<open>What a request or a tick works on.\<close>

type_synonym 'w dstate = "dengine \<times> 'w \<times> event list"

definition new_dengine :: "registry \<Rightarrow> dimensions \<Rightarrow> manager \<Rightarrow> (process \<Rightarrow> process) list \<Rightarrow> dengine" where
  "new_dengine reg ds mgr resolvers =
     \<lparr>de_reg = reg, de_dims = ds, de_resolvers = resolvers, de_sampler = new_sampler, de_mgr = mgr,
      de_latest = [], de_generation = 0, de_wall_time = 0, de_elapsed = 0\<rparr>"

section \<open>Resolving targets (\<open>resolve.go\<close>, \<open>engine.go\<close>)\<close>

definition split_target :: "string \<Rightarrow> string \<times> string \<times> bool" where
  "split_target spec = (case str_cut (CHR '':'') spec of None \<Rightarrow> ([], spec, False) | Some (k, a) \<Rightarrow> (k, a, True))"

definition instance_of :: "process \<Rightarrow> instance_ref" where
  "instance_of p = \<lparr>in_id = p_id p, in_pid = p_pid p, in_name = []\<rparr>"

definition instances_for_pid :: "'w controller \<Rightarrow> 'w \<Rightarrow> string \<Rightarrow> (daemon_error, instance_ref list) result" where
  "instances_for_pid ct w s =
     (case atoi s of
        (_, Some _) \<Rightarrow> Inl (BadPid s)
      | (pid, None) \<Rightarrow>
          (case ct_read_identity ct w pid of
             None \<Rightarrow> Inl (PidNotFound pid)
           | Some i \<Rightarrow> Inr [\<lparr>in_id = i, in_pid = pid, in_name = []\<rparr>]))"

definition snapshot_input :: "dengine \<Rightarrow> query_input" where
  "snapshot_input d = \<lparr>in_generation = de_generation d, in_wall_time = de_wall_time d,
     in_elapsed = de_elapsed d, in_processes = de_latest d, in_host_metrics = Map.empty\<rparr>"

definition instances_by_selector ::
  "regexp_compile \<Rightarrow> dengine \<Rightarrow> string \<Rightarrow> (daemon_error, instance_ref list) result" where
  "instances_by_selector rx d sel =
     (case compile rx sel of
        Inl e \<Rightarrow> Inl (BadSelector e)
      | Inr prog \<Rightarrow> Inr (map instance_of (filter (eval_entity rx prog) (in_processes (snapshot_input d)))))"

definition group_matches :: "string \<Rightarrow> string \<Rightarrow> process \<Rightarrow> bool" where
  "group_matches field value p =
     (case entity_field p field of
        VStr s \<Rightarrow> s = value
      | VNum n \<Rightarrow> show_int (f_trunc n) = value
      | _ \<Rightarrow> False)"

definition instances_by_group :: "dengine \<Rightarrow> string \<Rightarrow> (daemon_error, instance_ref list) result" where
  "instances_by_group d arg =
     (case str_cut (CHR ''='') arg of
        None \<Rightarrow> Inl (BadGroupTarget arg)
      | Some (field, value) \<Rightarrow>
          Inr (map instance_of (filter (group_matches field value) (in_processes (snapshot_input d)))))"

fun map_error :: "('a \<Rightarrow> 'b) \<Rightarrow> ('a, 'c) result \<Rightarrow> ('b, 'c) result" where
  "map_error f (Inl e) = Inl (f e)"
| "map_error f (Inr x) = Inr x"

definition resolve_instances :: "'w ports \<Rightarrow> dengine \<Rightarrow> 'w \<Rightarrow> string \<Rightarrow> (daemon_error, instance_ref list) result" where
  "resolve_instances P d w spec =
     (let (kind, arg, has_prefix) = split_target spec in
      if \<not> has_prefix then instances_for_pid (pt_controller P) w spec
      else if kind = ''pid'' then instances_for_pid (pt_controller P) w arg
      else if kind = ''managed'' then map_error ControlFailed (instances_of arg (mg_state (de_mgr d)))
      else if kind = ''selector'' then instances_by_selector (pt_regexp P) d arg
      else if kind = ''group'' then instances_by_group d arg
      else Inl (UnknownTargetKind kind))"

section \<open>Sampling, queries, health (\<open>engine.go\<close>)\<close>

definition light_metrics :: "dengine \<Rightarrow> metric_id list" where
  "light_metrics d = (case resolve_profile (de_reg d) ''light'' of Inl _ \<Rightarrow> [] | Inr ids \<Rightarrow> ids)"

definition resolve_process :: "dengine \<Rightarrow> process \<Rightarrow> process" where
  "resolve_process d p = fold (\<lambda>r p. r p) (de_resolvers d) p"

definition tick :: "'w ports \<Rightarrow> source_reading \<Rightarrow> 'w dstate \<Rightarrow> 'w dstate \<times> daemon_error option" where
  "tick P r s =
     (let (d, w, evs) = s; (sm, res) = sample (de_sampler d) r (light_metrics d); d = d\<lparr>de_sampler := sm\<rparr> in
      case res of
        Inl e \<Rightarrow> ((d, w, evs), Some (SampleFailed e))
      | Inr snap \<Rightarrow>
          let d = d\<lparr>de_latest := map (resolve_process d) (sn_processes snap), de_generation := sn_generation snap,
                    de_wall_time := sn_wall_time snap, de_elapsed := sn_elapsed snap\<rparr>;
              (mgr, w, evs) = reconcile (pt_controller P) (\<lambda>w. instances_by_selector (pt_regexp P) d) (de_mgr d) w evs
          in ((d\<lparr>de_mgr := mgr\<rparr>, w, evs), None))"

definition install_policies :: "policy_spec list \<Rightarrow> dengine \<Rightarrow> dengine" where
  "install_policies specs d =
     d\<lparr>de_mgr := (de_mgr d)\<lparr>mg_state := set_policies specs (mg_state (de_mgr d))\<rparr>\<rparr>"

text \<open>A reload whose configuration does not load leaves the policies as they are.\<close>

definition reload :: "('e, policy_spec list) result \<Rightarrow> dengine \<Rightarrow> dengine \<times> 'e option" where
  "reload loaded d =
     (case loaded of Inl e \<Rightarrow> (d, Some e) | Inr specs \<Rightarrow> (install_policies specs d, None))"

definition req_to_flags :: "query_req \<Rightarrow> flags" where
  "req_to_flags q = \<lparr>flg_group_by = qr_group_by q, flg_leaf = qr_leaf q, flg_sort = qr_sort q,
     flg_columns = qr_columns q, flg_profile = qr_metrics q, flg_overrides = [], flg_format = [],
     flg_select = qr_select q, flg_having = qr_having q, flg_number = 0, flg_human = False,
     flg_target_width = 0, flg_collapse_groups = False\<rparr>"

definition run_query ::
  "regexp_compile \<Rightarrow> dengine \<Rightarrow> flags \<Rightarrow> (daemon_error, query_result \<times> string list) result" where
  "run_query rx d f =
     (case build_spec rx (de_reg d) f of
        Inl e \<Rightarrow> Inl (SpecFailed e)
      | Inr r \<Rightarrow>
          (case build_query \<lparr>e_reg = de_reg d, e_dims = de_dims d\<rparr> (snapshot_input d) (rv_spec r) of
             Inl e \<Rightarrow> Inl (QueryFailed e)
           | Inr res \<Rightarrow> Inr (res, rv_columns r)))"

definition health :: "dengine \<Rightarrow> int \<Rightarrow> health_resp" where
  "health d clients = \<lparr>he_generation = de_generation d, he_clients = clients,
     he_processes = int (length (de_latest d))\<rparr>"

section \<open>Control requests (\<open>control.go\<close>)\<close>

definition target_name :: "string \<Rightarrow> string" where
  "target_name spec =
     (case str_cut (CHR '':'') spec of
        Some (kind, arg) \<Rightarrow> if kind = ''managed'' then arg else spec
      | None \<Rightarrow> spec)"

definition default_mode :: "string \<Rightarrow> binding_mode" where
  "default_mode spec = (if has_prefix spec ''pid:'' \<or> has_prefix spec ''tid:'' then ModeSnapshot else ModeFollow)"

definition selector_of :: "string \<Rightarrow> string" where
  "selector_of spec =
     (case str_cut (CHR '':'') spec of
        Some (kind, arg) \<Rightarrow> if kind = ''selector'' then arg else []
      | None \<Rightarrow> [])"

definition ensure_target :: "'w ports \<Rightarrow> string \<Rightarrow> dengine \<Rightarrow> 'w \<Rightarrow> (daemon_error, string) result \<times> dengine" where
  "ensure_target P spec d w =
     (let name = target_name spec in
      if find_target (st_targets (mg_state (de_mgr d))) name \<noteq> None then (Inr name, d)
      else (case resolve_instances P d w spec of
          Inl e \<Rightarrow> (Inl e, d)
        | Inr insts \<Rightarrow>
            let (st, i) = manage (ct_now (pt_controller P) w) name (default_mode spec) (selector_of spec) insts
                  (mg_state (de_mgr d))
            in (Inr name, d\<lparr>de_mgr := (de_mgr d)\<lparr>mg_state := st\<rparr>\<rparr>)))"

text \<open>The conversion to \<open>ports.Signal\<close>.\<close>

definition signal_of :: "string \<Rightarrow> signal" where
  "signal_of s =
     (if s = ''STOP'' then SigStop else if s = ''CONT'' then SigCont else if s = ''TERM'' then SigTerm
      else if s = ''KILL'' then SigKill else if s = ''HUP'' then SigHUP else if s = ''INT'' then SigINT
      else SigOther s)"

text \<open>A manager operation on the state of the daemon.\<close>

definition on_manager ::
  "(manager \<Rightarrow> 'w \<Rightarrow> event list \<Rightarrow> (control_error, apply_result) result \<times> manager \<times> 'w \<times> event list) \<Rightarrow>
    'w dstate \<Rightarrow> (daemon_error, apply_result) result \<times> 'w dstate" where
  "on_manager f s =
     (let (d, w, evs) = s; (res, mgr, w, evs) = f (de_mgr d) w evs
      in (map_error ControlFailed res, d\<lparr>de_mgr := mgr\<rparr>, w, evs))"

definition run_named ::
  "'w ports \<Rightarrow> control_req \<Rightarrow> string \<Rightarrow> 'w dstate \<Rightarrow> (daemon_error, apply_result) result \<times> 'w dstate" where
  "run_named P c name s =
     (let ct = pt_controller P; dry = cr_dry_run c in
      if cr_op c = ''set-nice'' then
        (case cr_nice c of None \<Rightarrow> (Inl NiceMissing, s) | Some n \<Rightarrow> on_manager (set_nice ct name n dry) s)
      else if cr_op c = ''stop'' then on_manager (set_stop ct name True dry) s
      else if cr_op c = ''continue'' then on_manager (set_stop ct name False dry) s
      else if cr_op c = ''freeze'' then on_manager (set_freeze ct name True False dry) s
      else if cr_op c = ''thaw'' then on_manager (set_freeze ct name False False dry) s
      else (Inl (UnknownOp (cr_op c)), s))"

definition run_control ::
  "'w ports \<Rightarrow> control_req \<Rightarrow> 'w dstate \<Rightarrow> (daemon_error, apply_result) result \<times> 'w dstate" where
  "run_control P c s =
     (let (d, w, evs) = s; ct = pt_controller P; mgr = de_mgr d in
      if cr_op c = ''restore'' then on_manager (restore ct (target_name (cr_target c)) (cr_force c) (cr_dry_run c)) s
      else if cr_op c = ''unmanage'' then
        (case unmanage (ct_now ct w) (target_name (cr_target c)) (mg_state mgr) of
           Inl e \<Rightarrow> (Inl (ControlFailed e), s)
         | Inr st \<Rightarrow> (Inr new_apply_result, d\<lparr>de_mgr := mgr\<lparr>mg_state := st\<rparr>\<rparr>, w, evs))
      else if cr_op c = ''signal'' then
        (case resolve_instances P d w (cr_target c) of
           Inl e \<Rightarrow> (Inl e, s)
         | Inr insts \<Rightarrow>
             let (res, w) = signal_instances ct (mg_safeguards mgr) insts (signal_of (to_upper (cr_signal c)))
                   (cr_dry_run c) w
             in (Inr res, d, w, evs))
      else (case ensure_target P (cr_target c) d w of
          (Inl e, d) \<Rightarrow> (Inl e, d, w, evs)
        | (Inr name, d) \<Rightarrow> run_named P c name (d, w, evs)))"

definition control_request :: "'w ports \<Rightarrow> control_req option \<Rightarrow> 'w dstate \<Rightarrow> response \<times> 'w dstate" where
  "control_request P req s =
     (case req of
        None \<Rightarrow> (RespError MissingPayload, s)
      | Some c \<Rightarrow>
          (case run_control P c s of
             (Inl e, s) \<Rightarrow> (RespError e, s)
           | (Inr res, d, w, evs) \<Rightarrow>
               (case pt_saver P of
                  None \<Rightarrow> (RespControl res, d, w, evs)
                | Some save \<Rightarrow>
                    if cr_dry_run c then (RespControl res, d, w, evs)
                    else (case save w (mg_state (de_mgr d)) of
                        (w, Some e) \<Rightarrow> (RespError (SaveFailed e), d, w, evs)
                      | (w, None) \<Rightarrow> (RespControl res, d, w, evs)))))"

section \<open>The protocol (\<open>server.go\<close>)\<close>

definition hello :: "'w ports \<Rightarrow> 'w \<Rightarrow> response" where
  "hello P w = RespHello \<lparr>hr_version = protocol_version, hr_nice_ctl = cap_nice (pt_caps P w),
     hr_signal_ctl = cap_signal (pt_caps P w)\<rparr>"

definition query_request :: "'w ports \<Rightarrow> query_req option \<Rightarrow> dengine \<Rightarrow> response" where
  "query_request P req d =
     (case req of
        None \<Rightarrow> RespError MissingPayload
      | Some q \<Rightarrow>
          (case run_query (pt_regexp P) d (req_to_flags q) of
             Inl e \<Rightarrow> RespError e
           | Inr (res, cols) \<Rightarrow> RespRows res))"

definition dispatch :: "'w ports \<Rightarrow> int \<Rightarrow> request \<Rightarrow> 'w dstate \<Rightarrow> response \<times> 'w dstate" where
  "dispatch P clients req s =
     (let (d, w, evs) = s in
      if rq_type req = ''hello'' then (hello P w, s)
      else if rq_type req = ''query'' then (query_request P (rq_query req) d, s)
      else if rq_type req = ''managed'' then (RespManaged (st_targets (mg_state (de_mgr d))), s)
      else if rq_type req = ''control'' then control_request P (rq_control req) s
      else if rq_type req = ''health'' then (RespHealth (health d clients), s)
      else (RespError UnknownRequest, s))"

text \<open>
  One connection: the peer's uid as the socket reports it, then one response per line, whether
  the line decodes or not.
\<close>

fun serve_lines :: "'w ports \<Rightarrow> int \<Rightarrow> (string, request) result list \<Rightarrow> 'w dstate \<Rightarrow> response list \<times> 'w dstate" where
  "serve_lines P clients [] s = ([], s)"
| "serve_lines P clients (line # lines) s =
     (let (resp, s) = (case line of Inl e \<Rightarrow> (RespError (BadRequest e), s) | Inr req \<Rightarrow> dispatch P clients req s);
          (resps, s) = serve_lines P clients lines s
      in (resp # resps, s))"

definition handle ::
  "'w ports \<Rightarrow> int option \<Rightarrow> int \<Rightarrow> (string, request) result list \<Rightarrow> 'w dstate \<Rightarrow> response list \<times> 'w dstate" where
  "handle P peer clients lines s =
     (if peer \<noteq> Some (pt_owner_uid P) then ([RespError Unauthorized], s)
      else serve_lines P (clients + 1) lines s)"

end
