(* ===== verification/Daemon_Invariant.thy ===== *)
theory Daemon_Invariant
  imports Daemon
begin

text \<open>
  What holds of the managed targets in every state the daemon reaches: the steps of the daemon
  as a relation, the invariant of the target list, and what a tick leaves alone.
\<close>

section \<open>The frame of a target\<close>

text \<open>What an operation on a target keeps: everything but its desires and the fields of its bindings.\<close>

definition same_frame :: "target \<Rightarrow> target \<Rightarrow> bool" where
  "same_frame t t' \<longleftrightarrow> t_id t' = t_id t \<and> t_name t' = t_name t \<and> t_origin t' = t_origin t \<and>
     t_binding_mode t' = t_binding_mode t \<and> t_selector t' = t_selector t \<and>
     t_snapshot_ids t' = t_snapshot_ids t \<and> t_on_drift t' = t_on_drift t \<and> t_active t' = t_active t \<and>
     list_all2 same_binding (t_bindings t) (t_bindings t')"

lemma run_op_frame:
  "same_frame t (fst (run_op ct sg op t c))"
proof -
  have "list_all2 same_binding (t_bindings t) (t_bindings (fst (run_op ct sg op t c)))"
    by (rule list_all2_mono [OF keeps_run_op]) (simp add: keeps_def)
  then show ?thesis
    by (cases op) (auto simp: same_frame_def target_ops Let_def case_prod_beta)
qed

lemma frame_bindings:
  assumes "same_frame t t'"
  shows "map b_id (t_bindings t') = map b_id (t_bindings t)" "t_bindings t' = [] \<longleftrightarrow> t_bindings t = []"
proof -
  have "list_all2 same_binding (t_bindings t) (t_bindings t')"
    using assms by (simp add: same_frame_def)
  then show "map b_id (t_bindings t') = map b_id (t_bindings t)" "t_bindings t' = [] \<longleftrightarrow> t_bindings t = []"
    by (induction rule: list_all2_induct) (simp_all add: same_binding_def)
qed

section \<open>The invariant of the target list\<close>

text \<open>
  A runtime target is active exactly when it has bindings, and in snapshot mode it is bound to
  exactly the instances it was created for. A policy target follows its selector.
\<close>

definition target_wf :: "target \<Rightarrow> bool" where
  "target_wf t \<longleftrightarrow> (case t_origin t of
      OriginRuntime \<Rightarrow> t_id t = ''runtime:'' @ t_name t \<and> (t_active t \<longleftrightarrow> t_bindings t \<noteq> []) \<and>
        (t_binding_mode t = ModeSnapshot \<longrightarrow> map b_id (t_bindings t) = t_snapshot_ids t)
    | OriginConfig \<Rightarrow> t_id t = ''config:'' @ t_name t \<and> t_binding_mode t = ModeFollow \<and>
        t_on_drift t \<in> {''report'', ''reapply'', ''adopt'', ''ignore''})"

definition runtime :: "target list \<Rightarrow> target list" where
  "runtime ts = filter (\<lambda>t. t_origin t = OriginRuntime) ts"

definition targets_wf :: "target list \<Rightarrow> bool" where
  "targets_wf ts \<longleftrightarrow> (\<forall>t \<in> set ts. target_wf t) \<and> distinct (map t_name (runtime ts))"

lemma frame_wf: "same_frame t t' \<Longrightarrow> target_wf t \<Longrightarrow> target_wf t'"
  using frame_bindings [of t t'] by (auto simp: target_wf_def same_frame_def split: origin.splits)

lemma runtime_names_update:
  "i < length ts \<Longrightarrow> t_origin t = t_origin (ts ! i) \<Longrightarrow> t_name t = t_name (ts ! i) \<Longrightarrow>
    map t_name (runtime (ts[i := t])) = map t_name (runtime ts)"
proof (induction ts arbitrary: i)
  case (Cons x ts)
  then show ?case by (cases i) (auto simp: runtime_def)
qed simp

lemma targets_wf_update:
  assumes "targets_wf ts" and "i < length ts" and "target_wf t"
    and "t_origin t = t_origin (ts ! i)" and "t_name t = t_name (ts ! i)"
  shows "targets_wf (ts[i := t])"
  using assms runtime_names_update [OF assms(2,4,5)] set_update_subset_insert [of ts i t]
  by (auto simp: targets_wf_def)

lemma runtime_update_config:
  "i < length ts \<Longrightarrow> t_origin (ts ! i) = OriginConfig \<Longrightarrow> t_origin t = OriginConfig \<Longrightarrow>
    runtime (ts[i := t]) = runtime ts"
proof (induction ts arbitrary: i)
  case (Cons x ts)
  then show ?case by (cases i) (auto simp: runtime_def)
qed simp

lemma find_target_bound: "find_target ts name = Some i \<Longrightarrow> i < length ts"
  by (induction ts arbitrary: i) (auto split: if_splits)

lemma find_target_None:
  "find_target ts name = None \<longleftrightarrow> (\<forall>t \<in> set ts. t_id t \<noteq> name \<and> t_name t \<noteq> name)"
  by (induction ts) auto

section \<open>Operations keep it\<close>

lemma on_target_wf:
  assumes "targets_wf (st_targets (mg_state m))" and "\<And>t c. same_frame t (fst (f t c))"
  shows "targets_wf (st_targets (mg_state (fst (snd (on_target ct f name m w evs)))))"
proof (cases "find_target (st_targets (mg_state m)) name")
  case (Some i)
  let ?ts = "st_targets (mg_state m)" let ?t = "fst (f (?ts ! i) (start_ctx w evs))"
  have "i < length ?ts" using Some by (rule find_target_bound)
  moreover have "same_frame (?ts ! i) ?t" by (rule assms(2))
  ultimately have "targets_wf (?ts[i := ?t])"
    using assms(1) frame_wf by (intro targets_wf_update) (auto simp: targets_wf_def same_frame_def)
  then show ?thesis
    using Some by (simp add: on_target_def Let_def case_prod_beta update_target_def)
qed (use assms in \<open>simp add: on_target_def\<close>)

lemma set_ops_wf:
  assumes "targets_wf (st_targets (mg_state m))"
  shows "targets_wf (st_targets (mg_state (fst (snd (set_nice ct name n dry m w evs)))))"
    "targets_wf (st_targets (mg_state (fst (snd (set_stop ct name st dry m w evs)))))"
    "targets_wf (st_targets (mg_state (fst (snd (set_freeze ct name fr fo dry m w evs)))))"
    "targets_wf (st_targets (mg_state (fst (snd (restore ct name fo dry m w evs)))))"
  using run_op_frame [of _ ct "mg_safeguards m" "OpNice n dry"] run_op_frame [of _ ct "mg_safeguards m" "OpStop st dry"]
    run_op_frame [of _ ct "mg_safeguards m" "OpFreeze fr fo dry"] run_op_frame [of _ ct "mg_safeguards m" "OpRestore fo dry"]
  by (simp_all add: set_nice_def set_stop_def set_freeze_def restore_def on_target_wf [OF assms])

lemma unmanage_wf:
  assumes "targets_wf (st_targets s)" and "unmanage now name s = Inr s'"
  shows "targets_wf (st_targets s')"
proof -
  obtain i where i: "find_target (st_targets s) name = Some i"
      "st_targets s' = take i (st_targets s) @ drop (Suc i) (st_targets s)"
    using assms(2) by (auto simp: unmanage_def split: option.splits)
  have "st_targets s = take i (st_targets s) @ st_targets s ! i # drop (Suc i) (st_targets s)"
    by (rule id_take_nth_drop) (rule find_target_bound [OF i(1)])
  then have "targets_wf (take i (st_targets s) @ st_targets s ! i # drop (Suc i) (st_targets s))"
    using assms(1) by simp
  then show ?thesis
    unfolding i(2) by (auto simp: targets_wf_def runtime_def split: if_splits)
qed

lemma manage_fresh:
  assumes "find_target (st_targets s) name = None"
  shows "st_targets (fst (manage now name mode selector insts s)) = st_targets s @
    [bind_target now insts ((new_target name mode selector)\<lparr>t_snapshot_ids := (if mode = ModeSnapshot then map in_id insts else [])\<rparr>)]"
  using assms by (simp add: manage_def Let_def bind_instances_def update_target_def new_target_def)

lemma manage_wf:
  assumes "targets_wf (st_targets s)" and "find_target (st_targets s) name = None"
  shows "targets_wf (st_targets (fst (manage now name mode selector insts s)))"
proof -
  have "\<forall>t \<in> set (st_targets s). t_name t \<noteq> name"
    using assms(2) by (simp add: find_target_None)
  then show ?thesis
    using assms(1) unfolding manage_fresh [OF assms(2)]
    by (auto simp: targets_wf_def runtime_def target_wf_def bind_target_def new_target_def Let_def bind_one_id comp_def)
qed

lemma bind_target_frame:
  "t_id (bind_target now insts t) = t_id t" "t_name (bind_target now insts t) = t_name t"
  "t_origin (bind_target now insts t) = t_origin t" "t_binding_mode (bind_target now insts t) = t_binding_mode t"
  "t_on_drift (bind_target now insts t) = t_on_drift t" "t_selector (bind_target now insts t) = t_selector t"
  by (simp_all add: bind_target_def Let_def)

lemma normalize_drift_cases: "normalize_drift m \<in> {''report'', ''reapply'', ''adopt'', ''ignore''}"
  by (simp add: normalize_drift_def)

lemma set_policies_wf:
  assumes "targets_wf (st_targets s)"
  shows "targets_wf (st_targets (set_policies specs s)) \<and> runtime (st_targets (set_policies specs s)) = runtime (st_targets s)"
proof -
  have kept: "filter (\<lambda>t. t_origin t \<noteq> OriginConfig) ts = runtime ts" for ts
    unfolding runtime_def by (rule filter_cong [OF refl]) (metis origin.exhaust origin.distinct(1))
  have new: "runtime (map (policy_target prev) specs) = []" for prev
    by (simp add: runtime_def policy_target_def filter_empty_conv)
  have "target_wf (policy_target prev sp)" for prev sp
    using normalize_drift_cases [of "po_on_drift sp"] by (simp add: target_wf_def policy_target_def)
  then show ?thesis
    using assms new by (auto simp: set_policies_def Let_def targets_wf_def kept runtime_def [symmetric])
      (auto simp: runtime_def)
qed

text \<open>A step of the list that only changes policy targets, and keeps them policy targets.\<close>

definition policy_step :: "target list \<Rightarrow> target list \<Rightarrow> bool" where
  "policy_step ts ts' \<longleftrightarrow> length ts' = length ts \<and> runtime ts' = runtime ts \<and> (targets_wf ts \<longrightarrow> targets_wf ts')"

lemma policy_step_refl: "policy_step ts ts"
  by (simp add: policy_step_def)

lemma policy_step_trans: "policy_step a b \<Longrightarrow> policy_step b c \<Longrightarrow> policy_step a c"
  by (simp add: policy_step_def)

lemma policy_update:
  assumes "i < length ts" and "t_origin (ts ! i) = OriginConfig"
    and "t_origin t = OriginConfig" "t_name t = t_name (ts ! i)" "target_wf (ts ! i) \<Longrightarrow> target_wf t"
  shows "policy_step ts (ts[i := t])"
  using assms runtime_update_config [OF assms(1-3)] targets_wf_update [OF _ assms(1), of t]
  by (auto simp: policy_step_def targets_wf_def)

lemma bind_instances_policy:
  assumes "i < length (st_targets s)" and "t_origin (st_targets s ! i) = OriginConfig"
  shows "policy_step (st_targets s) (st_targets (bind_instances now i insts s))"
    "t_origin (st_targets (bind_instances now i insts s) ! i) = OriginConfig"
proof -
  let ?t = "bind_target now insts (st_targets s ! i)"
  have "policy_step (st_targets s) ((st_targets s)[i := ?t])"
    using assms by (intro policy_update) (auto simp: bind_target_frame target_wf_def)
  then show "policy_step (st_targets s) (st_targets (bind_instances now i insts s))"
    by (simp add: bind_instances_def update_target_def)
  show "t_origin (st_targets (bind_instances now i insts s) ! i) = OriginConfig"
    using assms by (simp add: bind_instances_def update_target_def bind_target_frame)
qed

lemma reconcile_nice_policy:
  assumes "i < length (st_targets s)" and "t_origin (st_targets s ! i) = OriginConfig"
  shows "policy_step (st_targets s) (st_targets (update_target i (fst (reconcile_nice ct sg n (st_targets s ! i) c)) s))"
proof -
  let ?t = "fst (reconcile_nice ct sg n (st_targets s ! i) c)"
  have f: "same_frame (st_targets s ! i) ?t"
    using run_op_frame [of _ ct sg "OpReconcile n"] by simp
  then have "t_origin ?t = OriginConfig" "t_name ?t = t_name (st_targets s ! i)"
    using assms(2) by (simp_all add: same_frame_def)
  with assms have "policy_step (st_targets s) ((st_targets s)[i := ?t])"
    by (intro policy_update frame_wf [OF f])
  then show ?thesis by (simp add: update_target_def)
qed

lemma reconcile_targets_policy:
  "i + n \<le> length (st_targets s) \<Longrightarrow>
    policy_step (st_targets s) (st_targets (fst (reconcile_targets ct sg resolve i n s c)))"
proof (induction n arbitrary: i s c)
  case (Suc n)
  let ?t = "st_targets s ! i"
  have i: "i < length (st_targets s)" "Suc i + n \<le> length (st_targets s)" using Suc.prems by simp_all
  show ?case
  proof (cases "t_origin ?t = OriginConfig")
    case True
    show ?thesis
    proof (cases "resolve (cx_world c) (t_selector ?t)")
      case (Inr insts)
      let ?b = "bind_instances (ct_now ct (cx_world c)) i insts s"
      have b: "policy_step (st_targets s) (st_targets ?b)" "t_origin (st_targets ?b ! i) = OriginConfig"
        by (rule bind_instances_policy [OF i(1) True])+
      then have len: "i < length (st_targets ?b)" "Suc i + n \<le> length (st_targets ?b)"
        using i by (simp_all add: policy_step_def)
      show ?thesis
      proof (cases "t_desired_nice (st_targets ?b ! i)")
        case None
        then show ?thesis
          using policy_step_trans [OF b(1) Suc.IH [OF len(2)]] by (simp add: True Inr Let_def)
      next
        case (Some desired)
        let ?r = "reconcile_nice ct sg desired (st_targets ?b ! i) c"
        let ?s = "update_target i (fst ?r) ?b"
        have r: "policy_step (st_targets ?b) (st_targets ?s)"
          by (rule reconcile_nice_policy [OF len(1) b(2)])
        then have "Suc i + n \<le> length (st_targets ?s)" using len by (simp add: policy_step_def)
        from policy_step_trans [OF policy_step_trans [OF b(1) r] Suc.IH [OF this]] show ?thesis
          by (simp add: True Inr Some Let_def case_prod_beta)
      qed
    qed (use Suc.IH [OF i(2)] True in \<open>simp add: Let_def\<close>)
  qed (use Suc.IH [OF i(2)] in \<open>simp add: Let_def\<close>)
qed (simp add: policy_step_refl)

lemma tick_policy:
  assumes "tick P r (d, w, evs) = ((d', w', evs'), e)"
  shows "policy_step (st_targets (mg_state (de_mgr d))) (st_targets (mg_state (de_mgr d')))"
  using assms reconcile_targets_policy [of 0 "length (st_targets (mg_state (de_mgr d)))" "mg_state (de_mgr d)"]
  by (auto simp: tick_def reconcile_def Let_def case_prod_beta policy_step_refl split: sum.splits)

section \<open>The daemon\<close>

text \<open>
  The steps of a running daemon: a tick of the shared loop, a request of a client, a reload of
  the configuration, and any change of the world around it.
\<close>

inductive daemon_step :: "'w ports \<Rightarrow> 'w dstate \<Rightarrow> 'w dstate \<Rightarrow> bool" for P where
  step_tick: "tick P r s = (s', e) \<Longrightarrow> daemon_step P s s'"
| step_request: "dispatch P clients req s = (resp, s') \<Longrightarrow> daemon_step P s s'"
| step_reload: "reload (loaded :: (string, policy_spec list) result) d = (d', e) \<Longrightarrow> daemon_step P (d, w, evs) (d', w, evs)"
| step_world: "daemon_step P (d, w, evs) (d, w', evs)"

definition daemon_reaches :: "'w ports \<Rightarrow> 'w dstate \<Rightarrow> 'w dstate \<Rightarrow> bool" where
  "daemon_reaches P = (daemon_step P)\<^sup>*\<^sup>*"

definition state_wf :: "'w dstate \<Rightarrow> bool" where
  "state_wf s \<longleftrightarrow> targets_wf (st_targets (mg_state (de_mgr (fst s))))"

lemma on_manager_wf:
  "(\<And>m w evs. targets_wf (st_targets (mg_state m)) \<Longrightarrow> targets_wf (st_targets (mg_state (fst (snd (f m w evs)))))) \<Longrightarrow>
    state_wf s \<Longrightarrow> state_wf (snd (on_manager f s))"
  by (cases s) (simp add: on_manager_def state_wf_def case_prod_beta)

lemma ensure_target_wf:
  "state_wf (d, w, evs) \<Longrightarrow> state_wf (snd (ensure_target P spec d w), w, evs)"
  by (auto simp: ensure_target_def Let_def case_prod_beta state_wf_def manage_wf split: sum.splits)

lemma run_named_wf: "state_wf s \<Longrightarrow> state_wf (snd (run_named P c name s))"
  by (auto simp: run_named_def Let_def split: option.splits intro!: on_manager_wf set_ops_wf)

lemma run_control_wf:
  assumes "state_wf s" shows "state_wf (snd (run_control P c s))"
proof -
  obtain d w evs where s: "s = (d, w, evs)" by (cases s)
  have "state_wf (snd (ensure_target P (cr_target c) d w), w, evs)"
    using assms unfolding s by (rule ensure_target_wf)
  then show ?thesis
    using assms s run_named_wf [of "(snd (ensure_target P (cr_target c) d w), w, evs)" P c]
    by (auto simp: run_control_def Let_def case_prod_beta intro!: on_manager_wf set_ops_wf split: sum.splits prod.splits)
      (auto simp: state_wf_def intro: unmanage_wf)
qed

lemma dispatch_wf: "state_wf s \<Longrightarrow> state_wf (snd (dispatch P clients req s))"
  using run_control_wf [of s P]
  by (cases s) (auto simp: dispatch_def control_request_def state_wf_def Let_def case_prod_beta
      split: option.splits sum.splits prod.splits)

lemma daemon_step_wf: "daemon_step P s s' \<Longrightarrow> state_wf s \<Longrightarrow> state_wf s'"
proof (induction rule: daemon_step.induct)
  case (step_tick r s s' e)
  then show ?case
    using tick_policy [of P r "fst s" "fst (snd s)" "snd (snd s)" "fst s'" "fst (snd s')" "snd (snd s')" e]
    by (simp add: policy_step_def state_wf_def)
next
  case (step_request clients req s resp s')
  then show ?case using dispatch_wf [of s P clients req] by simp
next
  case (step_reload loaded d d' e w evs)
  then show ?case
    by (auto simp: reload_def install_policies_def state_wf_def set_policies_wf split: sum.splits)
qed (simp add: state_wf_def)

text \<open>
  C8: managed targets. From a state whose target list is well-formed (an empty one is), however
  ticks, client requests, reloads and changes of the world follow each other, the list stays
  well-formed: names of runtime targets are distinct and ids match names and origins, a
  runtime target is active exactly when it is bound, a target taken as a snapshot stays bound
  to exactly the instances it was created for, and policy targets follow their selector with a
  known drift mode.
\<close>

theorem daemon_targets_invariant:
  assumes "daemon_reaches P s s'" and "targets_wf (st_targets (mg_state (de_mgr (fst s))))"
  shows "targets_wf (st_targets (mg_state (de_mgr (fst s'))))"
  using assms unfolding daemon_reaches_def state_wf_def [symmetric]
  by (induction rule: rtranclp_induct) (auto intro: daemon_step_wf)

end
