(* ===== verification/Daemon_Requests.thy ===== *)
theory Daemon_Requests
  imports Daemon_Invariant
begin

text \<open>
  What a client's request does: dry runs and persistence, which processes its calls reach, and
  what a query shows.
\<close>

section \<open>Dry requests\<close>

lemma on_target_dry:
  assumes "\<And>t c. same_world c (snd (f t c))"
  shows "snd (snd (on_target ct f name m w evs)) = (w, evs)"
  using assms [of "start_ctx w evs"]
  by (auto simp: on_target_def Let_def case_prod_beta same_world_def start_ctx_def split: option.split)

lemma dry_target:
  "is_dry op \<Longrightarrow> same_world c (snd (run_op ct sg op t c))"
  by (cases op) (auto simp: target_ops Let_def case_prod_beta dry_loops [unfolded same_world_def] same_world_def)

lemma on_target_op_dry:
  assumes "is_dry op"
  shows "snd (snd (on_target ct (run_op ct sg op) name m w evs)) = (w, evs)"
  by (rule on_target_dry) (rule dry_target [OF assms])

lemma run_op_eqs:
  "nice_target ct sg n dry = run_op ct sg (OpNice n dry)" "stop_target ct sg st dry = run_op ct sg (OpStop st dry)"
  "freeze_target ct sg fr fo dry = run_op ct sg (OpFreeze fr fo dry)"
  "restore_target ct sg fo dry = run_op ct sg (OpRestore fo dry)"
  by (simp_all add: fun_eq_iff)

lemma set_ops_dry:
  "snd (snd (set_nice ct name n True m w evs)) = (w, evs)"
  "snd (snd (set_stop ct name st True m w evs)) = (w, evs)"
  "snd (snd (set_freeze ct name fr fo True m w evs)) = (w, evs)"
  "snd (snd (restore ct name fo True m w evs)) = (w, evs)"
  unfolding set_nice_def set_stop_def set_freeze_def restore_def run_op_eqs
  by (rule on_target_op_dry, simp)+

lemma signal_dry: "cx_world (foldl (signal_one ct sg sig True) c insts) = cx_world c"
proof (induction insts arbitrary: c)
  case (Cons i insts)
  have "cx_world (signal_one ct sg sig True c i) = cx_world c" by (simp add: signal_one_def)
  then show ?case using Cons by simp
qed simp

lemma on_manager_dry:
  "(\<And>m w evs. snd (snd (f m w evs)) = (w, evs)) \<Longrightarrow> snd (snd (on_manager f s)) = snd s"
  by (cases s) (simp add: on_manager_def case_prod_beta prod_eq_iff)

lemma run_named_dry: "cr_dry_run c \<Longrightarrow> snd (snd (run_named P c name s)) = snd s"
  by (auto simp: run_named_def Let_def on_manager_dry set_ops_dry split: option.split)

lemma run_control_dry: "cr_dry_run c \<Longrightarrow> snd (snd (run_control P c s)) = snd s"
  by (cases s) (auto simp: run_control_def Let_def case_prod_beta on_manager_dry set_ops_dry run_named_dry
      signal_instances_def signal_dry start_ctx_def split: sum.splits prod.splits)

section \<open>Persistence\<close>

text \<open>No operation itself reports a failed save.\<close>

lemma resolve_not_save: "resolve_instances P d w spec \<noteq> Inl (SaveFailed e)"
  by (cases "instances_of (fst (snd (split_target spec))) (mg_state (de_mgr d))")
    (auto simp: resolve_instances_def instances_for_pid_def instances_by_selector_def instances_by_group_def
      case_prod_beta Let_def split: option.split sum.split)

lemma map_error_Inl: "map_error f r = Inl e \<longleftrightarrow> (\<exists>x. r = Inl x \<and> e = f x)"
  by (cases r) auto

lemma on_manager_not_save: "fst (on_manager f s) \<noteq> Inl (SaveFailed e)"
  by (cases s) (auto simp: on_manager_def case_prod_beta map_error_Inl)

lemma run_control_not_save: "fst (run_control P c s) \<noteq> Inl (SaveFailed e)"
  by (cases s) (auto simp: run_control_def run_named_def ensure_target_def Let_def case_prod_beta
      on_manager_not_save resolve_not_save split: sum.splits prod.splits option.splits if_splits)

text \<open>
  C6: what a control request leaves behind. A dry run changes nothing in the world, writes no
  audit event and saves nothing. A request that is not dry and is answered with a result has
  saved, as its last act, exactly the state the daemon goes on with; when saving fails the
  client is told.
\<close>

theorem control_request_effects:
  assumes "control_request P (Some c) (d, w, evs) = (resp, d', w', evs')" and "pt_saver P = Some save"
  shows "(cr_dry_run c \<longrightarrow> w' = w \<and> evs' = evs) \<and>
    (\<not> cr_dry_run c \<longrightarrow> (\<forall>res. resp = RespControl res \<longrightarrow> (\<exists>w1. save w1 (mg_state (de_mgr d')) = (w', None)))) \<and>
    (\<forall>e. resp = RespError (SaveFailed e) \<longrightarrow> (\<exists>w1. save w1 (mg_state (de_mgr d')) = (w', Some e)))"
proof -
  obtain r d1 w1 evs1 where r: "run_control P c (d, w, evs) = (r, d1, w1, evs1)"
    by (cases "run_control P c (d, w, evs)") auto
  have nosave: "r = Inl (SaveFailed e) \<Longrightarrow> False" for e
    using run_control_not_save [of P c "(d, w, evs)" e] r by simp
  show ?thesis
    using assms r run_control_dry [of c P "(d, w, evs)"]
    by (auto simp: control_request_def split: sum.splits if_splits prod.splits option.splits dest: nosave)
qed

section \<open>Which processes a request reaches\<close>

text \<open>The ports with a recording controller; the saver does not see the record.\<close>

definition logged_ports :: "'w ports \<Rightarrow> ('w \<times> ('w \<times> call) list) ports" where
  "logged_ports P = \<lparr>pt_regexp = pt_regexp P, pt_controller = logged (pt_controller P),
     pt_caps = (\<lambda>(w, l). pt_caps P w),
     pt_saver = map_option (\<lambda>save (w, l) st. let (w', e) = save w st in ((w', l), e)) (pt_saver P),
     pt_owner_uid = pt_owner_uid P\<rparr>"

lemma logged_ports_simps [simp]:
  "pt_controller (logged_ports P) = logged (pt_controller P)" "pt_regexp (logged_ports P) = pt_regexp P"
  by (simp_all add: logged_ports_def)

text \<open>A call made for a binding of some managed target.\<close>

definition call_managed :: "'w controller \<Rightarrow> dengine \<Rightarrow> 'w \<times> call \<Rightarrow> bool" where
  "call_managed ct d x \<longleftrightarrow> (\<exists>t \<in> set (st_targets (mg_state (de_mgr d))). call_bound ct (t_bindings t) x)"

lemma call_bound_same:
  "list_all2 same_binding bs bs' \<Longrightarrow> call_bound ct bs x \<Longrightarrow> call_bound ct bs' x"
  by (induction rule: list_all2_induct) (auto simp: call_bound_def same_binding_def)

lemma call_bound_frame: "same_frame t t' \<Longrightarrow> call_bound ct (t_bindings t) x \<Longrightarrow> call_bound ct (t_bindings t') x"
  unfolding same_frame_def by (blast intro: call_bound_same)

lemma on_target_calls:
  assumes "on_target (logged ct) (run_op (logged ct) sg op) name m (w, []) evs = (res, m', (w', l), evs')"
    and "x \<in> set l"
  shows "\<exists>t \<in> set (st_targets (mg_state m')). call_bound ct (t_bindings t) x"
proof (cases "find_target (st_targets (mg_state m)) name")
  case (Some i)
  let ?ts = "st_targets (mg_state m)"
  let ?r = "run_op (logged ct) sg op (?ts ! i) (start_ctx (w, []) evs)"
  have "l = calls (snd ?r)" and ts: "st_targets (mg_state m') = ?ts[i := fst ?r]"
    using assms(1) Some by (auto simp: on_target_def Let_def case_prod_beta calls_def update_target_def)
  then have "call_bound ct (t_bindings (?ts ! i)) x"
    using run_op_calls [of ct "?ts ! i" "start_ctx (w, []) evs" sg op] assms(2)
    by (auto simp: adds_only_def list_all_iff calls_def start_ctx_def)
  then have "call_bound ct (t_bindings (fst ?r)) x"
    by (rule call_bound_frame [OF run_op_frame])
  moreover have "fst ?r \<in> set (st_targets (mg_state m'))"
    unfolding ts by (rule set_update_memI) (rule find_target_bound [OF Some])
  ultimately show ?thesis by blast
qed (use assms in \<open>simp add: on_target_def\<close>)

lemma on_manager_calls:
  assumes "on_manager (\<lambda>m. on_target (logged ct) (run_op (logged ct) (mg_safeguards m) op) name m) (d, (w, []), evs)
      = (res, d', (w', l), evs')" and "x \<in> set l"
  shows "call_managed ct d' x"
proof -
  obtain r m w1 l1 evs1 where
    r: "on_target (logged ct) (run_op (logged ct) (mg_safeguards (de_mgr d)) op) name (de_mgr d) (w, []) evs
      = (r, m, (w1, l1), evs1)"
    by (metis surj_pair)
  then have "d' = d\<lparr>de_mgr := m\<rparr>" "l1 = l"
    using assms(1) by (simp_all add: on_manager_def)
  then show ?thesis
    using on_target_calls [OF r] assms(2) by (simp add: call_managed_def)
qed

lemma set_ops_calls:
  "on_manager (set_nice (logged ct) name n dry) (d, (w, []), evs) = (res, d', (w', l), evs') \<Longrightarrow> x \<in> set l \<Longrightarrow> call_managed ct d' x"
  "on_manager (set_stop (logged ct) name st dry) (d, (w, []), evs) = (res, d', (w', l), evs') \<Longrightarrow> x \<in> set l \<Longrightarrow> call_managed ct d' x"
  "on_manager (set_freeze (logged ct) name fr fo dry) (d, (w, []), evs) = (res, d', (w', l), evs') \<Longrightarrow> x \<in> set l \<Longrightarrow> call_managed ct d' x"
  "on_manager (restore (logged ct) name fo dry) (d, (w, []), evs) = (res, d', (w', l), evs') \<Longrightarrow> x \<in> set l \<Longrightarrow> call_managed ct d' x"
  unfolding set_nice_def [abs_def] set_stop_def [abs_def] set_freeze_def [abs_def] restore_def [abs_def] run_op_eqs
  by (erule on_manager_calls, assumption)+

lemma run_named_calls:
  "run_named (logged_ports P) c name (d, (w, []), evs) = (res, d', (w', l), evs') \<Longrightarrow> x \<in> set l \<Longrightarrow>
    call_managed (pt_controller P) d' x"
  by (auto simp: run_named_def Let_def split: if_splits option.splits dest: set_ops_calls)

definition call_resolved :: "'w controller \<Rightarrow> instance_ref list \<Rightarrow> 'w \<times> call \<Rightarrow> bool" where
  "call_resolved ct insts x \<longleftrightarrow> (\<exists>i \<in> set insts. call_for ct (in_id i) (in_pid i) x)"

lemma run_control_calls:
  assumes "run_control (logged_ports P) c (d, (w, []), evs) = (res, d', (w', l), evs')" and "x \<in> set l"
  shows "call_managed (pt_controller P) d' x \<or>
    (\<exists>insts. resolve_instances (logged_ports P) d (w, []) (cr_target c) = Inr insts \<and> call_resolved (pt_controller P) insts x)"
proof -
  have sig: "\<exists>i \<in> set insts. call_for (pt_controller P) (in_id i) (in_pid i) x"
    if "snd (signal_instances (logged (pt_controller P)) sg insts s dry (w, [])) = (w', l)" for insts sg s dry
    using signal_loop_calls [of insts "pt_controller P" sg "start_ctx (w, []) []" s dry] that assms(2)
    by (auto simp: adds_only_def list_all_iff signal_instances_def Let_def calls_def start_ctx_def)
  show ?thesis
    using assms
    by (auto simp: run_control_def Let_def case_prod_beta call_resolved_def split: if_splits sum.splits prod.splits
        dest: set_ops_calls run_named_calls sig)
qed

text \<open>
  C7: the reach of a request. Whatever the controller answers, every renice and signal made
  while a client's request is served goes to a process that is, in the world of that very call,
  the instance bound to a managed target or the instance the request's target resolved to; a
  freeze names the cgroup such a pid is in.
\<close>

theorem requests_reach_known_instances:
  assumes "dispatch (logged_ports P) clients req (d, (w, []), evs) = (resp, d', (w', l), evs')" and "x \<in> set l"
  shows "\<exists>c. rq_control req = Some c \<and> (call_managed (pt_controller P) d' x \<or>
    (\<exists>insts. resolve_instances (logged_ports P) d (w, []) (cr_target c) = Inr insts \<and> call_resolved (pt_controller P) insts x))"
proof -
  have "control_request (logged_ports P) (rq_control req) (d, (w, []), evs) = (resp, d', (w', l), evs')"
    using assms by (auto simp: dispatch_def split: if_splits)
  then obtain c r w1 evs1 where c: "rq_control req = Some c"
      "run_control (logged_ports P) c (d, (w, []), evs) = (r, d', (w1, l), evs1)"
    using assms(2)
    by (auto simp: control_request_def logged_ports_def Let_def case_prod_beta prod_eq_iff
        split: option.splits sum.splits if_splits)
  then show ?thesis using run_control_calls [OF c(2) assms(2)] by blast
qed

section \<open>What a query shows\<close>

text \<open>The select expression of a request, on a process; an empty one selects everything.\<close>

definition selected :: "regexp_compile \<Rightarrow> string \<Rightarrow> process \<Rightarrow> bool" where
  "selected rx src p \<longleftrightarrow> src = [] \<or> (\<exists>prog. compile rx src = Inr prog \<and> eval_entity rx prog p)"

lemma profiles_have_no_having: "profile_defaults name = Some p \<Longrightarrow> pf_having p = []"
  by (auto simp: profile_defaults_def profile_specs_def split: if_splits)

lemma defaults_keep:
  "flg_select (apply_profile_defaults f) = flg_select f" "flg_leaf (apply_profile_defaults f) = flg_leaf f"
  "flg_number (apply_profile_defaults f) = flg_number f"
  "flg_having f = [] \<Longrightarrow> flg_having (apply_profile_defaults f) = []"
  by (auto simp: apply_profile_defaults_def Let_def dest: profiles_have_no_having split: option.split)

lemma build_spec_fields:
  assumes "build_spec rx reg f = Inr r" and "flg_having f = []"
  shows "q_having (rv_spec r) = None" "q_limit (rv_spec r) = flg_number f"
    "q_leaf (rv_spec r) = (if flg_leaf f = [] then LeafProcess else flg_leaf f)"
    "\<And>p. selected rx (flg_select f) p \<longleftrightarrow> (case q_select (rv_spec r) of None \<Rightarrow> True | Some pred \<Rightarrow> pred p)"
  using assms defaults_keep [of f]
  by (auto simp: build_spec_def Let_def result_simps compile_predicates_def optional_program_def
      compile_validated_def selected_def split: sum.splits prod.splits if_splits option.splits)

text \<open>
  What a query shows. A query answered with rows, over process leaves and without a having
  filter, changes nothing in the daemon and shows, of the latest generation, each process for
  which the select expression holds exactly once, and no other.
\<close>

theorem query_shows_selected:
  assumes "dispatch P clients req s = (RespRows res, s')" and "rq_query req = Some q"
    and "qr_leaf q = [] \<or> qr_leaf q = LeafProcess" and "qr_having q = []"
  shows "s' = s \<and> res_generation res = de_generation (fst s) \<and>
    mset (shown_processes (res_rows res)) =
      mset (filter (selected (pt_regexp P) (qr_select q)) (de_latest (fst s)))"
proof -
  obtain d w evs where s: "s = (d, w, evs)" by (cases s)
  let ?rx = "pt_regexp P" let ?e = "\<lparr>e_reg = de_reg d, e_dims = de_dims d\<rparr>"
  have "s' = s" and run: "\<exists>cols. run_query ?rx d (req_to_flags q) = Inr (res, cols)"
    using assms(1,2) s
    by (auto simp: dispatch_def query_request_def hello_def control_request_def split: if_splits sum.splits option.splits prod.splits)
  then obtain r where r: "build_spec ?rx (de_reg d) (req_to_flags q) = Inr r"
      "build_query ?e (snapshot_input d) (rv_spec r) = Inr res"
    by (auto simp: run_query_def split: sum.splits)
  have f: "flg_having (req_to_flags q) = []" "flg_number (req_to_flags q) = 0" "flg_select (req_to_flags q) = qr_select q"
      "flg_leaf (req_to_flags q) = qr_leaf q"
    using assms(4) by (simp_all add: req_to_flags_def)
  note spec = build_spec_fields [OF r(1) f(1)]
  have "leaf_or_default (q_leaf (rv_spec r)) = LeafProcess"
    using assms(3) by (auto simp: spec(3) f(4) leaf_or_default_def LeafProcess_def)
  from build_query_shown [OF r(2) _ spec(1) this] spec(2) f(2)
  have "mset (shown_processes (res_rows res)) = mset (select_processes (de_latest d) (q_select (rv_spec r)))"
    by (simp add: snapshot_input_def)
  also have "select_processes (de_latest d) (q_select (rv_spec r)) = filter (selected ?rx (qr_select q)) (de_latest d)"
    unfolding select_processes_def using spec(4) f(3) by (intro filter_cong) simp_all
  finally have "mset (shown_processes (res_rows res)) = mset (filter (selected ?rx (qr_select q)) (de_latest d))" .
  moreover have "res_generation res = de_generation d"
    using r(2) by (auto simp: build_query_def result_simps snapshot_input_def Let_def)
  ultimately show ?thesis using \<open>s' = s\<close> s by simp
qed

end
