(* ===== verification/Daemon_Examples.thy ===== *)
theory Daemon_Examples
  imports Daemon_Requests Control_Examples
begin

text \<open>The daemon's properties at concrete requests, over the fake controller and an empty registry.\<close>

definition ex_ports :: "(fake_controller \<times> fake_clock) ports" where
  "ex_ports = \<lparr>pt_regexp = (\<lambda>_. None), pt_controller = fake, pt_caps = (\<lambda>(f, k). fc_caps f),
     pt_saver = Some (\<lambda>w st. (w, None)), pt_owner_uid = 1000\<rparr>"

definition ex_daemon :: dengine where
  "ex_daemon = (new_dengine new_registry new_dimensions ex_manager [])
     \<lparr>de_latest := sample_procs, de_generation := 3\<rparr>"

definition ex_control :: "bool \<Rightarrow> control_req" where
  "ex_control dry = \<lparr>cr_op = ''set-nice'', cr_target = ''managed:jobs'', cr_nice = Some 5, cr_force = False,
     cr_signal = [], cr_dry_run = dry\<rparr>"

definition ex_request :: "bool \<Rightarrow> request" where
  "ex_request dry = \<lparr>rq_version = 1, rq_type = ''control'', rq_query = None, rq_control = Some (ex_control dry)\<rparr>"

definition ex_query :: query_req where
  "ex_query = \<lparr>qr_group_by = [], qr_leaf = [], qr_sort = [], qr_columns = [], qr_metrics = ''none'',
     qr_select = ''comm == 'sh' '', qr_having = []\<rparr>"

definition ex_query_request :: request where
  "ex_query_request = \<lparr>rq_version = 1, rq_type = ''query'', rq_query = Some ex_query, rq_control = None\<rparr>"

lemma control_split:
  "control_request P c s = (fst (control_request P c s), fst (snd (control_request P c s)),
     fst (snd (snd (control_request P c s))), snd (snd (snd (control_request P c s))))"
  by simp

definition ex_answer :: "bool \<Rightarrow> response \<times> (fake_controller \<times> fake_clock) dstate" where
  "ex_answer dry = control_request ex_ports (Some (ex_control dry)) (ex_daemon, ex_world, [])"

lemma ex_answer_ok:
  "case fst (ex_answer False) of RespControl res \<Rightarrow> map br_status (ar_results res) = [StApplied, StApplied] | _ \<Rightarrow> False"
  "map t_name (st_targets (mg_state (de_mgr (fst (snd (ex_answer False)))))) = [''jobs'']"
  by code_simp+

theorem daemon_targets_invariant_witness:
  "targets_wf (st_targets (mg_state (de_mgr (fst (snd (ex_answer False)))))) \<and>
   map t_name (st_targets (mg_state (de_mgr (fst (snd (ex_answer False)))))) = [''jobs'']"
proof -
  have "dispatch ex_ports 0 (ex_request False) (ex_daemon, ex_world, []) = (fst (ex_answer False), snd (ex_answer False))"
    by (simp add: dispatch_def ex_request_def ex_answer_def)
  then have "daemon_step ex_ports (ex_daemon, ex_world, []) (snd (ex_answer False))"
    by (rule step_request)
  then have "daemon_reaches ex_ports (ex_daemon, ex_world, []) (snd (ex_answer False))"
    by (simp add: daemon_reaches_def)
  moreover have "targets_wf (st_targets (mg_state (de_mgr (fst (ex_daemon, ex_world, [] :: event list)))))"
    by (simp add: ex_daemon_def new_dengine_def ex_manager_def new_manager_def targets_wf_def runtime_def
        target_wf_def ex_target_def new_target_def)
  ultimately show ?thesis
    using daemon_targets_invariant ex_answer_ok(2) by blast
qed

theorem control_request_effects_witness:
  "fst (snd (snd (ex_answer True))) = ex_world \<and> snd (snd (snd (ex_answer True))) = [] \<and>
   (\<exists>w1. (\<lambda>w st. (w, None)) w1 (mg_state (de_mgr (fst (snd (ex_answer False))))) =
      (fst (snd (snd (ex_answer False))), None :: string option))"
proof -
  have saver: "pt_saver ex_ports = Some (\<lambda>w st. (w, None))" by (simp add: ex_ports_def)
  have dry: "cr_dry_run (ex_control b) = b" for b by (simp add: ex_control_def)
  obtain res where "fst (ex_answer False) = RespControl res"
    using ex_answer_ok(1) by (cases "fst (ex_answer False)") auto
  then show ?thesis
    using control_request_effects [OF control_split saver, of "ex_control True" ex_daemon ex_world "[]"]
      control_request_effects [OF control_split saver, of "ex_control False" ex_daemon ex_world "[]"]
    by (simp add: dry ex_answer_def)
qed

definition ex_logged where
  "ex_logged = dispatch (logged_ports ex_ports) 0 (ex_request False) (ex_daemon, (ex_world, []), [])"

lemma ex_logged_calls: "map snd (snd (fst (snd (snd ex_logged)))) = [CallNice 100 5, CallNice 101 5]"
  by code_simp

theorem requests_reach_known_instances_witness:
  "snd (hd (snd (fst (snd (snd ex_logged))))) = CallNice 100 5 \<and>
   (\<exists>c. rq_control (ex_request False) = Some c \<and>
      (call_managed fake (fst (snd ex_logged)) (hd (snd (fst (snd (snd ex_logged))))) \<or>
       (\<exists>insts. resolve_instances (logged_ports ex_ports) ex_daemon (ex_world, []) (cr_target c) = Inr insts \<and>
          call_resolved fake insts (hd (snd (fst (snd (snd ex_logged))))))))"
proof -
  have "dispatch (logged_ports ex_ports) 0 (ex_request False) (ex_daemon, (ex_world, []), []) =
      (fst ex_logged, fst (snd ex_logged), (fst (fst (snd (snd ex_logged))), snd (fst (snd (snd ex_logged)))), snd (snd (snd ex_logged)))"
    by (simp add: ex_logged_def)
  from requests_reach_known_instances [OF this] ex_hd [OF ex_logged_calls] show ?thesis
    by (simp add: ex_ports_def)
qed

definition ex_rows where
  "ex_rows = dispatch ex_ports 0 ex_query_request (ex_daemon, ex_world, [])"

lemma ex_spec:
  "case build_spec (\<lambda>_. None) new_registry (req_to_flags ex_query) of Inl _ \<Rightarrow> False | Inr r \<Rightarrow> q_group_by (rv_spec r) = []"
  by code_simp

lemma ex_rows_ok: "\<exists>res. fst ex_rows = RespRows res"
  using ex_spec
  by (auto simp: ex_rows_def dispatch_def ex_query_request_def query_request_def run_query_def ex_ports_def
      ex_daemon_def new_dengine_def build_query_def resolve_group_by_def Let_def split: sum.splits)

theorem query_shows_selected_witness:
  "\<exists>res. fst ex_rows = RespRows res \<and> res_generation res = 3 \<and>
     mset (shown_processes (res_rows res)) = mset (filter (selected (\<lambda>_. None) ''comm == 'sh' '') sample_procs)"
proof -
  obtain res where res: "fst ex_rows = RespRows res"
    using ex_rows_ok by blast
  then have "dispatch ex_ports 0 ex_query_request (ex_daemon, ex_world, []) = (RespRows res, snd ex_rows)"
    by (simp add: ex_rows_def prod_eq_iff)
  from query_shows_selected [OF this, of ex_query] res show ?thesis
    by (simp add: ex_query_request_def ex_query_def ex_ports_def ex_daemon_def)
qed

end
