(* ===== verification/Config_Daemon.thy ===== *)
theory Config_Daemon
  imports Config_Encode Config_Correct Daemon_Examples
begin

text \<open>
  Where the configuration meets the daemon, \<open>internal/daemon/config.go\<close>: the validator over the
  registries and the policies made of the managed rules. A configuration that loads gives
  policies whose selectors the daemon can always resolve.
\<close>

section \<open>The daemon's view of a configuration (\<open>config.go\<close>)\<close>

definition daemon_validator :: "regexp_compile \<Rightarrow> registry \<Rightarrow> dimensions \<Rightarrow> validator" where
  "daemon_validator rx reg ds =
     \<lparr>vd_regexp = rx, vd_has_metric = Some (reg_has reg), vd_has_dimension = Some (dims_has ds),
      vd_is_rate_field = Some (\<lambda>s. case reg_get reg s of None \<Rightarrow> False | Some d \<Rightarrow> is_rate d),
      vd_entity_fields = Some (allowed_entity_fields reg), vd_known_profile = Some is_known_profile\<rparr>"

definition to_policies :: "managed list \<Rightarrow> policy_spec list" where
  "to_policies = map (\<lambda>m.
     \<lparr>po_name = ma_name m, po_selector = ma_selector m,
      po_nice = (if ma_has_control m then ci_nice (ma_control m) else None),
      po_stop = (if ma_has_control m then ci_stop (ma_control m) else None),
      po_on_drift = ma_on_drift m\<rparr>)"

text \<open>\<open>loadPolicies\<close>, over the file that was discovered; without one there are no policies.\<close>

definition load_policies ::
  "(format \<Rightarrow> string \<Rightarrow> (string, raw_config) result) \<Rightarrow> validator \<Rightarrow> (config_error, (string \<times> format) option) result \<Rightarrow>
    (config_error, policy_spec list) result" where
  "load_policies decode v found =
     rbind found (\<lambda>file. case file of
       None \<Rightarrow> Inr []
     | Some (data, fmt) \<Rightarrow> rbind (load decode data fmt v) (\<lambda>c. Inr (to_policies (cf_managed c))))"

section \<open>Policy targets\<close>

definition policies :: "dengine \<Rightarrow> target list" where
  "policies d = filter (\<lambda>t. t_origin t = OriginConfig) (st_targets (mg_state (de_mgr d)))"

definition rules_ok :: "validator \<Rightarrow> managed list \<Rightarrow> bool" where
  "rules_ok v ms \<longleftrightarrow> distinct (map ma_name ms) \<and>
     (\<forall>m \<in> set ms. ma_name m \<noteq> [] \<and> (ma_on_drift m = [] \<or> valid_drift (ma_on_drift m)) \<and>
        (\<exists>prog. compile (vd_regexp v) (ma_selector m) = Inr prog \<and> validate_fields_of v (ma_name m) (prog_fields prog) = None))"

lemma or_else_None [simp]: "or_else a b = None \<longleftrightarrow> a = None \<and> b = None"
  by (cases a) auto

lemma validate_rules_None:
  "validate_rules v seen ms = None \<longleftrightarrow> rules_ok v ms \<and> (\<forall>m \<in> set ms. \<not> seen (ma_name m) \<and> ma_selector m \<noteq> [])"
proof (induction ms arbitrary: seen)
  case (Cons m ms)
  have "validate_selector v (ma_name m) (ma_selector m) = None \<longleftrightarrow> ma_selector m \<noteq> [] \<and>
      (\<exists>prog. compile (vd_regexp v) (ma_selector m) = Inr prog \<and> validate_fields_of v (ma_name m) (prog_fields prog) = None)"
    by (auto simp: validate_selector_def split: sum.splits)
  then show ?case by (auto simp: Cons rules_ok_def image_iff split: if_splits)
qed (simp add: rules_ok_def)

lemma load_validates: "load decode data fmt v = Inr c \<Longrightarrow> validate_config v c = None"
  by (auto simp: load_def rbind_eq_Inr split: sum.splits option.splits)

lemma loaded_rules: "load decode data fmt v = Inr c \<Longrightarrow> rules_ok v (cf_managed c)"
  using load_validates [of decode data fmt v c]
  by (auto simp: validate_config_def validate_rules_None split: if_splits)

lemma policies_installed:
  "policies (install_policies specs d) =
    map (policy_target (map_of (rev (map (\<lambda>t. (t_name t, t)) (policies d))))) specs"
proof -
  have "filter (\<lambda>t. t_origin t = OriginConfig) (map (policy_target prev) specs) = map (policy_target prev) specs" for prev
    by (rule filter_True) (auto simp: policy_target_def)
  then show ?thesis
    by (simp add: policies_def install_policies_def set_policies_def Let_def)
qed

lemma validate_fields_of_None:
  "validate_fields_of v name fs = None \<longleftrightarrow>
    (\<forall>f \<in> set fs. \<not> (case vd_is_rate_field v of None \<Rightarrow> False | Some p \<Rightarrow> p f) \<and> \<not> refused (vd_entity_fields v) f)"
  by (induction fs) auto

text \<open>What the daemon can rely on, for one policy.\<close>

definition policy_ok :: "regexp_compile \<Rightarrow> dengine \<Rightarrow> target \<Rightarrow> bool" where
  "policy_ok rx d t \<longleftrightarrow> t_name t \<noteq> [] \<and> is_ok (instances_by_selector rx d (t_selector t)) \<and>
     (case compile rx (t_selector t) of
        Inl _ \<Rightarrow> False
      | Inr prog \<Rightarrow> list_all (\<lambda>f. allowed_entity_fields (de_reg d) f \<and>
          (case reg_get (de_reg d) f of None \<Rightarrow> True | Some m \<Rightarrow> \<not> is_rate m)) (prog_fields prog))"

lemma policy_target_simps [simp]:
  "t_name (policy_target prev s) = po_name s" "t_selector (policy_target prev s) = po_selector s"
  "t_desired_nice (policy_target prev s) = po_nice s"
  "t_bindings (policy_target prev s) = (case prev (po_name s) of Some old \<Rightarrow> t_bindings old | None \<Rightarrow> [])"
  by (simp_all add: policy_target_def)

lemma rule_policy_ok:
  assumes "rules_ok (daemon_validator rx (de_reg d) ds) ms" and "m \<in> set ms" and "t_name t = ma_name m"
    and "t_selector t = ma_selector m"
  shows "policy_ok rx d t"
proof -
  obtain prog where prog: "compile rx (ma_selector m) = Inr prog"
    "validate_fields_of (daemon_validator rx (de_reg d) ds) (ma_name m) (prog_fields prog) = None" "ma_name m \<noteq> []"
    using assms(1,2) by (auto simp: rules_ok_def daemon_validator_def)
  then show ?thesis
    using assms(3,4) by (auto simp: policy_ok_def instances_by_selector_def validate_fields_of_None
        daemon_validator_def refused_def list_all_iff split: option.splits)
qed

text \<open>
  From the file to the policies. When a configuration loads and the daemon installs its
  rules, the policy targets are exactly the rules, in order and with distinct names; the selector
  of each one compiles over stable fields of processes, so no tick fails to resolve it; and a
  policy that was there before under the same name keeps its bindings, with the originals
  captured in them.
\<close>

theorem loaded_policies_resolve:
  assumes "load decode data fmt (daemon_validator rx (de_reg d) ds) = Inr c"
    and "reload (load_policies decode (daemon_validator rx (de_reg d) ds) (Inr (Some (data, fmt)))) d = (d', e)"
  shows "e = None \<and> map t_name (policies d') = map ma_name (cf_managed c) \<and> distinct (map t_name (policies d')) \<and>
    list_all (policy_ok rx d') (policies d') \<and>
    list_all (\<lambda>t. t_bindings t = (case map_of (rev (map (\<lambda>t. (t_name t, t)) (policies d))) (t_name t) of
       Some old \<Rightarrow> t_bindings old | None \<Rightarrow> [])) (policies d')"
proof -
  let ?v = "daemon_validator rx (de_reg d) ds"
  have d': "d' = install_policies (to_policies (cf_managed c)) d" "e = None"
    using assms by (auto simp: reload_def load_policies_def)
  have reg: "de_reg d' = de_reg d" by (simp add: d' install_policies_def)
  have rules: "rules_ok ?v (cf_managed c)" using assms(1) by (rule loaded_rules)
  have names: "map t_name (policies d') = map ma_name (cf_managed c)"
    by (simp add: d' policies_installed to_policies_def o_def)
  have "policy_ok rx d' t" if t: "t \<in> set (policies d')" for t
  proof -
    obtain s where s: "s \<in> set (to_policies (cf_managed c))" "t_name t = po_name s" "t_selector t = po_selector s"
      using t by (auto simp: d'(1) policies_installed)
    then obtain m where "m \<in> set (cf_managed c)" "t_name t = ma_name m" "t_selector t = ma_selector m"
      by (auto simp: to_policies_def)
    then show ?thesis using rule_policy_ok [of rx d' ds] rules reg by simp
  qed
  then show ?thesis
    using d' names rules by (simp add: list_all_iff rules_ok_def) (simp add: policies_installed)
qed

text \<open>Installing the same rules again changes nothing, and loses no binding.\<close>

lemma install_twice:
  assumes "distinct (map po_name specs)"
  shows "install_policies specs (install_policies specs d) = install_policies specs d"
proof -
  let ?prev = "map_of (rev (map (\<lambda>t. (t_name t, t)) (policies d)))"
  let ?d = "install_policies specs d"
  let ?prev' = "map_of (rev (map (\<lambda>t. (t_name t, t)) (policies ?d)))"
  have names: "distinct (map fst (map (\<lambda>t. (t_name t, t)) (policies ?d)))"
    using assms by (simp add: policies_installed o_def)
  have "?prev' (po_name s) = Some (policy_target ?prev s)" if "s \<in> set specs" for s
  proof -
    have "(po_name s, policy_target ?prev s) \<in> set (map (\<lambda>t. (t_name t, t)) (policies ?d))"
      using that by (force simp: policies_installed)
    then show ?thesis using names by (simp add: rev_map [symmetric] map_of_eq_Some_iff del: rev_map)
  qed
  then have same: "map (policy_target ?prev') specs = map (policy_target ?prev) specs"
    by (simp add: policy_target_def)
  have keep: "filter (\<lambda>t. t_origin t \<noteq> OriginConfig) (map (policy_target prev) specs) = []" for prev
    by (simp add: filter_empty_conv policy_target_def)
  show ?thesis
    using same keep by (simp add: install_policies_def set_policies_def Let_def policies_def)
qed

end
