(* ===== verification/App_Settings.thy ===== *)
theory App_Settings
  imports Config_Daemon
begin

text \<open>
  The layered settings of the observation commands, \<open>internal/app/settings.go\<close> and
  \<open>configmerge.go\<close>: which of default, configuration file, environment and command line gives
  each flag its value. The environment is a function; a flag is what the \<open>flag.Value\<close>
  interface shows of it, its default, its value and the effect of \<open>Set\<close>.
\<close>

section \<open>The catalog (\<open>settings.go\<close>)\<close>

datatype source = SourceDefault | SourceConfig | SourceEnv | SourceArgs

definition default_precedence :: "source list" where
  "default_precedence = [SourceDefault, SourceConfig, SourceEnv, SourceArgs]"

record setting =
  se_flag :: string
  se_from_config :: "(config \<Rightarrow> string option) option"

text \<open>\<open>joinSort\<close> of \<open>configmerge.go\<close>.\<close>

definition join_sort :: "sort_dir list \<Rightarrow> string" where
  "join_sort ks = join '','' (map (\<lambda>k. sd_field k @ '':'' @
     (if sd_direction k = [] then ''asc'' else sd_direction k)) ks)"

definition view_settings :: "setting list" where
  "view_settings =
     [\<lparr>se_flag = ''group-by'', se_from_config = Some (\<lambda>c. if cf_group_by c \<noteq> [] then Some (join '','' (cf_group_by c)) else None)\<rparr>,
      \<lparr>se_flag = ''leaf'', se_from_config = Some (\<lambda>c. if cf_leaf c \<noteq> [] then Some (cf_leaf c) else None)\<rparr>,
      \<lparr>se_flag = ''columns'', se_from_config = Some (\<lambda>c. if cf_columns c \<noteq> [] then Some (join '','' (cf_columns c)) else None)\<rparr>,
      \<lparr>se_flag = ''sort'', se_from_config = Some (\<lambda>c. if cf_sort c \<noteq> [] then Some (join_sort (cf_sort c)) else None)\<rparr>,
      \<lparr>se_flag = ''profile'', se_from_config = Some (\<lambda>c. if ms_profile (cf_metrics c) \<noteq> [] then Some (ms_profile (cf_metrics c)) else None)\<rparr>,
      \<lparr>se_flag = ''target-width'', se_from_config = Some (\<lambda>c. if cf_target_width c > 0 then Some (show_int (cf_target_width c)) else None)\<rparr>,
      \<lparr>se_flag = ''collapse-groups'', se_from_config = Some (\<lambda>c. if cf_collapse_groups c then Some ''true'' else None)\<rparr>,
      \<lparr>se_flag = ''format'', se_from_config = None\<rparr>,
      \<lparr>se_flag = ''select'', se_from_config = None\<rparr>,
      \<lparr>se_flag = ''having'', se_from_config = None\<rparr>,
      \<lparr>se_flag = ''number'', se_from_config = None\<rparr>,
      \<lparr>se_flag = ''human'', se_from_config = None\<rparr>]"

definition env_name :: "string \<Rightarrow> string" where
  "env_name flag_name = ''PROCFIT_'' @ to_upper (map (\<lambda>c. if c = CHR ''-'' then CHR ''_'' else c) flag_name)"

section \<open>Resolving\<close>

record flag =
  fl_default :: string
  fl_value :: string
  fl_set :: "string \<Rightarrow> string"

type_synonym flag_set = "string \<Rightarrow> flag"

definition layer_value ::
  "source \<Rightarrow> (string \<Rightarrow> string) \<Rightarrow> flag \<Rightarrow> config \<Rightarrow> (string \<Rightarrow> bool) \<Rightarrow> setting \<Rightarrow> string option" where
  "layer_value src getenv f cfg cli s =
     (case src of
        SourceDefault \<Rightarrow> Some (fl_default f)
      | SourceConfig \<Rightarrow> (case se_from_config s of None \<Rightarrow> None | Some from \<Rightarrow> from cfg)
      | SourceEnv \<Rightarrow> (let v = getenv (env_name (se_flag s)) in if v \<noteq> [] then Some v else None)
      | SourceArgs \<Rightarrow> if cli (se_flag s) then Some (fl_value f) else None)"

fun pick_layer :: "(source \<Rightarrow> string option) \<Rightarrow> source list \<Rightarrow> source \<times> string \<Rightarrow> source \<times> string" where
  "pick_layer value [] w = w"
| "pick_layer value (src # srcs) w =
     pick_layer value srcs (case value src of Some raw \<Rightarrow> (src, raw) | None \<Rightarrow> w)"

definition resolve_setting ::
  "(string \<Rightarrow> string) \<Rightarrow> flag_set \<Rightarrow> config \<Rightarrow> (string \<Rightarrow> bool) \<Rightarrow> source list \<Rightarrow> setting \<Rightarrow> flag_set \<times> source" where
  "resolve_setting getenv fs cfg cli order s =
     (let f = fs (se_flag s);
          (winner, raw) = pick_layer (\<lambda>src. layer_value src getenv f cfg cli s) order (SourceDefault, fl_default f)
      in if winner = SourceConfig \<or> winner = SourceEnv
         then (fs(se_flag s := f\<lparr>fl_value := fl_set f raw\<rparr>), winner) else (fs, winner))"

fun resolve_view_settings ::
  "(string \<Rightarrow> string) \<Rightarrow> config \<Rightarrow> (string \<Rightarrow> bool) \<Rightarrow> source list \<Rightarrow> setting list \<Rightarrow> flag_set \<Rightarrow>
    flag_set \<times> (string \<rightharpoonup> source)" where
  "resolve_view_settings getenv cfg cli order [] fs = (fs, Map.empty)"
| "resolve_view_settings getenv cfg cli order (s # ss) fs =
     (let (fs, src) = resolve_setting getenv fs cfg cli order s;
          (fs, sources) = resolve_view_settings getenv cfg cli order ss fs
      in (fs, (if se_flag s \<in> dom sources then sources else sources(se_flag s \<mapsto> src))))"

text \<open>The names of the layers in a precedence, without the blanks and in lower case.\<close>

definition layer_of :: "string \<rightharpoonup> source" where
  "layer_of = map_of [(''default'', SourceDefault), (''defaults'', SourceDefault), (''config'', SourceConfig),
     (''env'', SourceEnv), (''args'', SourceArgs), (''cli'', SourceArgs), (''flags'', SourceArgs)]"

fun parse_layers :: "(source \<Rightarrow> bool) \<Rightarrow> source list \<Rightarrow> string list \<Rightarrow> (string, source list) result" where
  "parse_layers seen order [] = Inr order"
| "parse_layers seen order (tok # toks) =
     (let tok = to_lower (trim_space tok) in
      if tok = [] then parse_layers seen order toks
      else (case layer_of tok of
          None \<Rightarrow> Inl tok
        | Some src \<Rightarrow>
            if src = SourceDefault \<or> seen src then parse_layers seen order toks
            else parse_layers (seen(src := True)) (order @ [src]) toks))"

definition parse_precedence :: "string \<Rightarrow> (string, source list) result" where
  "parse_precedence spec =
     (if trim_space spec = [] then Inr default_precedence
      else parse_layers (\<lambda>_. False) [SourceDefault] (split_on (CHR '','') spec))"

section \<open>Merging (\<open>configmerge.go\<close>)\<close>

datatype merge_error = BadPrecedence string | ConfigFailed config_error

text \<open>A flag given under an alias counts as given under its name.\<close>

definition fold_aliases :: "(string \<Rightarrow> bool) \<Rightarrow> string \<Rightarrow> bool" where
  "fold_aliases visited name \<longleftrightarrow> visited name \<or> (name = ''number'' \<and> visited ''n'') \<or>
     (name = ''human'' \<and> visited ''h'') \<or> (name = ''profile'' \<and> visited ''metrics'')"

definition no_config :: config where
  "no_config = \<lparr>cf_version = 0, cf_interval = 0, cf_group_by = [], cf_leaf = [], cf_columns = [], cf_intervals = [],
     cf_metrics = \<lparr>ms_profile = [], ms_enable = [], ms_disable = []\<rparr>, cf_sort = [], cf_runtime_dir = [],
     cf_history = False, cf_daemon_use = [], cf_daemon_socket = [], cf_presets = [], cf_managed = [],
     cf_target_width = 0, cf_collapse_groups = False, cf_allow_override = False\<rparr>"

text \<open>\<open>found\<close> is what discovering and loading gives, \<open>None\<close> when there is no file.\<close>

definition apply_config_defaults ::
  "(string \<Rightarrow> string) \<Rightarrow> (config_error, config option) result \<Rightarrow> string \<Rightarrow> bool \<Rightarrow> (string \<Rightarrow> bool) \<Rightarrow> flag_set \<Rightarrow>
    (merge_error, flag_set \<times> (string \<rightharpoonup> source)) result" where
  "apply_config_defaults getenv found precedence no_file visited fs =
     (case parse_precedence precedence of
        Inl tok \<Rightarrow> Inl (BadPrecedence tok)
      | Inr order \<Rightarrow>
          (case (if no_file then Inr None else found) of
             Inl e \<Rightarrow> Inl (ConfigFailed e)
           | Inr c \<Rightarrow> Inr (resolve_view_settings getenv (case c of None \<Rightarrow> no_config | Some c \<Rightarrow> c)
               (fold_aliases visited) order view_settings fs)))"

section \<open>The flags of a query (\<open>query.go\<close>)\<close>

definition text_flags :: "string list" where
  "text_flags = [''group-by'', ''leaf'', ''sort'', ''columns'', ''profile'', ''metrics'', ''metric'', ''format'', ''select'', ''having'',
     ''config'', ''config-precedence'']"

text \<open>
  \<open>bindQueryFlags\<close>: the defaults, and that a text flag takes the text as it is. How a number or a switch is read is
  left to the \<open>flag\<close> package, the parameter \<open>typed\<close>.
\<close>

definition bind_query_flags :: "(string \<Rightarrow> string \<Rightarrow> string) \<Rightarrow> flag_set" where
  "bind_query_flags typed name =
     (let def = (if name = ''format'' then ''table''
            else if name = ''number'' \<or> name = ''n'' \<or> name = ''target-width'' then ''0''
            else if name = ''human'' \<or> name = ''h'' \<or> name = ''collapse-groups'' \<or> name = ''no-config'' \<or> name = ''show-config'' then ''false''
            else [])
      in \<lparr>fl_default = def, fl_value = def, fl_set = (if name \<in> set text_flags then (\<lambda>raw. raw) else typed name)\<rparr>)"

text \<open>\<open>toSpecFlags\<close>: the texts of the flag set; the metrics added, the numbers and the switches are those of \<open>f\<close>.\<close>

definition to_spec_flags :: "flag_set \<Rightarrow> flags \<Rightarrow> flags" where
  "to_spec_flags fs f =
     f\<lparr>flg_group_by := fl_value (fs ''group-by''), flg_leaf := fl_value (fs ''leaf''), flg_sort := fl_value (fs ''sort''),
       flg_columns := fl_value (fs ''columns''), flg_profile := fl_value (fs ''profile''), flg_format := fl_value (fs ''format''),
       flg_select := fl_value (fs ''select''), flg_having := fl_value (fs ''having'')\<rparr>"

section \<open>The order of the layers\<close>

lemma parse_layers_order:
  assumes "parse_layers seen order toks = Inr res" and "distinct order" and "\<forall>l. seen l \<longleftrightarrow> l \<in> set (tl order)"
    and "order \<noteq> []" and "hd order = SourceDefault"
  shows "distinct res \<and> res \<noteq> [] \<and> hd res = SourceDefault \<and>
    set res = set order \<union> {l. \<exists>tok \<in> set toks. layer_of (to_lower (trim_space tok)) = Some l}"
  using assms
proof (induction toks arbitrary: seen order)
  case (Cons tok toks)
  let ?t = "to_lower (trim_space tok)"
  show ?case
  proof (cases "?t = []")
    case True
    then have "layer_of ?t = None" by (simp add: layer_of_def)
    then show ?thesis using Cons True by auto
  next
    case False
    then obtain src where src: "layer_of ?t = Some src" using Cons.prems(1) by (auto simp: Let_def split: option.splits)
    have mem: "src \<in> set order \<longleftrightarrow> src = SourceDefault \<or> seen src"
      using Cons.prems by (cases order) auto
    show ?thesis
    proof (cases "src \<in> set order")
      case True
      then show ?thesis using Cons.IH [of seen order] Cons.prems src mem False by auto
    next
      case new: False
      then have "parse_layers (seen(src := True)) (order @ [src]) toks = Inr res"
        using Cons.prems(1) src mem False by simp
      moreover have "distinct (order @ [src])" using Cons.prems(2) new by simp
      moreover have "\<forall>l. (seen(src := True)) l \<longleftrightarrow> l \<in> set (tl (order @ [src]))"
        using Cons.prems(3,4) by (cases order) auto
      moreover have "hd (order @ [src]) = SourceDefault" using Cons.prems(4,5) by simp
      moreover have "order @ [src] \<noteq> []" by simp
      ultimately have IH: "distinct res \<and> res \<noteq> [] \<and> hd res = SourceDefault \<and>
          set res = set (order @ [src]) \<union> {l. \<exists>tok \<in> set toks. layer_of (to_lower (trim_space tok)) = Some l}"
        using Cons.IH by blast
      have "{l. \<exists>tok' \<in> set (tok # toks). layer_of (to_lower (trim_space tok')) = Some l} =
          insert src {l. \<exists>tok \<in> set toks. layer_of (to_lower (trim_space tok)) = Some l}"
        using src by auto
      then show ?thesis using IH by simp
    qed
  qed
qed simp

lemma parse_layers_ok:
  "is_ok (parse_layers seen order toks) \<longleftrightarrow>
    (\<forall>tok \<in> set toks. to_lower (trim_space tok) = [] \<or> layer_of (to_lower (trim_space tok)) \<noteq> None)"
  by (induction toks arbitrary: seen order) (auto simp: Let_def split: option.splits)

lemma precedence_order:
  assumes "parse_precedence spec = Inr order"
  shows "distinct order \<and> order \<noteq> [] \<and> hd order = SourceDefault \<and>
    (if trim_space spec = [] then order = [SourceDefault, SourceConfig, SourceEnv, SourceArgs]
     else set order = {SourceDefault} \<union>
       {l. \<exists>tok \<in> set (split_on (CHR '','') spec). layer_of (to_lower (trim_space tok)) = Some l})"
  using assms parse_layers_order [of "\<lambda>_. False" "[SourceDefault]" "split_on (CHR '','') spec" order]
  by (auto simp: parse_precedence_def default_precedence_def)

text \<open>
  Precedence. A precedence is refused exactly when it names an unknown layer. Otherwise the
  order starts with the default layer and repeats none; apart from the default it holds exactly
  the layers the text names, and a blank text means all four in their usual order.
\<close>

theorem precedence_layers:
  "case parse_precedence spec of
     Inl tok \<Rightarrow> trim_space spec \<noteq> [] \<and>
       list_ex (\<lambda>tok. to_lower (trim_space tok) \<noteq> [] \<and> layer_of (to_lower (trim_space tok)) = None) (split_on (CHR '','') spec)
   | Inr order \<Rightarrow> distinct order \<and> order \<noteq> [] \<and> hd order = SourceDefault \<and>
       (if trim_space spec = [] then order = [SourceDefault, SourceConfig, SourceEnv, SourceArgs]
        else set order = {SourceDefault} \<union>
          {l. \<exists>tok \<in> set (split_on (CHR '','') spec). layer_of (to_lower (trim_space tok)) = Some l})"
proof (cases "parse_precedence spec")
  case (Inl tok)
  then have "trim_space spec \<noteq> []" "\<not> is_ok (parse_layers (\<lambda>_. False) [SourceDefault] (split_on (CHR '','') spec))"
    by (auto simp: parse_precedence_def split: if_splits)
  then show ?thesis using Inl by (simp add: parse_layers_ok list_all_iff list_ex_iff)
next
  case (Inr order)
  then show ?thesis using precedence_order [OF Inr] by simp
qed

section \<open>The layer that wins\<close>

definition providers :: "(source \<Rightarrow> string option) \<Rightarrow> source list \<Rightarrow> source list" where
  "providers value order = filter (\<lambda>l. value l \<noteq> None) order"

lemma pick_layer_last:
  "pick_layer value order w =
    (if providers value order = [] then w
     else (last (providers value order), the (value (last (providers value order)))))"
  by (induction order arbitrary: w) (auto simp: providers_def split: option.splits)

text \<open>The value a flag ends with, given the layer that wins.\<close>

definition won_value :: "source \<Rightarrow> flag \<Rightarrow> string option \<Rightarrow> string" where
  "won_value src f raw = (if src = SourceConfig \<or> src = SourceEnv then fl_set f (the raw) else fl_value f)"

lemma resolve_setting_eq:
  assumes "hd order = SourceDefault" and "order \<noteq> []"
  shows "resolve_setting getenv fs cfg cli order s =
    (let f = fs (se_flag s); value = (\<lambda>src. layer_value src getenv f cfg cli s); src = last (providers value order)
     in (fs(se_flag s := f\<lparr>fl_value := won_value src f (value src)\<rparr>), src))"
proof -
  have "providers (\<lambda>src. layer_value src getenv f cfg cli s) order \<noteq> []" for f
    using assms by (cases order) (auto simp: providers_def layer_value_def)
  then show ?thesis
    by (simp add: resolve_setting_def pick_layer_last won_value_def Let_def)
qed

lemma resolve_view_settings_spec:
  assumes "hd order = SourceDefault" and "order \<noteq> []" and "distinct (map se_flag ss)"
    and "resolve_view_settings getenv cfg cli order ss fs = (fs', sources)"
  shows "(\<forall>s \<in> set ss. sources (se_flag s) = Some (snd (resolve_setting getenv fs cfg cli order s)) \<and>
      fs' (se_flag s) = fst (resolve_setting getenv fs cfg cli order s) (se_flag s)) \<and>
    dom sources = se_flag ` set ss \<and> (\<forall>n. n \<notin> se_flag ` set ss \<longrightarrow> fs' n = fs n)"
  using assms(3,4)
proof (induction ss arbitrary: fs fs' sources)
  case (Cons s ss)
  obtain fs1 src where s1: "resolve_setting getenv fs cfg cli order s = (fs1, src)" by fastforce
  obtain sources1 where s2: "resolve_view_settings getenv cfg cli order ss fs1 = (fs', sources1)"
    "sources = (if se_flag s \<in> dom sources1 then sources1 else sources1(se_flag s \<mapsto> src))"
    using Cons.prems(2) by (auto simp: s1 split: prod.splits)
  have IH: "(\<forall>s \<in> set ss. sources1 (se_flag s) = Some (snd (resolve_setting getenv fs1 cfg cli order s)) \<and>
      fs' (se_flag s) = fst (resolve_setting getenv fs1 cfg cli order s) (se_flag s)) \<and>
    dom sources1 = se_flag ` set ss \<and> (\<forall>n. n \<notin> se_flag ` set ss \<longrightarrow> fs' n = fs1 n)"
    using Cons.IH [OF _ s2(1)] Cons.prems(1) by simp
  have other: "fs1 n = fs n" if "n \<noteq> se_flag s" for n
    using s1 that by (auto simp: resolve_setting_eq [OF assms(1,2)] Let_def)
  have new: "se_flag s \<notin> se_flag ` set ss" using Cons.prems(1) by simp
  have same: "snd (resolve_setting getenv fs1 cfg cli order t) = snd (resolve_setting getenv fs cfg cli order t) \<and>
      fst (resolve_setting getenv fs1 cfg cli order t) (se_flag t) = fst (resolve_setting getenv fs cfg cli order t) (se_flag t)"
    if "t \<in> set ss" for t
  proof -
    have "se_flag t \<noteq> se_flag s" using new that by (metis imageI)
    from other [OF this] show ?thesis by (simp add: resolve_setting_eq [OF assms(1,2)] Let_def)
  qed
  have "sources (se_flag t) = Some (snd (resolve_setting getenv fs cfg cli order t)) \<and>
      fs' (se_flag t) = fst (resolve_setting getenv fs cfg cli order t) (se_flag t)" if t: "t \<in> set (s # ss)" for t
  proof (cases "t = s")
    case True
    have "se_flag s \<notin> dom sources1" "fs' (se_flag s) = fs1 (se_flag s)" using IH new by auto
    then show ?thesis using s1 s2(2) True by simp
  next
    case False
    then have "t \<in> set ss" using t by simp
    moreover from this have "se_flag t \<noteq> se_flag s" using new by (metis imageI)
    ultimately show ?thesis using IH same s2(2) by auto
  qed
  moreover have "dom sources = se_flag ` set (s # ss)" using IH s2(2) by auto
  moreover have "\<forall>n. n \<notin> se_flag ` set (s # ss) \<longrightarrow> fs' n = fs n" using IH other by simp
  ultimately show ?case by blast
qed simp

lemma view_settings_distinct: "distinct (map se_flag view_settings)"
  by (simp add: view_settings_def)

text \<open>What is promised of one setting, from the flags before and after.\<close>

definition setting_resolved ::
  "(string \<Rightarrow> string) \<Rightarrow> config \<Rightarrow> (string \<Rightarrow> bool) \<Rightarrow> source list \<Rightarrow> flag_set \<Rightarrow> flag_set \<Rightarrow> (string \<rightharpoonup> source) \<Rightarrow> setting \<Rightarrow> bool" where
  "setting_resolved getenv cfg cli order fs fs' sources s \<longleftrightarrow>
     (let f = fs (se_flag s); value = (\<lambda>src. layer_value src getenv f cfg cli s); src = last (filter (\<lambda>l. value l \<noteq> None) order)
      in sources (se_flag s) = Some src \<and>
         fl_value (fs' (se_flag s)) =
           (if src = SourceConfig \<or> src = SourceEnv then fl_set f (the (value src)) else the (value src)))"

text \<open>What the command line set is in the precedence, and what it left alone is at its default.\<close>

definition flag_covered :: "(string \<Rightarrow> bool) \<Rightarrow> source list \<Rightarrow> flag_set \<Rightarrow> setting \<Rightarrow> bool" where
  "flag_covered cli order fs s \<longleftrightarrow>
     (if cli (se_flag s) then SourceArgs \<in> set order
      else fl_value (fs (se_flag s)) = fl_default (fs (se_flag s)))"

lemma last_provider:
  assumes "distinct order" and "order \<noteq> []" and "hd order = SourceDefault" and "value SourceDefault \<noteq> None"
  shows "value (last (providers value order)) \<noteq> None"
    and "l \<in> set order \<Longrightarrow> value l \<noteq> None \<Longrightarrow> l \<noteq> SourceDefault \<Longrightarrow> last (providers value order) \<noteq> SourceDefault"
proof -
  obtain rest where order: "order = SourceDefault # rest" "SourceDefault \<notin> set rest"
    using assms(1,2,3) by (cases order) auto
  have "providers value order \<noteq> []" using order assms(4) by (simp add: providers_def)
  from last_in_set [OF this] show "value (last (providers value order)) \<noteq> None"
    by (simp add: providers_def)
  assume "l \<in> set order" "value l \<noteq> None" "l \<noteq> SourceDefault"
  then have "l \<in> set (providers value rest)" using order by (auto simp: providers_def)
  moreover have "providers value order = SourceDefault # providers value rest"
    using order assms(4) by (auto simp: providers_def)
  ultimately have "last (providers value order) \<in> set (providers value rest)"
    using last_in_set [of "providers value rest"] by (cases "providers value rest") auto
  then show "last (providers value order) \<noteq> SourceDefault"
    using order(2) by (auto simp: providers_def)
qed

lemma won_value_eq:
  assumes "distinct order" and order: "order \<noteq> []" "hd order = SourceDefault" and cov: "flag_covered cli order fs s"
  shows "won_value (last (providers (\<lambda>src. layer_value src getenv (fs (se_flag s)) cfg cli s) order)) (fs (se_flag s)) v =
    (let src = last (providers (\<lambda>src. layer_value src getenv (fs (se_flag s)) cfg cli s) order)
     in if src = SourceConfig \<or> src = SourceEnv then fl_set (fs (se_flag s)) (the v)
        else the (layer_value src getenv (fs (se_flag s)) cfg cli s))"
proof -
  let ?layer = "\<lambda>src. layer_value src getenv (fs (se_flag s)) cfg cli s"
  have default: "?layer SourceDefault \<noteq> None" by (simp add: layer_value_def)
  note prov = last_provider [of order ?layer, OF assms(1-3) default]
  show ?thesis
  proof (cases "last (providers ?layer order)")
    case SourceDefault
    have "\<not> cli (se_flag s)"
    proof
      assume set: "cli (se_flag s)"
      then have "SourceArgs \<in> set order" "?layer SourceArgs \<noteq> None"
        using cov by (simp_all add: flag_covered_def layer_value_def)
      then show False using prov(2) [of SourceArgs] SourceDefault by simp
    qed
    then show ?thesis using SourceDefault cov by (simp add: won_value_def layer_value_def flag_covered_def)
  next
    case SourceArgs
    then show ?thesis using prov(1) by (simp add: won_value_def layer_value_def split: if_splits)
  qed (simp_all add: won_value_def)
qed

text \<open>
  Effective settings. For every observation flag the layer reported is the last one of the
  precedence that has a value for it, and the flag ends with that layer's value, read back through
  the flag's own syntax when it came from the file or the environment. Needed of the command line:
  what it sets is in the precedence, and what it leaves alone is still at its default. No other
  flag is touched.
\<close>

theorem settings_resolved:
  assumes "apply_config_defaults getenv found precedence no_file visited fs = Inr (fs', sources)"
    and "parse_precedence precedence = Inr order"
    and "list_all (flag_covered (fold_aliases visited) order fs) view_settings"
    and "cfg = (if no_file then no_config else case found of Inr (Some c) \<Rightarrow> c | _ \<Rightarrow> no_config)"
  shows "list_all (setting_resolved getenv cfg (fold_aliases visited) order fs fs' sources) view_settings \<and>
    (\<forall>n. n \<notin> se_flag ` set view_settings \<longrightarrow> fs' n = fs n)"
proof -
  have c: "resolve_view_settings getenv cfg (fold_aliases visited) order view_settings fs = (fs', sources)"
    using assms(1,2,4) by (auto simp: apply_config_defaults_def split: sum.splits if_splits option.splits)
  note order = precedence_order [OF assms(2)]
  have hd: "hd order = SourceDefault" "order \<noteq> []" using order by auto
  note each = resolve_view_settings_spec [OF hd view_settings_distinct c]
  have "setting_resolved getenv cfg (fold_aliases visited) order fs fs' sources s" if s: "s \<in> set view_settings" for s
  proof -
    have "flag_covered (fold_aliases visited) order fs s" using assms(3) s by (simp add: list_all_iff)
    then show ?thesis
      using each s won_value_eq [of order "fold_aliases visited" fs s getenv cfg] order
      by (simp add: setting_resolved_def resolve_setting_eq [OF hd] Let_def providers_def)
  qed
  then show ?thesis using each by (simp add: list_all_iff)
qed

end
