(* ===== verification/Config_Query.thy ===== *)
theory Config_Query
  imports App_Settings
begin

text \<open>
  From the configuration file to the query: what the settings layer makes of a loaded configuration
  is read back by the query flags as what the file said, and the query is built.
\<close>

section \<open>Texts that survive\<close>









section \<open>Through the settings to the query\<close>











end
