(* ===== verification/Config_Examples.thy ===== *)
theory Config_Examples
  imports Config_Daemon
begin

text \<open>The configuration's properties at a concrete file: a preset, an interval and a managed rule.\<close>

definition ex_raw_preset :: "string \<Rightarrow> raw_preset" where
  "ex_raw_preset parent = \<lparr>rp_extends = Some parent, rp_interval = None, rp_group_by = [''user''], rp_leaf = None,
     rp_columns = [], rp_having = None, rp_metrics = None, rp_sort = [\<lparr>rs_field = ''cpu'', rs_direction = []\<rparr>]\<rparr>"

definition ex_rule :: raw_managed where
  "ex_rule = \<lparr>rma_name = ''jobs'', rma_selector = ''comm == 'sh' '', rma_on_drift = None,
     rma_view = Some \<lparr>rv_group_by = [''user''], rv_leaf = None, rv_view_columns = []\<rparr>,
     rma_control = Some \<lparr>ci_nice = Some 10, ci_freeze = None, ci_stop = None\<rparr>\<rparr>"

definition ex_raw :: raw_config where
  "ex_raw = \<lparr>rc_version = None, rc_interval = Some (show_duration 2000000000), rc_group_by = [], rc_leaf = None,
     rc_columns = [], rc_intervals = [], rc_metrics = None, rc_sort = [], rc_state = None, rc_daemon = None,
     rc_presets = [(''base'', ex_raw_preset []), (''mine'', ex_raw_preset ''base'')], rc_managed = [ex_rule],
     rc_target_width = None, rc_collapse_groups = None, rc_allow_override = Some True\<rparr>"

definition ex_validator :: validator where
  "ex_validator = daemon_validator (\<lambda>_. None) new_registry new_dimensions"

definition ex_config :: config where
  "ex_config = \<lparr>cf_version = 1, cf_interval = 2000000000, cf_group_by = [], cf_leaf = ''process'', cf_columns = [],
     cf_intervals = [], cf_metrics = \<lparr>ms_profile = [], ms_enable = [], ms_disable = []\<rparr>, cf_sort = [],
     cf_runtime_dir = [], cf_history = False, cf_daemon_use = ''auto'', cf_daemon_socket = [],
     cf_presets = map (\<lambda>(n, parent). (n,
       \<lparr>pr_extends = parent, pr_interval = 0, pr_group_by = [''user''], pr_leaf = [], pr_columns = [], pr_having = [],
        pr_metrics = \<lparr>ms_profile = [], ms_enable = [], ms_disable = []\<rparr>,
        pr_sort = [\<lparr>sd_field = ''cpu'', sd_direction = ''asc''\<rparr>]\<rparr>)) [(''base'', []), (''mine'', ''base'')],
     cf_managed = [\<lparr>ma_name = ''jobs'', ma_selector = ''comm == 'sh' '', ma_on_drift = ''report'',
       ma_view = \<lparr>vw_group_by = [''user''], vw_leaf = [], vw_columns = []\<rparr>,
       ma_control = \<lparr>ci_nice = Some 10, ci_freeze = None, ci_stop = None\<rparr>, ma_has_control = True\<rparr>],
     cf_target_width = 0, cf_collapse_groups = False, cf_allow_override = True\<rparr>"

lemma ex_normalize: "normalize_config ex_raw = Inr ex_config"
proof -
  have "set_duration (rc_interval ex_raw) f = Inr 2000000000" for f
    using set_duration_show [of 2000000000] by (simp add: dur_ok_def ex_raw_def)
  then show ?thesis
    by (simp add: normalize_config_def) (simp add: ex_raw_def ex_config_def ex_raw_preset_def ex_rule_def
        normalize_preset_def normalize_sort_def normalize_metrics_def normalize_managed_def normalize_rule_def
        set_duration_def or_default_def)
qed

lemma ex_valid: "validate_config ex_validator ex_config = None"
  by code_simp

lemma ex_load: "load (\<lambda>_ _. Inr ex_raw) [] TOML ex_validator = Inr ex_config"
  by (simp add: load_def ex_normalize ex_valid)

theorem encode_load_round_witness:
  "load (\<lambda>_ _. Inr (read_back (to_out ex_config))) (encode (\<lambda>_ _. []) ex_config JSON) JSON ex_validator =
     Inr (strip ex_config) \<and> cf_interval (strip ex_config) = 2000000000 \<and> \<not> cf_allow_override (strip ex_config)"
proof -
  have "load (\<lambda>fmt _. if fmt = TOML then Inr ex_raw else Inr (read_back (to_out ex_config))) [] TOML ex_validator =
      Inr ex_config"
    by (simp add: load_def ex_normalize ex_valid)
  from encode_load_round [OF this, of JSON "\<lambda>_ _. []"] show ?thesis
    by (simp add: load_def strip_def ex_config_def)
qed

theorem loaded_policies_resolve_witness:
  "map t_name (policies (fst (reload (load_policies (\<lambda>_ _. Inr ex_raw) ex_validator (Inr (Some ([], TOML)))) ex_daemon))) = [''jobs''] \<and>
   list_all (policy_ok (\<lambda>_. None)
     (fst (reload (load_policies (\<lambda>_ _. Inr ex_raw) ex_validator (Inr (Some ([], TOML)))) ex_daemon)))
     (policies (fst (reload (load_policies (\<lambda>_ _. Inr ex_raw) ex_validator (Inr (Some ([], TOML)))) ex_daemon)))"
proof -
  have reg: "de_reg ex_daemon = new_registry" by (simp add: ex_daemon_def new_dengine_def)
  have "load (\<lambda>_ _. Inr ex_raw) [] TOML (daemon_validator (\<lambda>_. None) (de_reg ex_daemon) new_dimensions) = Inr ex_config"
    using ex_load by (simp add: ex_validator_def reg)
  from loaded_policies_resolve [OF this surjective_pairing] show ?thesis
    by (simp add: ex_validator_def reg) (simp add: ex_config_def)
qed

end
