(* ===== verification/Settings_Examples.thy ===== *)
theory Settings_Examples
  imports Config_Query Config_Examples
begin

text \<open>
  The settings at a concrete command line: \<open>--sort\<close> given, \<open>PROCFIT_LEAF\<close> set in the environment,
  the configuration of \<open>Config_Examples\<close> found.
\<close>

definition ex_getenv :: "string \<Rightarrow> string" where
  "ex_getenv n = (if n = ''PROCFIT_LEAF'' then ''none'' else [])"

definition ex_flags :: flag_set where
  "ex_flags n = \<lparr>fl_default = (if n = ''format'' then ''table'' else []),
     fl_value = (if n = ''sort'' then ''rss:desc'' else if n = ''format'' then ''table'' else []), fl_set = id\<rparr>"

definition ex_visited :: "string \<Rightarrow> bool" where
  "ex_visited n \<longleftrightarrow> n = ''sort''"

definition ex_settings :: "flag_set \<times> (string \<rightharpoonup> source)" where
  "ex_settings = resolve_view_settings ex_getenv ex_config (fold_aliases ex_visited) default_precedence view_settings ex_flags"

lemma ex_precedence: "parse_precedence [] = Inr default_precedence"
  by code_simp

lemma ex_apply:
  "apply_config_defaults ex_getenv (Inr (Some ex_config)) [] False ex_visited ex_flags = Inr (fst ex_settings, snd ex_settings)"
  by (simp add: apply_config_defaults_def ex_precedence ex_settings_def)

lemma ex_covered: "list_all (flag_covered (fold_aliases ex_visited) default_precedence ex_flags) view_settings"
  by code_simp

theorem settings_resolved_witness:
  "list_all (setting_resolved ex_getenv ex_config (fold_aliases ex_visited) default_precedence ex_flags (fst ex_settings)
     (snd ex_settings)) view_settings \<and>
   snd ex_settings ''leaf'' = Some SourceEnv \<and> fl_value (fst ex_settings ''leaf'') = ''none'' \<and>
   snd ex_settings ''sort'' = Some SourceArgs \<and> fl_value (fst ex_settings ''sort'') = ''rss:desc''"
proof -
  have "snd ex_settings ''leaf'' = Some SourceEnv \<and> fl_value (fst ex_settings ''leaf'') = ''none'' \<and>
   snd ex_settings ''sort'' = Some SourceArgs \<and> fl_value (fst ex_settings ''sort'') = ''rss:desc''"
    by code_simp
  then show ?thesis
    using settings_resolved [OF ex_apply ex_precedence ex_covered refl] by simp
qed






text \<open>
  The command line wins where it is not in the precedence: with \<open>--config-precedence env\<close> the
  value of \<open>--sort\<close> stays in force and is reported as the default.
\<close>

lemma excluded_args_still_apply:
  "case apply_config_defaults ex_getenv (Inr None) ''env'' False ex_visited ex_flags of
     Inr (fs, sources) \<Rightarrow> sources ''sort'' = Some SourceDefault \<and> fl_value (fs ''sort'') = ''rss:desc''
   | Inl _ \<Rightarrow> False"
  by code_simp

end
