(* ===== verification/Procfs_Parse.thy ===== *)
theory Procfs_Parse
  imports Collect
begin

text \<open>
  The readers of \<open>/proc\<close> text, \<open>internal/procfs\<close>: process and task records (\<open>parse.go\<close>), memory
  detail (\<open>procmem.go\<close>), scheduler counters (\<open>schedstat.go\<close>, \<open>sched_wakeups.go\<close>), the
  classes of file descriptors (\<open>fd.go\<close>) and the socket tables (\<open>socket.go\<close>). Counters are words
  of their width; a number that does not parse reads as what \<open>strconv\<close> returns beside its error.
\<close>

section \<open>Numbers (\<open>parse.go\<close>)\<close>

definition u64_of :: "string \<Rightarrow> 64 word" where
  "u64_of s = word_of_nat (fst (parse_uint 64 s))"

definition parse_u64 :: "string \<Rightarrow> 64 word option" where
  "parse_u64 s = (case parse_uint 64 s of (n, None) \<Rightarrow> Some (word_of_nat n) | (n, Some e) \<Rightarrow> None)"

definition first_uint32 :: "string \<Rightarrow> 32 word" where
  "first_uint32 s = (case Go_Strings.fields s of [] \<Rightarrow> 0 | f # _ \<Rightarrow> word_of_nat (fst (parse_uint 32 f)))"

definition first_uint64 :: "string \<Rightarrow> 64 word" where
  "first_uint64 s = (case Go_Strings.fields s of [] \<Rightarrow> 0 | f # _ \<Rightarrow> u64_of f)"

definition kb_to_bytes :: "string \<Rightarrow> 64 word" where
  "kb_to_bytes s = first_uint64 s * 1024"

section \<open>Process records (\<open>parse.go\<close>)\<close>

record stat_info =
  si_pid :: int
  si_comm :: string
  si_state :: char
  si_ppid :: int
  si_pgid :: int
  si_sid :: int
  si_min_flt :: "64 word"
  si_maj_flt :: "64 word"
  si_utime :: "64 word"
  si_stime :: "64 word"
  si_nice :: int
  si_num_threads :: int
  si_start_time :: "64 word"
  si_vsize :: "64 word"
  si_rss_pages :: "64 word"
  si_blkio :: "64 word"

datatype stat_error = NoParentheses | BadStatPid string

text \<open>Field \<open>n\<close> of the line, counting from the pid, is word \<open>n - 3\<close> of what follows the comm.\<close>

definition stat_field :: "string list \<Rightarrow> nat \<Rightarrow> string option" where
  "stat_field rest field =
     (if field < 3 \<or> field - 3 \<ge> length rest then None else Some (rest ! (field - 3)))"

definition atoi_field :: "string list \<Rightarrow> nat \<Rightarrow> int" where
  "atoi_field rest field = (case stat_field rest field of Some v \<Rightarrow> fst (atoi v) | None \<Rightarrow> 0)"

definition auint_field :: "string list \<Rightarrow> nat \<Rightarrow> 64 word" where
  "auint_field rest field = (case stat_field rest field of Some v \<Rightarrow> u64_of v | None \<Rightarrow> 0)"

definition stat_of_fields :: "int \<Rightarrow> string \<Rightarrow> string list \<Rightarrow> stat_info" where
  "stat_of_fields pid comm rest =
     \<lparr>si_pid = pid, si_comm = comm,
      si_state = (case stat_field rest 3 of Some (c # _) \<Rightarrow> c | _ \<Rightarrow> CHR 0x00),
      si_ppid = atoi_field rest 4, si_pgid = atoi_field rest 5, si_sid = atoi_field rest 6,
      si_min_flt = auint_field rest 10, si_maj_flt = auint_field rest 12,
      si_utime = auint_field rest 14, si_stime = auint_field rest 15,
      si_nice = atoi_field rest 19, si_num_threads = atoi_field rest 20,
      si_start_time = auint_field rest 22, si_vsize = auint_field rest 23,
      si_rss_pages = auint_field rest 24, si_blkio = auint_field rest 42\<rparr>"

definition parse_stat :: "string \<Rightarrow> (stat_error, stat_info) result" where
  "parse_stat s =
     (case (str_cut (CHR ''('') s, str_cut_last (CHR '')'') s) of
        (Some (pre, _), Some (head, tail)) \<Rightarrow>
          if length head < length pre then Inl NoParentheses
          else (case atoi (trim_space pre) of
              (_, Some _) \<Rightarrow> Inl (BadStatPid (trim_space pre))
            | (pid, None) \<Rightarrow> Inr (stat_of_fields pid (drop (length pre + 1) head) (Go_Strings.fields tail)))
      | _ \<Rightarrow> Inl NoParentheses)"

definition io_line :: "string \<Rightarrow> (string \<rightharpoonup> 64 word) \<Rightarrow> (string \<rightharpoonup> 64 word)" where
  "io_line line out =
     (case str_cut (CHR '':'') line of
        None \<Rightarrow> out
      | Some (k, v) \<Rightarrow> (case parse_u64 (trim_space v) of None \<Rightarrow> out | Some n \<Rightarrow> out(trim_space k \<mapsto> n)))"

definition parse_io :: "string \<Rightarrow> (string \<rightharpoonup> 64 word)" where
  "parse_io s = fold io_line (split_on (CHR 0x0A) s) Map.empty"

definition parse_ns_inode :: "string \<Rightarrow> 64 word option" where
  "parse_ns_inode target =
     (case (str_cut (CHR ''['') target, str_cut (CHR '']'') target) of
        (Some (pre, _), Some (head, _)) \<Rightarrow>
          if length head < length pre then None else parse_u64 (drop (length pre + 1) head)
      | _ \<Rightarrow> None)"

record status_info =
  st_uid :: "32 word"
  st_gid :: "32 word"
  st_vol_ctx :: "64 word"
  st_invol_ctx :: "64 word"
  st_rss_peak :: "64 word"
  st_rss_anon :: "64 word"
  st_rss_file :: "64 word"
  st_rss_shmem :: "64 word"
  st_swap :: "64 word"

definition zero_status :: status_info where
  "zero_status = \<lparr>st_uid = 0, st_gid = 0, st_vol_ctx = 0, st_invol_ctx = 0, st_rss_peak = 0, st_rss_anon = 0,
     st_rss_file = 0, st_rss_shmem = 0, st_swap = 0\<rparr>"

definition after :: "string \<Rightarrow> string \<Rightarrow> string" where
  "after key line = drop (length key) line"

definition status_line :: "string \<Rightarrow> status_info \<Rightarrow> status_info" where
  "status_line line si =
     (if has_prefix line ''Uid:'' then si\<lparr>st_uid := first_uint32 (after ''Uid:'' line)\<rparr>
      else if has_prefix line ''Gid:'' then si\<lparr>st_gid := first_uint32 (after ''Gid:'' line)\<rparr>
      else if has_prefix line ''voluntary_ctxt_switches:'' then
        si\<lparr>st_vol_ctx := first_uint64 (after ''voluntary_ctxt_switches:'' line)\<rparr>
      else if has_prefix line ''nonvoluntary_ctxt_switches:'' then
        si\<lparr>st_invol_ctx := first_uint64 (after ''nonvoluntary_ctxt_switches:'' line)\<rparr>
      else if has_prefix line ''VmHWM:'' then si\<lparr>st_rss_peak := kb_to_bytes (after ''VmHWM:'' line)\<rparr>
      else if has_prefix line ''RssAnon:'' then si\<lparr>st_rss_anon := kb_to_bytes (after ''RssAnon:'' line)\<rparr>
      else if has_prefix line ''RssFile:'' then si\<lparr>st_rss_file := kb_to_bytes (after ''RssFile:'' line)\<rparr>
      else if has_prefix line ''RssShmem:'' then si\<lparr>st_rss_shmem := kb_to_bytes (after ''RssShmem:'' line)\<rparr>
      else if has_prefix line ''VmSwap:'' then si\<lparr>st_swap := kb_to_bytes (after ''VmSwap:'' line)\<rparr>
      else si)"

definition parse_status :: "string \<Rightarrow> status_info" where
  "parse_status s = fold status_line (split_on (CHR 0x0A) s) zero_status"

definition parse_btime :: "string \<Rightarrow> int" where
  "parse_btime s =
     (case List.find (\<lambda>line. has_prefix line ''btime '') (split_on (CHR 0x0A) s) of
        None \<Rightarrow> 0
      | Some line \<Rightarrow> fst (atoi (trim_space (after ''btime '' line))))"

section \<open>Environment, control group, names (\<open>read.go\<close>, \<open>source.go\<close>)\<close>

definition env_value :: "string \<Rightarrow> string \<Rightarrow> string" where
  "env_value environ key =
     (case List.find (\<lambda>kv. has_prefix kv (key @ ''='')) (split_on (CHR 0x00) environ) of
        None \<Rightarrow> []
      | Some kv \<Rightarrow> after (key @ ''='') kv)"

definition parse_cgroup :: "string \<Rightarrow> string" where
  "parse_cgroup s =
     (case List.find (\<lambda>line. has_prefix line ''0::'') (split_on (CHR 0x0A) s) of
        None \<Rightarrow> []
      | Some line \<Rightarrow> after ''0::'' line)"

definition parse_cmdline :: "string \<Rightarrow> string list" where
  "parse_cmdline s =
     (let trimmed = trim_right_set s [CHR 0x00] in if trimmed = [] then [] else split_on (CHR 0x00) trimmed)"

definition parse_wchan :: "string \<Rightarrow> string" where
  "parse_wchan s = (let w = trim_space s in if w = ''0'' then [] else w)"

definition numeric_name :: "string \<Rightarrow> int option" where
  "numeric_name name = (case atoi name of (n, None) \<Rightarrow> if n \<le> 0 then None else Some n | (_, Some _) \<Rightarrow> None)"

text \<open>\<open>itoa\<close> gives no digits for a negative number.\<close>

definition itoa :: "int \<Rightarrow> string" where
  "itoa n = (if n < 0 then [] else show_nat (nat n))"

section \<open>Tasks, memory, scheduler (\<open>threadstate.go\<close>, \<open>procmem.go\<close>, \<open>schedstat.go\<close>, \<open>sched_wakeups.go\<close>)\<close>

definition task_state :: "string \<Rightarrow> char" where
  "task_state s =
     (case str_cut_last (CHR '')'') s of
        None \<Rightarrow> CHR 0x00
      | Some (_, tail) \<Rightarrow> (case dropWhile (\<lambda>c. c = CHR '' '') tail of [] \<Rightarrow> CHR 0x00 | c # _ \<Rightarrow> c))"

record smaps_rollup =
  sm_pss :: "64 word"
  sm_private_clean :: "64 word"
  sm_private_dirty :: "64 word"
  sm_swap_pss :: "64 word"

definition uss :: "smaps_rollup \<Rightarrow> 64 word" where
  "uss r = sm_private_clean r + sm_private_dirty r"

definition smaps_line :: "string \<Rightarrow> smaps_rollup \<Rightarrow> smaps_rollup" where
  "smaps_line line r =
     (if has_prefix line ''Pss:'' then r\<lparr>sm_pss := kb_to_bytes (after ''Pss:'' line)\<rparr>
      else if has_prefix line ''Private_Clean:'' then r\<lparr>sm_private_clean := kb_to_bytes (after ''Private_Clean:'' line)\<rparr>
      else if has_prefix line ''Private_Dirty:'' then r\<lparr>sm_private_dirty := kb_to_bytes (after ''Private_Dirty:'' line)\<rparr>
      else if has_prefix line ''SwapPss:'' then r\<lparr>sm_swap_pss := kb_to_bytes (after ''SwapPss:'' line)\<rparr>
      else r)"

definition parse_smaps_rollup :: "string \<Rightarrow> smaps_rollup" where
  "parse_smaps_rollup s = fold smaps_line (split_on (CHR 0x0A) s)
     \<lparr>sm_pss = 0, sm_private_clean = 0, sm_private_dirty = 0, sm_swap_pss = 0\<rparr>"

definition parse_schedstat_run_delay :: "string \<Rightarrow> 64 word option" where
  "parse_schedstat_run_delay s = (case Go_Strings.fields s of _ # f # _ \<Rightarrow> parse_u64 f | _ \<Rightarrow> None)"

fun sched_field_in :: "string list \<Rightarrow> string \<Rightarrow> 64 word option" where
  "sched_field_in [] key = None"
| "sched_field_in (line # lines) key =
     (case str_cut (CHR '':'') line of
        None \<Rightarrow> sched_field_in lines key
      | Some (k, v) \<Rightarrow> if trim_space k \<noteq> key then sched_field_in lines key else parse_u64 (trim_space v))"

definition parse_sched_field :: "string \<Rightarrow> string \<Rightarrow> 64 word option" where
  "parse_sched_field data key = sched_field_in (split_on (CHR 0x0A) data) key"

section \<open>File descriptors (\<open>fd.go\<close>)\<close>

datatype fd_kind = FdFile | FdSocket | FdPipe | FdEventfd | FdEpoll | FdTimerfd | FdSignalfd | FdInotify | FdAnon

definition classify_anon :: "string \<Rightarrow> fd_kind" where
  "classify_anon name =
     (let name = trim_set name ''[]'' in
      if name = ''eventfd'' then FdEventfd
      else if name = ''eventpoll'' \<or> name = ''[eventpoll]'' then FdEpoll
      else if contains name ''timerfd'' then FdTimerfd
      else if contains name ''signalfd'' then FdSignalfd
      else if contains name ''inotify'' then FdInotify
      else FdAnon)"

definition classify_fd :: "string \<Rightarrow> fd_kind" where
  "classify_fd target =
     (if has_prefix target ''socket:'' then FdSocket
      else if has_prefix target ''pipe:'' then FdPipe
      else if has_prefix target ''anon_inode:'' then classify_anon (after ''anon_inode:'' target)
      else FdFile)"

record fd_counts =
  fd_total :: int
  fd_files :: int
  fd_sockets :: int
  fd_pipes :: int
  fd_anon :: int
  fd_eventfd :: int
  fd_epoll :: int
  fd_timerfd :: int
  fd_signalfd :: int
  fd_inotify :: int

definition no_fds :: fd_counts where
  "no_fds = \<lparr>fd_total = 0, fd_files = 0, fd_sockets = 0, fd_pipes = 0, fd_anon = 0, fd_eventfd = 0, fd_epoll = 0,
     fd_timerfd = 0, fd_signalfd = 0, fd_inotify = 0\<rparr>"

definition fd_add :: "fd_kind \<Rightarrow> fd_counts \<Rightarrow> fd_counts" where
  "fd_add kind c =
     (let c = c\<lparr>fd_total := fd_total c + 1\<rparr>; anon = c\<lparr>fd_anon := fd_anon c + 1\<rparr> in
      case kind of
        FdFile \<Rightarrow> c\<lparr>fd_files := fd_files c + 1\<rparr>
      | FdSocket \<Rightarrow> c\<lparr>fd_sockets := fd_sockets c + 1\<rparr>
      | FdPipe \<Rightarrow> c\<lparr>fd_pipes := fd_pipes c + 1\<rparr>
      | FdEventfd \<Rightarrow> anon\<lparr>fd_eventfd := fd_eventfd c + 1\<rparr>
      | FdEpoll \<Rightarrow> anon\<lparr>fd_epoll := fd_epoll c + 1\<rparr>
      | FdTimerfd \<Rightarrow> anon\<lparr>fd_timerfd := fd_timerfd c + 1\<rparr>
      | FdSignalfd \<Rightarrow> anon\<lparr>fd_signalfd := fd_signalfd c + 1\<rparr>
      | FdInotify \<Rightarrow> anon\<lparr>fd_inotify := fd_inotify c + 1\<rparr>
      | FdAnon \<Rightarrow> anon)"

section \<open>Sockets (\<open>socket.go\<close>)\<close>

record sock_info =
  sk_proto :: string
  sk_state :: string

type_synonym sock_table = "64 word \<rightharpoonup> sock_info"

definition net_line :: "string \<Rightarrow> nat \<Rightarrow> nat option \<Rightarrow> string \<Rightarrow> sock_table \<Rightarrow> sock_table" where
  "net_line proto inode_field state_field line table =
     (let f = Go_Strings.fields line; need = max inode_field (case state_field of None \<Rightarrow> 0 | Some s \<Rightarrow> s) in
      if length f \<le> need then table
      else (case parse_u64 (f ! inode_field) of
          None \<Rightarrow> table
        | Some ino \<Rightarrow> if ino = 0 then table
            else table(ino \<mapsto> \<lparr>sk_proto = proto, sk_state = (case state_field of None \<Rightarrow> [] | Some s \<Rightarrow> f ! s)\<rparr>)))"

definition merge_net_table :: "string \<Rightarrow> string \<Rightarrow> nat \<Rightarrow> nat option \<Rightarrow> sock_table \<Rightarrow> sock_table" where
  "merge_net_table data proto inode_field state_field table =
     fold (net_line proto inode_field state_field) (tl (split_on (CHR 0x0A) data)) table"

definition socket_inode :: "string \<Rightarrow> 64 word option" where
  "socket_inode target =
     (if has_prefix target ''socket:['' \<and> has_suffix target '']''
      then parse_u64 (butlast (after ''socket:['' target)) else None)"

record sock_counts =
  skc_tcp :: int
  skc_udp :: int
  skc_unix :: int
  skc_listen :: int
  skc_estab :: int
  skc_timewait :: int
  skc_closewait :: int

definition no_socks :: sock_counts where
  "no_socks = \<lparr>skc_tcp = 0, skc_udp = 0, skc_unix = 0, skc_listen = 0, skc_estab = 0, skc_timewait = 0, skc_closewait = 0\<rparr>"

definition sock_add :: "sock_info \<Rightarrow> sock_counts \<Rightarrow> sock_counts" where
  "sock_add info c =
     (if sk_proto info = ''tcp'' then
        (let c = c\<lparr>skc_tcp := skc_tcp c + 1\<rparr> in
         if sk_state info = ''0A'' then c\<lparr>skc_listen := skc_listen c + 1\<rparr>
         else if sk_state info = ''01'' then c\<lparr>skc_estab := skc_estab c + 1\<rparr>
         else if sk_state info = ''06'' then c\<lparr>skc_timewait := skc_timewait c + 1\<rparr>
         else if sk_state info = ''08'' then c\<lparr>skc_closewait := skc_closewait c + 1\<rparr>
         else c)
      else if sk_proto info = ''udp'' then c\<lparr>skc_udp := skc_udp c + 1\<rparr>
      else if sk_proto info = ''unix'' then c\<lparr>skc_unix := skc_unix c + 1\<rparr>
      else c)"

end
