(* ===== verification/Procfs_Source.thy ===== *)
theory Procfs_Source
  imports Procfs_Parse
begin

text \<open>
  The Linux process source, \<open>internal/procfs/source.go\<close> and \<open>read.go\<close>, over a file tree: what
  \<open>os.ReadFile\<close>, \<open>os.Readlink\<close>, \<open>os.ReadDir\<close> and \<open>os.Stat\<close> answer during one read is an argument. The source
  keeps two generations of the host names it has read. Cancelling a scan is not modelled.
\<close>

section \<open>The file tree\<close>

datatype file_error = NotExist | NoPermission | OtherError

record file_tree =
  ft_read :: "string \<Rightarrow> (file_error, string) result"
  ft_link :: "string \<Rightarrow> (file_error, string) result"
  ft_dir :: "string \<Rightarrow> (file_error, string list) result"
  ft_exists :: "string \<Rightarrow> bool"

text \<open>\<open>filepath.Join\<close> on a clean directory and a clean relative name.\<close>

definition path_join :: "string \<Rightarrow> string \<Rightarrow> string" where
  "path_join dir name = dir @ ''/'' @ name"

definition read_or :: "'a \<Rightarrow> (string \<Rightarrow> 'a) \<Rightarrow> (file_error, string) result \<Rightarrow> 'a" where
  "read_or d f r = (case r of Inl _ \<Rightarrow> d | Inr s \<Rightarrow> f s)"

text \<open>Permission is told apart; anything else is a read error.\<close>

definition read_avail :: "file_error \<Rightarrow> availability" where
  "read_avail e = (if e = NoPermission then PermissionDenied else ReadError)"

section \<open>The source (\<open>source.go\<close>)\<close>

record proc_source =
  so_root :: string
  so_hz :: int
  so_cpus :: int
  so_boot_id :: string
  so_boot_unix :: int
  so_page_size :: int
  so_enum_thread :: bool
  so_read_wchan :: bool
  so_read_hostname :: bool
  so_hostname :: string
  so_host_cache :: "string \<rightharpoonup> string"
  so_host_cache_prev :: "string \<rightharpoonup> string"
  so_blkio_avail :: availability

definition read_host_hostname :: "file_tree \<Rightarrow> string option \<Rightarrow> string \<Rightarrow> string" where
  "read_host_hostname fs os_hostname base =
     (let h = read_or [] trim_space (ft_read fs (path_join base ''sys/kernel/hostname'')) in
      if h \<noteq> [] then h else (case os_hostname of Some n \<Rightarrow> n | None \<Rightarrow> []))"

definition detect_delayacct :: "file_tree \<Rightarrow> string \<Rightarrow> availability" where
  "detect_delayacct fs base =
     (case ft_read fs (path_join base ''sys/kernel/task_delayacct'') of
        Inr b \<Rightarrow> if trim_space b = ''0'' then Disabled else Available
      | Inl _ \<Rightarrow> Available)"

text \<open>\<open>New\<close>: the CPU count, the page size and the name of the operating system's host come with it.\<close>

definition new_source :: "file_tree \<Rightarrow> string option \<Rightarrow> string \<Rightarrow> int \<Rightarrow> int \<Rightarrow> int \<Rightarrow> proc_source" where
  "new_source fs os_hostname base hz cpus page_size =
     \<lparr>so_root = base, so_hz = hz, so_cpus = cpus,
      so_boot_id = read_or [] trim_space (ft_read fs (path_join base ''sys/kernel/random/boot_id'')),
      so_boot_unix = read_or 0 parse_btime (ft_read fs (path_join base ''stat'')),
      so_page_size = page_size, so_enum_thread = False, so_read_wchan = False, so_read_hostname = False,
      so_hostname = read_host_hostname fs os_hostname base,
      so_host_cache = Map.empty, so_host_cache_prev = Map.empty,
      so_blkio_avail = detect_delayacct fs base\<rparr>"

definition rotate_host_cache :: "proc_source \<Rightarrow> proc_source" where
  "rotate_host_cache s = s\<lparr>so_host_cache_prev := so_host_cache s, so_host_cache := Map.empty\<rparr>"

section \<open>One process (\<open>read.go\<close>)\<close>

definition read_namespaces :: "file_tree \<Rightarrow> string \<Rightarrow> namespace_set" where
  "read_namespaces fs dir t =
     read_or None parse_ns_inode (ft_link fs (path_join (path_join dir ''ns'') (ns_name t)))"

definition fill_status :: "file_tree \<Rightarrow> string \<Rightarrow> proc_stat \<Rightarrow> proc_stat" where
  "fill_status fs dir st =
     (case ft_read fs (path_join dir ''status'') of
        Inl _ \<Rightarrow> st
      | Inr data \<Rightarrow>
          let si = parse_status data in
          st\<lparr>ps_uid := st_uid si, ps_euid := st_uid si, ps_gid := st_gid si, ps_egid := st_gid si,
             ps_voluntary := st_vol_ctx si, ps_involuntary := st_invol_ctx si, ps_rss_peak := st_rss_peak si,
             ps_rss_anon := st_rss_anon si, ps_rss_file := st_rss_file si, ps_rss_shmem := st_rss_shmem si,
             ps_swap := st_swap si\<rparr>)"

definition io_of :: "(string \<rightharpoonup> 64 word) \<Rightarrow> proc_io" where
  "io_of m = (let get = (\<lambda>k. case m k of None \<Rightarrow> 0 | Some v \<Rightarrow> v) in
     \<lparr>io_read_bytes = get ''read_bytes'', io_write_bytes = get ''write_bytes'', io_rchar = get ''rchar'',
      io_wchar = get ''wchar'', io_syscr = get ''syscr'', io_syscw = get ''syscw'',
      io_cancelled = get ''cancelled_write_bytes''\<rparr>)"

definition fill_io :: "file_tree \<Rightarrow> string \<Rightarrow> proc_stat \<Rightarrow> proc_stat" where
  "fill_io fs dir st =
     (case ft_read fs (path_join dir ''io'') of
        Inl e \<Rightarrow> st\<lparr>ps_io_avail := read_avail e\<rparr>
      | Inr data \<Rightarrow> st\<lparr>ps_io := io_of (parse_io data), ps_io_avail := Available\<rparr>)"

definition read_cmdline :: "file_tree \<Rightarrow> string \<Rightarrow> string list \<times> availability" where
  "read_cmdline fs dir =
     (case ft_read fs (path_join dir ''cmdline'') of
        Inl e \<Rightarrow> ([], read_avail e)
      | Inr data \<Rightarrow> (parse_cmdline data, Available))"

definition read_link_avail :: "file_tree \<Rightarrow> string \<Rightarrow> string \<times> availability" where
  "read_link_avail fs path =
     (case ft_link fs path of Inl e \<Rightarrow> ([], read_avail e) | Inr target \<Rightarrow> (target, Available))"

definition resolve_hostname :: "file_tree \<Rightarrow> proc_source \<Rightarrow> string \<Rightarrow> string" where
  "resolve_hostname fs s dir =
     (let h = read_or [] (\<lambda>env. env_value env ''HOSTNAME'') (ft_read fs (path_join dir ''environ'')) in
      if h \<noteq> [] then h else so_hostname s)"

text \<open>The cached name of the instance, promoted from the previous generation, or read now.\<close>

definition read_hostname_for :: "file_tree \<Rightarrow> proc_source \<Rightarrow> string \<Rightarrow> process_id \<Rightarrow> string \<times> proc_source" where
  "read_hostname_for fs s dir i =
     (let key = process_key i in
      case so_host_cache s key of
        Some v \<Rightarrow> (v, s)
      | None \<Rightarrow>
          (case so_host_cache_prev s key of
             Some v \<Rightarrow> (v, s\<lparr>so_host_cache := (so_host_cache s)(key \<mapsto> v)\<rparr>)
           | None \<Rightarrow> let v = resolve_hostname fs s dir in (v, s\<lparr>so_host_cache := (so_host_cache s)(key \<mapsto> v)\<rparr>)))"

text \<open>A task that vanished or does not parse is left out.\<close>

definition read_thread :: "file_tree \<Rightarrow> string \<Rightarrow> string \<Rightarrow> thread_stat option" where
  "read_thread fs dir name =
     (case ft_read fs (path_join (path_join (path_join dir ''task'') name) ''stat'') of
        Inl _ \<Rightarrow> None
      | Inr data \<Rightarrow> (case parse_stat data of
          Inl _ \<Rightarrow> None
        | Inr info \<Rightarrow> Some \<lparr>ts_tid = si_pid info, ts_start_ticks = si_start_time info, ts_comm = si_comm info,
            ts_state = si_state info, ts_utime = si_utime info, ts_stime = si_stime info\<rparr>))"

definition read_threads :: "file_tree \<Rightarrow> string \<Rightarrow> thread_stat list" where
  "read_threads fs dir =
     (case ft_dir fs (path_join dir ''task'') of Inl _ \<Rightarrow> [] | Inr names \<Rightarrow> List.map_filter (read_thread fs dir) names)"

definition base_stat :: "proc_source \<Rightarrow> namespace_set \<Rightarrow> stat_info \<Rightarrow> proc_stat" where
  "base_stat s ns info =
     \<lparr>ps_id = \<lparr>id_boot = so_boot_id s, id_pidns = (case ns NSPID of None \<Rightarrow> 0 | Some i \<Rightarrow> i),
        id_pid = si_pid info, id_start = si_start_time info\<rparr>,
      ps_pid = si_pid info, ps_ppid = si_ppid info, ps_pgid = si_pgid info, ps_sid = si_sid info, ps_tgid = 0,
      ps_uid = 0, ps_euid = 0, ps_gid = 0, ps_egid = 0, ps_comm = si_comm info, ps_cmdline = [],
      ps_cmdline_avail = AvUnset, ps_exe = [], ps_exe_avail = AvUnset, ps_cwd = [], ps_cgroup_path = [],
      ps_state = si_state info, ps_nice = si_nice info, ps_nice_avail = Available,
      ps_num_threads = si_num_threads info, ps_start_ticks = si_start_time info, ps_wchan = [], ps_hostname = [],
      ps_utime = si_utime info, ps_stime = si_stime info, ps_min_flt = si_min_flt info,
      ps_maj_flt = si_maj_flt info, ps_voluntary = 0, ps_involuntary = 0, ps_blkio = si_blkio info,
      ps_blkio_avail = so_blkio_avail s, ps_rss = si_rss_pages info * word_of_int (so_page_size s),
      ps_vsz = si_vsize info, ps_rss_peak = 0, ps_rss_anon = 0, ps_rss_file = 0, ps_rss_shmem = 0, ps_swap = 0,
      ps_io = io_of Map.empty, ps_io_avail = AvUnset, ps_namespaces = ns, ps_threads = []\<rparr>"

definition read_process :: "file_tree \<Rightarrow> proc_source \<Rightarrow> int \<Rightarrow> proc_stat option \<times> proc_source" where
  "read_process fs s pid =
     (let dir = path_join (so_root s) (itoa pid) in
      case ft_read fs (path_join dir ''stat'') of
        Inl _ \<Rightarrow> (None, s)
      | Inr data \<Rightarrow>
          (case parse_stat data of
             Inl _ \<Rightarrow> (None, s)
           | Inr info \<Rightarrow>
               let st = fill_io fs dir (fill_status fs dir (base_stat s (read_namespaces fs dir) info));
                   (cmd, cmd_avail) = read_cmdline fs dir;
                   (exe, exe_avail) = read_link_avail fs (path_join dir ''exe'');
                   st = st\<lparr>ps_cmdline := cmd, ps_cmdline_avail := cmd_avail, ps_exe := exe, ps_exe_avail := exe_avail,
                          ps_cgroup_path := read_or [] parse_cgroup (ft_read fs (path_join dir ''cgroup''))\<rparr>;
                   st = (if so_read_wchan s then st\<lparr>ps_wchan := read_or [] parse_wchan (ft_read fs (path_join dir ''wchan''))\<rparr> else st);
                   (st, s) = (if so_read_hostname s
                       then (let (h, s) = read_hostname_for fs s dir (ps_id st) in (st\<lparr>ps_hostname := h\<rparr>, s)) else (st, s));
                   st = (if so_enum_thread s then st\<lparr>ps_threads := read_threads fs dir\<rparr> else st)
               in (Some st, s)))"

section \<open>The scan (\<open>source.go\<close>)\<close>

fun read_each :: "file_tree \<Rightarrow> string list \<Rightarrow> proc_source \<Rightarrow> proc_stat list \<times> proc_source" where
  "read_each fs [] s = ([], s)"
| "read_each fs (name # names) s =
     (case numeric_name name of
        None \<Rightarrow> read_each fs names s
      | Some pid \<Rightarrow>
          (let (st, s) = read_process fs s pid; (sts, s) = read_each fs names s
           in ((case st of None \<Rightarrow> sts | Some st \<Rightarrow> st # sts), s)))"

definition list_processes :: "file_tree \<Rightarrow> proc_source \<Rightarrow> (file_error, proc_stat list) result \<times> proc_source" where
  "list_processes fs s =
     (let s = (if so_read_hostname s then rotate_host_cache s else s) in
      case ft_dir fs (so_root s) of
        Inl e \<Rightarrow> (Inl e, s)
      | Inr names \<Rightarrow> let (sts, s) = read_each fs names s in (Inr sts, s))"

end
