(* ===== verification/Procfs_Correct.thy ===== *)
theory Procfs_Correct
  imports Procfs_Source
begin

text \<open>
  What the process source reads: the record the kernel prints is read back whatever the name of the
  process, and a scan gives one reading per process that can be read, with the host name its
  instance was first seen with.
\<close>

section \<open>The record round trip\<close>

text \<open>
  The words the kernel prints after the name, fields 3 to 42, with \<open>fill\<close> for those the reader
  skips, and any further ones.
\<close>

definition stat_word :: "stat_info \<Rightarrow> (nat \<Rightarrow> string) \<Rightarrow> nat \<Rightarrow> string" where
  "stat_word si fill n =
     (if n = 3 then [si_state si] else if n = 4 then show_int (si_ppid si) else if n = 5 then show_int (si_pgid si)
      else if n = 6 then show_int (si_sid si) else if n = 10 then show_u64 (si_min_flt si)
      else if n = 12 then show_u64 (si_maj_flt si) else if n = 14 then show_u64 (si_utime si)
      else if n = 15 then show_u64 (si_stime si) else if n = 19 then show_int (si_nice si)
      else if n = 20 then show_int (si_num_threads si) else if n = 22 then show_u64 (si_start_time si)
      else if n = 23 then show_u64 (si_vsize si) else if n = 24 then show_u64 (si_rss_pages si)
      else if n = 42 then show_u64 (si_blkio si) else fill n)"

definition stat_words :: "stat_info \<Rightarrow> (nat \<Rightarrow> string) \<Rightarrow> string list \<Rightarrow> string list" where
  "stat_words si fill extra = map (stat_word si fill) [3..<43] @ extra"

definition kernel_stat :: "stat_info \<Rightarrow> (nat \<Rightarrow> string) \<Rightarrow> string list \<Rightarrow> string" where
  "kernel_stat si fill extra =
     show_int (si_pid si) @ '' ('' @ si_comm si @ '') '' @ join '' '' (stat_words si fill extra) @ [CHR 0x0A]"

definition int64 :: "int \<Rightarrow> bool" where
  "int64 i \<longleftrightarrow> - (2 ^ 63) \<le> i \<and> i < 2 ^ 63"

definition stat_ok :: "stat_info \<Rightarrow> bool" where
  "stat_ok si \<longleftrightarrow> int64 (si_pid si) \<and> int64 (si_ppid si) \<and> int64 (si_pgid si) \<and> int64 (si_sid si) \<and>
     int64 (si_nice si) \<and> int64 (si_num_threads si) \<and> \<not> is_space (si_state si) \<and> si_state si \<noteq> CHR '')''"

text \<open>A word without blanks and closing parentheses, as all of the kernel's are.\<close>

definition plain_word :: "string \<Rightarrow> bool" where
  "plain_word w \<longleftrightarrow> wordy w \<and> CHR '')'' \<notin> set w"

lemma digits_plain: "w \<noteq> [] \<Longrightarrow> \<forall>c \<in> set w. is_digit c \<or> c = CHR ''-'' \<Longrightarrow> plain_word w"
  by (fastforce simp: plain_word_def wordy_def is_digit_def is_space_def)

lemma show_plain: "plain_word (show_int i)" "plain_word (show_u64 w)"
proof -
  show "plain_word (show_int i)"
    by (rule digits_plain) (use show_int_chars show_nat_nonempty in \<open>auto simp: show_int_def\<close>)
  show "plain_word (show_u64 w)"
    by (rule digits_plain) (use show_nat_digits show_nat_nonempty in \<open>auto simp: show_u64_def\<close>)
qed

lemma u64_of_show: "u64_of (show_u64 w) = w"
proof -
  have "unat w < 2 ^ LENGTH(64)" by (rule unsigned_less)
  then show ?thesis using parse_uint_show_nat [of "unat w" 64] by (simp add: u64_of_def show_u64_def)
qed

lemma fields_newline: "Go_Strings.fields (s @ [CHR 0x0A]) = Go_Strings.fields s"
proof -
  have "fields_from w (s @ [CHR 0x0A]) = fields_from w s" for w
    by (induction w s rule: fields_from.induct) auto
  then show ?thesis by (simp add: Go_Strings.fields_def)
qed

lemma trim_space_trailing: "wordy w \<Longrightarrow> trim_space (w @ '' '') = w"
proof -
  assume w: "wordy w"
  then have "dropWhile is_space (w @ '' '') = w @ '' ''" by (intro dropWhile_id) (auto simp: wordy_def hd_append)
  moreover have "dropWhile is_space (rev w) = rev w" using w by (intro dropWhile_id) (auto simp: wordy_def hd_rev)
  ultimately show ?thesis by (simp add: trim_space_def trim_left_def)
qed

lemma join_no_char: "\<forall>w \<in> set ws. c \<notin> set w \<Longrightarrow> c \<noteq> CHR '' '' \<Longrightarrow> c \<notin> set (join '' '' ws)"
proof (induction ws)
  case (Cons w ws)
  then show ?case by (cases ws) auto
qed simp

lemma stat_words_plain:
  assumes "stat_ok si" and "\<forall>n. plain_word (fill n)" and "\<forall>w \<in> set extra. plain_word w"
  shows "\<forall>w \<in> set (stat_words si fill extra). plain_word w"
proof -
  have "plain_word (stat_word si fill n)" for n
    using assms(1,2) show_plain unfolding stat_word_def stat_ok_def
    by (cases "n = 3") (simp_all add: plain_word_def [of "[_]"] wordy_def, auto)
  then show ?thesis using assms(3) by (auto simp: stat_words_def)
qed

lemma stat_field_word:
  "3 \<le> n \<Longrightarrow> n < 43 \<Longrightarrow> stat_field (stat_words si fill extra) n = Some (stat_word si fill n)"
proof -
  assume n: "3 \<le> n" "n < 43"
  have "length (map (stat_word si fill) [3..<43]) = 40" by (simp del: upt.simps upt_rec_numeral)
  moreover have "n - 3 < 40" using n by arith
  moreover have "map (stat_word si fill) [3..<43] ! (n - 3) = stat_word si fill n"
    using n by (simp add: nth_map del: upt.simps upt_rec_numeral)
  ultimately show ?thesis using n by (simp add: stat_field_def stat_words_def nth_append del: upt.simps upt_rec_numeral)
qed

lemma stat_of_words:
  assumes "stat_ok si"
  shows "stat_of_fields (si_pid si) (si_comm si) (stat_words si fill extra) = si"
proof -
  have int: "fst (atoi (show_int i)) = i" if "int64 i" for i
    using atoi_show_int [of i] that by (simp add: int64_def)
  have ints: "atoi_field (stat_words si fill extra) n = i" if "3 \<le> n" "n < 43" "stat_word si fill n = show_int i" "int64 i" for n i
    using int that by (simp add: atoi_field_def stat_field_word)
  have words: "auint_field (stat_words si fill extra) n = w" if "3 \<le> n" "n < 43" "stat_word si fill n = show_u64 w" for n w
    using that by (simp add: auint_field_def stat_field_word u64_of_show)
  have state: "stat_field (stat_words si fill extra) 3 = Some [si_state si]"
    by (simp add: stat_field_word stat_word_def)
  have ok: "int64 (si_ppid si)" "int64 (si_pgid si)" "int64 (si_sid si)" "int64 (si_nice si)" "int64 (si_num_threads si)"
    using assms by (simp_all add: stat_ok_def)
  show ?thesis
    by (rule stat_info.equality)
      (simp_all add: stat_of_fields_def state ints [OF _ _ _ ok(1)] ints [OF _ _ _ ok(2)] ints [OF _ _ _ ok(3)]
        ints [OF _ _ _ ok(4)] ints [OF _ _ _ ok(5)] words stat_word_def)
qed

text \<open>
  C40: the record of a process. What the kernel prints for a process is read back field by field,
  whatever bytes its name is made of: blanks, newlines and parentheses in the name neither shift
  the fields nor end the name early.
\<close>

theorem parse_stat_kernel:
  assumes "stat_ok si" and "\<forall>n. plain_word (fill n)" and "\<forall>w \<in> set extra. plain_word w"
  shows "parse_stat (kernel_stat si fill extra) = Inr si"
proof -
  let ?pid = "show_int (si_pid si) @ '' ''" and ?tail = "CHR '' '' # join '' '' (stat_words si fill extra) @ [CHR 0x0A]"
  have line: "kernel_stat si fill extra = ?pid @ CHR ''('' # si_comm si @ CHR '')'' # ?tail"
    by (simp add: kernel_stat_def)
  have no_paren: "CHR ''('' \<notin> set (show_int (si_pid si))"
    using show_int_chars [of "CHR ''(''" "si_pid si"] by (auto simp: is_digit_def)
  then have open_at: "str_cut (CHR ''('') (kernel_stat si fill extra) = Some (?pid, si_comm si @ CHR '')'' # ?tail)"
    unfolding line by (intro str_cut_append) simp
  have plain: "\<forall>w \<in> set (stat_words si fill extra). plain_word w" by (rule stat_words_plain [OF assms])
  then have "CHR '')'' \<notin> set (join '' '' (stat_words si fill extra))"
    using join_no_char [of "stat_words si fill extra" "CHR '')''"] by (simp add: plain_word_def)
  then have close_at: "str_cut_last (CHR '')'') (kernel_stat si fill extra) = Some (?pid @ CHR ''('' # si_comm si, ?tail)"
    unfolding line str_cut_last_Some_iff by simp
  have pid: "trim_space ?pid = show_int (si_pid si)"
    using show_plain(1) by (intro trim_space_trailing) (auto simp: plain_word_def)
  have fields: "Go_Strings.fields ?tail = stat_words si fill extra"
    using plain fields_join [of "stat_words si fill extra"] by (simp add: fields_newline plain_word_def)
  have "atoi (show_int (si_pid si)) = (si_pid si, None)"
    using assms(1) by (intro atoi_show_int) (simp_all add: stat_ok_def int64_def)
  then show ?thesis
    using stat_of_words [OF assms(1)]
    by (simp only: parse_stat_def open_at close_at pid fields prod.case option.case sum.case) simp
qed

section \<open>One process\<close>

definition pid_dir :: "proc_source \<Rightarrow> int \<Rightarrow> string" where
  "pid_dir s pid = path_join (so_root s) (itoa pid)"

text \<open>The record of a pid, when it can be read.\<close>

definition stat_at :: "file_tree \<Rightarrow> proc_source \<Rightarrow> int \<Rightarrow> stat_info option" where
  "stat_at fs s pid =
     (case ft_read fs (path_join (pid_dir s pid) ''stat'') of
        Inl _ \<Rightarrow> None
      | Inr data \<Rightarrow> (case parse_stat data of Inl _ \<Rightarrow> None | Inr info \<Rightarrow> Some info))"

text \<open>A reading of a pid: its identity and counters are the record's, and nothing unreadable is a number.\<close>

definition reads_as :: "file_tree \<Rightarrow> proc_source \<Rightarrow> int \<Rightarrow> proc_stat \<Rightarrow> bool" where
  "reads_as fs s pid st \<longleftrightarrow>
     (case stat_at fs s pid of
        None \<Rightarrow> False
      | Some info \<Rightarrow>
          ps_id st = \<lparr>id_boot = so_boot_id s,
            id_pidns = (case read_namespaces fs (pid_dir s pid) NSPID of None \<Rightarrow> 0 | Some i \<Rightarrow> i),
            id_pid = si_pid info, id_start = si_start_time info\<rparr> \<and>
          ps_pid st = si_pid info \<and> ps_comm st = si_comm info \<and> ps_nice st = si_nice info \<and>
          ps_utime st = si_utime info \<and> ps_stime st = si_stime info \<and>
          ps_rss st = si_rss_pages info * word_of_int (so_page_size s) \<and>
          (ps_io_avail st = Available \<longleftrightarrow> is_ok (ft_read fs (path_join (pid_dir s pid) ''io''))) \<and>
          (ps_io_avail st \<noteq> Available \<longrightarrow> ps_io st = io_of Map.empty))"

lemma fill_keeps:
  "ps_id (fill_status fs dir st) = ps_id st" "ps_pid (fill_status fs dir st) = ps_pid st"
  "ps_comm (fill_status fs dir st) = ps_comm st" "ps_nice (fill_status fs dir st) = ps_nice st"
  "ps_utime (fill_status fs dir st) = ps_utime st" "ps_stime (fill_status fs dir st) = ps_stime st"
  "ps_rss (fill_status fs dir st) = ps_rss st" "ps_io (fill_status fs dir st) = ps_io st"
  "ps_id (fill_io fs dir st) = ps_id st" "ps_pid (fill_io fs dir st) = ps_pid st"
  "ps_comm (fill_io fs dir st) = ps_comm st" "ps_nice (fill_io fs dir st) = ps_nice st"
  "ps_utime (fill_io fs dir st) = ps_utime st" "ps_stime (fill_io fs dir st) = ps_stime st"
  "ps_rss (fill_io fs dir st) = ps_rss st"
  by (simp_all add: fill_status_def fill_io_def Let_def split: sum.split)

lemma fill_io_avail:
  "ps_io_avail (fill_io fs dir st) = Available \<longleftrightarrow> is_ok (ft_read fs (path_join dir ''io''))"
  "\<not> is_ok (ft_read fs (path_join dir ''io'')) \<Longrightarrow> ps_io (fill_io fs dir st) = ps_io st"
  by (auto simp: fill_io_def read_avail_def is_ok_def split: sum.splits)

text \<open>The reading before the host name is put in.\<close>

definition plain_reading :: "file_tree \<Rightarrow> proc_source \<Rightarrow> int \<Rightarrow> stat_info \<Rightarrow> proc_stat" where
  "plain_reading fs s pid info =
     (let dir = pid_dir s pid; st = fill_io fs dir (fill_status fs dir (base_stat s (read_namespaces fs dir) info));
          st = st\<lparr>ps_cmdline := fst (read_cmdline fs dir), ps_cmdline_avail := snd (read_cmdline fs dir),
                 ps_exe := fst (read_link_avail fs (path_join dir ''exe'')),
                 ps_exe_avail := snd (read_link_avail fs (path_join dir ''exe'')),
                 ps_cgroup_path := read_or [] parse_cgroup (ft_read fs (path_join dir ''cgroup''))\<rparr>
      in if so_read_wchan s then st\<lparr>ps_wchan := read_or [] parse_wchan (ft_read fs (path_join dir ''wchan''))\<rparr> else st)"

definition with_threads :: "file_tree \<Rightarrow> proc_source \<Rightarrow> int \<Rightarrow> proc_stat \<Rightarrow> proc_stat" where
  "with_threads fs s pid st = (if so_enum_thread s then st\<lparr>ps_threads := read_threads fs (pid_dir s pid)\<rparr> else st)"

lemma read_hostname_config:
  "read_hostname_for fs s dir i = (h, s') \<Longrightarrow> s' = s\<lparr>so_host_cache := so_host_cache s'\<rparr>"
  by (auto simp: read_hostname_for_def Let_def split: option.splits)

lemma read_process_eq:
  "read_process fs s pid =
    (case stat_at fs s pid of
       None \<Rightarrow> (None, s)
     | Some info \<Rightarrow>
         let st = plain_reading fs s pid info;
             (h, s') = (if so_read_hostname s then read_hostname_for fs s (pid_dir s pid) (ps_id st) else (ps_hostname st, s))
         in (Some (with_threads fs s pid (st\<lparr>ps_hostname := h\<rparr>)), s'))"
proof -
  have flag: "so_enum_thread s' = so_enum_thread s" if "read_hostname_for fs s dir i = (h, s')" for dir i h s'
    by (subst read_hostname_config [OF that]) simp
  show ?thesis
  proof (cases "stat_at fs s pid")
    case None
    then show ?thesis
      by (auto simp: read_process_def stat_at_def pid_dir_def Let_def split: sum.splits)
  next
    case (Some info)
    then obtain data where data: "ft_read fs (path_join (pid_dir s pid) ''stat'') = Inr data" "parse_stat data = Inr info"
      by (auto simp: stat_at_def split: sum.splits)
    show ?thesis
    proof (cases "so_read_hostname s")
      case True
      obtain h s' where h: "read_hostname_for fs s (pid_dir s pid) (ps_id (plain_reading fs s pid info)) = (h, s')"
        by fastforce
      show ?thesis
        using data h flag [OF h] True
        by (simp add: read_process_def Some pid_dir_def [symmetric] Let_def case_prod_beta plain_reading_def with_threads_def
            split del: if_split cong: if_cong)
    next
      case False
      then show ?thesis
        using data
        by (simp add: read_process_def Some pid_dir_def [symmetric] Let_def case_prod_beta plain_reading_def with_threads_def
            split del: if_split cong: if_cong)
    qed
  qed
qed

lemma plain_reading_reads:
  "stat_at fs s pid = Some info \<Longrightarrow> reads_as fs s pid (with_threads fs s pid (plain_reading fs s pid info\<lparr>ps_hostname := h\<rparr>))"
  "stat_at fs s pid = Some info \<Longrightarrow> reads_as fs s pid (with_threads fs s pid (plain_reading fs s pid info))"
  by (simp add: reads_as_def plain_reading_def with_threads_def Let_def fill_keeps fill_io_avail base_stat_def)+

lemma with_threads_simps [simp]:
  "ps_id (with_threads fs s pid st) = ps_id st" "ps_hostname (with_threads fs s pid st) = ps_hostname st"
  by (simp_all add: with_threads_def)

lemma read_process_spec:
  assumes "read_process fs s pid = (r, s')"
  shows "s' = s\<lparr>so_host_cache := so_host_cache s'\<rparr> \<and> (r = None \<longleftrightarrow> stat_at fs s pid = None) \<and>
    (case r of None \<Rightarrow> s' = s | Some st \<Rightarrow> reads_as fs s pid st \<and>
       (so_read_hostname s \<longrightarrow> read_hostname_for fs s (pid_dir s pid) (ps_id st) = (ps_hostname st, s')) \<and>
       (\<not> so_read_hostname s \<longrightarrow> s' = s))"
  using assms read_hostname_config [of fs s]
  by (auto simp: read_process_eq plain_reading_reads Let_def split: option.splits if_splits prod.splits)

section \<open>The scan\<close>

text \<open>Which process a pid is does not depend on the cache.\<close>

lemma config_cong:
  assumes "so_root s = so_root t" and "so_boot_id s = so_boot_id t" and "so_page_size s = so_page_size t"
  shows "stat_at fs s = stat_at fs t" "reads_as fs s = reads_as fs t" "pid_dir s = pid_dir t"
proof -
  show dir: "pid_dir s = pid_dir t" by (simp add: pid_dir_def assms fun_eq_iff)
  show stat: "stat_at fs s = stat_at fs t" by (simp add: stat_at_def dir fun_eq_iff)
  show "reads_as fs s = reads_as fs t"
    unfolding reads_as_def dir stat assms by simp
qed

lemma config_cache [simp]:
  "stat_at fs (s\<lparr>so_host_cache := c\<rparr>) = stat_at fs s" "reads_as fs (s\<lparr>so_host_cache := c\<rparr>) = reads_as fs s"
  "pid_dir (s\<lparr>so_host_cache := c\<rparr>) = pid_dir s"
  by (rule config_cong; simp)+

lemma config_rotate [simp]:
  "stat_at fs (rotate_host_cache s) = stat_at fs s" "reads_as fs (rotate_host_cache s) = reads_as fs s"
  "pid_dir (rotate_host_cache s) = pid_dir s"
  by (rule config_cong; simp add: rotate_host_cache_def)+

lemma resolve_hostname_cong: "so_hostname s = so_hostname t \<Longrightarrow> resolve_hostname fs s dir = resolve_hostname fs t dir"
  by (simp add: resolve_hostname_def Let_def)

lemma read_each_reads:
  assumes "read_each fs names s = (sts, s')"
  shows "list_all2 (reads_as fs s) (filter (\<lambda>pid. stat_at fs s pid \<noteq> None) (List.map_filter numeric_name names)) sts \<and>
    s' = s\<lparr>so_host_cache := so_host_cache s'\<rparr>"
  using assms
proof (induction names arbitrary: s sts s')
  case (Cons name names)
  show ?case
  proof (cases "numeric_name name")
    case None
    then show ?thesis using Cons by (simp add: List.map_filter_simps)
  next
    case (Some pid)
    obtain r s1 sts1 where r: "read_process fs s pid = (r, s1)" and sts1: "read_each fs names s1 = (sts1, s')"
      and sts: "sts = (case r of None \<Rightarrow> sts1 | Some st \<Rightarrow> st # sts1)"
      using Cons.prems Some by (auto split: prod.splits)
    note one = read_process_spec [OF r]
    from one have s1: "s1 = s\<lparr>so_host_cache := so_host_cache s1\<rparr>" by blast
    have "list_all2 (reads_as fs s) (filter (\<lambda>pid. stat_at fs s pid \<noteq> None) (List.map_filter numeric_name names)) sts1 \<and>
        s' = s\<lparr>so_host_cache := so_host_cache s'\<rparr>"
      using Cons.IH [OF sts1] by (subst (asm) (1 2 3) s1) simp
    then show ?thesis using one Some sts by (auto simp: List.map_filter_simps split: option.splits)
  qed
qed (simp add: List.map_filter_simps)

text \<open>
  The scan. It fails only when the directory itself cannot be listed. Otherwise it gives, in
  the order of the directory, one reading for each numeric entry whose record can be read and
  parsed, with that record's identity and counters; a process that vanished meanwhile is left out,
  and counters that could not be read are marked and stay zero.
\<close>

theorem scan_reads_processes:
  "case ft_dir fs (so_root s) of
     Inl e \<Rightarrow> fst (list_processes fs s) = Inl e
   | Inr names \<Rightarrow> \<exists>sts. fst (list_processes fs s) = Inr sts \<and>
       list_all2 (reads_as fs s) (filter (\<lambda>pid. stat_at fs s pid \<noteq> None) (List.map_filter numeric_name names)) sts"
proof (cases "ft_dir fs (so_root s)")
  case (Inr names)
  let ?s = "if so_read_hostname s then rotate_host_cache s else s"
  obtain sts s' where each: "read_each fs names ?s = (sts, s')" by fastforce
  have same: "stat_at fs ?s = stat_at fs s" "reads_as fs ?s = reads_as fs s" by simp_all
  have "fst (list_processes fs s) = Inr sts"
    using Inr each by (cases "so_read_hostname s") (simp_all add: list_processes_def Let_def rotate_host_cache_def)
  then show ?thesis using read_each_reads [OF each] Inr by (simp add: same)
qed (simp add: list_processes_def Let_def rotate_host_cache_def)

section \<open>Host names\<close>

definition stat_key :: "proc_stat \<Rightarrow> string" where
  "stat_key st = process_key (ps_id st)"

text \<open>How a name may enter the cache: carried over, or read from the process it belongs to.\<close>

definition host_entry_ok :: "file_tree \<Rightarrow> proc_source \<Rightarrow> string \<Rightarrow> string \<Rightarrow> bool" where
  "host_entry_ok fs s k v \<longleftrightarrow>
     (case so_host_cache_prev s k of
        Some u \<Rightarrow> v = u
      | None \<Rightarrow> \<exists>pid st. reads_as fs s pid st \<and> stat_key st = k \<and> v = resolve_hostname fs s (pid_dir s pid))"

lemma read_hostname_value:
  assumes "read_hostname_for fs s dir i = (v, s')"
  shows "v = (case so_host_cache s (process_key i) of Some u \<Rightarrow> u
    | None \<Rightarrow> (case so_host_cache_prev s (process_key i) of Some u \<Rightarrow> u | None \<Rightarrow> resolve_hostname fs s dir))"
    and "so_host_cache s' = (so_host_cache s)(process_key i \<mapsto> v)"
  using assms by (auto simp: read_hostname_for_def Let_def fun_eq_iff split: option.splits)

lemma read_each_hostnames:
  assumes "read_each fs names s = (sts, s')" and "so_read_hostname s"
    and "\<forall>k v. so_host_cache s k = Some v \<longrightarrow> host_entry_ok fs s k v"
  shows "dom (so_host_cache s') = dom (so_host_cache s) \<union> stat_key ` set sts \<and>
    (\<forall>k v. so_host_cache s k = Some v \<longrightarrow> so_host_cache s' k = Some v) \<and>
    (\<forall>st \<in> set sts. so_host_cache s' (stat_key st) = Some (ps_hostname st)) \<and>
    (\<forall>k v. so_host_cache s' k = Some v \<longrightarrow> host_entry_ok fs s k v)"
  using assms
proof (induction names arbitrary: s sts s')
  case (Cons name names)
  show ?case
  proof (cases "numeric_name name")
    case None
    then have "read_each fs names s = (sts, s')" using Cons.prems(1) by simp
    from Cons.IH [OF this Cons.prems(2,3)] show ?thesis .
  next
    case (Some pid)
    obtain r s1 sts1 where r: "read_process fs s pid = (r, s1)" and sts1: "read_each fs names s1 = (sts1, s')"
      and sts: "sts = (case r of None \<Rightarrow> sts1 | Some st \<Rightarrow> st # sts1)"
      using Cons.prems(1) Some by (auto split: prod.splits)
    note one = read_process_spec [OF r]
    have s1: "s1 = s\<lparr>so_host_cache := so_host_cache s1\<rparr>" using one by blast
    then have flag: "so_read_hostname s1" "so_host_cache_prev s1 = so_host_cache_prev s" "so_hostname s1 = so_hostname s"
      using Cons.prems(2) by (metis proc_source.select_convs proc_source.surjective proc_source.update_convs(11))+
    have same: "reads_as fs s1 = reads_as fs s" "pid_dir s1 = pid_dir s" by (subst s1, simp)+
    have entry: "host_entry_ok fs s1 = host_entry_ok fs s"
      by (simp add: host_entry_ok_def fun_eq_iff flag same resolve_hostname_cong [OF flag(3)] split: option.split)
    show ?thesis
    proof (cases r)
      case None
      have "s1 = s" using one unfolding None by simp
      moreover have "sts = sts1" using None sts by simp
      ultimately have "s1 = s" "sts = sts1" by simp_all
      then show ?thesis using Cons.IH [OF sts1] Cons.prems(2,3) by blast
    next
      case (Some st)
      have host: "read_hostname_for fs s (pid_dir s pid) (ps_id st) = (ps_hostname st, s1)" "reads_as fs s pid st"
        using one Some Cons.prems(2) by auto
      note v = read_hostname_value [OF host(1)]
      have new: "host_entry_ok fs s (stat_key st) (ps_hostname st)"
      proof (cases "so_host_cache s (stat_key st)")
        case None
        then show ?thesis using v(1) host(2) by (auto simp: host_entry_ok_def stat_key_def split: option.splits)
      next
        case cached: (Some u)
        then have "ps_hostname st = u" using v(1) by (simp add: stat_key_def)
        then show ?thesis using Cons.prems(3) cached by blast
      qed
      then have ok: "\<forall>k v. so_host_cache s1 k = Some v \<longrightarrow> host_entry_ok fs s1 k v"
        using Cons.prems(3) v(2) by (auto simp: entry stat_key_def split: if_splits)
      note IH = Cons.IH [OF sts1 flag(1) ok]
      have keep: "so_host_cache s1 k = Some u" if "so_host_cache s k = Some u" for k u
        using that v by (auto split: option.splits)
      show ?thesis using IH keep v(2) sts Some by (auto simp: entry stat_key_def split: if_splits)
    qed
  qed
qed simp

text \<open>
  Host names across scans. After a scan that reads them the cache holds exactly the instances
  seen in it, each with the name reported; an instance already known from the scan before keeps
  its name, and a new one gets the name read from its own environment. A pid that was reused is a
  new instance.
\<close>

theorem hostnames_follow_instances:
  assumes "so_read_hostname s" and "list_processes fs s = (Inr sts, s')"
  shows "dom (so_host_cache s') = stat_key ` set sts \<and>
    (\<forall>st \<in> set sts. so_host_cache s' (stat_key st) = Some (ps_hostname st) \<and>
      (case so_host_cache s (stat_key st) of
         Some known \<Rightarrow> ps_hostname st = known
       | None \<Rightarrow> \<exists>pid st'. reads_as fs s pid st' \<and> stat_key st' = stat_key st \<and>
           ps_hostname st = resolve_hostname fs s (pid_dir s pid)))"
proof -
  let ?s = "rotate_host_cache s"
  obtain names where each: "read_each fs names ?s = (sts, s')"
    using assms by (auto simp: list_processes_def Let_def split: sum.splits prod.splits)
  have prev: "so_host_cache_prev ?s = so_host_cache s" "so_host_cache ?s = Map.empty" "so_read_hostname ?s"
    "so_hostname ?s = so_hostname s"
    using assms(1) by (simp_all add: rotate_host_cache_def)
  have "host_entry_ok fs ?s k v \<longleftrightarrow>
     (case so_host_cache s k of Some u \<Rightarrow> v = u
      | None \<Rightarrow> \<exists>pid st. reads_as fs s pid st \<and> stat_key st = k \<and> v = resolve_hostname fs s (pid_dir s pid))" for k v
    by (simp add: host_entry_ok_def prev resolve_hostname_cong [OF prev(4)] split: option.split)
  with read_each_hostnames [OF each prev(3)] show ?thesis by (auto simp: prev(2) split: option.splits)
qed

end
