(* ===== verification/Procfs_Collect.thy ===== *)
theory Procfs_Collect
  imports Procfs_Source
begin

text \<open>
  The per-process collectors of \<open>internal/procfs\<close> that read files: descriptors (\<open>fd.go\<close>), sockets
  (\<open>socket.go\<close>), task states (\<open>threadstate.go\<close>), memory detail (\<open>procmem.go\<close>), run-queue delay
  (\<open>schedstat.go\<close>) and wakeups (\<open>sched_wakeups.go\<close>). Each turns a process into the process with its
  metrics set; the collectors that measure over a window see the file tree before and after it. The
  worker pools only bound concurrency: every process is handled on its own.
\<close>

section \<open>Descriptors (\<open>fd.go\<close>)\<close>

definition proc_dir :: "string \<Rightarrow> process \<Rightarrow> string" where
  "proc_dir base p = path_join base (itoa (p_pid p))"

definition set_all :: "metric_id list \<Rightarrow> metric_value \<Rightarrow> process \<Rightarrow> process" where
  "set_all ids v p = fold (\<lambda>i. set_metric i v) ids p"

definition fd_metrics :: "metric_id list" where
  "fd_metrics = [''fd-total'', ''fd-files'', ''fd-sockets'', ''fd-pipes'', ''fd-anon'',
     ''fd-eventfd'', ''fd-epoll'', ''fd-timerfd'', ''fd-signalfd'', ''fd-inotify'']"

definition count_value :: "string \<Rightarrow> int \<Rightarrow> metric_value" where
  "count_value src n = new_value (f_of_int n) Sampled src"

definition fd_apply :: "fd_counts \<Rightarrow> process \<Rightarrow> process" where
  "fd_apply c p =
     fold (\<lambda>(i, n). set_metric i (count_value ''fd'' n))
       [(''fd-total'', fd_total c), (''fd-files'', fd_files c), (''fd-sockets'', fd_sockets c), (''fd-pipes'', fd_pipes c),
        (''fd-anon'', fd_anon c), (''fd-eventfd'', fd_eventfd c), (''fd-epoll'', fd_epoll c),
        (''fd-timerfd'', fd_timerfd c), (''fd-signalfd'', fd_signalfd c), (''fd-inotify'', fd_inotify c)] p"

text \<open>The targets of the links of a directory; a link that is gone is skipped.\<close>

definition link_targets :: "file_tree \<Rightarrow> string \<Rightarrow> string list \<Rightarrow> string list" where
  "link_targets fs dir names =
     List.map_filter (\<lambda>n. case ft_link fs (path_join dir n) of Inl _ \<Rightarrow> None | Inr t \<Rightarrow> Some t) names"

definition fd_collect_one :: "file_tree \<Rightarrow> string \<Rightarrow> process \<Rightarrow> process" where
  "fd_collect_one fs base p =
     (let dir = path_join (proc_dir base p) ''fd'' in
      case ft_dir fs dir of
        Inl e \<Rightarrow> set_all fd_metrics (unavailable (read_avail e) ''fd'') p
      | Inr names \<Rightarrow> fd_apply (fold (\<lambda>t. fd_add (classify_fd t)) (link_targets fs dir names) no_fds) p)"

section \<open>Sockets (\<open>socket.go\<close>)\<close>

definition socket_metrics :: "metric_id list" where
  "socket_metrics = [''sock-tcp'', ''sock-udp'', ''sock-unix'', ''sock-listen'', ''sock-estab'',
     ''sock-timewait'', ''sock-closewait'']"

definition read_net_tables :: "file_tree \<Rightarrow> string \<Rightarrow> sock_table" where
  "read_net_tables fs base =
     fold (\<lambda>(file, proto, inode_field, state_field) table.
         read_or table (\<lambda>data. merge_net_table data proto inode_field state_field table)
           (ft_read fs (path_join (path_join base ''net'') file)))
       [(''tcp'', ''tcp'', 9, Some 3), (''tcp6'', ''tcp'', 9, Some 3), (''udp'', ''udp'', 9, Some 3),
        (''udp6'', ''udp'', 9, Some 3), (''unix'', ''unix'', 6, None)] Map.empty"

definition sock_of_target :: "sock_table \<Rightarrow> string \<Rightarrow> sock_info option" where
  "sock_of_target table target = (case socket_inode target of None \<Rightarrow> None | Some ino \<Rightarrow> table ino)"

definition sock_apply :: "sock_counts \<Rightarrow> process \<Rightarrow> process" where
  "sock_apply c p =
     fold (\<lambda>(i, n). set_metric i (count_value ''socket'' n))
       [(''sock-tcp'', skc_tcp c), (''sock-udp'', skc_udp c), (''sock-unix'', skc_unix c), (''sock-listen'', skc_listen c),
        (''sock-estab'', skc_estab c), (''sock-timewait'', skc_timewait c), (''sock-closewait'', skc_closewait c)] p"

definition sock_collect_one :: "file_tree \<Rightarrow> string \<Rightarrow> sock_table \<Rightarrow> process \<Rightarrow> process" where
  "sock_collect_one fs base table p =
     (let dir = path_join (proc_dir base p) ''fd'' in
      case ft_dir fs dir of
        Inl e \<Rightarrow> set_all socket_metrics (unavailable (read_avail e) ''socket'') p
      | Inr names \<Rightarrow> sock_apply (fold sock_add
          (List.map_filter (sock_of_target table) (link_targets fs dir names)) no_socks) p)"

section \<open>Task states (\<open>threadstate.go\<close>)\<close>

definition read_task_state :: "file_tree \<Rightarrow> string \<Rightarrow> char" where
  "read_task_state fs path = read_or (CHR 0x00) task_state (ft_read fs path)"

definition thread_state_count :: "file_tree \<Rightarrow> string \<Rightarrow> process \<Rightarrow> process" where
  "thread_state_count fs base p =
     (let dir = path_join (proc_dir base p) ''task'' in
      case ft_dir fs dir of
        Inl e \<Rightarrow>
          set_all [''threads-running'', ''threads-uninterruptible'']
            (unavailable (if e = NoPermission then PermissionDenied else Vanished) ''threadstate'') p
      | Inr names \<Rightarrow>
          let states = map (\<lambda>n. read_task_state fs (path_join (path_join dir n) ''stat'')) names;
              count = (\<lambda>c. count_value ''threadstate'' (int (length (filter (\<lambda>s. s = c) states))))
          in set_metric ''threads-uninterruptible'' (count (CHR ''D''))
              (set_metric ''threads-running'' (count (CHR ''R'')) p))"

section \<open>Memory detail (\<open>procmem.go\<close>)\<close>

definition classify_read_err :: "file_error \<Rightarrow> availability" where
  "classify_read_err e =
     (case e of NoPermission \<Rightarrow> PermissionDenied | NotExist \<Rightarrow> Vanished | OtherError \<Rightarrow> ReadError)"

definition read_int_file :: "file_tree \<Rightarrow> string \<Rightarrow> int option" where
  "read_int_file fs path =
     (case ft_read fs path of
        Inl _ \<Rightarrow> None
      | Inr data \<Rightarrow> (case atoi (trim_space data) of (n, None) \<Rightarrow> Some n | (_, Some _) \<Rightarrow> None))"

definition apply_rollup :: "file_tree \<Rightarrow> string \<Rightarrow> process \<Rightarrow> process" where
  "apply_rollup fs dir p =
     (case ft_read fs (path_join dir ''smaps_rollup'') of
        Inl e \<Rightarrow> set_all [''pss'', ''uss'', ''swap-pss''] (unavailable (classify_read_err e) ''procmem'') p
      | Inr data \<Rightarrow>
          let r = parse_smaps_rollup data; value = (\<lambda>w. new_value (f_of_u64 w) Sampled ''procmem'') in
          set_metric ''swap-pss'' (value (sm_swap_pss r))
            (set_metric ''uss'' (value (uss r)) (set_metric ''pss'' (value (sm_pss r)) p)))"

definition oom_value :: "file_tree \<Rightarrow> string \<Rightarrow> metric_value" where
  "oom_value fs path =
     (case read_int_file fs path of
        Some v \<Rightarrow> count_value ''procmem'' v
      | None \<Rightarrow> unavailable ReadError ''procmem'')"

definition apply_oom :: "file_tree \<Rightarrow> string \<Rightarrow> process \<Rightarrow> process" where
  "apply_oom fs dir p =
     set_metric ''oom-score-adj'' (oom_value fs (path_join dir ''oom_score_adj''))
       (set_metric ''oom-score'' (oom_value fs (path_join dir ''oom_score'')) p)"

definition procmem_collect_one :: "file_tree \<Rightarrow> string \<Rightarrow> process \<Rightarrow> process" where
  "procmem_collect_one fs base p = apply_oom fs (proc_dir base p) (apply_rollup fs (proc_dir base p) p)"

section \<open>Counters over a window (\<open>schedstat.go\<close>, \<open>sched_wakeups.go\<close>)\<close>

text \<open>A counter, or why it cannot be read.\<close>

type_synonym counter_sample = "(availability, 64 word) result"

definition read_counter :: "availability \<Rightarrow> (string \<Rightarrow> 64 word option) \<Rightarrow> (file_error, string) result \<Rightarrow> counter_sample" where
  "read_counter missing parse r =
     (case r of
        Inl NoPermission \<Rightarrow> Inl PermissionDenied
      | Inl NotExist \<Rightarrow> Inl Unsupported
      | Inl OtherError \<Rightarrow> Inl ReadError
      | Inr data \<Rightarrow> (case parse data of None \<Rightarrow> Inl missing | Some n \<Rightarrow> Inr n))"

definition sample_avail :: "counter_sample \<Rightarrow> availability" where
  "sample_avail s = (case s of Inl av \<Rightarrow> av | Inr _ \<Rightarrow> Available)"

definition read_run_delay :: "file_tree \<Rightarrow> string \<Rightarrow> process \<Rightarrow> counter_sample" where
  "read_run_delay fs base p =
     read_counter ReadError parse_schedstat_run_delay (ft_read fs (path_join (proc_dir base p) ''schedstat''))"

definition read_wakeups :: "file_tree \<Rightarrow> string \<Rightarrow> process \<Rightarrow> counter_sample" where
  "read_wakeups fs base p =
     read_counter Unsupported (\<lambda>d. parse_sched_field d ''nr_wakeups'') (ft_read fs (path_join (proc_dir base p) ''sched''))"

text \<open>The value of a windowed metric from the samples at both ends, \<open>conv\<close> taking the growth to it.\<close>

definition window_value ::
  "string \<Rightarrow> bool \<Rightarrow> (64 word \<Rightarrow> f64) \<Rightarrow> counter_sample \<Rightarrow> counter_sample \<Rightarrow> metric_value" where
  "window_value src positive conv first second =
     (case first of
        Inl av \<Rightarrow> unavailable av src
      | Inr n1 \<Rightarrow> (case second of
          Inl _ \<Rightarrow> unavailable WarmingUp src
        | Inr n2 \<Rightarrow> if \<not> positive \<or> n2 < n1 then unavailable WarmingUp src
            else new_value (conv (n2 - n1)) Sampled src))"

definition schedstat_collect :: "file_tree \<Rightarrow> file_tree \<Rightarrow> string \<Rightarrow> int \<Rightarrow> process list \<Rightarrow> process list" where
  "schedstat_collect before after_fs base window procs =
     (let first = map (read_run_delay before base) procs;
          ns = f_of_int window;
          conv = (\<lambda>d. f_mul (f_div (f_of_u64 d) ns) (Fin 100)) in
      if list_all (\<lambda>s. \<not> is_ok s) first
      then map2 (\<lambda>p s. set_metric ''runq-delay'' (unavailable (sample_avail s) ''schedstat'') p) procs first
      else map2 (\<lambda>p s. set_metric ''runq-delay''
          (window_value ''schedstat'' (f_lt (Fin 0) ns) conv s (read_run_delay after_fs base p)) p) procs first)"

definition wakeups_collect :: "file_tree \<Rightarrow> file_tree \<Rightarrow> string \<Rightarrow> int \<Rightarrow> process list \<Rightarrow> process list" where
  "wakeups_collect before after_fs base window procs =
     (let secs = duration_secs window;
          pending = filter (\<lambda>p. \<not> present (metric p ''wakeups'')) procs;
          conv = (\<lambda>d. f_div (f_of_u64 d) secs);
          any_ok = list_ex (\<lambda>p. is_ok (read_wakeups before base p)) pending in
      map (\<lambda>p. if present (metric p ''wakeups'') then p
        else if \<not> any_ok then set_metric ''wakeups''
          (unavailable (sample_avail (read_wakeups before base p)) ''sched'') p
        else set_metric ''wakeups'' (window_value ''sched'' (f_lt (Fin 0) secs) conv
          (read_wakeups before base p) (read_wakeups after_fs base p)) p) procs)"

end
