(* ===== verification/Procfs_Readings.thy ===== *)
theory Procfs_Readings
  imports Procfs_Collect
begin

text \<open>
  What the file collectors promise: every metric they own is set, an unreadable source gives a
  reason and never a number, counts partition what was counted, and a windowed rate is present
  exactly when the counter was read twice and did not fall.
\<close>

section \<open>Setting metrics\<close>

lemma metric_set_all: "metric (set_all ids v p) i = (if i \<in> set ids then v else metric p i)"
  unfolding set_all_def by (induction ids arbitrary: p) auto

lemma metric_fold_set:
  "distinct (map fst vs) \<Longrightarrow>
    metric (fold (\<lambda>(i, n). set_metric i (count_value src n)) vs p) j =
      (case map_of vs j of None \<Rightarrow> metric p j | Some n \<Rightarrow> count_value src n)"
proof (induction vs arbitrary: p)
  case (Cons v vs)
  obtain i n where v: "v = (i, n)" by fastforce
  have "map_of vs j = None" if "i = j"
    using Cons.prems that by (simp add: v map_of_eq_None_iff)
  then show ?case using Cons by (auto simp: v split: option.split)
qed simp

section \<open>Descriptors\<close>

definition kinds :: "fd_kind list \<Rightarrow> fd_kind \<Rightarrow> int" where
  "kinds ks k = int (length (filter (\<lambda>x. x = k) ks))"

lemma kinds_Cons: "kinds (x # ks) k = kinds ks k + (if x = k then 1 else 0)"
  by (simp add: kinds_def)

definition special_fds :: "fd_kind list" where
  "special_fds = [FdEventfd, FdEpoll, FdTimerfd, FdSignalfd, FdInotify]"

lemma fd_fold:
  "fold fd_add ks c =
    c\<lparr>fd_total := fd_total c + int (length ks), fd_files := fd_files c + kinds ks FdFile,
      fd_sockets := fd_sockets c + kinds ks FdSocket, fd_pipes := fd_pipes c + kinds ks FdPipe,
      fd_anon := fd_anon c + kinds ks FdAnon + sum_list (map (kinds ks) special_fds),
      fd_eventfd := fd_eventfd c + kinds ks FdEventfd, fd_epoll := fd_epoll c + kinds ks FdEpoll,
      fd_timerfd := fd_timerfd c + kinds ks FdTimerfd, fd_signalfd := fd_signalfd c + kinds ks FdSignalfd,
      fd_inotify := fd_inotify c + kinds ks FdInotify\<rparr>"
proof (induction ks arbitrary: c)
  case Nil
  then show ?case by (simp add: kinds_def special_fds_def)
next
  case (Cons k ks)
  show ?case
    unfolding fold_Cons comp_apply Cons.IH
    by (rule fd_counts.equality; cases k; simp add: fd_add_def Let_def kinds_Cons special_fds_def)
qed

lemma fd_partition:
  "int (length ks) = kinds ks FdFile + kinds ks FdSocket + kinds ks FdPipe + (kinds ks FdAnon + sum_list (map (kinds ks) special_fds))"
proof (induction ks)
  case (Cons k ks)
  then show ?case by (cases k) (simp_all add: kinds_Cons special_fds_def)
qed (simp add: kinds_def special_fds_def)

text \<open>
  Descriptor counts. When the descriptors of a process cannot be listed every descriptor metric
  says why. Otherwise each link still there is counted once in the total and once among files,
  sockets, pipes and anonymous ones, the latter containing the kinds told apart; no other metric
  changes.
\<close>

theorem fd_counts_partition:
  "let dir = path_join (proc_dir base p) ''fd''; p' = fd_collect_one fs base p in
   (case ft_dir fs dir of
      Inl e \<Rightarrow> list_all (\<lambda>i. metric p' i = unavailable (read_avail e) ''fd'') fd_metrics
    | Inr names \<Rightarrow>
        let ks = map classify_fd (link_targets fs dir names); count = (\<lambda>i n. metric p' i = count_value ''fd'' n);
            anon = kinds ks FdAnon + sum_list (map (kinds ks) special_fds)
        in count ''fd-total'' (int (length ks)) \<and> count ''fd-files'' (kinds ks FdFile) \<and>
           count ''fd-sockets'' (kinds ks FdSocket) \<and> count ''fd-pipes'' (kinds ks FdPipe) \<and> count ''fd-anon'' anon \<and>
           int (length ks) = kinds ks FdFile + kinds ks FdSocket + kinds ks FdPipe + anon \<and>
           count ''fd-eventfd'' (kinds ks FdEventfd) \<and> count ''fd-epoll'' (kinds ks FdEpoll) \<and>
           count ''fd-timerfd'' (kinds ks FdTimerfd) \<and> count ''fd-signalfd'' (kinds ks FdSignalfd) \<and>
           count ''fd-inotify'' (kinds ks FdInotify)) \<and>
   (i \<in> set fd_metrics \<or> metric p' i = metric p i)"
proof (cases "ft_dir fs (path_join (proc_dir base p) ''fd'')")
  case (Inl e)
  then show ?thesis by (simp add: fd_collect_one_def Let_def metric_set_all list_all_iff)
next
  case (Inr names)
  let ?ks = "map classify_fd (link_targets fs (path_join (proc_dir base p) ''fd'') names)"
  have fold: "fold (\<lambda>t. fd_add (classify_fd t)) ts c = fold fd_add (map classify_fd ts) c" for ts c
    by (induction ts arbitrary: c) simp_all
  have p': "fd_collect_one fs base p = fd_apply (fold fd_add ?ks no_fds) p"
    using Inr by (simp add: fd_collect_one_def fold)
  show ?thesis
    using Inr fd_partition [of ?ks] unfolding Let_def p' fd_apply_def
    by (subst metric_fold_set; simp add: fd_fold no_fds_def metric_fold_set fd_metrics_def)
qed

section \<open>Sockets\<close>

definition protos :: "sock_info list \<Rightarrow> string \<Rightarrow> int" where
  "protos is pr = int (length (filter (\<lambda>x. sk_proto x = pr) is))"

definition tcp_states :: "sock_info list \<Rightarrow> string \<Rightarrow> int" where
  "tcp_states is st = int (length (filter (\<lambda>x. sk_proto x = ''tcp'' \<and> sk_state x = st) is))"

lemma protos_Cons: "protos (x # xs) pr = protos xs pr + (if sk_proto x = pr then 1 else 0)"
  by (simp add: protos_def)

lemma tcp_states_Cons:
  "tcp_states (x # xs) st = tcp_states xs st + (if sk_proto x = ''tcp'' \<and> sk_state x = st then 1 else 0)"
  by (simp add: tcp_states_def)

lemma sock_fold:
  "fold sock_add is c =
    c\<lparr>skc_tcp := skc_tcp c + protos is ''tcp'', skc_udp := skc_udp c + protos is ''udp'',
      skc_unix := skc_unix c + protos is ''unix'', skc_listen := skc_listen c + tcp_states is ''0A'',
      skc_estab := skc_estab c + tcp_states is ''01'', skc_timewait := skc_timewait c + tcp_states is ''06'',
      skc_closewait := skc_closewait c + tcp_states is ''08''\<rparr>"
proof (induction "is" arbitrary: c)
  case Nil
  then show ?case by (simp add: protos_def tcp_states_def)
next
  case (Cons x xs)
  show ?case
    unfolding fold_Cons comp_apply Cons.IH
    by (rule sock_counts.equality; simp add: sock_add_def Let_def protos_Cons tcp_states_Cons)
qed

text \<open>Every entry of the tables has an inode and a known protocol.\<close>

definition table_ok :: "sock_table \<Rightarrow> bool" where
  "table_ok t \<longleftrightarrow> (\<forall>ino info. t ino = Some info \<longrightarrow> ino \<noteq> 0 \<and> sk_proto info \<in> {''tcp'', ''udp'', ''unix''})"

lemma merge_table_ok:
  assumes "table_ok t" and "proto \<in> {''tcp'', ''udp'', ''unix''}"
  shows "table_ok (merge_net_table data proto i st t)"
proof -
  have "table_ok (fold (net_line proto i st) lines t)" if "table_ok t" for lines t
    using that
  proof (induction lines arbitrary: t)
    case (Cons line lines)
    have "table_ok (net_line proto i st line t)"
      using Cons.prems assms(2) by (auto simp: net_line_def Let_def table_ok_def split: option.split)
    from Cons.IH [OF this] show ?case by simp
  qed simp
  then show ?thesis using assms(1) by (simp add: merge_net_table_def)
qed

lemma read_merge_ok:
  assumes "table_ok t" and "proto \<in> {''tcp'', ''udp'', ''unix''}"
  shows "table_ok (read_or t (\<lambda>data. merge_net_table data proto i st t) r)"
  using assms by (cases r) (simp_all add: read_or_def merge_table_ok)

lemma net_tables_ok: "table_ok (read_net_tables fs base)"
  unfolding read_net_tables_def fold_simps case_prod_conv
  by (intro read_merge_ok) (simp_all add: table_ok_def)

lemma sock_partition:
  assumes "table_ok t"
  shows "int (length (List.map_filter (sock_of_target t) ts)) =
    (let is = List.map_filter (sock_of_target t) ts in protos is ''tcp'' + protos is ''udp'' + protos is ''unix'')"
proof (induction ts)
  case (Cons x ts)
  have "sk_proto info \<in> {''tcp'', ''udp'', ''unix''}" if "sock_of_target t x = Some info" for info
    using assms that by (auto simp: sock_of_target_def table_ok_def split: option.splits)
  then show ?case using Cons
    by (cases "sock_of_target t x") (auto simp: List.map_filter_simps Let_def protos_Cons)
qed (simp add: List.map_filter_simps protos_def)

lemma tcp_states_le: "tcp_states is ''0A'' + tcp_states is ''01'' + tcp_states is ''06'' + tcp_states is ''08'' \<le> protos is ''tcp''"
proof (induction "is")
  case Nil
  then show ?case by (simp add: tcp_states_def protos_def)
next
  case (Cons x xs)
  then show ?case
    by (cases "sk_proto x = ''tcp''") (auto simp: tcp_states_Cons protos_Cons)
qed

text \<open>
  Socket counts. Against the tables of the collector's network namespace, each descriptor that is a
  socket of a table is counted under exactly one protocol, and among the TCP ones those listening,
  established, waiting and half closed are disjoint; a descriptor in no table, and an unbound
  entry, are counted nowhere. When the descriptors cannot be listed every socket metric says why.
\<close>

theorem socket_counts_partition:
  "let dir = path_join (proc_dir base p) ''fd''; table = read_net_tables fs base; p' = sock_collect_one fs base table p in
   (case ft_dir fs dir of
      Inl e \<Rightarrow> list_all (\<lambda>i. metric p' i = unavailable (read_avail e) ''socket'') socket_metrics
    | Inr names \<Rightarrow>
        let found = List.map_filter (sock_of_target table) (link_targets fs dir names);
            count = (\<lambda>i n. metric p' i = count_value ''socket'' n)
        in count ''sock-tcp'' (protos found ''tcp'') \<and> count ''sock-udp'' (protos found ''udp'') \<and>
           count ''sock-unix'' (protos found ''unix'') \<and>
           int (length found) = protos found ''tcp'' + protos found ''udp'' + protos found ''unix'' \<and>
           count ''sock-listen'' (tcp_states found ''0A'') \<and> count ''sock-estab'' (tcp_states found ''01'') \<and>
           count ''sock-timewait'' (tcp_states found ''06'') \<and> count ''sock-closewait'' (tcp_states found ''08'') \<and>
           tcp_states found ''0A'' + tcp_states found ''01'' + tcp_states found ''06'' + tcp_states found ''08'' \<le> protos found ''tcp'') \<and>
   table 0 = None"
proof -
  let ?t = "read_net_tables fs base"
  have zero: "?t 0 = None" using net_tables_ok [of fs base] by (cases "?t 0") (auto simp: table_ok_def)
  show ?thesis
  proof (cases "ft_dir fs (path_join (proc_dir base p) ''fd'')")
    case (Inl e)
    then show ?thesis using zero by (simp add: sock_collect_one_def Let_def metric_set_all list_all_iff)
  next
    case (Inr names)
    let ?found = "List.map_filter (sock_of_target ?t) (link_targets fs (path_join (proc_dir base p) ''fd'') names)"
    have p': "sock_collect_one fs base ?t p = sock_apply (fold sock_add ?found no_socks) p"
      using Inr by (simp add: sock_collect_one_def)
    show ?thesis
      using Inr zero sock_partition [OF net_tables_ok, of fs base] tcp_states_le [of ?found]
      unfolding Let_def p' sock_apply_def
      by (subst metric_fold_set; simp add: sock_fold no_socks_def metric_fold_set)
  qed
qed

section \<open>Rates over a window\<close>

lemma window_value_present:
  "present (window_value src True conv first second) \<longleftrightarrow>
    (\<exists>n1 n2. first = Inr n1 \<and> second = Inr n2 \<and> n1 \<le> n2) \<or> first = Inl Available"
  by (auto simp: window_value_def split: sum.splits)

lemma read_counter_avail: "missing \<noteq> Available \<Longrightarrow> read_counter missing parse r \<noteq> Inl Available"
  by (auto simp: read_counter_def split: sum.splits file_error.splits option.splits)

lemma window_value_nonneg:
  assumes "\<And>d. f_nonneg (conv d)" and "present (window_value src pos conv (Inr n1) second)"
  shows "f_nonneg (rd_value (window_value src pos conv (Inr n1) second))"
  using assms by (auto simp: window_value_def split: sum.splits if_splits)

text \<open>The windows of the collectors, 200 milliseconds.\<close>

definition schedstat_window :: int where "schedstat_window = 200000000"

definition sched_wakeups_window :: int where "sched_wakeups_window = 200000000"

lemma window_ns: "f_of_int schedstat_window = Fin 200000000"
  by (simp add: schedstat_window_def f_of_int_exact)

text \<open>
  Run-queue delay. A process has a value exactly when its counter could be read at both ends of
  the window and did not fall in between, and the value is not negative; otherwise the metric
  says what was missing. Other processes do not matter, and no other metric changes.
\<close>

theorem run_delay_measured:
  assumes "k < length procs"
  shows "let p = procs ! k; p' = schedstat_collect before after_fs base schedstat_window procs ! k; v = metric p' ''runq-delay'' in
    length (schedstat_collect before after_fs base schedstat_window procs) = length procs \<and>
    (present v \<longleftrightarrow> (\<exists>n1 n2. read_run_delay before base p = Inr n1 \<and> read_run_delay after_fs base p = Inr n2 \<and> n1 \<le> n2)) \<and>
    (case get_reading v of None \<Rightarrow> True | Some pct \<Rightarrow> f_nonneg pct) \<and>
    (i = ''runq-delay'' \<or> metric p' i = metric p i)"
proof -
  let ?p = "procs ! k" and ?conv = "\<lambda>d. f_mul (f_div (f_of_u64 d) (Fin 200000000)) (Fin 100)"
  let ?all = "list_all (\<lambda>s. \<not> is_ok s) (map (read_run_delay before base) procs)"
  have never: "read_run_delay fs b q \<noteq> Inl Available" for fs b q
    unfolding read_run_delay_def by (rule read_counter_avail) simp
  have p': "schedstat_collect before after_fs base schedstat_window procs ! k =
      (if ?all then set_metric ''runq-delay'' (unavailable (sample_avail (read_run_delay before base ?p)) ''schedstat'') ?p
       else set_metric ''runq-delay'' (window_value ''schedstat'' True ?conv (read_run_delay before base ?p) (read_run_delay after_fs base ?p)) ?p)"
    using assms by (simp add: schedstat_collect_def Let_def window_ns)
  have len: "length (schedstat_collect before after_fs base schedstat_window procs) = length procs"
    by (simp add: schedstat_collect_def Let_def)
  have conv: "f_nonneg (?conv d)" for d
    by (intro f_nonneg_mul f_nonneg_div f_nonneg_of_u64) (auto intro: exI [of _ "100 :: rat"])
  show ?thesis
  proof (cases ?all)
    case True
    then have "\<not> is_ok (read_run_delay before base ?p)" using assms by (simp add: list_all_iff)
    then obtain av where "read_run_delay before base ?p = Inl av" by (cases "read_run_delay before base ?p") auto
    then show ?thesis using True never [of before base ?p]
      by (auto simp: Let_def p' len sample_avail_def get_reading_def)
  next
    case False
    show ?thesis
      using window_value_present [of "''schedstat''" ?conv] window_value_nonneg [OF conv, of "''schedstat''" True]
        never [of before base ?p] False
      by (cases "read_run_delay before base ?p") (auto simp: Let_def p' len get_reading_def)
  qed
qed

end
