(* ===== verification/Procfs_Examples.thy ===== *)
theory Procfs_Examples
  imports Procfs_Correct Procfs_Readings
begin

text \<open>
  The procfs properties on concrete trees: a command name with parentheses, two processes of which one
  names a host, and a run-queue counter read at both ends of a window.
\<close>

definition ex_files :: "(string \<times> string) list \<Rightarrow> file_tree" where
  "ex_files files =
     \<lparr>ft_read = (\<lambda>p. case map_of files p of None \<Rightarrow> Inl NotExist | Some s \<Rightarrow> Inr s),
      ft_link = (\<lambda>p. Inl NoPermission),
      ft_dir = (\<lambda>p. if p = ''/p'' then Inr [''12'', ''self'', ''13''] else Inl NotExist),
      ft_exists = (\<lambda>p. map_of files p \<noteq> None)\<rparr>"

definition ex_stat :: stat_info where
  "ex_stat = \<lparr>si_pid = 7, si_comm = ''a) R ('', si_state = CHR ''S'', si_ppid = 1, si_pgid = 7, si_sid = -1,
     si_min_flt = 3, si_maj_flt = 0, si_utime = 11, si_stime = 4, si_nice = -5, si_num_threads = 2,
     si_start_time = 99, si_vsize = 4096, si_rss_pages = 1, si_blkio = 0\<rparr>"

theorem parse_stat_kernel_witness:
  "parse_stat (kernel_stat ex_stat (\<lambda>n. ''0'') [''17'']) = Inr ex_stat"
  by (rule parse_stat_kernel)
    (simp_all add: ex_stat_def stat_ok_def int64_def plain_word_def wordy_def is_space_def)

definition ex_tree :: file_tree where
  "ex_tree = ex_files
     [(''/p/12/stat'', ''12 (sh) S 1''), (''/p/13/stat'', ''13 (sh) S 1''),
      (''/p/12/environ'', ''HOSTNAME=web'')]"

definition ex_source :: proc_source where
  "ex_source = (new_source ex_tree (Some ''box'') ''/p'' 100 4 4096)\<lparr>so_read_hostname := True\<rparr>"

definition ex_scan :: "proc_stat list" where
  "ex_scan = (case fst (list_processes ex_tree ex_source) of Inl _ \<Rightarrow> [] | Inr sts \<Rightarrow> sts)"

lemma ex_stat_parts:
  "str_cut (CHR ''('') ''12 (sh) S 1'' = Some (''12 '', ''sh) S 1'')" "str_cut_last (CHR '')'') ''12 (sh) S 1'' = Some (''12 (sh'', '' S 1'')"
  "str_cut (CHR ''('') ''13 (sh) S 1'' = Some (''13 '', ''sh) S 1'')" "str_cut_last (CHR '')'') ''13 (sh) S 1'' = Some (''13 (sh'', '' S 1'')"
  "trim_space ''12 '' = ''12''" "trim_space ''13 '' = ''13''" "trim_space ''1'' = ''1''"
  by code_simp+

lemma ex_numbers: "atoi ''12'' = (12, None)" "atoi ''13'' = (13, None)" "atoi ''self'' = (0, Some ErrSyntax)"
  by (simp_all add: atoi_def parse_uint_def is_digit_def digit_val_def)

lemma ex_names: "numeric_name ''12'' = Some 12" "numeric_name ''13'' = Some 13" "numeric_name ''self'' = None"
  by (simp_all add: numeric_name_def ex_numbers)

lemma ex_itoa: "itoa 12 = ''12''" "itoa 13 = ''13''"
  by code_simp+

lemmas ex_stats = parse_stat_def ex_stat_parts ex_numbers

lemma ex_parse_stat:
  "parse_stat ''12 (sh) S 1'' = Inr (stat_of_fields 12 ''sh'' (Go_Strings.fields '' S 1''))"
  "parse_stat ''13 (sh) S 1'' = Inr (stat_of_fields 13 ''sh'' (Go_Strings.fields '' S 1''))"
  by (simp_all add: ex_stats)

lemma ex_env: "env_value ''HOSTNAME=web'' ''HOSTNAME'' = ''web''"
  by code_simp

lemma ex_hostname: "so_hostname ex_source = ''box''"
  by (simp add: ex_source_def new_source_def ex_tree_def ex_files_def path_join_def read_host_hostname_def read_or_def)

lemma ex_pid_comm:
  "si_pid (stat_of_fields pid comm rest) = pid" "si_comm (stat_of_fields pid comm rest) = comm"
  by (simp_all add: stat_of_fields_def)

lemma ex_scan_hosts: "map (\<lambda>st. (ps_pid st, ps_comm st, ps_hostname st)) ex_scan = [(12, ''sh'', ''web''), (13, ''sh'', ''box'')]"
  by (simp add: ex_scan_def list_processes_def rotate_host_cache_def ex_tree_def ex_files_def ex_source_def new_source_def
    path_join_def ex_names ex_itoa detect_delayacct_def read_cmdline_def read_link_avail_def read_hostname_for_def
    resolve_hostname_def read_host_hostname_def ex_env read_process_def ex_parse_stat read_or_def Let_def fill_status_def
    fill_io_def base_stat_def process_key_eq_iff ex_pid_comm)

lemma ex_scan_run: "list_processes ex_tree ex_source = (Inr ex_scan, snd (list_processes ex_tree ex_source))"
  using ex_scan_hosts by (cases "list_processes ex_tree ex_source"; cases "fst (list_processes ex_tree ex_source)")
    (auto simp: ex_scan_def)

theorem hostnames_follow_instances_witness:
  "so_read_hostname ex_source \<and>
   dom (so_host_cache (snd (list_processes ex_tree ex_source))) = stat_key ` set ex_scan \<and> length ex_scan = 2"
proof -
  have host: "so_read_hostname ex_source" by (simp add: ex_source_def)
  have "length ex_scan = 2" using arg_cong [OF ex_scan_hosts, of length] by simp
  with host hostnames_follow_instances [OF host ex_scan_run] show ?thesis by simp
qed

definition ex_delay_before :: file_tree where
  "ex_delay_before = ex_files [(''/p/12/schedstat'', ''5 1000 2'')]"

definition ex_delay_after :: file_tree where
  "ex_delay_after = ex_files [(''/p/12/schedstat'', ''9 20001000 3'')]"

definition ex_delayed :: process where
  "ex_delayed = zero_process\<lparr>p_pid := 12\<rparr>"

lemma ex_delay_samples:
  "read_run_delay ex_delay_before ''/p'' ex_delayed = Inr 1000 \<and> read_run_delay ex_delay_after ''/p'' ex_delayed = Inr 20001000"
  by (simp add: read_run_delay_def read_counter_def parse_schedstat_run_delay_def parse_u64_def parse_uint_def
      ex_delay_before_def ex_delay_after_def ex_files_def ex_delayed_def Go_Strings.fields_def is_digit_def is_space_def digit_val_def
      proc_dir_def path_join_def ex_itoa)

theorem run_delay_measured_witness:
  "0 < length [ex_delayed] \<and>
   present (metric (schedstat_collect ex_delay_before ex_delay_after ''/p'' schedstat_window [ex_delayed] ! 0) ''runq-delay'')"
  using run_delay_measured [of 0 "[ex_delayed]" ex_delay_before ex_delay_after "''/p''" "''cpu''"] ex_delay_samples
  by (simp add: Let_def)

end
