(* ===== verification/Procfs_Host.thy ===== *)
theory Procfs_Host
  imports Procfs_Collect
begin

text \<open>
  The host-wide collectors of \<open>internal/procfs\<close> that read sysfs: batteries (\<open>battery.go\<close>), power
  (\<open>power_collect.go\<close>, \<open>power_source.go\<close>), idle residency (\<open>cstate.go\<close>) and temperatures
  (\<open>temp.go\<close>). Each gives a map from metric ids to readings. The order in which a directory is
  listed is the order the file tree gives.
\<close>

section \<open>Files of sysfs\<close>

definition read_uint_file :: "file_tree \<Rightarrow> string \<Rightarrow> 64 word option" where
  "read_uint_file fs path = read_or None (\<lambda>d. parse_u64 (trim_space d)) (ft_read fs path)"

definition read_trim_file :: "file_tree \<Rightarrow> string \<Rightarrow> string" where
  "read_trim_file fs path = read_or [] trim_space (ft_read fs path)"

text \<open>\<open>readMagnitude\<close>: the absolute value of a signed integer, the least one being its own.\<close>

definition read_magnitude :: "file_tree \<Rightarrow> string \<Rightarrow> 64 word option" where
  "read_magnitude fs path = map_option (\<lambda>n. word_of_int \<bar>n\<bar>) (read_int_file fs path)"

section \<open>Batteries (\<open>battery.go\<close>)\<close>

record bat_totals =
  bt_n :: int
  bt_charge_now :: f64
  bt_charge_full :: f64
  bt_current :: f64
  bt_energy_now :: f64
  bt_energy_full :: f64
  bt_power :: f64
  bt_charge_ok :: bool
  bt_energy_ok :: bool
  bt_current_ok :: bool
  bt_pw_ok :: bool
  bt_cap_sum :: f64
  bt_cap_ok :: bool
  bt_charging :: bool
  bt_discharging :: bool
  bt_states :: "int list"
  bt_missing :: int

definition no_batteries :: bat_totals where
  "no_batteries = \<lparr>bt_n = 0, bt_charge_now = Fin 0, bt_charge_full = Fin 0, bt_current = Fin 0, bt_energy_now = Fin 0,
     bt_energy_full = Fin 0, bt_power = Fin 0, bt_charge_ok = True, bt_energy_ok = True, bt_current_ok = True,
     bt_pw_ok = True, bt_cap_sum = Fin 0, bt_cap_ok = True, bt_charging = False, bt_discharging = False,
     bt_states = [], bt_missing = 0\<rparr>"

definition add_reading :: "64 word option \<Rightarrow> f64 \<times> bool \<Rightarrow> f64 \<times> bool" where
  "add_reading v s = (case v of None \<Rightarrow> (fst s, False) | Some w \<Rightarrow> (f_add (fst s) (f_of_u64 w), snd s))"

definition battery_add :: "file_tree \<Rightarrow> string \<Rightarrow> bat_totals \<Rightarrow> bat_totals" where
  "battery_add fs dir t =
     (let field = (\<lambda>name. read_uint_file fs (path_join dir name));
          magnitude = (\<lambda>name. read_magnitude fs (path_join dir name));
          status = read_trim_file fs (path_join dir ''status'');
          (charge_now, ok) = add_reading (field ''charge_now'') (bt_charge_now t, bt_charge_ok t);
          (charge_full, charge_ok) = add_reading (field ''charge_full'') (bt_charge_full t, ok);
          (current, current_ok) = add_reading (magnitude ''current_now'') (bt_current t, bt_current_ok t);
          (energy_now, ok) = add_reading (field ''energy_now'') (bt_energy_now t, bt_energy_ok t);
          (energy_full, energy_ok) = add_reading (field ''energy_full'') (bt_energy_full t, ok);
          (power, pw_ok) = add_reading (magnitude ''power_now'') (bt_power t, bt_pw_ok t);
          (cap_sum, cap_ok) = add_reading (field ''capacity'') (bt_cap_sum t, bt_cap_ok t)
      in t\<lparr>bt_n := bt_n t + 1, bt_states := bt_states t @ [battery_state_from_status status],
           bt_charge_now := charge_now, bt_charge_full := charge_full, bt_charge_ok := charge_ok,
           bt_current := current, bt_current_ok := current_ok,
           bt_energy_now := energy_now, bt_energy_full := energy_full, bt_energy_ok := energy_ok,
           bt_power := power, bt_pw_ok := pw_ok, bt_cap_sum := cap_sum, bt_cap_ok := cap_ok,
           bt_charging := (bt_charging t \<or> status = ''Charging''),
           bt_discharging := (bt_discharging t \<or> status = ''Discharging'')\<rparr>)"

definition battery_entry :: "file_tree \<Rightarrow> string \<Rightarrow> string \<Rightarrow> bat_totals \<Rightarrow> bat_totals" where
  "battery_entry fs base name t =
     (let dir = path_join base name in
      if read_trim_file fs (path_join dir ''type'') \<noteq> ''Battery'' then t
      else if read_trim_file fs (path_join dir ''present'') = ''0'' then t\<lparr>bt_missing := bt_missing t + 1\<rparr>
      else battery_add fs dir t)"

definition read_all_batteries :: "file_tree \<Rightarrow> string \<Rightarrow> bat_totals \<times> bool" where
  "read_all_batteries fs sys =
     (let base = path_join sys ''class/power_supply'' in
      case ft_dir fs base of
        Inl _ \<Rightarrow> (no_batteries, False)
      | Inr names \<Rightarrow> let t = fold (battery_entry fs base) names no_batteries in (t, bt_n t > 0))"

definition battery_state_of :: "bat_totals \<Rightarrow> int" where
  "battery_state_of t =
     (case bt_states t of
        [] \<Rightarrow> 0
      | first # rest \<Rightarrow>
          if list_all (\<lambda>s. s = first) rest then first
          else if bt_discharging t \<and> \<not> bt_charging t then 2
          else if bt_charging t \<and> \<not> bt_discharging t then 1
          else 6)"

definition no_battery_value :: metric_value where
  "no_battery_value = unavailable Unsupported ''battery''"

definition battery_level :: "bat_totals \<Rightarrow> metric_value" where
  "battery_level t =
     (if bt_charge_ok t \<and> f_lt (Fin 0) (bt_charge_full t) then
        new_value (f_mul (f_div (bt_charge_now t) (bt_charge_full t)) (Fin 100)) Derived ''battery''
      else if bt_energy_ok t \<and> f_lt (Fin 0) (bt_energy_full t) then
        new_value (f_mul (f_div (bt_energy_now t) (bt_energy_full t)) (Fin 100)) Derived ''battery''
      else if bt_cap_ok t then new_value (f_div (bt_cap_sum t) (f_of_int (bt_n t))) Exact ''battery''
      else no_battery_value)"

definition f_minus :: "f64 \<Rightarrow> f64 \<Rightarrow> f64" where
  "f_minus a b = f_add a (f_mul (Fin (- 1)) b)"

definition battery_remaining :: "bat_totals \<Rightarrow> f64 \<Rightarrow> f64 \<Rightarrow> f64" where
  "battery_remaining t now full =
     (if bt_charging t then (if f_lt now full then f_minus full now else Fin 0) else now)"

definition battery_time_left :: "bat_totals \<Rightarrow> metric_value" where
  "battery_time_left t =
     (let left = (\<lambda>have rate. new_value (f_mul (f_div have rate) (Fin 3600)) Derived ''battery'') in
      if \<not> bt_charging t \<and> \<not> bt_discharging t then unavailable WarmingUp ''battery''
      else if bt_charging t \<and> bt_discharging t then no_battery_value
      else if bt_charge_ok t \<and> bt_current_ok t \<and> f_lt (Fin 0) (bt_current t) then
        left (battery_remaining t (bt_charge_now t) (bt_charge_full t)) (bt_current t)
      else if bt_energy_ok t \<and> bt_pw_ok t \<and> f_lt (Fin 0) (bt_power t) then
        left (battery_remaining t (bt_energy_now t) (bt_energy_full t)) (bt_power t)
      else no_battery_value)"

definition state_value :: "int \<Rightarrow> metric_value" where
  "state_value s = new_value (f_of_int s) Exact ''battery''"

definition battery_metrics :: "bat_totals \<Rightarrow> (metric_id \<rightharpoonup> metric_value)" where
  "battery_metrics t = map_of
     [(''battery-state'', state_value (battery_state_of t)), (''battery-pct'', battery_level t),
      (''battery-time-left'', battery_time_left t),
      (''battery-charge-left'', if bt_charge_ok t then new_value (f_div (bt_charge_now t) (Fin 1000)) Exact ''battery'' else no_battery_value),
      (''battery-energy-left'', if bt_energy_ok t then new_value (f_div (bt_energy_now t) (Fin 1000000)) Exact ''battery'' else no_battery_value)]"

definition battery_ids :: "metric_id list" where
  "battery_ids = [''battery-state'', ''battery-pct'', ''battery-time-left'', ''battery-charge-left'', ''battery-energy-left'']"

definition all_unavailable :: "metric_id list \<Rightarrow> availability \<Rightarrow> string \<Rightarrow> (metric_id \<rightharpoonup> metric_value)" where
  "all_unavailable ids reason src = map_of (map (\<lambda>i. (i, unavailable reason src)) ids)"

definition battery_collect :: "file_tree \<Rightarrow> string \<Rightarrow> (metric_id \<rightharpoonup> metric_value)" where
  "battery_collect fs sys =
     (let (t, ok) = read_all_batteries fs sys in
      if ok then battery_metrics t
      else (let out = all_unavailable battery_ids Unsupported ''battery'' in
            if bt_missing t > 0 then out(''battery-state'' \<mapsto> state_value 5) else out))"

section \<open>Power (\<open>power_source.go\<close>)\<close>

datatype power_kind = EnergyCounter | InstantPower

record power_reading =
  pw_domain :: string
  pw_value :: "64 word"
  pw_kind :: power_kind
  pw_avail :: availability

text \<open>A backend: its name and what one read of it gives, nothing when it is absent.\<close>

record power_source =
  pws_id :: string
  pws_read :: "file_tree \<Rightarrow> power_reading list option"

definition some_readings :: "power_reading list \<Rightarrow> power_reading list option" where
  "some_readings out = (if out = [] then None else Some out)"

definition canonical_rapl_domain :: "string \<Rightarrow> string" where
  "canonical_rapl_domain name =
     (if has_prefix name ''package'' then ''pkg'' else if name = ''core'' then ''core''
      else if name = ''uncore'' then ''uncore'' else if name = ''dram'' then ''dram'' else [])"

definition powercap_entry :: "file_tree \<Rightarrow> string \<Rightarrow> string \<Rightarrow> power_reading option" where
  "powercap_entry fs base name =
     (if \<not> has_prefix name ''intel-rapl:'' then None
      else (let dom = canonical_rapl_domain (read_trim_file fs (path_join (path_join base name) ''name'')) in
        if dom = [] then None
        else (case read_uint_file fs (path_join (path_join base name) ''energy_uj'') of
            Some uj \<Rightarrow> Some \<lparr>pw_domain = dom, pw_value = uj, pw_kind = EnergyCounter, pw_avail = Available\<rparr>
          | None \<Rightarrow> Some \<lparr>pw_domain = dom, pw_value = 0, pw_kind = EnergyCounter, pw_avail = PermissionDenied\<rparr>)))"

definition powercap_read :: "string \<Rightarrow> file_tree \<Rightarrow> power_reading list option" where
  "powercap_read sys fs =
     (let base = path_join sys ''class/powercap'' in
      case ft_dir fs base of Inl _ \<Rightarrow> None | Inr names \<Rightarrow> some_readings (List.map_filter (powercap_entry fs base) names))"

definition hwmon_entry :: "file_tree \<Rightarrow> string \<Rightarrow> string \<Rightarrow> power_reading option" where
  "hwmon_entry fs base name =
     (let dir = path_join base name in
      case read_uint_file fs (path_join dir ''power1_input'') of
        Some uw \<Rightarrow> Some \<lparr>pw_domain = ''pkg'', pw_value = uw, pw_kind = InstantPower, pw_avail = Available\<rparr>
      | None \<Rightarrow> map_option (\<lambda>uj. \<lparr>pw_domain = ''pkg'', pw_value = uj, pw_kind = EnergyCounter, pw_avail = Available\<rparr>)
          (read_uint_file fs (path_join dir ''energy1_input'')))"

definition hwmon_read :: "string \<Rightarrow> file_tree \<Rightarrow> power_reading list option" where
  "hwmon_read sys fs =
     (let base = path_join sys ''class/hwmon'' in
      case ft_dir fs base of Inl _ \<Rightarrow> None | Inr names \<Rightarrow> some_readings (List.map_filter (hwmon_entry fs base) names))"

definition battery_microwatts :: "file_tree \<Rightarrow> string \<Rightarrow> 64 word option" where
  "battery_microwatts fs dir =
     (case read_magnitude fs (path_join dir ''power_now'') of
        Some uw \<Rightarrow> Some uw
      | None \<Rightarrow>
          (case (read_uint_file fs (path_join dir ''voltage_now''), read_magnitude fs (path_join dir ''current_now'')) of
             (Some uv, Some ua) \<Rightarrow> Some ((uv div 1000) * (ua div 1000))
           | _ \<Rightarrow> None))"

definition battery_read :: "string \<Rightarrow> file_tree \<Rightarrow> power_reading list option" where
  "battery_read sys fs =
     (let base = path_join sys ''class/power_supply'' in
      case ft_dir fs base of
        Inl _ \<Rightarrow> None
      | Inr names \<Rightarrow>
          let bats = filter (\<lambda>n. read_trim_file fs (path_join (path_join base n) ''type'') = ''Battery'' \<and>
                read_trim_file fs (path_join (path_join base n) ''present'') \<noteq> ''0'') names;
              draws = List.map_filter (\<lambda>n. battery_microwatts fs (path_join base n)) bats
          in if bats = [] then None
             else if draws = [] then Some [\<lparr>pw_domain = ''system'', pw_value = 0, pw_kind = InstantPower, pw_avail = WarmingUp\<rparr>]
             else Some [\<lparr>pw_domain = ''system'', pw_value = sum_list draws, pw_kind = InstantPower, pw_avail = Available\<rparr>])"

definition new_power_sources :: "file_tree \<Rightarrow> string \<Rightarrow> power_source list" where
  "new_power_sources fs sys =
     filter (\<lambda>s. pws_read s fs \<noteq> None)
       [\<lparr>pws_id = ''powercap'', pws_read = powercap_read sys\<rparr>, \<lparr>pws_id = ''hwmon'', pws_read = hwmon_read sys\<rparr>,
        \<lparr>pws_id = ''battery'', pws_read = battery_read sys\<rparr>]"

section \<open>Watts (\<open>power_collect.go\<close>)\<close>

definition has_energy :: "power_reading list \<Rightarrow> bool" where
  "has_energy rs \<longleftrightarrow> list_ex (\<lambda>r. pw_kind r = EnergyCounter) rs"

text \<open>\<open>sumEnergy\<close> and \<open>sumInstant\<close>: the available readings of one kind, added up per domain.\<close>

definition sum_kind :: "power_kind \<Rightarrow> power_reading list \<Rightarrow> (string \<rightharpoonup> 64 word)" where
  "sum_kind kind rs d =
     (let vs = map pw_value (filter (\<lambda>r. pw_kind r = kind \<and> pw_avail r = Available \<and> pw_domain r = d) rs)
      in if vs = [] then None else Some (sum_list vs))"

definition million :: f64 where "million = Fin 1000000"

definition watts_from :: "power_reading list \<Rightarrow> power_reading list \<Rightarrow> f64 \<Rightarrow> string \<Rightarrow> (string \<rightharpoonup> metric_value)" where
  "watts_from r1 r2 secs src d =
     (case sum_kind EnergyCounter r1 d of
        Some uj1 \<Rightarrow>
          (case sum_kind EnergyCounter r2 d of
             None \<Rightarrow> Some (unavailable WarmingUp src)
           | Some uj2 \<Rightarrow> if f_le secs (Fin 0) \<or> uj2 < uj1 then Some (unavailable WarmingUp src)
               else Some (new_value (f_div (f_div (f_of_u64 (uj2 - uj1)) million) secs) Sampled src))
      | None \<Rightarrow>
          (case sum_kind InstantPower r1 d of
             Some uw \<Rightarrow> Some (new_value (f_div (f_of_u64 uw) million) Sampled src)
           | None \<Rightarrow> (case List.find (\<lambda>r. pw_avail r \<noteq> Available \<and> pw_domain r = d) r1 of
               None \<Rightarrow> None
             | Some r \<Rightarrow> Some (unavailable (pw_avail r) src))))"

definition merge_domain :: "metric_value option \<Rightarrow> metric_value option \<Rightarrow> metric_value option" where
  "merge_domain cur v =
     (case v of
        None \<Rightarrow> cur
      | Some v \<Rightarrow> (case cur of
          None \<Rightarrow> Some v
        | Some c \<Rightarrow> if \<not> present c \<and> present v then Some v else Some c))"

text \<open>Every backend is read once; those with energy counters are read again after the window.\<close>

definition read_merged :: "file_tree \<Rightarrow> file_tree \<Rightarrow> f64 \<Rightarrow> power_source list \<Rightarrow> (string \<rightharpoonup> metric_value)" where
  "read_merged before after_fs secs sources d =
     fold (\<lambda>s cur. case pws_read s before of
         None \<Rightarrow> cur
       | Some r1 \<Rightarrow>
           let r2 = (if has_energy r1 then (case pws_read s after_fs of None \<Rightarrow> [] | Some r2 \<Rightarrow> r2) else [])
           in merge_domain cur (watts_from r1 r2 secs (pws_id s) d)) sources None"

definition power_domains :: "(string \<times> metric_id) list" where
  "power_domains = [(''pkg'', ''power-pkg''), (''core'', ''power-core''), (''uncore'', ''power-uncore''),
     (''dram'', ''power-dram''), (''system'', ''power-system'')]"

definition power_collect :: "file_tree \<Rightarrow> file_tree \<Rightarrow> int \<Rightarrow> power_source list \<Rightarrow> (metric_id \<rightharpoonup> metric_value)" where
  "power_collect before after_fs window sources =
     (if sources = [] then all_unavailable (map snd power_domains) Unsupported ''power''
      else map_of (map (\<lambda>(d, i). (i, case read_merged before after_fs (duration_secs window) sources d of
          Some v \<Rightarrow> v | None \<Rightarrow> unavailable Unsupported ''power'')) power_domains))"

section \<open>Idle residency (\<open>cstate.go\<close>)\<close>

definition is_cpu_dir :: "string \<Rightarrow> bool" where
  "is_cpu_dir name \<longleftrightarrow> has_prefix name ''cpu'' \<and> length name \<noteq> 3 \<and> snd (atoi (drop 3 name)) = None"

definition state_index :: "string \<Rightarrow> int option" where
  "state_index name =
     (if \<not> has_prefix name ''state'' then None
      else (case atoi (after ''state'' name) of (n, None) \<Rightarrow> Some n | (_, Some _) \<Rightarrow> None))"

text \<open>The deep states of one CPU: their residency, and whether one was read.\<close>

definition cpu_deep_time :: "file_tree \<Rightarrow> string \<Rightarrow> (64 word \<times> bool) option" where
  "cpu_deep_time fs idle =
     (case ft_dir fs idle of
        Inl _ \<Rightarrow> None
      | Inr states \<Rightarrow>
          let times = List.map_filter (\<lambda>s. read_uint_file fs (path_join (path_join idle s) ''time''))
                (filter (\<lambda>s. case state_index s of None \<Rightarrow> False | Some i \<Rightarrow> i \<ge> 2) states)
          in Some (sum_list times, times \<noteq> []))"

definition read_deep :: "file_tree \<Rightarrow> string \<Rightarrow> (64 word \<times> int) option" where
  "read_deep fs sys =
     (let base = path_join sys ''devices/system/cpu'' in
      case ft_dir fs base of
        Inl _ \<Rightarrow> None
      | Inr names \<Rightarrow>
          let cpus = List.map_filter (\<lambda>n. cpu_deep_time fs (path_join (path_join base n) ''cpuidle'')) (filter is_cpu_dir names)
          in if cpus = [] \<or> \<not> list_ex snd cpus then None else Some (sum_list (map fst cpus), int (length cpus)))"

definition cstate_collect :: "file_tree \<Rightarrow> file_tree \<Rightarrow> string \<Rightarrow> int \<Rightarrow> metric_value" where
  "cstate_collect before after_fs sys window =
     (case read_deep before sys of
        None \<Rightarrow> unavailable Unsupported ''cstate''
      | Some (first, cpus) \<Rightarrow>
          let window_us = f_mul (f_of_int (window div 1000)) (f_of_int cpus) in
          (case read_deep after_fs sys of
             None \<Rightarrow> unavailable WarmingUp ''cstate''
           | Some (second, _) \<Rightarrow>
               if f_le window_us (Fin 0) \<or> second < first then unavailable WarmingUp ''cstate''
               else new_value (f_mul (f_div (f_of_u64 (second - first)) window_us) (Fin 100)) Sampled ''cstate''))"

section \<open>Temperatures (\<open>temp.go\<close>)\<close>

record temp_sensor =
  tm_id :: metric_id
  tm_chip :: string
  tm_label :: string
  tm_path :: string

definition cpu_chips :: "string list" where
  "cpu_chips = [''coretemp'', ''k10temp'', ''zenpower'', ''cpu_thermal'', ''x86_pkg_temp'', ''cpu-thermal'', ''soc_thermal'']"

definition slug_char :: "char \<Rightarrow> bool" where
  "slug_char c \<longleftrightarrow> (CHR ''a'' \<le> c \<and> c \<le> CHR ''z'') \<or> (CHR ''0'' \<le> c \<and> c \<le> CHR ''9'')"

text \<open>Every run of other characters between two words is one dash (on ASCII text).\<close>

fun slug_from :: "bool \<Rightarrow> bool \<Rightarrow> string \<Rightarrow> string" where
  "slug_from some dash [] = []"
| "slug_from some dash (c # cs) =
     (if slug_char c then c # slug_from True False cs
      else if \<not> dash \<and> some then CHR ''-'' # slug_from some True cs
      else slug_from some dash cs)"

definition ascii_lower :: "string \<Rightarrow> string" where
  "ascii_lower = map (\<lambda>c. if CHR ''A'' \<le> c \<and> c \<le> CHR ''Z'' then char_of (of_char c + 32 :: nat) else c)"

definition slug :: "string \<Rightarrow> string" where
  "slug s = trim_right_set (slug_from False False (ascii_lower s)) ''-''"

definition temp_id :: "string \<Rightarrow> string \<Rightarrow> metric_id" where
  "temp_id chip label = ''temp-'' @ slug chip @ (if slug label = [] then [] else CHR ''-'' # slug label)"

text \<open>The number of earlier sensors with the same id decides the suffix.\<close>

fun dedupe_ids :: "(metric_id \<Rightarrow> int) \<Rightarrow> temp_sensor list \<Rightarrow> temp_sensor list" where
  "dedupe_ids seen [] = []"
| "dedupe_ids seen (s # ss) =
     (let i = tm_id s; n = seen i + 1 in
      (if n > 1 then s\<lparr>tm_id := i @ ''-'' @ show_int n\<rparr> else s) # dedupe_ids (seen(i := n)) ss)"

text \<open>A sensor's reading in degrees, from the thousandths in its file.\<close>

definition temp_degrees :: "file_tree \<Rightarrow> temp_sensor \<Rightarrow> f64 option" where
  "temp_degrees fs s = map_option (\<lambda>milli. f_div (f_of_int milli) (Fin 1000)) (read_int_file fs (tm_path s))"

definition temp_value :: "file_tree \<Rightarrow> temp_sensor \<Rightarrow> metric_value" where
  "temp_value fs s =
     (case temp_degrees fs s of None \<Rightarrow> unavailable ReadError ''temp'' | Some deg \<Rightarrow> new_value deg Exact ''temp'')"

fun f_max_from :: "f64 option \<Rightarrow> f64 list \<Rightarrow> f64 option" where
  "f_max_from cur [] = cur"
| "f_max_from cur (d # ds) =
     f_max_from (case cur of None \<Rightarrow> Some d | Some c \<Rightarrow> if f_lt c d then Some d else Some c) ds"

definition hottest :: "f64 list \<Rightarrow> metric_value" where
  "hottest ds = (case f_max_from None ds of None \<Rightarrow> unavailable Unsupported ''temp'' | Some d \<Rightarrow> new_value d Derived ''temp'')"

definition temp_collect :: "file_tree \<Rightarrow> temp_sensor list \<Rightarrow> (metric_id \<rightharpoonup> metric_value)" where
  "temp_collect fs sensors =
     (fold (\<lambda>s out. out(tm_id s \<mapsto> temp_value fs s)) sensors
        [''temp-cpu'' \<mapsto> unavailable Unsupported ''temp'', ''temp-max'' \<mapsto> unavailable Unsupported ''temp''])
     ++ (let all = List.map_filter (temp_degrees fs) sensors in
         if all = [] then Map.empty else [''temp-max'' \<mapsto> hottest all])
     ++ (let cpu = List.map_filter (temp_degrees fs) (filter (\<lambda>s. tm_chip s \<in> set cpu_chips) sensors) in
         if cpu = [] then Map.empty else [''temp-cpu'' \<mapsto> hottest cpu])"

end
