(* ===== verification/Procfs_Control.thy ===== *)
theory Procfs_Control
  imports Procfs_Source Control_Model
begin

text \<open>
  The Linux controller, \<open>internal/procfs/control_linux.go\<close>: reads go through the process source,
  changes through system calls. The kernel is a parameter: the file tree it shows, and what
  \<open>setpriority\<close>, \<open>kill\<close> and a write to a file do to it.
\<close>

section \<open>The kernel\<close>

record 'w kernel =
  k_tree :: "'w \<Rightarrow> file_tree"
  k_setpriority :: "'w \<Rightarrow> int \<Rightarrow> int \<Rightarrow> 'w \<times> string option"
  k_kill :: "'w \<Rightarrow> int \<Rightarrow> nat \<Rightarrow> 'w \<times> string option"
  k_write :: "'w \<Rightarrow> string \<Rightarrow> string \<Rightarrow> 'w \<times> string option"
  k_now :: "'w \<Rightarrow> int"

section \<open>Paths\<close>

text \<open>\<open>filepath.Clean\<close> of a rooted path: the components that remain.\<close>

fun clean_parts :: "string list \<Rightarrow> string list \<Rightarrow> string list" where
  "clean_parts acc [] = rev acc"
| "clean_parts acc (c # cs) =
     (if c = [] \<or> c = ''.'' then clean_parts acc cs
      else if c = ''..'' then clean_parts (tl acc) cs
      else clean_parts (c # acc) cs)"

text \<open>The path \<open>FreezeCgroup\<close> writes to, below a clean root.\<close>

definition freeze_path :: "string \<Rightarrow> string \<Rightarrow> string" where
  "freeze_path cg_root rel =
     join ''/'' ([cg_root] @ clean_parts [] (split_on (CHR ''/'') rel) @ [''cgroup.freeze''])"

section \<open>The controller (\<open>control_linux.go\<close>)\<close>

definition sig_map :: "signal \<Rightarrow> nat option" where
  "sig_map s =
     (case s of SigStop \<Rightarrow> Some 19 | SigCont \<Rightarrow> Some 18 | SigTerm \<Rightarrow> Some 15 | SigKill \<Rightarrow> Some 9
      | SigHUP \<Rightarrow> Some 1 | SigINT \<Rightarrow> Some 2 | SigOther _ \<Rightarrow> None)"

text \<open>The process as the source reads it now; the host names it caches do not matter here.\<close>

definition read_now :: "'w kernel \<Rightarrow> proc_source \<Rightarrow> 'w \<Rightarrow> int \<Rightarrow> proc_stat option" where
  "read_now k s w pid = fst (read_process (k_tree k w) s pid)"

definition linux_get_nice :: "'w kernel \<Rightarrow> proc_source \<Rightarrow> 'w \<Rightarrow> int \<Rightarrow> (string, int) result" where
  "linux_get_nice k s w pid =
     (case read_now k s w pid of
        None \<Rightarrow> Inl (''procfs: pid '' @ show_int pid @ '' not found'')
      | Some st \<Rightarrow> Inr (ps_nice st))"

text \<open>The text of a failed call, \<open>fmt.Errorf\<close> around the kernel's.\<close>

definition wrap_error :: "string \<Rightarrow> 'w \<times> string option \<Rightarrow> 'w \<times> string option" where
  "wrap_error what r = (fst r, map_option (\<lambda>e. what @ '': '' @ e) (snd r))"

definition linux_set_nice :: "'w kernel \<Rightarrow> 'w \<Rightarrow> int \<Rightarrow> int \<Rightarrow> 'w \<times> string option" where
  "linux_set_nice k w pid nice =
     wrap_error (''setpriority pid '' @ show_int pid @ '' nice '' @ show_int nice) (k_setpriority k w pid nice)"

definition linux_send_signal :: "'w kernel \<Rightarrow> 'w \<Rightarrow> int \<Rightarrow> signal \<Rightarrow> 'w \<times> string option" where
  "linux_send_signal k w pid sig =
     (case sig_map sig of
        None \<Rightarrow> (w, Some (''procfs: unsupported signal '' @ CHR 0x22 # signal_name sig @ [CHR 0x22]))
      | Some n \<Rightarrow> wrap_error (''kill pid '' @ show_int pid @ '' '' @ signal_name sig) (k_kill k w pid n))"

definition linux_read_cgroup :: "'w kernel \<Rightarrow> proc_source \<Rightarrow> 'w \<Rightarrow> int \<Rightarrow> string option" where
  "linux_read_cgroup k s w pid =
     (case read_now k s w pid of
        None \<Rightarrow> None
      | Some st \<Rightarrow> if ps_cgroup_path st = [] then None else Some (ps_cgroup_path st))"

definition linux_freeze_cgroup :: "'w kernel \<Rightarrow> string \<Rightarrow> 'w \<Rightarrow> string \<Rightarrow> bool \<Rightarrow> 'w \<times> string option" where
  "linux_freeze_cgroup k cg_root w rel freeze =
     wrap_error (''cgroup freeze '' @ rel) (k_write k w (freeze_path cg_root rel) (if freeze then ''1'' else ''0''))"

definition linux_read_identity :: "'w kernel \<Rightarrow> proc_source \<Rightarrow> 'w \<Rightarrow> int \<Rightarrow> process_id option" where
  "linux_read_identity k s w pid = map_option ps_id (read_now k s w pid)"

definition linux_controller :: "'w kernel \<Rightarrow> proc_source \<Rightarrow> string \<Rightarrow> 'w controller" where
  "linux_controller k s cg_root =
     \<lparr>ct_get_nice = linux_get_nice k s, ct_set_nice = linux_set_nice k, ct_send_signal = linux_send_signal k,
      ct_read_identity = linux_read_identity k s, ct_read_cgroup = linux_read_cgroup k s,
      ct_freeze_cgroup = linux_freeze_cgroup k cg_root, ct_now = k_now k\<rparr>"

definition linux_capabilities :: "'w kernel \<Rightarrow> string \<Rightarrow> 'w \<Rightarrow> control_caps" where
  "linux_capabilities k cg_root w =
     \<lparr>cap_nice = True, cap_signal = True,
      cap_freeze = ft_exists (k_tree k w) (path_join cg_root ''cgroup.controllers'')\<rparr>"

end
