(* ===== verification/Resolve.thy ===== *)
theory Resolve
  imports Procfs_Source
begin

text \<open>
  The resolvers that decorate a process, \<open>internal/resolve\<close>: login names from a passwd file and
  systemd units from control group paths.
\<close>

section \<open>Users (\<open>user.go\<close>)\<close>

definition passwd_line :: "string \<Rightarrow> (32 word \<rightharpoonup> string) \<Rightarrow> (32 word \<rightharpoonup> string)" where
  "passwd_line line out =
     (let f = split_on (CHR '':'') line in
      if length f < 3 then out
      else (case parse_uint 32 (f ! 2) of
          (_, Some _) \<Rightarrow> out
        | (uid, None) \<Rightarrow> out(word_of_nat uid \<mapsto> f ! 0)))"

definition parse_passwd :: "string \<Rightarrow> (32 word \<rightharpoonup> string)" where
  "parse_passwd data = fold passwd_line (split_on (CHR 0x0A) data) Map.empty"

record user_resolver =
  ur_path :: string
  ur_cache :: "32 word \<rightharpoonup> string"
  ur_loaded :: bool

definition new_user_resolver :: "string \<Rightarrow> user_resolver" where
  "new_user_resolver path = \<lparr>ur_path = (if path = [] then ''/etc/passwd'' else path), ur_cache = Map.empty, ur_loaded = False\<rparr>"

definition load_users :: "file_tree \<Rightarrow> user_resolver \<Rightarrow> user_resolver" where
  "load_users fs r =
     (case ft_read fs (ur_path r) of
        Inl _ \<Rightarrow> r\<lparr>ur_loaded := True\<rparr>
      | Inr data \<Rightarrow> r\<lparr>ur_loaded := True, ur_cache := ur_cache r ++ parse_passwd data\<rparr>)"

definition resolve_user :: "file_tree \<Rightarrow> user_resolver \<Rightarrow> process \<Rightarrow> process \<times> user_resolver" where
  "resolve_user fs r p =
     (let r = (if ur_loaded r then r else load_users fs r) in
      ((case ur_cache r (p_uid p) of None \<Rightarrow> p | Some name \<Rightarrow> p\<lparr>p_user := name\<rparr>), r))"

section \<open>Units (\<open>systemd.go\<close>)\<close>

definition unit_from_cgroup :: "string \<Rightarrow> string" where
  "unit_from_cgroup path =
     (let parts = rev (split_on (CHR ''/'') path) in
      case List.find (\<lambda>s. has_suffix s ''.service'' \<or> has_suffix s ''.scope'') parts of
        Some s \<Rightarrow> s
      | None \<Rightarrow> (case List.find (\<lambda>s. has_suffix s ''.slice'') parts of Some s \<Rightarrow> s | None \<Rightarrow> []))"

definition resolve_unit :: "process \<Rightarrow> process" where
  "resolve_unit p =
     (if p_systemd_unit p \<noteq> [] \<or> p_cgroup_path p = [] then p
      else (let unit = unit_from_cgroup (p_cgroup_path p) in if unit = [] then p else p\<lparr>p_systemd_unit := unit\<rparr>))"

end
