(* ===== verification/State_Store.thy ===== *)
theory State_Store
  imports Procfs_Source Daemon
begin

text \<open>
  The runtime state on disk, \<open>internal/state/store.go\<close>, and how the programs start from it
  (\<open>daemon/run.go\<close>, \<open>app/control.go\<close>). The state directory is a map from names to files. Which
  system calls fail, the name \<open>os.CreateTemp\<close> picks and how much a broken write leaves are
  arguments, and a save gives the directory after each of its calls: the points at which the
  process may die. JSON is a pair of arguments. What a power failure does to blocks that were
  not yet synced is not modelled.
\<close>

section \<open>The directory\<close>

record dfile =
  fi_mode :: nat
  fi_data :: string

type_synonym dir = "string \<rightharpoonup> dfile"

definition state_file :: string where "state_file = ''state.json''"

datatype store_call = CallCreate | CallChmod | CallWrite | CallSync | CallClose | CallRename | CallOpenDir

record faults =
  fa_error :: "store_call \<Rightarrow> string option"
  fa_suffix :: string
  fa_partial :: nat
  fa_read :: "file_error option"
  fa_rename_ok :: bool
  fa_remove_ok :: bool

definition no_faults :: "string \<Rightarrow> faults" where
  "no_faults tag = \<lparr>fa_error = (\<lambda>_. None), fa_suffix = tag, fa_partial = 0, fa_read = None, fa_rename_ok = True, fa_remove_ok = True\<rparr>"

text \<open>The name \<open>os.CreateTemp(dir, "state-*.tmp")\<close> picks.\<close>

definition temp_file :: "faults \<Rightarrow> string" where
  "temp_file F = ''state-'' @ fa_suffix F @ ''.tmp''"

section \<open>Saving (\<open>store.go\<close>)\<close>

text \<open>
  The calls of \<open>Save\<close> in their order. A call is the change it makes and the change a failing one
  leaves behind; the first failure ends the sequence, and the deferred removal of the temporary
  file comes last. The result is the error and the directory after each call.
\<close>

type_synonym save_step = "store_call \<times> (dir \<Rightarrow> dir) \<times> (dir \<Rightarrow> dir)"

definition save_steps :: "faults \<Rightarrow> string \<Rightarrow> save_step list" where
  "save_steps F data =
     (let tmp = temp_file F; written = (\<lambda>s d. d(tmp \<mapsto> \<lparr>fi_mode = 384, fi_data = s\<rparr>)) in
      [(CallCreate, written [], id),
       (CallChmod, id, id),
       (CallWrite, written data, written (take (fa_partial F) data)),
       (CallSync, id, id),
       (CallClose, id, id),
       (CallRename, \<lambda>d. (d(state_file := d tmp))(tmp := None), id)])"

fun run_steps :: "(store_call \<Rightarrow> string option) \<Rightarrow> save_step list \<Rightarrow> dir \<Rightarrow> string option \<times> dir list" where
  "run_steps err [] d = (None, [])"
| "run_steps err ((call, done, broken) # steps) d =
     (case err call of
        Some e \<Rightarrow> (Some e, [broken d])
      | None \<Rightarrow> let (e, ds) = run_steps err steps (done d) in (e, done d # ds))"

text \<open>The name tried last must be new: the file is created exclusively.\<close>

definition create_error :: "faults \<Rightarrow> dir \<Rightarrow> string option" where
  "create_error F d =
     (if fa_error F CallCreate = None \<and> d (temp_file F) \<noteq> None then Some ''file exists'' else fa_error F CallCreate)"

definition save_store :: "faults \<Rightarrow> (string, string) result \<Rightarrow> dir \<Rightarrow> string option \<times> dir list" where
  "save_store F marshalled d =
     (case marshalled of
        Inl e \<Rightarrow> (Some e, [d])
      | Inr data \<Rightarrow>
          if create_error F d \<noteq> None then (create_error F d, [d])
          else (let (e, ds) = run_steps (fa_error F) (save_steps F data) d;
                    last_dir = (if fa_remove_ok F then (last (d # ds))(temp_file F := None) else last (d # ds))
            in (case e of Some e \<Rightarrow> Some e | None \<Rightarrow> fa_error F CallOpenDir, d # ds @ [last_dir])))"

section \<open>Loading\<close>

datatype load_result = NoState | Loaded control_state | LoadFailed string

definition load_store ::
  "(string \<Rightarrow> (string, control_state) result) \<Rightarrow> faults \<Rightarrow> dir \<Rightarrow> load_result \<times> dir" where
  "load_store dec F d =
     (case fa_read F of
        Some e \<Rightarrow> (if e = NotExist then (NoState, d) else (LoadFailed ''read'', d))
      | None \<Rightarrow>
          (case d state_file of
             None \<Rightarrow> (NoState, d)
           | Some f \<Rightarrow>
               (case dec (fi_data f) of
                  Inr st \<Rightarrow> (Loaded st, d)
                | Inl e \<Rightarrow> (LoadFailed (''state: corrupt file quarantined: '' @ e),
                    if fa_rename_ok F then (d(state_file @ ''.corrupt'' \<mapsto> f))(state_file := None) else d))))"

text \<open>How both programs start: an error while loading is dropped.\<close>

definition start_manager ::
  "(string \<Rightarrow> (string, control_state) result) \<Rightarrow> faults \<Rightarrow> dir \<Rightarrow> manager \<Rightarrow> manager \<times> dir" where
  "start_manager dec F d m =
     (case load_store dec F d of
        (Loaded st, d) \<Rightarrow> (load_state (Some st) m, d)
      | (_, d) \<Rightarrow> (m, d))"

section \<open>The file is replaced as a whole\<close>

lemma state_not_temp: "temp_file F \<noteq> state_file" "state_file \<noteq> temp_file F"
  by (auto simp: temp_file_def state_file_def)

definition new_file :: "string \<Rightarrow> dfile" where
  "new_file data = \<lparr>fi_mode = 384, fi_data = data\<rparr>"

text \<open>What the directory may look like while a save is under way.\<close>

definition during_save :: "faults \<Rightarrow> string \<Rightarrow> dir \<Rightarrow> dir \<Rightarrow> bool" where
  "during_save F data d d' \<longleftrightarrow>
     (d' state_file = d state_file \<or> d' state_file = Some (new_file data)) \<and>
     (\<forall>n. n \<noteq> state_file \<longrightarrow> n \<noteq> temp_file F \<longrightarrow> d' n = d n)"

lemma during_save_refl [simp]: "during_save F data d d"
  by (simp add: during_save_def)

lemma save_steps_run:
  assumes "err CallCreate = None" and "run_steps err (save_steps F data) d = (e, ds)"
  shows "list_all (during_save F data d) ds \<and> ds \<noteq> [] \<and> (e = None \<longrightarrow> last ds (temp_file F) = None) \<and>
    (last ds)(temp_file F := None) = (if e = None then d(state_file \<mapsto> new_file data) else d)(temp_file F := None)"
proof -
  note defs = save_steps_def Let_def during_save_def new_file_def state_not_temp fun_eq_iff
  show ?thesis
    using assms by (cases "err CallChmod"; cases "err CallWrite"; cases "err CallSync"; cases "err CallClose"; cases "err CallRename")
      (auto simp: defs split: prod.splits)
qed

lemma save_result:
  "let (e, ds) = save_store F (Inr data) d in
     list_all (during_save F data d) ds \<and>
     (case e of None \<Rightarrow> last ds = d(state_file \<mapsto> new_file data)
      | Some _ \<Rightarrow> (if fa_remove_ok F \<or> temp_file F \<in> dom d then last ds else (last ds)(temp_file F := None)) \<in> {d, d(state_file \<mapsto> new_file data)})"
proof (cases "create_error F d")
  case (Some err)
  then show ?thesis by (auto simp: save_store_def fun_eq_iff)
next
  case None
  then have ok: "fa_error F CallCreate = None" and fresh: "d (temp_file F) = None"
    by (auto simp: create_error_def split: if_splits)
  obtain e' ds' where run: "run_steps (fa_error F) (save_steps F data) d = (e', ds')"
    by (cases "run_steps (fa_error F) (save_steps F data) d")
  have gone: "(if c then d(state_file \<mapsto> x) else d)(temp_file F := None) = (if c then d(state_file \<mapsto> x) else d)" for c x
    using fresh state_not_temp(1) by (auto simp: fun_eq_iff)
  have finished: "last ds' = d(state_file \<mapsto> new_file data)" if "e' = None"
  proof -
    have "last ds' (temp_file F) = None" using save_steps_run [OF ok run] that by blast
    then have "(last ds')(temp_file F := None) = last ds'" by (simp add: fun_upd_idem)
    moreover have "(last ds')(temp_file F := None) = (d(state_file \<mapsto> new_file data))(temp_file F := None)"
      using save_steps_run [OF ok run] that by simp
    moreover have "(d(state_file \<mapsto> new_file data))(temp_file F := None) = d(state_file \<mapsto> new_file data)"
      using gone [of True "new_file data"] by (simp only: if_True)
    ultimately show ?thesis by metis
  qed
  show ?thesis
    using run save_steps_run [OF ok run] gone [of "e' = None" "new_file data"] finished fresh
    by (auto simp: save_store_def None during_save_def state_not_temp split: option.splits if_splits)
qed

text \<open>
  C14: an atomic save. At every point of a save the state file is the old one or the whole
  new one, and no file but it and the temporary one is touched. When the save reports no error, the temporary file is gone
  and the directory has the new state with mode 0600. Otherwise it is as it was or has the new state, but for the temporary
  file, which stays only when it could not be removed either.
\<close>

theorem save_atomic:
  "let (e, ds) = save_store F (Inr data) d in
     list_all (during_save F data d) ds \<and>
     (case e of None \<Rightarrow> last ds = d(state_file \<mapsto> new_file data)
      | Some _ \<Rightarrow> (if fa_remove_ok F \<or> temp_file F \<in> dom d then last ds else (last ds)(temp_file F := None)) \<in> {d, d(state_file \<mapsto> new_file data)})"
  by (rule save_result)

end
