(* ===== verification/State_Restart.thy ===== *)
theory State_Restart
  imports State_Store Daemon_Examples
begin

text \<open>
  The daemon over the state store: what an acknowledged request leaves on disk, what a start makes of it, and what
  happens to a state that cannot be read.
\<close>

section \<open>The saver of the daemon (\<open>daemon/run.go\<close>)\<close>

text \<open>The directory is a part of the world that \<open>get\<close> reads and \<open>put\<close> replaces.\<close>

definition store_saver ::
  "('w \<Rightarrow> faults) \<Rightarrow> (control_state \<Rightarrow> (string, string) result) \<Rightarrow> ('w \<Rightarrow> dir) \<Rightarrow> (dir \<Rightarrow> 'w \<Rightarrow> 'w) \<Rightarrow>
    'w \<Rightarrow> control_state \<Rightarrow> 'w \<times> string option" where
  "store_saver F enc get put w st =
     (let (e, ds) = save_store (F w) (enc st) (get w) in (put (last ds) w, e))"

text \<open>A state as a manager of another boot adopts it.\<close>

definition unbound :: "string \<Rightarrow> control_state \<Rightarrow> control_state" where
  "unbound boot st = st\<lparr>st_targets := map (\<lambda>t. t\<lparr>t_bindings := [], t_active := False\<rparr>) (st_targets st), st_boot_id := boot\<rparr>"

lemma saved_None:
  assumes "store_saver F enc get put w st = (w', None)" and "\<And>d w. get (put d w) = d"
  obtains data where "enc st = Inr data" and "get w' = (get w)(state_file \<mapsto> new_file data)"
proof (cases "enc st")
  case (Inl e)
  then show ?thesis using assms(1) by (simp add: store_saver_def save_store_def)
next
  case (Inr data)
  obtain e ds where run: "save_store (F w) (Inr data) (get w) = (e, ds)" by (cases "save_store (F w) (Inr data) (get w)")
  have "e = None" "w' = put (last ds) w" using assms(1) Inr run by (auto simp: store_saver_def)
  with save_result [of "F w" data "get w"] run assms(2) show ?thesis by (auto intro!: that [OF Inr])
qed

lemma start_saved:
  assumes "fa_read F = None" and "d state_file = Some (new_file data)" and "dec data = Inr st"
  shows "start_manager dec F d (new_manager sg boot) =
    ((new_manager sg boot)\<lparr>mg_state := (if boot = st_boot_id st then st else unbound boot st)\<rparr>, d)"
  using assms by (simp add: start_manager_def load_store_def new_file_def load_state_def new_manager_def unbound_def Let_def)

lemma acknowledged_saved:
  assumes "control_request P (Some c) s = (RespControl res, d', w', evs')" and "pt_saver P = Some save" and "\<not> cr_dry_run c"
  obtains w where "save w (mg_state (de_mgr d')) = (w', None)"
  using assms by (auto simp: control_request_def split: sum.splits prod.splits option.splits)

text \<open>A state that cannot be read, or cannot be moved aside, is replaced by the next save.\<close>

lemma unreadable_state_is_lost:
  assumes "fa_read F = Some NoPermission" and "fa_error F' = (\<lambda>_. None)" and "d (temp_file F') = None"
    and "start_manager dec F d (new_manager sg boot) = (m, d1)" and "save_store F' (Inr data) d1 = (e, ds)"
  shows "mg_state m = mg_state (new_manager sg boot) \<and> last ds state_file = Some (new_file data)"
proof -
  have d1: "d1 = d" "m = new_manager sg boot"
    using assms(1,4) by (auto simp: start_manager_def load_store_def)
  have "e = None"
    using assms(2,3,5) d1 by (auto simp: save_store_def create_error_def save_steps_def Let_def)
  then show ?thesis using save_result [of F' data d1] assms(5) d1 by auto
qed

section \<open>A concrete disk\<close>

text \<open>
  A controller over processes that stay as they are, and an encoding that tells apart the names of the targets, their
  bindings and which of them have a captured original. The decoder knows some states, and gives the first
  with the encoding it reads.
\<close>

definition ex_disk_controller :: "dir controller" where
  "ex_disk_controller = \<lparr>ct_get_nice = (\<lambda>_ pid. Inr (pid - 100)), ct_set_nice = (\<lambda>w _ _. (w, None)), ct_send_signal = (\<lambda>w _ _. (w, None)),
     ct_read_identity = (\<lambda>_ pid. Some (ex_id pid)), ct_read_cgroup = (\<lambda>_ _. None), ct_freeze_cgroup = (\<lambda>w _ _. (w, None)), ct_now = (\<lambda>_. 7)\<rparr>"

definition ex_encode :: "control_state \<Rightarrow> (string, string) result" where
  "ex_encode st = Inr (concat (map (\<lambda>t. t_name t @
     concat (map (\<lambda>b. if Option.is_none (b_nice b) then '' -'' else '' +'') (t_bindings t)) @ '';'') (st_targets st)))"

definition ex_decode :: "control_state list \<Rightarrow> string \<Rightarrow> (string, control_state) result" where
  "ex_decode known data = (case find (\<lambda>st. ex_encode st = Inr data) known of None \<Rightarrow> Inl ''bad'' | Some st \<Rightarrow> Inr st)"

lemma ex_decode_encode:
  "ex_encode st0 \<noteq> ex_encode st \<Longrightarrow> ex_encode st = Inr data \<Longrightarrow> ex_decode [st0, st] data = Inr st"
  by (simp add: ex_decode_def)

definition ex_disk_ports :: "dir ports" where
  "ex_disk_ports = \<lparr>pt_regexp = (\<lambda>_. None), pt_controller = ex_disk_controller, pt_caps = (\<lambda>_. \<lparr>cap_nice = True, cap_signal = True, cap_freeze = True\<rparr>),
     pt_saver = Some (store_saver (\<lambda>_. no_faults ''1'') ex_encode id (\<lambda>d _. d)), pt_owner_uid = 1000\<rparr>"

end
