(* ===== verification/App_Control.thy ===== *)
theory App_Control
  imports State_Restart
begin

text \<open>
  The control commands, \<open>internal/app/control.go\<close> and \<open>control_cmds.go\<close>: how a target on the command
  line becomes instances, what each command does to the processes, the state and the disk, what it
  prints and its exit code. The flags arrive parsed; messages on standard error are not modelled.
\<close>

section \<open>Exit codes and the port of the commands (\<open>app.go\<close>, \<open>control.go\<close>)\<close>

definition exit_ok :: int where "exit_ok = 0"
definition exit_runtime :: int where "exit_runtime = 1"
definition exit_usage :: int where "exit_usage = 2"
definition exit_permission :: int where "exit_permission = 4"
definition exit_not_found :: int where "exit_not_found = 5"
definition exit_partial :: int where "exit_partial = 6"
definition exit_conflict :: int where "exit_conflict = 7"

lemmas exit_codes = exit_ok_def exit_runtime_def exit_usage_def exit_permission_def exit_not_found_def
  exit_partial_def exit_conflict_def

text \<open>
  What a command works with. Opening reads the state of the state directory into a manager; the
  disk is a part of the world. A command starts with a new sampler.
\<close>

record 'w cli =
  cl_open :: "'w \<Rightarrow> (string, manager \<times> 'w) result"
  cl_save :: "'w \<Rightarrow> control_state \<Rightarrow> 'w \<times> string option"
  cl_controller :: "'w controller"
  cl_regexp :: regexp_compile
  cl_reading :: "'w \<Rightarrow> source_reading"

datatype cli_error = AmbiguousTarget string | CliFailed daemon_error

text \<open>The manager, the world and the audit log a command works on; what it prints and answers.\<close>

type_synonym 'w cstate = "manager \<times> 'w \<times> event list"

record outcome =
  oc_exit :: int
  oc_out :: string

definition outcome_of :: "int \<Rightarrow> string \<Rightarrow> outcome" where
  "outcome_of code out = \<lparr>oc_exit = code, oc_out = out\<rparr>"

section \<open>Resolving a target (\<open>control.go\<close>)\<close>

definition cli_instance_of :: "process \<Rightarrow> instance_ref" where
  "cli_instance_of p = \<lparr>in_id = p_id p, in_pid = p_pid p, in_name = display_name p\<rparr>"

definition cli_for_pid :: "'w controller \<Rightarrow> 'w \<Rightarrow> int \<Rightarrow> (cli_error, instance_ref list) result" where
  "cli_for_pid ct w pid =
     (case ct_read_identity ct w pid of
        None \<Rightarrow> Inl (CliFailed (PidNotFound pid))
      | Some i \<Rightarrow> Inr [\<lparr>in_id = i, in_pid = pid, in_name = []\<rparr>])"

definition cli_snapshot :: "'w cli \<Rightarrow> 'w \<Rightarrow> (cli_error, process list) result" where
  "cli_snapshot C w =
     (case snd (sample new_sampler (cl_reading C w) []) of
        Inl e \<Rightarrow> Inl (CliFailed (SampleFailed e))
      | Inr sn \<Rightarrow> Inr (sn_processes sn))"

definition cli_by_selector :: "'w cli \<Rightarrow> 'w \<Rightarrow> string \<Rightarrow> (cli_error, instance_ref list) result" where
  "cli_by_selector C w sel =
     (case compile (cl_regexp C) sel of
        Inl e \<Rightarrow> Inl (CliFailed (BadSelector e))
      | Inr prog \<Rightarrow> rbind (cli_snapshot C w)
          (\<lambda>procs. Inr (map cli_instance_of (filter (eval_entity (cl_regexp C) prog) procs))))"

definition cli_by_group :: "'w cli \<Rightarrow> 'w \<Rightarrow> string \<Rightarrow> (cli_error, instance_ref list) result" where
  "cli_by_group C w arg =
     (case str_cut (CHR ''='') arg of
        None \<Rightarrow> Inl (CliFailed (BadGroupTarget arg))
      | Some (field, v) \<Rightarrow> rbind (cli_snapshot C w)
          (\<lambda>procs. Inr (map cli_instance_of (filter (group_matches field v) procs))))"

definition cli_resolve :: "'w cli \<Rightarrow> manager \<Rightarrow> 'w \<Rightarrow> string \<Rightarrow> (cli_error, instance_ref list) result" where
  "cli_resolve C m w spec =
     (let (kind, arg) = (case str_cut (CHR '':'') spec of None \<Rightarrow> (spec, []) | Some ka \<Rightarrow> ka) in
      if arg = [] then
        (case atoi spec of (n, None) \<Rightarrow> cli_for_pid (cl_controller C) w n | (_, Some _) \<Rightarrow> Inl (AmbiguousTarget spec))
      else if kind = ''pid'' then
        (case atoi arg of (n, None) \<Rightarrow> cli_for_pid (cl_controller C) w n | (_, Some _) \<Rightarrow> Inl (CliFailed (BadPid arg)))
      else if kind = ''managed'' then
        (case find_target (st_targets (mg_state m)) arg of
           None \<Rightarrow> Inl (CliFailed (ControlFailed (TargetNotFound arg)))
         | Some i \<Rightarrow> Inr (map (\<lambda>b. \<lparr>in_id = b_id b, in_pid = b_pid b, in_name = b_name b\<rparr>)
             (t_bindings (st_targets (mg_state m) ! i))))
      else if kind = ''selector'' then cli_by_selector C w arg
      else if kind = ''group'' then cli_by_group C w arg
      else Inl (CliFailed (UnknownTargetKind kind)))"

section \<open>Results and exit codes (\<open>control.go\<close>)\<close>

fun status_name :: "field_status \<Rightarrow> string" where
  "status_name StUnset = []"
| "status_name StApplied = ''applied''"
| "status_name StUnchanged = ''unchanged''"
| "status_name StDrifted = ''drifted''"
| "status_name StRestored = ''restored''"
| "status_name StUnavailable = ''unavailable''"
| "status_name StVanished = ''vanished''"
| "status_name StStale = ''stale''"
| "status_name StDenied = ''permission_denied''"
| "status_name StFailed = ''failed''"
| "status_name StSkipped = ''skipped_protected''"

fun mode_name :: "binding_mode \<Rightarrow> string" where
  "mode_name ModeUnset = []"
| "mode_name ModeFollow = ''follow''"
| "mode_name ModeSnapshot = ''snapshot''"

definition newline :: string where "newline = [CHR 0x0A]"

definition exit_for_result :: "apply_result \<Rightarrow> int" where
  "exit_for_result res =
     (let n = ar_counts res; good = n StApplied + n StRestored + n StUnchanged in
      if ar_results res = [] then exit_ok
      else if n StDrifted > 0 \<or> n StStale > 0 then (if good = 0 then exit_conflict else exit_partial)
      else if n StDenied > 0 then (if good = 0 then exit_permission else exit_partial)
      else if n StFailed > 0 \<or> n StVanished > 0 then exit_partial
      else exit_ok)"

definition print_one :: "binding_result \<Rightarrow> string" where
  "print_one r = ''  pid '' @ show_int (br_pid r) @ '': '' @ status_name (br_status r) @
     (if br_error r \<noteq> [] then '' ('' @ br_error r @ '')'' else []) @ newline"

definition print_result :: "apply_result \<Rightarrow> string" where
  "print_result res = concat (map print_one (ar_results res))"

definition max_exit :: "int \<Rightarrow> int \<Rightarrow> int" where
  "max_exit a b = (if b > a then b else a)"

text \<open>\<open>resolveStateDir\<close>: the directory, and whether it does not survive a reboot. \<open>path_of\<close> is \<open>filepath.Join\<close>.\<close>

definition resolve_state_dir ::
  "(string list \<Rightarrow> string) \<Rightarrow> string \<Rightarrow> string \<Rightarrow> string \<Rightarrow> int \<Rightarrow> string \<Rightarrow> string \<times> bool" where
  "resolve_state_dir path_of xdg tmp name uid override =
     (if override \<noteq> [] then (override, False)
      else if xdg \<noteq> [] then (path_of [xdg, name], False)
      else (path_of [tmp, name @ ''-'' @ show_int uid], True))"

section \<open>The mutations of \<open>set\<close> and \<open>manage\<close> (\<open>control_cmds.go\<close>)\<close>

record set_ops =
  so_nice :: int
  so_set_nice :: bool
  so_stop :: bool
  so_cont :: bool
  so_freeze :: bool
  so_thaw :: bool
  so_force :: bool
  so_dry_run :: bool

text \<open>
  One mutation: its result is printed and raises the exit code. \<open>None\<close> is the panic of a nil
  result: stop and freeze drop the error and go on with the result.
\<close>

type_synonym 'w mutation =
  "manager \<Rightarrow> 'w \<Rightarrow> event list \<Rightarrow> (control_error, apply_result) result \<times> manager \<times> 'w \<times> event list"

definition apply_step ::
  "bool \<Rightarrow> 'w mutation \<Rightarrow> outcome option \<times> 'w cstate \<Rightarrow> outcome option \<times> 'w cstate" where
  "apply_step on f s =
     (case s of
        (None, _) \<Rightarrow> s
      | (Some oc, m, w, evs) \<Rightarrow>
          if \<not> on then s
          else (case f m w evs of
              (Inl _, s') \<Rightarrow> (None, s')
            | (Inr res, s') \<Rightarrow>
                (Some (outcome_of (max_exit (oc_exit oc) (exit_for_result res)) (oc_out oc @ print_result res)), s')))"

definition apply_set_ops :: "'w cli \<Rightarrow> string \<Rightarrow> set_ops \<Rightarrow> 'w cstate \<Rightarrow> outcome option \<times> 'w cstate" where
  "apply_set_ops C name ops s =
     (let ct = cl_controller C; dry = so_dry_run ops; (m, w, evs) = s;
          rest = (\<lambda>s. apply_step (so_freeze ops \<or> so_thaw ops) (set_freeze ct name (so_freeze ops) (so_force ops) dry)
            (apply_step (so_stop ops \<or> so_cont ops) (set_stop ct name (so_stop ops) dry) s))
      in if so_set_nice ops then
           (case set_nice ct name (so_nice ops) dry m w evs of
              (Inl _, s) \<Rightarrow> (Some (outcome_of exit_not_found []), s)
            | (Inr res, s) \<Rightarrow> rest (Some (outcome_of (max_exit exit_ok (exit_for_result res)) (print_result res)), s))
         else rest (Some (outcome_of exit_ok []), s))"

definition cli_ensure_target :: "'w cli \<Rightarrow> string \<Rightarrow> 'w cstate \<Rightarrow> string option \<times> 'w cstate" where
  "cli_ensure_target C spec s =
     (let (m, w, evs) = s; name = target_name spec in
      if find_target (st_targets (mg_state m)) name \<noteq> None then (Some name, s)
      else (case cli_resolve C m w spec of
          Inl e \<Rightarrow> (None, s)
        | Inr insts \<Rightarrow>
            (Some name, m\<lparr>mg_state := fst (manage (ct_now (cl_controller C) w) name (default_mode spec) (selector_of spec) insts
               (mg_state m))\<rparr>, w, evs)))"

text \<open>Saving at the end of a command: a failure is its exit code.\<close>

definition save_exit :: "'w cli \<Rightarrow> outcome option \<times> 'w cstate \<Rightarrow> outcome option \<times> 'w \<times> event list" where
  "save_exit C r =
     (case r of
        (None, m, w, evs) \<Rightarrow> (None, w, evs)
      | (Some oc, m, w, evs) \<Rightarrow>
          (case cl_save C w (mg_state m) of
             (w, Some e) \<Rightarrow> (Some (oc\<lparr>oc_exit := exit_runtime\<rparr>), w, evs)
           | (w, None) \<Rightarrow> (Some oc, w, evs)))"

section \<open>The commands (\<open>control_cmds.go\<close>)\<close>

text \<open>A command starts by opening the control plane; without it the command fails.\<close>

definition with_control ::
  "'w cli \<Rightarrow> ('w cstate \<Rightarrow> outcome option \<times> 'w \<times> event list) \<Rightarrow> 'w \<times> event list \<Rightarrow> outcome option \<times> 'w \<times> event list" where
  "with_control C f s =
     (case cl_open C (fst s) of
        Inl e \<Rightarrow> (Some (outcome_of exit_runtime []), s)
      | Inr (m, w) \<Rightarrow> f (m, w, snd s))"

record manage_opts =
  mo_name :: string
  mo_nice :: int
  mo_set_nice :: bool
  mo_stop :: bool
  mo_snapshot :: bool
  mo_follow :: bool

text \<open>\<open>quote\<close> is the verb \<open>%q\<close>.\<close>

definition manage_run ::
  "'w cli \<Rightarrow> (string \<Rightarrow> string) \<Rightarrow> string \<Rightarrow> manage_opts \<Rightarrow> 'w \<times> event list \<Rightarrow> outcome option \<times> 'w \<times> event list" where
  "manage_run C quote spec opts = with_control C (\<lambda>(m, w, evs).
     (case cli_resolve C m w spec of
        Inl e \<Rightarrow> (Some (outcome_of exit_not_found []), w, evs)
      | Inr insts \<Rightarrow>
          let mode = default_mode spec;
              mode = (if mo_snapshot opts then ModeSnapshot else mode);
              mode = (if mo_follow opts then ModeFollow else mode);
              name = (if mo_name opts = [] then target_name spec else mo_name opts);
              m = m\<lparr>mg_state := fst (manage (ct_now (cl_controller C) w) name mode (selector_of spec) insts (mg_state m))\<rparr>;
              line = ''managed '' @ quote name @ '': '' @ show_int (int (length insts)) @ '' instance(s), mode='' @
                mode_name mode @ newline;
              (oc, s) = apply_set_ops C name \<lparr>so_nice = mo_nice opts, so_set_nice = mo_set_nice opts, so_stop = mo_stop opts,
                so_cont = False, so_freeze = False, so_thaw = False, so_force = False, so_dry_run = False\<rparr> (m, w, evs)
          in save_exit C (map_option (\<lambda>oc. oc\<lparr>oc_out := line @ oc_out oc\<rparr>) oc, s)))"

definition cmd_set :: "'w cli \<Rightarrow> string \<Rightarrow> set_ops \<Rightarrow> 'w \<times> event list \<Rightarrow> outcome option \<times> 'w \<times> event list" where
  "cmd_set C spec ops = with_control C (\<lambda>s.
     (case cli_ensure_target C spec s of
        (None, m, w, evs) \<Rightarrow> (Some (outcome_of exit_not_found []), w, evs)
      | (Some name, s) \<Rightarrow>
          let (oc, m, w, evs) = apply_set_ops C name ops s
          in if so_dry_run ops then (oc, w, evs) else save_exit C (oc, m, w, evs)))"

definition cmd_restore :: "'w cli \<Rightarrow> string \<Rightarrow> bool \<Rightarrow> bool \<Rightarrow> 'w \<times> event list \<Rightarrow> outcome option \<times> 'w \<times> event list" where
  "cmd_restore C spec force dry = with_control C (\<lambda>(m, w, evs).
     (case restore (cl_controller C) (target_name spec) force dry m w evs of
        (Inl e, m, w, evs) \<Rightarrow> (Some (outcome_of exit_not_found []), w, evs)
      | (Inr res, m, w, evs) \<Rightarrow>
          let oc = outcome_of (exit_for_result res) (print_result res)
          in if dry then (Some oc, w, evs) else save_exit C (Some oc, m, w, evs)))"

definition cmd_unmanage ::
  "'w cli \<Rightarrow> (string \<Rightarrow> string) \<Rightarrow> string \<Rightarrow> 'w \<times> event list \<Rightarrow> outcome option \<times> 'w \<times> event list" where
  "cmd_unmanage C quote spec = with_control C (\<lambda>(m, w, evs).
     (case unmanage (ct_now (cl_controller C) w) (target_name spec) (mg_state m) of
        Inl e \<Rightarrow> (Some (outcome_of exit_not_found []), w, evs)
      | Inr st \<Rightarrow>
          (case cl_save C w st of
             (w, Some e) \<Rightarrow> (Some (outcome_of exit_runtime []), w, evs)
           | (w, None) \<Rightarrow> (Some (outcome_of exit_ok (''unmanaged '' @ quote (target_name spec) @ newline)), w, evs))))"

definition destructive :: "signal \<Rightarrow> bool" where
  "destructive sig \<longleftrightarrow> sig = SigTerm \<or> sig = SigKill"

definition signal_arg :: "string \<Rightarrow> signal" where
  "signal_arg s = signal_of (to_upper (if has_prefix s ''SIG'' then drop 3 s else s))"

definition cmd_signal ::
  "'w cli \<Rightarrow> bool \<Rightarrow> string list \<Rightarrow> bool \<Rightarrow> bool \<Rightarrow> 'w \<times> event list \<Rightarrow> outcome option \<times> 'w \<times> event list" where
  "cmd_signal C tty positionals yes dry s =
     (case positionals of
        name # spec # _ \<Rightarrow>
          let sig = signal_arg name in
          if destructive sig \<and> \<not> yes \<and> \<not> dry \<and> \<not> tty then (Some (outcome_of exit_usage []), s)
          else with_control C (\<lambda>(m, w, evs).
            (case cli_resolve C m w spec of
               Inl e \<Rightarrow> (Some (outcome_of exit_not_found []), w, evs)
             | Inr insts \<Rightarrow>
                 let (res, w) = signal_instances (cl_controller C) (mg_safeguards m) insts sig dry w
                 in (Some (outcome_of (exit_for_result res) (print_result res)), w, evs))) s
      | _ \<Rightarrow> (Some (outcome_of exit_usage []), s))"

text \<open>The listing of \<open>managed\<close>: columns padded to a width.\<close>

definition pad_right :: "nat \<Rightarrow> string \<Rightarrow> string" where
  "pad_right n s = s @ replicate (n - length s) (CHR '' '')"

definition managed_line :: "string \<Rightarrow> string \<Rightarrow> string \<Rightarrow> string \<Rightarrow> string \<Rightarrow> string" where
  "managed_line name mode state bindings nice = pad_right 20 name @ '' '' @ pad_right 9 mode @ '' '' @
     pad_right 8 state @ '' '' @ pad_right 6 bindings @ '' '' @ nice @ newline"

definition managed_row :: "target \<Rightarrow> string" where
  "managed_row t = managed_line (t_name t) (mode_name (t_binding_mode t)) (if t_active t then ''ACTIVE'' else ''INACTIVE'')
     (show_int (int (length (t_bindings t)))) (case t_desired_nice t of Some n \<Rightarrow> show_int n | None \<Rightarrow> ''-'')"

definition cmd_managed :: "'w cli \<Rightarrow> 'w \<times> event list \<Rightarrow> outcome option \<times> 'w \<times> event list" where
  "cmd_managed C = with_control C (\<lambda>(m, w, evs).
     (if st_targets (mg_state m) = [] then (Some (outcome_of exit_ok (''no managed targets'' @ newline)), w, evs)
      else (Some (outcome_of exit_ok (managed_line ''TARGET'' ''MODE'' ''STATE'' ''P'' ''NICE'' @
        concat (map managed_row (st_targets (mg_state m))))), w, evs)))"

text \<open>The first argument that is not a flag, and the others.\<close>

fun extract_positional :: "string list \<Rightarrow> string \<times> string list" where
  "extract_positional [] = ([], [])"
| "extract_positional (a # args) =
     (if a = [] \<or> hd a \<noteq> CHR ''-'' then (a, args)
      else let (p, rest) = extract_positional args in (p, a # rest))"

end
