(* ===== verification/App_Control_Correct.thy ===== *)
theory App_Control_Correct
  imports App_Control
begin

text \<open>
  What the control commands promise: their exit codes, that none of them panics, what a preview
  leaves alone, what a command saves, and how their targets compare with those of the daemon.
\<close>

section \<open>Exit codes\<close>

text \<open>Every binding step and so every operation keeps the counts those of the results.\<close>

lemma binding_counts:
  "counts_ok (cx_result c) \<Longrightarrow> counts_ok (cx_result (snd (apply_nice_binding ct sg n dry b c)))"
  "counts_ok (cx_result c) \<Longrightarrow> counts_ok (cx_result (snd (apply_stop_binding ct sg st dry b c)))"
  "counts_ok (cx_result c) \<Longrightarrow> counts_ok (cx_result (snd (freeze_binding ct sg fr fo dry b c)))"
  "counts_ok (cx_result c) \<Longrightarrow> counts_ok (cx_result (snd (restore_nice_binding ct fo dry b c)))"
  "counts_ok (cx_result c) \<Longrightarrow> counts_ok (cx_result (snd (restore_stop_binding ct dry b c)))"
  "counts_ok (cx_result c) \<Longrightarrow> counts_ok (cx_result (snd (reconcile_drift ct n mode f b c)))"
  by (auto simp: binding_ops Let_def case_prod_beta split: option.splits sum.splits)

lemma restore_binding_counts:
  "counts_ok (cx_result c) \<Longrightarrow> counts_ok (cx_result (snd (restore_binding ct fo dry b c)))"
  by (simp add: restore_binding_def case_prod_beta binding_counts)

lemma reconcile_binding_counts:
  "counts_ok (cx_result c) \<Longrightarrow> counts_ok (cx_result (snd (reconcile_binding ct sg n mode b c)))"
  by (simp add: reconcile_binding_def binding_counts split: option.split)

lemma each_counts:
  assumes "counts_ok (cx_result c)" and "\<And>b c. counts_ok (cx_result c) \<Longrightarrow> counts_ok (cx_result (snd (f b c)))"
  shows "counts_ok (cx_result (snd (each_binding f bs c)))"
  using assms by (rule each_binding_inv)

lemma run_op_counts:
  "counts_ok (cx_result c) \<Longrightarrow> counts_ok (cx_result (snd (run_op ct sg op t c)))"
  by (cases op) (auto simp: target_ops Let_def case_prod_beta
      intro!: each_counts binding_counts restore_binding_counts reconcile_binding_counts)

text \<open>What the counts of a result say about it.\<close>

definition some_status :: "field_status list \<Rightarrow> apply_result \<Rightarrow> bool" where
  "some_status ss res \<longleftrightarrow> list_ex (\<lambda>r. br_status r \<in> set ss) (ar_results res)"

lemma counts_ok_pos: "counts_ok res \<Longrightarrow> ar_counts res s > 0 \<longleftrightarrow> some_status [s] res"
  by (auto simp: counts_ok_def some_status_def list_ex_iff count_list_0_iff neq0_conv [symmetric] simp del: neq0_conv)

lemma counts_ok_nonneg: "counts_ok res \<Longrightarrow> ar_counts res s \<ge> 0"
  by (simp add: counts_ok_def)

lemma some_status_Cons: "some_status (s # t # ss) res \<longleftrightarrow> some_status [s] res \<or> some_status (t # ss) res"
  by (auto simp: some_status_def list_ex_iff)

lemma exit_for_result_statuses:
  assumes "counts_ok res"
  shows "exit_for_result res =
    (let good = some_status [StApplied, StRestored, StUnchanged] res in
     if some_status [StDrifted, StStale] res then (if good then exit_partial else exit_conflict)
     else if some_status [StDenied] res then (if good then exit_partial else exit_permission)
     else if some_status [StFailed, StVanished] res then exit_partial
     else exit_ok)"
proof -
  let ?n = "ar_counts res"
  have "?n StApplied + ?n StRestored + ?n StUnchanged = 0 \<longleftrightarrow> \<not> some_status [StApplied, StRestored, StUnchanged] res"
    using counts_ok_nonneg [OF assms, of StApplied] counts_ok_nonneg [OF assms, of StRestored]
      counts_ok_nonneg [OF assms, of StUnchanged]
    by (auto simp: some_status_Cons counts_ok_pos [OF assms, symmetric])
  then show ?thesis
    by (auto simp: exit_for_result_def Let_def counts_ok_pos [OF assms] some_status_Cons)
      (simp_all add: some_status_def)
qed

text \<open>
  Exit codes. The exit code of an operation on a managed target tells what became of its
  instances: 0 exactly when none drifted, went stale, was denied, failed or vanished (those that are protected
  or have no cgroup do not count); 7 when some drifted or went stale and 4 when some were denied but none of the
  first kind, each only if nothing succeeded; 6 for any other mixture.
\<close>

theorem exit_code_spec:
  assumes "on_target ct (run_op ct sg op) name m w evs = (Inr res, s')"
  shows "let code = exit_for_result res; good = some_status [StApplied, StRestored, StUnchanged] res in
    (code = exit_ok \<longleftrightarrow> \<not> some_status [StDrifted, StStale, StDenied, StFailed, StVanished] res) \<and>
    (code = exit_conflict \<longleftrightarrow> some_status [StDrifted, StStale] res \<and> \<not> good) \<and>
    (code = exit_permission \<longleftrightarrow> \<not> some_status [StDrifted, StStale] res \<and> some_status [StDenied] res \<and> \<not> good) \<and>
    code \<in> {exit_ok, exit_permission, exit_partial, exit_conflict}"
proof -
  have "counts_ok res"
    using assms run_op_counts [of "start_ctx w evs" ct sg op]
    by (auto simp: on_target_def Let_def case_prod_beta start_ctx_def split: option.splits)
  from exit_for_result_statuses [OF this] show ?thesis
    by (auto simp: Let_def some_status_Cons exit_codes)
qed

section \<open>No command panics\<close>

lemma on_target_finds:
  assumes "\<And>t c. same_frame t (fst (f t c))" and "find_target (st_targets (mg_state m)) n = Some i"
  shows "find_target (st_targets (mg_state (fst (snd (on_target ct f name m w evs))))) n = Some i"
proof (cases "find_target (st_targets (mg_state m)) name")
  case (Some j)
  have upd: "find_target (ts[j := t]) n = find_target ts n" if "j < length ts" "same_frame (ts ! j) t" for ts j and t :: target
    using that by (induction ts arbitrary: j) (auto simp: nth_Cons same_frame_def split: nat.splits)
  show ?thesis
    using Some assms(2) upd [OF find_target_bound [OF Some] assms(1)]
    by (simp add: on_target_def Let_def case_prod_beta update_target_def)
qed (use assms in \<open>simp add: on_target_def\<close>)

lemma set_ops_find:
  assumes "find_target (st_targets (mg_state m)) n = Some i"
  shows "find_target (st_targets (mg_state (fst (snd (set_nice ct name k dry m w evs))))) n = Some i"
    "find_target (st_targets (mg_state (fst (snd (set_stop ct name st dry m w evs))))) n = Some i"
    "find_target (st_targets (mg_state (fst (snd (set_freeze ct name fr fo dry m w evs))))) n = Some i"
  using run_op_frame [of _ ct "mg_safeguards m" "OpNice k dry"] run_op_frame [of _ ct "mg_safeguards m" "OpStop st dry"]
    run_op_frame [of _ ct "mg_safeguards m" "OpFreeze fr fo dry"]
  by (simp_all add: set_nice_def set_stop_def set_freeze_def on_target_finds [OF _ assms])

lemma on_target_found: "find_target (st_targets (mg_state m)) name = Some i \<Longrightarrow> \<exists>res. fst (on_target ct f name m w evs) = Inr res"
  by (simp add: on_target_def Let_def case_prod_beta)

lemma set_ops_found:
  assumes "find_target (st_targets (mg_state m)) name = Some i"
  shows "\<exists>res. fst (set_nice ct name k dry m w evs) = Inr res" "\<exists>res. fst (set_stop ct name st dry m w evs) = Inr res"
    "\<exists>res. fst (set_freeze ct name fr fo dry m w evs) = Inr res"
  by (simp_all add: set_nice_def set_stop_def set_freeze_def on_target_found [OF assms])

text \<open>A step on a target that is there: no panic, and the target stays.\<close>

definition on_track :: "string \<Rightarrow> outcome option \<times> 'w cstate \<Rightarrow> bool" where
  "on_track name r \<longleftrightarrow> fst r \<noteq> None \<and> find_target (st_targets (mg_state (fst (snd r)))) name \<noteq> None"

lemma apply_step_track:
  assumes "on_track name r" and "\<And>m w evs i. find_target (st_targets (mg_state m)) name = Some i \<Longrightarrow>
    (\<exists>res. fst (f m w evs) = Inr res) \<and> find_target (st_targets (mg_state (fst (snd (f m w evs))))) name = Some i"
  shows "on_track name (apply_step on f r)"
proof -
  obtain oc m w evs i where r: "r = (Some oc, m, w, evs)" "find_target (st_targets (mg_state m)) name = Some i"
    using assms(1) by (cases r) (auto simp: on_track_def)
  obtain res m' w' evs' where f: "f m w evs = (Inr res, m', w', evs')"
    using assms(2) [OF r(2)] by (metis prod.collapse)
  show ?thesis
    using assms(2) [OF r(2), of w evs] r by (auto simp: on_track_def apply_step_def f)
qed

lemma apply_set_ops_track:
  assumes "find_target (st_targets (mg_state (fst s))) name \<noteq> None"
  shows "on_track name (apply_set_ops C name ops s)"
proof -
  let ?ct = "cl_controller C"
  obtain m w evs i where s: "s = (m, w, evs)" "find_target (st_targets (mg_state m)) name = Some i"
    using assms by (cases s) auto
  obtain res m1 w1 evs1 where nice: "set_nice ?ct name (so_nice ops) (so_dry_run ops) m w evs = (Inr res, m1, w1, evs1)"
    using set_ops_found(1) [OF s(2)] by (metis prod.collapse)
  have stays: "find_target (st_targets (mg_state m1)) name = Some i"
    using set_ops_find(1) [OF s(2), of ?ct name "so_nice ops" "so_dry_run ops" w evs] nice by simp
  have rest: "on_track name (apply_step a (set_freeze ?ct name fr fo dry) (apply_step b (set_stop ?ct name st dry) r))"
    if "on_track name r" for r a b fr fo dry st
    by (intro apply_step_track that) (auto simp: set_ops_found set_ops_find)
  show ?thesis
    using s nice stays by (auto simp: apply_set_ops_def Let_def intro!: rest) (simp_all add: on_track_def)
qed

lemma find_target_hit: "find_target ts name = Some i \<Longrightarrow> t_id (ts ! i) = name \<or> t_name (ts ! i) = name"
  by (induction ts arbitrary: i) (auto split: if_splits)

lemma manage_finds: "\<exists>i. find_target (st_targets (fst (manage now name mode sel insts s))) name = Some i"
proof (cases "find_target (st_targets s) name")
  case None
  have "t_name (bind_target now insts ((new_target name mode sel)\<lparr>t_snapshot_ids := x\<rparr>)) = name" for x
    by (simp add: bind_target_def Let_def new_target_def)
  then have "find_target (st_targets (fst (manage now name mode sel insts s))) name \<noteq> None"
    unfolding manage_fresh [OF None] by (auto simp: find_target_None)
  then show ?thesis by simp
next
  case (Some i)
  let ?t = "bind_target now insts (let t = (st_targets s ! i)\<lparr>t_binding_mode := mode\<rparr> in
      if mode = ModeSnapshot then t\<lparr>t_snapshot_ids := map in_id insts\<rparr> else t)"
  have i: "i < length (st_targets s)" by (rule find_target_bound [OF Some])
  have hit: "t_id (st_targets s ! i) = name \<or> t_name (st_targets s ! i) = name"
    using Some by (rule find_target_hit)
  have "st_targets (fst (manage now name mode sel insts s)) = (st_targets s)[i := ?t]"
    using Some i by (simp add: manage_def Let_def bind_instances_def update_target_def)
  moreover have "t_id ?t = t_id (st_targets s ! i)" "t_name ?t = t_name (st_targets s ! i)"
    by (simp_all add: bind_target_def Let_def)
  ultimately have "find_target (st_targets (fst (manage now name mode sel insts s))) name \<noteq> None"
    using i hit set_update_memI [OF i, of ?t] by (auto simp: find_target_None)
  then show ?thesis by simp
qed

lemma ensure_finds:
  "cli_ensure_target C spec s = (Some name, s') \<Longrightarrow> find_target (st_targets (mg_state (fst s'))) name \<noteq> None"
  by (auto simp: cli_ensure_target_def Let_def manage_finds split: if_splits sum.splits prod.splits)

lemma save_exit_panic:
  "fst (save_exit C r) = None \<longleftrightarrow> fst r = None" "(\<exists>oc. fst (save_exit C r) = Some oc) \<longleftrightarrow> (\<exists>oc. fst r = Some oc)"
  by (auto simp: save_exit_def split: prod.splits option.splits)

text \<open>
  C21: no control command panics. \<open>set\<close> and \<open>manage\<close> drop the error of a stop or freeze and print
  its result, which an unknown target would leave nil; the target they work on is always there,
  whatever the state that was loaded, the controller and the flags, and so each command ends with an exit code.
\<close>

theorem commands_never_panic:
  "fst (cmd_set C spec ops s) \<noteq> None \<and> fst (manage_run C quote spec opts s) \<noteq> None \<and>
   fst (cmd_restore C spec force dry s) \<noteq> None \<and> fst (cmd_unmanage C quote spec s) \<noteq> None \<and>
   fst (cmd_signal C tty args yes dry s) \<noteq> None \<and> fst (cmd_managed C s) \<noteq> None"
proof (intro conjI)
  show "fst (cmd_set C spec ops s) \<noteq> None"
  proof (cases "cl_open C (fst s)")
    case (Inr mw)
    obtain r s' where r: "cli_ensure_target C spec (fst mw, snd mw, snd s) = (r, s')" by (metis surj_pair)
    show ?thesis
    proof (cases r)
      case (Some name)
      then have "fst (apply_set_ops C name ops s') \<noteq> None"
        using apply_set_ops_track [of s' name C ops] ensure_finds [of C spec _ name s'] r by (simp add: on_track_def)
      then show ?thesis
        using Inr r Some
        by (simp add: cmd_set_def with_control_def save_exit_panic Let_def case_prod_beta)
    qed (use Inr r in \<open>simp add: cmd_set_def with_control_def case_prod_beta\<close>)
  qed (simp add: cmd_set_def with_control_def)
  show "fst (manage_run C quote spec opts s) \<noteq> None"
  proof -
    have "fst (apply_set_ops C name ops' (m\<lparr>mg_state := fst (manage now name mode sel insts (mg_state m))\<rparr>, w, evs)) \<noteq> None"
      for m now name mode sel insts w evs ops'
      using apply_set_ops_track [of "(m\<lparr>mg_state := fst (manage now name mode sel insts (mg_state m))\<rparr>, w, evs)" name C ops']
        manage_finds [of now name mode sel insts "mg_state m"] by (simp add: on_track_def)
    then show ?thesis
      by (simp add: manage_run_def with_control_def save_exit_panic Let_def case_prod_beta split: sum.split)
  qed
  show "fst (cmd_restore C spec force dry s) \<noteq> None"
    by (auto simp: cmd_restore_def with_control_def save_exit_panic Let_def split: sum.split prod.split)
  show "fst (cmd_unmanage C quote spec s) \<noteq> None" "fst (cmd_managed C s) \<noteq> None"
    by (auto simp: cmd_unmanage_def cmd_managed_def with_control_def Let_def split: sum.split prod.split option.split)
  show "fst (cmd_signal C tty args yes dry s) \<noteq> None"
    by (auto simp: cmd_signal_def with_control_def Let_def split: sum.split prod.split list.split)
qed

section \<open>Previews and saving\<close>

text \<open>What opening leaves: the world with the state directory as loading left it.\<close>

definition opened :: "'w cli \<Rightarrow> 'w \<times> event list \<Rightarrow> 'w \<times> event list" where
  "opened C s = (case cl_open C (fst s) of Inl _ \<Rightarrow> s | Inr (m, w) \<Rightarrow> (w, snd s))"

lemma apply_step_dry:
  assumes "\<And>m w evs. snd (snd (f m w evs)) = (w, evs)"
  shows "snd (snd (apply_step on f r)) = snd (snd r)"
proof -
  obtain oc m w evs where r: "r = (oc, m, w, evs)" by (cases r)
  show ?thesis using assms [of m w evs]
    by (auto simp: apply_step_def r split: option.split sum.split prod.split)
qed

lemma apply_set_ops_dry: "so_dry_run ops \<Longrightarrow> snd (snd (apply_set_ops C name ops s)) = snd s"
proof -
  assume dry: "so_dry_run ops"
  obtain m w evs where s: "s = (m, w, evs)" by (cases s)
  obtain r m' where nice: "set_nice (cl_controller C) name (so_nice ops) True m w evs = (r, m', w, evs)"
    using set_ops_dry(1) [of "cl_controller C" name "so_nice ops" m w evs] by (metis prod.collapse)
  have rest: "snd (snd (apply_step a (set_freeze ct name fr fo True) (apply_step b (set_stop ct name st True) r))) = snd (snd r)"
    for a b ct fr fo st r
    by (simp add: apply_step_dry set_ops_dry)
  show ?thesis
    by (cases r) (simp_all add: apply_set_ops_def s dry Let_def nice rest)
qed

lemma ensure_target_world: "snd (snd (cli_ensure_target C spec s)) = snd s"
  by (cases s) (simp add: cli_ensure_target_def Let_def split: sum.split)

text \<open>
  C13: previews. A \<open>set\<close>, \<open>restore\<close> or \<open>signal\<close> with \<open>--dry-run\<close> leaves the processes,
  the audit log and the state directory as opening the control plane left them, whatever else it is asked to do:
  in particular a target it creates to preview on is never saved.
\<close>

theorem previews_are_pure:
  "snd (cmd_set C spec (ops\<lparr>so_dry_run := True\<rparr>) s) = opened C s \<and>
   snd (cmd_restore C spec force True s) = opened C s \<and>
   snd (cmd_signal C tty args yes True s) \<in> {s, opened C s} \<and> snd (cmd_managed C s) = opened C s"
proof (intro conjI)
  have ens: "cli_ensure_target C spec (m, w, evs) = (r, s') \<Longrightarrow> snd s' = (w, evs)" for m w evs r s'
    using ensure_target_world [of C spec "(m, w, evs)"] by simp
  have ops: "apply_set_ops C name (ops\<lparr>so_dry_run := True\<rparr>) s' = (oc, m, w) \<Longrightarrow> w = snd s'" for name s' oc m w
    using apply_set_ops_dry [of "ops\<lparr>so_dry_run := True\<rparr>" C name s'] by simp
  show "snd (cmd_set C spec (ops\<lparr>so_dry_run := True\<rparr>) s) = opened C s"
    by (auto simp: cmd_set_def with_control_def opened_def Let_def split: sum.split prod.split option.split dest!: ens ops)
  have res: "restore ct name force True m w evs = (r, m', w', evs') \<Longrightarrow> w' = w \<and> evs' = evs" for ct name m w evs r m' w' evs'
    using set_ops_dry(4) [of ct name force m w evs] by simp
  show "snd (cmd_restore C spec force True s) = opened C s"
    by (auto simp: cmd_restore_def with_control_def opened_def Let_def split: sum.split prod.split dest!: res)
  show "snd (cmd_signal C tty args yes True s) \<in> {s, opened C s}"
    by (auto simp: cmd_signal_def with_control_def opened_def Let_def signal_instances_def signal_dry start_ctx_def
        split: sum.split prod.split list.split)
  show "snd (cmd_managed C s) = opened C s"
    by (auto simp: cmd_managed_def with_control_def opened_def split: sum.split prod.split)
qed

section \<open>Targets on the command line and at the daemon\<close>

text \<open>What instances a resolution names; the two differ in the display names they carry.\<close>

fun named_instances :: "('e, instance_ref list) result \<Rightarrow> (process_id \<times> int) list option" where
  "named_instances (Inl e) = None"
| "named_instances (Inr insts) = Some (map (\<lambda>i. (in_id i, in_pid i)) insts)"

lemma named_instances_simps [simp]:
  "named_instances (map_error f r) = named_instances r"
  "named_instances (Inr (map cli_instance_of ps)) = named_instances (Inr (map instance_of ps))"
  "named_instances (Inr (map (\<lambda>b. \<lparr>in_id = b_id b, in_pid = b_pid b, in_name = b_name b\<rparr>) bs)) =
     named_instances (Inr (map (\<lambda>b. \<lparr>in_id = b_id b, in_pid = b_pid b, in_name = []\<rparr>) bs))"
  by (cases r) (simp_all add: cli_instance_of_def instance_of_def)

lemma for_pid_agree:
  "named_instances (case atoi s of (n, None) \<Rightarrow> cli_for_pid ct w n | (_, Some _) \<Rightarrow> Inl e) = named_instances (instances_for_pid ct w s)"
  by (cases "atoi s") (auto simp: cli_for_pid_def instances_for_pid_def split: option.split)

text \<open>
  C22: one target language. On the same processes and the same managed targets a command and the
  daemon resolve a target to the same instances, and fail on the same ones, for every
  target that has something after its colon.
\<close>

theorem resolution_agrees:
  assumes "cli_snapshot C w = Inr (de_latest d)" and "mg_state m = mg_state (de_mgr d)"
    and "pt_regexp P = cl_regexp C" and "pt_controller P = cl_controller C"
    and "\<And>k. str_cut (CHR '':'') spec \<noteq> Some (k, [])"
  shows "named_instances (cli_resolve C m w spec) = named_instances (resolve_instances P d w spec)"
proof (cases "str_cut (CHR '':'') spec")
  case None
  then show ?thesis
    by (simp add: cli_resolve_def resolve_instances_def split_target_def for_pid_agree assms)
next
  case (Some ka)
  then obtain k a where ka: "ka = (k, a)" "a \<noteq> []" using assms(5) by (cases ka) auto
  consider "k = ''pid''" | "k = ''managed''" | "k = ''selector''" | "k = ''group''"
    | "k \<notin> {''pid'', ''managed'', ''selector'', ''group''}" by blast
  then show ?thesis
    using Some ka assms
    by cases (auto simp: cli_resolve_def resolve_instances_def split_target_def for_pid_agree instances_of_def
        cli_by_selector_def instances_by_selector_def cli_by_group_def instances_by_group_def snapshot_input_def
        cli_instance_of_def instance_of_def split: option.split sum.split)
qed

text \<open>
  The snapshot of a command is not enriched: no process in it has a user, a unit, an application, a container or a pod, so a
  group of one of them is empty on the command line, where the daemon finds it.
\<close>

lemma cli_snapshot_plain:
  assumes "cli_snapshot C w = Inr ps" and "p \<in> set ps"
  shows "p_user p = [] \<and> p_systemd_unit p = [] \<and> p_app_id p = [] \<and> p_container_id p = [] \<and> p_pod_uid p = []"
  using assms by (auto simp: cli_snapshot_def sample_def build_process_def normalize_stat_def zero_process_def Let_def
      split: sum.splits)

lemma group_of_user_is_empty:
  assumes "attr \<in> {''user'', ''systemd-unit'', ''app'', ''container'', ''pod''}" and "cli_snapshot C w = Inr ps" and "v \<noteq> []"
  shows "cli_by_group C w (attr @ ''='' @ v) = Inr []"
proof -
  have fields: "entity_num_fields attr = None"
    "entity_str_fields attr \<in> {Some p_user, Some p_systemd_unit, Some p_app_id, Some p_container_id, Some p_pod_uid}"
    using assms(1) by (auto simp: entity_num_fields_def entity_str_fields_def)
  have "entity_field p attr = VStr []" if "p \<in> set ps" for p
    using cli_snapshot_plain [OF assms(2) that] fields unfolding entity_field_def by auto
  then have "\<not> group_matches attr v p" if "p \<in> set ps" for p
    using that assms(3) by (simp add: group_matches_def)
  moreover have "CHR ''='' \<notin> set attr" using assms(1) by auto
  ultimately show ?thesis
    by (simp add: cli_by_group_def str_cut_append assms(2) filter_empty_conv)
qed

end
