(* ===== verification/App_Examples.thy ===== *)
theory App_Examples
  imports App_Control_Correct
begin

text \<open>
  The control commands on the fake controller: one target with two processes, and a process source with one process.
  The properties of the commands are applied here.
\<close>

definition ex_cli :: "(fake_controller \<times> fake_clock) cli" where
  "ex_cli = \<lparr>cl_open = (\<lambda>w. Inr (ex_manager, w)), cl_save = (\<lambda>w st. (w, None)), cl_controller = fake,
     cl_regexp = (\<lambda>_. None), cl_reading = (\<lambda>_. sample_reading 0 [sample_stat 5 10])\<rparr>"

section \<open>Exit codes\<close>

definition ex_nice_run where
  "ex_nice_run = on_target fake (run_op fake ex_sg (OpNice 5 False)) ''jobs'' ex_manager ex_world []"

lemma ex_nice_statuses: "case fst ex_nice_run of Inl e \<Rightarrow> False | Inr res \<Rightarrow> map br_status (ar_results res) = [StApplied, StApplied]"
  by code_simp

theorem exit_code_spec_witness: "\<exists>res. fst ex_nice_run = Inr res \<and> exit_for_result res = exit_ok"
proof -
  obtain res where res: "fst ex_nice_run = Inr res" "map br_status (ar_results res) = [StApplied, StApplied]"
    using ex_nice_statuses by (cases "fst ex_nice_run") auto
  then have run: "on_target fake (run_op fake ex_sg (OpNice 5 False)) ''jobs'' ex_manager ex_world [] = (Inr res, snd ex_nice_run)"
    by (cases ex_nice_run) (simp add: ex_nice_run_def)
  have "list_all (\<lambda>r. br_status r = StApplied) (ar_results res)"
    using res(2) by (cases "ar_results res"; cases "tl (ar_results res)") auto
  then have "\<not> some_status [StDrifted, StStale, StDenied, StFailed, StVanished] res"
    by (auto simp: some_status_def list_ex_iff list_all_iff)
  then show ?thesis using exit_code_spec [OF run] res(1) by (simp add: Let_def)
qed

section \<open>Targets\<close>

definition ex_seen :: dengine where
  "ex_seen = ex_daemon\<lparr>de_latest := (case cli_snapshot ex_cli ex_world of Inl _ \<Rightarrow> [] | Inr ps \<Rightarrow> ps)\<rparr>"

lemma ex_seen_all: "cli_snapshot ex_cli ex_world = Inr (de_latest ex_seen)" "mg_state ex_manager = mg_state (de_mgr ex_seen)"
  by (simp_all add: ex_seen_def ex_cli_def cli_snapshot_def sample_def sample_reading_def Let_def ex_daemon_def new_dengine_def)

lemma ex_managed: "named_instances (resolve_instances ex_ports ex_seen ex_world ''managed:jobs'') =
    Some [(ex_id 100, 100), (ex_id 101, 101)]"
  by code_simp

theorem resolution_agrees_witness:
  "named_instances (cli_resolve ex_cli ex_manager ex_world ''managed:jobs'') = Some [(ex_id 100, 100), (ex_id 101, 101)]"
proof -
  have "named_instances (cli_resolve ex_cli ex_manager ex_world ''managed:jobs'') =
      named_instances (resolve_instances ex_ports ex_seen ex_world ''managed:jobs'')"
    by (rule resolution_agrees [OF ex_seen_all]) (simp_all add: ex_ports_def ex_cli_def)
  then show ?thesis using ex_managed by simp
qed

end
