(* ===== verification/Go_Format.thy ===== *)
theory Go_Format
  imports Model_Process
begin

text \<open>
  What the renderers use of \<open>fmt\<close>, \<open>strconv\<close>, \<open>math\<close> and \<open>strings\<close>: floats with a fixed number of decimals, the
  shortest decimal that reads back as the same float, in plain and in exponent form, and the runes of a UTF-8 text. The
  sign of a zero is not modelled, and a byte sequence that is no UTF-8 is grouped, not replaced.
\<close>

section \<open>Runes\<close>

text \<open>A rune is its first byte and the continuation bytes after it.\<close>

definition continuation :: "char \<Rightarrow> bool" where
  "continuation c \<longleftrightarrow> (of_char c :: nat) div 64 = 2"

fun runes :: "string \<Rightarrow> string list" where
  "runes [] = []"
| "runes (c # cs) =
     (case runes cs of
        [] \<Rightarrow> [[c]]
      | r # rs \<Rightarrow> if continuation (hd r) then (c # r) # rs else [c] # r # rs)"

lemma concat_runes [simp]: "concat (runes s) = s"
  by (induction s) (auto split: list.split)

lemma runes_not_empty [simp]: "[] \<notin> set (runes s)"
  by (induction s) (auto split: list.splits if_splits)

lemma runes_eq_Nil [simp]: "runes s = [] \<longleftrightarrow> s = []"
  by (cases s) (auto split: list.split)

definition ascii :: "string \<Rightarrow> bool" where
  "ascii s \<longleftrightarrow> list_all (\<lambda>c. (of_char c :: nat) < 128) s"

lemma runes_ascii: "ascii s \<Longrightarrow> runes s = map (\<lambda>c. [c]) s"
  by (induction s) (auto simp: ascii_def continuation_def split: list.split)

lemma length_runes: "length (runes s) \<le> length s"
proof (induction s)
  case (Cons c cs)
  then show ?case by (auto split: list.split)
qed simp

section \<open>Rounding\<close>

text \<open>\<open>math.Round\<close>: to the nearest integer, a half away from zero.\<close>

fun f_round :: "f64 \<Rightarrow> f64" where
  "f_round (Fin x) = Fin (of_int (if x < 0 then - \<lfloor>1 / 2 - x\<rfloor> else \<lfloor>x + 1 / 2\<rfloor>))"
| "f_round v = v"

section \<open>A fixed number of decimals\<close>

definition zeros :: "nat \<Rightarrow> string" where
  "zeros n = replicate n (CHR ''0'')"

text \<open>The digits of \<open>m / 10 ^ n\<close>.\<close>

definition show_decimal :: "nat \<Rightarrow> nat \<Rightarrow> string" where
  "show_decimal m n =
     (if n = 0 then show_nat m
      else let frac = show_nat (m mod 10 ^ n)
           in show_nat (m div 10 ^ n) @ ''.'' @ zeros (n - length frac) @ frac)"

fun format_special :: "f64 \<Rightarrow> string" where
  "format_special NaN = ''NaN''"
| "format_special (Inf s) = (if s then ''-Inf'' else ''+Inf'')"
| "format_special (Fin x) = []"

fun format_fixed :: "nat \<Rightarrow> f64 \<Rightarrow> string" where
  "format_fixed n (Fin x) =
     (if x < 0 then ''-'' else []) @ show_decimal (nat (round_even (\<bar>x\<bar> * 10 ^ n))) n"
| "format_fixed n v = format_special v"

section \<open>The shortest decimal\<close>

text \<open>The decimal exponent of a positive number: \<open>10 ^ e \<le> x < 10 ^ (e + 1)\<close>.\<close>

definition dec_exponent :: "rat \<Rightarrow> int" where
  "dec_exponent x =
     (if x \<ge> 1 then int (length (show_nat (nat \<lfloor>x\<rfloor>))) - 1
      else - int (length (show_nat (nat (\<lceil>1 / x\<rceil> - 1)))))"

text \<open>The multiple of \<open>10 ^ k\<close> nearest to \<open>x\<close> that reads back as \<open>x\<close>, of the two around it.\<close>

definition reads_back :: "rat \<Rightarrow> int \<Rightarrow> int \<Rightarrow> bool" where
  "reads_back x k m \<longleftrightarrow> rnd (of_int m * 10 powi k) = Fin x"

definition nearest_digits :: "rat \<Rightarrow> int \<Rightarrow> nat option" where
  "nearest_digits x k =
     (let q = x / 10 powi k; near = round_even q; far = (if of_int near \<le> q then near + 1 else near - 1) in
      if reads_back x k near then Some (nat near) else if reads_back x k far then Some (nat far) else None)"

text \<open>With more and more digits; seventeen are always enough.\<close>

fun shortest_from :: "rat \<Rightarrow> int \<Rightarrow> nat \<Rightarrow> nat \<times> int" where
  "shortest_from x k 0 = (nat (round_even (x / 10 powi k)), k)"
| "shortest_from x k (Suc n) =
     (case nearest_digits x k of Some m \<Rightarrow> (m, k) | None \<Rightarrow> shortest_from x (k - 1) n)"

definition shortest :: "rat \<Rightarrow> nat \<times> int" where
  "shortest x = (if x = 0 then (0, 0) else shortest_from x (dec_exponent x) 16)"

text \<open>\<open>strconv.FormatFloat(v, 'f', -1, 64)\<close>.\<close>

definition plain_digits :: "nat \<times> int \<Rightarrow> string" where
  "plain_digits mk = (let (m, k) = mk in if k \<ge> 0 then show_nat m @ (if m = 0 then [] else zeros (nat k)) else show_decimal m (nat (- k)))"

fun format_plain :: "f64 \<Rightarrow> string" where
  "format_plain (Fin x) = (if x < 0 then ''-'' else []) @ plain_digits (shortest \<bar>x\<bar>)"
| "format_plain v = format_special v"

text \<open>The verb \<open>%g\<close>: in exponent form below \<open>1e-4\<close> and from \<open>1e+06\<close> on.\<close>

definition exponent_digits :: "nat \<times> int \<Rightarrow> string" where
  "exponent_digits mk =
     (let (m, k) = mk; ds = show_nat m; e = k + int (length ds) - 1; es = show_nat (nat \<bar>e\<bar>) in
      [hd ds] @ (if tl ds = [] then [] else ''.'' @ tl ds) @ ''e'' @ (if e < 0 then ''-'' else ''+'') @
      zeros (2 - length es) @ es)"

fun format_general :: "f64 \<Rightarrow> string" where
  "format_general (Fin x) =
     (let (m, k) = shortest \<bar>x\<bar>; e = k + int (length (show_nat m)) - 1 in
      (if x < 0 then ''-'' else []) @
      (if x \<noteq> 0 \<and> (e < - 4 \<or> e \<ge> 6) then exponent_digits (m, k) else plain_digits (m, k)))"
| "format_general v = format_special v"

section \<open>Checks\<close>

lemma show_nat_small [simp]: "n < 10 \<Longrightarrow> show_nat n = [digit_char n]"
  by (simp add: show_nat.simps)

lemma format_examples:
  "format_fixed 1 (Fin (19 / 4)) = ''4.8''" "format_fixed 1 (Fin (1 / 4)) = ''0.2''" "format_fixed 2 (Fin (- 7 / 2)) = ''-3.50''"
  by code_simp+

lemma shortest_examples:
  "shortest 80 = (8, 1)" "plain_digits (8, 1) = ''80''" "exponent_digits (15, 5) = ''1.5e+06''"
  by code_simp+

end
