(* ===== verification/Render_Format.thy ===== *)
theory Render_Format
  imports Go_Format Metrics_Registry Query_Group
begin

text \<open>
  Metric values as text, \<open>internal/render/format.go\<close>, and the columns of a view,
  \<open>internal/render/column.go\<close>. \<open>None\<close> is a panic: the scaling of a value that is no number indexes a list with -1.
\<close>

section \<open>Numbers for people (\<open>format.go\<close>)\<close>

definition trim_num :: "f64 \<Rightarrow> string" where
  "trim_num v = (if f_lt v (Fin 10) then format_fixed 1 v else format_fixed 0 v)"

text \<open>The loop over the units: \<open>unit\<close> is the step, \<open>sfx\<close> the name reached so far.\<close>

fun scale_units :: "f64 \<Rightarrow> f64 \<Rightarrow> string option \<Rightarrow> string list \<Rightarrow> f64 \<times> string option" where
  "scale_units unit v sfx [] = (v, sfx)"
| "scale_units unit v sfx (s # ss) = (if f_le unit v then scale_units unit (f_div v unit) (Some s) ss else (v, sfx))"

definition scaled :: "f64 \<Rightarrow> f64 \<Rightarrow> string list \<Rightarrow> string option" where
  "scaled unit v ss =
     (case scale_units unit v None ss of (v, None) \<Rightarrow> None | (v, Some s) \<Rightarrow> Some (trim_num v @ s))"

definition human_bytes :: "f64 \<Rightarrow> string option" where
  "human_bytes b =
     (if f_lt b (Fin 1024) then Some (show_int (f_trunc b))
      else scaled (Fin 1024) b [''K'', ''M'', ''G'', ''T'', ''P''])"

definition human_count :: "f64 \<Rightarrow> string option" where
  "human_count c =
     (if f_lt c (Fin 1000) then Some (show_int (f_trunc (f_round c)))
      else scaled (Fin 1000) c [''K'', ''M'', ''G'', ''T''])"

text \<open>From the largest unit that is not zero to the last one that is not, zeros between them kept.\<close>

definition duration_parts :: "int \<Rightarrow> (int \<times> string) list" where
  "duration_parts s =
     [(s div 86400, ''d''), (s div 3600 mod 24, ''h''), (s div 60 mod 60, ''m''), (s mod 60, ''s'')]"

definition trim_zero_parts :: "(int \<times> string) list \<Rightarrow> (int \<times> string) list" where
  "trim_zero_parts ps =
     rev (dropWhile (\<lambda>(v, u). v = 0) (rev (dropWhile (\<lambda>(v, u). v = 0) ps)))"

definition human_duration :: "f64 \<Rightarrow> string" where
  "human_duration sec =
     (let s = f_trunc sec in
      if s \<le> 0 then ''0s'' else concat (map (\<lambda>(v, u). show_int v @ u) (trim_zero_parts (duration_parts s))))"

definition placeholder :: "availability \<Rightarrow> string" where
  "placeholder a = (if a = PermissionDenied \<or> a = ReadError then ''?'' else ''-'')"

definition enum_text :: "descriptor \<Rightarrow> f64 \<Rightarrow> string option" where
  "enum_text desc code = (if d_unit desc \<noteq> UnitEnum then None else enum_label (d_id desc) code)"

definition format_unit :: "metric_unit \<Rightarrow> f64 \<Rightarrow> string option" where
  "format_unit u v =
     (if u \<in> {UnitBytes, UnitBytesPerSec} then human_bytes v
      else if u \<in> {UnitPercentOneCPU, UnitPercentHost, UnitPercent, UnitCelsius, UnitWattHours} then Some (format_fixed 1 v)
      else if u \<in> {UnitRatio, UnitWatts} then Some (format_fixed 2 v)
      else if u = UnitMilliAmpHours then Some (show_int (f_trunc (f_round v)))
      else if u \<in> {UnitPerSec, UnitCount} then human_count v
      else if u = UnitDuration then Some (human_duration v)
      else if u = UnitInteger then Some (show_int (f_trunc (f_round v)))
      else Some (format_general v))"

definition format_metric :: "descriptor \<Rightarrow> metric_value \<Rightarrow> string option" where
  "format_metric desc v =
     (if rd_quality v = Mixed then Some ''mixed''
      else if \<not> present v then Some (placeholder (rd_avail v))
      else (case enum_text desc (rd_value v) of
          Some label \<Rightarrow> Some label
        | None \<Rightarrow> format_unit (d_unit desc) (rd_value v)))"

definition format_unit_raw :: "metric_unit \<Rightarrow> f64 \<Rightarrow> string" where
  "format_unit_raw u v =
     (if u \<in> {UnitBytes, UnitBytesPerSec, UnitCount, UnitPerSec, UnitInteger, UnitMilliAmpHours}
        then show_int (f_trunc (f_round v))
      else if u \<in> {UnitPercentOneCPU, UnitPercentHost, UnitPercent, UnitCelsius, UnitWattHours} then format_fixed 1 v
      else if u \<in> {UnitRatio, UnitWatts} then format_fixed 2 v
      else if u = UnitDuration then show_int (f_trunc v)
      else format_plain v)"

definition format_metric_raw :: "descriptor \<Rightarrow> metric_value \<Rightarrow> string" where
  "format_metric_raw desc v =
     (if rd_quality v = Mixed then ''mixed''
      else if \<not> present v then placeholder (rd_avail v)
      else (case enum_text desc (rd_value v) of
          Some label \<Rightarrow> label
        | None \<Rightarrow> format_unit_raw (d_unit desc) (rd_value v)))"

text \<open>The ellipsis and other signs outside ASCII, in UTF-8.\<close>

definition ellipsis :: string where
  "ellipsis = [CHR 0xE2, CHR 0x80, CHR 0xA6]"

definition truncate_cell :: "string \<Rightarrow> int \<Rightarrow> string" where
  "truncate_cell s w =
     (if w \<le> 0 then s
      else if int (length (runes s)) \<le> w then s
      else if w = 1 then ellipsis
      else concat (take (nat (w - 1)) (runes s)) @ ellipsis)"

section \<open>Columns (\<open>column.go\<close>)\<close>

record column =
  co_id :: string
  co_header :: string
  co_right :: bool
  co_cell :: "row_data \<Rightarrow> string option"
  co_machine :: "row_data \<Rightarrow> string option"
  co_target :: bool
  co_sortable :: bool
  co_filterable :: bool
  co_groupable :: bool
  co_desc :: string

definition of_process :: "(process \<Rightarrow> string) \<Rightarrow> row_data \<Rightarrow> string option" where
  "of_process f r = Some (case r_process r of Some p \<Rightarrow> f p | None \<Rightarrow> [])"

definition cell_pid :: "row_data \<Rightarrow> string option" where
  "cell_pid r = Some (case r_process r of
       Some p \<Rightarrow> show_int (p_pid p)
     | None \<Rightarrow> (case r_thread r of Some t \<Rightarrow> show_int (id_pid (tid_process (th_id t))) | None \<Rightarrow> []))"

definition cell_tid :: "row_data \<Rightarrow> string option" where
  "cell_tid r = Some (case r_thread r of Some t \<Rightarrow> show_int (tid_tid (th_id t)) | None \<Rightarrow> [])"

definition pstate_code :: "char \<Rightarrow> char" where
  "pstate_code c = (if c = no_state then CHR ''?'' else c)"

text \<open>A structural column: its flags are right aligned, sortable, filterable, groupable.\<close>

definition structural ::
  "string \<Rightarrow> string \<Rightarrow> bool \<Rightarrow> bool \<Rightarrow> bool \<Rightarrow> bool \<Rightarrow> (row_data \<Rightarrow> string option) \<Rightarrow> string \<Rightarrow> column" where
  "structural i h right sortable filterable groupable cell desc =
     \<lparr>co_id = i, co_header = h, co_right = right, co_cell = cell, co_machine = cell, co_target = (i = ''target''),
      co_sortable = sortable, co_filterable = filterable, co_groupable = groupable, co_desc = desc\<rparr>"

definition structural_columns :: "column list" where
  "structural_columns =
     [structural ''cmdline'' ''CMDLINE'' False False False False (of_process (\<lambda>p. join '' '' (p_cmdline p))) ''full command line'',
      structural ''comm'' ''COMM'' False True True True (of_process p_comm) ''kernel comm (short command name)'',
      structural ''hostname'' ''HOSTNAME'' False True True True (of_process p_hostname)
        ''process HOSTNAME env var, else the host hostname (poor-man's container name)'',
      structural ''kind'' ''KIND'' False False True False (\<lambda>r. Some (kind_name (r_kind r))) ''row kind (group/process/thread)'',
      structural ''name'' ''NAME'' False True True True (of_process display_name) ''display name (best-effort process name)'',
      structural ''pid'' ''PID'' True True False False cell_pid ''process id'',
      structural ''ppid'' ''PPID'' True False False True (of_process (\<lambda>p. show_int (p_ppid p))) ''parent process id'',
      structural ''procs'' ''PROCS'' True True True False (\<lambda>r. Some (show_int (r_procs r))) ''number of processes in the row'',
      structural ''pstate'' ''PSTATE'' False True True True (of_process (\<lambda>p. [pstate_code (p_state p)]))
        (''process state (R/S/D/Z/I/T/'' @ ellipsis @ '')''),
      structural ''pt'' ''P/T'' True False False False (\<lambda>r. Some (show_int (r_procs r) @ ''/'' @ show_int (r_threads r)))
        ''process/thread counts under the row'',
      structural ''target'' ''TARGET'' False True True False (\<lambda>r. Some (r_label r))
        ''the row's group/process label (the tree target)'',
      structural ''threads'' ''THREADS'' True True True False (\<lambda>r. Some (show_int (r_threads r))) ''number of threads in the row'',
      structural ''tid'' ''TID'' True True False False cell_tid ''thread id (thread leaves)'',
      structural ''uid'' ''UID'' True False False True (of_process (\<lambda>p. show_nat (unat (p_uid p)))) ''real user id'',
      structural ''user'' ''USER'' False False False True (of_process p_user) ''resolved user name'',
      structural ''wchan'' ''WCHAN'' False True True True (of_process p_wchan)
        ''kernel symbol a blocked task sleeps in (names a D-state cause)'']"

definition structural_column :: "string \<Rightarrow> column option" where
  "structural_column i = find (\<lambda>c. co_id c = i) structural_columns"

text \<open>The value of a metric in a row; a missing one is the zero value.\<close>

definition row_metric :: "row_data \<Rightarrow> metric_id \<Rightarrow> metric_value" where
  "row_metric r i = (case r_metrics r i of Some v \<Rightarrow> v | None \<Rightarrow> \<lparr>rd_value = Fin 0, rd_avail = AvUnset, rd_quality = QUnset, rd_source = []\<rparr>)"

definition machine_metric :: "metric_value \<Rightarrow> string" where
  "machine_metric v = (case get_reading v of Some x \<Rightarrow> format_plain x | None \<Rightarrow> [])"

definition metric_column :: "bool \<Rightarrow> string \<Rightarrow> descriptor \<Rightarrow> column" where
  "metric_column human i d =
     \<lparr>co_id = i, co_header = to_upper i, co_right = True,
      co_cell = (\<lambda>r. if human then format_metric d (row_metric r (d_id d)) else Some (format_metric_raw d (row_metric r (d_id d)))),
      co_machine = (\<lambda>r. Some (machine_metric (row_metric r (d_id d)))), co_target = False, co_sortable = True,
      co_filterable = True, co_groupable = False, co_desc = []\<rparr>"

text \<open>The error is the unknown column.\<close>

definition resolve_columns :: "registry \<Rightarrow> string list \<Rightarrow> bool \<Rightarrow> (string, column list) result" where
  "resolve_columns reg ids human =
     rmap (\<lambda>i. case structural_column i of
         Some c \<Rightarrow> Inr c
       | None \<Rightarrow> (case reg_get reg i of None \<Rightarrow> Inl i | Some d \<Rightarrow> Inr (metric_column human i d))) ids"

end
