(* ===== verification/Render_Output.thy ===== *)
theory Render_Output
  imports Render_Format Query_Engine
begin

text \<open>
  The renderers: the table (\<open>render/table\<close>), CSV with the writer of \<open>encoding/csv\<close>, the records of JSON and NDJSON
  (their encoder stays outside), Prometheus text, and the section of host metrics (\<open>app/hostsection.go\<close>). Times arrive
  formatted. A map is walked over \<open>ids\<close>, a list without repetition of the ids that may occur in it.
\<close>

section \<open>Rows in order\<close>

fun flatten_row :: "nat \<Rightarrow> row \<Rightarrow> (row_data \<times> nat) list" where
  "flatten_row depth (Row d sub) = (d, depth) # concat (map (flatten_row (Suc depth)) sub)"

definition flatten :: "row list \<Rightarrow> (row_data \<times> nat) list" where
  "flatten rows = concat (map (flatten_row 0) rows)"

text \<open>The cells of a line, of which any may panic.\<close>

fun all_some :: "'a option list \<Rightarrow> 'a list option" where
  "all_some [] = Some []"
| "all_some (x # xs) = (case x of None \<Rightarrow> None | Some y \<Rightarrow> (case all_some xs of None \<Rightarrow> None | Some ys \<Rightarrow> Some (y # ys)))"

lemma all_some_Some: "all_some xs = Some ys \<longleftrightarrow> xs = map Some ys"
proof (induction xs arbitrary: ys)
  case (Cons x xs)
  show ?case
  proof (cases ys)
    case (Cons y zs)
    then show ?thesis using Cons.IH [of zs] by (auto split: option.split)
  qed (auto split: option.split)
qed auto

lemma all_some_map: "all_some (map f xs) = Some ys \<longleftrightarrow> map f xs = map Some ys"
  by (rule all_some_Some)

lemma all_some_length: "all_some xs = Some ys \<Longrightarrow> length ys = length xs"
  by (simp add: all_some_Some)

lemma all_some_total: "list_all (\<lambda>x. x \<noteq> None) xs \<Longrightarrow> all_some xs \<noteq> None"
  by (induction xs) auto

section \<open>The table (\<open>table/table.go\<close>)\<close>

definition spaces :: "nat \<Rightarrow> string" where
  "spaces n = replicate n (CHR '' '')"

definition table_header :: "int \<Rightarrow> column list \<Rightarrow> string list" where
  "table_header width cols = map (\<lambda>c. if co_target c then truncate_cell (co_header c) width else co_header c) cols"

definition table_cells :: "int \<Rightarrow> column list \<Rightarrow> row_data \<times> nat \<Rightarrow> string list option" where
  "table_cells width cols rd = all_some (map (\<lambda>c. map_option
     (\<lambda>cell. if co_target c then truncate_cell (concat (replicate (snd rd) ''  '') @ cell) width else cell) (co_cell c (fst rd))) cols)"

text \<open>The longest cell of each column, in bytes.\<close>

definition column_widths :: "nat \<Rightarrow> string list list \<Rightarrow> nat list" where
  "column_widths n matrix = foldl (\<lambda>ws cells. map2 max ws (map length cells)) (replicate n 0) matrix"

definition table_cell :: "bool \<Rightarrow> bool \<Rightarrow> nat \<Rightarrow> string \<Rightarrow> string" where
  "table_cell right is_last width cell =
     (if right then spaces (width - length cell) @ cell else if is_last then cell else cell @ spaces (width - length cell))"

fun table_fields :: "column list \<Rightarrow> nat list \<Rightarrow> string list \<Rightarrow> string list" where
  "table_fields (c # cs) (w # ws) (x # xs) = table_cell (co_right c) (xs = []) w x # table_fields cs ws xs"
| "table_fields _ _ _ = []"

definition table_line :: "column list \<Rightarrow> nat list \<Rightarrow> string list \<Rightarrow> string" where
  "table_line cols ws cells = trim_right_set (join ''  '' (table_fields cols ws cells)) '' '' @ [CHR 0x0A]"

definition render_table :: "query_result \<Rightarrow> column list \<Rightarrow> int \<Rightarrow> string option" where
  "render_table res cols width =
     (case all_some (map (table_cells width cols) (flatten (res_rows res))) of
        None \<Rightarrow> None
      | Some rows \<Rightarrow>
          let matrix = table_header width cols # rows; ws = column_widths (length cols) matrix
          in Some (concat (map (table_line cols ws) matrix)))"

section \<open>CSV (\<open>csv/csv.go\<close>, \<open>encoding/csv\<close>)\<close>

text \<open>\<open>unicode.IsSpace\<close> on the first rune of a text: a blank of one byte, or one of the longer ones in UTF-8.\<close>

definition wide_spaces :: "string list" where
  "wide_spaces = [[CHR 0xC2, CHR 0x85], [CHR 0xC2, CHR 0xA0], [CHR 0xE1, CHR 0x9A, CHR 0x80]] @
     map (\<lambda>c. [CHR 0xE2, CHR 0x80, c])
       [CHR 0x80, CHR 0x81, CHR 0x82, CHR 0x83, CHR 0x84, CHR 0x85, CHR 0x86, CHR 0x87, CHR 0x88, CHR 0x89, CHR 0x8A,
        CHR 0xA8, CHR 0xA9, CHR 0xAF] @
     [[CHR 0xE2, CHR 0x81, CHR 0x9F], [CHR 0xE3, CHR 0x80, CHR 0x80]]"

definition starts_blank :: "string \<Rightarrow> bool" where
  "starts_blank s \<longleftrightarrow> s \<noteq> [] \<and> (is_space (hd s) \<or> list_ex (has_prefix s) wide_spaces)"

definition needs_quotes :: "string \<Rightarrow> bool" where
  "needs_quotes s \<longleftrightarrow> s \<noteq> [] \<and>
     (s = [CHR 0x5C, CHR ''.''] \<or> contains_any s [CHR '','', CHR 0x22, CHR 0x0D, CHR 0x0A] \<or> starts_blank s)"

definition csv_field :: "string \<Rightarrow> string" where
  "csv_field s =
     (if needs_quotes s then [CHR 0x22] @ concat (map (\<lambda>c. if c = CHR 0x22 then [c, c] else [c]) s) @ [CHR 0x22] else s)"

definition csv_line :: "string list \<Rightarrow> string" where
  "csv_line fs = join '','' (map csv_field fs) @ [CHR 0x0A]"

definition csv_header :: "column list \<Rightarrow> string list" where
  "csv_header cols = [''time'', ''depth'', ''kind''] @ map co_id cols"

definition csv_record :: "string \<Rightarrow> column list \<Rightarrow> row_data \<times> nat \<Rightarrow> string list option" where
  "csv_record ts cols rd = map_option (\<lambda>cells. [ts, show_nat (snd rd), kind_name (r_kind (fst rd))] @ cells)
     (all_some (map (\<lambda>c. co_machine c (fst rd)) cols))"

definition csv_rows :: "string \<Rightarrow> query_result \<Rightarrow> column list \<Rightarrow> string list list option" where
  "csv_rows ts res cols = all_some (map (csv_record ts cols) (flatten (res_rows res)))"

definition render_csv :: "string \<Rightarrow> query_result \<Rightarrow> column list \<Rightarrow> string option" where
  "render_csv ts res cols = map_option (\<lambda>rows. concat (map csv_line (csv_header cols # rows))) (csv_rows ts res cols)"

section \<open>JSON and NDJSON (\<open>json/json.go\<close>, \<open>ndjson/ndjson.go\<close>)\<close>

fun unit_name :: "metric_unit \<Rightarrow> string" where
  "unit_name UnitPercentOneCPU = ''percent_one_cpu''"
| "unit_name UnitPercentHost = ''percent_host''"
| "unit_name UnitPercent = ''percent''"
| "unit_name UnitRatio = ''ratio''"
| "unit_name UnitBytes = ''bytes''"
| "unit_name UnitBytesPerSec = ''bytes_per_sec''"
| "unit_name UnitCount = ''count''"
| "unit_name UnitPerSec = ''per_sec''"
| "unit_name UnitDuration = ''duration''"
| "unit_name UnitInteger = ''integer''"
| "unit_name UnitEnum = ''enum''"
| "unit_name UnitWatts = ''watts''"
| "unit_name UnitCelsius = ''celsius''"
| "unit_name UnitMilliAmpHours = ''mAh''"
| "unit_name UnitWattHours = ''Wh''"
| "unit_name UnitUnset = []"

record json_value =
  jv_value :: "f64 option"
  jv_label :: string
  jv_unit :: string
  jv_avail :: availability
  jv_quality :: quality
  jv_source :: string

record json_head =
  jr_kind :: string
  jr_label :: string
  jr_key :: string
  jr_procs :: int
  jr_threads :: int
  jr_leaves :: int
  jr_pid :: "int option"
  jr_metrics :: "metric_id \<rightharpoonup> json_value"

datatype json_row = JsonRow json_head "json_row list"

record json_envelope =
  je_version :: int
  je_wall :: int
  je_elapsed :: int
  je_generation :: int
  je_host :: "metric_id \<rightharpoonup> json_value"
  je_rows :: "json_row list"

definition unit_of :: "registry \<Rightarrow> metric_id \<Rightarrow> string" where
  "unit_of reg i = (case reg_get reg i of Some d \<Rightarrow> unit_name (d_unit d) | None \<Rightarrow> [])"

definition json_metric :: "registry \<Rightarrow> metric_id \<Rightarrow> metric_value \<Rightarrow> json_value" where
  "json_metric reg i v =
     \<lparr>jv_value = (if present v then Some (rd_value v) else None),
      jv_label = (if present v \<and> unit_of reg i = unit_name UnitEnum
        then (case enum_label i (rd_value v) of Some l \<Rightarrow> l | None \<Rightarrow> []) else []),
      jv_unit = unit_of reg i, jv_avail = rd_avail v, jv_quality = rd_quality v, jv_source = rd_source v\<rparr>"

definition convert_metrics :: "registry \<Rightarrow> (metric_id \<rightharpoonup> metric_value) \<Rightarrow> (metric_id \<rightharpoonup> json_value)" where
  "convert_metrics reg m = (\<lambda>i. map_option (json_metric reg i) (m i))"

fun convert_row :: "registry \<Rightarrow> row \<Rightarrow> json_row" where
  "convert_row reg (Row d sub) =
     JsonRow \<lparr>jr_kind = kind_name (r_kind d), jr_label = r_label d, jr_key = r_key d, jr_procs = r_procs d,
       jr_threads = r_threads d, jr_leaves = r_leaves d, jr_pid = map_option p_pid (r_process d),
       jr_metrics = convert_metrics reg (r_metrics d)\<rparr> (map (convert_row reg) sub)"

definition render_json :: "query_result \<Rightarrow> registry \<Rightarrow> json_envelope" where
  "render_json res reg = \<lparr>je_version = 1, je_wall = res_wall_time res, je_elapsed = res_elapsed res,
     je_generation = res_generation res, je_host = convert_metrics reg (res_host_metrics res),
     je_rows = map (convert_row reg) (res_rows res)\<rparr>"

record ndjson_metric =
  nm_value :: "f64 option"
  nm_unit :: string
  nm_avail :: availability

record ndjson_row =
  nr_time :: string
  nr_generation :: int
  nr_depth :: nat
  nr_kind :: string
  nr_label :: string
  nr_pid :: "int option"
  nr_procs :: int
  nr_threads :: int
  nr_metrics :: "metric_id \<rightharpoonup> ndjson_metric"

datatype ndjson_record = MetaRecord string | RowRecord ndjson_row

fun ndjson_rows :: "registry \<Rightarrow> string \<Rightarrow> int \<Rightarrow> nat \<Rightarrow> row \<Rightarrow> ndjson_record list" where
  "ndjson_rows reg ts gen depth (Row d sub) =
     RowRecord \<lparr>nr_time = ts, nr_generation = gen, nr_depth = depth, nr_kind = kind_name (r_kind d), nr_label = r_label d,
       nr_pid = map_option p_pid (r_process d), nr_procs = r_procs d, nr_threads = r_threads d,
       nr_metrics = (\<lambda>i. map_option (\<lambda>v. \<lparr>nm_value = get_reading v, nm_unit = unit_of reg i, nm_avail = rd_avail v\<rparr>) (r_metrics d i))\<rparr> #
     concat (map (ndjson_rows reg ts gen (Suc depth)) sub)"

text \<open>\<open>WriteResult\<close> on a streamer that has, or has not, written its one metadata record.\<close>

definition write_result :: "registry \<Rightarrow> string \<Rightarrow> string \<Rightarrow> query_result \<Rightarrow> bool \<Rightarrow> ndjson_record list \<times> bool" where
  "write_result reg now ts res meta =
     ((if meta then [] else [MetaRecord now]) @ concat (map (ndjson_rows reg ts (res_generation res) 0) (res_rows res)), True)"

section \<open>Prometheus (\<open>prometheus/prometheus.go\<close>)\<close>

definition metric_ids :: "metric_id list \<Rightarrow> row list \<Rightarrow> metric_id list" where
  "metric_ids ids rows = sort (filter (\<lambda>i. list_ex (\<lambda>r. r_metrics (row_data r) i \<noteq> None) rows) ids)"

definition name_char :: "char \<Rightarrow> bool" where
  "name_char c \<longleftrightarrow> list_ex (\<lambda>(lo, hi). lo \<le> c \<and> c \<le> hi)
     [(CHR ''a'', CHR ''z''), (CHR ''A'', CHR ''Z''), (CHR ''0'', CHR ''9''), (CHR ''_'', CHR ''_'')]"

text \<open>One rune gives one character, a rune outside the alphabet an underscore.\<close>

definition metric_name :: "string \<Rightarrow> string" where
  "metric_name i = ''procfit_'' @ map (\<lambda>r. if tl r = [] \<and> name_char (hd r) then hd r else CHR ''_'') (runes i)"

definition escape_chars :: "(char \<Rightarrow> bool) \<Rightarrow> string \<Rightarrow> string" where
  "escape_chars quoted s =
     concat (map (\<lambda>c. if c = CHR 0x0A then [CHR 0x5C, CHR ''n''] else if quoted c then [CHR 0x5C, c] else [c]) s)"

definition escape_label :: "string \<Rightarrow> string" where
  "escape_label s = escape_chars (\<lambda>c. c = CHR 0x5C \<or> c = CHR 0x22) s"

definition escape_help :: "string \<Rightarrow> string" where
  "escape_help s = escape_chars (\<lambda>c. c = CHR 0x5C) s"

definition row_labels :: "row_data \<Rightarrow> string" where
  "row_labels r = join '',''
     ([''target='' @ [CHR 0x22] @ escape_label (r_label r) @ [CHR 0x22]] @
      (case r_process r of Some p \<Rightarrow> [''pid='' @ [CHR 0x22] @ show_int (p_pid p) @ [CHR 0x22]] | None \<Rightarrow> []))"

definition family_header :: "registry \<Rightarrow> metric_id \<Rightarrow> string" where
  "family_header reg i =
     (let name = metric_name i; help = (case reg_get reg i of Some d \<Rightarrow> if d_desc d \<noteq> [] then d_desc d else i | None \<Rightarrow> i)
      in ''# HELP '' @ name @ '' '' @ escape_help help @ [CHR 0x0A] @ ''# TYPE '' @ name @ '' gauge'' @ [CHR 0x0A])"

definition series_of :: "metric_id \<Rightarrow> row_data \<Rightarrow> string" where
  "series_of i r =
     (case r_metrics r i of
        None \<Rightarrow> []
      | Some v \<Rightarrow> if present v then metric_name i @ ''{'' @ row_labels r @ ''} '' @ format_general (rd_value v) @ [CHR 0x0A] else [])"

definition process_family :: "registry \<Rightarrow> row list \<Rightarrow> metric_id \<Rightarrow> string" where
  "process_family reg rows i =
     (let body = concat (map (\<lambda>r. series_of i (row_data r)) rows) in if body = [] then [] else family_header reg i @ body)"

definition host_family :: "registry \<Rightarrow> (metric_id \<rightharpoonup> metric_value) \<Rightarrow> metric_id \<Rightarrow> string" where
  "host_family reg host i =
     (case host i of
        None \<Rightarrow> []
      | Some v \<Rightarrow> if present v then family_header reg i @ metric_name i @ '' '' @ format_general (rd_value v) @ [CHR 0x0A] else [])"

definition render_prometheus :: "metric_id list \<Rightarrow> query_result \<Rightarrow> registry \<Rightarrow> string" where
  "render_prometheus ids res reg =
     concat (map (process_family reg (res_rows res)) (metric_ids ids (res_rows res))) @
     concat (map (host_family reg (res_host_metrics res)) (sort (filter (\<lambda>i. res_host_metrics res i \<noteq> None) ids)))"

section \<open>The host section (\<open>app/hostsection.go\<close>)\<close>

definition is_host_metric :: "registry \<Rightarrow> string \<Rightarrow> bool" where
  "is_host_metric reg i \<longleftrightarrow> (case reg_get reg i of Some d \<Rightarrow> d_scope d = ScopeHost | None \<Rightarrow> False)"

definition process_columns :: "registry \<Rightarrow> string list \<Rightarrow> string list" where
  "process_columns reg cols = filter (\<lambda>c. \<not> is_host_metric reg c) cols"

definition total_procs :: "query_result \<Rightarrow> int" where
  "total_procs res = foldl (\<lambda>n r. n + r_procs (row_data r)) 0 (res_rows res)"

text \<open>The banner; \<open>wall\<close> is the formatted time, if there is one. The dot is the UTF-8 of a middle dot.\<close>

definition middle_dot :: string where "middle_dot = [CHR 0xC2, CHR 0xB7]"

definition host_banner :: "string option \<Rightarrow> query_result \<Rightarrow> string" where
  "host_banner wall res =
     ''system  '' @ middle_dot @ ''  '' @ show_int (total_procs res) @ '' process'' @ (if total_procs res \<noteq> 1 then ''es'' else []) @
     (case wall of Some t \<Rightarrow> ''  '' @ middle_dot @ ''  '' @ t | None \<Rightarrow> [])"

definition host_value :: "registry \<Rightarrow> string \<Rightarrow> metric_value \<Rightarrow> bool \<Rightarrow> string option" where
  "host_value reg i v human =
     (case reg_get reg i of
        None \<Rightarrow> Some ''-''
      | Some d \<Rightarrow> if human then format_metric d v else Some (format_metric_raw d v))"

definition quote_if_space :: "(string \<Rightarrow> string) \<Rightarrow> string \<Rightarrow> string" where
  "quote_if_space quote s = (if contains_any s [CHR '' '', CHR 0x09] then quote s else s)"

definition pad_to :: "string \<Rightarrow> nat \<Rightarrow> string" where
  "pad_to s w = (if length s \<ge> w then s else s @ spaces (w - length s))"

text \<open>The widest of every group of \<open>rows\<close> entries.\<close>

definition group_width :: "nat \<Rightarrow> nat \<Rightarrow> string list \<Rightarrow> nat" where
  "group_width rows c xs = foldl max 0 (map length (take rows (drop (c * rows) xs)))"

definition kv_row :: "string list \<Rightarrow> string list \<Rightarrow> nat \<Rightarrow> nat \<Rightarrow> nat \<Rightarrow> string" where
  "kv_row ks vs r rows cols =
     trim_right_set (concat (map (\<lambda>c. let i = c * rows + r in
       if i \<ge> length ks then []
       else pad_to (ks ! i) (group_width rows c ks) @ '' '' @ vs ! i @
         (if c < cols - 1 then spaces (group_width rows c vs - length (vs ! i) + 4) else [])) [0..<cols])) '' ''"

definition layout_kv :: "string list \<Rightarrow> string list \<Rightarrow> nat \<Rightarrow> string list" where
  "layout_kv ks vs rows =
     (if ks = [] \<or> rows < 1 then []
      else let cols = (length ks + rows - 1) div rows
           in filter (\<lambda>l. l \<noteq> []) (map (\<lambda>r. kv_row ks vs r rows cols) [0..<rows]))"

definition host_matrix ::
  "(string \<Rightarrow> string) \<Rightarrow> metric_id list \<Rightarrow> registry \<Rightarrow> (metric_id \<rightharpoonup> metric_value) \<Rightarrow> bool \<Rightarrow> string list option" where
  "host_matrix quote ids reg hm human =
     (let ks = sort (filter (\<lambda>i. hm i \<noteq> None) ids) in
      map_option (\<lambda>vs. layout_kv ks (map (quote_if_space quote) vs) 3)
        (all_some (map (\<lambda>i. host_value reg i (the (hm i)) human) ks)))"

definition host_section ::
  "(string \<Rightarrow> string) \<Rightarrow> metric_id list \<Rightarrow> string option \<Rightarrow> registry \<Rightarrow> query_result \<Rightarrow> bool \<Rightarrow> string list option" where
  "host_section quote ids wall reg res human =
     (if filter (\<lambda>i. res_host_metrics res i \<noteq> None) ids = [] then Some []
      else map_option (\<lambda>lines. host_banner wall res # [] # lines) (host_matrix quote ids reg (res_host_metrics res) human))"

section \<open>Choosing a renderer (\<open>app/render.go\<close>)\<close>

datatype rendered = Text string | JsonDoc json_envelope | JsonLines "ndjson_record list"

datatype render_error = UnknownColumn string | UnsupportedFormat string

text \<open>What a command is given to render with: quoting, the ids, the formatted times.\<close>

record style =
  sy_quote :: "string \<Rightarrow> string"
  sy_ids :: "metric_id list"
  sy_wall :: "string option"
  sy_csv_time :: string
  sy_now :: string
  sy_json_time :: string

text \<open>The outer option is a panic.\<close>

definition render_result ::
  "style \<Rightarrow> registry \<Rightarrow> query_result \<Rightarrow> string \<Rightarrow> string list \<Rightarrow> bool \<Rightarrow> int \<Rightarrow> (render_error, rendered) result option" where
  "render_result sy reg res fmt cols human width =
     (if fmt = [] \<or> fmt = ''table'' \<or> fmt = ''wide'' then
        (case resolve_columns reg (process_columns reg cols) human of
           Inl e \<Rightarrow> Some (Inl (UnknownColumn e))
         | Inr rcols \<Rightarrow>
             (case (host_section (sy_quote sy) (sy_ids sy) (sy_wall sy) reg res human, render_table res rcols width) of
                (Some section_lines, Some t) \<Rightarrow>
                  Some (Inr (Text ((if section_lines = [] then [] else join [CHR 0x0A] section_lines @ [CHR 0x0A, CHR 0x0A]) @ t)))
              | _ \<Rightarrow> None))
      else if fmt = ''csv'' then
        (case resolve_columns reg (process_columns reg cols) True of
           Inl e \<Rightarrow> Some (Inl (UnknownColumn e))
         | Inr rcols \<Rightarrow> map_option (\<lambda>t. Inr (Text t)) (render_csv (sy_csv_time sy) res rcols))
      else if fmt = ''json'' then Some (Inr (JsonDoc (render_json res reg)))
      else if fmt = ''ndjson'' then Some (Inr (JsonLines (fst (write_result reg (sy_now sy) (sy_json_time sy) res False))))
      else Some (Inl (UnsupportedFormat fmt)))"

end
