(* ===== verification/Render_Correct.thy ===== *)
theory Render_Correct
  imports Render_Output
begin

text \<open>
  What the renderers promise: a missing value never looks like a number, when scaling panics,
  durations and CSV documents read back, the table lines up, Prometheus text stays well formed.
\<close>

section \<open>Missing values\<close>

text \<open>A text that says something: it has a character other than the two placeholders.\<close>

definition says :: "string \<Rightarrow> bool" where
  "says s \<longleftrightarrow> list_ex (\<lambda>c. c \<noteq> CHR ''-'' \<and> c \<noteq> CHR ''?'') s"

lemma says_append [simp]: "says (a @ b) \<longleftrightarrow> says a \<or> says b" "says (CHR ''-'' # a) \<longleftrightarrow> says a"
  by (simp_all add: says_def)

lemma says_digits: "s \<noteq> [] \<Longrightarrow> \<forall>c \<in> set s. is_digit c \<Longrightarrow> says s"
  by (cases s) (auto simp: says_def is_digit_def)

lemma says_show_nat [simp]: "says (show_nat n)"
  using show_nat_digits by (intro says_digits) auto

lemma says_show_int [simp]: "says (show_int i)"
proof -
  have "says (show_int i)" if "says (show_nat n)" "show_int i = show_nat n \<or> show_int i = ''-'' @ show_nat n" for n
    using that by auto
  from this [OF says_show_nat] show ?thesis
    by (cases "i < 0") (auto simp: show_int_def)
qed

lemma says_fixed [simp]: "says (format_fixed n v)"
  by (cases v) (auto simp: show_decimal_def Let_def, simp_all add: says_def)

lemma says_plain [simp]: "says (format_plain v)"
proof (cases v)
  case (Fin x)
  obtain m k where "shortest \<bar>x\<bar> = (m, k)" by fastforce
  then show ?thesis using Fin by (simp add: plain_digits_def show_decimal_def Let_def)
qed (auto simp: says_def)

lemma says_general [simp]: "says (format_general v)"
proof (cases v)
  case (Fin x)
  obtain m k where "shortest \<bar>x\<bar> = (m, k)" by fastforce
  then show ?thesis using Fin
    by (simp add: plain_digits_def show_decimal_def exponent_digits_def Let_def) (simp add: says_def)
qed (auto simp: says_def)

lemma says_units: "scaled unit v ss = Some t \<Longrightarrow> says t"
  by (auto simp: scaled_def trim_num_def split: prod.splits option.splits)

lemma duration_sum: "s div 86400 * 86400 + s div 3600 mod 24 * 3600 + s div 60 mod 60 * 60 + s mod 60 = (s :: int)"
proof -
  define m where "m = s div 60"
  define h where "h = m div 60"
  have "s div 3600 = h" "s div 86400 = h div 24"
    using zdiv_zmult2_eq [of 60 s 60] zdiv_zmult2_eq [of 1440 s 60] zdiv_zmult2_eq [of 24 m 60] by (auto simp: m_def h_def)
  moreover have "h div 24 * 24 + h mod 24 = h" "h * 60 + m mod 60 = m" "m * 60 + s mod 60 = s"
    by (simp_all add: m_def h_def)
  moreover have "s div 60 = m" by (simp add: m_def)
  moreover have "a * 24 + b = h \<Longrightarrow> h * 60 + c = m \<Longrightarrow> m * 60 + d = s \<Longrightarrow> a * 86400 + b * 3600 + c * 60 + d = s" for a b c d
    by simp
  ultimately show ?thesis by metis
qed

lemma trim_zero_parts_Nil:
  assumes "trim_zero_parts ps = []" and "p \<in> set ps"
  shows "fst p = 0"
proof -
  let ?z = "\<lambda>(v, u). v = (0 :: int)" let ?d = "dropWhile ?z ps"
  have all: "\<forall>x \<in> set ?d. ?z x" using assms(1) by (simp add: trim_zero_parts_def dropWhile_eq_Nil_conv)
  have "?d = []"
  proof (rule ccontr)
    assume "?d \<noteq> []"
    with hd_dropWhile [OF this] all show False by (meson hd_in_set)
  qed
  then show ?thesis using assms(2) by (auto simp: dropWhile_eq_Nil_conv)
qed

lemma says_duration [simp]: "says (human_duration v)"
proof (cases "f_trunc v \<le> 0")
  case False
  let ?ps = "duration_parts (f_trunc v)"
  have "\<exists>p \<in> set ?ps. fst p \<noteq> 0"
  proof (rule ccontr)
    assume "\<not> ?thesis"
    then have "list_all (\<lambda>p. fst p = 0) ?ps" by (simp add: list_all_iff)
    then have "f_trunc v = 0"
      unfolding duration_parts_def using duration_sum [of "f_trunc v"] by simp
    then show False using False by simp
  qed
  then have "trim_zero_parts ?ps \<noteq> []" by (auto dest: trim_zero_parts_Nil)
  then obtain p ps where "trim_zero_parts ?ps = p # ps" by (cases "trim_zero_parts ?ps") auto
  then show ?thesis using False by (simp add: human_duration_def Let_def case_prod_beta)
qed (simp add: human_duration_def says_def)

lemma says_unit: "format_unit u v = Some t \<Longrightarrow> says t"
  by (auto simp: format_unit_def human_bytes_def human_count_def says_units split: if_splits)

lemma says_enum: "enum_label i x = Some l \<Longrightarrow> says l"
  by (auto simp: enum_label_def battery_label_def battery_state_labels_def says_def split: if_splits option.splits)

lemma says_placeholder [simp]: "\<not> says (placeholder a)"
  by (simp add: placeholder_def says_def)

text \<open>
  C23: a missing value never looks like a reading. In text the cell of a metric is a bare dash or question mark exactly when there is
  no value (and the aggregate is not mixed), with and without unit scaling; in CSV its field is empty, in JSON and NDJSON
  its value is null and in Prometheus there is no series, again exactly then: no zero is made up.
\<close>

theorem missing_never_shown_as_value:
  "(case format_metric d v of None \<Rightarrow> present v | Some t \<Rightarrow> says t = (present v \<or> rd_quality v = Mixed)) \<and>
   says (format_metric_raw d v) = (present v \<or> rd_quality v = Mixed) \<and>
   (machine_metric v = []) = (\<not> present v) \<and>
   (jv_value (json_metric reg i v) = None) = (\<not> present v) \<and>
   (case hd (ndjson_rows reg ts gen depth (Row (r\<lparr>r_metrics := (r_metrics r)(i \<mapsto> v)\<rparr>) sub)) of
      MetaRecord now \<Rightarrow> False
    | RowRecord nr \<Rightarrow> (map_option nm_value (nr_metrics nr i) = Some None) = (\<not> present v)) \<and>
   (series_of i (r\<lparr>r_metrics := (r_metrics r)(i \<mapsto> v)\<rparr>) = []) = (\<not> present v)"
proof -
  have raw: "says (format_unit_raw u x)" for u x
    by (simp add: format_unit_raw_def)
  have "says (machine_metric v)" if "present v"
    using that by (simp add: machine_metric_def get_reading_def)
  then have machine: "(machine_metric v = []) = (\<not> present v)"
    by (auto simp: machine_metric_def get_reading_def says_def)
  show ?thesis
    using machine raw
    by (auto simp: format_metric_def format_metric_raw_def enum_text_def json_metric_def series_of_def get_reading_def
        split: option.split dest: says_unit says_enum) (simp_all add: says_def)
qed

section \<open>Panics\<close>

lemma scale_units_None: "snd (scale_units unit v sfx ss) = None \<longleftrightarrow> sfx = None \<and> (ss = [] \<or> \<not> f_le unit v)"
  by (induction ss arbitrary: v sfx) auto

lemma scaled_None: "scaled unit v ss = None \<longleftrightarrow> ss = [] \<or> \<not> f_le unit v"
  using scale_units_None [of unit v None ss] by (auto simp: scaled_def split: prod.splits option.splits)

lemma not_below: "\<not> f_lt v (Fin u) \<Longrightarrow> \<not> f_le (Fin u) v \<longleftrightarrow> v = NaN"
  by (cases v) (auto simp: f_le_def)

text \<open>
  When rendering panics. A metric cell panics exactly when it scales a byte size or a count that is no number; every
  other value of every metric gives a text, infinite ones included.
\<close>

theorem format_metric_panics:
  "format_metric d v = None \<longleftrightarrow>
     present v \<and> rd_quality v \<noteq> Mixed \<and> rd_value v = NaN \<and> d_unit d \<in> {UnitBytes, UnitBytesPerSec, UnitCount, UnitPerSec}"
proof -
  have bytes: "human_bytes x = None \<longleftrightarrow> x = NaN" for x
    using not_below [of x 1024] by (auto simp: human_bytes_def scaled_None)
  have count: "human_count x = None \<longleftrightarrow> x = NaN" for x
    using not_below [of x 1000] by (auto simp: human_count_def scaled_None)
  have enum: "d_unit d \<in> {UnitBytes, UnitBytesPerSec, UnitCount, UnitPerSec} \<Longrightarrow> enum_text d x = None" for x
    by (auto simp: enum_text_def)
  show ?thesis
    using enum by (auto simp: format_metric_def format_unit_def bytes count split: option.splits if_splits)
qed

section \<open>Durations\<close>

text \<open>Reading a duration: digits add up to a number, a unit adds it to the total.\<close>

definition unit_seconds :: "char \<Rightarrow> int" where
  "unit_seconds c = (if c = CHR ''d'' then 86400 else if c = CHR ''h'' then 3600 else if c = CHR ''m'' then 60 else 1)"

definition read_duration_step :: "int \<times> nat \<Rightarrow> char \<Rightarrow> int \<times> nat" where
  "read_duration_step st c =
     (if is_digit c then (fst st, snd st * 10 + digit_val c) else (fst st + int (snd st) * unit_seconds c, 0))"

definition read_duration :: "string \<Rightarrow> int" where
  "read_duration s = fst (foldl read_duration_step (0, 0) s)"

lemma read_digits: "\<forall>c \<in> set s. is_digit c \<Longrightarrow>
    foldl read_duration_step (t, n) s = (t, foldl (\<lambda>n c. n * 10 + digit_val c) n s)"
  by (induction s arbitrary: n) (auto simp: read_duration_step_def)

lemma read_part:
  assumes "0 \<le> v" and "u \<in> {''d'', ''h'', ''m'', ''s''}"
  shows "foldl read_duration_step (t, 0) (show_int v @ u) = (t + v * unit_seconds (hd u), 0)"
proof -
  have "foldl read_duration_step (t, 0) (show_nat (nat v)) = (t, nat v)"
    using read_digits [of "show_nat (nat v)" t 0] show_nat_digits digits_val_show_nat [of "nat v"]
    by (simp add: digits_val_def)
  then show ?thesis
    using assms by (auto simp: show_int_def read_duration_step_def is_digit_def)
qed

lemma read_parts:
  assumes "\<And>v u. (v, u) \<in> set ps \<Longrightarrow> 0 \<le> v \<and> u \<in> {''d'', ''h'', ''m'', ''s''}"
  shows "foldl read_duration_step (t, 0) (concat (map (\<lambda>(v, u). show_int v @ u) ps)) =
    (t + sum_list (map (\<lambda>(v, u). v * unit_seconds (hd u)) ps), 0)"
  using assms
proof (induction ps arbitrary: t)
  case (Cons p ps)
  obtain v u where p: "p = (v, u)" by (cases p)
  have "0 \<le> v" "u \<in> {''d'', ''h'', ''m'', ''s''}" using Cons.prems [of v u] p by auto
  from read_part [OF this, of t] Cons.IH [of "t + v * unit_seconds (hd u)", OF Cons.prems] show ?case
    by (simp add: p)
qed simp

lemma sum_dropWhile_zero: "sum_list (map (\<lambda>(v, u). v * f u) (dropWhile (\<lambda>(v, u). v = 0) ps)) = sum_list (map (\<lambda>(v, u). v * f u) ps)"
  for ps :: "(int \<times> 'a) list"
  by (induction ps) auto

lemma sum_trim_zero: "sum_list (map (\<lambda>(v, u). v * f u) (trim_zero_parts ps)) = sum_list (map (\<lambda>(v, u). v * f u) ps)"
proof -
  have rev: "sum_list (map g (rev xs)) = sum_list (map g xs)" for g :: "int \<times> string \<Rightarrow> int" and xs
    by (simp add: rev_map [symmetric] sum_list_rev)
  show ?thesis by (simp add: trim_zero_parts_def rev sum_dropWhile_zero)
qed

text \<open>
  Durations lose nothing. Read back, the text of a duration is the whole number of seconds it was made of,
  for every value from zero on, however long.
\<close>

theorem human_duration_lossless: "read_duration (human_duration v) = max 0 (f_trunc v)"
proof (cases "f_trunc v \<le> 0")
  case True
  then show ?thesis
    by (simp add: human_duration_def read_duration_def read_duration_step_def is_digit_def digit_val_def unit_seconds_def)
next
  case False
  let ?s = "f_trunc v"
  have parts: "(w, u) \<in> set (trim_zero_parts (duration_parts ?s)) \<Longrightarrow> 0 \<le> w \<and> u \<in> {''d'', ''h'', ''m'', ''s''}" for w u
  proof -
    assume "(w, u) \<in> set (trim_zero_parts (duration_parts ?s))"
    then have "(w, u) \<in> set (duration_parts ?s)"
      unfolding trim_zero_parts_def set_rev by (metis set_dropWhileD set_rev)
    then show ?thesis using False by (auto simp: duration_parts_def)
  qed
  have "sum_list (map (\<lambda>(v, u). v * unit_seconds (hd u)) (duration_parts ?s)) = ?s"
    using duration_sum [of ?s] by (simp add: duration_parts_def unit_seconds_def)
  then show ?thesis
    using False read_parts [of "trim_zero_parts (duration_parts ?s)" 0, OF parts] sum_trim_zero [of "\<lambda>u. unit_seconds (hd u)" "duration_parts ?s"]
    by (simp add: read_duration_def human_duration_def Let_def)
qed

section \<open>CSV\<close>

text \<open>A reader: in quotes or not, the field and the record so far.\<close>

fun read_csv :: "bool \<Rightarrow> string \<Rightarrow> string list \<Rightarrow> string \<Rightarrow> string list list" where
  "read_csv q acc fs [] = (if acc = [] \<and> fs = [] then [] else [fs @ [acc]])"
| "read_csv False acc fs (c # s) =
     (if c = CHR '','' then read_csv False [] (fs @ [acc]) s
      else if c = CHR 0x0A then (fs @ [acc]) # read_csv False [] [] s
      else if c = CHR 0x22 \<and> acc = [] then read_csv True [] fs s
      else read_csv False (acc @ [c]) fs s)"
| "read_csv True acc fs (c # s) =
     (if c = CHR 0x22 then
        (case s of [] \<Rightarrow> [fs @ [acc]]
         | c' # s' \<Rightarrow> if c' = CHR 0x22 then read_csv True (acc @ [c']) fs s' else read_csv False acc fs s)
      else read_csv True (acc @ [c]) fs s)"

lemma read_quoted:
  assumes "rest = CHR '','' # r \<or> rest = CHR 0x0A # r"
  shows "read_csv True acc fs (concat (map (\<lambda>c. if c = CHR 0x22 then [c, c] else [c]) s) @ [CHR 0x22] @ rest) =
    read_csv False (acc @ s) fs rest"
proof (induction s arbitrary: acc)
  case Nil
  then show ?case using assms by auto
next
  case (Cons c s)
  then show ?case by (cases "c = CHR 0x22") auto
qed

lemma read_plain:
  assumes "\<not> contains_any s [CHR '','', CHR 0x22, CHR 0x0D, CHR 0x0A]"
  shows "read_csv False acc fs (s @ rest) = read_csv False (acc @ s) fs rest"
  using assms by (induction s arbitrary: acc) (auto simp: contains_any_def)

lemma read_field:
  assumes "rest = CHR '','' # r \<or> rest = CHR 0x0A # r"
  shows "read_csv False [] fs (csv_field s @ rest) = read_csv False s fs rest"
proof (cases "needs_quotes s")
  case True
  then show ?thesis using read_quoted [OF assms, of "[]" fs s] by (simp add: csv_field_def)
next
  case False
  then show ?thesis
    using read_plain [of s "[]" fs rest] by (auto simp: csv_field_def needs_quotes_def contains_any_def)
qed

lemma read_record:
  "xs \<noteq> [] \<Longrightarrow> read_csv False [] fs (csv_line xs @ rest) = (fs @ xs) # read_csv False [] [] rest"
proof (induction xs arbitrary: fs rule: induct_list012)
  case (2 x)
  then show ?case using read_field [of "CHR 0x0A # rest" rest fs x] by (simp add: csv_line_def)
next
  case (3 x y zs)
  let ?tail = "join '','' (map csv_field (y # zs)) @ [CHR 0x0A]"
  have "csv_line (x # y # zs) @ rest = csv_field x @ CHR '','' # ?tail @ rest"
    by (simp add: csv_line_def)
  then show ?case
    using read_field [of "CHR '','' # ?tail @ rest" "?tail @ rest" fs x] "3.IH"(2) [of "fs @ [x]"]
    by (simp add: csv_line_def)
qed simp

lemma read_records: "[] \<notin> set recs \<Longrightarrow> read_csv False [] [] (concat (map csv_line recs)) = recs"
  by (induction recs) (auto simp: read_record)

lemma flatten_row_nodes: "map fst (flatten_row n r) = nodes r"
proof (induction r arbitrary: n)
  case (Row d sub)
  then show ?case by (induction sub) auto
qed

lemma flatten_forest: "map fst (flatten rows) = forest rows"
  by (induction rows) (auto simp: flatten_def forest_def flatten_row_nodes)

text \<open>
  C24: CSV documents. A reader of RFC 4180 gets from a rendered document the header and one record per row of the
  result, every group and leaf once, in the order of the tree, with its fields whatever characters they hold: quotes, commas, line
  breaks and leading blanks in process names break nothing.
\<close>

theorem csv_reads_back:
  "map_option (read_csv False [] []) (render_csv ts res cols) = map_option (\<lambda>rows. csv_header cols # rows) (csv_rows ts res cols) \<and>
   (case csv_rows ts res cols of None \<Rightarrow> True | Some rows \<Rightarrow> list_all2 (\<lambda>d rec.
      \<exists>depth cells. rec = [ts, show_nat depth, kind_name (r_kind d)] @ cells \<and>
        map Some cells = map (\<lambda>c. co_machine c d) cols) (forest (res_rows res)) rows)"
proof (cases "csv_rows ts res cols")
  case (Some rows)
  then have rows: "map (csv_record ts cols) (flatten (res_rows res)) = map Some rows"
    by (simp add: csv_rows_def all_some_map)
  have rec: "csv_record ts cols x = Some rec \<Longrightarrow> \<exists>depth cells. rec = [ts, show_nat depth, kind_name (r_kind (fst x))] @ cells \<and>
      map Some cells = map (\<lambda>c. co_machine c (fst x)) cols" for x rec
    by (cases "all_some (map (\<lambda>c. co_machine c (fst x)) cols)") (auto simp: csv_record_def all_some_map)
  have "list_all2 (\<lambda>x rec. csv_record ts cols x = Some rec) (flatten (res_rows res)) rows"
    using rows by (metis list.rel_map(1) list.rel_map(2) list_all2_eq)
  then have "list_all2 (\<lambda>x rec. \<exists>depth cells. rec = [ts, show_nat depth, kind_name (r_kind (fst x))] @ cells \<and>
      map Some cells = map (\<lambda>c. co_machine c (fst x)) cols) (flatten (res_rows res)) rows"
    by (rule list_all2_mono) (rule rec)
  then have all: "list_all2 (\<lambda>d rec. \<exists>depth cells. rec = [ts, show_nat depth, kind_name (r_kind d)] @ cells \<and>
      map Some cells = map (\<lambda>c. co_machine c d) cols) (forest (res_rows res)) rows"
    by (simp add: flatten_forest [symmetric] list.rel_map(1))
  have "[] \<notin> set (csv_header cols # rows)"
    using all by (auto simp: csv_header_def list_all2_conv_all_nth in_set_conv_nth)
  then show ?thesis
    using Some all read_records [of "csv_header cols # rows"] by (simp add: render_csv_def)
qed (simp add: render_csv_def)

end
