(* ===== verification/History.thy ===== *)
theory History
  imports State_Store
begin

text \<open>
  The audit log, \<open>internal/history/history.go\<close>, and the entries the history command
  (\<open>app/history_cmd.go\<close>) and the explorer's detail view take from it. The log is one text, a JSON object
  per line; the JSON coder is an argument, and so is what opening the file for an append answers.
\<close>

record log_event =
  le_time :: int
  le_action :: string
  le_target :: string
  le_pid :: int
  le_field :: string
  le_from :: string
  le_to :: string
  le_note :: string

text \<open>An event of the manager; the recorder stamps it.\<close>

definition of_event :: "event \<Rightarrow> log_event" where
  "of_event e = \<lparr>le_time = 0, le_action = ev_action e, le_target = [], le_pid = ev_pid e, le_field = ev_field e,
     le_from = ev_from e, le_to = ev_to e, le_note = []\<rparr>"

definition record_event ::
  "(log_event \<Rightarrow> string option) \<Rightarrow> int \<Rightarrow> bool \<Rightarrow> log_event \<Rightarrow> string option \<Rightarrow> string option" where
  "record_event enc now can_open e lg =
     (case enc (if le_time e = 0 then e\<lparr>le_time := now\<rparr> else e) of
        None \<Rightarrow> lg
      | Some line \<Rightarrow>
          if can_open then Some ((case lg of None \<Rightarrow> [] | Some t \<Rightarrow> t) @ line @ [CHR 0x0A]) else lg)"

definition parse_events :: "(string \<Rightarrow> log_event option) \<Rightarrow> (log_event \<Rightarrow> bool) \<Rightarrow> string \<Rightarrow> log_event list" where
  "parse_events dec keep data =
     filter keep (List.map_filter (\<lambda>line. let line = trim_space line in if line = [] then None else dec line)
       (split_on (CHR 0x0A) data))"

definition most_recent :: "int \<Rightarrow> 'a list \<Rightarrow> 'a list" where
  "most_recent limit out =
     (if limit > 0 \<and> int (length out) > limit then drop (nat (int (length out) - limit)) out else out)"

definition read_recent ::
  "(string \<Rightarrow> log_event option) \<Rightarrow> (file_error, string) result \<Rightarrow> (log_event \<Rightarrow> bool) \<Rightarrow> int \<Rightarrow>
    (file_error, log_event list) result" where
  "read_recent dec lg keep limit =
     (case lg of
        Inl e \<Rightarrow> if e = NotExist then Inr [] else Inl e
      | Inr data \<Rightarrow> Inr (most_recent limit (parse_events dec keep data)))"

text \<open>The events of the history command and of the detail view.\<close>

definition history_events ::
  "(string \<Rightarrow> log_event option) \<Rightarrow> (file_error, string) result \<Rightarrow> int \<Rightarrow> int \<Rightarrow> (file_error, log_event list) result" where
  "history_events dec lg pid limit = read_recent dec lg (\<lambda>e. pid = 0 \<or> le_pid e = pid) limit"

record history_entry =
  hi_time :: string
  hi_action :: string
  hi_field :: string
  hi_from :: string
  hi_to :: string

definition tui_history ::
  "(int \<Rightarrow> string) \<Rightarrow> (string \<Rightarrow> log_event option) \<Rightarrow> (file_error, string) result \<Rightarrow> int \<Rightarrow> history_entry list" where
  "tui_history clock_time dec lg pid =
     (case read_recent dec lg (\<lambda>e. le_pid e = pid) 20 of
        Inl _ \<Rightarrow> []
      | Inr evs \<Rightarrow> map (\<lambda>e. \<lparr>hi_time = clock_time (le_time e), hi_action = le_action e, hi_field = le_field e,
          hi_from = le_from e, hi_to = le_to e\<rparr>) evs)"

section \<open>What was recorded is read\<close>

text \<open>A line of JSON: no line break, nothing to trim, and it decodes to the event.\<close>

definition json_line :: "(log_event \<Rightarrow> string option) \<Rightarrow> (string \<Rightarrow> log_event option) \<Rightarrow> log_event \<Rightarrow> bool" where
  "json_line enc dec e \<longleftrightarrow>
     (case enc e of None \<Rightarrow> False
      | Some l \<Rightarrow> l \<noteq> [] \<and> CHR 0x0A \<notin> set l \<and> trim_space l = l \<and> dec l = Some e)"

definition stamp :: "int \<Rightarrow> log_event \<Rightarrow> log_event" where
  "stamp now e = (if le_time e = 0 then e\<lparr>le_time := now\<rparr> else e)"

lemma split_on_line: "d \<notin> set l \<Longrightarrow> split_on d (t @ l @ [d]) = butlast (split_on d t) @ [last (split_on d t) @ l, []]"
  by (induction t) (auto simp: split_on_append split: list.split)

text \<open>A log: empty, or ended by a line break.\<close>

definition log_ok :: "string \<Rightarrow> bool" where
  "log_ok t \<longleftrightarrow> last (split_on (CHR 0x0A) t) = []"

lemma parse_events_line:
  assumes "log_ok t" and "json_line enc dec e" and "enc e = Some l"
  shows "parse_events dec keep (t @ l @ [CHR 0x0A]) = parse_events dec keep t @ (if keep e then [e] else [])"
    and "log_ok (t @ l @ [CHR 0x0A])"
proof -
  let ?f = "\<lambda>line. let line = trim_space line in if line = [] then None else dec line"
  have l: "l \<noteq> []" "CHR 0x0A \<notin> set l" "trim_space l = l" "dec l = Some e"
    using assms(2,3) by (auto simp: json_line_def)
  have blank: "?f [] = None" by (simp add: trim_space_def trim_left_def)
  have parts: "split_on (CHR 0x0A) t = butlast (split_on (CHR 0x0A) t) @ [[]]"
    using assms(1) by (metis log_ok_def append_butlast_last_id split_on_nonempty)
  have "List.map_filter ?f (split_on (CHR 0x0A) t) = List.map_filter ?f (butlast (split_on (CHR 0x0A) t))"
    by (subst parts) (simp add: List.map_filter_def blank del: append_butlast_last_id)
  then show "parse_events dec keep (t @ l @ [CHR 0x0A]) = parse_events dec keep t @ (if keep e then [e] else [])"
    using assms(1) l blank by (simp add: parse_events_def split_on_line log_ok_def List.map_filter_def)
  show "log_ok (t @ l @ [CHR 0x0A])"
    using l by (simp add: log_ok_def split_on_line)
qed

text \<open>Recording a sequence of events, each at its time.\<close>

definition record_all ::
  "(log_event \<Rightarrow> string option) \<Rightarrow> (int \<times> log_event) list \<Rightarrow> string option \<Rightarrow> string option" where
  "record_all enc evs lg = fold (\<lambda>(now, e). record_event enc now True e) evs lg"

lemma record_all_parse:
  assumes "list_all (\<lambda>(now, e). json_line enc dec (stamp now e)) evs" and "log_ok (case lg of None \<Rightarrow> [] | Some t \<Rightarrow> t)"
  shows "parse_events dec keep (case record_all enc evs lg of None \<Rightarrow> [] | Some t \<Rightarrow> t) =
    parse_events dec keep (case lg of None \<Rightarrow> [] | Some t \<Rightarrow> t) @ filter keep (map (\<lambda>(now, e). stamp now e) evs)"
  using assms
proof (induction evs arbitrary: lg)
  case Nil
  then show ?case by (simp add: record_all_def)
next
  case (Cons x evs)
  obtain now e where x: "x = (now, e)" by (cases x)
  let ?t = "case lg of None \<Rightarrow> [] | Some t \<Rightarrow> t"
  have line: "json_line enc dec (stamp now e)" using Cons.prems(1) x by simp
  then obtain l where l: "enc (stamp now e) = Some l" by (auto simp: json_line_def split: option.splits)
  have rec: "record_event enc now True e lg = Some (?t @ l @ [CHR 0x0A])"
    using l by (simp add: record_event_def stamp_def)
  have "record_all enc (x # evs) lg = record_all enc evs (Some (?t @ l @ [CHR 0x0A]))"
    by (simp add: record_all_def x rec)
  then show ?case
    using Cons.IH [of "Some (?t @ l @ [CHR 0x0A])"] Cons.prems parse_events_line [OF Cons.prems(2) line l]
    by (simp add: x)
qed

lemma most_recent_spec: "0 < limit \<Longrightarrow> most_recent limit out = rev (take (nat limit) (rev out))"
  by (auto simp: most_recent_def take_rev nat_diff_distrib' intro!: arg_cong [where f = "\<lambda>n. drop n out"])

text \<open>
  The audit log. Events recorded one after the other on an empty or whole log are
  read back in their order, stamped with the time of their recording: a read for a
  positive limit gives the last of those kept, no more than the limit, and lines of
  an earlier log come before them.
\<close>

theorem read_recent_recorded:
  assumes "list_all (\<lambda>(now, e). json_line enc dec (stamp now e)) evs"
    and "log_ok (case lg of None \<Rightarrow> [] | Some t \<Rightarrow> t)" and "record_all enc evs lg = Some data" and "0 < limit"
  shows "read_recent dec (Inr data) keep limit =
    Inr (rev (take (nat limit) (rev (parse_events dec keep (case lg of None \<Rightarrow> [] | Some t \<Rightarrow> t) @
      filter keep (map (\<lambda>(now, e). stamp now e) evs)))))"
  using record_all_parse [OF assms(1,2), of keep] assms(3,4) by (simp add: read_recent_def most_recent_spec)

definition ex_event :: "int \<Rightarrow> log_event" where
  "ex_event pid = \<lparr>le_time = 0, le_action = ''applied'', le_target = [], le_pid = pid, le_field = ''nice'',
     le_from = ''0'', le_to = ''5'', le_note = []\<rparr>"

definition ex_enc :: "log_event \<Rightarrow> string option" where
  "ex_enc e = (if e = stamp 3 (ex_event 7) then Some ''{7}'' else if e = stamp 4 (ex_event 8) then Some ''{8}'' else None)"

definition ex_dec :: "string \<Rightarrow> log_event option" where
  "ex_dec s = (if s = ''{7}'' then Some (stamp 3 (ex_event 7)) else if s = ''{8}'' then Some (stamp 4 (ex_event 8)) else None)"

theorem read_recent_recorded_witness:
  "read_recent ex_dec (Inr (''{7}'' @ [CHR 0x0A] @ ''{8}'' @ [CHR 0x0A])) (\<lambda>_. True) 1 = Inr [stamp 4 (ex_event 8)]"
proof -
  let ?evs = "[(3, ex_event 7), (4, ex_event 8)]"
  have lines: "list_all (\<lambda>(now, e). json_line ex_enc ex_dec (stamp now e)) ?evs"
    by (simp add: json_line_def ex_enc_def ex_dec_def stamp_def ex_event_def trim_space_def trim_left_def is_space_def)
  have all: "record_all ex_enc ?evs None = Some (''{7}'' @ [CHR 0x0A] @ ''{8}'' @ [CHR 0x0A])"
    by (simp add: record_all_def record_event_def ex_enc_def stamp_def ex_event_def)
  have "log_ok []" by (simp add: log_ok_def)
  with read_recent_recorded [of ex_enc ex_dec ?evs None _ 1 "\<lambda>_. True", OF lines _ all] show ?thesis
    by (simp add: parse_events_def trim_space_def trim_left_def List.map_filter_def)
qed

end
