(* ===== verification/Tui_Model.thy ===== *)
theory Tui_Model
  imports Render_Output Query_Spec Go_Duration History
begin

text \<open>
  The explorer, \<open>internal/tui\<close>: its state (\<open>model.go\<close>), what a result does to it, folding and moving. The callbacks of the
  driver are a record of functions; a callback that acts gets the world and gives the next one. \<open>None\<close> is a panic.
  Text is UTF-8; the two edited texts are lists of runes.
\<close>

section \<open>Signs outside ASCII\<close>

definition em_dash :: string where "em_dash = [CHR 0xE2, CHR 0x80, CHR 0x94]"
definition arrow_left :: string where "arrow_left = [CHR 0xE2, CHR 0x86, CHR 0x90]"
definition arrow_up :: string where "arrow_up = [CHR 0xE2, CHR 0x86, CHR 0x91]"
definition arrow_right :: string where "arrow_right = [CHR 0xE2, CHR 0x86, CHR 0x92]"
definition arrow_down :: string where "arrow_down = [CHR 0xE2, CHR 0x86, CHR 0x93]"
definition arrow_both :: string where "arrow_both = [CHR 0xE2, CHR 0x86, CHR 0x94]"
definition caret :: string where "caret = [CHR 0xE2, CHR 0x96, CHR 0x8F]"

section \<open>Keys, requests, callbacks\<close>

text \<open>A key: a rune, empty for none, and a name.\<close>

record key_event =
  ke_rune :: string
  ke_name :: string

datatype control_kind = CtrlNice | CtrlRestoreNice | CtrlStop | CtrlContinue | CtrlFreeze | CtrlThaw | CtrlRestore

fun verb :: "control_kind \<Rightarrow> string" where
  "verb CtrlNice = ''renice''"
| "verb CtrlRestoreNice = ''restore nice''"
| "verb CtrlStop = ''stop (SIGSTOP)''"
| "verb CtrlContinue = ''continue (SIGCONT)''"
| "verb CtrlFreeze = ''freeze cgroup''"
| "verb CtrlThaw = ''thaw cgroup''"
| "verb CtrlRestore = ''restore''"

record gate_request =
  tr_pids :: "int list"
  tr_label :: string
  tr_target :: string
  tr_kind :: control_kind
  tr_nice :: int
  tr_dry_run :: bool

record column_choice =
  cc_id :: string
  cc_desc :: string
  cc_system :: bool

text \<open>What the driver installs; \<open>bk_error\<close> is the text of an error of the filter language.\<close>

record 'w backend =
  bk_control :: "(gate_request \<Rightarrow> 'w \<Rightarrow> (string, string) result \<times> 'w) option"
  bk_drop :: "(int list \<Rightarrow> 'w \<Rightarrow> (string, string) result \<times> 'w) option"
  bk_has_managed :: bool
  bk_history :: "(int \<Rightarrow> history_entry list) option"
  bk_host_panel :: "(query_result \<Rightarrow> string list) option"
  bk_filter_ops :: "(string \<Rightarrow> string list) option"
  bk_choices :: "column_choice list"
  bk_regexp :: regexp_compile
  bk_error :: "spec_error \<Rightarrow> string"

section \<open>State (\<open>model.go\<close>)\<close>

datatype panel = PanelBrowser | PanelManaged

record flat_row =
  fr_row :: row
  fr_depth :: nat
  fr_path :: string
  fr_kids :: bool
  fr_collapsed :: bool

record tui =
  tm_flags :: flags
  tm_result :: "query_result option"
  tm_cols :: "column list"
  tm_widths :: "nat list"
  tm_rows :: "flat_row list"
  tm_width :: int
  tm_height :: int
  tm_scroll :: int
  tm_cursor :: int
  tm_leaf :: nat
  tm_sort :: nat
  tm_desc :: bool
  tm_step :: int
  tm_interval :: int
  tm_status :: string
  tm_quit :: bool
  tm_dirty :: bool
  tm_paused :: bool
  tm_editing :: bool
  tm_edit :: "string list"
  tm_edit_pos :: nat
  tm_col_picker :: bool
  tm_col_filter :: "string list"
  tm_col_cursor :: int
  tm_col_scroll :: int
  tm_history :: "string list"
  tm_hist_idx :: int
  tm_collapsed :: "string \<rightharpoonup> bool"
  tm_fold_default :: bool
  tm_has_groups :: bool
  tm_confirming :: bool
  tm_previewing :: bool
  tm_nice_editing :: bool
  tm_nice_buf :: string
  tm_pending :: gate_request
  tm_preview :: string
  tm_detail :: bool
  tm_help :: bool
  tm_help_scroll :: int
  tm_panel :: panel
  tm_host_lines :: "string list"

definition leaf_modes :: "string list" where
  "leaf_modes = [''process'', ''thread'', ''none'']"

fun index_of :: "string list \<Rightarrow> string \<Rightarrow> nat option" where
  "index_of [] v = None"
| "index_of (x # xs) v = (if x = v then Some 0 else map_option Suc (index_of xs v))"

text \<open>The position of a value, 0 when it is absent.\<close>

definition index_or_zero :: "string list \<Rightarrow> string \<Rightarrow> nat" where
  "index_or_zero xs v = (case index_of xs v of Some i \<Rightarrow> i | None \<Rightarrow> 0)"

definition no_request :: gate_request where
  "no_request = \<lparr>tr_pids = [], tr_label = [], tr_target = [], tr_kind = CtrlNice, tr_nice = 0, tr_dry_run = False\<rparr>"

definition new_tui :: "flags \<Rightarrow> tui" where
  "new_tui f =
     \<lparr>tm_flags = f, tm_result = None, tm_cols = [], tm_widths = [], tm_rows = [], tm_width = 100, tm_height = 24,
      tm_scroll = 0, tm_cursor = 0,
      tm_leaf = index_or_zero leaf_modes (if flg_leaf f = [] then ''process'' else flg_leaf f),
      tm_sort = 0, tm_desc = False, tm_step = 2, tm_interval = 0,
      tm_status = (if flg_sort f \<noteq> [] then ''sorted by '' @ flg_sort f else []),
      tm_quit = False, tm_dirty = False, tm_paused = False, tm_editing = False, tm_edit = [], tm_edit_pos = 0,
      tm_col_picker = False, tm_col_filter = [], tm_col_cursor = 0, tm_col_scroll = 0, tm_history = [], tm_hist_idx = 0,
      tm_collapsed = Map.empty, tm_fold_default = flg_collapse_groups f, tm_has_groups = False, tm_confirming = False,
      tm_previewing = False, tm_nice_editing = False, tm_nice_buf = [], tm_pending = no_request, tm_preview = [],
      tm_detail = False, tm_help = False, tm_help_scroll = 0, tm_panel = PanelBrowser, tm_host_lines = []\<rparr>"

definition set_status :: "string \<Rightarrow> tui \<Rightarrow> tui" where
  "set_status s m = m\<lparr>tm_status := s\<rparr>"

definition refresh_suspended :: "tui \<Rightarrow> bool" where
  "refresh_suspended m \<longleftrightarrow> tm_paused m \<or> tm_confirming m \<or> tm_previewing m \<or> tm_nice_editing m \<or>
     tm_editing m \<or> tm_col_picker m \<or> tm_help m \<or> tm_detail m"

definition take_dirty :: "tui \<Rightarrow> bool \<times> tui" where
  "take_dirty m = (tm_dirty m, m\<lparr>tm_dirty := False\<rparr>)"

definition set_size :: "int \<Rightarrow> int \<Rightarrow> tui \<Rightarrow> tui" where
  "set_size w h m = m\<lparr>tm_width := w, tm_height := h\<rparr>"

section \<open>Intervals (\<open>frame.go\<close>)\<close>

definition intervals :: "int list" where
  "intervals = [250000000, 500000000, 1000000000, 2000000000, 5000000000]"

definition interval_hint :: "tui \<Rightarrow> int" where
  "interval_hint m =
     (if tm_interval m > 0 then tm_interval m
      else intervals ! nat (min (max (tm_step m) 0) (int (length intervals) - 1)))"

text \<open>The first preset that is nearest.\<close>

definition nearest_preset :: "int \<Rightarrow> int" where
  "nearest_preset d = fst (foldl (\<lambda>(best, best_diff) (i, iv).
     let diff = \<bar>iv - d\<bar> in if diff < best_diff then (i, diff) else (best, best_diff)) (0, 2 ^ 62)
     (zip [0 .. int (length intervals) - 1] intervals))"

definition set_interval :: "int \<Rightarrow> tui \<Rightarrow> tui" where
  "set_interval d m = (if d > 0 then m\<lparr>tm_interval := d, tm_step := nearest_preset d\<rparr> else m)"

section \<open>The visible rows\<close>

definition host_panel_height :: "tui \<Rightarrow> int" where
  "host_panel_height m = (if tm_host_lines m = [] then 0 else int (length (tm_host_lines m)) + 1)"

definition body_height :: "tui \<Rightarrow> int" where
  "body_height m = (let h = tm_height m - 3 - host_panel_height m in if h < 1 then 1 else h)"

definition is_collapsed :: "tui \<Rightarrow> string \<Rightarrow> bool" where
  "is_collapsed m path = (case tm_collapsed m path of Some v \<Rightarrow> v | None \<Rightarrow> tm_fold_default m)"

definition row_path :: "string \<Rightarrow> row \<Rightarrow> string" where
  "row_path parent r = parent @ [CHR 0x1F] @ r_key (row_data r)"

fun walk_row :: "(string \<Rightarrow> bool) \<Rightarrow> nat \<Rightarrow> string \<Rightarrow> row \<Rightarrow> flat_row list" where
  "walk_row folded depth parent (Row d sub) =
     (let path = row_path parent (Row d sub); kids = (sub \<noteq> []); shut = (kids \<and> folded path) in
      \<lparr>fr_row = Row d sub, fr_depth = depth, fr_path = path, fr_kids = kids, fr_collapsed = shut\<rparr> #
      (if shut then [] else concat (map (walk_row folded (Suc depth) path) sub)))"

definition walk_rows :: "(string \<Rightarrow> bool) \<Rightarrow> row list \<Rightarrow> flat_row list" where
  "walk_rows folded rows = concat (map (walk_row folded 0 []) rows)"

definition is_group_row :: "flat_row \<Rightarrow> bool" where
  "is_group_row fr \<longleftrightarrow> r_kind (row_data (fr_row fr)) \<in> {RowGroup, RowHost}"

definition flatten_tree :: "tui \<Rightarrow> tui" where
  "flatten_tree m =
     (case tm_result m of
        None \<Rightarrow> m\<lparr>tm_rows := []\<rparr>
      | Some res \<Rightarrow>
          let rows = walk_rows (is_collapsed m) (res_rows res)
          in m\<lparr>tm_rows := rows, tm_has_groups := list_ex is_group_row rows\<rparr>)"

definition tree_marker :: "flat_row \<Rightarrow> string" where
  "tree_marker fr = (if \<not> fr_kids fr then ''    '' else if fr_collapsed fr then ''[+] '' else ''[-] '')"

definition cell_text :: "tui \<Rightarrow> column \<Rightarrow> flat_row \<Rightarrow> string option" where
  "cell_text m c fr = map_option
     (\<lambda>cell. if co_target c then
          truncate_cell ((if tm_has_groups m then concat (replicate (fr_depth fr) ''  '') @ tree_marker fr else []) @ cell)
            (flg_target_width (tm_flags m))
        else cell) (co_cell c (row_data (fr_row fr)))"

definition compute_widths :: "tui \<Rightarrow> nat list option" where
  "compute_widths m = all_some (map (\<lambda>c. map_option (\<lambda>cells. foldl max (length (co_header c)) (map length cells))
     (all_some (map (cell_text m c) (tm_rows m)))) (tm_cols m))"

definition clamp_scroll :: "tui \<Rightarrow> tui" where
  "clamp_scroll m =
     (let body = body_height m;
          s = (if tm_cursor m < tm_scroll m then tm_cursor m else tm_scroll m);
          s = (if tm_cursor m \<ge> s + body then tm_cursor m - body + 1 else s)
      in m\<lparr>tm_scroll := (if s < 0 then 0 else s)\<rparr>)"

definition rebuild_rows :: "tui \<Rightarrow> tui option" where
  "rebuild_rows m =
     (let m = flatten_tree m; n = int (length (tm_rows m)) in
      map_option (\<lambda>ws. clamp_scroll (m\<lparr>tm_widths := ws, tm_cursor := (if tm_cursor m \<ge> n then max 0 (n - 1) else tm_cursor m)\<rparr>))
        (compute_widths m))"

definition first_sortable :: "column list \<Rightarrow> nat" where
  "first_sortable cols = (case find (\<lambda>i. co_sortable (cols ! i)) [0..<length cols] of Some i \<Rightarrow> i | None \<Rightarrow> 0)"

definition safe_idx :: "nat \<Rightarrow> nat \<Rightarrow> nat" where
  "safe_idx i n = (if i \<ge> n then 0 else i)"

definition set_result :: "'w backend \<Rightarrow> query_result \<Rightarrow> column list \<Rightarrow> tui \<Rightarrow> tui option" where
  "set_result B res cols m =
     (let m = m\<lparr>tm_result := Some res, tm_cols := cols,
            tm_host_lines := (case bk_host_panel B of Some f \<Rightarrow> f res | None \<Rightarrow> [])\<rparr>
      in rebuild_rows (if cols \<noteq> [] \<and> \<not> co_sortable (cols ! safe_idx (tm_sort m) (length cols))
           then m\<lparr>tm_sort := first_sortable cols\<rparr> else m))"

section \<open>Folding and moving (\<open>model.go\<close>, \<open>update.go\<close>)\<close>

definition flat_list_hint :: "string \<Rightarrow> string" where
  "flat_list_hint rest = ''flat list '' @ em_dash @ rest"

definition fold_all :: "bool \<Rightarrow> tui \<Rightarrow> tui option" where
  "fold_all collapse m =
     (if \<not> tm_has_groups m then Some (set_status (flat_list_hint '' press g to group first'') m)
      else rebuild_rows (m\<lparr>tm_fold_default := collapse, tm_collapsed := Map.empty,
        tm_status := (if collapse then ''all groups collapsed'' else ''all groups expanded'')\<rparr>))"

definition current_row :: "tui \<Rightarrow> flat_row option" where
  "current_row m =
     (if tm_cursor m < 0 \<or> tm_cursor m \<ge> int (length (tm_rows m)) then None else Some (tm_rows m ! nat (tm_cursor m)))"

definition set_collapsed :: "string \<Rightarrow> bool \<Rightarrow> tui \<Rightarrow> tui option" where
  "set_collapsed path v m =
     rebuild_rows (m\<lparr>tm_collapsed := (tm_collapsed m)(path \<mapsto> v), tm_status := (if v then ''collapsed'' else ''expanded'')\<rparr>)"

definition toggle_collapse :: "tui \<Rightarrow> tui option" where
  "toggle_collapse m =
     (case current_row m of
        None \<Rightarrow> Some m
      | Some fr \<Rightarrow>
          if \<not> fr_kids fr then
            Some (set_status (if tm_has_groups m then ''not a group '' @ em_dash @ '' nothing to fold''
              else flat_list_hint '' press g to group, then Enter folds'') m)
          else set_collapsed (fr_path fr) (\<not> is_collapsed m (fr_path fr)) m)"

definition move_cursor :: "int \<Rightarrow> tui \<Rightarrow> tui" where
  "move_cursor delta m =
     (let c = tm_cursor m + delta; c = (if c < 0 then 0 else c); n = int (length (tm_rows m));
          c = (if c \<ge> n then max 0 (n - 1) else c)
      in clamp_scroll (m\<lparr>tm_cursor := c\<rparr>))"

text \<open>Up to the nearest row above that is less deep.\<close>

definition move_to_parent :: "tui \<Rightarrow> tui" where
  "move_to_parent m =
     (case current_row m of
        None \<Rightarrow> m
      | Some cur \<Rightarrow>
          (case find (\<lambda>i. fr_depth (tm_rows m ! i) < fr_depth cur) (rev [0..<nat (tm_cursor m)]) of
             None \<Rightarrow> m
           | Some i \<Rightarrow> clamp_scroll (m\<lparr>tm_cursor := int i\<rparr>)))"

definition collapse_or_parent :: "tui \<Rightarrow> tui option" where
  "collapse_or_parent m =
     (case current_row m of
        None \<Rightarrow> Some m
      | Some fr \<Rightarrow>
          if fr_kids fr \<and> \<not> is_collapsed m (fr_path fr) then set_collapsed (fr_path fr) True m else Some (move_to_parent m))"

definition expand_or_child :: "tui \<Rightarrow> tui option" where
  "expand_or_child m =
     (case current_row m of
        None \<Rightarrow> Some m
      | Some fr \<Rightarrow>
          if \<not> fr_kids fr then Some m
          else if is_collapsed m (fr_path fr) then set_collapsed (fr_path fr) False m
          else Some (move_cursor 1 m))"

end
