(* ===== verification/Tui_Filter.thy ===== *)
theory Tui_Filter
  imports Tui_Model
begin

text \<open>
  The filter editor of the explorer (\<open>tui/filter.go\<close>, the editing half of \<open>tui/update.go\<close>) and its column picker
  (\<open>tui/columns.go\<close>).
\<close>

section \<open>The autocomplete context (\<open>filter.go\<close>)\<close>

datatype filter_ctx = CtxSubstring | CtxColumn | CtxOperator | CtxValue

record filter_state =
  fs_ctx :: filter_ctx
  fs_start :: nat
  fs_token :: string
  fs_suggest :: "string list"

definition autofills :: "filter_state \<Rightarrow> bool" where
  "autofills s \<longleftrightarrow> (fs_ctx s = CtxColumn \<or> fs_ctx s = CtxOperator) \<and> fs_suggest s \<noteq> []"

text \<open>\<open>strings.LastIndex\<close>: the last position at which a text starts.\<close>

definition last_index :: "string \<Rightarrow> string \<Rightarrow> nat option" where
  "last_index s sub = find (\<lambda>i. has_prefix (drop i s) sub) (rev [0..<Suc (length s)])"

text \<open>The byte after the last \<open>&&\<close> or \<open>||\<close>, and whether there is none.\<close>

definition last_clause_start :: "string \<Rightarrow> nat \<times> bool" where
  "last_clause_start head =
     (case (last_index head ''&&'', last_index head ''||'') of
        (None, None) \<Rightarrow> (0, True)
      | (Some i, None) \<Rightarrow> (i + 2, False)
      | (None, Some j) \<Rightarrow> (j + 2, False)
      | (Some i, Some j) \<Rightarrow> (max i j + 2, False))"

definition ops_for :: "'w backend \<Rightarrow> string \<Rightarrow> string list" where
  "ops_for B field =
     (case bk_filter_ops B of
        Some f \<Rightarrow> f field
      | None \<Rightarrow> [''=='', ''!='', ''~='', ''contains'', ''<'', ''>'', ''<='', ''>='', ''in''])"

definition prefix_filter :: "string list \<Rightarrow> string \<Rightarrow> string list" where
  "prefix_filter xs token = (if token = [] then xs else filter (\<lambda>s. has_prefix (to_lower s) (to_lower token)) xs)"

definition filterable_list :: "tui \<Rightarrow> string list" where
  "filterable_list m = map co_id (filter co_filterable (tm_cols m))"

definition filter_state_of :: "'w backend \<Rightarrow> tui \<Rightarrow> filter_state" where
  "filter_state_of B m =
     (let head = concat (take (tm_edit_pos m) (tm_edit m));
          (clause_start, first_clause) = last_clause_start head;
          clause = drop clause_start head;
          word = (case last_index clause '' '' of Some i \<Rightarrow> i + 1 | None \<Rightarrow> 0);
          token_start = clause_start + word;
          token = drop token_start head;
          start = length (runes (take token_start head))
      in case Go_Strings.fields (take word clause) of
           [] \<Rightarrow> \<lparr>fs_ctx = (if first_clause then CtxSubstring else CtxColumn), fs_start = start, fs_token = token,
               fs_suggest = prefix_filter (filterable_list m) token\<rparr>
         | [f] \<Rightarrow> \<lparr>fs_ctx = CtxOperator, fs_start = start, fs_token = token, fs_suggest = prefix_filter (ops_for B f) token\<rparr>
         | _ \<Rightarrow> \<lparr>fs_ctx = CtxValue, fs_start = start, fs_token = token, fs_suggest = []\<rparr>)"

text \<open>The partial token replaced by the first suggestion and a blank; \<open>None\<close> if there is none to take.\<close>

definition apply_suggestion :: "filter_state \<Rightarrow> tui \<Rightarrow> tui option" where
  "apply_suggestion fs m =
     (case fs_suggest fs of
        [] \<Rightarrow> None
      | s # _ \<Rightarrow>
          let fill = runes (s @ '' '') in
          Some (m\<lparr>tm_edit := take (fs_start fs) (tm_edit m) @ fill @ drop (tm_edit_pos m) (tm_edit m),
                  tm_edit_pos := fs_start fs + length fill\<rparr>))"

definition filter_tab :: "'w backend \<Rightarrow> tui \<Rightarrow> tui option" where
  "filter_tab B m = (let fs = filter_state_of B m in if fs_suggest fs = [] then Some m else apply_suggestion fs m)"

definition suggest_hint :: "'w backend \<Rightarrow> tui \<Rightarrow> string" where
  "suggest_hint B m =
     (let fs = filter_state_of B m in
      case take 8 (fs_suggest fs) of
        [] \<Rightarrow> []
      | s # ss \<Rightarrow> (if fs_ctx fs = CtxOperator then ''ops'' else ''cols'') @ '': '' @
          join '' '' ((if autofills fs then ''['' @ s @ '']'' else s) # ss))"

section \<open>Editing (\<open>update.go\<close>)\<close>

definition start_filter :: "tui \<Rightarrow> tui" where
  "start_filter m =
     (let buf = runes (flg_having (tm_flags m)) in
      m\<lparr>tm_editing := True, tm_edit := buf, tm_edit_pos := length buf, tm_hist_idx := int (length (tm_history m)),
        tm_status := ''one word = target substring (case-insensitive); '' @
          ''add a space to filter by a column; && || to chain; Tab/Enter autofill '' @ middle_dot @ '' Esc cancel''\<rparr>)"

definition edit_space :: "string \<Rightarrow> bool" where
  "edit_space r \<longleftrightarrow> r = '' '' \<or> r = [CHR 0x09]"

text \<open>Over the blanks and then over the word before, or after, a position. A position past the end panics.\<close>

definition word_left :: "string list \<Rightarrow> nat \<Rightarrow> nat option" where
  "word_left rs pos =
     (if pos > length rs then None
      else Some (length (dropWhile (\<lambda>r. \<not> edit_space r) (dropWhile edit_space (rev (take pos rs))))))"

definition word_right :: "string list \<Rightarrow> nat \<Rightarrow> nat" where
  "word_right rs pos =
     (let rest = drop pos rs in
      if pos \<ge> length rs then pos
      else length rs - length (dropWhile (\<lambda>r. \<not> edit_space r) (dropWhile edit_space rest)))"

definition history_move :: "int \<Rightarrow> tui \<Rightarrow> tui" where
  "history_move dir m =
     (let i = tm_hist_idx m + dir; i = (if i < 0 then 0 else i); n = int (length (tm_history m));
          (i, buf) = (if i \<ge> n then (n, []) else (i, runes (tm_history m ! nat i)))
      in m\<lparr>tm_hist_idx := i, tm_edit := buf, tm_edit_pos := length buf\<rparr>)"

text \<open>\<open>None\<close>: the key is not one of these; the inner option is the panic.\<close>

definition edit_nav :: "key_event \<Rightarrow> tui \<Rightarrow> tui option option" where
  "edit_nav ev m =
     (let r = tm_edit m; pos = tm_edit_pos m; k = ke_name ev in
      if k = ''left'' then Some (Some (m\<lparr>tm_edit_pos := pos - 1\<rparr>))
      else if k = ''right'' then Some (Some (m\<lparr>tm_edit_pos := min (length r) (pos + 1)\<rparr>))
      else if k = ''home'' then Some (Some (m\<lparr>tm_edit_pos := 0\<rparr>))
      else if k = ''end'' then Some (Some (m\<lparr>tm_edit_pos := length r\<rparr>))
      else if k = ''ctrl-left'' then Some (map_option (\<lambda>p. m\<lparr>tm_edit_pos := p\<rparr>) (word_left r pos))
      else if k = ''ctrl-right'' then Some (Some (m\<lparr>tm_edit_pos := word_right r pos\<rparr>))
      else if k = ''up'' then Some (Some (history_move (- 1) m))
      else if k = ''down'' then Some (Some (history_move 1 m))
      else None)"

definition edit_insert :: "string \<Rightarrow> tui \<Rightarrow> tui" where
  "edit_insert rn m =
     (let pos = min (tm_edit_pos m) (length (tm_edit m)) in
      m\<lparr>tm_edit := take pos (tm_edit m) @ [rn] @ drop pos (tm_edit m), tm_edit_pos := pos + 1\<rparr>)"

definition edit_backspace :: "tui \<Rightarrow> tui option" where
  "edit_backspace m =
     (let pos = tm_edit_pos m; r = tm_edit m in
      if pos = 0 \<or> r = [] then Some m
      else if pos > length r then None
      else Some (m\<lparr>tm_edit := take (pos - 1) r @ drop pos r, tm_edit_pos := pos - 1\<rparr>))"

definition edit_delete :: "tui \<Rightarrow> tui" where
  "edit_delete m =
     (let pos = tm_edit_pos m; r = tm_edit m in
      if pos \<ge> length r then m else m\<lparr>tm_edit := take pos r @ drop (pos + 1) r\<rparr>)"

text \<open>\<open>regexp.QuoteMeta\<close>.\<close>

definition quote_meta :: "string \<Rightarrow> string" where
  "quote_meta s = concat (map (\<lambda>c. if c \<in> set (''.+*?()|[]{}^$'' @ [CHR 0x5C]) then [CHR 0x5C, c] else [c]) s)"

definition bare_search :: "string \<Rightarrow> string" where
  "bare_search s =
     (if contains_any s ('' =<>~!()[]'' @ [CHR 0x09, CHR 0x22, CHR 0x27]) \<or> contains s ''&&'' \<or> contains s ''||'' then s
      else ''target ~= '' @ [CHR 0x22] @ ''(?i)'' @ quote_meta s @ [CHR 0x22])"

definition push_history :: "string \<Rightarrow> tui \<Rightarrow> tui" where
  "push_history s m =
     (let h = (if tm_history m = [] \<or> last (tm_history m) \<noteq> s then tm_history m @ [s] else tm_history m)
      in m\<lparr>tm_history := h, tm_hist_idx := int (length h)\<rparr>)"

definition set_having :: "string \<Rightarrow> tui \<Rightarrow> tui" where
  "set_having s m = m\<lparr>tm_flags := (tm_flags m)\<lparr>flg_having := s\<rparr>\<rparr>"

definition apply_filter :: "'w backend \<Rightarrow> tui \<Rightarrow> tui" where
  "apply_filter B m =
     (let s = trim_space (concat (tm_edit m)) in
      if s = [] then (set_having [] m)\<lparr>tm_editing := False, tm_status := ''filter cleared'', tm_dirty := True\<rparr>
      else let full = bare_search s in
        (case compile (bk_regexp B) full of
           Inl e \<Rightarrow> set_status (''filter error: '' @ bk_error B (ExprFailed e)) m
         | Inr prog \<Rightarrow>
             (case validate (\<lambda>f. f \<in> set (filterable_list m)) prog of
                Some f \<Rightarrow> set_status (''filter: '' @ bk_error B (FieldNotAllowed f) @ '' (only displayed columns)'') m
              | None \<Rightarrow>
                  (push_history s (set_having full m))\<lparr>tm_editing := False, tm_status := ''filter: '' @ full, tm_dirty := True\<rparr>)))"

definition edit_key :: "'w backend \<Rightarrow> key_event \<Rightarrow> tui \<Rightarrow> tui option" where
  "edit_key B ev m =
     (case edit_nav ev m of
        Some r \<Rightarrow> r
      | None \<Rightarrow>
          if ke_name ev = ''enter'' then
            (let fs = filter_state_of B m in if autofills fs then apply_suggestion fs m else Some (apply_filter B m))
          else if ke_name ev = ''tab'' then filter_tab B m
          else if ke_name ev = ''esc'' \<or> ke_name ev = ''ctrl-c'' then
            Some (m\<lparr>tm_editing := False, tm_status := ''filter cancelled''\<rparr>)
          else if ke_name ev = ''backspace'' then edit_backspace m
          else if ke_name ev = ''delete'' then Some (edit_delete m)
          else if ke_rune ev \<noteq> [] then Some (edit_insert (ke_rune ev) m)
          else Some m)"

section \<open>The column picker (\<open>columns.go\<close>)\<close>

definition open_column_picker :: "'w backend \<Rightarrow> tui \<Rightarrow> tui" where
  "open_column_picker B m =
     (if bk_choices B = [] then set_status ''column catalog unavailable'' m
      else m\<lparr>tm_col_picker := True, tm_col_filter := [], tm_col_cursor := 0, tm_col_scroll := 0\<rparr>)"

definition filtered_choices :: "'w backend \<Rightarrow> tui \<Rightarrow> column_choice list" where
  "filtered_choices B m =
     (let f = to_lower (trim_space (concat (tm_col_filter m))) in
      if f = [] then bk_choices B
      else filter (\<lambda>c. contains (to_lower (cc_id c)) f \<or> contains (to_lower (cc_desc c)) f) (bk_choices B))"

definition shown_column :: "tui \<Rightarrow> string \<Rightarrow> bool" where
  "shown_column m i \<longleftrightarrow> i \<in> set (map co_id (tm_cols m)) \<or>
     (case tm_result m of Some res \<Rightarrow> res_host_metrics res i \<noteq> None | None \<Rightarrow> False)"

definition toggle_system_metric :: "string \<Rightarrow> tui \<Rightarrow> tui" where
  "toggle_system_metric i m =
     (let on = (\<not> shown_column m i);
          kept = filter (\<lambda>o'. dropWhile (\<lambda>c. c = CHR ''+'' \<or> c = CHR ''-'') o' \<noteq> i) (flg_overrides (tm_flags m))
      in m\<lparr>tm_flags := (tm_flags m)\<lparr>flg_overrides := kept @ [(if on then ''+'' else ''-'') @ i]\<rparr>,
           tm_status := (if on then ''added'' else ''removed'') @ '' system metric: '' @ i, tm_dirty := True\<rparr>)"

definition set_columns :: "string list \<Rightarrow> string \<Rightarrow> tui \<Rightarrow> tui" where
  "set_columns cols status m =
     m\<lparr>tm_flags := (tm_flags m)\<lparr>flg_columns := join '','' cols\<rparr>, tm_status := status, tm_dirty := True\<rparr>"

definition current_column_ids :: "tui \<Rightarrow> string list" where
  "current_column_ids m = map co_id (tm_cols m)"

definition append_column :: "string \<Rightarrow> tui \<Rightarrow> tui" where
  "append_column i m = set_columns (current_column_ids m @ [i]) (''added column: '' @ i) m"

definition remove_column :: "string \<Rightarrow> tui \<Rightarrow> tui" where
  "remove_column i m =
     (let rest = filter (\<lambda>c. c \<noteq> i) (current_column_ids m) in
      if i = ''target'' then set_status ''target column is required'' m
      else if rest = [] then set_status ''cannot remove the last column'' m
      else set_columns rest (''removed column: '' @ i) m)"

definition remove_last_column :: "tui \<Rightarrow> tui" where
  "remove_last_column m =
     (if current_column_ids m = [] then m else remove_column (last (current_column_ids m)) m)"

definition toggle_highlighted :: "'w backend \<Rightarrow> tui \<Rightarrow> tui" where
  "toggle_highlighted B m =
     (let cs = filtered_choices B m in
      if tm_col_cursor m < 0 \<or> tm_col_cursor m \<ge> int (length cs) then m
      else let c = cs ! nat (tm_col_cursor m) in
        if cc_system c then toggle_system_metric (cc_id c) m
        else if shown_column m (cc_id c) then remove_column (cc_id c) m
        else append_column (cc_id c) m)"

definition col_body_height :: "tui \<Rightarrow> int" where
  "col_body_height m = (let h = tm_height m - 2 in if h < 1 then 1 else h)"

definition move_col_cursor :: "'w backend \<Rightarrow> int \<Rightarrow> tui \<Rightarrow> tui" where
  "move_col_cursor B delta m =
     (let n = int (length (filtered_choices B m)); c = tm_col_cursor m + delta; c = (if c < 0 then 0 else c);
          c = (if c \<ge> n then max 0 (n - 1) else c); body = col_body_height m;
          s = (if c < tm_col_scroll m then c else tm_col_scroll m);
          s = (if c \<ge> s + body then c - body + 1 else s)
      in m\<lparr>tm_col_cursor := c, tm_col_scroll := (if s < 0 then 0 else s)\<rparr>)"

definition set_col_filter :: "string list \<Rightarrow> tui \<Rightarrow> tui" where
  "set_col_filter f m = m\<lparr>tm_col_filter := f, tm_col_cursor := 0, tm_col_scroll := 0\<rparr>"

definition col_key :: "'w backend \<Rightarrow> key_event \<Rightarrow> tui \<Rightarrow> tui" where
  "col_key B ev m =
     (let k = ke_name ev in
      if k = ''esc'' \<or> k = ''ctrl-c'' then m\<lparr>tm_col_picker := False, tm_status := ''columns''\<rparr>
      else if k = ''enter'' then toggle_highlighted B m
      else if k = ''up'' then move_col_cursor B (- 1) m
      else if k = ''down'' then move_col_cursor B 1 m
      else if k = ''pgup'' then move_col_cursor B (- col_body_height m) m
      else if k = ''pgdn'' then move_col_cursor B (col_body_height m) m
      else if k = ''backspace'' then (if tm_col_filter m = [] then m else set_col_filter (butlast (tm_col_filter m)) m)
      else if ke_rune ev \<noteq> [] then set_col_filter (tm_col_filter m @ [ke_rune ev]) m
      else m)"

end
