(* ===== verification/Tui_Update.thy ===== *)
theory Tui_Update
  imports Tui_Filter
begin

text \<open>
  The key handling of the explorer: control with its confirmation gate (\<open>tui/control.go\<close>), the managed panel
  (\<open>managed.go\<close>), the overlays (\<open>help.go\<close>, \<open>detail.go\<close>), the other keys and \<open>Update\<close> (\<open>update.go\<close>), the events of the
  loop (\<open>tui.go\<close>). A handler works on the state and the world behind the callbacks.
\<close>

type_synonym 'w handler = "tui \<times> 'w \<Rightarrow> (tui \<times> 'w) option"

section \<open>Control (\<open>control.go\<close>)\<close>

definition row_pid :: "row_data \<Rightarrow> int" where
  "row_pid r = (case r_process r of Some p \<Rightarrow> p_pid p
     | None \<Rightarrow> (case r_thread r of Some t \<Rightarrow> id_pid (tid_process (th_id t)) | None \<Rightarrow> 0))"

text \<open>The pids of a row and the rows under it, each once, in the order of the tree.\<close>

definition collect_pids :: "row \<Rightarrow> int list" where
  "collect_pids r = first_seen [] (filter (\<lambda>p. p \<noteq> 0) (map row_pid (nodes r)))"

definition control_target :: "tui \<Rightarrow> (int list \<times> string) option" where
  "control_target m = map_option (\<lambda>fr. (collect_pids (fr_row fr), r_label (row_data (fr_row fr)))) (current_row m)"

text \<open>The preview, and the gate.\<close>

definition begin_confirm :: "'w backend \<Rightarrow> gate_request \<Rightarrow> 'w handler" where
  "begin_confirm B req = (\<lambda>(m, w).
     (case bk_control B of
        None \<Rightarrow> None
      | Some control \<Rightarrow>
          let req = req\<lparr>tr_dry_run := True\<rparr>; (res, w) = control req w in
          (case res of
             Inl e \<Rightarrow> Some (set_status (''control: '' @ e) m, w)
           | Inr preview \<Rightarrow>
               Some (m\<lparr>tm_pending := req, tm_preview := preview, tm_confirming := True, tm_previewing := False\<rparr>, w))))"

definition start_control :: "'w backend \<Rightarrow> control_kind \<Rightarrow> 'w handler" where
  "start_control B kind = (\<lambda>(m, w).
     (if bk_control B = None then Some (set_status ''control unavailable'' m, w)
      else (case control_target m of
          None \<Rightarrow> Some (set_status ''no controllable processes under the selection'' m, w)
        | Some (pids, label) \<Rightarrow>
            if pids = [] then Some (set_status ''no controllable processes under the selection'' m, w)
            else
              let req = \<lparr>tr_pids = pids, tr_label = label, tr_target = [], tr_kind = kind, tr_nice = 0, tr_dry_run = False\<rparr> in
              if kind = CtrlNice then
                Some (m\<lparr>tm_pending := req, tm_nice_editing := True, tm_nice_buf := [],
                  tm_status := ''nice value -20..19 (Enter=preview, Esc=cancel)''\<rparr>, w)
              else begin_confirm B req (m, w))))"

definition nice_char :: "string \<Rightarrow> bool" where
  "nice_char r \<longleftrightarrow> (case r of [c] \<Rightarrow> c = CHR ''-'' \<or> is_digit c | _ \<Rightarrow> False)"

definition nice_key :: "'w backend \<Rightarrow> key_event \<Rightarrow> 'w handler" where
  "nice_key B ev = (\<lambda>(m, w).
     (if ke_name ev = ''enter'' then
        (case atoi (trim_space (tm_nice_buf m)) of
           (_, Some _) \<Rightarrow> Some (set_status ''nice must be an integer -20..19'' m, w)
         | (n, None) \<Rightarrow>
             let m = m\<lparr>tm_nice_editing := False, tm_pending := (tm_pending m)\<lparr>tr_nice := n\<rparr>\<rparr>
             in begin_confirm B (tm_pending m) (m, w))
      else if ke_name ev = ''esc'' \<or> ke_name ev = ''ctrl-c'' then
        Some (m\<lparr>tm_nice_editing := False, tm_status := ''cancelled''\<rparr>, w)
      else if ke_name ev = ''backspace'' then Some (m\<lparr>tm_nice_buf := butlast (tm_nice_buf m)\<rparr>, w)
      else if nice_char (ke_rune ev) then Some (m\<lparr>tm_nice_buf := tm_nice_buf m @ ke_rune ev\<rparr>, w)
      else Some (m, w)))"

definition confirm_key :: "'w backend \<Rightarrow> key_event \<Rightarrow> 'w handler" where
  "confirm_key B ev = (\<lambda>(m, w).
     (if ke_rune ev = ''y'' \<or> ke_rune ev = ''Y'' then
        (case bk_control B of
           None \<Rightarrow> None
         | Some control \<Rightarrow>
             let (res, w) = control ((tm_pending m)\<lparr>tr_dry_run := False\<rparr>) w; m = m\<lparr>tm_confirming := False\<rparr> in
             (case res of
                Inl e \<Rightarrow> Some (set_status (''control: '' @ e) m, w)
              | Inr out \<Rightarrow> Some (m\<lparr>tm_status := out, tm_dirty := True\<rparr>, w)))
      else if ke_rune ev = ''v'' \<or> ke_rune ev = ''V'' then Some (m\<lparr>tm_previewing := True\<rparr>, w)
      else if ke_name ev = ''esc'' \<or> ke_name ev = ''ctrl-c'' \<or> ke_rune ev = ''n'' \<or> ke_rune ev = ''N'' \<or> ke_rune ev = ''q'' then
        Some (m\<lparr>tm_confirming := False, tm_status := ''control cancelled''\<rparr>, w)
      else Some (m, w)))"

section \<open>The managed panel (\<open>managed.go\<close>)\<close>

definition toggle_panel :: "'w backend \<Rightarrow> tui \<Rightarrow> tui" where
  "toggle_panel B m =
     (if \<not> bk_has_managed B then set_status ''managed panel unavailable'' m
      else (if tm_panel m = PanelBrowser then m\<lparr>tm_panel := PanelManaged, tm_status := ''managed targets''\<rparr>
            else m\<lparr>tm_panel := PanelBrowser, tm_status := []\<rparr>)
        \<lparr>tm_cursor := 0, tm_scroll := 0, tm_dirty := True\<rparr>)"

definition drop_selected :: "'w backend \<Rightarrow> 'w handler" where
  "drop_selected B = (\<lambda>(m, w).
     (case (bk_drop B, tm_panel m = PanelManaged, current_row m) of
        (Some drop_pids, True, Some fr) \<Rightarrow>
          let pids = collect_pids (fr_row fr) in
          if pids = [] then Some (set_status ''nothing to drop under the selection'' m, w)
          else let (res, w) = drop_pids pids w in
            Some (m\<lparr>tm_status := (case res of Inl e \<Rightarrow> ''drop: '' @ e | Inr s \<Rightarrow> s), tm_dirty := True\<rparr>, w)
      | _ \<Rightarrow> Some (m, w)))"

section \<open>Overlays (\<open>help.go\<close>, \<open>detail.go\<close>)\<close>

definition help_entries :: "'w backend \<Rightarrow> (string \<times> string) list" where
  "help_entries B =
     [([], ''NAVIGATION''),
      (arrow_up @ ''/'' @ arrow_down @ ''  k/j'', ''move the cursor''),
      (''PgUp/PgDn'', ''page up / down''),
      (''Enter'', ''fold / unfold the group under the cursor''),
      (arrow_left @ '' / '' @ arrow_right, ''collapse-or-parent / expand-or-child''),
      (''c / C'', ''fold all groups / unfold all groups''),
      ([], []),
      ([], ''VIEW''),
      (''g'', ''cycle grouping '' @ em_dash @ '' presets + any displayed dimension column (wchan, state, user, '' @ ellipsis @ '')''),
      (''t'', ''cycle the leaf mode (process/thread/none)''),
      (''s / S'', ''cycle sort column / toggle asc'' @ arrow_both @ ''desc''),
      (''/  or  f'', ''filter '' @ em_dash @
        '' one word=target substring; +space=column filter w/ operator autosuggest (Tab/Enter autofill)''),
      (''+'', ''column picker '' @ em_dash @
        '' type to filter, Enter toggles on/off ([system] items go to the system panel), Esc closes''),
      (''-'', ''quick-drop the rightmost column''),
      (''u'', ''toggle human units (K/M/G) vs raw''),
      (''i'', ''inspect the selected row (identity + history)''),
      (''[ / ]'', ''faster / slower refresh interval''),
      (''p / Space'', ''pause / resume auto-refresh''),
      (''r'', ''refresh once'')] @
     (if bk_control B \<noteq> None then
        [([], []), ([], ''CONTROL  (lowercase applies, UPPERCASE lifts)''),
         (''n / N'', ''renice / restore original nice''),
         (''x / X'', ''stop (SIGSTOP) / continue (SIGCONT)''),
         (''z / Z'', ''freeze / thaw the whole cgroup subtree''),
         ([], ''each previews first '' @ em_dash @ '' y confirms, v = full forecast'')] else []) @
     (if bk_has_managed B then
        [([], []), ([], ''PANELS''),
         (''Tab'', ''switch between the browser and managed panel''),
         (''d'', ''managed panel: drop a target (stop tracking)'')] else []) @
     [([], []), ([], ''GENERAL''), (''?'', ''toggle this help''), (''q / Ctrl-C'', ''quit (prints the equivalent procfit ps command)'')]"

definition open_help :: "tui \<Rightarrow> tui" where
  "open_help m = m\<lparr>tm_help := True, tm_help_scroll := 0, tm_status := []\<rparr>"

definition clamp_help_scroll :: "'w backend \<Rightarrow> tui \<Rightarrow> tui" where
  "clamp_help_scroll B m =
     (let top = int (length (help_entries B)) - body_height m; s = tm_help_scroll m; s = (if s > top then top else s)
      in m\<lparr>tm_help_scroll := (if s < 0 then 0 else s)\<rparr>)"

definition help_key :: "'w backend \<Rightarrow> key_event \<Rightarrow> tui \<Rightarrow> tui" where
  "help_key B ev m = clamp_help_scroll B
     (if ke_rune ev = ''?'' \<or> ke_rune ev = ''q'' \<or> ke_name ev = ''esc'' \<or> ke_name ev = ''ctrl-c'' then m\<lparr>tm_help := False\<rparr>
      else if ke_name ev = ''down'' \<or> ke_rune ev = ''j'' then m\<lparr>tm_help_scroll := tm_help_scroll m + 1\<rparr>
      else if ke_name ev = ''up'' \<or> ke_rune ev = ''k'' then m\<lparr>tm_help_scroll := tm_help_scroll m - 1\<rparr>
      else if ke_name ev = ''pgdn'' then m\<lparr>tm_help_scroll := tm_help_scroll m + body_height m\<rparr>
      else if ke_name ev = ''pgup'' then m\<lparr>tm_help_scroll := tm_help_scroll m - body_height m\<rparr>
      else m)"

definition open_detail :: "tui \<Rightarrow> tui" where
  "open_detail m = (if current_row m = None then m else m\<lparr>tm_detail := True, tm_status := []\<rparr>)"

definition detail_key :: "key_event \<Rightarrow> tui \<Rightarrow> tui" where
  "detail_key ev m =
     (if ke_rune ev = ''i'' \<or> ke_rune ev = ''q'' \<or> ke_name ev = ''esc'' \<or> ke_name ev = ''ctrl-c'' then m\<lparr>tm_detail := False\<rparr> else m)"

section \<open>The view keys (\<open>update.go\<close>)\<close>

definition quit_action :: "tui \<Rightarrow> tui" where "quit_action m = m\<lparr>tm_quit := True\<rparr>"

definition refresh_action :: "tui \<Rightarrow> tui" where
  "refresh_action m = m\<lparr>tm_dirty := True, tm_status := ''refreshing''\<rparr>"

definition toggle_pause :: "tui \<Rightarrow> tui" where
  "toggle_pause m =
     (if \<not> tm_paused m then m\<lparr>tm_paused := True,
        tm_status := ''paused '' @ em_dash @ '' auto-refresh off (p/space resumes, r refreshes once)''\<rparr>
      else m\<lparr>tm_paused := False, tm_status := ''resumed'', tm_dirty := True\<rparr>)"

definition toggle_units :: "tui \<Rightarrow> tui" where
  "toggle_units m =
     (let h = (\<not> flg_human (tm_flags m)) in
      m\<lparr>tm_flags := (tm_flags m)\<lparr>flg_human := h\<rparr>,
        tm_status := ''units: '' @ (if h then ''human (K/M/G)'' else ''raw bytes''), tm_dirty := True\<rparr>)"

definition group_presets :: "(string \<times> string) list" where
  "group_presets = [(''ungrouped'', ''none''), (''by comm'', ''comm''), (''by name'', ''name''), (''by user'', ''user''),
     (''by app'', ''app''), (''by namespace-set'', ''namespace-set,comm'')]"

text \<open>The presets, then the displayed columns that are dimensions, each once.\<close>

definition group_cycle :: "tui \<Rightarrow> (string \<times> string) list" where
  "group_cycle m = foldl (\<lambda>out c. if co_groupable c \<and> co_id c \<notin> set (map snd out) then out @ [(''by '' @ co_id c, co_id c)] else out)
     group_presets (tm_cols m)"

definition cycle_group :: "tui \<Rightarrow> tui" where
  "cycle_group m =
     (let cycle = group_cycle m; cur = index_or_zero (map snd cycle) (flg_group_by (tm_flags m));
          next_preset = cycle ! ((cur + 1) mod length cycle)
      in m\<lparr>tm_flags := (tm_flags m)\<lparr>flg_group_by := snd next_preset\<rparr>, tm_cursor := 0, tm_scroll := 0,
           tm_status := ''group: '' @ fst next_preset, tm_dirty := True\<rparr>)"

definition cycle_leaf :: "tui \<Rightarrow> tui" where
  "cycle_leaf m =
     (let i = (tm_leaf m + 1) mod length leaf_modes; leaf = leaf_modes ! i in
      m\<lparr>tm_leaf := i, tm_flags := (tm_flags m)\<lparr>flg_leaf := leaf\<rparr>, tm_cursor := 0, tm_scroll := 0,
        tm_status := ''leaf: '' @ leaf, tm_dirty := True\<rparr>)"

text \<open>The column at the sort position: past the end it panics.\<close>

definition apply_sort :: "tui \<Rightarrow> tui option" where
  "apply_sort m =
     (if tm_cols m = [] then Some m
      else if tm_sort m \<ge> length (tm_cols m) then None
      else
        let s = co_id (tm_cols m ! tm_sort m) @ '':'' @ (if tm_desc m then ''desc'' else ''asc'') in
        Some (m\<lparr>tm_flags := (tm_flags m)\<lparr>flg_sort := s\<rparr>, tm_status := ''sort: '' @ s, tm_dirty := True\<rparr>))"

definition cycle_sort :: "tui \<Rightarrow> tui option" where
  "cycle_sort m =
     (let n = length (tm_cols m) in
      case find (\<lambda>i. co_sortable (tm_cols m ! i)) (map (\<lambda>i. (tm_sort m + i) mod n) [1..<Suc n]) of
        Some i \<Rightarrow> apply_sort (m\<lparr>tm_sort := i\<rparr>)
      | None \<Rightarrow> Some (set_status ''no sortable columns'' m))"

definition toggle_sort_dir :: "tui \<Rightarrow> tui option" where
  "toggle_sort_dir m = apply_sort (m\<lparr>tm_desc := \<not> tm_desc m\<rparr>)"

definition adjust_interval :: "int \<Rightarrow> tui \<Rightarrow> tui" where
  "adjust_interval step m =
     (let m = (if tm_interval m > 0 then m\<lparr>tm_step := nearest_preset (tm_interval m), tm_interval := 0\<rparr> else m);
          m = m\<lparr>tm_step := tm_step m + step\<rparr>
      in set_status (''interval: '' @ show_duration (interval_hint m)) m)"

section \<open>\<open>Update\<close>\<close>

text \<open>A handler that only looks at the state, total or not.\<close>

definition local_step :: "(tui \<Rightarrow> tui option) \<Rightarrow> 'w handler" where
  "local_step f = (\<lambda>(m, w). map_option (\<lambda>m. (m, w)) (f m))"

definition pure_step :: "(tui \<Rightarrow> tui) \<Rightarrow> 'w handler" where
  "pure_step f = (\<lambda>(m, w). Some (f m, w))"

definition name_keys :: "string \<Rightarrow> 'w handler option" where
  "name_keys k = map_of
     [(''ctrl-c'', pure_step quit_action), (''up'', pure_step (move_cursor (- 1))), (''down'', pure_step (move_cursor 1)),
      (''pgup'', pure_step (\<lambda>m. move_cursor (- body_height m) m)), (''pgdn'', pure_step (\<lambda>m. move_cursor (body_height m) m)),
      (''enter'', local_step toggle_collapse), (''left'', local_step collapse_or_parent), (''right'', local_step expand_or_child)] k"

definition rune_keys :: "'w backend \<Rightarrow> string \<Rightarrow> 'w handler option" where
  "rune_keys B r = map_of
     [(''q'', pure_step quit_action), (''k'', pure_step (move_cursor (- 1))), (''j'', pure_step (move_cursor 1)),
      (''g'', pure_step cycle_group), (''c'', local_step (fold_all True)), (''C'', local_step (fold_all False)),
      (''t'', pure_step cycle_leaf), (''i'', pure_step open_detail), (''?'', pure_step open_help),
      (''s'', local_step cycle_sort), (''S'', local_step toggle_sort_dir), (''r'', pure_step refresh_action),
      (''p'', pure_step toggle_pause), ('' '', pure_step toggle_pause), (''u'', pure_step toggle_units),
      (''n'', start_control B CtrlNice), (''N'', start_control B CtrlRestoreNice),
      (''x'', start_control B CtrlStop), (''X'', start_control B CtrlContinue),
      (''z'', start_control B CtrlFreeze), (''Z'', start_control B CtrlThaw),
      (''d'', drop_selected B), (''/'', pure_step start_filter), (''f'', pure_step start_filter),
      (''+'', pure_step (open_column_picker B)), (''-'', pure_step remove_last_column),
      (''['', pure_step (adjust_interval (- 1))), ('']'', pure_step (adjust_interval 1))] r"

definition update :: "'w backend \<Rightarrow> key_event \<Rightarrow> 'w handler" where
  "update B ev = (\<lambda>(m, w).
     (if tm_confirming m then
        (if tm_previewing m then Some (m\<lparr>tm_previewing := False\<rparr>, w) else confirm_key B ev (m, w))
      else if tm_nice_editing m then nice_key B ev (m, w)
      else if tm_editing m then local_step (edit_key B ev) (m, w)
      else if tm_col_picker m then pure_step (col_key B ev) (m, w)
      else if tm_help m then pure_step (help_key B ev) (m, w)
      else if tm_detail m then pure_step (detail_key ev) (m, w)
      else if ke_name ev = ''tab'' then pure_step (toggle_panel B) (m, w)
      else (case name_keys (ke_name ev) of
          Some h \<Rightarrow> h (m, w)
        | None \<Rightarrow> (case rune_keys B (ke_rune ev) of Some h \<Rightarrow> h (m, w) | None \<Rightarrow> Some (m, w)))))"

section \<open>The loop (\<open>tui.go\<close>)\<close>

text \<open>The data sources: a query of the flags, which may change the world and fail.\<close>

type_synonym 'w refresh = "flags \<Rightarrow> 'w \<Rightarrow> (string, query_result \<times> column list) result \<times> 'w"

definition data_source :: "'w refresh \<Rightarrow> 'w refresh option \<Rightarrow> panel \<Rightarrow> 'w refresh" where
  "data_source refresh managed p = (case (p, managed) of (PanelManaged, Some g) \<Rightarrow> g | _ \<Rightarrow> refresh)"

definition requery :: "'w backend \<Rightarrow> 'w refresh \<Rightarrow> 'w refresh option \<Rightarrow> 'w handler" where
  "requery B refresh managed = (\<lambda>(m, w).
     (let (res, w) = data_source refresh managed (tm_panel m) (tm_flags m) w in
      case res of
        Inl e \<Rightarrow> Some (set_status (''error: '' @ e) m, w)
      | Inr (r, cols) \<Rightarrow> map_option (\<lambda>m. (m, w)) (set_result B r cols m)))"

datatype tui_event = Resize int int | Key key_event | Tick

definition handle_event :: "'w backend \<Rightarrow> 'w refresh \<Rightarrow> 'w refresh option \<Rightarrow> tui_event \<Rightarrow> 'w handler" where
  "handle_event B refresh managed ev = (\<lambda>(m, w).
     (case ev of
        Resize width height \<Rightarrow> Some (set_size width height m, w)
      | Key k \<Rightarrow>
          (case update B k (m, w) of
             None \<Rightarrow> None
           | Some (m, w) \<Rightarrow>
               let (dirty, m) = take_dirty m in if dirty then requery B refresh managed (m, w) else Some (m, w))
      | Tick \<Rightarrow> if refresh_suspended m then Some (m, w) else requery B refresh managed (m, w)))"

text \<open>A run: the first query, then the events until the user quits.\<close>

fun run_events :: "'w backend \<Rightarrow> 'w refresh \<Rightarrow> 'w refresh option \<Rightarrow> tui_event list \<Rightarrow> 'w handler" where
  "run_events B refresh managed [] s = Some s"
| "run_events B refresh managed (ev # evs) s =
     (if tm_quit (fst s) then Some s
      else (case handle_event B refresh managed ev s of None \<Rightarrow> None | Some s \<Rightarrow> run_events B refresh managed evs s))"

definition start_tui :: "'w backend \<Rightarrow> 'w refresh \<Rightarrow> 'w refresh option \<Rightarrow> flags \<Rightarrow> int \<Rightarrow> int \<times> int \<Rightarrow> 'w \<Rightarrow> (tui \<times> 'w) option" where
  "start_tui B refresh managed f interval screen w =
     requery B refresh managed (set_size (fst screen) (snd screen) (set_interval interval (new_tui f)), w)"

end
