(* ===== verification/Tui_Gate.thy ===== *)
theory Tui_Gate
  imports Tui_Update
begin

text \<open>
  The confirmation gate of the explorer: which control requests it makes. The callback is wrapped so that
  the world keeps the list of the requests made.
\<close>

section \<open>A recording callback\<close>

definition log_control ::
  "(gate_request \<Rightarrow> 'w \<Rightarrow> (string, string) result \<times> 'w) \<Rightarrow> gate_request \<Rightarrow> 'w \<times> gate_request list \<Rightarrow>
    (string, string) result \<times> 'w \<times> gate_request list" where
  "log_control f req = (\<lambda>(w, l). let (r, w') = f req w in (r, w', l @ [req]))"

text \<open>A callback that makes no request leaves the list alone.\<close>

definition keep_log :: "('a \<Rightarrow> 'w \<Rightarrow> 'r \<times> 'w) \<Rightarrow> 'a \<Rightarrow> 'w \<times> 'l \<Rightarrow> 'r \<times> 'w \<times> 'l" where
  "keep_log f a = (\<lambda>(w, l). let (r, w') = f a w in (r, w', l))"

definition log_backend :: "'w backend \<Rightarrow> ('w \<times> gate_request list) backend" where
  "log_backend B = \<lparr>bk_control = map_option log_control (bk_control B), bk_drop = map_option keep_log (bk_drop B),
     bk_has_managed = bk_has_managed B, bk_history = bk_history B, bk_host_panel = bk_host_panel B,
     bk_filter_ops = bk_filter_ops B, bk_choices = bk_choices B, bk_regexp = bk_regexp B, bk_error = bk_error B\<rparr>"

lemma log_backend_simps [simp]:
  "bk_control (log_backend B) = map_option log_control (bk_control B)" "bk_drop (log_backend B) = map_option keep_log (bk_drop B)"
  by (simp_all add: log_backend_def)

section \<open>The keys of the main view\<close>

text \<open>The handlers that only look at the state.\<close>

definition local_keys :: "'w backend \<Rightarrow> (tui \<Rightarrow> tui option) list" where
  "local_keys B =
     [Some \<circ> quit_action, Some \<circ> move_cursor (- 1), Some \<circ> move_cursor 1, (\<lambda>m. Some (move_cursor (- body_height m) m)),
      (\<lambda>m. Some (move_cursor (body_height m) m)), toggle_collapse, collapse_or_parent, expand_or_child, Some \<circ> cycle_group,
      fold_all True, fold_all False, Some \<circ> cycle_leaf, Some \<circ> open_detail, Some \<circ> open_help, cycle_sort, toggle_sort_dir,
      Some \<circ> refresh_action, Some \<circ> toggle_pause, Some \<circ> toggle_units, Some \<circ> start_filter, Some \<circ> open_column_picker B,
      Some \<circ> remove_last_column, Some \<circ> adjust_interval (- 1), Some \<circ> adjust_interval 1, Some \<circ> toggle_panel B]"

definition local_key :: "'w backend \<Rightarrow> 'w handler \<Rightarrow> bool" where
  "local_key B h \<longleftrightarrow> (\<exists>f \<in> set (local_keys B). h = local_step f)"

lemma pure_is_local: "pure_step f = local_step (Some \<circ> f)"
  by (simp add: pure_step_def local_step_def fun_eq_iff)

lemma name_keys_local: "name_keys k = Some h \<Longrightarrow> local_key B h"
  unfolding name_keys_def
  by (drule map_of_SomeD) (auto simp: local_key_def local_keys_def pure_is_local comp_def)

lemma rune_keys_kinds:
  "rune_keys B r = Some h \<Longrightarrow> local_key B h \<or> (\<exists>kind. h = start_control B kind) \<or> h = drop_selected B"
  unfolding rune_keys_def
  by (drule map_of_SomeD, simp only: list.set insert_iff empty_iff prod.inject, elim disjE conjE)
    (auto simp: local_key_def local_keys_def pure_is_local)

text \<open>Where a key goes in each mode.\<close>

definition overlay_keys :: "'w backend \<Rightarrow> key_event \<Rightarrow> (tui \<Rightarrow> tui option) list" where
  "overlay_keys B ev = [edit_key B ev, Some \<circ> col_key B ev, Some \<circ> help_key B ev, Some \<circ> detail_key ev]"

definition modal :: "tui \<Rightarrow> bool" where
  "modal m \<longleftrightarrow> tm_confirming m \<or> tm_nice_editing m"

definition overlaid :: "tui \<Rightarrow> bool" where
  "overlaid m \<longleftrightarrow> tm_editing m \<or> tm_col_picker m \<or> tm_help m \<or> tm_detail m"

lemma update_kinds:
  fixes B :: "'w backend"
  assumes "\<not> modal m"
  shows "(overlaid m \<and> (\<exists>f \<in> set (overlay_keys B ev). update B ev (m, w) = local_step f (m, w))) \<or>
    (\<not> overlaid m \<and> ((\<exists>f \<in> set (local_keys B). update B ev (m, w) = local_step f (m, w)) \<or>
      (\<exists>kind. update B ev (m, w) = start_control B kind (m, w)) \<or>
      update B ev (m, w) = drop_selected B (m, w) \<or> update B ev (m, w) = Some (m, w)))"
proof (cases "overlaid m")
  case True
  then show ?thesis using assms
    by (auto simp: update_def modal_def overlaid_def overlay_keys_def pure_is_local)
next
  case False
  then have u: "update B ev (m, w) = (if ke_name ev = ''tab'' then pure_step (toggle_panel B) (m, w)
      else (case name_keys (ke_name ev) of Some h \<Rightarrow> h (m, w)
        | None \<Rightarrow> (case rune_keys B (ke_rune ev) of Some h \<Rightarrow> h (m, w) | None \<Rightarrow> Some (m, w))))"
    using assms by (simp add: update_def modal_def overlaid_def)
  have panel: "Some \<circ> toggle_panel B \<in> set (local_keys B)" by (simp add: local_keys_def)
  show ?thesis
  proof (cases "name_keys (ke_name ev) :: 'w handler option")
    case None
    then show ?thesis
    proof (cases "rune_keys B (ke_rune ev)")
      case None
      with \<open>name_keys (ke_name ev) = None\<close> show ?thesis using False u panel by (auto simp: pure_is_local)
    next
      case (Some h)
      with \<open>name_keys (ke_name ev) = None\<close> show ?thesis
        using False u panel rune_keys_kinds [OF Some] by (auto simp: pure_is_local local_key_def)
    qed
  next
    case (Some h)
    then show ?thesis using False u panel name_keys_local [OF Some, of B] by (auto simp: pure_is_local local_key_def)
  qed
qed

lemma update_cases:
  assumes "update B ev (m, w) = Some s" and "\<not> modal m"
  obtains (overlay) f where "overlaid m" "f \<in> set (overlay_keys B ev)" "local_step f (m, w) = Some s"
  | (local) f where "\<not> overlaid m" "f \<in> set (local_keys B)" "local_step f (m, w) = Some s"
  | (control) kind where "\<not> overlaid m" "start_control B kind (m, w) = Some s"
  | (drop) "\<not> overlaid m" "drop_selected B (m, w) = Some s"
  | (idle) "\<not> overlaid m" "s = (m, w)"
  using update_kinds [OF assms(2), of B ev w] assms(1) by (metis option.inject)

section \<open>What a key may request\<close>

text \<open>Every request that is not a dry run comes right after its own dry run.\<close>

definition previewed :: "gate_request list \<Rightarrow> bool" where
  "previewed l \<longleftrightarrow> (\<forall>i < length l. tr_dry_run (l ! i) \<or> (0 < i \<and> l ! (i - 1) = (l ! i)\<lparr>tr_dry_run := True\<rparr>))"

lemma previewed_Nil [simp]: "previewed []"
  by (simp add: previewed_def)

lemma previewed_snoc:
  "previewed (l @ [r]) \<longleftrightarrow> previewed l \<and> (tr_dry_run r \<or> (l \<noteq> [] \<and> last l = r\<lparr>tr_dry_run := True\<rparr>))"
proof -
  have old: "(l @ [r]) ! i = l ! i" "0 < i \<Longrightarrow> (l @ [r]) ! (i - 1) = l ! (i - 1)" if "i < length l" for i
    using that by (simp_all add: nth_append)
  have "(0 < length l \<and> (l @ [r]) ! (length l - 1) = x) \<longleftrightarrow> (l \<noteq> [] \<and> last l = x)" for x
    by (cases l rule: rev_cases) (simp_all add: nth_append)
  then show ?thesis
    unfolding previewed_def length_append_singleton All_less_Suc using old by (simp cong: conj_cong) blast
qed

text \<open>The open gate shows the request made last, which was a dry run.\<close>

definition fit :: "tui \<times> 'w \<times> gate_request list \<Rightarrow> bool" where
  "fit s \<longleftrightarrow> (case s of (m, w, l) \<Rightarrow> previewed l \<and>
     (tm_confirming m \<longrightarrow> l \<noteq> [] \<and> last l = tm_pending m \<and> tr_dry_run (tm_pending m)))"

definition same_gate :: "tui \<Rightarrow> tui \<Rightarrow> bool" where
  "same_gate m m' \<longleftrightarrow> tm_confirming m' = tm_confirming m \<and> tm_pending m' = tm_pending m"

lemma same_gate_fit: "same_gate m m' \<Longrightarrow> fit (m, w, l) \<Longrightarrow> fit (m', w', l)"
  by (simp add: same_gate_def fit_def)

lemma gate_simps [simp]:
  "tm_confirming (set_status s m) = tm_confirming m" "tm_pending (set_status s m) = tm_pending m"
  "tm_confirming (clamp_scroll m) = tm_confirming m" "tm_pending (clamp_scroll m) = tm_pending m"
  "tm_confirming (flatten_tree m) = tm_confirming m" "tm_pending (flatten_tree m) = tm_pending m"
  by (simp_all add: set_status_def clamp_scroll_def flatten_tree_def Let_def split: option.split)

lemma same_gate_refl [simp]: "same_gate m m"
  by (simp add: same_gate_def)

lemma rebuild_gate: "rebuild_rows m = Some m' \<Longrightarrow> same_gate m m'"
  by (auto simp: rebuild_rows_def Let_def same_gate_def)

lemma set_collapsed_gate: "set_collapsed p v m = Some m' \<Longrightarrow> same_gate m m'"
  using rebuild_gate by (auto simp: set_collapsed_def same_gate_def)

lemma apply_sort_gate: "apply_sort m = Some m' \<Longrightarrow> same_gate m m'"
  by (auto simp: apply_sort_def same_gate_def Let_def split: if_splits)

lemma local_keys_gate: "f \<in> set (local_keys B) \<Longrightarrow> f m = Some m' \<Longrightarrow> same_gate m m'"
  unfolding local_keys_def
  by (simp only: list.set insert_iff empty_iff, elim disjE)
    (auto simp: same_gate_def quit_action_def move_cursor_def Let_def toggle_collapse_def collapse_or_parent_def
      move_to_parent_def expand_or_child_def cycle_group_def fold_all_def cycle_leaf_def open_detail_def open_help_def cycle_sort_def
      toggle_sort_dir_def refresh_action_def toggle_pause_def toggle_units_def start_filter_def open_column_picker_def
      remove_last_column_def remove_column_def set_columns_def adjust_interval_def toggle_panel_def
      split: option.splits if_splits dest!: set_collapsed_gate [unfolded same_gate_def] rebuild_gate [unfolded same_gate_def]
        apply_sort_gate [unfolded same_gate_def])

lemma edit_gate [simp]:
  "same_gate m (history_move d m)" "same_gate m (apply_filter B m)" "same_gate m (edit_delete m)" "same_gate m (edit_insert r m)"
  by (simp_all add: same_gate_def history_move_def apply_filter_def set_having_def push_history_def edit_delete_def
      edit_insert_def Let_def case_prod_beta split: option.split sum.split)

lemma edit_gate_option:
  "apply_suggestion fs m = Some m' \<Longrightarrow> same_gate m m'" "filter_tab B m = Some m' \<Longrightarrow> same_gate m m'"
  "edit_backspace m = Some m' \<Longrightarrow> same_gate m m'" "edit_nav ev m = Some (Some m') \<Longrightarrow> same_gate m m'"
  by (auto simp: filter_tab_def apply_suggestion_def edit_backspace_def edit_nav_def Let_def same_gate_def history_move_def
      case_prod_beta split: if_splits list.splits)

lemma edit_key_gate: "edit_key B ev m = Some m' \<Longrightarrow> same_gate m m'"
  by (cases "edit_nav ev m") (auto simp: edit_key_def Let_def same_gate_def [of m "m\<lparr>tm_editing := _, tm_status := _\<rparr>"]
      dest: edit_gate_option split: if_splits)

lemma columns_gate [simp]:
  "same_gate m (set_columns cs s m)" "same_gate m (remove_column i m)" "same_gate m (append_column i m)"
  "same_gate m (toggle_system_metric i m)" "same_gate m (toggle_highlighted B m)" "same_gate m (move_col_cursor B d m)"
  "same_gate m (set_col_filter f m)" "same_gate m (col_key B ev m)"
  by (auto simp: same_gate_def set_columns_def remove_column_def append_column_def toggle_system_metric_def
      toggle_highlighted_def move_col_cursor_def set_col_filter_def col_key_def Let_def)

lemma overlay_gate [simp]: "same_gate m (help_key B ev m)" "same_gate m (detail_key ev m)"
  by (simp_all add: same_gate_def help_key_def clamp_help_scroll_def detail_key_def Let_def)

lemma overlay_keys_gate: "f \<in> set (overlay_keys B ev) \<Longrightarrow> f m = Some m' \<Longrightarrow> same_gate m m'"
  by (auto simp: overlay_keys_def dest: edit_key_gate)

section \<open>Every key keeps it\<close>

lemma log_control_split: "log_control f req (w, l) = (fst (f req w), snd (f req w), l @ [req])"
  by (simp add: log_control_def case_prod_beta)

lemma keep_log_split: "keep_log f a (w, l) = (fst (f a w), snd (f a w), l)"
  by (simp add: keep_log_def case_prod_beta)

lemma begin_confirm_fit:
  assumes "begin_confirm (log_backend B) req (m, w, l) = Some s" and "fit (m, w, l)" and "\<not> tm_confirming m"
  shows "fit s"
proof -
  from assms(1) obtain control where c: "bk_control B = Some control"
    by (cases "bk_control B") (auto simp: begin_confirm_def)
  show ?thesis
    using assms by (cases "fst (control (req\<lparr>tr_dry_run := True\<rparr>) w)")
      (auto simp: begin_confirm_def c Let_def log_control_split fit_def previewed_snoc)
qed

lemma start_control_fit:
  assumes "start_control (log_backend B) kind (m, w, l) = Some s" and "fit (m, w, l)" and "\<not> tm_confirming m"
  shows "fit s"
  using assms begin_confirm_fit [of B _ m w l s]
  by (auto simp: start_control_def Let_def fit_def split: if_splits option.splits)

lemma nice_key_fit:
  assumes "nice_key (log_backend B) ev (m, w, l) = Some s" and "fit (m, w, l)" and "\<not> tm_confirming m"
  shows "fit s"
proof (cases "ke_name ev = ''enter''")
  case True
  obtain n e where n: "atoi (trim_space (tm_nice_buf m)) = (n, e)" by fastforce
  let ?m = "m\<lparr>tm_nice_editing := False, tm_pending := (tm_pending m)\<lparr>tr_nice := n\<rparr>\<rparr>"
  have "fit (?m, w, l)" using assms(2,3) by (simp add: fit_def)
  then show ?thesis
    using True n assms begin_confirm_fit [of B "tm_pending ?m" ?m w l s]
    by (cases e) (auto simp: nice_key_def Let_def fit_def)
qed (use assms in \<open>auto simp: nice_key_def fit_def split: if_splits\<close>)

lemma confirm_key_fit:
  assumes "confirm_key (log_backend B) ev (m, w, l) = Some s" and "fit (m, w, l)" and "tm_confirming m"
  shows "fit s"
proof (cases "ke_rune ev = ''y'' \<or> ke_rune ev = ''Y''")
  case True
  then obtain control where c: "bk_control B = Some control"
    using assms(1) by (cases "bk_control B") (auto simp: confirm_key_def)
  let ?req = "(tm_pending m)\<lparr>tr_dry_run := False\<rparr>"
  have "last l = ?req\<lparr>tr_dry_run := True\<rparr>" using assms(2,3) by (simp add: fit_def)
  then have "previewed (l @ [?req])" using assms(2,3) by (simp add: fit_def previewed_snoc)
  then show ?thesis
    using assms(1) True by (cases "fst (control ?req w)")
      (auto simp: confirm_key_def c Let_def log_control_split fit_def)
qed (use assms in \<open>auto simp: confirm_key_def fit_def split: if_splits\<close>)

lemma drop_selected_fit:
  assumes "drop_selected (log_backend B) (m, w, l) = Some s" and "fit (m, w, l)"
  shows "fit s"
  using assms by (cases "bk_drop B"; cases "current_row m")
    (auto simp: drop_selected_def Let_def keep_log_split fit_def split: if_splits bool.splits)

lemma local_step_fit:
  assumes "local_step f (m, w, l) = Some s" and "\<And>m'. f m = Some m' \<Longrightarrow> same_gate m m'" and "fit (m, w, l)"
  shows "fit s"
  using assms same_gate_fit by (auto simp: local_step_def)

lemma update_fit:
  assumes "update (log_backend B) ev (m, w, l) = Some s" and "fit (m, w, l)"
  shows "fit s"
proof (cases "tm_confirming m")
  case True
  then show ?thesis
    using assms confirm_key_fit [of B ev m w l s] by (auto simp: update_def fit_def split: if_splits)
next
  case False
  show ?thesis
  proof (cases "tm_nice_editing m")
    case True
    then show ?thesis using assms False nice_key_fit [of B ev m w l s] by (simp add: update_def)
  next
    case nice: False
    then have "\<not> modal m" using False by (simp add: modal_def)
    from assms(1) this show ?thesis
    proof (cases rule: update_cases)
      case (overlay f)
      show ?thesis by (rule local_step_fit [OF overlay(3) overlay_keys_gate [OF overlay(2)] assms(2)])
    next
      case (local f)
      show ?thesis by (rule local_step_fit [OF local(3) local_keys_gate [OF local(2)] assms(2)])
    next
      case (control kind)
      show ?thesis by (rule start_control_fit [OF control(2) assms(2) False])
    next
      case drop
      show ?thesis by (rule drop_selected_fit [OF drop(2) assms(2)])
    qed (use assms(2) in simp)
  qed
qed

section \<open>The loop\<close>

lemma set_result_gate: "set_result B r cols m = Some m' \<Longrightarrow> same_gate m m'"
  by (auto simp: set_result_def Let_def same_gate_def split: if_splits dest!: rebuild_gate [unfolded same_gate_def])

lemma requery_fit:
  assumes "requery (log_backend B) (keep_log refresh) (map_option keep_log managed) (m, w, l) = Some s" and "fit (m, w, l)"
  shows "fit s"
proof -
  let ?f = "data_source refresh managed (tm_panel m)"
  have source: "data_source (keep_log refresh) (map_option keep_log managed) (tm_panel m) = keep_log ?f"
    by (simp add: data_source_def split: panel.split option.split)
  have q: "requery (log_backend B) (keep_log refresh) (map_option keep_log managed) (m, w, l) =
    (case fst (?f (tm_flags m) w) of
       Inl e \<Rightarrow> Some (set_status (''error: '' @ e) m, snd (?f (tm_flags m) w), l)
     | Inr (r, cols) \<Rightarrow> map_option (\<lambda>m1. (m1, snd (?f (tm_flags m) w), l)) (set_result (log_backend B) r cols m))"
    by (simp add: requery_def source keep_log_split)
  show ?thesis
  proof (cases "fst (?f (tm_flags m) w)")
    case (Inl e)
    then show ?thesis using assms q by (auto simp: fit_def)
  next
    case (Inr rc)
    obtain r cols where rc: "rc = (r, cols)" by (cases rc)
    obtain m' where m': "set_result (log_backend B) r cols m = Some m'" "s = (m', snd (?f (tm_flags m) w), l)"
      using assms(1) Inr unfolding q rc by auto
    show ?thesis unfolding m'(2) by (rule same_gate_fit [OF set_result_gate [OF m'(1)] assms(2)])
  qed
qed

lemma handle_event_fit:
  assumes "handle_event (log_backend B) (keep_log refresh) (map_option keep_log managed) ev (m, w, l) = Some s"
    and "fit (m, w, l)"
  shows "fit s"
proof (cases ev)
  case (Key k)
  from assms(1) Key obtain m1 w1 l1 where up: "update (log_backend B) k (m, w, l) = Some (m1, w1, l1)"
    by (auto simp: handle_event_def split: option.splits)
  from update_fit [OF this assms(2)] have "fit (m1\<lparr>tm_dirty := False\<rparr>, w1, l1)" by (simp add: fit_def)
  then show ?thesis
    using assms(1) Key up requery_fit [of B refresh managed "m1\<lparr>tm_dirty := False\<rparr>" w1 l1 s]
    by (auto simp: handle_event_def take_dirty_def Let_def split: if_splits)
next
  case Tick
  then show ?thesis using assms requery_fit [OF _ assms(2)] by (auto simp: handle_event_def split: if_splits)
qed (use assms in \<open>auto simp: handle_event_def fit_def set_size_def\<close>)

lemma run_events_fit:
  assumes "run_events (log_backend B) (keep_log refresh) (map_option keep_log managed) evs s = Some s'" and "fit s"
  shows "fit s'"
  using assms
proof (induction evs arbitrary: s)
  case (Cons ev evs)
  obtain m w l where "s = (m, w, l)" by (cases s)
  then show ?case
    using Cons handle_event_fit [of B refresh managed ev m w l] by (auto split: if_splits option.splits)
qed simp

section \<open>The confirmation\<close>

text \<open>What a key adds to the requests while no gate is open.\<close>

definition only_dry :: "gate_request list \<Rightarrow> gate_request list \<Rightarrow> bool" where
  "only_dry l l' \<longleftrightarrow> (\<exists>new. l' = l @ new \<and> list_all tr_dry_run new)"

lemma only_dry_simps [simp]: "only_dry l l" "only_dry l (l @ [r]) \<longleftrightarrow> tr_dry_run r"
  by (auto simp: only_dry_def)

lemma begin_confirm_dry:
  "begin_confirm (log_backend B) req (m, w, l) = Some (m', w', l') \<Longrightarrow> only_dry l l'"
  by (cases "bk_control B") (auto simp: begin_confirm_def Let_def log_control_split split: sum.splits)

lemma unconfirmed_dry:
  assumes "\<not> tm_confirming m" and up: "update (log_backend B) ev (m, w, l) = Some (m', w', l')"
  shows "only_dry l l'"
proof (cases "tm_nice_editing m")
  case True
  have "nice_key (log_backend B) ev (m, w, l) = Some (m', w', l')" using assms True by (simp add: update_def)
  then show ?thesis
    by (auto simp: nice_key_def Let_def split: if_splits option.splits prod.splits dest: begin_confirm_dry)
next
  case False
  then have "\<not> modal m" using assms by (simp add: modal_def)
  from up this show ?thesis
  proof (cases rule: update_cases)
    case (control kind)
    then show ?thesis by (auto simp: start_control_def Let_def split: if_splits option.splits dest: begin_confirm_dry)
  next
    case drop
    then show ?thesis by (cases "bk_drop B"; cases "current_row m")
      (auto simp: drop_selected_def Let_def keep_log_split split: if_splits bool.splits)
  qed (auto simp: local_step_def)
qed

text \<open>A real request is the one that the open gate shows, made by the key that confirms it.\<close>

definition answered :: "tui \<Rightarrow> key_event \<Rightarrow> gate_request \<Rightarrow> bool" where
  "answered m k r \<longleftrightarrow> tm_confirming m \<and> \<not> tm_previewing m \<and> (ke_rune k = ''y'' \<or> ke_rune k = ''Y'') \<and>
     r = (tm_pending m)\<lparr>tr_dry_run := False\<rparr>"

lemma update_requests:
  assumes "update (log_backend B) k (m, w, l) = Some (m', w', l')"
  shows "\<exists>new. l' = l @ new \<and> list_all (\<lambda>r. tr_dry_run r \<or> answered m k r) new"
proof (cases "tm_confirming m")
  case True
  then show ?thesis
    using assms by (cases "bk_control B")
      (auto simp: update_def confirm_key_def Let_def log_control_split answered_def split: if_splits sum.splits)
next
  case False
  from unconfirmed_dry [OF this assms] show ?thesis by (auto simp: only_dry_def list_all_iff)
qed

lemma requery_requests:
  "requery (log_backend B) (keep_log refresh) (map_option keep_log managed) (m, w, l) = Some (m', w', l') \<Longrightarrow> l' = l"
proof -
  assume q: "requery (log_backend B) (keep_log refresh) (map_option keep_log managed) (m, w, l) = Some (m', w', l')"
  have "data_source (keep_log refresh) (map_option keep_log managed) (tm_panel m) (tm_flags m) (w, l) =
      keep_log (data_source refresh managed (tm_panel m)) (tm_flags m) (w, l)"
    by (simp add: data_source_def split: panel.split option.split)
  moreover obtain r w1 where "data_source refresh managed (tm_panel m) (tm_flags m) w = (r, w1)" by (rule prod.exhaust)
  ultimately show ?thesis using q by (cases r) (auto simp: requery_def keep_log_split)
qed

lemma event_requests:
  assumes "handle_event (log_backend B) (keep_log refresh) (map_option keep_log managed) ev (m, w, l) = Some (m', w', l')"
  shows "\<exists>new. l' = l @ new \<and>
    list_all (\<lambda>r. tr_dry_run r \<or> (case ev of Key k \<Rightarrow> answered m k r | _ \<Rightarrow> False)) new"
proof (cases ev)
  case (Key k)
  then obtain m1 w1 l1 where up: "update (log_backend B) k (m, w, l) = Some (m1, w1, l1)"
    using assms by (auto simp: handle_event_def split: option.splits)
  then have "l' = l1"
    using assms Key by (auto simp: handle_event_def take_dirty_def Let_def split: if_splits dest: requery_requests)
  then show ?thesis using update_requests [OF up] Key by simp
next
  case Tick
  then have "l' = l" using assms by (auto simp: handle_event_def split: if_splits dest: requery_requests)
  then show ?thesis by simp
qed (use assms in \<open>auto simp: handle_event_def\<close>)

text \<open>
  C9: nothing is controlled without a preview and a confirmation. Over a whole run of the explorer, whatever the keys, the screen,
  the ticks, the results of the queries and the answers of the control callback, every request that is not a dry run was made right
  after the dry run of the very same request: same processes, same action, same value, with no other request between them. And at
  every point of the run an event makes such a request only when it is the key y or Y, the gate is open and its preview is not being
  read, and the request is the one the gate shows.
\<close>

theorem control_only_after_preview:
  "case start_tui (log_backend B) (keep_log refresh) (map_option keep_log managed) f interval screen (w, []) of
     None \<Rightarrow> True
   | Some s \<Rightarrow> (case run_events (log_backend B) (keep_log refresh) (map_option keep_log managed) evs s of
       None \<Rightarrow> True
     | Some (m, w', requests) \<Rightarrow> previewed requests \<and>
         (case handle_event (log_backend B) (keep_log refresh) (map_option keep_log managed) ev (m, w', requests) of
            None \<Rightarrow> True
          | Some (m', w'', requests') \<Rightarrow> \<exists>new. requests' = requests @ new \<and>
              list_all (\<lambda>r. tr_dry_run r \<or> (case ev of Key k \<Rightarrow> answered m k r | _ \<Rightarrow> False)) new))"
proof -
  have "fit (set_size a b (set_interval interval (new_tui f)), w, [])" for a b
    by (simp add: fit_def set_size_def set_interval_def new_tui_def)
  then have "fit s" if "start_tui (log_backend B) (keep_log refresh) (map_option keep_log managed) f interval screen (w, []) = Some s" for s
    by (rule requery_fit [OF that [unfolded start_tui_def]])
  then show ?thesis
    using run_events_fit [of B refresh managed evs] event_requests [of B refresh managed ev]
    by (auto simp: fit_def split: option.split)
qed

end
