(* ===== verification/Tui_Correct.thy ===== *)
theory Tui_Correct
  imports Tui_Gate
begin

text \<open>
  The state of the explorer over a run: what every event keeps, which key can panic, and how it is left.
\<close>

section \<open>Runes of a part of a text\<close>

lemma length_runes_Cons:
  "length (runes (c # s)) = (if s \<noteq> [] \<and> continuation (hd s) then length (runes s) else Suc (length (runes s)))"
proof (cases "runes s")
  case (Cons r rs)
  moreover have "hd r = hd s" if "runes s = r # rs"
    using that runes_not_empty [of s] concat_runes [of s] by (cases r) (auto simp: that)
  ultimately show ?thesis by auto
qed auto

lemma length_runes_take: "length (runes (take k s)) \<le> length (runes s)"
proof (induction s arbitrary: k)
  case (Cons c s)
  show ?case
  proof (cases k)
    case (Suc n)
    show ?thesis
    proof (cases "take n s")
      case Nil
      have "length (runes (take k (c # s))) = 1" by (simp only: Suc take_Suc_Cons Nil) simp
      then show ?thesis by (cases "runes (c # s)") (simp_all del: runes.simps add: runes_eq_Nil [of "c # s", simplified])
    next
      case (Cons a list)
      then have "hd (take n s) = hd s" "s \<noteq> []" by (cases s; cases n; auto)+
      then show ?thesis using Suc Cons.IH [of n] Cons by (simp add: length_runes_Cons del: runes.simps)
    qed
  qed simp
qed simp

lemma length_runes_append: "length (runes (s @ t)) \<le> length (runes s) + length (runes t)"
proof (induction s)
  case (Cons c s)
  then show ?case by (cases s) (auto simp: length_runes_Cons simp del: runes.simps)
qed simp

definition one_rune :: "string \<Rightarrow> bool" where
  "one_rune r \<longleftrightarrow> length (runes r) \<le> 1"

lemma length_runes_concat: "list_all one_rune rs \<Longrightarrow> length (runes (concat rs)) \<le> length rs"
proof (induction rs)
  case (Cons r rs)
  then show ?case using length_runes_append [of r "concat rs"] by (simp add: one_rune_def)
qed simp

lemma runes_hd_continuation:
  "runes s = r # rs \<Longrightarrow> list_all continuation (tl r) \<and> list_all (\<lambda>r. list_all continuation (tl r)) rs"
proof (induction s arbitrary: r rs)
  case (Cons c s)
  show ?case
  proof (cases "runes s")
    case Nil
    then show ?thesis using Cons.prems by auto
  next
    case (Cons r1 rs1)
    show ?thesis using Cons.IH [OF Cons] Cons.prems runes_not_empty [of s]
      unfolding runes.simps Cons by (cases r1) (auto split: if_splits)
  qed
qed simp

lemma continuation_one_rune: "list_all continuation (tl r) \<Longrightarrow> one_rune r"
proof (induction r)
  case (Cons c r)
  then show ?case by (cases r) (auto simp: one_rune_def length_runes_Cons simp del: runes.simps)
qed (simp add: one_rune_def)

lemma runes_one_rune [simp]: "list_all one_rune (runes s)"
proof (cases "runes s")
  case (Cons r rs)
  then show ?thesis
    using runes_hd_continuation [OF Cons] continuation_one_rune by (auto simp: list_all_iff)
qed simp

section \<open>The invariant\<close>

text \<open>The visible rows are those of the result, and the cursor and the window lie in them.\<close>

definition view_ok :: "tui \<Rightarrow> bool" where
  "view_ok m \<longleftrightarrow> flatten_tree m = m \<and> length (tm_widths m) = length (tm_cols m) \<and>
     0 \<le> tm_scroll m \<and> tm_scroll m \<le> tm_cursor m \<and> tm_cursor m \<le> max 0 (int (length (tm_rows m)) - 1)"

text \<open>The editor's cursor is in its text, the place in the history is in the history.\<close>

definition edit_ok :: "tui \<Rightarrow> bool" where
  "edit_ok m \<longleftrightarrow> tm_edit_pos m \<le> length (tm_edit m) \<and> list_all one_rune (tm_edit m) \<and>
     0 \<le> tm_hist_idx m \<and> tm_hist_idx m \<le> int (length (tm_history m))"

text \<open>At most one mode is on; the forecast is only open over the gate; the gate is only open if control is installed.\<close>

primrec exclusive :: "bool list \<Rightarrow> bool" where
  "exclusive [] \<longleftrightarrow> True"
| "exclusive (b # bs) \<longleftrightarrow> (b \<longrightarrow> \<not> list_ex (\<lambda>c. c) bs) \<and> exclusive bs"

definition modes :: "tui \<Rightarrow> bool list" where
  "modes m = [tm_confirming m, tm_nice_editing m, tm_editing m, tm_col_picker m, tm_help m, tm_detail m]"

definition modes_ok :: "'w backend \<Rightarrow> tui \<Rightarrow> bool" where
  "modes_ok B m \<longleftrightarrow> exclusive (modes m) \<and> (\<not> tm_previewing m \<or> tm_confirming m) \<and> (\<not> modal m \<or> bk_control B \<noteq> None)"

definition places_ok :: "tui \<Rightarrow> bool" where
  "places_ok m \<longleftrightarrow> tm_leaf m < length leaf_modes \<and> 0 \<le> tm_col_cursor m \<and> 0 \<le> tm_col_scroll m \<and> 0 \<le> tm_help_scroll m"

definition tui_ok :: "'w backend \<Rightarrow> tui \<Rightarrow> bool" where
  "tui_ok B m \<longleftrightarrow> view_ok m \<and> edit_ok m \<and> modes_ok B m \<and> places_ok m"

subsection \<open>The view\<close>

text \<open>What the view depends on.\<close>

definition same_view :: "tui \<Rightarrow> tui \<Rightarrow> bool" where
  "same_view m m' \<longleftrightarrow> tm_result m' = tm_result m \<and> tm_collapsed m' = tm_collapsed m \<and> tm_fold_default m' = tm_fold_default m \<and>
     tm_rows m' = tm_rows m \<and> tm_has_groups m' = tm_has_groups m \<and> tm_widths m' = tm_widths m \<and> tm_cols m' = tm_cols m"

lemma same_view_flat: "same_view m m' \<Longrightarrow> flatten_tree m = m \<Longrightarrow> flatten_tree m' = m'"
proof -
  assume v: "same_view m m'" and f: "flatten_tree m = m"
  have c: "is_collapsed m' = is_collapsed m" using v by (auto simp: fun_eq_iff is_collapsed_def same_view_def split: option.split)
  have "tm_rows (flatten_tree m) = tm_rows m" "tm_has_groups (flatten_tree m) = tm_has_groups m" using f by simp_all
  then have "tm_rows (flatten_tree m') = tm_rows m'" "tm_has_groups (flatten_tree m') = tm_has_groups m'"
    using v c by (auto simp: flatten_tree_def same_view_def Let_def split: option.splits)
  then show ?thesis by (simp add: flatten_tree_def Let_def split: option.split)
qed

lemma same_view_ok:
  "same_view m m' \<Longrightarrow> view_ok m \<Longrightarrow> tm_cursor m' = tm_cursor m \<Longrightarrow> tm_scroll m' = tm_scroll m \<Longrightarrow> view_ok m'"
  using same_view_flat [of m m'] by (simp add: view_ok_def same_view_def)

lemma clamp_same_view: "same_view m (clamp_scroll m)" "tm_cursor (clamp_scroll m) = tm_cursor m"
  by (simp_all add: clamp_scroll_def same_view_def Let_def)

lemma clamp_scroll_bounds: "0 \<le> tm_cursor m \<Longrightarrow> 0 \<le> tm_scroll (clamp_scroll m) \<and> tm_scroll (clamp_scroll m) \<le> tm_cursor m"
  by (simp add: clamp_scroll_def body_height_def Let_def)

lemma clamp_view_ok:
  assumes "same_view m m'" "view_ok m" "0 \<le> tm_cursor m'" "tm_cursor m' \<le> max 0 (int (length (tm_rows m)) - 1)"
  shows "view_ok (clamp_scroll m')"
proof -
  have v: "same_view m (clamp_scroll m')" using assms(1) clamp_same_view(1) [of m'] by (simp add: same_view_def)
  have "length (tm_widths (clamp_scroll m')) = length (tm_cols (clamp_scroll m'))" "tm_rows (clamp_scroll m') = tm_rows m"
    using v assms(2) by (simp_all add: view_ok_def same_view_def)
  then show ?thesis
    using same_view_flat [OF v] assms(2-) clamp_scroll_bounds [of m'] clamp_same_view(2) [of m'] by (simp add: view_ok_def)
qed

lemma flatten_idem: "flatten_tree (flatten_tree m) = flatten_tree m"
proof -
  have "is_collapsed (flatten_tree m) = is_collapsed m"
    by (simp add: fun_eq_iff is_collapsed_def flatten_tree_def Let_def split: option.split)
  then show ?thesis by (cases "tm_result m") (simp_all add: flatten_tree_def Let_def)
qed

lemma rebuild_view_ok: "rebuild_rows m = Some m' \<Longrightarrow> 0 \<le> tm_cursor m \<Longrightarrow> view_ok m'"
proof -
  assume r: "rebuild_rows m = Some m'" and c: "0 \<le> tm_cursor m"
  let ?f = "flatten_tree m" let ?n = "int (length (tm_rows ?f))"
  have cf: "tm_cursor ?f = tm_cursor m" by (simp add: flatten_tree_def Let_def split: option.split)
  obtain ws where ws: "compute_widths ?f = Some ws"
    and m': "m' = clamp_scroll (?f\<lparr>tm_widths := ws, tm_cursor := (if tm_cursor ?f \<ge> ?n then max 0 (?n - 1) else tm_cursor ?f)\<rparr>)"
      (is "_ = clamp_scroll ?g")
    using r by (auto simp: rebuild_rows_def Let_def)
  have len: "length ws = length (tm_cols ?f)" using ws by (auto simp: compute_widths_def dest: all_some_length)
  have ic: "is_collapsed ?g = is_collapsed ?f" by (auto simp: fun_eq_iff is_collapsed_def split: option.split)
  have flat: "flatten_tree ?g = ?g"
  proof (cases "tm_result ?f")
    case None
    then have "tm_rows ?f = []" by (simp add: flatten_tree_def Let_def split: option.splits)
    then show ?thesis using None by (simp add: flatten_tree_def)
  next
    case (Some res)
    have "tm_rows (flatten_tree ?f) = tm_rows ?f" "tm_has_groups (flatten_tree ?f) = tm_has_groups ?f"
      by (simp_all add: flatten_idem)
    then show ?thesis using Some ic by (simp add: flatten_tree_def Let_def)
  qed
  have cg: "0 \<le> tm_cursor ?g" "tm_cursor ?g \<le> max 0 (?n - 1)" using c cf by auto
  let ?h = "?g\<lparr>tm_cursor := 0, tm_scroll := 0\<rparr>"
  have "flatten_tree ?h = ?h" by (rule same_view_flat [OF _ flat]) (simp add: same_view_def)
  then have "view_ok ?h" using len by (simp add: view_ok_def)
  moreover have "same_view ?h ?g" by (simp add: same_view_def)
  ultimately show ?thesis unfolding m' using cg by (intro clamp_view_ok [of ?h ?g]) simp_all
qed

lemma set_status_view [simp]: "view_ok (set_status s m) = view_ok m"
proof -
  have "view_ok m \<Longrightarrow> view_ok (m\<lparr>tm_status := s\<rparr>)" for m s
    by (rule same_view_ok) (simp_all add: same_view_def)
  from this [of m s] this [of "m\<lparr>tm_status := s\<rparr>" "tm_status m"] show ?thesis by (auto simp: set_status_def)
qed

lemma move_cursor_view: "view_ok m \<Longrightarrow> view_ok (move_cursor d m)"
  unfolding move_cursor_def Let_def by (rule clamp_view_ok) (auto simp: same_view_def)

lemma move_to_parent_view: "view_ok m \<Longrightarrow> view_ok (move_to_parent m)"
proof (cases "current_row m")
  case (Some cur)
  assume ok: "view_ok m"
  show ?thesis
  proof (cases "find (\<lambda>i. fr_depth (tm_rows m ! i) < fr_depth cur) (rev [0..<nat (tm_cursor m)])")
    case (Some i)
    then have "i < nat (tm_cursor m)" by (auto simp: find_Some_iff rev_nth)
    then have "view_ok (clamp_scroll (m\<lparr>tm_cursor := int i\<rparr>))"
      using ok by (intro clamp_view_ok [of m]) (auto simp: same_view_def view_ok_def)
    then show ?thesis using \<open>current_row m = Some cur\<close> Some by (simp add: move_to_parent_def)
  qed (use ok \<open>current_row m = Some cur\<close> in \<open>simp add: move_to_parent_def\<close>)
qed (simp add: move_to_parent_def)

lemma set_collapsed_view: "set_collapsed p v m = Some m' \<Longrightarrow> view_ok m \<Longrightarrow> view_ok m'"
  by (auto simp: set_collapsed_def view_ok_def [of m] dest!: rebuild_view_ok)

lemma fold_all_view: "fold_all v m = Some m' \<Longrightarrow> view_ok m \<Longrightarrow> view_ok m'"
  by (auto simp: fold_all_def view_ok_def [of m] dest!: rebuild_view_ok split: if_splits)

lemma to_the_top_view: "same_view m m' \<Longrightarrow> view_ok m \<Longrightarrow> tm_cursor m' = 0 \<Longrightarrow> tm_scroll m' = 0 \<Longrightarrow> view_ok m'"
  using same_view_flat [of m m'] by (simp add: view_ok_def same_view_def)

lemma apply_sort_view: "apply_sort m = Some m' \<Longrightarrow> view_ok m \<Longrightarrow> view_ok m'"
  by (auto simp: apply_sort_def Let_def split: if_splits intro!: same_view_ok [of m] simp: same_view_def)

lemma sort_place_view: "view_ok m \<Longrightarrow> view_ok (m\<lparr>tm_sort := i\<rparr>)" "view_ok m \<Longrightarrow> view_ok (m\<lparr>tm_desc := d\<rparr>)"
  by (auto intro: same_view_ok [of m] simp: same_view_def)

lemma cycle_sort_view: "cycle_sort m = Some m' \<Longrightarrow> view_ok m \<Longrightarrow> view_ok m'"
  by (auto simp: cycle_sort_def Let_def sort_place_view split: option.splits dest!: apply_sort_view)

lemma toggle_sort_view: "toggle_sort_dir m = Some m' \<Longrightarrow> view_ok m \<Longrightarrow> view_ok m'"
  by (auto simp: toggle_sort_dir_def sort_place_view dest!: apply_sort_view)

lemma folding_view:
  "toggle_collapse m = Some m' \<Longrightarrow> view_ok m \<Longrightarrow> view_ok m'"
  "collapse_or_parent m = Some m' \<Longrightarrow> view_ok m \<Longrightarrow> view_ok m'"
  "expand_or_child m = Some m' \<Longrightarrow> view_ok m \<Longrightarrow> view_ok m'"
  by (auto simp: toggle_collapse_def collapse_or_parent_def expand_or_child_def move_to_parent_view move_cursor_view
      split: option.splits if_splits intro: set_collapsed_view)

lemma local_keys_view: "f \<in> set (local_keys B) \<Longrightarrow> f m = Some m' \<Longrightarrow> view_ok m \<Longrightarrow> view_ok m'"
  unfolding local_keys_def
  by (simp only: list.set insert_iff empty_iff, elim disjE)
    (auto simp: move_cursor_view dest: folding_view fold_all_view cycle_sort_view toggle_sort_view,
      auto simp: same_view_def quit_action_def Let_def cycle_group_def cycle_leaf_def open_detail_def open_help_def
        refresh_action_def toggle_pause_def toggle_units_def start_filter_def open_column_picker_def remove_last_column_def
        remove_column_def set_columns_def adjust_interval_def toggle_panel_def
        intro: same_view_ok [of m] to_the_top_view [of m])


text \<open>The overlays do not touch the view.\<close>

definition same_place :: "tui \<Rightarrow> tui \<Rightarrow> bool" where
  "same_place m m' \<longleftrightarrow> same_view m m' \<and> tm_cursor m' = tm_cursor m \<and> tm_scroll m' = tm_scroll m"

lemma same_place_ok: "same_place m m' \<Longrightarrow> view_ok m \<Longrightarrow> view_ok m'"
  using same_view_ok [of m m'] by (simp add: same_place_def)

lemma same_place_refl [simp]: "same_place m m"
  by (simp add: same_place_def same_view_def)

lemma edit_place [simp]:
  "same_place m (history_move d m)" "same_place m (apply_filter B m)" "same_place m (edit_delete m)" "same_place m (edit_insert r m)"
  by (simp_all add: same_place_def same_view_def history_move_def apply_filter_def set_having_def push_history_def edit_delete_def
      edit_insert_def set_status_def Let_def case_prod_beta split: option.split sum.split)

lemma edit_place_option:
  "apply_suggestion fs m = Some m' \<Longrightarrow> same_place m m'" "filter_tab B m = Some m' \<Longrightarrow> same_place m m'"
  "edit_backspace m = Some m' \<Longrightarrow> same_place m m'" "edit_nav ev m = Some (Some m') \<Longrightarrow> same_place m m'"
  by (auto simp: filter_tab_def apply_suggestion_def edit_backspace_def edit_nav_def Let_def same_place_def same_view_def
      history_move_def case_prod_beta split: if_splits list.splits)

lemma edit_key_place: "edit_key B ev m = Some m' \<Longrightarrow> same_place m m'"
  by (cases "edit_nav ev m") (auto simp: edit_key_def Let_def same_place_def [of m "m\<lparr>tm_editing := _, tm_status := _\<rparr>"]
      same_view_def [of m "m\<lparr>tm_editing := _, tm_status := _\<rparr>"]
      dest: edit_place_option split: if_splits)

lemma columns_place [simp]: "same_place m (col_key B ev m)"
  by (auto simp: same_place_def same_view_def set_columns_def remove_column_def append_column_def toggle_system_metric_def
      toggle_highlighted_def move_col_cursor_def set_col_filter_def col_key_def set_status_def Let_def)

lemma overlay_place [simp]: "same_place m (help_key B ev m)" "same_place m (detail_key ev m)"
  by (simp_all add: same_place_def same_view_def help_key_def clamp_help_scroll_def detail_key_def Let_def)

lemma overlay_keys_place: "f \<in> set (overlay_keys B ev) \<Longrightarrow> f m = Some m' \<Longrightarrow> same_place m m'"
  by (auto simp: overlay_keys_def dest: edit_key_place)

subsection \<open>The editor\<close>

lemma filter_start: "list_all one_rune (tm_edit m) \<Longrightarrow> fs_start (filter_state_of B m) \<le> length (tm_edit m)"
proof -
  assume one: "list_all one_rune (tm_edit m)"
  let ?rs = "take (tm_edit_pos m) (tm_edit m)"
  have "list_all one_rune ?rs" using one by (auto simp: list_all_iff dest: in_set_takeD)
  then have "length (runes (take k (concat ?rs))) \<le> length (tm_edit m)" for k
    using length_runes_take [of k "concat ?rs"] length_runes_concat [of ?rs] by simp
  then show ?thesis by (simp add: filter_state_of_def Let_def split: prod.split list.split)
qed

lemma word_left_bound: "word_left rs p = Some q \<Longrightarrow> q \<le> length rs"
  by (auto simp: word_left_def split: if_splits)
    (intro order_trans [OF length_dropWhile_le] order_trans [OF length_dropWhile_le [of _ "rev _"]], simp)

lemma word_right_bound: "p \<le> length rs \<Longrightarrow> word_right rs p \<le> length rs"
  by (simp add: word_right_def Let_def)

lemma take_drop_one_rune: "list_all one_rune rs \<Longrightarrow> list_all one_rune (take n rs) \<and> list_all one_rune (drop k rs)"
  by (auto simp: list_all_iff dest: in_set_takeD in_set_dropD)

lemma history_edit_ok: "edit_ok (history_move d m)"
  by (simp add: edit_ok_def history_move_def Let_def case_prod_beta)

lemma edit_nav_ok: "edit_nav ev m = Some (Some m') \<Longrightarrow> edit_ok m \<Longrightarrow> edit_ok m'"
  by (auto simp: edit_nav_def Let_def history_edit_ok split: if_splits)
    (auto simp: edit_ok_def word_right_bound dest: word_left_bound)

lemma suggestion_edit_ok: "apply_suggestion (filter_state_of B m) m = Some m' \<Longrightarrow> edit_ok m \<Longrightarrow> edit_ok m'"
  using filter_start [of m B]
  by (auto simp: apply_suggestion_def Let_def edit_ok_def take_drop_one_rune split: list.splits)

lemma edit_steps_ok:
  "edit_ok m \<Longrightarrow> edit_ok (edit_delete m)" "edit_backspace m = Some m' \<Longrightarrow> edit_ok m \<Longrightarrow> edit_ok m'"
  "edit_ok m \<Longrightarrow> one_rune r \<Longrightarrow> edit_ok (edit_insert r m)" "edit_ok m \<Longrightarrow> edit_ok (apply_filter B m)"
  by (auto simp: edit_ok_def edit_delete_def edit_backspace_def edit_insert_def apply_filter_def set_having_def push_history_def
      set_status_def Let_def take_drop_one_rune split: if_splits option.split sum.split)

lemma edit_key_ok: "edit_key B ev m = Some m' \<Longrightarrow> edit_ok m \<Longrightarrow> one_rune (ke_rune ev) \<Longrightarrow> edit_ok m'"
proof (cases "edit_nav ev m")
  case None
  assume "edit_key B ev m = Some m'" "edit_ok m" "one_rune (ke_rune ev)"
  then show ?thesis using None
    by (auto simp: edit_key_def filter_tab_def Let_def intro: edit_steps_ok dest: suggestion_edit_ok split: if_splits)
      (auto simp: edit_ok_def)
qed (auto simp: edit_key_def dest: edit_nav_ok)

subsection \<open>Everything else\<close>

definition rest_ok :: "'w backend \<Rightarrow> tui \<Rightarrow> bool" where
  "rest_ok B m \<longleftrightarrow> edit_ok m \<and> modes_ok B m \<and> places_ok m"

lemma tui_ok_parts: "tui_ok B m \<longleftrightarrow> view_ok m \<and> rest_ok B m"
  by (simp add: tui_ok_def rest_ok_def)

definition same_rest :: "tui \<Rightarrow> tui \<Rightarrow> bool" where
  "same_rest m m' \<longleftrightarrow> tm_edit m' = tm_edit m \<and> tm_edit_pos m' = tm_edit_pos m \<and> tm_history m' = tm_history m \<and>
     tm_hist_idx m' = tm_hist_idx m \<and> tm_confirming m' = tm_confirming m \<and> tm_previewing m' = tm_previewing m \<and>
     tm_nice_editing m' = tm_nice_editing m \<and> tm_editing m' = tm_editing m \<and> tm_col_picker m' = tm_col_picker m \<and>
     tm_help m' = tm_help m \<and> tm_detail m' = tm_detail m \<and> tm_leaf m' = tm_leaf m \<and> tm_col_cursor m' = tm_col_cursor m \<and>
     tm_col_scroll m' = tm_col_scroll m \<and> tm_help_scroll m' = tm_help_scroll m"

lemma same_rest_ok: "same_rest m m' \<Longrightarrow> rest_ok B m \<Longrightarrow> rest_ok B m'"
  by (simp add: same_rest_def rest_ok_def edit_ok_def modes_ok_def modes_def modal_def places_ok_def)

lemma same_rest_refl [simp]: "same_rest m m"
  by (simp add: same_rest_def)

lemma rebuild_rest: "rebuild_rows m = Some m' \<Longrightarrow> same_rest m m'"
  by (auto simp: rebuild_rows_def Let_def same_rest_def clamp_scroll_def flatten_tree_def split: option.splits)

lemma set_collapsed_rest: "set_collapsed p v m = Some m' \<Longrightarrow> same_rest m m'"
  using rebuild_rest by (auto simp: set_collapsed_def same_rest_def)

lemma fold_all_rest: "fold_all v m = Some m' \<Longrightarrow> same_rest m m'"
  by (auto simp: fold_all_def set_status_def same_rest_def split: if_splits dest!: rebuild_rest)

lemma apply_sort_rest: "apply_sort m = Some m' \<Longrightarrow> same_rest m m'"
  by (auto simp: apply_sort_def Let_def same_rest_def split: if_splits)

lemma moves_rest [simp]: "same_rest m (move_cursor d m)" "same_rest m (move_to_parent m)"
  by (simp_all add: move_cursor_def move_to_parent_def Let_def clamp_scroll_def same_rest_def split: option.split)

lemma folding_rest:
  "toggle_collapse m = Some m' \<Longrightarrow> same_rest m m'" "collapse_or_parent m = Some m' \<Longrightarrow> same_rest m m'"
  "expand_or_child m = Some m' \<Longrightarrow> same_rest m m'" "cycle_sort m = Some m' \<Longrightarrow> same_rest m m'"
  "toggle_sort_dir m = Some m' \<Longrightarrow> same_rest m m'"
  by (auto simp: toggle_collapse_def collapse_or_parent_def expand_or_child_def cycle_sort_def toggle_sort_dir_def Let_def
      set_status_def split: option.splits if_splits dest: set_collapsed_rest)
    (auto simp: same_rest_def dest!: apply_sort_rest)

lemma view_keys_rest [simp]:
  "same_rest m (quit_action m)" "same_rest m (cycle_group m)" "same_rest m (refresh_action m)" "same_rest m (toggle_pause m)"
  "same_rest m (toggle_units m)" "same_rest m (remove_last_column m)" "same_rest m (adjust_interval d m)"
  "same_rest m (toggle_panel B m)"
  by (simp_all add: same_rest_def quit_action_def cycle_group_def refresh_action_def toggle_pause_def toggle_units_def
      remove_last_column_def remove_column_def set_columns_def adjust_interval_def toggle_panel_def set_status_def Let_def)

text \<open>The keys that open a mode do so from the main view, where no mode is on.\<close>

lemma local_keys_rest:
  assumes "f \<in> set (local_keys B)" "f m = Some m'" "rest_ok B m" "\<not> modal m" "\<not> overlaid m"
  shows "rest_ok B m'"
proof -
  have opens: "rest_ok B (start_filter m)" "rest_ok B (open_detail m)" "rest_ok B (open_help m)"
    "rest_ok B (open_column_picker B m)" "rest_ok B (cycle_leaf m)"
    using assms(3-) by (auto simp: rest_ok_def edit_ok_def modes_ok_def modes_def modal_def overlaid_def places_ok_def
        start_filter_def open_detail_def open_help_def open_column_picker_def cycle_leaf_def set_status_def leaf_modes_def Let_def)
  have same: "same_rest m x \<Longrightarrow> rest_ok B x" for x using same_rest_ok assms(3) by blast
  show ?thesis using assms(1,2) unfolding local_keys_def
    by (simp only: list.set insert_iff empty_iff, elim disjE)
      (auto simp: opens dest: folding_rest fold_all_rest intro: same)
qed

text \<open>An overlay only closes itself.\<close>

lemma edit_modes [simp]:
  "modes_ok B (history_move d m) = modes_ok B m" "places_ok (history_move d m) = places_ok m"
  "modes_ok B (edit_delete m) = modes_ok B m" "places_ok (edit_delete m) = places_ok m"
  "modes_ok B (edit_insert r m) = modes_ok B m" "places_ok (edit_insert r m) = places_ok m"
  "places_ok (apply_filter B m) = places_ok m"
  by (simp_all add: modes_ok_def modes_def modal_def places_ok_def history_move_def edit_delete_def edit_insert_def
      apply_filter_def set_having_def push_history_def set_status_def Let_def case_prod_beta split: option.split sum.split)

lemma apply_filter_modes: "modes_ok B m \<Longrightarrow> tm_editing m \<Longrightarrow> modes_ok B (apply_filter B' m)"
  by (auto simp: modes_ok_def modes_def modal_def apply_filter_def set_having_def push_history_def set_status_def Let_def
      split: option.split sum.split if_splits)

lemma edit_modes_option:
  "apply_suggestion fs m = Some m' \<Longrightarrow> modes_ok B m' = modes_ok B m \<and> places_ok m' = places_ok m"
  "edit_backspace m = Some m' \<Longrightarrow> modes_ok B m' = modes_ok B m \<and> places_ok m' = places_ok m"
  "edit_nav ev m = Some (Some m') \<Longrightarrow> modes_ok B m' = modes_ok B m \<and> places_ok m' = places_ok m"
  by (auto simp: apply_suggestion_def edit_backspace_def edit_nav_def Let_def split: if_splits list.splits)
    (auto simp: modes_ok_def modes_def modal_def places_ok_def)

lemma edit_key_rest:
  assumes "edit_key B ev m = Some m'" "tm_editing m" "rest_ok B m" "one_rune (ke_rune ev)"
  shows "rest_ok B m'"
proof -
  have "modes_ok B m' \<and> places_ok m'"
  proof (cases "edit_nav ev m")
    case None
    then show ?thesis using assms(1-3)
      by (auto simp: rest_ok_def edit_key_def filter_tab_def Let_def apply_filter_modes dest: edit_modes_option split: if_splits)
        (auto simp: modes_ok_def modes_def modal_def places_ok_def split: if_splits)
  qed (use assms(1,3) in \<open>auto simp: edit_key_def rest_ok_def dest: edit_modes_option\<close>)
  then show ?thesis using edit_key_ok [OF assms(1)] assms by (simp add: rest_ok_def)
qed

lemma toggle_rest [simp]: "same_rest m (toggle_highlighted B m)"
  by (simp add: same_rest_def toggle_highlighted_def toggle_system_metric_def remove_column_def append_column_def
      set_columns_def set_status_def Let_def)

lemma col_key_rest: "rest_ok B' m \<Longrightarrow> rest_ok B' (col_key B ev m)"
proof -
  assume ok: "rest_ok B' m"
  have "rest_ok B' (toggle_highlighted B m)" using same_rest_ok [OF toggle_rest ok] .
  moreover have "rest_ok B' (move_col_cursor B d m)" for d
    using ok by (auto simp: rest_ok_def edit_ok_def modes_ok_def modes_def modal_def places_ok_def move_col_cursor_def Let_def)
  ultimately show ?thesis
    using ok by (simp add: col_key_def Let_def)
      (auto simp: rest_ok_def edit_ok_def modes_ok_def modes_def modal_def places_ok_def set_col_filter_def)
qed

lemma help_key_rest: "rest_ok B' m \<Longrightarrow> rest_ok B' (help_key B ev m)"
  by (auto simp: help_key_def clamp_help_scroll_def Let_def rest_ok_def edit_ok_def modes_ok_def modes_def modal_def places_ok_def)

lemma detail_key_rest: "rest_ok B' m \<Longrightarrow> rest_ok B' (detail_key ev m)"
  by (auto simp: detail_key_def rest_ok_def edit_ok_def modes_ok_def modes_def modal_def places_ok_def)

lemma overlaid_rest:
  assumes "update B ev (m, w) = Some (m', w')" "overlaid m" "\<not> modal m" "rest_ok B m" "one_rune (ke_rune ev)"
  shows "rest_ok B m'"
  using assms edit_key_rest [of B ev m m'] col_key_rest help_key_rest detail_key_rest
  by (auto simp: update_def modal_def overlaid_def local_step_def pure_step_def split: if_splits)

subsection \<open>The gate\<close>

lemma begin_confirm_rest:
  "begin_confirm B req (m, w) = Some (m', w') \<Longrightarrow> rest_ok B m \<Longrightarrow> \<not> modal m \<Longrightarrow> \<not> overlaid m \<Longrightarrow> rest_ok B m'"
  by (auto simp: begin_confirm_def Let_def rest_ok_def edit_ok_def modes_ok_def modes_def modal_def overlaid_def places_ok_def
      set_status_def split: option.splits sum.splits prod.splits)

lemma start_control_rest:
  "start_control B kind (m, w) = Some (m', w') \<Longrightarrow> rest_ok B m \<Longrightarrow> \<not> modal m \<Longrightarrow> \<not> overlaid m \<Longrightarrow> rest_ok B m'"
  using begin_confirm_rest [of B _ m w m' w']
  by (auto simp: start_control_def Let_def split: if_splits option.splits)
    (auto simp: rest_ok_def edit_ok_def modes_ok_def modes_def modal_def overlaid_def places_ok_def set_status_def)

lemma one_mode_off: "exclusive (modes m) \<Longrightarrow> modal m \<Longrightarrow> \<not> overlaid m"
  by (auto simp: modes_def modal_def overlaid_def split: if_splits)

lemma nice_key_rest:
  assumes "nice_key B ev (m, w) = Some (m', w')" "tm_nice_editing m" "rest_ok B m"
  shows "rest_ok B m'"
proof (cases "ke_name ev = ''enter''")
  case True
  obtain n e where n: "atoi (trim_space (tm_nice_buf m)) = (n, e)" by fastforce
  let ?m = "m\<lparr>tm_nice_editing := False, tm_pending := (tm_pending m)\<lparr>tr_nice := n\<rparr>\<rparr>"
  have off: "\<not> tm_confirming m" "\<not> tm_previewing m" "\<not> overlaid m"
    using assms(2,3) one_mode_off [of m] by (auto simp: rest_ok_def modes_ok_def modes_def modal_def)
  have "rest_ok B ?m \<and> \<not> modal ?m \<and> \<not> overlaid ?m"
    using assms(3) off by (simp add: rest_ok_def edit_ok_def modes_ok_def modes_def modal_def overlaid_def places_ok_def)
  then have confirmed: "begin_confirm B (tm_pending ?m) (?m, w) = Some (m', w') \<Longrightarrow> rest_ok B m'"
    using begin_confirm_rest [of B "tm_pending ?m" ?m w m' w'] by argo
  have "rest_ok B (set_status s m)" for s
    using assms(3) by (rule same_rest_ok [rotated]) (simp add: set_status_def same_rest_def)
  then show ?thesis
    using True n assms(1) confirmed by (cases e) (auto simp: nice_key_def Let_def)
qed (use assms in \<open>auto simp: nice_key_def rest_ok_def edit_ok_def modes_ok_def modes_def modal_def places_ok_def
      split: if_splits\<close>)

lemma confirm_key_rest:
  "confirm_key B ev (m, w) = Some (m', w') \<Longrightarrow> tm_confirming m \<Longrightarrow> \<not> tm_previewing m \<Longrightarrow> rest_ok B m \<Longrightarrow> rest_ok B m'"
  by (auto simp: confirm_key_def Let_def set_status_def split: if_splits option.splits sum.splits prod.splits)
    (auto simp: rest_ok_def edit_ok_def modes_ok_def modes_def modal_def places_ok_def)

lemma drop_selected_rest: "drop_selected B (m, w) = Some (m', w') \<Longrightarrow> rest_ok B m \<Longrightarrow> rest_ok B m'"
  by (rule same_rest_ok) (auto simp: drop_selected_def Let_def same_rest_def set_status_def
      split: if_splits option.splits bool.splits prod.splits)

lemma update_rest:
  assumes up: "update B ev (m, w) = Some (m', w')" and ok: "rest_ok B m" and "one_rune (ke_rune ev)"
  shows "rest_ok B m'"
proof (cases "modal m")
  case True
  have "rest_ok B (m\<lparr>tm_previewing := False\<rparr>)"
    using ok by (auto simp: rest_ok_def edit_ok_def modes_ok_def modes_def modal_def places_ok_def)
  then show ?thesis
    using True up ok confirm_key_rest [of B ev m w m' w'] nice_key_rest [of B ev m w m' w']
    by (auto simp: update_def modal_def split: if_splits)
next
  case False
  show ?thesis
  proof (cases "overlaid m")
    case True
    show ?thesis by (rule overlaid_rest [OF up True False ok assms(3)])
  next
    case over: False
    from up False show ?thesis
    proof (cases rule: update_cases)
      case (local f)
      then show ?thesis using local_keys_rest [of f B m m'] ok False by (auto simp: local_step_def)
    next
      case (control kind)
      then show ?thesis using start_control_rest [OF _ ok False] by blast
    next
      case drop
      then show ?thesis using drop_selected_rest [OF _ ok] by blast
    qed (use over ok in auto)
  qed
qed

text \<open>None of these touches the view.\<close>

lemma begin_confirm_place: "begin_confirm B req (m, w) = Some (m', w') \<Longrightarrow> same_place m m'"
  by (auto simp: begin_confirm_def Let_def same_place_def same_view_def set_status_def
      split: option.splits sum.splits prod.splits)

lemma gate_place:
  "start_control B kind (m, w) = Some (m', w') \<Longrightarrow> same_place m m'"
  "nice_key B ev (m, w) = Some (m', w') \<Longrightarrow> same_place m m'"
  "confirm_key B ev (m, w) = Some (m', w') \<Longrightarrow> same_place m m'"
  "drop_selected B (m, w) = Some (m', w') \<Longrightarrow> same_place m m'"
  by (auto simp: start_control_def nice_key_def confirm_key_def drop_selected_def Let_def set_status_def
      split: if_splits option.splits sum.splits prod.splits bool.splits dest!: begin_confirm_place)
    (auto simp: same_place_def same_view_def)

lemma update_view:
  assumes up: "update B ev (m, w) = Some (m', w')" and ok: "view_ok m"
  shows "view_ok m'"
proof (cases "modal m")
  case True
  have "same_place m (m\<lparr>tm_previewing := False\<rparr>)" by (simp add: same_place_def same_view_def)
  then have "same_place m m'"
    using True up gate_place(2,3) [of B ev m w m' w'] by (auto simp: update_def modal_def split: if_splits)
  then show ?thesis using same_place_ok ok by blast
next
  case False
  from up False show ?thesis
  proof (cases rule: update_cases)
    case (overlay f)
    then have "same_place m m'" using overlay_keys_place [of f B ev m m'] by (auto simp: local_step_def)
    then show ?thesis using same_place_ok ok by blast
  next
    case (local f)
    then show ?thesis using local_keys_view [of f B m m'] ok by (auto simp: local_step_def)
  next
    case (control kind)
    show ?thesis by (rule same_place_ok [OF gate_place(1) [OF control(2)] ok])
  next
    case drop
    show ?thesis by (rule same_place_ok [OF gate_place(4) [OF drop(2)] ok])
  qed (use ok in simp)
qed

section \<open>Every run keeps it\<close>

lemma update_ok: "update B ev (m, w) = Some (m', w') \<Longrightarrow> tui_ok B m \<Longrightarrow> one_rune (ke_rune ev) \<Longrightarrow> tui_ok B m'"
  using update_view update_rest by (auto simp: tui_ok_parts)

lemma set_result_ok: "set_result B r cols m = Some m' \<Longrightarrow> tui_ok B m \<Longrightarrow> tui_ok B m'"
proof -
  assume s: "set_result B r cols m = Some m'" and ok: "tui_ok B m"
  obtain m1 where m1: "rebuild_rows m1 = Some m'" "same_rest m m1" "tm_cursor m1 = tm_cursor m"
    using s by (auto simp: set_result_def Let_def same_rest_def split: if_splits)
  then have "0 \<le> tm_cursor m1" using ok by (simp add: tui_ok_def view_ok_def)
  then show ?thesis
    using rebuild_view_ok [OF m1(1)] same_rest_ok [OF rebuild_rest [OF m1(1)], of B] same_rest_ok [OF m1(2), of B] ok
    by (simp add: tui_ok_parts)
qed

lemma tui_ok_status [simp]: "tui_ok B m \<Longrightarrow> tui_ok B (set_status s m)"
  using same_rest_ok [of m "set_status s m" B] by (simp add: tui_ok_parts) (simp add: set_status_def same_rest_def)

lemma requery_ok: "requery B refresh managed (m, w) = Some (m', w') \<Longrightarrow> tui_ok B m \<Longrightarrow> tui_ok B m'"
  by (auto simp: requery_def Let_def case_prod_beta split: sum.splits dest: set_result_ok)

definition event_ok :: "tui_event \<Rightarrow> bool" where
  "event_ok ev \<longleftrightarrow> (case ev of Key k \<Rightarrow> one_rune (ke_rune k) | _ \<Rightarrow> True)"

lemma clean_ok: "tui_ok B m \<Longrightarrow> tui_ok B (m\<lparr>tm_dirty := b\<rparr>)" "tui_ok B m \<Longrightarrow> tui_ok B (set_size x y m)"
  by (auto simp: tui_ok_parts set_size_def intro!: same_place_ok [of m] same_rest_ok [of m]
      simp: same_place_def same_view_def same_rest_def)

lemma handle_event_ok:
  assumes "handle_event B refresh managed ev (m, w) = Some (m', w')" "tui_ok B m" "event_ok ev"
  shows "tui_ok B m'"
proof (cases ev)
  case (Key k)
  then obtain m1 w1 where up: "update B k (m, w) = Some (m1, w1)"
    using assms(1) by (auto simp: handle_event_def split: option.splits)
  have "tui_ok B (m1\<lparr>tm_dirty := False\<rparr>)"
    using clean_ok(1) update_ok [OF up assms(2)] assms(3) Key by (simp add: event_ok_def)
  then show ?thesis
    using assms(1) Key up requery_ok [of B refresh managed "m1\<lparr>tm_dirty := False\<rparr>" w1 m' w']
    by (auto simp: handle_event_def take_dirty_def split: if_splits)
next
  case Tick
  then show ?thesis using assms requery_ok [OF _ assms(2)] by (auto simp: handle_event_def split: if_splits)
qed (use assms in \<open>auto simp: handle_event_def clean_ok\<close>)

lemma run_events_ok:
  "run_events B refresh managed evs s = Some s' \<Longrightarrow> tui_ok B (fst s) \<Longrightarrow> list_all event_ok evs \<Longrightarrow> tui_ok B (fst s')"
proof (induction evs arbitrary: s)
  case (Cons ev evs)
  obtain m w where "s = (m, w)" by (cases s)
  then show ?case
    using Cons handle_event_ok [of B refresh managed ev m w] by (auto split: if_splits option.splits)
qed simp

lemma new_tui_ok: "tui_ok B (set_size x y (set_interval d (new_tui f)))"
proof -
  have "index_or_zero leaf_modes v < length leaf_modes" for v by (simp add: index_or_zero_def leaf_modes_def)
  then show ?thesis
    by (simp add: tui_ok_def view_ok_def edit_ok_def modes_ok_def modes_def modal_def places_ok_def new_tui_def set_interval_def
        set_size_def flatten_tree_def)
qed

text \<open>
  C18: over a whole run of the explorer (any keys that carry at most one rune, any resizing, any answers of the data source and of the
  callbacks) the visible rows are those of the last result under the current folding, there is a width for every column, the cursor is
  on a row and the window starts at or above it, the editor's cursor is in its text and the browsed place in its history, at most one
  mode is on, and the confirmation gate is open only when control is installed.
\<close>

theorem explorer_invariant:
  "list_all event_ok evs \<Longrightarrow>
     (case start_tui B refresh managed f interval screen w of
        None \<Rightarrow> True
      | Some s \<Rightarrow> (case run_events B refresh managed evs s of None \<Rightarrow> True | Some (m, w') \<Rightarrow> tui_ok B m))"
proof -
  assume evs: "list_all event_ok evs"
  have start: "tui_ok B (fst s)" if "start_tui B refresh managed f interval screen w = Some s" for s
    using that requery_ok [OF _ new_tui_ok, of B refresh managed] by (cases s) (auto simp: start_tui_def)
  show ?thesis
  proof (cases "start_tui B refresh managed f interval screen w")
    case (Some s)
    then show ?thesis
      using run_events_ok [OF _ start [OF Some] evs] by (auto split: option.split)
  qed simp
qed

section \<open>Which key panics\<close>

definition cells_total :: "column list \<Rightarrow> bool" where
  "cells_total cols \<longleftrightarrow> (\<forall>c \<in> set cols. \<forall>r. co_cell c r \<noteq> None)"

lemma rebuild_total: "cells_total (tm_cols m) \<Longrightarrow> rebuild_rows m \<noteq> None"
proof -
  assume c: "cells_total (tm_cols m)"
  have "tm_cols (flatten_tree m) = tm_cols m" by (simp add: flatten_tree_def Let_def split: option.split)
  moreover have "cell_text (flatten_tree m) col fr \<noteq> None" if "col \<in> set (tm_cols m)" for col fr
    using c that by (auto simp: cell_text_def cells_total_def)
  then have "all_some (map (cell_text (flatten_tree m) col) rows) \<noteq> None" if "col \<in> set (tm_cols m)" for col rows
    using that by (intro all_some_total) (simp add: list_all_iff)
  ultimately have "compute_widths (flatten_tree m) \<noteq> None"
    unfolding compute_widths_def by (intro all_some_total) (simp add: list_all_iff del: not_None_eq)
  then show ?thesis by (auto simp: rebuild_rows_def Let_def)
qed

lemma set_collapsed_total: "cells_total (tm_cols m) \<Longrightarrow> set_collapsed p v m \<noteq> None"
  unfolding set_collapsed_def by (rule rebuild_total) simp

lemma folding_total:
  assumes "cells_total (tm_cols m)"
  shows "toggle_collapse m \<noteq> None" "collapse_or_parent m \<noteq> None" "expand_or_child m \<noteq> None" "fold_all v m \<noteq> None"
  using assms set_collapsed_total [OF assms] rebuild_total
  by (auto simp: toggle_collapse_def collapse_or_parent_def expand_or_child_def fold_all_def simp del: not_None_eq split: option.split)

text \<open>The position that is looked for lies in the columns.\<close>

lemma cycle_sort_total: "cycle_sort m \<noteq> None"
proof (cases "find (\<lambda>i. co_sortable (tm_cols m ! i)) (map (\<lambda>i. (tm_sort m + i) mod length (tm_cols m)) [1..<Suc (length (tm_cols m))])")
  case (Some i)
  then have "i \<in> (\<lambda>i. (tm_sort m + i) mod length (tm_cols m)) ` {1..<Suc (length (tm_cols m))}"
    unfolding find_Some_iff by (metis (no_types, lifting) list.set_map nth_mem set_upt)
  moreover from this have "0 < length (tm_cols m)" by (cases "tm_cols m") auto
  ultimately have "i < length (tm_cols m)" by (auto intro: mod_less_divisor)
  then show ?thesis using Some by (simp add: cycle_sort_def Let_def apply_sort_def del: upt_Suc)
qed (simp add: cycle_sort_def Let_def del: upt_Suc)

lemma toggle_sort_panics: "toggle_sort_dir m = None \<longleftrightarrow> tm_cols m \<noteq> [] \<and> length (tm_cols m) \<le> tm_sort m"
  by (simp add: toggle_sort_dir_def apply_sort_def Let_def)

lemma begin_confirm_total: "bk_control B \<noteq> None \<Longrightarrow> begin_confirm B req (m, w) \<noteq> None"
  by (auto simp: begin_confirm_def Let_def split: sum.split prod.split)

lemma start_control_total: "start_control B kind (m, w) \<noteq> None"
  using begin_confirm_total [of B _ m w] by (auto simp: start_control_def Let_def split: option.split)

lemma drop_total: "drop_selected B (m, w) \<noteq> None"
  by (auto simp: drop_selected_def Let_def split: option.split bool.split prod.split)

lemma modal_total:
  assumes "modal m" "bk_control B \<noteq> None"
  shows "update B ev (m, w) \<noteq> None"
proof -
  have "confirm_key B ev (m, w) \<noteq> None"
    using assms(2) by (auto simp: confirm_key_def Let_def split: sum.split prod.split)
  moreover have "nice_key B ev (m, w) \<noteq> None"
    using begin_confirm_total [OF assms(2)] by (simp add: nice_key_def Let_def split: option.split prod.split del: not_None_eq)
  ultimately show ?thesis
    using assms(1) by (cases "tm_confirming m") (simp_all add: modal_def update_def del: not_None_eq)
qed

lemma edit_key_total: "edit_ok m \<Longrightarrow> edit_key B ev m \<noteq> None"
proof -
  assume ok: "edit_ok m"
  have nav: "edit_nav ev m \<noteq> Some None"
    using ok by (auto simp: edit_nav_def Let_def word_left_def edit_ok_def)
  have "edit_backspace m \<noteq> None" using ok by (auto simp: edit_backspace_def Let_def edit_ok_def)
  moreover have "autofills fs \<Longrightarrow> apply_suggestion fs m \<noteq> None" for fs
    by (auto simp: autofills_def apply_suggestion_def Let_def split: list.split)
  moreover have "filter_tab B m \<noteq> None"
    by (auto simp: filter_tab_def apply_suggestion_def Let_def split: list.split)
  ultimately show ?thesis using nav by (cases "edit_nav ev m") (auto simp: edit_key_def Let_def)
qed

text \<open>The keys of the main view other than S.\<close>

definition sort_key :: "key_event \<Rightarrow> bool" where
  "sort_key ev \<longleftrightarrow> ke_rune ev = ''S'' \<and>
     ke_name ev \<notin> {''tab'', ''ctrl-c'', ''up'', ''down'', ''pgup'', ''pgdn'', ''enter'', ''left'', ''right''}"

lemma name_keys_total: "cells_total (tm_cols m) \<Longrightarrow> name_keys k = Some h \<Longrightarrow> h (m, w) \<noteq> None"
  unfolding name_keys_def using folding_total [of m]
  by (auto simp: pure_step_def local_step_def split: if_splits)

lemma name_keys_none:
  "name_keys k = None \<longleftrightarrow> k \<notin> {''ctrl-c'', ''up'', ''down'', ''pgup'', ''pgdn'', ''enter'', ''left'', ''right''}"
  by (auto simp: name_keys_def)

lemma rune_keys_total:
  "cells_total (tm_cols m) \<Longrightarrow> rune_keys B r = Some h \<Longrightarrow> r \<noteq> ''S'' \<Longrightarrow> h (m, w) \<noteq> None"
  unfolding rune_keys_def
  by (drule map_of_SomeD, simp only: list.set insert_iff empty_iff prod.inject, elim disjE conjE)
    (simp_all add: pure_step_def local_step_def folding_total cycle_sort_total start_control_total drop_total del: not_None_eq)

lemma rune_key_S: "rune_keys B ''S'' = Some (local_step toggle_sort_dir)"
  by (simp add: rune_keys_def)

text \<open>
  C19: the panics of the explorer. From every state of the invariant, with cells that can be rendered, exactly one thing brings it
  down: the key S in the main view while the sort position points past the displayed columns. Everything else, the editor, the overlays,
  the gate and the folding included, returns.
\<close>

theorem explorer_panics:
  fixes B :: "'w backend"
  assumes "tui_ok B m" and "cells_total (tm_cols m)"
  shows "update B ev (m, w) = None \<longleftrightarrow>
    \<not> modal m \<and> \<not> overlaid m \<and> sort_key ev \<and> tm_cols m \<noteq> [] \<and> length (tm_cols m) \<le> tm_sort m"
proof (cases "modal m")
  case True
  then show ?thesis using modal_total [of m B ev w] assms(1) by (simp add: tui_ok_def modes_ok_def)
next
  case False
  show ?thesis
  proof (cases "overlaid m")
    case True
    then show ?thesis using False edit_key_total [of m B ev] assms(1)
      by (auto simp: update_def modal_def overlaid_def local_step_def pure_step_def tui_ok_def)
  next
    case over: False
    then have u: "update B ev (m, w) = (if ke_name ev = ''tab'' then Some (toggle_panel B m, w)
      else (case name_keys (ke_name ev) of Some h \<Rightarrow> h (m, w)
        | None \<Rightarrow> (case rune_keys B (ke_rune ev) of Some h \<Rightarrow> h (m, w) | None \<Rightarrow> Some (m, w))))"
      using False by (simp add: update_def modal_def overlaid_def pure_step_def)
    show ?thesis
    proof (cases "sort_key ev")
      case True
      then have "(name_keys (ke_name ev) :: 'w handler option) = None" by (simp add: sort_key_def name_keys_none)
      then have "update B ev (m, w) = local_step toggle_sort_dir (m, w)"
        using u True by (simp add: sort_key_def rune_key_S)
      then show ?thesis using True False over toggle_sort_panics [of m] by (simp add: local_step_def)
    next
      case sort: False
      have "update B ev (m, w) \<noteq> None"
      proof (cases "name_keys (ke_name ev) :: 'w handler option")
        case None
        then have "ke_name ev = ''tab'' \<or> ke_rune ev \<noteq> ''S''" using sort unfolding name_keys_none by (auto simp: sort_key_def)
        then show ?thesis using None rune_keys_total [OF assms(2), of B "ke_rune ev" _ w] by (auto simp: u split: option.split)
      next
        case (Some h)
        then show ?thesis using name_keys_total [OF assms(2), of "ke_name ev" h w] by (auto simp: u)
      qed
      then show ?thesis using sort by simp
    qed
  qed
qed

section \<open>The columns come from the data source\<close>

lemma rebuild_cols: "rebuild_rows m = Some m' \<Longrightarrow> tm_cols m' = tm_cols m"
  by (auto simp: rebuild_rows_def Let_def clamp_scroll_def flatten_tree_def split: option.splits)

lemma set_collapsed_cols: "set_collapsed p v m = Some m' \<Longrightarrow> tm_cols m' = tm_cols m"
  by (auto simp: set_collapsed_def dest: rebuild_cols)

lemma local_keys_cols: "f \<in> set (local_keys B) \<Longrightarrow> f m = Some m' \<Longrightarrow> tm_cols m' = tm_cols m"
  unfolding local_keys_def
  by (simp only: list.set insert_iff empty_iff, elim disjE)
    (auto simp: quit_action_def move_cursor_def Let_def toggle_collapse_def collapse_or_parent_def move_to_parent_def
      expand_or_child_def cycle_group_def fold_all_def cycle_leaf_def open_detail_def open_help_def cycle_sort_def apply_sort_def
      toggle_sort_dir_def refresh_action_def toggle_pause_def toggle_units_def start_filter_def open_column_picker_def
      remove_last_column_def remove_column_def set_columns_def adjust_interval_def toggle_panel_def set_status_def clamp_scroll_def
      split: option.splits if_splits dest: set_collapsed_cols rebuild_cols)

lemma update_cols: "update B ev (m, w) = Some (m', w') \<Longrightarrow> tm_cols m' = tm_cols m"
proof (cases "modal m")
  case True
  assume "update B ev (m, w) = Some (m', w')"
  then show ?thesis
    using True gate_place(2,3) [of B ev m w m' w']
    by (auto simp: update_def modal_def same_place_def same_view_def split: if_splits)
next
  case False
  assume "update B ev (m, w) = Some (m', w')"
  then show ?thesis using False
  proof (cases rule: update_cases)
    case (overlay f)
    then show ?thesis using overlay_keys_place [of f B ev m m'] by (auto simp: local_step_def same_place_def same_view_def)
  next
    case (local f)
    then show ?thesis using local_keys_cols [of f B m m'] by (auto simp: local_step_def)
  next
    case (control kind)
    then show ?thesis using gate_place(1) [of B kind m w m' w'] by (simp add: same_place_def same_view_def)
  next
    case drop
    then show ?thesis using gate_place(4) [of B m w m' w'] by (simp add: same_place_def same_view_def)
  qed simp
qed

definition source_total :: "'w refresh \<Rightarrow> bool" where
  "source_total refresh \<longleftrightarrow> (\<forall>f w. case fst (refresh f w) of Inl e \<Rightarrow> True | Inr (r, cols) \<Rightarrow> cells_total cols)"

lemma requery_total:
  assumes "requery B refresh managed (m, w) = Some (m', w')" "cells_total (tm_cols m)"
    "source_total refresh" "pred_option source_total managed"
  shows "cells_total (tm_cols m')"
proof -
  have "source_total (data_source refresh managed (tm_panel m))"
    using assms(3,4) by (cases managed) (simp_all add: data_source_def split: panel.split)
  then have "case fst (data_source refresh managed (tm_panel m) (tm_flags m) w) of
      Inl e \<Rightarrow> True | Inr (r, cols) \<Rightarrow> cells_total cols" by (simp add: source_total_def)
  then show ?thesis
    using assms(1,2)
    by (auto simp: requery_def Let_def case_prod_beta set_result_def set_status_def split: sum.splits if_splits dest!: rebuild_cols)
qed

lemma run_total:
  "run_events B refresh managed evs s = Some s' \<Longrightarrow> cells_total (tm_cols (fst s)) \<Longrightarrow>
    source_total refresh \<Longrightarrow> pred_option source_total managed \<Longrightarrow> cells_total (tm_cols (fst s'))"
proof (induction evs arbitrary: s)
  case (Cons ev evs)
  obtain m w where s: "s = (m, w)" by (cases s)
  have "cells_total (tm_cols (fst s1))" if "handle_event B refresh managed ev (m, w) = Some s1" for s1
  proof (cases s1)
    case (Pair m1 w1)
    have rq: "requery B refresh managed (m2, w2) = Some (m1, w1) \<Longrightarrow> tm_cols m2 = tm_cols m \<Longrightarrow> cells_total (tm_cols m1)" for m2 w2
      using requery_total [of B refresh managed m2 w2 m1 w1] Cons.prems(2-) s by simp
    show ?thesis using that Pair rq Cons.prems(2) s
      by (cases ev) (auto simp: handle_event_def take_dirty_def set_size_def split: option.splits if_splits dest!: update_cols)
  qed
  then show ?case using Cons s by (auto split: if_splits option.splits)
qed simp

section \<open>Leaving\<close>

definition ctrl_c :: tui_event where
  "ctrl_c = Key \<lparr>ke_rune = [], ke_name = ''ctrl-c''\<rparr>"

lemma clamp_help_same [simp]:
  "tm_help (clamp_help_scroll B m) = tm_help m" "tm_editing (clamp_help_scroll B m) = tm_editing m"
  "tm_col_picker (clamp_help_scroll B m) = tm_col_picker m" "tm_detail (clamp_help_scroll B m) = tm_detail m"
  "tm_confirming (clamp_help_scroll B m) = tm_confirming m" "tm_nice_editing (clamp_help_scroll B m) = tm_nice_editing m"
  "tm_previewing (clamp_help_scroll B m) = tm_previewing m"
  "tm_quit (clamp_help_scroll B m) = tm_quit m" "tm_dirty (clamp_help_scroll B m) = tm_dirty m"
  by (simp_all add: clamp_help_scroll_def Let_def)

text \<open>The modes that are on, as a number; the forecast counts too.\<close>

definition depth :: "tui \<Rightarrow> nat" where
  "depth m = length (filter (\<lambda>b. b) (tm_previewing m # modes m))"

lemma ctrl_c_step:
  assumes "modes_ok B m" "\<not> tm_dirty m"
  shows "\<exists>m'. handle_event B refresh managed ctrl_c (m, w) = Some (m', w) \<and> modes_ok B m' \<and> \<not> tm_dirty m' \<and>
    (if depth m = 0 then tm_quit m' else tm_quit m' = tm_quit m \<and> depth m' < depth m)"
proof -
  have ctrl: "handle_event B refresh managed ctrl_c (m, w) =
      Some ((if tm_confirming m then if tm_previewing m then m\<lparr>tm_previewing := False\<rparr>
             else m\<lparr>tm_confirming := False, tm_status := ''control cancelled''\<rparr>
           else if tm_nice_editing m then m\<lparr>tm_nice_editing := False, tm_status := ''cancelled''\<rparr>
           else if tm_editing m then m\<lparr>tm_editing := False, tm_status := ''filter cancelled''\<rparr>
           else if tm_col_picker m then m\<lparr>tm_col_picker := False, tm_status := ''columns''\<rparr>
           else if tm_help m then clamp_help_scroll B (m\<lparr>tm_help := False\<rparr>)
           else if tm_detail m then m\<lparr>tm_detail := False\<rparr> else quit_action m)\<lparr>tm_dirty := False\<rparr>, w)"
    using assms(2)
    by (simp add: handle_event_def ctrl_c_def update_def confirm_key_def nice_key_def edit_key_def edit_nav_def col_key_def
        help_key_def detail_key_def local_step_def pure_step_def name_keys_def quit_action_def take_dirty_def Let_def)
  show ?thesis
    using assms unfolding ctrl
    by (auto simp: modes_ok_def modes_def modal_def depth_def quit_action_def)
qed

text \<open>
  C20: the explorer can always be left. From every state in which at most one mode is on, whatever the filter, the picker or the open
  gate show, three Ctrl-C quit; on the way no callback is called, so nothing is queried, controlled or dropped.
\<close>

theorem three_interrupts_quit:
  "modes_ok B m \<Longrightarrow>
     (case run_events B refresh managed [ctrl_c, ctrl_c, ctrl_c] (m\<lparr>tm_dirty := False\<rparr>, w) of
        Some (m', w') \<Rightarrow> tm_quit m' \<and> w' = w | None \<Rightarrow> False)"
proof -
  assume ok: "modes_ok B m"
  have run: "modes_ok B m \<Longrightarrow> \<not> tm_dirty m \<Longrightarrow> depth m < n \<Longrightarrow>
      \<exists>m'. run_events B refresh managed (replicate n ctrl_c) (m, w) = Some (m', w) \<and> tm_quit m'" for n m
  proof (induction n arbitrary: m)
    case (Suc n)
    show ?case
    proof (cases "tm_quit m")
      case False
      obtain m' where m': "handle_event B refresh managed ctrl_c (m, w) = Some (m', w)" "modes_ok B m'" "\<not> tm_dirty m'"
        "if depth m = 0 then tm_quit m' else tm_quit m' = tm_quit m \<and> depth m' < depth m"
        using ctrl_c_step [OF Suc.prems(1,2)] by blast
      show ?thesis
      proof (cases "depth m = 0")
        case True
        then have "tm_quit m'" using m'(4) by simp
        then have "run_events B refresh managed (replicate n ctrl_c) (m', w) = Some (m', w)" by (cases n) auto
        then show ?thesis using False m'(1) \<open>tm_quit m'\<close> by simp
      next
        case False
        then show ?thesis using Suc.IH [OF m'(2,3)] m'(1,4) Suc.prems(3) \<open>\<not> tm_quit m\<close> by auto
      qed
    qed simp
  qed simp
  let ?m = "m\<lparr>tm_dirty := False\<rparr>"
  have "modes_ok B ?m" using ok by (simp add: modes_ok_def modes_def modal_def)
  moreover from this have "depth ?m < 3" by (auto simp: modes_ok_def modes_def depth_def)
  ultimately show ?thesis using run [of ?m 3] by (auto simp: numeral_3_eq_3)
qed

end
