(* ===== verification/Tui_Frame.thy ===== *)
theory Tui_Frame
  imports Tui_Update
begin

text \<open>
  What the explorer shows: the frame with its status bar and table (\<open>tui/frame.go\<close>), the overlays (\<open>detail.go\<close>,
  \<open>help.go\<close>, \<open>columns.go\<close>), and the command line it prints for the final view.
\<close>

definition truncate_line :: "string \<Rightarrow> int \<Rightarrow> string" where
  "truncate_line s w = (if w \<le> 0 \<or> int (length s) \<le> w then s else take (nat w) s)"

definition justify :: "string \<Rightarrow> nat \<Rightarrow> bool \<Rightarrow> string" where
  "justify s w right = (if length s \<ge> w then s else if right then spaces (w - length s) @ s else s @ spaces (w - length s))"

definition app_name :: string where "app_name = ''procfit''"

section \<open>The status bar (\<open>frame.go\<close>)\<close>

definition first_line :: "string \<Rightarrow> string" where
  "first_line s = takeWhile (\<lambda>c. c \<noteq> CHR 0x0A) s"

definition with_cursor :: "string list \<Rightarrow> nat \<Rightarrow> string" where
  "with_cursor rs pos = concat (take pos rs) @ caret @ concat (drop pos rs)"

definition slim_bar :: "tui \<Rightarrow> string" where
  "slim_bar m =
     app_name @ (if tm_panel m = PanelManaged then '' MANAGED'' else []) @
     ''  gen='' @ show_int (case tm_result m of Some res \<Rightarrow> res_generation res | None \<Rightarrow> 0) @
     '' rows='' @ show_int (int (length (tm_rows m))) @ ''  '' @
     (if tm_paused m then ''PAUSED'' else ''interval='' @ show_duration (interval_hint m)) @
     ''   ['' @ arrow_up @ arrow_down @ '' enter]nav  [?]help [q]uit   '' @ tm_status m"

definition request_label :: "tui \<Rightarrow> string" where
  "request_label m = show_int (int (length (tr_pids (tm_pending m)))) @ '' proc(s) ['' @ tr_label (tm_pending m) @ '']''"

definition status_bar :: "'w backend \<Rightarrow> tui \<Rightarrow> string" where
  "status_bar B m = truncate_line
     (if tm_confirming m then
        ''CONFIRM '' @ verb (tr_kind (tm_pending m)) @ '' '' @ request_label m @ ''?  '' @ first_line (tm_preview m) @
        ''   [y]es [n]o [v]iew''
      else if tm_nice_editing m then
        ''nice '' @ request_label m @ ''> '' @ tm_nice_buf m @ ''_   '' @ tm_status m
      else if tm_editing m then
        ''filter> '' @ with_cursor (tm_edit m) (tm_edit_pos m) @
        (if suggest_hint B m \<noteq> [] then ''   '' @ suggest_hint B m
         else if tm_status m \<noteq> [] then ''   '' @ tm_status m else [])
      else slim_bar m) (tm_width m)"

section \<open>The table (\<open>frame.go\<close>)\<close>

definition host_panel_lines :: "tui \<Rightarrow> string list" where
  "host_panel_lines m =
     (if tm_host_lines m = [] then [] else map (\<lambda>l. truncate_line l (tm_width m)) (tm_host_lines m) @ [[]])"

definition width_of :: "tui \<Rightarrow> nat \<Rightarrow> nat" where
  "width_of m i = (if i < length (tm_widths m) then tm_widths m ! i else 0)"

text \<open>The cells of a line, each at the width of its column, two blanks apart.\<close>

definition tui_line :: "tui \<Rightarrow> string \<Rightarrow> string list \<Rightarrow> string" where
  "tui_line m mark cells = truncate_line (trim_right_set (mark @ join ''  ''
     (map (\<lambda>(i, c, x). justify x (width_of m i) (co_right c)) (zip [0..<length cells] (zip (tm_cols m) cells)))) '' '') (tm_width m)"

definition header_line :: "tui \<Rightarrow> string" where
  "header_line m = tui_line m ''  '' (map co_header (tm_cols m))"

definition row_line :: "tui \<Rightarrow> nat \<Rightarrow> string option" where
  "row_line m i = map_option (tui_line m (if int i = tm_cursor m then ''> '' else ''  ''))
     (all_some (map (\<lambda>c. cell_text m c (tm_rows m ! i)) (tm_cols m)))"

text \<open>A line of the body: a row, or blank past the last. A negative row panics.\<close>

definition body_line :: "tui \<Rightarrow> int \<Rightarrow> string option" where
  "body_line m idx =
     (if idx \<ge> int (length (tm_rows m)) then Some [] else if idx < 0 then None else row_line m (nat idx))"

definition table_frame :: "'w backend \<Rightarrow> tui \<Rightarrow> string list option" where
  "table_frame B m = map_option (\<lambda>body. [status_bar B m, []] @ host_panel_lines m @ [header_line m] @ body)
     (all_some (map (\<lambda>i. body_line m (tm_scroll m + int i)) [0..<nat (body_height m)]))"

section \<open>Overlays\<close>

text \<open>Blank lines up to the height of the screen.\<close>

definition fill_height :: "tui \<Rightarrow> string list \<Rightarrow> string list" where
  "fill_height m lines = lines @ replicate (nat (tm_height m) - length lines) []"

definition preview_frame :: "tui \<Rightarrow> string list" where
  "preview_frame m = fill_height m (map (\<lambda>l. truncate_line l (tm_width m))
     ((app_name @ ''  FORECAST '' @ em_dash @ '' any key returns to confirm'') # split_on (CHR 0x0A) (tm_preview m)))"

definition kv_line :: "tui \<Rightarrow> string \<Rightarrow> string \<Rightarrow> string" where
  "kv_line m k v = truncate_line (''  '' @ (k @ '':'') @ spaces (9 - length (runes (k @ '':''))) @ '' '' @ v) (tm_width m)"

definition entry_text :: "history_entry \<Rightarrow> string" where
  "entry_text h = hi_time h @ '' '' @ hi_action h @ (if hi_field h \<noteq> [] then '' '' @ hi_field h else []) @
     (if hi_from h \<noteq> [] \<or> hi_to h \<noteq> [] then '' '' @ hi_from h @ arrow_right @ hi_to h else [])"

definition history_lines :: "'w backend \<Rightarrow> tui \<Rightarrow> int \<Rightarrow> string list" where
  "history_lines B m pid =
     (case bk_history B of
        None \<Rightarrow> []
      | Some f \<Rightarrow>
          let hs = f pid in
          if hs = [] then [kv_line m ''history'' (''(none '' @ em_dash @ '' enable [state].history)'')]
          else kv_line m ''history'' (''('' @ show_int (int (length hs)) @ '' recent)'') # map (\<lambda>h. kv_line m [] (entry_text h)) hs)"

definition detail_body :: "'w backend \<Rightarrow> tui \<Rightarrow> row_data \<Rightarrow> string list" where
  "detail_body B m r =
     (case (r_process r, r_thread r) of
        (Some p, _) \<Rightarrow>
          [kv_line m ''name'' (display_name p), kv_line m ''comm'' (p_comm p),
           kv_line m ''pid'' (show_int (p_pid p) @ ''   ppid '' @ show_int (p_ppid p)),
           kv_line m ''user'' (p_user p @ '' (uid '' @ show_nat (unat (p_uid p)) @ '')''),
           kv_line m ''state'' [p_state p], kv_line m ''exe'' (p_exe p), kv_line m ''cgroup'' (p_cgroup_path p),
           kv_line m ''cmdline'' (join '' '' (p_cmdline p))] @ history_lines B m (p_pid p)
      | (None, Some t) \<Rightarrow>
          let pid = id_pid (tid_process (th_id t)) in
          [kv_line m ''thread'' (th_comm t),
           kv_line m ''tid'' (show_int (tid_tid (th_id t)) @ ''   (owner pid '' @ show_int pid @ '')''),
           kv_line m ''state'' [th_state t]] @ history_lines B m pid
      | (None, None) \<Rightarrow>
          [kv_line m ''group'' (r_label r),
           kv_line m ''procs/threads'' (show_int (r_procs r) @ '' / '' @ show_int (r_threads r)),
           kv_line m ''children'' (show_int (r_children r))])"

definition detail_frame :: "'w backend \<Rightarrow> tui \<Rightarrow> string list" where
  "detail_frame B m = fill_height m (truncate_line (app_name @ ''  DETAIL '' @ em_dash @ '' Esc/i/q to close'') (tm_width m) #
     (case current_row m of Some fr \<Rightarrow> detail_body B m (row_data (fr_row fr)) | None \<Rightarrow> []))"

definition help_lines :: "'w backend \<Rightarrow> tui \<Rightarrow> string list" where
  "help_lines B m = map (\<lambda>(k, d).
     if k = [] \<and> d = [] then [] else if k = [] then ''  '' @ d
     else truncate_line (''    '' @ justify k 12 False @ ''  '' @ d) (tm_width m)) (help_entries B)"

text \<open>The lines of a scrolled list from a position on, blank past the end.\<close>

definition help_frame :: "'w backend \<Rightarrow> tui \<Rightarrow> string list" where
  "help_frame B m =
     (let content = help_lines B m;
          title = app_name @ ''  HELP '' @ em_dash @ '' ?/Esc/q to close'' @
            (if int (length content) > body_height m then ''   ('' @ arrow_up @ ''/'' @ arrow_down @ '' scroll)'' else [])
      in truncate_line title (tm_width m) #
         map (\<lambda>i. let idx = nat (tm_help_scroll m) + i in if idx < length content then content ! idx else []) [0..<nat (body_height m)])"

definition picker_line :: "'w backend \<Rightarrow> tui \<Rightarrow> nat \<Rightarrow> string" where
  "picker_line B m idx =
     (if idx \<ge> length (filtered_choices B m) then []
      else let c = filtered_choices B m ! idx in
        truncate_line ((if int idx = tm_col_cursor m then ''> '' else ''  '') @ (if shown_column m (cc_id c) then ''[x]'' else ''[ ]'') @
          '' '' @ justify (cc_id c) 18 False @ '' '' @ (if cc_system c then ''[system] '' else []) @ cc_desc c) (tm_width m))"

definition picker_frame :: "'w backend \<Rightarrow> tui \<Rightarrow> string list" where
  "picker_frame B m =
     [truncate_line (app_name @ ''  COLUMNS '' @ em_dash @ '' type to filter '' @ middle_dot @ '' '' @ arrow_up @ arrow_down @
        '' move '' @ middle_dot @ '' Enter toggle '' @ middle_dot @ '' Esc close'') (tm_width m),
      truncate_line (''filter> '' @ concat (tm_col_filter m) @ caret) (tm_width m)] @
     map (\<lambda>i. picker_line B m (nat (tm_col_scroll m) + i)) [0..<nat (col_body_height m)]"

definition frame :: "'w backend \<Rightarrow> tui \<Rightarrow> string list option" where
  "frame B m =
     (if tm_help m then Some (help_frame B m)
      else if tm_col_picker m then Some (picker_frame B m)
      else if tm_confirming m \<and> tm_previewing m then Some (preview_frame m)
      else if tm_detail m then Some (detail_frame B m)
      else table_frame B m)"

section \<open>The command line of the final view (\<open>frame.go\<close>)\<close>

definition quote_arg :: "string \<Rightarrow> string" where
  "quote_arg s = [CHR 0x27] @ s @ [CHR 0x27]"

definition flag_words :: "string \<Rightarrow> string \<Rightarrow> string list" where
  "flag_words name v = (if v \<noteq> [] then [name, v] else [])"

definition cli_string :: "tui \<Rightarrow> string" where
  "cli_string m =
     (let f = tm_flags m in join '' ''
       ([app_name, ''ps''] @ flag_words ''--group-by'' (flg_group_by f) @ flag_words ''--leaf'' (flg_leaf f) @
        flag_words ''--sort'' (flg_sort f) @ flag_words ''--columns'' (flg_columns f) @
        concat (map (\<lambda>o'. [''--metric'', o']) (flg_overrides f)) @
        (if flg_select f \<noteq> [] then [''--select'', quote_arg (flg_select f)] else []) @
        (if flg_having f \<noteq> [] then [''--having'', quote_arg (flg_having f)] else [])))"

text \<open>
  Not the whole view: the profile, the number of rows, the units and the width of the target column are left out, so two
  views that differ in them print the same command.
\<close>

lemma cli_string_drops:
  "cli_string (m\<lparr>tm_flags := (tm_flags m)\<lparr>flg_profile := p, flg_number := n, flg_human := h, flg_target_width := w\<rparr>\<rparr>) = cli_string m"
  by (simp add: cli_string_def Let_def)

text \<open>A filter with a single quote ends the quoting early: the quotes of the printed command no longer match.\<close>

lemma quoted_filter_breaks: "count_list (quote_arg ''comm == 'sh' '') (CHR 0x27) = 4"
  by (simp add: quote_arg_def)

end
