(* ===== verification/Tui_Examples.thy ===== *)
theory Tui_Examples
  imports Tui_Correct Tui_Frame
begin

text \<open>
  A small explorer that runs: a data source that shows the columns of the flags over one row, and a driver whose
  control callback counts and accepts every request. The properties of the explorer are applied to it, and one run shows
  that the panic of the sort position is reached by ordinary keys.
\<close>

section \<open>The driver\<close>

definition demo_row :: row where
  "demo_row = Row \<lparr>r_kind = RowProcess, r_dimension_id = [], r_key = ''7@1'', r_label = ''make'', r_children = 0, r_procs = 1,
     r_threads = 2, r_leaves = 1, r_metrics = Map.empty, r_process = Some (zero_process\<lparr>p_pid := 7\<rparr>), r_thread = None\<rparr> []"

definition demo_result :: query_result where
  "demo_result = \<lparr>res_generation = 1, res_wall_time = 0, res_elapsed = 0, res_columns = [], res_rows = [demo_row],
     res_host_metrics = Map.empty\<rparr>"

definition demo_column :: "string \<Rightarrow> column" where
  "demo_column i = structural i i False True True False (\<lambda>r. Some (r_label r)) []"

definition demo_refresh :: "nat refresh" where
  "demo_refresh f w = (Inr (demo_result, map demo_column (split_comma (flg_columns f))), w)"

definition demo_driver :: "nat backend" where
  "demo_driver = \<lparr>bk_control = Some (\<lambda>req w. (Inr (verb (tr_kind req)), Suc w)), bk_drop = None, bk_has_managed = False,
     bk_history = None, bk_host_panel = None, bk_filter_ops = None, bk_choices = [], bk_regexp = (\<lambda>_. None),
     bk_error = (\<lambda>_. ''bad filter'')\<rparr>"

definition demo_flags :: flags where
  "demo_flags = \<lparr>flg_group_by = [], flg_leaf = [], flg_sort = [], flg_columns = ''target,procs,threads'', flg_profile = [],
     flg_overrides = [], flg_format = [], flg_select = [], flg_having = [], flg_number = 0, flg_human = False,
     flg_target_width = 40, flg_collapse_groups = False\<rparr>"

definition rune_key :: "string \<Rightarrow> tui_event" where
  "rune_key r = Key \<lparr>ke_rune = r, ke_name = []\<rparr>"

definition demo_run :: "tui_event list \<Rightarrow> (tui \<times> nat) option" where
  "demo_run evs = (case start_tui demo_driver demo_refresh None demo_flags 0 (80, 24) 0 of
     None \<Rightarrow> None | Some s \<Rightarrow> run_events demo_driver demo_refresh None evs s)"

text \<open>Sort by the third column, drop the third column.\<close>

definition shrinking :: "tui_event list" where
  "shrinking = [rune_key ''s'', rune_key ''s'', rune_key ''-'']"

definition shrunk :: tui where
  "shrunk = fst (the (demo_run shrinking))"

lemma shrunk_run:
  "map_option (\<lambda>(m, w). (tm_sort m, length (tm_cols m), tm_confirming m, tm_nice_editing m, overlaid m, w)) (demo_run shrinking) =
     Some (2, 2, False, False, False, 0)"
  by code_simp

lemma demo_shrunk: "demo_run shrinking \<noteq> None"
  using shrunk_run by auto

lemma shrunk_places:
  "tm_sort shrunk = 2" "length (tm_cols shrunk) = 2" "\<not> tm_confirming shrunk" "\<not> tm_nice_editing shrunk" "\<not> overlaid shrunk"
  using shrunk_run by (auto simp: shrunk_def)

lemma demo_total: "source_total demo_refresh"
  by (simp add: source_total_def cells_total_def demo_refresh_def demo_column_def structural_def)

lemma demo_run_ok: "demo_run evs = Some (m, w) \<Longrightarrow> list_all event_ok evs \<Longrightarrow> tui_ok demo_driver m"
proof -
  assume run: "demo_run evs = Some (m, w)" and evs: "list_all event_ok evs"
  obtain m1 w1 where "start_tui demo_driver demo_refresh None demo_flags 0 (80, 24) 0 = Some (m1, w1)"
    and s: "run_events demo_driver demo_refresh None evs (m1, w1) = Some (m, w)"
    using run by (auto simp: demo_run_def split: option.splits)
  then have "tui_ok demo_driver m1" unfolding start_tui_def by (intro requery_ok [OF _ new_tui_ok]) simp
  then show ?thesis using run_events_ok [OF s] evs by simp
qed

lemma shrunk_ok: "tui_ok demo_driver shrunk"
proof -
  obtain m w where "demo_run shrinking = Some (m, w)" using demo_shrunk by auto
  moreover have "list_all event_ok shrinking"
    by (simp add: shrinking_def event_ok_def rune_key_def one_rune_def)
  ultimately show ?thesis using demo_run_ok by (simp add: shrunk_def)
qed

section \<open>The properties, applied\<close>

lemma shrunk_cells: "cells_total (tm_cols shrunk)"
proof -
  obtain m w where r: "demo_run shrinking = Some (m, w)" using demo_shrunk by auto
  have "cells_total (tm_cols m1)" if "start_tui demo_driver demo_refresh None demo_flags 0 (80, 24) 0 = Some (m1, w1)" for m1 w1
    using that requery_total [of demo_driver demo_refresh None _ 0 m1 w1] demo_total
    by (auto simp: start_tui_def cells_total_def new_tui_def set_interval_def set_size_def)
  then show ?thesis
    using r run_total [of demo_driver demo_refresh None shrinking _ "(m, w)"] demo_total
    by (auto simp: demo_run_def shrunk_def split: option.splits)
qed

theorem explorer_invariant_witness:
  "(case start_tui demo_driver demo_refresh None demo_flags 0 (80, 24) 0 of
     None \<Rightarrow> True
   | Some s \<Rightarrow> (case run_events demo_driver demo_refresh None shrinking s of None \<Rightarrow> True | Some (m, w') \<Rightarrow> tui_ok demo_driver m)) \<and>
   demo_run shrinking \<noteq> None"
  using explorer_invariant [of shrinking demo_driver demo_refresh None demo_flags 0 "(80, 24)" 0] demo_shrunk
  by (simp add: shrinking_def event_ok_def rune_key_def one_rune_def)

theorem explorer_panics_witness: "update demo_driver \<lparr>ke_rune = ''S'', ke_name = []\<rparr> (shrunk, 0) = None"
proof -
  have "sort_key \<lparr>ke_rune = ''S'', ke_name = []\<rparr>" by (simp add: sort_key_def)
  moreover have "tm_cols shrunk \<noteq> []" using shrunk_places(2) by auto
  ultimately show ?thesis
    using explorer_panics [OF shrunk_ok shrunk_cells, of "\<lparr>ke_rune = ''S'', ke_name = []\<rparr>" 0] shrunk_places
    by (simp add: modal_def)
qed

theorem three_interrupts_quit_witness:
  "case run_events demo_driver demo_refresh None [ctrl_c, ctrl_c, ctrl_c] (shrunk\<lparr>tm_dirty := False\<rparr>, 5) of
     Some (m', w') \<Rightarrow> tm_quit m' \<and> w' = 5 | None \<Rightarrow> False"
  by (rule three_interrupts_quit) (use shrunk_ok in \<open>simp add: tui_ok_def\<close>)

text \<open>So four ordinary keys bring the explorer down.\<close>

lemma sorting_can_panic: "demo_run (shrinking @ [rune_key ''S'']) = None"
  by code_simp

text \<open>The gate of the same driver: x previews, y applies; any other key in between would have applied nothing.\<close>

definition demo_requests :: "tui_event list \<Rightarrow> gate_request list option" where
  "demo_requests evs = (case start_tui (log_backend demo_driver) (keep_log demo_refresh) None demo_flags 0 (80, 24) (0, []) of
     None \<Rightarrow> None
   | Some s \<Rightarrow> map_option (snd \<circ> snd) (run_events (log_backend demo_driver) (keep_log demo_refresh) None evs s))"

lemma gate_runs:
  "demo_requests [rune_key ''x'', rune_key ''j'', rune_key ''y''] =
     (let stop = \<lparr>tr_pids = [7], tr_label = ''make'', tr_target = [], tr_kind = CtrlStop, tr_nice = 0, tr_dry_run = True\<rparr>
      in Some [stop, stop\<lparr>tr_dry_run := False\<rparr>])"
  by code_simp

lemma gate_closes: "map_option (map tr_dry_run) (demo_requests [rune_key ''x'', rune_key ''n'', rune_key ''y'']) = Some [True]"
  by code_simp

end
