(* ===== verification/App_Assembly.thy ===== *)
theory App_Assembly
  imports Go_Duration Render_Output Query_Spec App_Control
begin

text \<open>
  The observation stack and the commands over it, \<open>internal/app\<close>: wiring the source, resolvers and
  collectors (\<open>assembly.go\<close>), one sample for one result, \<open>ps\<close> (\<open>ps.go\<close>), the repeated samples of \<open>stat\<close>
  (\<open>stat.go\<close>) and the Prometheus endpoint (\<open>export.go\<close>). An assembly is a record of the ports, all of
  which may change the world they are given. Flags arrive parsed; messages on standard error
  and failing writes are not modelled.
\<close>

section \<open>The assembly (\<open>assembly.go\<close>)\<close>

definition exit_interrupted :: int where "exit_interrupted = 130"

text \<open>The optional reads of the source.\<close>

record source_options =
  op_threads :: bool
  op_wchan :: bool
  op_hostname :: bool

record 'w metric_collector =
  mc_metrics :: "metric_id list"
  mc_collect :: "process list \<Rightarrow> 'w \<Rightarrow> process list \<times> 'w"

record 'w host_collector =
  hc_metrics :: "metric_id list"
  hc_collect :: "'w \<Rightarrow> (metric_id \<rightharpoonup> metric_value) \<times> 'w"

text \<open>
  Reading gives what the source and the clock answer during one sample; waiting says whether it was
  interrupted. Formatting a time is a part of the standard library that stays a parameter.
\<close>

record 'w assembly =
  as_engine :: engine
  as_regexp :: regexp_compile
  as_configure :: "source_options \<Rightarrow> 'w \<Rightarrow> 'w"
  as_read :: "'w \<Rightarrow> source_reading \<times> 'w"
  as_resolvers :: "(process \<Rightarrow> 'w \<Rightarrow> process \<times> 'w) list"
  as_collectors :: "'w metric_collector list"
  as_host_collectors :: "'w host_collector list"
  as_wait :: "int \<Rightarrow> 'w \<Rightarrow> bool \<times> 'w"
  as_cancelled :: "'w \<Rightarrow> bool"
  as_style :: "int \<Rightarrow> style"
  as_stamp :: "int \<Rightarrow> string"

definition intersects_metrics :: "metric_id list \<Rightarrow> metric_id list \<Rightarrow> bool" where
  "intersects_metrics ids needed \<longleftrightarrow> list_ex (\<lambda>i. i \<in> set needed) ids"

fun run_host_collectors ::
  "metric_id list \<Rightarrow> 'w host_collector list \<Rightarrow> (metric_id \<rightharpoonup> metric_value) \<Rightarrow> 'w \<Rightarrow> (metric_id \<rightharpoonup> metric_value) \<times> 'w" where
  "run_host_collectors needed [] out w = (out, w)"
| "run_host_collectors needed (hc # hcs) out w =
     (if \<not> intersects_metrics (hc_metrics hc) needed then run_host_collectors needed hcs out w
      else (case hc_collect hc w of
          (m, w) \<Rightarrow> run_host_collectors needed hcs (out ++ (m |` set needed)) w))"

definition collect_host :: "'w assembly \<Rightarrow> metric_id list \<Rightarrow> 'w \<Rightarrow> (metric_id \<rightharpoonup> metric_value) \<times> 'w" where
  "collect_host A needed w = run_host_collectors needed (as_host_collectors A) Map.empty w"

fun resolve_with :: "(process \<Rightarrow> 'w \<Rightarrow> process \<times> 'w) list \<Rightarrow> process \<Rightarrow> 'w \<Rightarrow> process \<times> 'w" where
  "resolve_with [] p w = (p, w)"
| "resolve_with (r # rs) p w = (case r p w of (p, w) \<Rightarrow> resolve_with rs p w)"

fun apply_resolvers :: "'w assembly \<Rightarrow> process list \<Rightarrow> 'w \<Rightarrow> process list \<times> 'w" where
  "apply_resolvers A [] w = ([], w)"
| "apply_resolvers A (p # ps) w =
     (case resolve_with (as_resolvers A) p w of (p, w) \<Rightarrow> case apply_resolvers A ps w of (ps, w) \<Rightarrow> (p # ps, w))"

fun run_collectors :: "metric_id list \<Rightarrow> 'w metric_collector list \<Rightarrow> process list \<Rightarrow> 'w \<Rightarrow> process list \<times> 'w" where
  "run_collectors needed [] procs w = (procs, w)"
| "run_collectors needed (c # cs) procs w =
     (case (if intersects_metrics (mc_metrics c) needed then mc_collect c procs w else (procs, w)) of
        (procs, w) \<Rightarrow> run_collectors needed cs procs w)"

definition enrich :: "'w assembly \<Rightarrow> process list \<Rightarrow> metric_id list \<Rightarrow> 'w \<Rightarrow> process list \<times> 'w" where
  "enrich A procs needed w = run_collectors needed (as_collectors A) procs w"

definition warmup :: int where "warmup = 1000000000"

definition uses_field :: "resolved \<Rightarrow> string \<Rightarrow> bool" where
  "uses_field r field \<longleftrightarrow>
     field \<in> set (rv_columns r) \<or> field \<in> set (q_group_by (rv_spec r)) \<or> field \<in> set (rv_expr_fields r)"

definition configure_source :: "resolved \<Rightarrow> source_options" where
  "configure_source r = \<lparr>op_threads = (q_leaf (rv_spec r) = LeafThread), op_wchan = uses_field r ''wchan'',
     op_hostname = uses_field r ''hostname''\<rparr>"

definition has_rate :: "'w assembly \<Rightarrow> metric_id list \<Rightarrow> bool" where
  "has_rate A ids \<longleftrightarrow> list_ex (\<lambda>i. case reg_get (e_reg (as_engine A)) i of None \<Rightarrow> False | Some d \<Rightarrow> is_rate d) ids"

definition take_sample ::
  "'w assembly \<Rightarrow> metric_id list \<Rightarrow> sampler \<Rightarrow> 'w \<Rightarrow> (sampler \<times> (string, snapshot) result) \<times> 'w" where
  "take_sample A needed s w = (case as_read A w of (reading, w) \<Rightarrow> (sample s reading needed, w))"

text \<open>What a snapshot becomes: resolved, enriched, and joined by the host's metrics.\<close>

definition observe :: "'w assembly \<Rightarrow> metric_id list \<Rightarrow> snapshot \<Rightarrow> 'w \<Rightarrow> query_input \<times> 'w" where
  "observe A needed sn w =
     (case apply_resolvers A (sn_processes sn) w of (procs, w) \<Rightarrow>
      case enrich A procs needed w of (procs, w) \<Rightarrow>
      case collect_host A needed w of (host, w) \<Rightarrow>
        (\<lparr>in_generation = sn_generation sn, in_wall_time = sn_wall_time sn, in_elapsed = sn_elapsed sn,
          in_processes = procs, in_host_metrics = host\<rparr>, w))"

definition finish_sample ::
  "'w assembly \<Rightarrow> metric_id list \<Rightarrow> (sampler \<times> (string, snapshot) result) \<times> 'w \<Rightarrow> (string, query_input) result \<times> 'w" where
  "finish_sample A needed taken =
     (case taken of ((s, r), w) \<Rightarrow>
      case r of Inl e \<Rightarrow> (Inl e, w) | Inr sn \<Rightarrow> (case observe A needed sn w of (inp, w) \<Rightarrow> (Inr inp, w)))"

definition sample_for_result :: "'w assembly \<Rightarrow> resolved \<Rightarrow> bool \<Rightarrow> 'w \<Rightarrow> (string, query_input) result \<times> 'w" where
  "sample_for_result A r instant w =
     (case take_sample A (rv_needed r) new_sampler (as_configure A (configure_source r) w) of
        ((s, Inl e), w) \<Rightarrow> (Inl e, w)
      | ((s, Inr sn), w) \<Rightarrow>
          if \<not> instant \<and> has_rate A (rv_needed r) then
            (case as_wait A warmup w of
               (True, w) \<Rightarrow> (Inl ''context canceled'', w)
             | (False, w) \<Rightarrow> finish_sample A (rv_needed r) (take_sample A (rv_needed r) s w))
          else finish_sample A (rv_needed r) ((s, Inr sn), w))"

definition resolve_query :: "'w assembly \<Rightarrow> flags \<Rightarrow> (spec_error, resolved) result" where
  "resolve_query A f = build_spec (as_regexp A) (e_reg (as_engine A)) f"

section \<open>A snapshot (\<open>ps.go\<close>)\<close>

text \<open>How a command ends: its exit code, or a panic of a renderer.\<close>

datatype ending = Exited int | Panicked

definition rendered_ending :: "(render_error, rendered) result option \<Rightarrow> rendered list \<times> ending" where
  "rendered_ending r =
     (case r of None \<Rightarrow> ([], Panicked) | Some (Inl e) \<Rightarrow> ([], Exited exit_usage) | Some (Inr t) \<Rightarrow> ([t], Exited exit_ok))"

definition run_ps :: "'w assembly \<Rightarrow> flags \<Rightarrow> bool \<Rightarrow> 'w \<Rightarrow> (rendered list \<times> ending) \<times> 'w" where
  "run_ps A f instant w =
     (case resolve_query A f of
        Inl e \<Rightarrow> (([], Exited exit_usage), w)
      | Inr r \<Rightarrow>
          (case sample_for_result A r instant w of
             (Inl e, w) \<Rightarrow> (([], Exited exit_runtime), w)
           | (Inr inp, w) \<Rightarrow>
               (case build_query (as_engine A) inp (rv_spec r) of
                  Inl e \<Rightarrow> (([], Exited exit_usage), w)
                | Inr res \<Rightarrow>
                    (rendered_ending (render_result (as_style A (res_wall_time res)) (e_reg (as_engine A)) res (rv_format r)
                       (rv_columns r) (rv_human r) (rv_target_width r)), w))))"

section \<open>A stream of samples (\<open>stat.go\<close>)\<close>

text \<open>\<open>streamEmitter\<close>: what is printed before the first batch, and one batch (a panic is \<open>None\<close>).\<close>

definition stream_header :: "resolved \<Rightarrow> column list \<Rightarrow> rendered list" where
  "stream_header r cols = (if rv_format r = ''csv'' then [Text (csv_line (csv_header cols))] else [])"

definition stream_table :: "'w assembly \<Rightarrow> resolved \<Rightarrow> column list \<Rightarrow> query_result \<Rightarrow> rendered option" where
  "stream_table A r cols res =
     (let sy = as_style A (res_wall_time res); host = res_host_metrics res in
      case (host_matrix (sy_quote sy) (sy_ids sy) (e_reg (as_engine A)) host (rv_human r), render_table res cols (rv_target_width r)) of
        (Some lines, Some t) \<Rightarrow>
          Some (Text (''== '' @ as_stamp A (res_wall_time res) @ '' =='' @ newline @ concat (map (\<lambda>l. l @ newline) lines) @
            (if filter (\<lambda>i. host i \<noteq> None) (sy_ids sy) = [] then [] else newline) @ t))
      | _ \<Rightarrow> None)"

definition stream_emit ::
  "'w assembly \<Rightarrow> resolved \<Rightarrow> column list \<Rightarrow> bool \<Rightarrow> query_result \<Rightarrow> (rendered \<times> bool) option" where
  "stream_emit A r cols meta res =
     (let sy = as_style A (res_wall_time res); reg = e_reg (as_engine A) in
      if rv_format r = ''ndjson'' then
        (case write_result reg (sy_now sy) (sy_json_time sy) res meta of (records, meta) \<Rightarrow> Some (JsonLines records, meta))
      else if rv_format r = ''csv'' then
        map_option (\<lambda>rows. (Text (concat (map csv_line rows)), meta)) (csv_rows (sy_csv_time sy) res cols)
      else if rv_format r = ''json'' then Some (JsonDoc (render_json res reg), meta)
      else map_option (\<lambda>t. (t, meta)) (stream_table A r cols res))"

text \<open>
  One round: sampling, building, emitting. It goes on with the sampler, or ends the command.
\<close>

definition stream_round ::
  "'w assembly \<Rightarrow> resolved \<Rightarrow> column list \<Rightarrow> bool \<Rightarrow> sampler \<Rightarrow> 'w \<Rightarrow> (ending, rendered \<times> bool \<times> sampler) result \<times> 'w" where
  "stream_round A r cols meta s w =
     (case take_sample A (rv_needed r) s w of
        ((s, Inl e), w) \<Rightarrow> (Inl (Exited (if as_cancelled A w then exit_interrupted else exit_runtime)), w)
      | ((s, Inr sn), w) \<Rightarrow>
          (case observe A (rv_needed r) sn w of (inp, w) \<Rightarrow>
           case build_query (as_engine A) inp (rv_spec r) of
             Inl e \<Rightarrow> (Inl (Exited exit_usage), w)
           | Inr res \<Rightarrow>
               (case stream_emit A r cols meta res of
                  None \<Rightarrow> (Inl Panicked, w)
                | Some (chunk, meta) \<Rightarrow> (Inr (chunk, meta, s), w))))"

text \<open>
  The loop. Without a count it runs until it is interrupted, so the rounds are bounded by fuel, and
  an ending of \<open>None\<close> says that it was still going.
\<close>

fun stream_loop ::
  "nat \<Rightarrow> 'w assembly \<Rightarrow> resolved \<Rightarrow> column list \<Rightarrow> int \<Rightarrow> int \<Rightarrow> int \<Rightarrow> bool \<Rightarrow> sampler \<Rightarrow> 'w \<Rightarrow>
    rendered list \<times> ending option \<times> 'w" where
  "stream_loop 0 A r cols interval batches emitted meta s w = ([], None, w)"
| "stream_loop (Suc n) A r cols interval batches emitted meta s w =
     (case stream_round A r cols meta s w of
        (Inl e, w) \<Rightarrow> ([], Some e, w)
      | (Inr (chunk, meta, s), w) \<Rightarrow>
          if batches > 0 \<and> emitted + 1 \<ge> batches then ([chunk], Some (Exited exit_ok), w)
          else (case as_wait A interval w of
              (True, w) \<Rightarrow> ([chunk], Some (Exited exit_interrupted), w)
            | (False, w) \<Rightarrow>
                (case stream_loop n A r cols interval batches (emitted + 1) meta s w of
                   (chunks, e, w) \<Rightarrow> (chunk # chunks, e, w))))"

definition run_stat ::
  "nat \<Rightarrow> 'w assembly \<Rightarrow> flags \<Rightarrow> int \<Rightarrow> int \<Rightarrow> 'w \<Rightarrow> rendered list \<times> ending option \<times> 'w" where
  "run_stat fuel A f interval batches w =
     (case resolve_query A f of
        Inl e \<Rightarrow> ([], Some (Exited exit_usage), w)
      | Inr r \<Rightarrow>
          (case resolve_columns (e_reg (as_engine A)) (process_columns (e_reg (as_engine A)) (rv_columns r)) (rv_human r) of
             Inl e \<Rightarrow> ([], Some (Exited exit_usage), w)
           | Inr cols \<Rightarrow>
               (case stream_loop fuel A r cols interval batches 0 False new_sampler (as_configure A (configure_source r) w) of
                  (chunks, e, w) \<Rightarrow> (stream_header r cols @ chunks, e, w))))"

text \<open>The interval: a leading argument wins over the flag; \<open>None\<close> is a usage error.\<close>

definition stat_interval :: "string list \<Rightarrow> int \<Rightarrow> int option \<times> string list" where
  "stat_interval args flag =
     (case args of
        [] \<Rightarrow> (Some flag, [])
      | a # rest \<Rightarrow> if has_prefix a ''-'' then (Some flag, args)
          else if a = [] then (Some flag, rest)
          else (parse_duration a, rest))"

section \<open>Prometheus (\<open>export.go\<close>)\<close>

datatype export_error = SampleError string | BuildError group_error

definition export_render :: "'w assembly \<Rightarrow> resolved \<Rightarrow> bool \<Rightarrow> 'w \<Rightarrow> (export_error, string) result \<times> 'w" where
  "export_render A r instant w =
     (case sample_for_result A r instant w of
        (Inl e, w) \<Rightarrow> (Inl (SampleError e), w)
      | (Inr inp, w) \<Rightarrow>
          (case build_query (as_engine A) inp (rv_spec r) of
             Inl e \<Rightarrow> (Inl (BuildError e), w)
           | Inr res \<Rightarrow> (Inr (render_prometheus (sy_ids (as_style A (res_wall_time res))) res (e_reg (as_engine A))), w)))"

definition run_export :: "'w assembly \<Rightarrow> flags \<Rightarrow> bool \<Rightarrow> 'w \<Rightarrow> (rendered list \<times> ending) \<times> 'w" where
  "run_export A f instant w =
     (case resolve_query A f of
        Inl e \<Rightarrow> (([], Exited exit_usage), w)
      | Inr r \<Rightarrow>
          (case export_render A r instant w of
             (Inl e, w) \<Rightarrow> (([], Exited exit_runtime), w)
           | (Inr t, w) \<Rightarrow> (([Text t], Exited exit_ok), w)))"

text \<open>The overrides of a scrape: the first parameter of those listed that has a value.\<close>

definition pick_param :: "(string \<Rightarrow> string) \<Rightarrow> string list \<Rightarrow> string \<Rightarrow> string" where
  "pick_param q names cur = (case filter (\<lambda>v. v \<noteq> []) (map q names) of [] \<Rightarrow> cur | v # _ \<Rightarrow> v)"

definition export_overrides :: "flags \<Rightarrow> (string \<Rightarrow> string) \<Rightarrow> flags" where
  "export_overrides f q =
     f\<lparr>flg_profile := pick_param q [''profile'', ''metrics''] (flg_profile f),
       flg_group_by := pick_param q [''group_by'', ''group-by''] (flg_group_by f),
       flg_leaf := pick_param q [''leaf''] (flg_leaf f),
       flg_select := pick_param q [''select''] (flg_select f),
       flg_having := pick_param q [''having''] (flg_having f)\<rparr>"

datatype scrape = Metrics string | BadRequest spec_error | ServerError export_error

definition export_scrape :: "'w assembly \<Rightarrow> flags \<Rightarrow> bool \<Rightarrow> (string \<Rightarrow> string) \<Rightarrow> 'w \<Rightarrow> scrape \<times> 'w" where
  "export_scrape A base instant q w =
     (case resolve_query A (export_overrides base q) of
        Inl e \<Rightarrow> (BadRequest e, w)
      | Inr r \<Rightarrow>
          (case export_render A r instant w of
             (Inl e, w) \<Rightarrow> (ServerError e, w)
           | (Inr t, w) \<Rightarrow> (Metrics t, w)))"

section \<open>Dispatch (\<open>app.go\<close>)\<close>

text \<open>Which command runs with which arguments, or the exit code of a run without a command.\<close>

datatype dispatched = RunCommand string "string list" | PrintUsage | UsageError

definition command_names :: "string list" where
  "command_names = [''ps'', ''stat'', ''export'', ''metrics'', ''capabilities'', ''config'', ''managed'', ''manage'', ''set'',
     ''restore'', ''unmanage'', ''signal'', ''history'', ''daemon'', ''service'', ''tui'', ''version'']"

definition dispatch_command :: "string \<Rightarrow> string list \<Rightarrow> dispatched" where
  "dispatch_command name args = (if name \<in> set command_names then RunCommand name args else UsageError)"

definition run_args :: "bool \<Rightarrow> string list \<Rightarrow> dispatched" where
  "run_args is_tty args =
     (case args of
        [] \<Rightarrow> if is_tty then dispatch_command ''tui'' [] else UsageError
      | name # rest \<Rightarrow>
          if name = ''-h'' \<or> name = ''--help'' \<or> name = ''help'' then
            (if name = ''help'' \<and> length rest \<ge> 1 then dispatch_command (hd rest) [''--help''] else PrintUsage)
          else if name = ''-v'' \<or> name = ''--version'' then dispatch_command ''version'' []
          else if has_prefix name ''-'' then (if is_tty then dispatch_command ''tui'' args else UsageError)
          else dispatch_command name rest)"

end
