(* ===== verification/Procfs_Gpu.thy ===== *)
theory Procfs_Gpu
  imports Procfs_Readings
begin

text \<open>
  Graphics use of processes, \<open>internal/procfs/gpu.go\<close>: the \<open>drm-*\<close> keys of a descriptor's fdinfo record, the
  clients of a process counted once, and the utilisation over a window between two scans. Counters are
  64-bit words. Cancelling a scan is not modelled; the scans of different processes are independent.
\<close>

section \<open>Values of a record\<close>

definition gpu_engine_ids :: "metric_id list" where
  "gpu_engine_ids = [''gpu-render'', ''gpu-compute'', ''gpu-copy'', ''gpu-video'', ''gpu-video-enhance'']"

definition gpu_metrics :: "metric_id list" where
  "gpu_metrics = [''gpu'', ''gpu-mem''] @ gpu_engine_ids"

definition canonical_engine :: "string \<Rightarrow> metric_id option" where
  "canonical_engine = map_of
     [(''render'', ''gpu-render''), (''gfx'', ''gpu-render''), (''3d'', ''gpu-render''), (''compute'', ''gpu-compute''),
      (''copy'', ''gpu-copy''), (''dma'', ''gpu-copy''), (''blitter'', ''gpu-copy''), (''video'', ''gpu-video''),
      (''dec'', ''gpu-video''), (''enc'', ''gpu-video''), (''bsd'', ''gpu-video''), (''vcn'', ''gpu-video''),
      (''jpeg'', ''gpu-video''), (''video-enhance'', ''gpu-video-enhance''), (''vebox'', ''gpu-video-enhance'')]"

definition parse_mem_bytes :: "string \<Rightarrow> 64 word" where
  "parse_mem_bytes val =
     (case Go_Strings.fields val of
        [] \<Rightarrow> 0
      | [n] \<Rightarrow> u64_of n
      | n # u # _ \<Rightarrow> u64_of n *
          (if u = ''KiB'' then 1024 else if u = ''MiB'' then 1024 * 1024 else if u = ''GiB'' then 1024 * 1024 * 1024 else 1))"

text \<open>
  \<open>uint64(f)\<close> truncates; outside the range of the type the language leaves the result to the
  implementation, which is the parameter \<open>wild\<close>.
\<close>

definition u64_of_float :: "(f64 \<Rightarrow> 64 word) \<Rightarrow> f64 \<Rightarrow> 64 word" where
  "u64_of_float wild v =
     (case v of
        Fin q \<Rightarrow> if 0 \<le> q \<and> q < 2 ^ 64 then word_of_int \<lfloor>q\<rfloor> else wild v
      | _ \<Rightarrow> wild v)"

section \<open>One record (\<open>parseDRMFdinfo\<close>)\<close>

text \<open>The engines of a client read as zero when they were not reported, as a map of counters does.\<close>

record drm_client =
  dc_is_drm :: bool
  dc_pdev :: string
  dc_client_id :: string
  dc_busy :: "64 word"
  dc_engines :: "metric_id \<Rightarrow> 64 word"
  dc_resident :: "64 word"
  dc_memory :: "64 word"
  dc_total :: "64 word"

definition no_client :: drm_client where
  "no_client = \<lparr>dc_is_drm = False, dc_pdev = [], dc_client_id = [], dc_busy = 0, dc_engines = (\<lambda>_. 0),
     dc_resident = 0, dc_memory = 0, dc_total = 0\<rparr>"

text \<open>The engines in the order their cycles were first seen stand beside the counters.\<close>

record drm_parse =
  dp_ns_engines :: "string list"
  dp_cycle_engines :: "string list"
  dp_cycles :: "string \<Rightarrow> 64 word"
  dp_maxfreq :: "string \<Rightarrow> 64 word"

definition no_parse :: drm_parse where
  "no_parse = \<lparr>dp_ns_engines = [], dp_cycle_engines = [], dp_cycles = (\<lambda>_. 0), dp_maxfreq = (\<lambda>_. 0)\<rparr>"

definition client_mem :: "drm_client \<Rightarrow> 64 word" where
  "client_mem c = (if dc_resident c > 0 then dc_resident c else if dc_memory c > 0 then dc_memory c else dc_total c)"

definition dedup_key :: "drm_client \<Rightarrow> string" where
  "dedup_key c = (if dc_client_id c = [] then [] else dc_pdev c @ ''/'' @ dc_client_id c)"

definition add_engine :: "string \<Rightarrow> 64 word \<Rightarrow> drm_client \<Rightarrow> drm_client" where
  "add_engine name ns c =
     (let c = c\<lparr>dc_busy := dc_busy c + ns\<rparr> in
      case canonical_engine name of
        None \<Rightarrow> c
      | Some b \<Rightarrow> c\<lparr>dc_engines := (dc_engines c)(b := dc_engines c b + ns)\<rparr>)"

definition consume_mem :: "string \<Rightarrow> string \<Rightarrow> drm_client \<Rightarrow> drm_client" where
  "consume_mem key val c =
     (if has_prefix key ''drm-resident-'' then c\<lparr>dc_resident := dc_resident c + parse_mem_bytes val\<rparr>
      else if has_prefix key ''drm-memory-'' then c\<lparr>dc_memory := dc_memory c + parse_mem_bytes val\<rparr>
      else if has_prefix key ''drm-total-'' then c\<lparr>dc_total := dc_total c + parse_mem_bytes val\<rparr>
      else c)"

definition consume :: "string \<Rightarrow> string \<Rightarrow> drm_client \<times> drm_parse \<Rightarrow> drm_client \<times> drm_parse" where
  "consume key val s =
     (case s of (c, p) \<Rightarrow>
        if key = ''drm-driver'' then (c\<lparr>dc_is_drm := True\<rparr>, p)
        else if key = ''drm-pdev'' then (c\<lparr>dc_pdev := val\<rparr>, p)
        else if key = ''drm-client-id'' then (c\<lparr>dc_is_drm := True, dc_client_id := val\<rparr>, p)
        else if has_prefix key ''drm-engine-capacity-'' then (c, p)
        else if has_prefix key ''drm-engine-'' then
          (let name = after ''drm-engine-'' key in
           (add_engine name (first_uint64 val) (c\<lparr>dc_is_drm := True\<rparr>), p\<lparr>dp_ns_engines := name # dp_ns_engines p\<rparr>))
        else if has_prefix key ''drm-cycles-'' then
          (let name = after ''drm-cycles-'' key in
           (c, p\<lparr>dp_cycle_engines := add_new (dp_cycle_engines p) name,
                 dp_cycles := (dp_cycles p)(name := dp_cycles p name + first_uint64 val)\<rparr>))
        else if has_prefix key ''drm-maxfreq-'' then
          (c, p\<lparr>dp_maxfreq := (dp_maxfreq p)(after ''drm-maxfreq-'' key := first_uint64 val)\<rparr>)
        else (consume_mem key val c, p))"

definition cycles_ns :: "(f64 \<Rightarrow> 64 word) \<Rightarrow> 64 word \<Rightarrow> 64 word \<Rightarrow> 64 word" where
  "cycles_ns wild cyc hz = u64_of_float wild (f_mul (f_div (f_of_u64 cyc) (f_of_u64 hz)) (Fin 1000000000))"

definition cycles_step :: "(f64 \<Rightarrow> 64 word) \<Rightarrow> drm_parse \<Rightarrow> string \<Rightarrow> drm_client \<Rightarrow> drm_client" where
  "cycles_step wild p name c =
     (if name \<in> set (dp_ns_engines p) \<or> dp_maxfreq p name = 0 then c
      else add_engine name (cycles_ns wild (dp_cycles p name) (dp_maxfreq p name)) c)"

definition cycles_fallback :: "(f64 \<Rightarrow> 64 word) \<Rightarrow> drm_client \<times> drm_parse \<Rightarrow> drm_client" where
  "cycles_fallback wild s = fold (cycles_step wild (snd s)) (dp_cycle_engines (snd s)) (fst s)"

definition drm_line :: "string \<Rightarrow> drm_client \<times> drm_parse \<Rightarrow> drm_client \<times> drm_parse" where
  "drm_line line s =
     (case str_cut (CHR '':'') line of None \<Rightarrow> s | Some (key, val) \<Rightarrow> consume (trim_space key) (trim_space val) s)"

definition parse_drm_fdinfo :: "(f64 \<Rightarrow> 64 word) \<Rightarrow> string \<Rightarrow> drm_client" where
  "parse_drm_fdinfo wild s = cycles_fallback wild (fold drm_line (split_on (CHR 0x0A) s) (no_client, no_parse))"

section \<open>One process (\<open>scanOne\<close>)\<close>

record gpu_agg =
  ga_busy :: "64 word"
  ga_engines :: "metric_id \<Rightarrow> 64 word"
  ga_mem :: "64 word"
  ga_drm :: bool

definition no_gpu :: gpu_agg where
  "no_gpu = \<lparr>ga_busy = 0, ga_engines = (\<lambda>_. 0), ga_mem = 0, ga_drm = False\<rparr>"

definition is_drm_target :: "string \<Rightarrow> bool" where
  "is_drm_target target \<longleftrightarrow> has_prefix target ''/dev/dri/''"

definition add_client :: "drm_client \<Rightarrow> string list \<times> gpu_agg \<Rightarrow> string list \<times> gpu_agg" where
  "add_client cl s =
     (case s of (seen, agg) \<Rightarrow>
        if \<not> dc_is_drm cl then s
        else let agg = agg\<lparr>ga_drm := True\<rparr>; key = dedup_key cl in
          if key \<noteq> [] \<and> key \<in> set seen then (seen, agg)
          else (if key \<noteq> [] then key # seen else seen,
            agg\<lparr>ga_busy := ga_busy agg + dc_busy cl, ga_mem := ga_mem agg + client_mem cl,
                ga_engines := (\<lambda>i. ga_engines agg i + dc_engines cl i)\<rparr>))"

text \<open>The record of a descriptor that is a device of the graphics subsystem and can be read.\<close>

definition drm_record :: "(f64 \<Rightarrow> 64 word) \<Rightarrow> file_tree \<Rightarrow> string \<Rightarrow> string \<Rightarrow> drm_client option" where
  "drm_record wild fs dir name =
     (case ft_link fs (path_join (path_join dir ''fd'') name) of
        Inl _ \<Rightarrow> None
      | Inr target \<Rightarrow>
          if \<not> is_drm_target target then None
          else (case ft_read fs (path_join (path_join dir ''fdinfo'') name) of
              Inl _ \<Rightarrow> None
            | Inr data \<Rightarrow> Some (parse_drm_fdinfo wild data)))"

definition scan_gpu :: "(f64 \<Rightarrow> 64 word) \<Rightarrow> file_tree \<Rightarrow> string \<Rightarrow> process \<Rightarrow> (file_error, gpu_agg) result" where
  "scan_gpu wild fs base p =
     (let dir = proc_dir base p in
      case ft_dir fs (path_join dir ''fd'') of
        Inl e \<Rightarrow> Inl e
      | Inr names \<Rightarrow> Inr (snd (fold add_client (List.map_filter (drm_record wild fs dir) names) ([], no_gpu))))"

section \<open>The collector (\<open>Collect\<close>)\<close>

definition gpu_unavailable :: "availability \<Rightarrow> process \<Rightarrow> process" where
  "gpu_unavailable reason p = set_all gpu_metrics (unavailable reason ''gpu'') p"

definition busy_pct :: "64 word \<Rightarrow> 64 word \<Rightarrow> f64 \<Rightarrow> f64" where
  "busy_pct ns1 ns2 window_ns =
     (if ns2 < ns1 then Fin 0 else f_mul (f_div (f_of_u64 (ns2 - ns1)) window_ns) (Fin 100))"

definition gpu_value :: "f64 \<Rightarrow> metric_value" where
  "gpu_value v = new_value v Sampled ''gpu''"

definition apply_gpu_window :: "f64 \<Rightarrow> gpu_agg \<Rightarrow> (file_error, gpu_agg) result \<Rightarrow> process \<Rightarrow> process" where
  "apply_gpu_window window_ns a1 second p =
     (case second of
        Inl e \<Rightarrow> gpu_unavailable (classify_read_err e) p
      | Inr a2 \<Rightarrow>
          let p = set_metric ''gpu-mem'' (gpu_value (f_of_u64 (ga_mem a2))) p in
          if f_le window_ns (Fin 0) \<or> ga_busy a2 < ga_busy a1
          then set_all gpu_engine_ids (unavailable WarmingUp ''gpu'') (set_metric ''gpu'' (unavailable WarmingUp ''gpu'') p)
          else fold (\<lambda>i. set_metric i (gpu_value (busy_pct (ga_engines a1 i) (ga_engines a2 i) window_ns))) gpu_engine_ids
            (set_metric ''gpu'' (gpu_value (busy_pct (ga_busy a1) (ga_busy a2) window_ns)) p))"

definition report_read_error :: "(file_error, gpu_agg) result \<Rightarrow> process \<Rightarrow> process" where
  "report_read_error scan p = (case scan of Inl e \<Rightarrow> gpu_unavailable (classify_read_err e) p | Inr _ \<Rightarrow> p)"

definition holds_drm :: "(file_error, gpu_agg) result \<Rightarrow> bool" where
  "holds_drm scan \<longleftrightarrow> (case scan of Inl _ \<Rightarrow> False | Inr a \<Rightarrow> ga_drm a)"

definition gpu_collect ::
  "(f64 \<Rightarrow> 64 word) \<Rightarrow> file_tree \<Rightarrow> file_tree \<Rightarrow> string \<Rightarrow> int \<Rightarrow> process list \<Rightarrow> process list" where
  "gpu_collect wild before after_fs base window procs =
     (let first = scan_gpu wild before base in
      if \<not> list_ex (\<lambda>p. holds_drm (first p)) procs then map (\<lambda>p. report_read_error (first p) p) procs
      else map (\<lambda>p. case first p of
            Inl e \<Rightarrow> gpu_unavailable (classify_read_err e) p
          | Inr a1 \<Rightarrow> if \<not> ga_drm a1 then p
              else apply_gpu_window (f_of_int window) a1 (scan_gpu wild after_fs base p) p) procs)"

section \<open>Clients are counted once\<close>

text \<open>The records of a process that count: those of the graphics subsystem whose client is not a repetition.\<close>

fun counted_clients :: "string list \<Rightarrow> drm_client list \<Rightarrow> drm_client list" where
  "counted_clients seen [] = []"
| "counted_clients seen (c # cs) =
     (if \<not> dc_is_drm c \<or> (dedup_key c \<noteq> [] \<and> dedup_key c \<in> set seen) then counted_clients seen cs
      else c # counted_clients (dedup_key c # seen) cs)"

lemma counted_clients_cong:
  "(\<And>k. k \<noteq> [] \<Longrightarrow> k \<in> set seen \<longleftrightarrow> k \<in> set seen') \<Longrightarrow> counted_clients seen cs = counted_clients seen' cs"
proof (induction cs arbitrary: seen seen')
  case (Cons c cs)
  have "counted_clients (dedup_key c # seen) cs = counted_clients (dedup_key c # seen') cs"
    by (rule Cons.IH) (auto simp: Cons.prems)
  then show ?case using Cons.IH [of seen seen'] Cons.prems by auto
qed simp

lemma counted_clients_no_key: "counted_clients ([] # seen) cs = counted_clients seen cs"
  by (rule counted_clients_cong) auto

lemma add_client_cases:
  "\<not> dc_is_drm c \<Longrightarrow> add_client c s = s"
  "dc_is_drm c \<Longrightarrow> dedup_key c \<noteq> [] \<Longrightarrow> dedup_key c \<in> set seen \<Longrightarrow>
    add_client c (seen, agg) = (seen, agg\<lparr>ga_drm := True\<rparr>)"
  "dc_is_drm c \<Longrightarrow> dedup_key c = [] \<or> dedup_key c \<notin> set seen \<Longrightarrow>
    add_client c (seen, agg) = (if dedup_key c \<noteq> [] then dedup_key c # seen else seen,
      agg\<lparr>ga_drm := True, ga_busy := ga_busy agg + dc_busy c, ga_mem := ga_mem agg + client_mem c,
        ga_engines := (\<lambda>i. ga_engines agg i + dc_engines c i)\<rparr>)"
  by (auto simp: add_client_def Let_def split: prod.split)

lemma fold_add_client:
  "snd (fold add_client cs (seen, agg)) =
    agg\<lparr>ga_drm := (ga_drm agg \<or> list_ex dc_is_drm cs),
      ga_busy := ga_busy agg + sum_list (map dc_busy (counted_clients seen cs)),
      ga_mem := ga_mem agg + sum_list (map client_mem (counted_clients seen cs)),
      ga_engines := (\<lambda>i. ga_engines agg i + sum_list (map (\<lambda>c. dc_engines c i) (counted_clients seen cs)))\<rparr>"
proof (induction cs arbitrary: seen agg)
  case (Cons c cs)
  consider "\<not> dc_is_drm c" | "dc_is_drm c" "dedup_key c \<noteq> []" "dedup_key c \<in> set seen" |
    "dc_is_drm c" "dedup_key c = []" | "dc_is_drm c" "dedup_key c \<noteq> []" "dedup_key c \<notin> set seen" by blast
  then show ?case
    by cases (simp_all add: add_client_cases Cons.IH counted_clients_no_key add.assoc)
qed simp

lemma counted_keys_distinct:
  "distinct (filter (\<lambda>k. k \<noteq> []) (map dedup_key (counted_clients seen cs))) \<and>
   set (filter (\<lambda>k. k \<noteq> []) (map dedup_key (counted_clients seen cs))) \<inter> set seen = {}"
proof (induction cs arbitrary: seen)
  case (Cons c cs)
  show ?case
  proof (cases "dedup_key c = []")
    case True
    then show ?thesis using Cons.IH [of seen] by (auto simp: counted_clients_no_key)
  next
    case False
    then show ?thesis using Cons.IH [of seen] Cons.IH [of "dedup_key c # seen"] by auto
  qed
qed simp

lemma counted_complete:
  "c \<in> set cs \<Longrightarrow> dc_is_drm c \<Longrightarrow> dedup_key c \<notin> set seen \<or> dedup_key c = [] \<Longrightarrow>
    c \<in> set (counted_clients seen cs) \<or> (dedup_key c \<noteq> [] \<and> dedup_key c \<in> dedup_key ` set (counted_clients seen cs))"
proof (induction cs arbitrary: seen)
  case (Cons d cs)
  then show ?case using Cons.IH [of seen] Cons.IH [of "dedup_key d # seen"] by (cases "d = c") auto
qed simp

text \<open>
  C30: Clients. A process's busy time, memory and engines are the sums over its graphics clients, each
  client counted once however many descriptors it is held through: the counted records have
  different client ids, and every other record of the subsystem repeats the id of a counted one.
\<close>

theorem gpu_clients_once:
  "case (ft_dir fs (path_join (proc_dir base p) ''fd''), scan_gpu wild fs base p) of
     (Inr names, Inr a) \<Rightarrow>
       (let records = List.map_filter (drm_record wild fs (proc_dir base p)) names; cs = counted_clients [] records in
        ga_busy a = sum_list (map dc_busy cs) \<and> ga_mem a = sum_list (map client_mem cs) \<and>
        (\<forall>i. ga_engines a i = sum_list (map (\<lambda>c. dc_engines c i) cs)) \<and>
        (ga_drm a \<longleftrightarrow> list_ex dc_is_drm records) \<and>
        distinct (filter (\<lambda>k. k \<noteq> []) (map dedup_key cs)) \<and>
        list_all (\<lambda>c. dc_is_drm c = (c \<in> set cs \<or> (dc_is_drm c \<and> dedup_key c \<noteq> [] \<and> dedup_key c \<in> dedup_key ` set cs))) records)
   | (Inl e, Inl e') \<Rightarrow> e = e'
   | _ \<Rightarrow> False"
proof (cases "ft_dir fs (path_join (proc_dir base p) ''fd'')")
  case (Inr names)
  let ?records = "List.map_filter (drm_record wild fs (proc_dir base p)) names"
  have drm: "c \<in> set (counted_clients seen cs) \<Longrightarrow> dc_is_drm c" for c seen cs
    by (induction cs arbitrary: seen) (auto split: if_splits)
  have "list_all (\<lambda>c. dc_is_drm c = (c \<in> set (counted_clients [] ?records) \<or>
      (dc_is_drm c \<and> dedup_key c \<noteq> [] \<and> dedup_key c \<in> dedup_key ` set (counted_clients [] ?records)))) ?records"
    using counted_complete [of _ ?records "[]"] drm [of _ "[]" ?records] by (auto simp: list_all_iff)
  moreover have "distinct (filter (\<lambda>k. k \<noteq> []) (map dedup_key (counted_clients [] ?records)))"
    using counted_keys_distinct [of "[]" ?records] by blast
  ultimately show ?thesis
    by (simp add: Inr scan_gpu_def Let_def fold_add_client no_gpu_def)
qed (simp add: scan_gpu_def)

section \<open>When utilisation is reported\<close>

definition gpu_window :: int where "gpu_window = 200000000"

lemma gpu_window_ns: "f_of_int gpu_window = Fin 200000000"
  by (simp add: gpu_window_def f_of_int_exact)

lemma metric_gpu_unavailable:
  "metric (gpu_unavailable av p) i = (if i \<in> set gpu_metrics then unavailable av ''gpu'' else metric p i)"
  by (simp add: gpu_unavailable_def metric_set_all)

lemma metric_fold_values:
  "metric (fold (\<lambda>i. set_metric i (f i)) ids p) i = (if i \<in> set ids then f i else metric p i)"
  by (induction ids arbitrary: p) auto

lemma gpu_ids_distinct: "''gpu'' \<notin> set gpu_engine_ids" "''gpu-mem'' \<notin> set gpu_engine_ids"
  by (simp_all add: gpu_engine_ids_def)

lemma metric_apply_gpu_window:
  "metric (apply_gpu_window w a1 second p) i =
     (if i \<notin> set gpu_metrics then metric p i
      else (case second of
          Inl e \<Rightarrow> unavailable (classify_read_err e) ''gpu''
        | Inr a2 \<Rightarrow>
            if i = ''gpu-mem'' then gpu_value (f_of_u64 (ga_mem a2))
            else if f_le w (Fin 0) \<or> ga_busy a2 < ga_busy a1 then unavailable WarmingUp ''gpu''
            else if i = ''gpu'' then gpu_value (busy_pct (ga_busy a1) (ga_busy a2) w)
            else gpu_value (busy_pct (ga_engines a1 i) (ga_engines a2 i) w)))"
  using gpu_ids_distinct
  by (auto simp: apply_gpu_window_def Let_def metric_gpu_unavailable metric_fold_values metric_set_all gpu_metrics_def
      split: sum.split)

lemma gpu_collect_nth:
  assumes "k < length procs"
  shows "gpu_collect wild before after_fs base window procs ! k =
    (case scan_gpu wild before base (procs ! k) of
       Inl e \<Rightarrow> gpu_unavailable (classify_read_err e) (procs ! k)
     | Inr a1 \<Rightarrow> if \<not> ga_drm a1 then procs ! k
         else apply_gpu_window (f_of_int window) a1 (scan_gpu wild after_fs base (procs ! k)) (procs ! k))"
proof (cases "list_ex (\<lambda>p. holds_drm (scan_gpu wild before base p)) procs")
  case False
  then have "\<not> holds_drm (scan_gpu wild before base (procs ! k))"
    using assms by (auto simp: list_ex_iff)
  then show ?thesis
    using assms False by (auto simp: gpu_collect_def report_read_error_def holds_drm_def split: sum.splits)
qed (use assms in \<open>simp add: gpu_collect_def\<close>)

lemma busy_pct_nonneg: "f_nonneg (busy_pct a b (Fin 200000000))"
proof (cases "b < a")
  case True
  then show ?thesis by (simp add: busy_pct_def f_nonneg_def)
next
  case False
  have "f_nonneg (f_mul (f_div (f_of_u64 (b - a)) (Fin 200000000)) (Fin 100))"
    by (intro f_nonneg_mul f_nonneg_div f_nonneg_of_u64) (auto intro: exI [of _ "100 :: rat"])
  then show ?thesis using False by (simp add: busy_pct_def)
qed

text \<open>
  Graphics utilisation. A process that holds no graphics client keeps its metrics as they were, so
  absence is never a number; one whose descriptors cannot be listed gets the reason for every
  metric; one with a client gets a utilisation exactly when it could be scanned again and its busy
  time did not fall. A utilisation is not negative, and no other metric changes.
\<close>

theorem gpu_reported:
  assumes "k < length procs"
  shows "let p = procs ! k; p' = gpu_collect wild before after_fs base gpu_window procs ! k;
      first = scan_gpu wild before base p; second = scan_gpu wild after_fs base p in
    (i \<in> set gpu_metrics \<or> metric p' i = metric p i) \<and>
    (case first of
       Inl e \<Rightarrow> list_all (\<lambda>j. metric p' j = unavailable (classify_read_err e) ''gpu'') gpu_metrics
     | Inr a1 \<Rightarrow>
         if \<not> ga_drm a1 then p' = p
         else (present (metric p' ''gpu'') \<longleftrightarrow> (case second of Inl _ \<Rightarrow> False | Inr a2 \<Rightarrow> ga_busy a1 \<le> ga_busy a2)) \<and>
           list_all (\<lambda>j. case get_reading (metric p' j) of None \<Rightarrow> True | Some v \<Rightarrow> f_nonneg v) gpu_metrics)"
proof -
  have err: "classify_read_err e \<noteq> Available" for e
    by (simp add: classify_read_err_def split: file_error.split)
  have mem: "f_nonneg (f_of_u64 w)" for w by (rule f_nonneg_of_u64)
  have gpu: "''gpu'' \<in> set gpu_metrics" by (simp add: gpu_metrics_def)
  have "\<not> f_le (Fin 200000000) (Fin 0)" by (simp add: f_le_def)
  then show ?thesis
    using err
    by (auto simp: Let_def gpu_collect_nth [OF assms] metric_gpu_unavailable metric_apply_gpu_window gpu list_all_iff
        gpu_window_ns gpu_value_def get_reading_def busy_pct_nonneg mem not_less split: sum.split)
qed

text \<open>A process that holds one client through two descriptors, whose engine works for twenty milliseconds.\<close>

definition drm_tree :: "string \<Rightarrow> file_tree" where
  "drm_tree busy = \<lparr>ft_read = (\<lambda>_. Inr (''drm-client-id:9'' @ [CHR 0x0A] @ ''drm-engine-gfx: '' @ busy @ '' ns'')),
     ft_link = (\<lambda>_. Inr ''/dev/dri/card0''), ft_dir = (\<lambda>_. Inr [''4'', ''5'']), ft_exists = (\<lambda>_. True)\<rparr>"

lemma drm_parts:
  "split_on (CHR 0x0A) (''drm-client-id:9'' @ [CHR 0x0A] @ ''drm-engine-gfx: '' @ ''5'' @ '' ns'') = [''drm-client-id:9'', ''drm-engine-gfx: 5 ns'']"
  "split_on (CHR 0x0A) (''drm-client-id:9'' @ [CHR 0x0A] @ ''drm-engine-gfx: '' @ ''20000005'' @ '' ns'') = [''drm-client-id:9'', ''drm-engine-gfx: 20000005 ns'']"
  "str_cut (CHR '':'') ''drm-client-id:9'' = Some (''drm-client-id'', ''9'')"
  "str_cut (CHR '':'') ''drm-engine-gfx: 5 ns'' = Some (''drm-engine-gfx'', '' 5 ns'')"
  "str_cut (CHR '':'') ''drm-engine-gfx: 20000005 ns'' = Some (''drm-engine-gfx'', '' 20000005 ns'')"
  "trim_space ''drm-client-id'' = ''drm-client-id''" "trim_space ''9'' = ''9''" "trim_space ''drm-engine-gfx'' = ''drm-engine-gfx''"
  "trim_space '' 5 ns'' = ''5 ns''" "trim_space '' 20000005 ns'' = ''20000005 ns''"
  "after ''drm-engine-'' ''drm-engine-gfx'' = ''gfx''"
  "Go_Strings.fields ''5 ns'' = [''5'', ''ns'']" "Go_Strings.fields ''20000005 ns'' = [''20000005'', ''ns'']"
  by code_simp+

lemma drm_numbers: "u64_of ''5'' = 5" "u64_of ''20000005'' = 20000005"
  by (simp_all add: u64_of_def parse_uint_def is_digit_def digit_val_def)

lemma drm_tree_scans:
  "map_sum id (\<lambda>a. (ga_drm a, ga_busy a)) (scan_gpu (\<lambda>_. 0) (drm_tree ''5'') ''/proc'' zero_process) = Inr (True, 5)"
  "map_sum id (\<lambda>a. (ga_drm a, ga_busy a)) (scan_gpu (\<lambda>_. 0) (drm_tree ''20000005'') ''/proc'' zero_process) = Inr (True, 20000005)"
  by (simp_all add: scan_gpu_def Let_def drm_tree_def List.map_filter_simps drm_record_def is_drm_target_def parse_drm_fdinfo_def
      drm_parts [simplified] drm_line_def consume_def no_client_def no_parse_def add_engine_def canonical_engine_def
      first_uint64_def drm_numbers cycles_fallback_def add_client_def dedup_key_def no_gpu_def)

theorem gpu_reported_witness:
  "present (metric (gpu_collect (\<lambda>_. 0) (drm_tree ''5'') (drm_tree ''20000005'') ''/proc'' gpu_window [zero_process] ! 0) ''gpu'')"
proof -
  obtain a1 where a1: "scan_gpu (\<lambda>_. 0) (drm_tree ''5'') ''/proc'' zero_process = Inr a1" "ga_drm a1" "ga_busy a1 = 5"
    using drm_tree_scans(1) by (cases "scan_gpu (\<lambda>_. 0) (drm_tree ''5'') ''/proc'' zero_process") auto
  obtain a2 where a2: "scan_gpu (\<lambda>_. 0) (drm_tree ''20000005'') ''/proc'' zero_process = Inr a2" "ga_busy a2 = 20000005"
    using drm_tree_scans(2) by (cases "scan_gpu (\<lambda>_. 0) (drm_tree ''20000005'') ''/proc'' zero_process") auto
  show ?thesis
    using gpu_reported [of 0 "[zero_process]" "\<lambda>_. 0" "drm_tree ''5''" "drm_tree ''20000005''" "''/proc''" "''gpu''"]
    by (simp add: Let_def a1 a2)
qed

end
