(* ===== verification/Procfs_Sensors.thy ===== *)
theory Procfs_Sensors
  imports Procfs_Host Expr_Lexer
begin

text \<open>
  Host readings of \<open>internal/procfs\<close> beside those of \<open>Procfs_Host\<close>: pressure (\<open>psi.go\<close>), load (\<open>loadavg.go\<close>) and
  the discovery of temperature sensors (\<open>temp.go\<close>). \<open>strconv.ParseFloat\<close> is computed on texts of digits
  and a point, what the kernel writes; on any other text it is the parameter \<open>pf\<close>.
\<close>

section \<open>Numbers\<close>

definition parse_float :: "(string \<Rightarrow> f64 option) \<Rightarrow> string \<Rightarrow> f64 option" where
  "parse_float pf s =
     (if s \<noteq> [] \<and> list_all (\<lambda>c. is_digit c \<or> c = CHR ''.'') s then parse_float_dec s else pf s)"

section \<open>Pressure (\<open>psi.go\<close>)\<close>

text \<open>The first \<open>avg10\<close> of a line, and of the lines that start with \<open>some\<close>: absent, or unreadable, or a number.\<close>

fun psi_avg10 :: "(string \<Rightarrow> f64 option) \<Rightarrow> string list \<Rightarrow> f64 option option" where
  "psi_avg10 pf [] = None"
| "psi_avg10 pf (f # fs) = (case cut_prefix f ''avg10='' of None \<Rightarrow> psi_avg10 pf fs | Some v \<Rightarrow> Some (parse_float pf v))"

fun psi_lines :: "(string \<Rightarrow> f64 option) \<Rightarrow> string list \<Rightarrow> f64 option" where
  "psi_lines pf [] = None"
| "psi_lines pf (l # ls) =
     (if \<not> has_prefix l ''some '' then psi_lines pf ls
      else (case psi_avg10 pf (Go_Strings.fields l) of None \<Rightarrow> psi_lines pf ls | Some r \<Rightarrow> r))"

definition parse_psi_some_avg10 :: "(string \<Rightarrow> f64 option) \<Rightarrow> string \<Rightarrow> f64 option" where
  "parse_psi_some_avg10 pf data = psi_lines pf (split_on (CHR 0x0A) data)"

definition psi_files :: "(metric_id \<times> string) list" where
  "psi_files = [(''psi-cpu'', ''cpu''), (''psi-io'', ''io''), (''psi-mem'', ''memory'')]"

definition psi_ids :: "metric_id list" where
  "psi_ids = [''psi-cpu'', ''psi-io'', ''psi-mem'']"

definition psi_read :: "(string \<Rightarrow> f64 option) \<Rightarrow> file_tree \<Rightarrow> string \<Rightarrow> string \<Rightarrow> metric_value" where
  "psi_read pf fs base name =
     (case ft_read fs (path_join (path_join base ''pressure'') name) of
        Inl e \<Rightarrow> unavailable (if e = NotExist then Unsupported else ReadError) ''psi''
      | Inr data \<Rightarrow> (case parse_psi_some_avg10 pf data of
          None \<Rightarrow> unavailable ReadError ''psi''
        | Some pct \<Rightarrow> new_value pct Sampled ''psi''))"

definition psi_collect :: "(string \<Rightarrow> f64 option) \<Rightarrow> file_tree \<Rightarrow> string \<Rightarrow> (metric_id \<rightharpoonup> metric_value)" where
  "psi_collect pf fs base = map_of (map (\<lambda>(i, f). (i, psi_read pf fs base f)) psi_files)"

section \<open>Load (\<open>loadavg.go\<close>)\<close>

definition load_ids :: "metric_id list" where
  "load_ids = [''load-1'', ''load-5'', ''load-15'']"

definition parse_load_avg :: "(string \<Rightarrow> f64 option) \<Rightarrow> string \<Rightarrow> f64 list option" where
  "parse_load_avg pf s =
     (let f = Go_Strings.fields s in
      if length f < 3 then None
      else (case map (parse_float pf) (take 3 f) of
          [Some a, Some b, Some c] \<Rightarrow> Some [a, b, c]
        | _ \<Rightarrow> None))"

definition load_collect :: "(string \<Rightarrow> f64 option) \<Rightarrow> file_tree \<Rightarrow> string \<Rightarrow> (metric_id \<rightharpoonup> metric_value)" where
  "load_collect pf fs base =
     (case ft_read fs (path_join base ''loadavg'') of
        Inl _ \<Rightarrow> all_unavailable load_ids Unsupported ''loadavg''
      | Inr data \<Rightarrow> (case parse_load_avg pf data of
          None \<Rightarrow> all_unavailable load_ids ReadError ''loadavg''
        | Some vals \<Rightarrow> map_of (zip load_ids (map (\<lambda>v. new_value v Exact ''loadavg'') vals))))"

section \<open>Discovering temperature sensors (\<open>temp.go\<close>)\<close>

text \<open>\<open>filepath.Glob\<close> lists the names of one directory that match, sorted; a directory it cannot read has none.\<close>

definition glob_names :: "file_tree \<Rightarrow> string \<Rightarrow> (string \<Rightarrow> bool) \<Rightarrow> string list" where
  "glob_names fs dir matches = (case ft_dir fs dir of Inl _ \<Rightarrow> [] | Inr names \<Rightarrow> sort (filter matches names))"

definition is_temp_input :: "string \<Rightarrow> bool" where
  "is_temp_input name \<longleftrightarrow> length name \<ge> 10 \<and> has_prefix name ''temp'' \<and> has_suffix name ''_input''"

definition temp_number :: "string \<Rightarrow> string" where
  "temp_number name = take (length name - 10) (drop 4 name)"

definition hwmon_temp :: "file_tree \<Rightarrow> string \<Rightarrow> string \<Rightarrow> string \<Rightarrow> temp_sensor" where
  "hwmon_temp fs dir chip input =
     (let n = temp_number input; label = read_trim_file fs (path_join dir (''temp'' @ n @ ''_label''))
      in \<lparr>tm_id = temp_id chip (if label = [] then ''temp'' @ n else label), tm_chip = chip, tm_label = label,
          tm_path = path_join dir input\<rparr>)"

definition discover_hwmon_temps :: "file_tree \<Rightarrow> string \<Rightarrow> temp_sensor list" where
  "discover_hwmon_temps fs sys =
     (let base = path_join sys ''class/hwmon'' in
      case ft_dir fs base of
        Inl _ \<Rightarrow> []
      | Inr chips \<Rightarrow> concat (map (\<lambda>chip.
          let dir = path_join base chip; name = read_trim_file fs (path_join dir ''name'')
          in map (hwmon_temp fs dir (if name = [] then chip else name)) (glob_names fs dir is_temp_input)) chips))"

definition zone_sensor :: "file_tree \<Rightarrow> string \<Rightarrow> string \<Rightarrow> temp_sensor" where
  "zone_sensor fs base name =
     (let zone = path_join base name; typ = read_trim_file fs (path_join zone ''type''); typ = (if typ = [] then name else typ)
      in \<lparr>tm_id = temp_id typ [], tm_chip = typ, tm_label = [], tm_path = path_join zone ''temp''\<rparr>)"

definition discover_thermal_zones :: "file_tree \<Rightarrow> string \<Rightarrow> temp_sensor list" where
  "discover_thermal_zones fs sys =
     (let base = path_join sys ''class/thermal''
      in map (zone_sensor fs base) (glob_names fs base (\<lambda>n. has_prefix n ''thermal_zone'')))"

text \<open>
  \<open>sort.Slice\<close> orders by id and leaves the order of equal ids open: \<open>by_id\<close> is the permutation it chooses.
\<close>

definition discover_temps :: "(temp_sensor list \<Rightarrow> temp_sensor list) \<Rightarrow> file_tree \<Rightarrow> string \<Rightarrow> temp_sensor list" where
  "discover_temps by_id fs sys =
     (let sensors = discover_hwmon_temps fs sys;
          sensors = (if length sensors = 0 then discover_thermal_zones fs sys else sensors)
      in dedupe_ids (\<lambda>_. 0) (by_id sensors))"

definition degree_sign :: string where "degree_sign = [CHR 0xC2, CHR 0xB0]"

definition sensor_description :: "temp_sensor \<Rightarrow> string" where
  "sensor_description s =
     (if tm_label s \<noteq> [] then ''temperature '' @ degree_sign @ ''C: '' @ tm_chip s @ '' '' @ tm_label s
      else ''temperature '' @ degree_sign @ ''C: '' @ tm_chip s)"

definition temp_ids :: "temp_sensor list \<Rightarrow> metric_id list" where
  "temp_ids sensors = [''temp-cpu'', ''temp-max''] @ map tm_id sensors"

section \<open>The hottest sensor\<close>

lemma temp_degrees_number: "temp_degrees fs s = Some d \<Longrightarrow> d \<noteq> NaN"
  by (cases "f_of_int (the (read_int_file fs (tm_path s)))") (auto simp: temp_degrees_def f_of_int_def)

lemma f_lt_negated: "\<not> f_lt a b \<Longrightarrow> f_lt a c \<Longrightarrow> b \<noteq> NaN \<Longrightarrow> f_lt b c"
  by (cases a; cases b; cases c) (auto split: if_splits)

lemma f_max_from_Some:
  "f_max_from (Some c) ds = Some d \<Longrightarrow> c \<noteq> NaN \<Longrightarrow> NaN \<notin> set ds \<Longrightarrow>
    d \<in> insert c (set ds) \<and> (\<forall>x \<in> insert c (set ds). \<not> f_lt d x)"
proof (induction ds arbitrary: c)
  case Nil
  then show ?case by (cases c) auto
next
  case (Cons x ds)
  show ?case
  proof (cases "f_lt c x")
    case True
    then have "d \<in> insert x (set ds) \<and> (\<forall>y \<in> insert x (set ds). \<not> f_lt d y)"
      using Cons.IH [of x] Cons.prems by auto
    then show ?thesis using True f_lt_trans [of d c x] by auto
  next
    case False
    then have *: "d \<in> insert c (set ds) \<and> (\<forall>y \<in> insert c (set ds). \<not> f_lt d y)"
      using Cons.IH [of c] Cons.prems by auto
    then have "d \<noteq> NaN" using Cons.prems by auto
    then have "\<not> f_lt d x" using * False f_lt_negated [of c d x] f_lt_negated [of d c x] Cons.prems(2)
      by (cases "f_lt d x") (auto simp: insert_iff dest: f_lt_trans)
    then show ?thesis using * by auto
  qed
qed

lemma f_max_from_total: "f_max_from (Some c) ds \<noteq> None"
  by (induction ds arbitrary: c) auto

lemma hottest_reading:
  assumes "NaN \<notin> set ds"
  shows "if ds = [] then \<not> present (hottest ds)
    else present (hottest ds) \<and> rd_value (hottest ds) \<in> set ds \<and> (\<forall>x \<in> set ds. \<not> f_lt (rd_value (hottest ds)) x)"
proof (cases ds)
  case (Cons c cs)
  obtain d where d: "f_max_from (Some c) cs = Some d" using f_max_from_total [of c cs] by blast
  then show ?thesis using f_max_from_Some [OF d] assms by (auto simp: hottest_def Cons)
qed (simp add: hottest_def)

lemma temp_max_lookup:
  "temp_collect fs sensors ''temp-max'' =
     (let all = List.map_filter (temp_degrees fs) sensors in
      if all = [] then fold (\<lambda>s out. out(tm_id s \<mapsto> temp_value fs s)) sensors
        [''temp-cpu'' \<mapsto> unavailable Unsupported ''temp'', ''temp-max'' \<mapsto> unavailable Unsupported ''temp''] ''temp-max''
      else Some (hottest all))"
  by (auto simp: temp_collect_def Let_def map_add_def)

lemma unread_sensors:
  "List.map_filter (temp_degrees fs) sensors = [] \<Longrightarrow> (\<And>v. m i = Some v \<Longrightarrow> \<not> present v) \<Longrightarrow>
    fold (\<lambda>s out. out(tm_id s \<mapsto> temp_value fs s)) sensors m i = Some v \<Longrightarrow> \<not> present v"
proof (induction sensors arbitrary: m)
  case (Cons s sensors)
  have none: "temp_degrees fs s = None"
    using Cons.prems(1) by (cases "temp_degrees fs s") (auto simp: List.map_filter_simps)
  have "List.map_filter (temp_degrees fs) sensors = []" using Cons.prems(1) none by (simp add: List.map_filter_simps)
  moreover have "\<not> present v'" if "(m(tm_id s \<mapsto> temp_value fs s)) i = Some v'" for v'
    using that Cons.prems(2) none by (auto simp: temp_value_def split: if_splits)
  ultimately show ?case using Cons.IH [of "m(tm_id s \<mapsto> temp_value fs s)"] Cons.prems(3) by simp
qed auto

lemma map_filter_set: "set (List.map_filter f xs) = {y. \<exists>x \<in> set xs. f x = Some y}"
  by (force simp: List.map_filter_def)

text \<open>
  The hottest sensor. \<open>temp-max\<close> has a value exactly when some sensor can be read; it is then the
  reading of a sensor, and no sensor reads more.
\<close>

theorem temp_max_is_hottest:
  "case temp_collect fs sensors ''temp-max'' of
     None \<Rightarrow> False
   | Some v \<Rightarrow>
       (present v \<longleftrightarrow> list_ex (\<lambda>s. temp_degrees fs s \<noteq> None) sensors) \<and>
       (if present v then list_ex (\<lambda>s. temp_degrees fs s = Some (rd_value v)) sensors \<and>
          list_all (\<lambda>s. case temp_degrees fs s of None \<Rightarrow> True | Some d \<Rightarrow> \<not> f_lt (rd_value v) d) sensors else True)"
proof -
  let ?all = "List.map_filter (temp_degrees fs) sensors"
  have set_all: "set ?all = {d. \<exists>s \<in> set sensors. temp_degrees fs s = Some d}" by (rule map_filter_set)
  show ?thesis
  proof (cases "?all = []")
    case True
    let ?m = "[''temp-cpu'' \<mapsto> unavailable Unsupported ''temp'', ''temp-max'' \<mapsto> unavailable Unsupported ''temp'']"
    have dom: "m ''temp-max'' \<noteq> None \<Longrightarrow> fold (\<lambda>s out. out(tm_id s \<mapsto> temp_value fs s)) ss m ''temp-max'' \<noteq> None" for ss m
      by (induction ss arbitrary: m) auto
    obtain v where v: "fold (\<lambda>s out. out(tm_id s \<mapsto> temp_value fs s)) sensors ?m ''temp-max'' = Some v"
      using dom [of ?m sensors] by auto
    have "\<not> present v" using unread_sensors [OF True _ v] by auto
    moreover have "\<not> list_ex (\<lambda>s. temp_degrees fs s \<noteq> None) sensors"
      using True set_all by (force simp: list_ex_iff)
    ultimately show ?thesis using True v by (simp add: temp_max_lookup Let_def)
  next
    case False
    have "NaN \<notin> set ?all" using set_all temp_degrees_number by auto
    from hottest_reading [OF this] False
    have hot: "present (hottest ?all)" "rd_value (hottest ?all) \<in> set ?all"
        "\<And>x. x \<in> set ?all \<Longrightarrow> \<not> f_lt (rd_value (hottest ?all)) x" by auto
    have "list_ex (\<lambda>s. temp_degrees fs s \<noteq> None) sensors"
      using hot(2) set_all by (force simp: list_ex_iff)
    moreover have "list_ex (\<lambda>s. temp_degrees fs s = Some (rd_value (hottest ?all))) sensors"
      using hot(2) set_all by (force simp: list_ex_iff)
    moreover have "list_all (\<lambda>s. case temp_degrees fs s of None \<Rightarrow> True | Some d \<Rightarrow> \<not> f_lt (rd_value (hottest ?all)) d) sensors"
      using hot(3) set_all by (force simp: list_all_iff split: option.split)
    ultimately show ?thesis using False hot(1) by (simp add: temp_max_lookup Let_def)
  qed
qed

end
