(* ===== verification/Procfs_Counters.thy ===== *)
theory Procfs_Counters
  imports Procfs_Readings
begin

text \<open>
  Collectors that ask the kernel to count: hardware counters through \<open>perf_event_open\<close> (\<open>perf_linux.go\<close>) and
  wakeups through an eBPF program (\<open>ebpf_linux.go\<close>). The system calls are a port over a kernel state; what
  loading the program answers and the two readings of its map are arguments.
\<close>

section \<open>Hardware counters (\<open>perf_linux.go\<close>)\<close>

datatype perf_errno = EACCES | EPERM | EIO | OtherErrno

text \<open>
  The calls: opening a counter of a process in a group, resetting and enabling a group, disabling
  it, reading the 64-bit words of a group, closing a descriptor, sleeping, and whether the caller
  has given up.
\<close>

record 'k perf_kernel =
  pk_open :: "int \<Rightarrow> nat \<Rightarrow> int \<Rightarrow> 'k \<Rightarrow> (perf_errno, int) result \<times> 'k"
  pk_enable :: "int \<Rightarrow> 'k \<Rightarrow> 'k"
  pk_disable :: "int \<Rightarrow> 'k \<Rightarrow> 'k"
  pk_read :: "int \<Rightarrow> 'k \<Rightarrow> (perf_errno, 64 word list) result \<times> 'k"
  pk_close :: "int \<Rightarrow> 'k \<Rightarrow> 'k"
  pk_sleep :: "'k \<Rightarrow> 'k"
  pk_cancelled :: "'k \<Rightarrow> bool"

record perf_group =
  pg_leader :: int
  pg_fds :: "int list"
  pg_ok :: bool

definition no_group :: perf_group where
  "no_group = \<lparr>pg_leader = -1, pg_fds = [], pg_ok = False\<rparr>"

definition perf_metrics :: "metric_id list" where
  "perf_metrics = [''cycles'', ''instructions'', ''ipc'', ''cache-misses'', ''cache-references'']"

definition max_perf_groups :: nat where "max_perf_groups = 64"

text \<open>The counters of a group, leader first: cycles, instructions, cache misses, cache references.\<close>

definition hw_events :: "nat list" where
  "hw_events = [0, 1, 3, 2]"

definition perf_unavailable :: "perf_errno \<Rightarrow> process \<Rightarrow> process" where
  "perf_unavailable e p =
     set_all perf_metrics (unavailable (if e = EACCES \<or> e = EPERM then PermissionDenied else Unsupported) ''perf'') p"

text \<open>The events of a group still to open; the first one opened leads. A failure closes what is open.\<close>

fun open_events ::
  "'k perf_kernel \<Rightarrow> int \<Rightarrow> nat list \<Rightarrow> perf_group \<Rightarrow> 'k \<Rightarrow> (perf_errno, perf_group) result \<times> 'k" where
  "open_events K pid [] g k = (Inr (g\<lparr>pg_ok := True\<rparr>), k)"
| "open_events K pid (ev # evs) g k =
     (case pk_open K pid ev (if pg_fds g = [] then -1 else pg_leader g) k of
        (Inl e, k) \<Rightarrow> (Inl e, fold (pk_close K) (pg_fds g) k)
      | (Inr fd, k) \<Rightarrow>
          open_events K pid evs (g\<lparr>pg_leader := (if pg_fds g = [] then fd else pg_leader g), pg_fds := pg_fds g @ [fd]\<rparr>) k)"

definition open_group :: "'k perf_kernel \<Rightarrow> process \<Rightarrow> 'k \<Rightarrow> (process \<times> perf_group) \<times> 'k" where
  "open_group K p k =
     (case open_events K (p_pid p) hw_events no_group k of
        (Inl e, k) \<Rightarrow> ((perf_unavailable e p, no_group), k)
      | (Inr g, k) \<Rightarrow> ((p, g), k))"

definition perf_value :: "f64 \<Rightarrow> metric_value" where
  "perf_value v = new_value v Sampled ''perf''"

text \<open>The words of a group: their number, then the counters.\<close>

definition read_counters :: "f64 \<Rightarrow> (perf_errno, 64 word list) result \<Rightarrow> process \<Rightarrow> process" where
  "read_counters secs r p =
     (case r of
        Inl _ \<Rightarrow> perf_unavailable EIO p
      | Inr ws \<Rightarrow>
          if length ws < 1 + length hw_events then perf_unavailable EIO p
          else
            let cycles = f_of_u64 (ws ! 1); instr = f_of_u64 (ws ! 2);
                p = (if f_lt (Fin 0) secs then
                    set_metric ''cache-references'' (perf_value (f_div (f_of_u64 (ws ! 4)) secs))
                      (set_metric ''cache-misses'' (perf_value (f_div (f_of_u64 (ws ! 3)) secs))
                        (set_metric ''instructions'' (perf_value (f_div instr secs))
                          (set_metric ''cycles'' (perf_value (f_div cycles secs)) p)))
                  else p)
            in set_metric ''ipc'' (perf_value (if f_lt (Fin 0) cycles then f_div instr cycles else Fin 0)) p)"

definition read_group :: "'k perf_kernel \<Rightarrow> f64 \<Rightarrow> process \<times> perf_group \<Rightarrow> 'k \<Rightarrow> process \<times> 'k" where
  "read_group K secs pg k =
     (if \<not> pg_ok (snd pg) then (fst pg, k)
      else (case pk_read K (pg_leader (snd pg)) (pk_disable K (pg_leader (snd pg)) k) of
          (r, k) \<Rightarrow> (read_counters secs r (fst pg), k)))"

text \<open>A step over a list that threads the kernel.\<close>

fun thread_map :: "('a \<Rightarrow> 'k \<Rightarrow> 'b \<times> 'k) \<Rightarrow> 'a list \<Rightarrow> 'k \<Rightarrow> 'b list \<times> 'k" where
  "thread_map f [] k = ([], k)"
| "thread_map f (x # xs) k = (case f x k of (y, k) \<Rightarrow> case thread_map f xs k of (ys, k) \<Rightarrow> (y # ys, k))"

definition measure_batch :: "'k perf_kernel \<Rightarrow> int \<Rightarrow> process list \<Rightarrow> 'k \<Rightarrow> process list \<times> 'k" where
  "measure_batch K window procs k =
     (case thread_map (open_group K) procs k of (groups, k) \<Rightarrow>
      let k = fold (\<lambda>pg. if pg_ok (snd pg) then pk_enable K (pg_leader (snd pg)) else id) groups k in
      case thread_map (read_group K (duration_secs window)) groups (pk_sleep K k) of (procs, k) \<Rightarrow>
        (procs, fold (pk_close K) (concat (map (\<lambda>pg. pg_fds (snd pg)) groups)) k))"

function perf_collect :: "'k perf_kernel \<Rightarrow> int \<Rightarrow> process list \<Rightarrow> 'k \<Rightarrow> process list \<times> 'k" where
  "perf_collect K window procs k =
     (if procs = [] \<or> pk_cancelled K k then (procs, k)
      else (case measure_batch K window (take max_perf_groups procs) k of (done, k) \<Rightarrow>
        case perf_collect K window (drop max_perf_groups procs) k of (rest, k) \<Rightarrow> (done @ rest, k)))"
  by pat_completeness auto

termination
  by (relation "measure (\<lambda>(K, window, procs, k). length procs)") (auto simp: max_perf_groups_def)

declare perf_collect.simps [simp del]

section \<open>Descriptors\<close>

text \<open>
  A kernel that keeps the open descriptors as a multiset, and the most that were open at once,
  around any kernel.
\<close>

definition tracked :: "'k perf_kernel \<Rightarrow> ('k \<times> int multiset \<times> nat) perf_kernel" where
  "tracked K =
     \<lparr>pk_open = (\<lambda>pid ev grp (k, fds, most). case pk_open K pid ev grp k of
          (Inl e, k) \<Rightarrow> (Inl e, (k, fds, most))
        | (Inr fd, k) \<Rightarrow> (Inr fd, (k, add_mset fd fds, max most (Suc (size fds))))),
      pk_enable = (\<lambda>fd (k, s). (pk_enable K fd k, s)), pk_disable = (\<lambda>fd (k, s). (pk_disable K fd k, s)),
      pk_read = (\<lambda>fd (k, s). case pk_read K fd k of (r, k) \<Rightarrow> (r, (k, s))),
      pk_close = (\<lambda>fd (k, fds, most). (pk_close K fd k, fds - {#fd#}, most)),
      pk_sleep = (\<lambda>(k, s). (pk_sleep K k, s)), pk_cancelled = (\<lambda>(k, s). pk_cancelled K k)\<rparr>"

lemma close_all:
  "snd (fold (pk_close (tracked K)) fds (k, open_fds, most)) = (open_fds - mset fds, most)"
proof (induction fds arbitrary: k open_fds)
  case (Cons fd fds)
  have "pk_close (tracked K) fd (k, open_fds, most) = (pk_close K fd k, open_fds - {#fd#}, most)"
    by (simp add: tracked_def)
  then show ?case by (simp add: Cons.IH)
qed simp

lemma open_events_tracked:
  assumes "open_events (tracked K) pid evs g (k, open_fds + mset (pg_fds g), most) = (r, k', open', most')"
  shows "(case r of Inl _ \<Rightarrow> open' = open_fds | Inr g' \<Rightarrow> open' = open_fds + mset (pg_fds g') \<and> pg_ok g' \<and>
      length (pg_fds g') = length (pg_fds g) + length evs) \<and>
    most' \<le> max most (size open_fds + length (pg_fds g) + length evs) \<and> most \<le> most'"
  using assms
proof (induction evs arbitrary: g k most)
  case (Cons ev evs)
  let ?grp = "if pg_fds g = [] then -1 else pg_leader g"
  show ?case
  proof (cases "pk_open K pid ev ?grp k")
    case (Pair r1 k1)
    show ?thesis
    proof (cases r1)
      case (Inl e)
      have "r = Inl e \<and> (k', open', most') = fold (pk_close (tracked K)) (pg_fds g) (k1, open_fds + mset (pg_fds g), most)"
        using Cons.prems Pair Inl by (auto simp: tracked_def)
      then show ?thesis
        using close_all [of K "pg_fds g" k1 "open_fds + mset (pg_fds g)" most] by (auto simp: prod_eq_iff)
    next
      case (Inr fd)
      let ?g = "g\<lparr>pg_leader := (if pg_fds g = [] then fd else pg_leader g), pg_fds := pg_fds g @ [fd]\<rparr>"
      have step: "pk_open (tracked K) pid ev ?grp (k, open_fds + mset (pg_fds g), most) =
          (Inr fd, (k1, add_mset fd (open_fds + mset (pg_fds g)), max most (Suc (size open_fds + length (pg_fds g)))))"
        using Pair Inr by (simp add: tracked_def)
      have "open_events (tracked K) pid evs ?g (k1, open_fds + mset (pg_fds ?g), max most (Suc (size open_fds + length (pg_fds g))))
          = (r, k', open', most')"
        using Cons.prems by (simp add: step)
      from Cons.IH [OF this] show ?thesis by (auto split: sum.splits)
    qed
  qed
qed auto

lemma open_group_tracked:
  assumes "open_group (tracked K) p (k, open_fds, most) = ((p', g), k', open', most')"
  shows "open' = open_fds + mset (pg_fds g) \<and> length (pg_fds g) \<le> 4 \<and> most' \<le> max most (size open_fds + 4)"
proof -
  obtain r k1 o1 m1 where r: "open_events (tracked K) (p_pid p) hw_events no_group (k, open_fds, most) = (r, k1, o1, m1)"
    by (rule prod_cases4)
  have "open_events (tracked K) (p_pid p) hw_events no_group (k, open_fds + mset (pg_fds no_group), most) = (r, k1, o1, m1)"
    using r by (simp add: no_group_def)
  from open_events_tracked [OF this] show ?thesis
    using assms r by (auto simp: open_group_def no_group_def hw_events_def split: sum.splits)
qed

lemma open_groups_tracked:
  "thread_map (open_group (tracked K)) procs (k, open_fds, most) = (groups, k', open', most') \<Longrightarrow>
    open' = open_fds + mset (concat (map (\<lambda>pg. pg_fds (snd pg)) groups)) \<and> length groups = length procs \<and>
    length (concat (map (\<lambda>pg. pg_fds (snd pg)) groups)) \<le> 4 * length procs \<and> most' \<le> max most (size open_fds + 4 * length procs)"
proof (induction procs arbitrary: k open_fds most groups k' open' most')
  case (Cons p procs)
  obtain p1 g k1 o1 m1 where one: "open_group (tracked K) p (k, open_fds, most) = ((p1, g), k1, o1, m1)"
    by (metis prod.exhaust)
  obtain gs k2 o2 m2 where rest: "thread_map (open_group (tracked K)) procs (k1, o1, m1) = (gs, k2, o2, m2)"
    by (rule prod_cases4)
  have out: "groups = (p1, g) # gs" "k' = k2" "open' = o2" "most' = m2"
    using Cons.prems one rest by auto
  from open_group_tracked [OF one] Cons.IH [OF rest] show ?case
    by (auto simp: out add.assoc)
qed simp

lemma tracked_idle:
  "snd (pk_enable (tracked K) fd s) = snd s" "snd (pk_disable (tracked K) fd s) = snd s"
  "snd (snd (pk_read (tracked K) fd s)) = snd s" "snd (pk_sleep (tracked K) s) = snd s"
  by (auto simp: tracked_def split: prod.splits)

lemma enable_all:
  "snd (fold (\<lambda>pg. if pg_ok (snd pg) then pk_enable (tracked K) (pg_leader (snd pg)) else id) groups s) = snd s"
  by (induction groups arbitrary: s) (simp_all add: tracked_idle)

lemma read_group_idle: "snd (snd (read_group (tracked K) secs pg s)) = snd s"
proof -
  obtain r s' where r: "pk_read (tracked K) (pg_leader (snd pg)) (pk_disable (tracked K) (pg_leader (snd pg)) s) = (r, s')"
    by (rule prod.exhaust)
  then have "snd s' = snd s"
    using tracked_idle(3) [of K "pg_leader (snd pg)" "pk_disable (tracked K) (pg_leader (snd pg)) s"] tracked_idle(2) [of K] by simp
  then show ?thesis by (simp add: read_group_def r)
qed

lemma read_all:
  "snd (snd (thread_map (read_group (tracked K) secs) groups s)) = snd s \<and>
   length (fst (thread_map (read_group (tracked K) secs) groups s)) = length groups"
proof (induction groups arbitrary: s)
  case (Cons g groups)
  show ?case using Cons.IH [of "snd (read_group (tracked K) secs g s)"] read_group_idle [of K secs g s]
    by (simp add: case_prod_unfold)
qed simp

lemma measure_batch_tracked:
  assumes "measure_batch (tracked K) window procs (k, open_fds, most) = (procs', k', open', most')"
  shows "open' = open_fds \<and> most' \<le> max most (size open_fds + 4 * length procs) \<and> length procs' = length procs"
proof -
  obtain groups k1 o1 m1 where groups: "thread_map (open_group (tracked K)) procs (k, open_fds, most) = (groups, k1, o1, m1)"
    by (rule prod_cases4)
  let ?s = "pk_sleep (tracked K) (fold (\<lambda>pg. if pg_ok (snd pg) then pk_enable (tracked K) (pg_leader (snd pg)) else id) groups (k1, o1, m1))"
  let ?fds = "concat (map (\<lambda>pg. pg_fds (snd pg)) groups)"
  obtain ps k2 o2 m2 where ps: "thread_map (read_group (tracked K) (duration_secs window)) groups ?s = (ps, k2, o2, m2)"
    by (rule prod_cases4)
  have "snd ?s = (o1, m1)" by (simp add: tracked_idle enable_all)
  then have "(o2, m2) = (o1, m1) \<and> length ps = length groups"
    using read_all [of K "duration_secs window" groups ?s] ps by simp
  moreover have "procs' = ps \<and> (open', most') = (o2 - mset ?fds, m2)"
    using assms close_all [of K ?fds k2 o2 m2] ps by (simp add: measure_batch_def groups Let_def prod_eq_iff)
  ultimately show ?thesis using open_groups_tracked [OF groups] by auto
qed

text \<open>
  C29: Descriptors of hardware counters. Measuring any number of processes, whatever the kernel
  answers, closes every descriptor it opened, has at most 256 open at any time, and returns the
  processes it was given.
\<close>

theorem perf_closes_descriptors:
  "case perf_collect (tracked K) window procs (k, {#}, 0) of
     (procs', k', open_fds, most) \<Rightarrow> open_fds = {#} \<and> most \<le> 256 \<and> length procs' = length procs"
proof -
  have "perf_collect (tracked K) window procs (k, {#}, m) = (procs', k', open_fds, most) \<Longrightarrow> m \<le> 256 \<Longrightarrow>
      open_fds = {#} \<and> most \<le> 256 \<and> length procs' = length procs" for m procs' k' open_fds most
  proof (induction "tracked K" window procs "(k, {#} :: int multiset, m)" arbitrary: k m procs' k' open_fds most rule: perf_collect.induct)
    case (1 window procs k m)
    let ?now = "take max_perf_groups procs" and ?later = "drop max_perf_groups procs"
    show ?case
    proof (cases "procs = [] \<or> pk_cancelled (tracked K) (k, {#}, m)")
      case False
      obtain ps k1 o1 m1 where batch: "measure_batch (tracked K) window ?now (k, {#}, m) = (ps, k1, o1, m1)"
        by (rule prod_cases4)
      obtain qs k2 o2 m2 where rest: "perf_collect (tracked K) window ?later (k1, o1, m1) = (qs, k2, o2, m2)"
        by (rule prod_cases4)
      have closed: "o1 = {#}" "m1 \<le> 256" "length ps = length ?now"
        using measure_batch_tracked [OF batch] "1.prems"(2) by (auto simp: max_perf_groups_def)
      then have batch': "(ps, k1, {#}, m1) = measure_batch (tracked K) window ?now (k, {#}, m)"
        and rest': "perf_collect (tracked K) window ?later (k1, {#}, m1) = (qs, k2, o2, m2)"
        using batch rest by simp_all
      have "o2 = {#} \<and> m2 \<le> 256 \<and> length qs = length ?later"
        by (rule "1.hyps" [OF False batch' rest' closed(2)])
      moreover have "(procs', k', open_fds, most) = (ps @ qs, k2, o2, m2)"
        using "1.prems"(1) False by (simp add: perf_collect.simps [of "tracked K" window procs] batch rest)
      ultimately show ?thesis using closed by (simp add: min_def)
    qed (use "1.prems" in \<open>auto simp: perf_collect.simps [of "tracked K" window procs]\<close>)
  qed
  then show ?thesis by (auto split: prod.split)
qed

section \<open>Wakeups through eBPF (\<open>ebpf_linux.go\<close>)\<close>

record ebpf_collector =
  eb_loaded :: bool
  eb_failed :: bool
  eb_reason :: availability

definition new_ebpf :: ebpf_collector where
  "new_ebpf = \<lparr>eb_loaded = False, eb_failed = False, eb_reason = AvUnset\<rparr>"

definition classify_bpf_err :: "string \<Rightarrow> availability" where
  "classify_bpf_err msg =
     (let s = to_lower msg in
      if contains s ''permission'' \<or> contains s ''not permitted'' \<or> contains s ''operation not permitted''
      then PermissionDenied else Unsupported)"

definition ebpf_mark_all :: "availability \<Rightarrow> process list \<Rightarrow> process list" where
  "ebpf_mark_all reason procs = map (set_metric ''wakeups'' (unavailable reason ''ebpf'')) procs"

text \<open>The counters of a group of threads before and after the window, zero where the map has none.\<close>

definition ebpf_value :: "f64 \<Rightarrow> 64 word \<Rightarrow> 64 word \<Rightarrow> metric_value" where
  "ebpf_value secs prev cur =
     (if f_le secs (Fin 0) \<or> cur < prev then unavailable WarmingUp ''ebpf''
      else new_value (f_div (f_of_u64 (cur - prev)) secs) Sampled ''ebpf'')"

definition ebpf_collect ::
  "string option \<Rightarrow> (32 word \<Rightarrow> 64 word) \<Rightarrow> (32 word \<Rightarrow> 64 word) \<Rightarrow> int \<Rightarrow> ebpf_collector \<Rightarrow> process list \<Rightarrow>
    process list \<times> ebpf_collector" where
  "ebpf_collect load_error c1 c2 window st procs =
     (if eb_failed st then (ebpf_mark_all (eb_reason st) procs, st)
      else (case (if eb_loaded st then None else load_error) of
          Some msg \<Rightarrow> (ebpf_mark_all (classify_bpf_err msg) procs, st\<lparr>eb_failed := True, eb_reason := classify_bpf_err msg\<rparr>)
        | None \<Rightarrow>
            (map (\<lambda>p. set_metric ''wakeups''
                (ebpf_value (duration_secs window) (c1 (word_of_int (p_pid p))) (c2 (word_of_int (p_pid p)))) p) procs,
             st\<lparr>eb_loaded := True\<rparr>)))"

text \<open>
  Two sources of wakeups. A reading the eBPF program gives stays when the fallback of \<open>/proc\<close> runs
  after it; a process it could not read gets what the fallback says.
\<close>

theorem wakeups_prefer_ebpf:
  assumes "k < length procs"
  shows "let traced = fst (ebpf_collect load_error c1 c2 window st procs); t = traced ! k;
      out = wakeups_collect before after_fs base sched_wakeups_window traced ! k in
    length (wakeups_collect before after_fs base sched_wakeups_window traced) = length procs \<and>
    (if present (metric t ''wakeups'') then out = t
     else rd_source (metric out ''wakeups'') = ''sched'') \<and>
    (i = ''wakeups'' \<or> metric out i = metric (procs ! k) i)"
proof -
  have src: "rd_source (unavailable av s) = s" "rd_source (window_value s b f a1 a2) = s" for av s b f a1 a2
    by (auto simp: window_value_def unavailable_def new_value_def split: sum.split)
  show ?thesis
    using assms
    by (auto simp: Let_def ebpf_collect_def ebpf_mark_all_def wakeups_collect_def src split: option.split)
qed

definition no_files :: file_tree where
  "no_files = \<lparr>ft_read = (\<lambda>_. Inl NotExist), ft_link = (\<lambda>_. Inl NotExist), ft_dir = (\<lambda>_. Inl NotExist), ft_exists = (\<lambda>_. False)\<rparr>"

theorem wakeups_prefer_ebpf_witness:
  "rd_source (metric (wakeups_collect no_files no_files ''/proc'' sched_wakeups_window
     (fst (ebpf_collect (Some ''operation not permitted'') (\<lambda>_. 0) (\<lambda>_. 0) 200000000 new_ebpf [zero_process])) ! 0) ''wakeups'') = ''sched''"
proof -
  have "\<not> present (metric (fst (ebpf_collect (Some ''operation not permitted'') (\<lambda>_. 0) (\<lambda>_. 0) 200000000 new_ebpf [zero_process]) ! 0) ''wakeups'')"
    by (simp add: ebpf_collect_def new_ebpf_def ebpf_mark_all_def classify_bpf_err_def Let_def)
  then show ?thesis
    using wakeups_prefer_ebpf [of 0 "[zero_process]" "Some ''operation not permitted''" "\<lambda>_. 0" "\<lambda>_. 0" 200000000 new_ebpf no_files no_files "''/proc''" "''wakeups''"]
    by (simp add: Let_def)
qed

end
