(* ===== verification/App_Machine.thy ===== *)
theory App_Machine
  imports App_Assembly Metrics_Builtin Resolve Procfs_Gpu Procfs_Sensors Procfs_Counters
begin

text \<open>
  The production assembly of \<open>internal/app/assembly.go\<close>: the process source, the resolvers and the
  collectors of \<open>internal/procfs\<close> wired over one machine. The contracts of the two kinds of
  collectors are locales, interpreted on every collector of the program.
\<close>

section \<open>The contracts\<close>

text \<open>A collector of processes writes its own metrics and nothing else.\<close>

definition keeps_beside :: "metric_id list \<Rightarrow> process \<Rightarrow> process \<Rightarrow> bool" where
  "keeps_beside ids p q \<longleftrightarrow> q\<lparr>p_metrics := p_metrics p\<rparr> = p \<and> (\<forall>i. i \<in> set ids \<or> p_metrics q i = p_metrics p i)"

lemma keeps_beside_refl [simp]: "keeps_beside ids p p"
  by (simp add: keeps_beside_def)

lemma keeps_beside_set [simp]: "i \<in> set ids \<Longrightarrow> keeps_beside ids p q \<Longrightarrow> keeps_beside ids p (set_metric i v q)"
  by (cases p; cases q) (auto simp: keeps_beside_def set_metric_def)

lemma keeps_beside_trans: "keeps_beside ids p q \<Longrightarrow> keeps_beside ids q r \<Longrightarrow> keeps_beside ids p r"
proof -
  assume a: "keeps_beside ids p q" and b: "keeps_beside ids q r"
  have "r\<lparr>p_metrics := p_metrics p\<rparr> = p"
    using a b by (cases p; cases q; cases r) (simp add: keeps_beside_def)
  moreover have "\<forall>i. i \<in> set ids \<or> p_metrics r i = p_metrics p i"
    using a b unfolding keeps_beside_def by metis
  ultimately show ?thesis by (simp add: keeps_beside_def)
qed

lemma keeps_beside_mono: "keeps_beside ids p q \<Longrightarrow> set ids \<subseteq> set ids' \<Longrightarrow> keeps_beside ids' p q"
  by (auto simp: keeps_beside_def)

lemma keeps_beside_fold:
  "(\<And>x q. x \<in> set xs \<Longrightarrow> keeps_beside ids p q \<Longrightarrow> keeps_beside ids p (f x q)) \<Longrightarrow> keeps_beside ids p q \<Longrightarrow>
    keeps_beside ids p (fold f xs q)"
  by (induction xs arbitrary: q) auto

lemma keeps_beside_set_all: "set is \<subseteq> set ids \<Longrightarrow> keeps_beside ids p q \<Longrightarrow> keeps_beside ids p (set_all is v q)"
  unfolding set_all_def by (rule keeps_beside_fold) auto

lemma keeps_beside_metric: "keeps_beside ids p q \<Longrightarrow> i \<notin> set ids \<Longrightarrow> metric q i = metric p i"
  by (simp add: keeps_beside_def metric_def) metis

locale process_collector =
  fixes ids :: "metric_id list" and collect :: "process list \<Rightarrow> process list"
  assumes keeps: "list_all2 (keeps_beside ids) procs (collect procs)"
begin

lemma same_length: "length (collect procs) = length procs"
  using list_all2_lengthD [OF keeps [of procs]] by simp

lemma same_processes: "map (p_metrics_update (\<lambda>_. Map.empty)) (collect procs) = map (p_metrics_update (\<lambda>_. Map.empty)) procs"
proof (rule nth_equalityI)
  fix k assume k: "k < length (map (p_metrics_update (\<lambda>_. Map.empty)) (collect procs))"
  then have "keeps_beside ids (procs ! k) (collect procs ! k)"
    using keeps [of procs] by (auto simp: list_all2_conv_all_nth)
  then have "p_metrics_update (\<lambda>_. Map.empty) (collect procs ! k) = p_metrics_update (\<lambda>_. Map.empty) (procs ! k)"
    by (cases "procs ! k"; cases "collect procs ! k") (auto simp: keeps_beside_def)
  then show "map (p_metrics_update (\<lambda>_. Map.empty)) (collect procs) ! k = map (p_metrics_update (\<lambda>_. Map.empty)) procs ! k"
    using k same_length [of procs] by simp
qed (simp add: same_length)

end

text \<open>A collector of the host answers with its own metrics.\<close>

locale machine_collector =
  fixes ids :: "metric_id list" and collect :: "metric_id \<rightharpoonup> metric_value"
  assumes own: "dom collect \<subseteq> set ids"
begin

lemma not_own: "i \<notin> set ids \<Longrightarrow> collect i = None"
  using own by blast

end

section \<open>The collectors keep their contracts\<close>

lemma list_all2_map_self: "(\<And>p. p \<in> set ps \<Longrightarrow> R p (f p)) \<Longrightarrow> list_all2 R ps (map f ps)"
  by (simp add: list_all2_conv_all_nth)

lemma keeps_count_fold:
  "fst ` set vs \<subseteq> set ids \<Longrightarrow> keeps_beside ids p q \<Longrightarrow> keeps_beside ids p (fold (\<lambda>(i, n). set_metric i (count_value src n)) vs q)"
  by (rule keeps_beside_fold) (auto simp: image_subset_iff)

definition thread_state_metrics :: "metric_id list" where
  "thread_state_metrics = [''threads-running'', ''threads-uninterruptible'']"

definition procmem_metrics :: "metric_id list" where
  "procmem_metrics = [''pss'', ''uss'', ''swap-pss'', ''oom-score'', ''oom-score-adj'']"

definition cstate_ids :: "metric_id list" where
  "cstate_ids = [''cstate-deep-residency'']"

lemma fd_keeps: "keeps_beside fd_metrics p (fd_collect_one fs base p)"
  by (auto simp: fd_collect_one_def Let_def fd_apply_def keeps_beside_set_all split: sum.split
      intro!: keeps_count_fold) (simp_all add: fd_metrics_def)

lemma sock_keeps: "keeps_beside socket_metrics p (sock_collect_one fs base table p)"
  by (auto simp: sock_collect_one_def Let_def sock_apply_def keeps_beside_set_all split: sum.split
      intro!: keeps_count_fold) (simp_all add: socket_metrics_def)

lemma thread_state_keeps: "keeps_beside thread_state_metrics p (thread_state_count fs base p)"
  by (auto simp: thread_state_count_def Let_def thread_state_metrics_def set_all_def split: sum.split)

lemma procmem_keeps: "keeps_beside procmem_metrics p (procmem_collect_one fs base p)"
  by (auto simp: procmem_collect_one_def apply_oom_def apply_rollup_def Let_def procmem_metrics_def set_all_def split: sum.split)

lemma gpu_keeps: "keeps_beside gpu_metrics p (apply_gpu_window w a1 second p)"
  by (auto simp: apply_gpu_window_def Let_def gpu_unavailable_def gpu_metrics_def gpu_engine_ids_def set_all_def split: sum.split)

lemma gpu_unavailable_keeps: "keeps_beside gpu_metrics p (gpu_unavailable av p)"
  by (simp add: gpu_unavailable_def keeps_beside_set_all)

lemma perf_unavailable_keeps: "keeps_beside perf_metrics p (perf_unavailable e p)"
  by (simp add: perf_unavailable_def keeps_beside_set_all)

lemma read_counters_keeps: "keeps_beside perf_metrics p q \<Longrightarrow> keeps_beside perf_metrics p (read_counters secs r q)"
  by (auto simp: read_counters_def Let_def perf_metrics_def perf_unavailable_def set_all_def split: sum.split)

lemma open_group_keeps: "keeps_beside perf_metrics p (fst (fst (open_group K p k)))"
  by (auto simp: open_group_def perf_unavailable_keeps split: prod.split sum.split)

lemma read_group_keeps: "keeps_beside perf_metrics p (fst pg) \<Longrightarrow> keeps_beside perf_metrics p (fst (read_group K secs pg k))"
  by (auto simp: read_group_def read_counters_keeps split: prod.split)

lemma thread_map_all2:
  "(\<And>x k. P x (fst (f x k))) \<Longrightarrow> list_all2 P xs (fst (thread_map f xs k))"
  by (induction xs arbitrary: k) (auto simp: case_prod_unfold)

lemma thread_map_all2_from:
  "list_all2 R ps xs \<Longrightarrow> (\<And>p x k. R p x \<Longrightarrow> Q p (fst (f x k))) \<Longrightarrow> list_all2 Q ps (fst (thread_map f xs k))"
  by (induction ps xs arbitrary: k rule: list_all2_induct) (auto simp: case_prod_unfold)

lemma measure_batch_keeps: "list_all2 (keeps_beside perf_metrics) procs (fst (measure_batch K window procs k))"
proof -
  obtain groups k1 where g: "thread_map (open_group K) procs k = (groups, k1)" by (rule prod.exhaust)
  have "list_all2 (\<lambda>p pg. keeps_beside perf_metrics p (fst pg)) procs groups"
    using thread_map_all2 [of "\<lambda>p pg. keeps_beside perf_metrics p (fst pg)" "open_group K", OF open_group_keeps, of procs k] g by simp
  moreover have "fst (measure_batch K window procs k) = fst (thread_map (read_group K (duration_secs window)) groups
      (pk_sleep K (fold (\<lambda>pg. if pg_ok (snd pg) then pk_enable K (pg_leader (snd pg)) else id) groups k1)))"
    by (simp add: measure_batch_def g Let_def case_prod_unfold)
  moreover have "list_all2 (keeps_beside perf_metrics) procs (fst (thread_map (read_group K secs) groups k2))"
    if "list_all2 (\<lambda>p pg. keeps_beside perf_metrics p (fst pg)) procs groups" for secs k2
    by (rule thread_map_all2_from [OF that]) (rule read_group_keeps)
  ultimately show ?thesis by simp
qed

lemma perf_keeps: "list_all2 (keeps_beside perf_metrics) procs (fst (perf_collect K window procs k))"
proof (induction K window procs k rule: perf_collect.induct)
  case (1 K window procs k)
  let ?now = "take max_perf_groups procs" and ?later = "drop max_perf_groups procs"
  show ?case
  proof (cases "procs = [] \<or> pk_cancelled K k")
    case True
    then show ?thesis by (auto simp: perf_collect.simps [of K window procs k] list_all2_conv_all_nth)
  next
    case False
    obtain ps k1 where batch: "measure_batch K window ?now k = (ps, k1)" by (rule prod.exhaust)
    have "list_all2 (keeps_beside perf_metrics) ?later (fst (perf_collect K window ?later k1))"
      by (rule "1.IH" [OF False batch [symmetric]])
    then have "list_all2 (keeps_beside perf_metrics) (?now @ ?later) (ps @ fst (perf_collect K window ?later k1))"
      using measure_batch_keeps [of ?now K window k] batch by (intro list_all2_appendI) simp_all
    then show ?thesis
      using False by (simp add: perf_collect.simps [of K window procs k] batch case_prod_unfold)
  qed
qed

interpretation fd: process_collector fd_metrics "map (fd_collect_one fs base)" for fs base
  by unfold_locales (simp add: list_all2_map_self fd_keeps)

interpretation sock: process_collector socket_metrics "map (sock_collect_one fs base table)" for fs base table
  by unfold_locales (simp add: list_all2_map_self sock_keeps)

interpretation thread_state: process_collector thread_state_metrics "map (thread_state_count fs base)" for fs base
  by unfold_locales (simp add: list_all2_map_self thread_state_keeps)

interpretation procmem: process_collector procmem_metrics "map (procmem_collect_one fs base)" for fs base
  by unfold_locales (simp add: list_all2_map_self procmem_keeps)

interpretation gpu: process_collector gpu_metrics "gpu_collect wild before after_fs base window" for wild before after_fs base window
proof unfold_locales
  fix procs
  show "list_all2 (keeps_beside gpu_metrics) procs (gpu_collect wild before after_fs base window procs)"
    by (auto simp: gpu_collect_def Let_def report_read_error_def gpu_unavailable_keeps gpu_keeps
        intro!: list_all2_map_self split: sum.split)
qed

interpretation schedstat: process_collector "[''runq-delay'']" "schedstat_collect before after_fs base window" for before after_fs base window
proof unfold_locales
  fix procs
  show "list_all2 (keeps_beside [''runq-delay'']) procs (schedstat_collect before after_fs base window procs)"
    by (simp add: schedstat_collect_def Let_def list_all2_conv_all_nth)
qed

interpretation perf: process_collector perf_metrics "\<lambda>procs. fst (perf_collect K window procs k)" for K window k
  by unfold_locales (rule perf_keeps)

interpretation ebpf: process_collector "[''wakeups'']" "\<lambda>procs. fst (ebpf_collect e c1 c2 window st procs)" for e c1 c2 window st
proof unfold_locales
  fix procs
  show "list_all2 (keeps_beside [''wakeups'']) procs (fst (ebpf_collect e c1 c2 window st procs))"
    by (auto simp: ebpf_collect_def ebpf_mark_all_def intro!: list_all2_map_self split: option.split)
qed

interpretation wakeups: process_collector "[''wakeups'']" "wakeups_collect before after_fs base window" for before after_fs base window
proof unfold_locales
  fix procs
  show "list_all2 (keeps_beside [''wakeups'']) procs (wakeups_collect before after_fs base window procs)"
    by (auto simp: wakeups_collect_def Let_def intro!: list_all2_map_self)
qed

section \<open>The collectors of the host keep theirs\<close>

definition cstate_metrics :: "file_tree \<Rightarrow> file_tree \<Rightarrow> string \<Rightarrow> int \<Rightarrow> (metric_id \<rightharpoonup> metric_value)" where
  "cstate_metrics before after_fs sys window = [''cstate-deep-residency'' \<mapsto> cstate_collect before after_fs sys window]"

lemma dom_all_unavailable: "dom (all_unavailable ids reason src) = set ids"
  unfolding all_unavailable_def dom_map_of_conv_image_fst by force

interpretation cstate: machine_collector cstate_ids "cstate_metrics before after_fs sys window" for before after_fs sys window
  by unfold_locales (simp add: cstate_ids_def cstate_metrics_def)

interpretation power: machine_collector "map snd power_domains" "power_collect before after_fs window sources" for before after_fs window sources
  by unfold_locales (auto simp: power_collect_def dom_all_unavailable dom_map_of_conv_image_fst power_domains_def)

interpretation psi: machine_collector psi_ids "psi_collect pf fs base" for pf fs base
  by unfold_locales (simp add: psi_collect_def psi_ids_def psi_files_def)

lemma dom_map_of_zip: "dom (map_of (zip ids vs)) \<subseteq> set ids"
  by (auto simp: dom_map_of_conv_image_fst dest: set_zip_leftD)

interpretation loadavg: machine_collector load_ids "load_collect pf fs base" for pf fs base
proof unfold_locales
  show "dom (load_collect pf fs base) \<subseteq> set load_ids"
    unfolding load_collect_def by (auto simp: dom_all_unavailable split: sum.splits option.splits dest!: subsetD [OF dom_map_of_zip, OF domI])
qed

interpretation battery: machine_collector battery_ids "battery_collect fs sys" for fs sys
proof unfold_locales
  have "dom (battery_metrics t) = set battery_ids" for t
    by (auto simp: battery_metrics_def battery_ids_def)
  moreover have "''battery-state'' \<in> set battery_ids" by (simp add: battery_ids_def)
  ultimately show "dom (battery_collect fs sys) \<subseteq> set battery_ids"
    by (auto simp: battery_collect_def Let_def dom_all_unavailable case_prod_unfold)
qed

interpretation temps: machine_collector "temp_ids sensors" "temp_collect fs sensors" for fs sensors
proof unfold_locales
  have "dom (fold (\<lambda>s out. out(tm_id s \<mapsto> temp_value fs s)) ss m) = dom m \<union> tm_id ` set ss" for ss m
    by (induction ss arbitrary: m) auto
  then show "dom (temp_collect fs sensors) \<subseteq> set (temp_ids sensors)"
    by (auto simp: temp_collect_def Let_def temp_ids_def split: if_splits)
qed

section \<open>The machine and the objects of the assembly\<close>

text \<open>
  A machine is what the collectors see of the world: its files, the passing of time, the clocks, the
  counters of the kernel, and the parts of the standard library that stay parameters. Reading does
  not change the world.
\<close>

record 'w machine =
  mn_tree :: "'w \<Rightarrow> file_tree"
  mn_sleep :: "int \<Rightarrow> 'w \<Rightarrow> 'w"
  mn_wait :: "int \<Rightarrow> 'w \<Rightarrow> bool \<times> 'w"
  mn_cancelled :: "'w \<Rightarrow> bool"
  mn_mono :: "'w \<Rightarrow> int"
  mn_wall :: "'w \<Rightarrow> int"
  mn_perf :: "'w perf_kernel"
  mn_ebpf_error :: "'w \<Rightarrow> string option"
  mn_ebpf_counts :: "'w \<Rightarrow> 32 word \<Rightarrow> 64 word"
  mn_hostname :: "string option"
  mn_cpus :: int
  mn_page_size :: int
  mn_error_text :: "file_error \<Rightarrow> string"
  mn_parse_float :: "string \<Rightarrow> f64 option"
  mn_wild :: "f64 \<Rightarrow> 64 word"
  mn_by_id :: "temp_sensor list \<Rightarrow> temp_sensor list"
  mn_regexp :: regexp_compile
  mn_style :: "int \<Rightarrow> style"
  mn_stamp :: "int \<Rightarrow> string"

text \<open>The world with the state of the objects an assembly holds: source, resolver, loader, power backends.\<close>

record 'w observer =
  ob_world :: 'w
  ob_source :: proc_source
  ob_users :: user_resolver
  ob_ebpf :: ebpf_collector
  ob_power :: "power_source list option"

definition files :: "'w machine \<Rightarrow> 'w observer \<Rightarrow> file_tree" where
  "files M s = mn_tree M (ob_world s)"

definition set_options :: "source_options \<Rightarrow> 'w observer \<Rightarrow> 'w observer" where
  "set_options op s = s\<lparr>ob_source := (ob_source s)\<lparr>so_enum_thread := op_threads op, so_read_wchan := op_wchan op,
     so_read_hostname := op_hostname op\<rparr>\<rparr>"

definition read_source :: "'w machine \<Rightarrow> 'w observer \<Rightarrow> source_reading \<times> 'w observer" where
  "read_source M s =
     (case list_processes (files M s) (ob_source s) of (r, src) \<Rightarrow>
        (\<lparr>sr_list = (case r of Inl e \<Rightarrow> Inl (mn_error_text M e) | Inr sts \<Rightarrow> Inr sts), sr_boot_id = so_boot_id src, sr_hz = so_hz src,
          sr_cpus = so_cpus src, sr_boot_unix = so_boot_unix src, sr_mono = mn_mono M (ob_world s), sr_wall = mn_wall M (ob_world s)\<rparr>,
         s\<lparr>ob_source := src\<rparr>))"

definition user_step :: "'w machine \<Rightarrow> process \<Rightarrow> 'w observer \<Rightarrow> process \<times> 'w observer" where
  "user_step M p s = (case resolve_user (files M s) (ob_users s) p of (p, r) \<Rightarrow> (p, s\<lparr>ob_users := r\<rparr>))"

definition unit_step :: "process \<Rightarrow> 'w observer \<Rightarrow> process \<times> 'w observer" where
  "unit_step p s = (resolve_unit p, s)"

text \<open>A measurement that looks at the files, sleeps if there is something to time, and looks again.\<close>

definition over_window ::
  "'w machine \<Rightarrow> int \<Rightarrow> bool \<Rightarrow> (file_tree \<Rightarrow> file_tree \<Rightarrow> 'a) \<Rightarrow> 'w observer \<Rightarrow> 'a \<times> 'w observer" where
  "over_window M window sleeps f s =
     (let s' = (if sleeps then s\<lparr>ob_world := mn_sleep M window (ob_world s)\<rparr> else s) in (f (files M s) (files M s'), s'))"

definition perf_window :: int where "perf_window = 80000000"
definition wakeups_window :: int where "wakeups_window = 200000000"
definition cstate_window :: int where "cstate_window = 200000000"
definition power_window :: int where "power_window = 200000000"

section \<open>The collectors of the assembly\<close>

definition fd_collector :: "'w machine \<Rightarrow> 'w observer metric_collector" where
  "fd_collector M = \<lparr>mc_metrics = fd_metrics, mc_collect = (\<lambda>procs s. (map (fd_collect_one (files M s) ''/proc'') procs, s))\<rparr>"

definition socket_collector :: "'w machine \<Rightarrow> 'w observer metric_collector" where
  "socket_collector M = \<lparr>mc_metrics = socket_metrics, mc_collect = (\<lambda>procs s.
     (map (sock_collect_one (files M s) ''/proc'' (read_net_tables (files M s) ''/proc'')) procs, s))\<rparr>"

definition gpu_collector :: "'w machine \<Rightarrow> 'w observer metric_collector" where
  "gpu_collector M = \<lparr>mc_metrics = gpu_metrics, mc_collect = (\<lambda>procs s.
     over_window M gpu_window (list_ex (\<lambda>p. holds_drm (scan_gpu (mn_wild M) (files M s) ''/proc'' p)) procs)
       (\<lambda>before after_fs. gpu_collect (mn_wild M) before after_fs ''/proc'' gpu_window procs) s)\<rparr>"

definition procmem_collector :: "'w machine \<Rightarrow> 'w observer metric_collector" where
  "procmem_collector M = \<lparr>mc_metrics = procmem_metrics,
     mc_collect = (\<lambda>procs s. (map (procmem_collect_one (files M s) ''/proc'') procs, s))\<rparr>"

definition schedstat_collector :: "'w machine \<Rightarrow> 'w observer metric_collector" where
  "schedstat_collector M = \<lparr>mc_metrics = [''runq-delay''], mc_collect = (\<lambda>procs s.
     over_window M schedstat_window (list_ex (\<lambda>p. is_ok (read_run_delay (files M s) ''/proc'' p)) procs)
       (\<lambda>before after_fs. schedstat_collect before after_fs ''/proc'' schedstat_window procs) s)\<rparr>"

definition perf_collector :: "'w machine \<Rightarrow> 'w observer metric_collector" where
  "perf_collector M = \<lparr>mc_metrics = perf_metrics, mc_collect = (\<lambda>procs s.
     case perf_collect (mn_perf M) perf_window procs (ob_world s) of (procs, w) \<Rightarrow> (procs, s\<lparr>ob_world := w\<rparr>))\<rparr>"

text \<open>The program of the wakeups collector is loaded once; a measurement reads its map twice.\<close>

definition ebpf_wakeups :: "'w machine \<Rightarrow> process list \<Rightarrow> 'w observer \<Rightarrow> process list \<times> 'w observer" where
  "ebpf_wakeups M procs s =
     (let err = (if eb_loaded (ob_ebpf s) then None else mn_ebpf_error M (ob_world s));
          idle = (eb_failed (ob_ebpf s) \<or> err \<noteq> None);
          w = (if idle then ob_world s else mn_sleep M wakeups_window (ob_world s))
      in case ebpf_collect err (mn_ebpf_counts M (ob_world s)) (mn_ebpf_counts M w) wakeups_window (ob_ebpf s) procs of
           (procs, st) \<Rightarrow> (procs, s\<lparr>ob_world := w, ob_ebpf := st\<rparr>))"

definition ebpf_wakeups_collector :: "'w machine \<Rightarrow> 'w observer metric_collector" where
  "ebpf_wakeups_collector M = \<lparr>mc_metrics = [''wakeups''], mc_collect = ebpf_wakeups M\<rparr>"

definition sched_wakeups_collector :: "'w machine \<Rightarrow> 'w observer metric_collector" where
  "sched_wakeups_collector M = \<lparr>mc_metrics = [''wakeups''], mc_collect = (\<lambda>procs s.
     over_window M sched_wakeups_window
       (list_ex (\<lambda>p. \<not> present (metric p ''wakeups'') \<and> is_ok (read_wakeups (files M s) ''/proc'' p)) procs)
       (\<lambda>before after_fs. wakeups_collect before after_fs ''/proc'' sched_wakeups_window procs) s)\<rparr>"

definition thread_state_collector :: "'w machine \<Rightarrow> 'w observer metric_collector" where
  "thread_state_collector M = \<lparr>mc_metrics = thread_state_metrics,
     mc_collect = (\<lambda>procs s. (map (thread_state_count (files M s) ''/proc'') procs, s))\<rparr>"

definition all_collectors :: "'w machine \<Rightarrow> 'w observer metric_collector list" where
  "all_collectors M = [fd_collector M, socket_collector M, gpu_collector M, procmem_collector M, schedstat_collector M,
     perf_collector M, ebpf_wakeups_collector M, sched_wakeups_collector M, thread_state_collector M]"

definition cstate_collector :: "'w machine \<Rightarrow> 'w observer host_collector" where
  "cstate_collector M = \<lparr>hc_metrics = cstate_ids, hc_collect = (\<lambda>s.
     over_window M cstate_window (read_deep (files M s) ''/sys'' \<noteq> None)
       (\<lambda>before after_fs. cstate_metrics before after_fs ''/sys'' cstate_window) s)\<rparr>"

text \<open>The backends of power are found at the first measurement.\<close>

definition power_measure :: "'w machine \<Rightarrow> 'w observer \<Rightarrow> (metric_id \<rightharpoonup> metric_value) \<times> 'w observer" where
  "power_measure M s =
     (let sources = (case ob_power s of Some srcs \<Rightarrow> srcs | None \<Rightarrow> new_power_sources (files M s) ''/sys'');
          energy = list_ex (\<lambda>src. case pws_read src (files M s) of None \<Rightarrow> False | Some r \<Rightarrow> has_energy r) sources
      in over_window M power_window energy (\<lambda>before after_fs. power_collect before after_fs power_window sources)
           (s\<lparr>ob_power := Some sources\<rparr>))"

definition power_collector :: "'w machine \<Rightarrow> 'w observer host_collector" where
  "power_collector M = \<lparr>hc_metrics = map snd power_domains, hc_collect = power_measure M\<rparr>"

definition psi_collector :: "'w machine \<Rightarrow> 'w observer host_collector" where
  "psi_collector M = \<lparr>hc_metrics = psi_ids, hc_collect = (\<lambda>s. (psi_collect (mn_parse_float M) (files M s) ''/proc'', s))\<rparr>"

definition load_collector :: "'w machine \<Rightarrow> 'w observer host_collector" where
  "load_collector M = \<lparr>hc_metrics = load_ids, hc_collect = (\<lambda>s. (load_collect (mn_parse_float M) (files M s) ''/proc'', s))\<rparr>"

definition battery_collector :: "'w machine \<Rightarrow> 'w observer host_collector" where
  "battery_collector M = \<lparr>hc_metrics = battery_ids, hc_collect = (\<lambda>s. (battery_collect (files M s) ''/sys'', s))\<rparr>"

definition temp_collector :: "'w machine \<Rightarrow> temp_sensor list \<Rightarrow> 'w observer host_collector" where
  "temp_collector M sensors = \<lparr>hc_metrics = temp_ids sensors, hc_collect = (\<lambda>s. (temp_collect (files M s) sensors, s))\<rparr>"

definition all_host_collectors :: "'w machine \<Rightarrow> temp_sensor list \<Rightarrow> 'w observer host_collector list" where
  "all_host_collectors M sensors = [cstate_collector M, power_collector M, psi_collector M, load_collector M,
     battery_collector M, temp_collector M sensors]"

section \<open>Wiring (\<open>newAssembly\<close>)\<close>

definition register_sensors :: "registry \<Rightarrow> temp_sensor list \<Rightarrow> registry" where
  "register_sensors reg sensors =
     fold (\<lambda>s reg. fst (register reg (temp_sensor_descriptor (tm_id s) (sensor_description s)))) sensors reg"

definition wire :: "'w machine \<Rightarrow> registry \<Rightarrow> temp_sensor list \<Rightarrow> 'w observer assembly" where
  "wire M reg sensors =
     \<lparr>as_engine = \<lparr>e_reg = register_sensors reg sensors, e_dims = new_dimensions\<rparr>, as_regexp = mn_regexp M,
      as_configure = set_options, as_read = read_source M, as_resolvers = [user_step M, unit_step],
      as_collectors = all_collectors M, as_host_collectors = all_host_collectors M sensors,
      as_wait = (\<lambda>d s. case mn_wait M d (ob_world s) of (stop, w) \<Rightarrow> (stop, s\<lparr>ob_world := w\<rparr>)),
      as_cancelled = (\<lambda>s. mn_cancelled M (ob_world s)), as_style = mn_style M, as_stamp = mn_stamp M\<rparr>"

text \<open>\<open>None\<close> is the panic of a registry whose built-in metrics clash.\<close>

definition new_assembly :: "'w machine \<Rightarrow> 'w \<Rightarrow> ('w observer assembly \<times> 'w observer) option" where
  "new_assembly M w =
     map_option (\<lambda>reg.
       (wire M reg (discover_temps (mn_by_id M) (mn_tree M w) ''/sys''),
        \<lparr>ob_world = w, ob_source = new_source (mn_tree M w) (mn_hostname M) ''/proc'' 100 (mn_cpus M) (mn_page_size M),
         ob_users = new_user_resolver [], ob_ebpf = new_ebpf, ob_power = None\<rparr>)) new_default"

end
