(* ===== verification/App_Assembly_Correct.thy ===== *)
theory App_Assembly_Correct
  imports App_Machine
begin

text \<open>
  What the observation stack promises: exactly the collectors a query needs run, collecting changes
  nothing but their metrics, an instant sample shows no rate of the sampler, optional files are read only when a
  query uses them, and a stream of a given number of batches ends.
\<close>

section \<open>The collectors that run\<close>

definition needed_collectors :: "metric_id list \<Rightarrow> 'w metric_collector list \<Rightarrow> 'w metric_collector list" where
  "needed_collectors needed cs = filter (\<lambda>c. intersects_metrics (mc_metrics c) needed) cs"

lemma run_needed: "run_collectors needed (needed_collectors needed cs) procs w = run_collectors needed cs procs w"
  by (induction cs arbitrary: procs w) (auto simp: needed_collectors_def split: prod.split)

text \<open>
  An assembly that keeps a tally: its world also holds which collectors have run, named by their
  metrics, in order.
\<close>

definition tallied :: "metric_id list \<Rightarrow> ('w \<Rightarrow> 'r \<times> 'w) \<Rightarrow> 'w \<times> metric_id list list \<Rightarrow> 'r \<times> 'w \<times> metric_id list list" where
  "tallied ids f s = (case f (fst s) of (r, w) \<Rightarrow> (r, w, snd s @ [ids]))"

definition untallied :: "('w \<Rightarrow> 'r \<times> 'w) \<Rightarrow> 'w \<times> metric_id list list \<Rightarrow> 'r \<times> 'w \<times> metric_id list list" where
  "untallied f s = (case f (fst s) of (r, w) \<Rightarrow> (r, w, snd s))"

definition tally :: "'w assembly \<Rightarrow> ('w \<times> metric_id list list) assembly" where
  "tally A =
     \<lparr>as_engine = as_engine A, as_regexp = as_regexp A, as_configure = (\<lambda>op s. (as_configure A op (fst s), snd s)),
      as_read = untallied (as_read A), as_resolvers = map (\<lambda>r p. untallied (r p)) (as_resolvers A),
      as_collectors = map (\<lambda>c. \<lparr>mc_metrics = mc_metrics c, mc_collect = (\<lambda>procs. tallied (mc_metrics c) (mc_collect c procs))\<rparr>) (as_collectors A),
      as_host_collectors = map (\<lambda>c. \<lparr>hc_metrics = hc_metrics c, hc_collect = tallied (hc_metrics c) (hc_collect c)\<rparr>) (as_host_collectors A),
      as_wait = (\<lambda>d. untallied (as_wait A d)), as_cancelled = (\<lambda>s. as_cancelled A (fst s)), as_style = as_style A, as_stamp = as_stamp A\<rparr>"

text \<open>A step of the tallied assembly does what the step of the assembly does, and adds some runs to the tally.\<close>

definition runs :: "metric_id list list \<Rightarrow> ('w \<times> metric_id list list \<Rightarrow> 'r \<times> 'w \<times> metric_id list list) \<Rightarrow> ('w \<Rightarrow> 'r \<times> 'w) \<Rightarrow> bool" where
  "runs new g f \<longleftrightarrow> (\<forall>w l. g (w, l) = (fst (f w), snd (f w), l @ new))"

lemma runs_one: "runs [ids] (tallied ids f) f" "runs [] (untallied f) f"
  by (simp_all add: runs_def tallied_def untallied_def case_prod_beta)

definition wanted_runs :: "metric_id list \<Rightarrow> metric_id list list \<Rightarrow> metric_id list list" where
  "wanted_runs needed idss = filter (\<lambda>ids. set ids \<inter> set needed \<noteq> {}) idss"

lemma intersects_iff: "intersects_metrics ids needed \<longleftrightarrow> set ids \<inter> set needed \<noteq> {}"
  by (auto simp: intersects_metrics_def list_ex_iff)

lemma runs_resolvers: "runs [] (apply_resolvers (tally A) ps) (apply_resolvers A ps)"
proof -
  have one: "resolve_with (map (\<lambda>r p. untallied (r p)) rs) p (w, l) =
      (fst (resolve_with rs p w), snd (resolve_with rs p w), l)" for rs :: "(process \<Rightarrow> 'a \<Rightarrow> process \<times> 'a) list" and p w l
    by (induction rs arbitrary: p w) (simp_all add: untallied_def case_prod_beta)
  show ?thesis unfolding runs_def
    by (intro allI, induction ps) (simp_all add: one tally_def case_prod_beta)
qed

lemma runs_collectors:
  "run_collectors needed (as_collectors (tally A)) procs (w, l) =
    (fst (run_collectors needed (as_collectors A) procs w), snd (run_collectors needed (as_collectors A) procs w),
     l @ wanted_runs needed (map mc_metrics (as_collectors A)))"
proof -
  have "run_collectors needed (map (\<lambda>c. \<lparr>mc_metrics = mc_metrics c, mc_collect = (\<lambda>procs. tallied (mc_metrics c) (mc_collect c procs))\<rparr>) cs) procs (w, l) =
    (fst (run_collectors needed cs procs w), snd (run_collectors needed cs procs w), l @ wanted_runs needed (map mc_metrics cs))"
    for cs :: "'a metric_collector list"
  proof (induction cs arbitrary: procs w l)
    case Nil
    then show ?case by (simp add: wanted_runs_def)
  next
    case (Cons c cs)
    obtain ps w1 where "mc_collect c procs w = (ps, w1)" by (rule prod.exhaust)
    then show ?case using Cons by (simp add: wanted_runs_def tallied_def intersects_iff)
  qed
  then show ?thesis by (simp add: tally_def)
qed

lemma runs_hosts:
  "run_host_collectors needed (as_host_collectors (tally A)) out (w, l) =
    (fst (run_host_collectors needed (as_host_collectors A) out w), snd (run_host_collectors needed (as_host_collectors A) out w),
     l @ wanted_runs needed (map hc_metrics (as_host_collectors A)))"
proof -
  have "run_host_collectors needed (map (\<lambda>c. \<lparr>hc_metrics = hc_metrics c, hc_collect = tallied (hc_metrics c) (hc_collect c)\<rparr>) cs) out (w, l) =
    (fst (run_host_collectors needed cs out w), snd (run_host_collectors needed cs out w), l @ wanted_runs needed (map hc_metrics cs))"
    for cs :: "'a host_collector list"
  proof (induction cs arbitrary: out w l)
    case Nil
    then show ?case by (simp add: wanted_runs_def)
  next
    case (Cons c cs)
    obtain m w1 where "hc_collect c w = (m, w1)" by (rule prod.exhaust)
    then show ?case using Cons by (simp add: wanted_runs_def tallied_def intersects_iff)
  qed
  then show ?thesis by (simp add: tally_def)
qed

definition sample_runs :: "'w assembly \<Rightarrow> metric_id list \<Rightarrow> metric_id list list" where
  "sample_runs A needed = wanted_runs needed (map mc_metrics (as_collectors A) @ map hc_metrics (as_host_collectors A))"

lemma runs_observe: "runs (sample_runs A needed) (observe (tally A) needed sn) (observe A needed sn)"
proof (unfold runs_def, intro allI)
  fix w l
  obtain ps w1 where 1: "apply_resolvers A (sn_processes sn) w = (ps, w1)" by (rule prod.exhaust)
  obtain qs w2 where 2: "run_collectors needed (as_collectors A) ps w1 = (qs, w2)" by (rule prod.exhaust)
  obtain h w3 where 3: "run_host_collectors needed (as_host_collectors A) Map.empty w2 = (h, w3)" by (rule prod.exhaust)
  show "observe (tally A) needed sn (w, l) = (fst (observe A needed sn w), snd (observe A needed sn w), l @ sample_runs A needed)"
    using runs_resolvers [of A "sn_processes sn"]
    by (simp add: observe_def enrich_def collect_host_def 1 2 3 runs_def runs_collectors runs_hosts sample_runs_def wanted_runs_def)
qed

lemma tally_fields:
  "as_configure (tally A) op (w, l) = (as_configure A op w, l)" "has_rate (tally A) = has_rate A"
  "take_sample (tally A) needed sm (w, l) = (fst (take_sample A needed sm w), snd (take_sample A needed sm w), l)"
  "as_wait (tally A) d (w, l) = (fst (as_wait A d w), snd (as_wait A d w), l)"
  by (simp_all add: tally_def untallied_def take_sample_def has_rate_def fun_eq_iff case_prod_beta)

text \<open>
  C28: Paying for what is used. A sample that is taken has run exactly the collectors, of processes and then of the host, that
  produce a metric the query needs: each of them once, in the order they are wired in, and no other. One that fails
  or is interrupted has run none. What it gives is what it would give unobserved.
\<close>

theorem needed_collectors_run:
  "case sample_for_result (tally A) r instant (w, []) of (res, w', taken) \<Rightarrow>
     (res, w') = sample_for_result A r instant w \<and>
     taken = (if is_ok res then filter (\<lambda>ids. set ids \<inter> set (rv_needed r) \<noteq> {})
         (map mc_metrics (as_collectors A) @ map hc_metrics (as_host_collectors A)) else [])"
proof -
  have fin: "finish_sample (tally A) needed (taken, w1, l) =
      (fst (finish_sample A needed (taken, w1)), snd (finish_sample A needed (taken, w1)),
       if is_ok (fst (finish_sample A needed (taken, w1))) then l @ sample_runs A needed else l)" for needed taken w1 l
    using runs_observe [of A needed] by (cases taken; cases "snd taken")
      (simp_all add: finish_sample_def runs_def case_prod_beta)
  obtain sm res w1 where t: "take_sample A (rv_needed r) new_sampler (as_configure A (configure_source r) w) = ((sm, res), w1)"
    by (metis prod.exhaust)
  obtain stop w2 where wt: "as_wait A warmup w1 = (stop, w2)" by (rule prod.exhaust)
  show ?thesis
    by (cases res; cases stop)
      (auto simp: sample_for_result_def tally_fields t wt fin sample_runs_def wanted_runs_def case_prod_beta)
qed

lemmas collector_ids = fd_metrics_def socket_metrics_def gpu_metrics_def gpu_engine_ids_def procmem_metrics_def perf_metrics_def
  thread_state_metrics_def

lemmas collectors_simps = all_collectors_def fd_collector_def socket_collector_def gpu_collector_def procmem_collector_def
  schedstat_collector_def perf_collector_def ebpf_wakeups_collector_def sched_wakeups_collector_def thread_state_collector_def

definition collected_ids :: "metric_id list" where
  "collected_ids = fd_metrics @ socket_metrics @ gpu_metrics @ procmem_metrics @ [''runq-delay''] @ perf_metrics @ [''wakeups''] @ thread_state_metrics"

lemma set_collected_ids: "set collected_ids = set (concat (map mc_metrics (all_collectors M)))"
  by (auto simp: collected_ids_def collectors_simps)

lemma light_metrics_not_collected:
  "list_all (\<lambda>d. d_cost d \<noteq> Cost0Light \<or> d_id d \<notin> set collected_ids) builtin_metrics"
  by code_simp

text \<open>
  The default selection. The metrics of the profile \<open>light\<close> are all read with the process, so a
  query that needs no others leaves what was sampled to no collector.
\<close>

theorem light_profile_runs_no_collector:
  "case new_default of None \<Rightarrow> False | Some reg \<Rightarrow>
     (case resolve_profile reg ''light'' of Inl _ \<Rightarrow> False | Inr ids \<Rightarrow>
        ids \<noteq> [] \<and> needed_collectors ids (all_collectors M) = [] \<and> enrich (wire M reg' sensors) procs ids s = (procs, s))"
proof -
  obtain reg where reg: "new_default = Some reg" "reg_all reg = builtin_metrics" using new_default_ok by blast
  let ?ids = "sort (map d_id (filter (\<lambda>d. d_cost d = Cost0Light) builtin_metrics))"
  have light: "resolve_profile reg ''light'' = Inr ?ids" by (simp add: resolve_profile_def reg(2))
  have "i \<notin> set collected_ids" if "i \<in> set ?ids" for i
    using that light_metrics_not_collected by (auto simp: list_all_iff)
  then have none: "needed_collectors ?ids (all_collectors M) = []"
    using set_collected_ids [of M] by (fastforce simp: needed_collectors_def intersects_metrics_def filter_empty_conv list_ex_iff)
  have "run_collectors ?ids (all_collectors M) procs s = (procs, s)"
    using run_needed [of ?ids "all_collectors M" procs s] none by simp
  moreover have "''cpu'' \<in> set (map d_id (filter (\<lambda>d. d_cost d = Cost0Light) builtin_metrics))"
    by (simp add: builtin_metrics_def builtin_light_def)
  then have "''cpu'' \<in> set ?ids" by (simp only: set_sort)
  then have "?ids \<noteq> []" by (metis empty_iff empty_set)
  ultimately show ?thesis
    using none by (simp add: reg light enrich_def wire_def)
qed

section \<open>Collecting\<close>

lemma over_window_fst: "fst (over_window M window sleeps f s) = f (files M s) (files M (snd (over_window M window sleeps f s)))"
  by (simp add: over_window_def Let_def)

text \<open>Every collector of the program keeps the contract of the locale, on its own metrics.\<close>

lemma production_keeps:
  assumes "c \<in> set (all_collectors M)"
  shows "list_all2 (keeps_beside (mc_metrics c)) procs (fst (mc_collect c procs s))"
proof -
  have ebpf_part: "list_all2 (keeps_beside [''wakeups'']) procs (fst (ebpf_wakeups M procs s))"
    using ebpf.keeps [of procs] by (simp add: ebpf_wakeups_def Let_def case_prod_unfold)
  have perf_part: "list_all2 (keeps_beside perf_metrics) procs (fst (mc_collect (perf_collector M) procs s))"
    using perf.keeps [of procs] by (simp add: perf_collector_def case_prod_unfold)
  show ?thesis
    using assms fd.keeps [of procs] sock.keeps [of procs] gpu.keeps [of procs] procmem.keeps [of procs]
      schedstat.keeps [of procs] wakeups.keeps [of procs] thread_state.keeps [of procs] ebpf_part perf_part
    by (auto simp: collectors_simps over_window_fst case_prod_unfold)
qed

lemma list_all2_keeps_trans:
  "list_all2 (keeps_beside ids) ps qs \<Longrightarrow> list_all2 (keeps_beside ids') qs rs \<Longrightarrow>
    list_all2 (keeps_beside (ids @ ids')) ps rs"
proof (rule list_all2_trans [of "keeps_beside ids" "keeps_beside ids'" "keeps_beside (ids @ ids')"])
  fix p q r assume "keeps_beside ids p q" "keeps_beside ids' q r"
  then show "keeps_beside (ids @ ids') p r"
    using keeps_beside_trans [of "ids @ ids'" p q r] keeps_beside_mono [of ids p q "ids @ ids'"]
      keeps_beside_mono [of ids' q r "ids @ ids'"] by simp
qed

lemma run_collectors_keep:
  assumes "\<And>c procs s. c \<in> set cs \<Longrightarrow> list_all2 (keeps_beside (mc_metrics c)) procs (fst (mc_collect c procs s))"
  shows "list_all2 (keeps_beside (concat (map mc_metrics (needed_collectors needed cs)))) procs (fst (run_collectors needed cs procs s))"
  using assms
proof (induction cs arbitrary: procs s)
  case Nil
  then show ?case by (simp add: list_all2_conv_all_nth)
next
  case (Cons c cs)
  show ?case
  proof (cases "intersects_metrics (mc_metrics c) needed")
    case True
    obtain ps s' where c: "mc_collect c procs s = (ps, s')" by (rule prod.exhaust)
    have "list_all2 (keeps_beside (mc_metrics c)) procs ps" using Cons.prems [of c procs s] c by simp
    moreover have "list_all2 (keeps_beside (concat (map mc_metrics (needed_collectors needed cs)))) ps (fst (run_collectors needed cs ps s'))"
      using Cons by simp
    ultimately show ?thesis
      using True c by (simp add: needed_collectors_def list_all2_keeps_trans)
  next
    case False
    then show ?thesis using Cons.IH [of procs s] Cons.prems by (simp add: needed_collectors_def)
  qed
qed

text \<open>
  Enriching. The program's collectors, run for the metrics a query needs, return the same processes
  in the same order and change nothing of them but metrics of collectors the query needs.
\<close>

theorem enrich_changes_needed_metrics:
  "list_all2 (keeps_beside (concat (map mc_metrics (needed_collectors needed (all_collectors M)))))
     procs (fst (enrich (wire M reg sensors) procs needed s))"
  unfolding enrich_def using run_collectors_keep [of "all_collectors M", OF production_keeps] by (simp add: wire_def)

section \<open>Host metrics\<close>

lemma run_host_dom:
  "dom (fst (run_host_collectors needed hcs out w)) \<subseteq> dom out \<union> set needed"
proof (induction hcs arbitrary: out w)
  case (Cons hc hcs)
  show ?case
  proof (cases "intersects_metrics (hc_metrics hc) needed")
    case True
    obtain m w' where "hc_collect hc w = (m, w')" by (rule prod.exhaust)
    then show ?thesis using True Cons.IH [of "out ++ (m |` set needed)" w'] by auto
  qed (use Cons.IH [of out w] in simp)
qed simp

lemma union_step: "D \<subseteq> S \<Longrightarrow> A \<subseteq> B \<union> U \<Longrightarrow> B \<subseteq> O' \<union> D \<Longrightarrow> A \<subseteq> O' \<union> S \<union> U"
  by blast

lemma run_host_own:
  assumes "\<And>hc w. hc \<in> set hcs \<Longrightarrow> dom (fst (hc_collect hc w)) \<subseteq> set (hc_metrics hc)"
  shows "dom (fst (run_host_collectors needed hcs out w)) \<subseteq> dom out \<union> \<Union> (set ` set (map hc_metrics hcs))"
  using assms
proof (induction hcs arbitrary: out w)
  case (Cons hc hcs)
  show ?case
  proof (cases "intersects_metrics (hc_metrics hc) needed")
    case True
    obtain m w' where m: "hc_collect hc w = (m, w')" by (rule prod.exhaust)
    have "dom m \<subseteq> set (hc_metrics hc)" using Cons.prems [of hc w] m by simp
    moreover have "dom (fst (run_host_collectors needed hcs (out ++ (m |` set needed)) w')) \<subseteq>
        dom (out ++ (m |` set needed)) \<union> \<Union> (set ` set (map hc_metrics hcs))"
      using Cons by (intro Cons.IH) simp
    moreover have "dom (out ++ (m |` set needed)) \<subseteq> dom out \<union> dom m" by auto
    ultimately have "dom (fst (run_host_collectors needed hcs (out ++ (m |` set needed)) w')) \<subseteq>
        dom out \<union> set (hc_metrics hc) \<union> \<Union> (set ` set (map hc_metrics hcs))" by (intro union_step)
    then show ?thesis using True m by (simp add: Un_assoc)
  next
    case False
    have "dom (fst (run_host_collectors needed hcs out w)) \<subseteq> dom out \<union> \<Union> (set ` set (map hc_metrics hcs))"
      by (rule Cons.IH) (simp add: Cons.prems)
    then show ?thesis using False by auto
  qed
qed simp

lemma production_hosts:
  assumes "hc \<in> set (all_host_collectors M sensors)"
  shows "dom (fst (hc_collect hc s)) \<subseteq> set (hc_metrics hc)"
  using assms
  by (simp add: all_host_collectors_def, elim disjE)
    (simp_all add: cstate_collector_def power_collector_def psi_collector_def load_collector_def battery_collector_def
      temp_collector_def over_window_fst power_measure_def Let_def cstate.own power.own psi.own loadavg.own battery.own temps.own
      del: set_map)

text \<open>
  Host metrics. A reading of the host is there only if the query needs it and a collector of the
  program owns its id.
\<close>

theorem host_metrics_needed:
  "dom (fst (collect_host (wire M reg sensors) needed s)) \<subseteq>
     set needed \<inter> set (cstate_ids @ map snd power_domains @ psi_ids @ load_ids @ battery_ids @ temp_ids sensors)"
proof -
  have "\<And>hc s. hc \<in> set (all_host_collectors M sensors) \<Longrightarrow> dom (fst (hc_collect hc s)) \<subseteq> set (hc_metrics hc)"
    by (rule production_hosts)
  then have "dom (fst (collect_host (wire M reg sensors) needed s)) \<subseteq> \<Union> (set ` set (map hc_metrics (all_host_collectors M sensors)))"
    using run_host_own [of "all_host_collectors M sensors" needed Map.empty s] by (simp add: collect_host_def wire_def)
  moreover have "\<Union> (set ` set (map hc_metrics (all_host_collectors M sensors))) =
      set (cstate_ids @ map snd power_domains @ psi_ids @ load_ids @ battery_ids @ temp_ids sensors)"
    by (auto simp: all_host_collectors_def cstate_collector_def power_collector_def psi_collector_def load_collector_def
        battery_collector_def temp_collector_def)
  moreover have "dom (fst (collect_host (wire M reg sensors) needed s)) \<subseteq> set needed"
    using run_host_dom [of needed _ Map.empty s] by (simp add: collect_host_def)
  ultimately show ?thesis by blast
qed

section \<open>An instant sample\<close>

definition rate_ids :: "metric_id list" where
  "rate_ids = [''cpu'', ''cpu-user'', ''cpu-system'', ''cpu-normalized'', ''minor-faults'', ''major-faults'', ''ctxsw-voluntary'',
     ''ctxsw-involuntary'', ''disk-rbps'', ''disk-wbps'', ''io-rchar'', ''io-wchar'', ''read-syscalls'', ''write-syscalls'', ''blkio-delay'']"

lemma rate_ids_specs: "rate_specs i \<noteq> None \<longleftrightarrow> i \<in> set rate_ids"
  by (simp add: rate_specs_def rate_ids_def)

lemma rates_not_collected: "list_all (\<lambda>i. i \<notin> set collected_ids) rate_ids"
  by (simp add: rate_ids_def collected_ids_def collector_ids)

text \<open>The rates of the registry that no collector of the assembly measures in a window of its own.\<close>

definition unwindowed_rates :: "'w assembly \<Rightarrow> metric_id list" where
  "unwindowed_rates A = filter (\<lambda>i. i \<notin> set (concat (map mc_metrics (as_collectors A)))) (map d_id (filter is_rate builtin_metrics))"

lemma rates_are_no_gauges:
  "list_all (\<lambda>d. \<not> is_rate d \<or> d_id d \<in> set collected_ids \<or> Option.is_none (gauge_specs (d_id d))) builtin_metrics"
  by code_simp

lemma rate_ids_registered: "list_all (\<lambda>i. list_ex (\<lambda>d. is_rate d \<and> d_id d = i) builtin_metrics) rate_ids"
  by code_simp

lemma unwindowed_iff:
  "i \<in> set (unwindowed_rates (wire M reg sensors)) \<longleftrightarrow> i \<notin> set collected_ids \<and> (\<exists>d \<in> set builtin_metrics. is_rate d \<and> d_id d = i)"
  using set_collected_ids [of M] by (auto simp: unwindowed_rates_def wire_def)

lemma unwindowed_no_gauge: "i \<in> set (unwindowed_rates (wire M reg sensors)) \<Longrightarrow> gauge_specs i = None"
  using rates_are_no_gauges by (auto simp: unwindowed_iff list_all_iff Option.is_none_def)

lemma sampler_rates_unwindowed: "set rate_ids \<subseteq> set (unwindowed_rates (wire M reg sensors))"
  using rates_not_collected rate_ids_registered by (auto simp: unwindowed_iff list_all_iff list_ex_iff)

text \<open>What the sampler itself gives of a rate, in its first sample: nothing.\<close>

lemma first_sample_no_rate:
  assumes "sample new_sampler r want = (s', Inr snap)" and "p \<in> set (sn_processes snap)" and "gauge_specs i = None"
  shows "\<not> present (metric p i)"
proof (cases "rate_specs i")
  case None
  obtain st where "p = (build_process st None (elapsed_seconds new_sampler (sr_mono r))
        (sysctx_of r) want)\<lparr>p_threads := build_threads new_sampler st (elapsed_seconds new_sampler (sr_mono r)) (sysctx_of r) want\<rparr>"
    by (rule sample_processes [OF assms(1,2)]) (simp add: new_sampler_def)
  then show ?thesis using None assms(3) by (simp add: metric_build_process compute_metric_def)
next
  case (Some spec)
  then show ?thesis using first_sample_has_no_rates [OF assms(1,2)] by simp
qed

lemma user_step_metrics: "p_metrics (fst (user_step M p s)) = p_metrics p"
  by (simp add: user_step_def resolve_user_def Let_def split: option.split)

lemma unit_step_metrics: "p_metrics (fst (unit_step p s)) = p_metrics p"
  by (simp add: unit_step_def resolve_unit_def Let_def)

lemma resolved_metrics:
  "list_all2 (\<lambda>p q. p_metrics q = p_metrics p) ps (fst (apply_resolvers (wire M reg sensors) ps s))"
proof (induction ps arbitrary: s)
  case (Cons p ps)
  have one: "p_metrics (fst (resolve_with (as_resolvers (wire M reg sensors)) p t)) = p_metrics p" for t
  proof -
    obtain q t' where u: "user_step M p t = (q, t')" by (rule prod.exhaust)
    then have "p_metrics q = p_metrics p" using user_step_metrics [of M p t] by simp
    then show ?thesis using u unit_step_metrics [of q t'] by (simp add: wire_def case_prod_unfold)
  qed
  obtain q t where "resolve_with (as_resolvers (wire M reg sensors)) p s = (q, t)" by (rule prod.exhaust)
  then show ?case using Cons.IH [of t] one [of s] by (simp add: case_prod_unfold)
qed simp

lemma all2_right: "list_all2 R xs ys \<Longrightarrow> y \<in> set ys \<Longrightarrow> \<exists>x \<in> set xs. R x y"
  by (induction xs ys rule: list_all2_induct) auto

lemma observed_uncollected:
  assumes "i \<notin> set collected_ids" and "p \<in> set (in_processes (fst (observe (wire M reg sensors) needed sn s)))"
  obtains q where "q \<in> set (sn_processes sn)" and "metric p i = metric q i"
proof -
  obtain ps t where r: "apply_resolvers (wire M reg sensors) (sn_processes sn) s = (ps, t)" by (rule prod.exhaust)
  obtain qs u where e: "enrich (wire M reg sensors) ps needed t = (qs, u)" by (rule prod.exhaust)
  have "p \<in> set qs" using assms(2) by (simp add: observe_def r e case_prod_unfold)
  moreover have "list_all2 (keeps_beside (concat (map mc_metrics (needed_collectors needed (all_collectors M))))) ps qs"
    using enrich_changes_needed_metrics [of needed M ps reg sensors t] e by simp
  ultimately obtain p1 where p1: "p1 \<in> set ps" "keeps_beside (concat (map mc_metrics (needed_collectors needed (all_collectors M)))) p1 p"
    by (blast dest: all2_right)
  have "list_all2 (\<lambda>p q. p_metrics q = p_metrics p) (sn_processes sn) ps"
    using resolved_metrics [of "sn_processes sn" M reg sensors s] r by simp
  then obtain q where q: "q \<in> set (sn_processes sn)" "p_metrics p1 = p_metrics q"
    using p1(1) by (fastforce dest: all2_right)
  have "i \<notin> set (concat (map mc_metrics (needed_collectors needed (all_collectors M))))"
    using assms(1) set_collected_ids [of M] by (auto simp: needed_collectors_def)
  then have "metric p i = metric q i"
    using keeps_beside_metric [OF p1(2)] q(2) by (simp add: metric_def)
  then show ?thesis using q(1) that by blast
qed

text \<open>
  C27: Instant. A sample taken without the second reading gives no process a value for a rate that no
  collector measures, and all the rates of the sampler are such: nothing stands in for the difference
  that was not measured. The rates that collectors measure in a window of their own (the delay in the run
  queue, the use of the GPU, the wakeups) are not among them; an instant sample may have them.
\<close>

theorem instant_has_no_rates:
  "set rate_ids \<subseteq> set (unwindowed_rates (wire M reg sensors)) \<and>
   (case fst (sample_for_result (wire M reg sensors) r True s) of
     Inl _ \<Rightarrow> True
   | Inr inp \<Rightarrow> list_all (\<lambda>p. list_all (\<lambda>i. \<not> present (metric p i)) (unwindowed_rates (wire M reg sensors))) (in_processes inp))"
proof -
  let ?A = "wire M reg sensors"
  obtain reading t where read: "as_read ?A (as_configure ?A (configure_source r) s) = (reading, t)" by (rule prod.exhaust)
  obtain sm res where smp: "sample new_sampler reading (rv_needed r) = (sm, res)" by (rule prod.exhaust)
  show ?thesis
  proof (cases res)
    case (Inl e)
    then show ?thesis by (simp add: sampler_rates_unwindowed sample_for_result_def take_sample_def read smp)
  next
    case (Inr sn)
    have "\<not> present (metric p i)" if p: "p \<in> set (in_processes (fst (observe ?A (rv_needed r) sn t)))" and i: "i \<in> set (unwindowed_rates ?A)" for p i
    proof -
      have "i \<notin> set collected_ids" using i by (simp add: unwindowed_iff)
      then obtain q where "q \<in> set (sn_processes sn)" "metric p i = metric q i" using p by (rule observed_uncollected)
      then show ?thesis
        using first_sample_no_rate [of reading "rv_needed r" sm sn q i] smp Inr unwindowed_no_gauge [OF i] by simp
    qed
    then show ?thesis
      by (simp add: sampler_rates_unwindowed sample_for_result_def take_sample_def read smp Inr finish_sample_def case_prod_unfold list_all_iff)
  qed
qed

section \<open>Sensors in the registry\<close>

text \<open>
  Sensors. Registering what a host's sensors are called never changes a metric that was there: a
  sensor whose id is taken is left out.
\<close>

theorem sensors_keep_metrics:
  assumes "reg_wf reg" and "reg_get reg i = Some d"
  shows "reg_get (register_sensors reg sensors) i = Some d \<and> reg_wf (register_sensors reg sensors)"
proof -
  have step: "reg_wf (fst (register reg (temp_sensor_descriptor j desc))) \<and>
      reg_get (fst (register reg (temp_sensor_descriptor j desc))) i = reg_get reg i"
    if wf: "reg_wf reg" and known: "reg_get reg i \<noteq> None" for reg j desc
  proof -
    let ?d = "temp_sensor_descriptor j desc"
    have d: "d_id ?d = j" "d_aliases ?d = []" by (simp_all add: temp_sensor_descriptor_def host_gauge_def)
    show ?thesis
    proof (cases "must_register reg ?d")
      case None
      then have "fst (register reg ?d) = reg"
        using d by (auto simp: must_register_def register_def Let_def split: if_splits)
      then show ?thesis using wf by simp
    next
      case (Some reg')
      then have eq: "fst (register reg ?d) = reg'" by (auto simp: must_register_def split: prod.splits option.splits)
      have new: "by_id reg j = None" "by_alias reg j = None"
        using Some d by (auto simp: must_register_def register_def split: if_splits)
      obtain k where k: "by_alias reg i = Some k" using known by (auto simp: reg_get_def split: option.splits)
      then have "k \<in> dom (by_id reg)" using wf by (auto simp: reg_wf_def dest: ranI)
      then have "k \<noteq> j" "i \<noteq> j" using new k by auto
      then have "reg_get reg' i = reg_get reg i"
        using Some d k by (auto simp: must_register_def register_def Let_def reg_get_def by_id_or_zero_def split: if_splits)
      then show ?thesis using must_register_wf [OF wf Some] eq by simp
    qed
  qed
  have "reg_wf reg \<Longrightarrow> reg_get reg i = Some d \<Longrightarrow> reg_get (register_sensors reg sensors) i = Some d \<and> reg_wf (register_sensors reg sensors)" for reg
    unfolding register_sensors_def
  proof (induction sensors arbitrary: reg)
    case (Cons s ss)
    then show ?case using step [of reg "tm_id s" "sensor_description s"] by simp
  qed simp
  with assms show ?thesis by blast
qed

theorem sensors_keep_metrics_witness:
  "case reg_get (register_sensors alias_registry [\<lparr>tm_id = ''disk-rbps'', tm_chip = ''c'', tm_label = [], tm_path = []\<rparr>]) ''disk-rbps'' of
     None \<Rightarrow> False | Some d \<Rightarrow> d_unit d = UnitBytesPerSec"
proof -
  have wf: "reg_wf alias_registry"
    by (auto simp: alias_registry_def register_def new_registry_def reg_wf_def ran_def)
  have "\<exists>d. reg_get alias_registry ''disk-rbps'' = Some d \<and> d_unit d = UnitBytesPerSec"
    by (simp add: alias_registry_def register_def new_registry_def reg_get_def by_id_or_zero_def)
  then obtain d where "reg_get alias_registry ''disk-rbps'' = Some d" "d_unit d = UnitBytesPerSec" by blast
  with sensors_keep_metrics [OF wf this(1), of "[\<lparr>tm_id = ''disk-rbps'', tm_chip = ''c'', tm_label = [], tm_path = []\<rparr>]"]
  show ?thesis by simp
qed

end
