(* ===== verification/App_Stream.thy ===== *)
theory App_Stream
  imports App_Assembly_Correct
begin

text \<open>
  The commands that sample: how a stream of \<open>stat\<close> ends and what it prints once, and which files a
  sample reads only when the query uses what is in them.
\<close>

section \<open>Streams\<close>

lemma stream_round_ending: "stream_round A r cols meta s w = (Inl e, w') \<Longrightarrow> e \<noteq> Exited exit_ok"
  by (auto simp: stream_round_def exit_codes exit_interrupted_def split: prod.splits sum.splits option.splits if_splits)

lemma stream_loop_batches:
  "0 \<le> emitted \<Longrightarrow> emitted < batches \<Longrightarrow> nat (batches - emitted) \<le> fuel \<Longrightarrow>
    case stream_loop fuel A r cols interval batches emitted meta s w of (chunks, e, w') \<Rightarrow>
      e \<noteq> None \<and> int (length chunks) \<le> batches - emitted \<and>
      (e = Some (Exited exit_ok) \<longleftrightarrow> int (length chunks) = batches - emitted)"
proof (induction fuel arbitrary: emitted meta s w)
  case (Suc n)
  obtain res w1 where r: "stream_round A r cols meta s w = (res, w1)" by (rule prod.exhaust)
  show ?case
  proof (cases res)
    case (Inl e)
    then show ?thesis using r stream_round_ending [of A r cols meta s w e w1] Suc.prems by simp
  next
    case (Inr next_round)
    obtain chunk meta1 s1 where n: "next_round = (chunk, meta1, s1)" by (rule prod_cases3)
    show ?thesis
    proof (cases "emitted + 1 \<ge> batches")
      case True
      then show ?thesis using r Inr n Suc.prems by simp
    next
      case False
      obtain stop w2 where w: "as_wait A interval w1 = (stop, w2)" by (rule prod.exhaust)
      obtain chunks e w3 where l: "stream_loop n A r cols interval batches (emitted + 1) meta1 s1 w2 = (chunks, e, w3)"
        by (rule prod_cases3)
      have "e \<noteq> None \<and> int (length chunks) \<le> batches - (emitted + 1) \<and>
          (e = Some (Exited exit_ok) \<longleftrightarrow> int (length chunks) = batches - (emitted + 1))"
        using Suc.IH [of "emitted + 1" meta1 s1 w2] Suc.prems False l by simp
      then show ?thesis using r Inr n w l False Suc.prems
        by (cases stop) (auto simp: exit_ok_def exit_interrupted_def)
    qed
  qed
qed simp

text \<open>
  C31: A counted stream ends. Asked for a number of batches, \<open>stat\<close> ends after at most as many rounds,
  whatever the world does, and exits successfully exactly when it has printed all of them.
\<close>

theorem stat_emits_batches:
  "case stream_loop (nat batches) A r cols interval batches 0 meta s w of (chunks, e, w') \<Rightarrow>
     if 0 < batches then e \<noteq> None \<and> int (length chunks) \<le> batches \<and>
       (e = Some (Exited exit_ok) \<longleftrightarrow> int (length chunks) = batches)
     else chunks = []"
  using stream_loop_batches [of 0 batches "nat batches" A r cols interval meta s w]
  by (cases "0 < batches") (simp_all split: prod.splits)

text \<open>Without a count a stream never exits successfully.\<close>

lemma uncounted_stream:
  "batches \<le> 0 \<Longrightarrow> fst (snd (stream_loop fuel A r cols interval batches emitted meta s w)) \<noteq> Some (Exited exit_ok)"
proof (induction fuel arbitrary: emitted meta s w)
  case (Suc n)
  show ?case
    using Suc stream_round_ending [of A r cols meta s w]
    by (auto simp: exit_ok_def exit_interrupted_def split: prod.splits sum.splits bool.splits) (metis fst_conv snd_conv)+
qed simp

section \<open>The one metadata record\<close>

fun is_meta :: "ndjson_record \<Rightarrow> bool" where
  "is_meta (MetaRecord t) = True"
| "is_meta (RowRecord r) = False"

fun chunk_records :: "rendered \<Rightarrow> ndjson_record list" where
  "chunk_records (JsonLines rs) = rs"
| "chunk_records _ = []"

lemma rows_no_meta: "list_all (\<lambda>x. \<not> is_meta x) (ndjson_rows reg ts gen depth r)"
  by (induction reg ts gen depth r rule: ndjson_rows.induct) (auto simp: list_all_iff)

lemma ndjson_round:
  assumes "rv_format r = ''ndjson''" and "stream_round A r cols meta s w = (Inr (chunk, meta', s'), w')"
  shows "meta' \<and> (if meta then list_all (\<lambda>x. \<not> is_meta x) (chunk_records chunk)
    else \<exists>t rest. chunk_records chunk = MetaRecord t # rest \<and> list_all (\<lambda>x. \<not> is_meta x) rest)"
  using assms rows_no_meta
  by (auto simp: stream_round_def stream_emit_def write_result_def Let_def list_all_iff split: prod.splits sum.splits if_splits)

lemma ndjson_later:
  "rv_format r = ''ndjson'' \<Longrightarrow>
    list_all (\<lambda>x. \<not> is_meta x) (concat (map chunk_records (fst (stream_loop fuel A r cols interval batches emitted True s w))))"
proof (induction fuel arbitrary: emitted s w)
  case (Suc n)
  obtain res w1 where r: "stream_round A r cols True s w = (res, w1)" by (rule prod.exhaust)
  show ?case
  proof (cases res)
    case (Inr next_round)
    obtain chunk meta1 s1 where n: "next_round = (chunk, meta1, s1)" by (rule prod_cases3)
    have *: "meta1" "list_all (\<lambda>x. \<not> is_meta x) (chunk_records chunk)"
      using ndjson_round [OF Suc.prems, of A cols True s w chunk meta1 s1 w1] r Inr n by simp_all
    obtain stop w2 where w: "as_wait A interval w1 = (stop, w2)" by (rule prod.exhaust)
    obtain chunks e w3 where l: "stream_loop n A r cols interval batches (emitted + 1) True s1 w2 = (chunks, e, w3)"
      by (rule prod_cases3)
    have "list_all (\<lambda>x. \<not> is_meta x) (concat (map chunk_records chunks))"
      using Suc.IH [OF Suc.prems, of "emitted + 1" s1 w2] l by simp
    then show ?thesis using r Inr n * w l by (cases stop) auto
  qed (simp add: r)
qed simp

text \<open>
  Machine streams. However many batches an NDJSON stream prints, its first record is the metadata
  record and no other record is one.
\<close>

theorem ndjson_stream_meta_once:
  "case stream_loop fuel A (r\<lparr>rv_format := ''ndjson''\<rparr>) cols interval batches 0 False new_sampler w of (chunks, e, w') \<Rightarrow>
     (case chunks of [] \<Rightarrow> True
      | first # later \<Rightarrow>
          (case chunk_records first of [] \<Rightarrow> False | m # rest \<Rightarrow>
             is_meta m \<and> list_all (\<lambda>x. \<not> is_meta x) (rest @ concat (map chunk_records later))))"
proof (cases fuel)
  case (Suc n)
  let ?r = "r\<lparr>rv_format := ''ndjson''\<rparr>"
  have fmt: "rv_format ?r = ''ndjson''" by simp
  obtain res w1 where rd: "stream_round A ?r cols False new_sampler w = (res, w1)" by (rule prod.exhaust)
  show ?thesis
  proof (cases res)
    case (Inr next_round)
    obtain chunk meta1 s1 where n: "next_round = (chunk, meta1, s1)" by (rule prod_cases3)
    obtain t rest where *: "meta1" "chunk_records chunk = MetaRecord t # rest" "list_all (\<lambda>x. \<not> is_meta x) rest"
      using ndjson_round [OF fmt, of A cols False new_sampler w chunk meta1 s1 w1] rd Inr n by auto
    obtain stop w2 where w: "as_wait A interval w1 = (stop, w2)" by (rule prod.exhaust)
    obtain chunks e w3 where l: "stream_loop n A ?r cols interval batches 1 True s1 w2 = (chunks, e, w3)" by (rule prod_cases3)
    have "list_all (\<lambda>x. \<not> is_meta x) (concat (map chunk_records chunks))"
      using ndjson_later [OF fmt, of n A cols interval batches 1 s1 w2] l by simp
    then show ?thesis using Suc rd Inr n * w l by (cases stop) auto
  qed (simp add: Suc rd)
qed simp

section \<open>Optional files\<close>

text \<open>
  The files of a machine without the environments of processes, unless the host name is used;
  without the kernel functions they sleep in, unless those are used; and without their tasks,
  unless the leaves are threads.
\<close>

definition hidden_files :: "resolved \<Rightarrow> file_tree \<Rightarrow> file_tree" where
  "hidden_files r fs = fs
     \<lparr>ft_read := (\<lambda>p. if (\<not> uses_field r ''hostname'' \<and> has_suffix p ''/environ'') \<or> (\<not> uses_field r ''wchan'' \<and> has_suffix p ''/wchan'')
        then Inl NoPermission else ft_read fs p),
      ft_dir := (\<lambda>p. if q_leaf (rv_spec r) \<noteq> LeafThread \<and> has_suffix p ''/task'' then Inl NoPermission else ft_dir fs p)\<rparr>"

lemma other_files:
  "\<not> has_suffix (path_join dir ''stat'') ''/environ''" "\<not> has_suffix (path_join dir ''stat'') ''/wchan''"
  "\<not> has_suffix (path_join dir ''status'') ''/environ''" "\<not> has_suffix (path_join dir ''status'') ''/wchan''"
  "\<not> has_suffix (path_join dir ''io'') ''/environ''" "\<not> has_suffix (path_join dir ''io'') ''/wchan''"
  "\<not> has_suffix (path_join dir ''cmdline'') ''/environ''" "\<not> has_suffix (path_join dir ''cmdline'') ''/wchan''"
  "\<not> has_suffix (path_join dir ''cgroup'') ''/environ''" "\<not> has_suffix (path_join dir ''cgroup'') ''/wchan''"
  "\<not> has_suffix (path_join dir ''wchan'') ''/environ''" "\<not> has_suffix (path_join dir ''environ'') ''/wchan''"
  by (simp_all add: has_suffix_def path_join_def)

lemma hidden_reads [simp]:
  "ft_link (hidden_files r fs) = ft_link fs"
  "ft_read (hidden_files r fs) (path_join dir ''stat'') = ft_read fs (path_join dir ''stat'')"
  "ft_read (hidden_files r fs) (path_join dir ''status'') = ft_read fs (path_join dir ''status'')"
  "ft_read (hidden_files r fs) (path_join dir ''io'') = ft_read fs (path_join dir ''io'')"
  "ft_read (hidden_files r fs) (path_join dir ''cmdline'') = ft_read fs (path_join dir ''cmdline'')"
  "ft_read (hidden_files r fs) (path_join dir ''cgroup'') = ft_read fs (path_join dir ''cgroup'')"
  "uses_field r ''wchan'' \<Longrightarrow> ft_read (hidden_files r fs) (path_join dir ''wchan'') = ft_read fs (path_join dir ''wchan'')"
  "uses_field r ''hostname'' \<Longrightarrow> ft_read (hidden_files r fs) (path_join dir ''environ'') = ft_read fs (path_join dir ''environ'')"
  "q_leaf (rv_spec r) = LeafThread \<Longrightarrow> ft_dir (hidden_files r fs) = ft_dir fs"
  by (simp_all add: hidden_files_def other_files)

lemma hidden_readers:
  "read_namespaces (hidden_files r fs) dir = read_namespaces fs dir"
  "fill_status (hidden_files r fs) dir st = fill_status fs dir st"
  "fill_io (hidden_files r fs) dir st = fill_io fs dir st"
  "read_cmdline (hidden_files r fs) dir = read_cmdline fs dir"
  "read_link_avail (hidden_files r fs) path = read_link_avail fs path"
  "uses_field r ''hostname'' \<Longrightarrow> read_hostname_for (hidden_files r fs) s dir i = read_hostname_for fs s dir i"
  by (simp_all add: read_namespaces_def fill_status_def fill_io_def read_cmdline_def read_link_avail_def fun_eq_iff
      read_hostname_for_def resolve_hostname_def Let_def split: option.split)

lemma hidden_threads:
  "q_leaf (rv_spec r) = LeafThread \<Longrightarrow> read_threads (hidden_files r fs) dir = read_threads fs dir"
proof -
  have "read_thread (hidden_files r fs) dir = read_thread fs dir" by (simp add: read_thread_def fun_eq_iff)
  moreover assume "q_leaf (rv_spec r) = LeafThread"
  ultimately show ?thesis by (simp add: read_threads_def split: sum.split)
qed

text \<open>The options of a source as the query sets them.\<close>

definition options_of :: "resolved \<Rightarrow> proc_source \<Rightarrow> bool" where
  "options_of r s \<longleftrightarrow> (so_enum_thread s \<longrightarrow> q_leaf (rv_spec r) = LeafThread) \<and> (so_read_wchan s \<longrightarrow> uses_field r ''wchan'') \<and>
     (so_read_hostname s \<longrightarrow> uses_field r ''hostname'')"

lemma hostname_keeps_options: "so_enum_thread (snd (read_hostname_for fs s dir i)) = so_enum_thread s"
  by (simp add: read_hostname_for_def Let_def split: option.split)

lemma hidden_process:
  assumes "options_of r s"
  shows "read_process (hidden_files r fs) s pid = read_process fs s pid"
proof (cases "ft_read fs (path_join (path_join (so_root s) (itoa pid)) ''stat'')")
  case (Inr data)
  have opts: "so_enum_thread s \<Longrightarrow> q_leaf (rv_spec r) = LeafThread" "so_read_wchan s \<Longrightarrow> uses_field r ''wchan''"
      "so_read_hostname s \<Longrightarrow> uses_field r ''hostname''"
    using assms by (auto simp: options_of_def)
  show ?thesis
    by (cases "parse_stat data"; cases "so_enum_thread s"; cases "so_read_wchan s"; cases "so_read_hostname s")
      (simp_all add: read_process_def Inr hidden_readers hidden_threads opts Let_def case_prod_unfold hostname_keeps_options)
qed (simp add: read_process_def Let_def)

lemma read_process_options:
  "options_of r s \<Longrightarrow> options_of r (snd (read_process fs s pid))"
proof -
  assume opts: "options_of r s"
  have host: "options_of r (snd (read_hostname_for fs s dir i))" for dir i
    using opts by (auto simp: options_of_def read_hostname_for_def Let_def split: option.split)
  show ?thesis
  proof (cases "ft_read fs (path_join (path_join (so_root s) (itoa pid)) ''stat'')")
    case (Inr data)
    show ?thesis
      by (cases "parse_stat data"; cases "so_read_hostname s") (simp_all add: read_process_def Inr Let_def opts host case_prod_unfold)
  qed (simp add: read_process_def Let_def opts)
qed

lemma hidden_each:
  "options_of r s \<Longrightarrow> read_each (hidden_files r fs) names s = read_each fs names s"
proof (induction names arbitrary: s)
  case (Cons name names)
  show ?case
  proof (cases "numeric_name name")
    case (Some pid)
    obtain st s' where p: "read_process fs s pid = (st, s')" by (rule prod.exhaust)
    then have "options_of r s'" using read_process_options [OF Cons.prems, of fs pid] by simp
    then show ?thesis using Some p Cons by (simp add: hidden_process)
  qed (use Cons in simp)
qed simp

lemma rotate_options: "options_of r s \<Longrightarrow> options_of r (rotate_host_cache s)"
  by (simp add: options_of_def rotate_host_cache_def)

text \<open>
  Reading what is used. A sample of the production assembly is the same when the environments of the
  processes cannot be read and the query does not use the host name, when the functions they sleep
  in cannot be read and the query does not use those, and when their tasks cannot be listed and the
  leaves are not threads: such files are never looked at.
\<close>

theorem unused_files_not_read:
  "(let ob = set_options (configure_source r) (s\<lparr>ob_source := (ob_source s)\<lparr>so_root := ''/proc''\<rparr>\<rparr>) in
    read_source (M\<lparr>mn_tree := (\<lambda>w. hidden_files r (mn_tree M w))\<rparr>) ob = read_source M ob)"
proof -
  let ?ob = "set_options (configure_source r) (s\<lparr>ob_source := (ob_source s)\<lparr>so_root := ''/proc''\<rparr>\<rparr>)"
  let ?src = "ob_source ?ob"
  have opts: "options_of r ?src" by (simp add: options_of_def set_options_def configure_source_def)
  have root: "so_root (rotate_host_cache ?src) = ''/proc''" "so_root ?src = ''/proc''"
    by (simp_all add: set_options_def rotate_host_cache_def)
  have dir: "ft_dir (hidden_files r fs) ''/proc'' = ft_dir fs ''/proc''" for fs
    by (simp add: hidden_files_def has_suffix_def)
  have "list_processes (hidden_files r fs) ?src = list_processes fs ?src" for fs
    using opts rotate_options [OF opts]
    by (cases "ft_dir fs ''/proc''"; cases "so_read_hostname ?src") (simp_all add: list_processes_def Let_def root dir hidden_each)
  then show ?thesis by (simp add: read_source_def files_def Let_def split: prod.split sum.split)
qed

end
