(* ===== verification/App_Tui.thy ===== *)
theory App_Tui
  imports App_Machine Tui_Update
begin

text \<open>
  The driver of the explorer, \<open>internal/app/tui.go\<close>: what the terminal program of \<open>tui\<close> is given. The two
  data sources sample through one assembly, each with a sampler of its own; control and drop load the state, act
  through the manager and save. The texts of errors of other packages are parameters.
\<close>

section \<open>The catalog of fields (\<open>filterOperators\<close>, \<open>addableColumns\<close>)\<close>

definition num_filter_ops :: "string list" where
  "num_filter_ops = [''=='', ''!='', ''>'', ''<'', ''>='', ''<='', ''in'']"

definition str_filter_ops :: "string list" where
  "str_filter_ops = [''=='', ''!='', ''~='', ''contains'', ''in'']"

definition is_numeric_field :: "registry \<Rightarrow> string \<Rightarrow> bool" where
  "is_numeric_field reg field \<longleftrightarrow> reg_get reg field \<noteq> None \<or>
     field \<in> set [''pid'', ''tid'', ''ppid'', ''pgid'', ''sid'', ''session'', ''process-group'', ''uid'', ''gid'', ''nice'', ''procs'',
       ''threads'', ''children'', ''leaves'', ''pidns'', ''netns'', ''mntns'', ''userns'', ''cgroupns'']"

definition filter_operators :: "registry \<Rightarrow> string \<Rightarrow> string list" where
  "filter_operators reg field = (if is_numeric_field reg field then num_filter_ops else str_filter_ops)"

definition addable_columns :: "registry \<Rightarrow> column_choice list" where
  "addable_columns reg =
     sort_key cc_id (map (\<lambda>d. \<lparr>cc_id = d_id d, cc_desc = d_desc d, cc_system = (d_scope d = ScopeHost)\<rparr>) (reg_all reg) @
       map (\<lambda>c. \<lparr>cc_id = co_id c, cc_desc = co_desc c, cc_system = False\<rparr>) structural_columns)"

text \<open>The system panel; a value that has no text (a panic of its formatting) shows nothing.\<close>

definition tui_host_panel :: "'w assembly \<Rightarrow> query_result \<Rightarrow> string list" where
  "tui_host_panel A res =
     (let sy = as_style A (res_wall_time res); hm = res_host_metrics res in
      if filter (\<lambda>i. hm i \<noteq> None) (sy_ids sy) = [] then []
      else (case host_matrix (sy_quote sy) (sy_ids sy) (e_reg (as_engine A)) hm True of None \<Rightarrow> [] | Some lines \<Rightarrow> lines))"

section \<open>The driver\<close>

text \<open>An assembly, the control plane, the history of a pid, and the texts of the errors of other packages.\<close>

record 'w driver =
  dr_assembly :: "'w assembly"
  dr_cli :: "'w cli"
  dr_history :: "int \<Rightarrow> history_entry list"
  dr_spec_text :: "spec_error \<Rightarrow> string"
  dr_group_text :: "group_error \<Rightarrow> string"
  dr_column_text :: "string \<Rightarrow> string"
  dr_quote :: "string \<Rightarrow> string"

text \<open>The world, the audit log, and the samplers of the two data sources.\<close>

record 'w desk =
  dk_world :: 'w
  dk_log :: "event list"
  dk_sampler :: sampler
  dk_managed :: sampler

definition shown_result ::
  "'w driver \<Rightarrow> resolved \<Rightarrow> query_result \<Rightarrow> (string, query_result \<times> column list) result" where
  "shown_result X r res =
     (let reg = e_reg (as_engine (dr_assembly X)) in
      case resolve_columns reg (process_columns reg (rv_columns r)) (rv_human r) of
        Inl e \<Rightarrow> Inl (dr_column_text X e)
      | Inr cols \<Rightarrow> Inr (res, cols))"

definition tui_refresh :: "'w driver \<Rightarrow> 'w desk refresh" where
  "tui_refresh X f d =
     (let A = dr_assembly X in
      case resolve_query A f of
        Inl e \<Rightarrow> (Inl (dr_spec_text X e), d)
      | Inr r \<Rightarrow>
          (case take_sample A (rv_needed r) (dk_sampler d) (as_configure A (configure_source r) (dk_world d)) of
             ((s, Inl e), w) \<Rightarrow> (Inl e, d\<lparr>dk_world := w, dk_sampler := s\<rparr>)
           | ((s, Inr sn), w) \<Rightarrow>
               (case observe A (rv_needed r) sn w of (inp, w) \<Rightarrow>
                let d = d\<lparr>dk_world := w, dk_sampler := s\<rparr> in
                case build_query (as_engine A) inp (rv_spec r) of
                  Inl e \<Rightarrow> (Inl (dr_group_text X e), d)
                | Inr res \<Rightarrow> (shown_result X r res, d))))"

section \<open>The managed panel (\<open>tuiManagedTree\<close>)\<close>

text \<open>A binding learns the name of the process it is bound to while that runs.\<close>

definition backfill_binding :: "(int \<rightharpoonup> process) \<Rightarrow> binding \<Rightarrow> binding" where
  "backfill_binding live b =
     (case live (b_pid b) of
        None \<Rightarrow> b
      | Some p \<Rightarrow>
          if same_process (b_id b) (p_id p) \<and> display_name p \<noteq> [] \<and> display_name p \<noteq> b_name b
          then b\<lparr>b_name := display_name p\<rparr> else b)"

definition backfill :: "process list \<Rightarrow> control_state \<Rightarrow> control_state" where
  "backfill procs st =
     (let live = map_of (rev (map (\<lambda>p. (p_pid p, p)) procs)) in
      st\<lparr>st_targets := map (\<lambda>t. t\<lparr>t_bindings := map (backfill_binding live) (t_bindings t)\<rparr>) (st_targets st)\<rparr>)"

text \<open>All bindings of a state in order; of two bindings of one pid the later counts.\<close>

definition all_bindings :: "control_state \<Rightarrow> binding list" where
  "all_bindings st = concat (map t_bindings (st_targets st))"

definition wanted :: "control_state \<Rightarrow> int \<rightharpoonup> process_id" where
  "wanted st = map_of (rev (map (\<lambda>b. (b_pid b, b_id b)) (all_bindings st)))"

definition bound_name :: "control_state \<Rightarrow> int \<Rightarrow> string" where
  "bound_name st pid = (case map_of (rev (map (\<lambda>b. (b_pid b, b_name b)) (all_bindings st))) pid of None \<Rightarrow> [] | Some n \<Rightarrow> n)"

text \<open>
  \<open>managedPIDs\<close>: the state with the names filled in, saved if one changed. A control plane that
  does not open manages nothing, and a failed save is ignored.
\<close>

definition managed_state :: "'w cli \<Rightarrow> process list \<Rightarrow> 'w \<Rightarrow> control_state option \<times> 'w" where
  "managed_state C procs w =
     (case cl_open C w of
        Inl e \<Rightarrow> (None, w)
      | Inr (m, w) \<Rightarrow>
          let st = backfill procs (mg_state m)
          in (Some st, if st_targets st \<noteq> st_targets (mg_state m) then fst (cl_save C w st) else w))"

definition managed_pids :: "control_state \<Rightarrow> int list" where
  "managed_pids st = remdups (map b_pid (all_bindings st))"

definition managed_live :: "control_state \<Rightarrow> process list \<Rightarrow> process list" where
  "managed_live st procs =
     filter (\<lambda>p. case wanted st (p_pid p) of None \<Rightarrow> False | Some i \<Rightarrow> same_process i (p_id p)) procs"

definition orphan_row :: "control_state \<Rightarrow> int \<Rightarrow> row" where
  "orphan_row st pid =
     Row \<lparr>r_kind = RowProcess, r_dimension_id = [], r_key = ''orphan:'' @ show_int pid,
          r_label = (if bound_name st pid = [] then ''pid:'' @ show_int pid else bound_name st pid),
          r_children = 0, r_procs = 1, r_threads = 0, r_leaves = 1, r_metrics = Map.empty,
          r_process = Some (zero_process\<lparr>p_pid := pid, p_comm := bound_name st pid\<rparr>), r_thread = None\<rparr> []"

text \<open>The rows are ordered by label; the code leaves rows with equal labels in any order, here that of the bindings.\<close>

definition orphan_group :: "control_state \<Rightarrow> process list \<Rightarrow> row option" where
  "orphan_group st live =
     (let sub = map (orphan_row st) (filter (\<lambda>pid. pid \<notin> p_pid ` set live) (managed_pids st)) in
      if sub = [] then None
      else Some (Row \<lparr>r_kind = RowGroup, r_dimension_id = [], r_key = ''orphans'', r_label = ''orphans'',
        r_children = int (length sub), r_procs = 0, r_threads = 0, r_leaves = int (length sub), r_metrics = Map.empty,
        r_process = None, r_thread = None\<rparr> (sort_key (\<lambda>r. r_label (row_data r)) sub)))"

definition with_orphans :: "row option \<Rightarrow> query_result \<Rightarrow> query_result" where
  "with_orphans g res = (case g of None \<Rightarrow> res | Some r \<Rightarrow> res\<lparr>res_rows := res_rows res @ [r]\<rparr>)"

text \<open>What the panel is built from: a state (none when the control plane does not open) and a snapshot.\<close>

definition no_state :: control_state where
  "no_state = \<lparr>st_schema_version = 0, st_boot_id = [], st_owner_uid = 0, st_generation = 0, st_updated_at = 0, st_targets = []\<rparr>"

text \<open>One sample of the panel: the snapshot, its processes resolved and enriched, the state and the host's readings.\<close>

definition managed_sample ::
  "'w driver \<Rightarrow> resolved \<Rightarrow> 'w desk \<Rightarrow>
    (string, snapshot \<times> process list \<times> control_state \<times> (metric_id \<rightharpoonup> metric_value)) result \<times> 'w desk" where
  "managed_sample X r d =
     (let A = dr_assembly X in
      case take_sample A (rv_needed r) (dk_managed d) (as_configure A (configure_source r) (dk_world d)) of
        ((s, Inl e), w) \<Rightarrow> (Inl e, d\<lparr>dk_world := w, dk_managed := s\<rparr>)
      | ((s, Inr sn), w) \<Rightarrow>
          (case apply_resolvers A (sn_processes sn) w of (procs, w) \<Rightarrow>
           case enrich A procs (rv_needed r) w of (procs, w) \<Rightarrow>
           case managed_state (dr_cli X) procs w of (st, w) \<Rightarrow>
           case collect_host A (rv_needed r) w of (host, w) \<Rightarrow>
             (Inr (sn, procs, (case st of None \<Rightarrow> no_state | Some st \<Rightarrow> st), host), d\<lparr>dk_world := w, dk_managed := s\<rparr>)))"

definition managed_tree :: "'w driver \<Rightarrow> 'w desk refresh" where
  "managed_tree X f d =
     (let A = dr_assembly X in
      case resolve_query A f of
        Inl e \<Rightarrow> (Inl (dr_spec_text X e), d)
      | Inr r \<Rightarrow>
          (case managed_sample X r d of
             (Inl e, d) \<Rightarrow> (Inl e, d)
           | (Inr (sn, procs, st, host), d) \<Rightarrow>
               let live = managed_live st procs in
               (case build_query (as_engine A)
                    \<lparr>in_generation = sn_generation sn, in_wall_time = sn_wall_time sn, in_elapsed = sn_elapsed sn,
                     in_processes = live, in_host_metrics = host\<rparr> (rv_spec r) of
                  Inl e \<Rightarrow> (Inl (dr_group_text X e), d)
                | Inr res \<Rightarrow> (shown_result X r (with_orphans (orphan_group st live) res), d))))"

section \<open>Names of targets\<close>

text \<open>The width of the first rune of a UTF-8 text, 0 when its first byte starts none.\<close>

definition cont_byte :: "char \<Rightarrow> bool" where
  "cont_byte c \<longleftrightarrow> 128 \<le> (of_char c :: nat) \<and> (of_char c :: nat) < 192"

fun rune_width :: "string \<Rightarrow> nat" where
  "rune_width [] = 0"
| "rune_width (c # cs) =
     (let b = (of_char c :: nat);
          lo = (if b = 224 then 160 else if b = 240 then 144 else 128);
          hi = (if b = 237 then 159 else if b = 244 then 143 else 191);
          n = (if b < 128 then 1 else if 194 \<le> b \<and> b < 224 then 2 else if 224 \<le> b \<and> b < 240 then 3
               else if 240 \<le> b \<and> b < 245 then 4 else 0)
      in if n \<le> 1 then n
         else (case cs of [] \<Rightarrow> 0
           | c1 # rest \<Rightarrow>
               if lo \<le> (of_char c1 :: nat) \<and> (of_char c1 :: nat) \<le> hi \<and> length rest \<ge> n - 2 \<and> list_all cont_byte (take (n - 2) rest)
               then n else 0))"

definition replacement_rune :: string where
  "replacement_rune = [CHR 0xEF, CHR 0xBF, CHR 0xBD]"

function (sequential) clean_runes :: "string \<Rightarrow> string" where
  "clean_runes [] = []"
| "clean_runes (c # cs) =
     (if rune_width (c # cs) = 0 then replacement_rune @ clean_runes cs
      else if c = CHR '' '' \<or> c = CHR 0x09 \<or> c = CHR ''/'' then CHR ''_'' # clean_runes cs
      else if (of_char c :: nat) < 32 then clean_runes cs
      else take (rune_width (c # cs)) (c # cs) @ clean_runes (drop (rune_width (c # cs) - 1) cs))"
  by pat_completeness auto
termination
  by (relation "measure length") simp_all

definition sanitize_name :: "string \<Rightarrow> string" where
  "sanitize_name s =
     (let s = take 24 (clean_runes (trim_space s)) in if s = [] then ''target'' else s)"

definition tui_target_name :: "gate_request \<Rightarrow> string" where
  "tui_target_name req =
     (case tr_pids req of
        [pid] \<Rightarrow> sanitize_name (tr_label req) @ ''#'' @ show_int pid
      | _ \<Rightarrow> ''tui:'' @ sanitize_name (tr_label req))"

section \<open>Previews and results\<close>

definition all_statuses :: "field_status list" where
  "all_statuses = [StUnset, StApplied, StUnchanged, StDrifted, StRestored, StUnavailable, StVanished, StStale, StDenied,
     StFailed, StSkipped]"

definition summarize_result :: "apply_result option \<Rightarrow> string" where
  "summarize_result res =
     (case res of
        None \<Rightarrow> ''no matching instances''
      | Some res \<Rightarrow>
          (case ar_results res of
             [] \<Rightarrow> ''no matching instances''
           | [r] \<Rightarrow> ''pid '' @ show_int (br_pid r) @ '': '' @ status_name (br_status r) @
               (if br_error r \<noteq> [] then '' ('' @ br_error r @ '')'' else [])
           | rs \<Rightarrow> show_int (int (length rs)) @ '' procs: '' @
               join '' '' (sort (map (\<lambda>s. status_name s @ ''='' @ show_int (ar_counts res s))
                 (filter (\<lambda>s. ar_counts res s > 0) all_statuses)))))"

definition forecast_status :: "field_status \<Rightarrow> string" where
  "forecast_status s = (if s = StUnchanged then ''would apply'' else status_name s)"

definition nice_line :: "'w controller \<Rightarrow> 'w \<Rightarrow> int \<Rightarrow> binding_result \<Rightarrow> string" where
  "nice_line ct w desired r =
     newline @ ''  pid '' @ show_int (br_pid r) @ '': '' @
     (case ct_get_nice ct w (br_pid r) of Inl _ \<Rightarrow> ''?'' | Inr n \<Rightarrow> show_int n) @ arrow_right @ show_int desired @ ''  '' @
     forecast_status (br_status r)"

definition nice_forecast :: "'w controller \<Rightarrow> 'w \<Rightarrow> int \<Rightarrow> apply_result \<Rightarrow> string" where
  "nice_forecast ct w desired res =
     ''renice '' @ arrow_right @ '' '' @ show_int desired @ ''  ('' @ summarize_result (Some res) @ '')'' @
     concat (map (nice_line ct w desired) (ar_results res)) @
     (if list_ex (\<lambda>r. case ct_get_nice ct w (br_pid r) of Inl _ \<Rightarrow> False | Inr n \<Rightarrow> desired < n) (ar_results res)
      then newline @ ''  ! raising priority (lower nice) needs CAP_SYS_NICE; may be denied and not restorable unprivileged''
      else [])"

definition warning_sign :: string where
  "warning_sign = [CHR 0xE2, CHR 0x9A, CHR 0xA0]"

fun freeze_lines :: "'w controller \<Rightarrow> 'w \<Rightarrow> string \<Rightarrow> string list \<Rightarrow> int list \<Rightarrow> string" where
  "freeze_lines ct w self seen [] = []"
| "freeze_lines ct w self seen (pid # pids) =
     (case ct_read_cgroup ct w pid of
        None \<Rightarrow> freeze_lines ct w self seen pids
      | Some cg \<Rightarrow>
          if cg = [] \<or> cg \<in> set seen then freeze_lines ct w self seen pids
          else newline @ ''  '' @ cg @
            (case freeze_safety cg self of (allowed, reason) \<Rightarrow>
               if allowed then []
               else ''   '' @ warning_sign @ '' REFUSED: '' @ reason @ '' (CLI --force to override)'') @
            freeze_lines ct w self (cg # seen) pids)"

definition freeze_forecast :: "'w controller \<Rightarrow> 'w \<Rightarrow> int \<Rightarrow> gate_request \<Rightarrow> string" where
  "freeze_forecast ct w self_pid req =
     ''freeze cgroup subtree(s) for '' @ show_int (int (length (tr_pids req))) @ '' process(es) ['' @ tr_label req @ '']'' @
     freeze_lines ct w (case ct_read_cgroup ct w self_pid of None \<Rightarrow> [] | Some cg \<Rightarrow> cg) [] (tr_pids req)"

definition synth_forecast :: "gate_request \<Rightarrow> string" where
  "synth_forecast req =
     ''would '' @ verb (tr_kind req) @ '' '' @ show_int (int (length (tr_pids req))) @ '' process(es) ['' @ tr_label req @ '']'' @
     concat (map (\<lambda>pid. newline @ ''  pid '' @ show_int pid) (tr_pids req))"

section \<open>Control (\<open>tuiControl\<close>, \<open>tuiDrop\<close>)\<close>

definition targets_for_pids :: "control_state \<Rightarrow> int list \<Rightarrow> string list" where
  "targets_for_pids st pids =
     foldl (\<lambda>names t. if list_ex (\<lambda>b. b_pid b \<in> set pids) (t_bindings t) then add_new names (t_name t) else names) []
       (st_targets st)"

definition pick_existing_target :: "control_state \<Rightarrow> int list \<Rightarrow> string" where
  "pick_existing_target st pids = (case targets_for_pids st pids of [n] \<Rightarrow> n | _ \<Rightarrow> [])"

definition instances_for_pids :: "'w controller \<Rightarrow> 'w \<Rightarrow> int list \<Rightarrow> instance_ref list" where
  "instances_for_pids ct w pids =
     concat (map (\<lambda>pid. case cli_for_pid ct w pid of Inl _ \<Rightarrow> [] | Inr insts \<Rightarrow> insts) pids)"

definition not_found_text :: "(string \<Rightarrow> string) \<Rightarrow> control_error \<Rightarrow> string" where
  "not_found_text quote e = (case e of TargetNotFound n \<Rightarrow> ''target '' @ quote n @ '' not found'')"

text \<open>The target a request acts on: the named one, the only one that binds the pids, or a new one.\<close>

definition request_target :: "'w driver \<Rightarrow> gate_request \<Rightarrow> manager \<Rightarrow> 'w \<Rightarrow> (string, string \<times> manager) result" where
  "request_target X req m w =
     (let st = mg_state m; ct = cl_controller (dr_cli X); existing = pick_existing_target st (tr_pids req) in
      if tr_target req \<noteq> [] then
        (if find_target (st_targets st) (tr_target req) = None
         then Inl (''managed target '' @ dr_quote X (tr_target req) @ '' not found'') else Inr (tr_target req, m))
      else if existing \<noteq> [] then Inr (existing, m)
      else
        let insts = instances_for_pids ct w (tr_pids req); name = tui_target_name req in
        if length insts = 0 then Inl ''no live instances for the selection''
        else Inr (name, m\<lparr>mg_state := fst (manage (ct_now ct w) name ModeSnapshot []
          (map (\<lambda>i. i\<lparr>in_name := tr_label req\<rparr>) insts) st)\<rparr>))"

text \<open>
  \<open>applyControlKind\<close>: stop and freeze drop the error and go on with a nil result, which is summarised
  as no matching instances.
\<close>

definition forgiving ::
  "(control_error, apply_result) result \<times> 's \<Rightarrow> (control_error, apply_result option) result \<times> 's" where
  "forgiving r = (case r of (Inl _, s) \<Rightarrow> (Inr None, s) | (Inr res, s) \<Rightarrow> (Inr (Some res), s))"

definition strict ::
  "(control_error, apply_result) result \<times> 's \<Rightarrow> (control_error, apply_result option) result \<times> 's" where
  "strict r = (case r of (Inl e, s) \<Rightarrow> (Inl e, s) | (Inr res, s) \<Rightarrow> (Inr (Some res), s))"

definition apply_control_kind ::
  "'w controller \<Rightarrow> string \<Rightarrow> control_kind \<Rightarrow> 'w cstate \<Rightarrow> (control_error, apply_result option) result \<times> 'w cstate" where
  "apply_control_kind ct name kind s =
     (case s of (m, w, evs) \<Rightarrow>
      case kind of
        CtrlRestoreNice \<Rightarrow> strict (restore_nice ct name False m w evs)
      | CtrlStop \<Rightarrow> forgiving (set_stop ct name True False m w evs)
      | CtrlContinue \<Rightarrow> forgiving (set_stop ct name False False m w evs)
      | CtrlFreeze \<Rightarrow> forgiving (set_freeze ct name True False False m w evs)
      | CtrlThaw \<Rightarrow> forgiving (set_freeze ct name False False False m w evs)
      | CtrlRestore \<Rightarrow> strict (restore ct name False False m w evs)
      | CtrlNice \<Rightarrow> (Inr None, s))"

definition apply_tui_control :: "'w driver \<Rightarrow> string \<Rightarrow> gate_request \<Rightarrow> 'w cstate \<Rightarrow> (string, string) result \<times> 'w cstate" where
  "apply_tui_control X name req s =
     (let ct = cl_controller (dr_cli X); (m, w, evs) = s in
      if tr_kind req = CtrlNice then
        (case set_nice ct name (tr_nice req) (tr_dry_run req) m w evs of
           (Inl e, s) \<Rightarrow> (Inl (not_found_text (dr_quote X) e), s)
         | (Inr res, m, w, evs) \<Rightarrow>
             (Inr (if tr_dry_run req then nice_forecast ct w (tr_nice req) res
                   else ''nice'' @ arrow_right @ show_int (tr_nice req) @ ''  '' @ summarize_result (Some res)), m, w, evs))
      else if tr_dry_run req then
        (Inr (if tr_kind req = CtrlFreeze then freeze_forecast ct w (sg_self_pid (mg_safeguards m)) req
              else synth_forecast req), s)
      else (case apply_control_kind ct name (tr_kind req) s of
          (Inl e, s) \<Rightarrow> (Inl (not_found_text (dr_quote X) e), s)
        | (Inr res, s) \<Rightarrow> (Inr (summarize_result res), s)))"

definition desk_of :: "'w desk \<Rightarrow> 'w \<Rightarrow> event list \<Rightarrow> 'w desk" where
  "desk_of d w evs = d\<lparr>dk_world := w, dk_log := evs\<rparr>"

definition tui_control :: "'w driver \<Rightarrow> gate_request \<Rightarrow> 'w desk \<Rightarrow> (string, string) result \<times> 'w desk" where
  "tui_control X req d =
     (case cl_open (dr_cli X) (dk_world d) of
        Inl e \<Rightarrow> (Inl e, d)
      | Inr (m, w) \<Rightarrow>
          (case request_target X req m w of
             Inl e \<Rightarrow> (Inl e, desk_of d w (dk_log d))
           | Inr (name, m) \<Rightarrow>
               (case apply_tui_control X name req (m, w, dk_log d) of
                  (Inl e, m, w, evs) \<Rightarrow> (Inl e, desk_of d w evs)
                | (Inr summary, m, w, evs) \<Rightarrow>
                    if tr_dry_run req then (Inr summary, desk_of d w evs)
                    else (case cl_save (dr_cli X) w (mg_state m) of
                        (w, Some e) \<Rightarrow> (Inl e, desk_of d w evs)
                      | (w, None) \<Rightarrow> (Inr summary, desk_of d w evs)))))"

fun unmanage_all :: "int \<Rightarrow> string list \<Rightarrow> control_state \<Rightarrow> (control_error, control_state) result" where
  "unmanage_all now [] st = Inr st"
| "unmanage_all now (n # ns) st = rbind (unmanage now n st) (unmanage_all now ns)"

definition tui_drop :: "'w driver \<Rightarrow> int list \<Rightarrow> 'w desk \<Rightarrow> (string, string) result \<times> 'w desk" where
  "tui_drop X pids d =
     (case cl_open (dr_cli X) (dk_world d) of
        Inl e \<Rightarrow> (Inl e, d)
      | Inr (m, w) \<Rightarrow>
          let names = targets_for_pids (mg_state m) pids; d = d\<lparr>dk_world := w\<rparr> in
          if length names = 0 then (Inl ''no managed target for the selection'', d)
          else (case unmanage_all (ct_now (cl_controller (dr_cli X)) w) names (mg_state m) of
              Inl e \<Rightarrow> (Inl (not_found_text (dr_quote X) e), d)
            | Inr st \<Rightarrow>
                (case cl_save (dr_cli X) w st of
                   (w, Some e) \<Rightarrow> (Inl e, d\<lparr>dk_world := w\<rparr>)
                 | (w, None) \<Rightarrow> (Inr (''dropped '' @ show_int (int (length names)) @ '' target(s)''), d\<lparr>dk_world := w\<rparr>))))"

section \<open>The program (\<open>cmdTUI\<close>)\<close>

definition tui_deps :: "'w driver \<Rightarrow> 'w desk backend" where
  "tui_deps X =
     (let A = dr_assembly X; reg = e_reg (as_engine A) in
      \<lparr>bk_control = Some (tui_control X), bk_drop = Some (tui_drop X), bk_has_managed = True, bk_history = Some (dr_history X),
       bk_host_panel = Some (tui_host_panel A), bk_filter_ops = Some (filter_operators reg), bk_choices = addable_columns reg,
       bk_regexp = as_regexp A, bk_error = dr_spec_text X\<rparr>)"

definition open_desk :: "'w \<Rightarrow> event list \<Rightarrow> 'w desk" where
  "open_desk w evs = \<lparr>dk_world = w, dk_log = evs, dk_sampler = new_sampler, dk_managed = new_sampler\<rparr>"

definition run_tui :: "'w driver \<Rightarrow> flags \<Rightarrow> int \<Rightarrow> int \<times> int \<Rightarrow> tui_event list \<Rightarrow> 'w \<Rightarrow> (tui \<times> 'w desk) option" where
  "run_tui X f interval screen evs w =
     (case start_tui (tui_deps X) (tui_refresh X) (Some (managed_tree X)) f interval screen (open_desk w []) of
        None \<Rightarrow> None
      | Some s \<Rightarrow> run_events (tui_deps X) (tui_refresh X) (Some (managed_tree X)) evs s)"

end
