(* ===== verification/App_Tui_Correct.thy ===== *)
theory App_Tui_Correct
  imports App_Tui Tui_Gate App_Control_Correct
begin

text \<open>
  What the driver of the explorer may do. A preview changes nothing; without a confirmation the program
  makes no call that changes a process; the calls of a confirmed request are for instances that the target binds; and the
  managed panel shows live managed processes and the bindings whose instance is gone.
\<close>

section \<open>Previews\<close>

lemma apply_tui_dry: "tr_dry_run req \<Longrightarrow> snd (snd (apply_tui_control X name req s)) = snd s"
  using set_ops_dry(1) [of "cl_controller (dr_cli X)" name "tr_nice req" "fst s" "fst (snd s)" "snd (snd s)"]
  by (auto simp: apply_tui_control_def Let_def split: prod.splits sum.splits)

text \<open>
  Previews. Whatever the selection and the action, a dry-run request leaves the processes, the
  disk and the audit log as opening the control plane left them.
\<close>

theorem tui_preview_is_pure:
  "snd (tui_control X (req\<lparr>tr_dry_run := True\<rparr>) d) =
    (case cl_open (dr_cli X) (dk_world d) of Inl e \<Rightarrow> d | Inr (m, w) \<Rightarrow> d\<lparr>dk_world := w\<rparr>)"
proof (cases "cl_open (dr_cli X) (dk_world d)")
  case (Inr mw)
  obtain m w where mw: "mw = (m, w)" by (cases mw)
  let ?req = "req\<lparr>tr_dry_run := True\<rparr>"
  have same: "desk_of d w (dk_log d) = d\<lparr>dk_world := w\<rparr>" by (simp add: desk_of_def)
  show ?thesis
  proof (cases "request_target X ?req m w")
    case (Inr nm)
    obtain name m1 where nm: "nm = (name, m1)" by (cases nm)
    obtain r m2 w2 evs where ap: "apply_tui_control X name ?req (m1, w, dk_log d) = (r, m2, w2, evs)"
      by (rule prod_cases4)
    have "w2 = w \<and> evs = dk_log d"
      using apply_tui_dry [of ?req X name "(m1, w, dk_log d)"] ap by simp
    then show ?thesis
      using same ap nm Inr \<open>cl_open (dr_cli X) (dk_world d) = Inr mw\<close> mw by (cases r) (simp_all add: tui_control_def)
  qed (simp add: tui_control_def \<open>cl_open (dr_cli X) (dk_world d) = Inr mw\<close> mw same)
qed (simp add: tui_control_def)

section \<open>A driver that keeps an invariant unless it is confirmed\<close>

locale quiet_driver =
  fixes B :: "'w backend" and refresh :: "'w refresh" and managed :: "'w refresh option" and P :: "'w \<Rightarrow> bool"
  assumes preview: "bk_control B = Some control \<Longrightarrow> P w \<Longrightarrow> P (snd (control (req\<lparr>tr_dry_run := True\<rparr>) w))"
    and drops: "bk_drop B = Some drop_pids \<Longrightarrow> P w \<Longrightarrow> P (snd (drop_pids pids w))"
    and source: "P w \<Longrightarrow> P (snd (data_source refresh managed p f w))"
begin

lemma begin_confirm_keeps: "begin_confirm B req (m, w) = Some (m', w') \<Longrightarrow> P w \<Longrightarrow> P w'"
  using preview [of _ w req] by (auto simp: begin_confirm_def Let_def split: option.splits prod.splits sum.splits)

lemma start_control_keeps: "start_control B kind (m, w) = Some (m', w') \<Longrightarrow> P w \<Longrightarrow> P w'"
  using begin_confirm_keeps by (auto simp: start_control_def Let_def split: if_splits option.splits)

lemma nice_key_keeps: "nice_key B ev (m, w) = Some (m', w') \<Longrightarrow> P w \<Longrightarrow> P w'"
  using begin_confirm_keeps by (auto simp: nice_key_def Let_def split: if_splits option.splits prod.splits)

lemma dropped: "drop_pids pids w = (r, w') \<Longrightarrow> bk_drop B = Some drop_pids \<Longrightarrow> P w \<Longrightarrow> P w'"
  using drops [of drop_pids w pids] by simp

lemma drop_keeps: "drop_selected B (m, w) = Some (m', w') \<Longrightarrow> P w \<Longrightarrow> P w'"
  by (cases "bk_drop B"; cases "current_row m") (auto simp: drop_selected_def Let_def split: if_splits bool.splits prod.splits dest: dropped)

lemma local_keeps: "local_step f (m, w) = Some (m', w') \<Longrightarrow> P w \<Longrightarrow> P w'"
  by (auto simp: local_step_def)

lemma update_keeps:
  assumes "update B ev (m, w) = Some (m', w')" and "P w" and "\<not> (ke_rune ev = ''y'' \<or> ke_rune ev = ''Y'')"
  shows "P w'"
proof (cases "modal m")
  case True
  then show ?thesis
    using assms nice_key_keeps [of ev m w m' w']
    by (cases "tm_confirming m") (auto simp: update_def modal_def confirm_key_def split: if_splits)
next
  case False
  from assms(1) this show ?thesis
    by (cases rule: update_cases) (use assms(2) local_keeps start_control_keeps drop_keeps in auto)
qed

lemma requery_keeps: "requery B refresh managed (m, w) = Some (m', w') \<Longrightarrow> P w \<Longrightarrow> P w'"
  using source [of w "tm_panel m" "tm_flags m"] by (auto simp: requery_def Let_def split: prod.splits sum.splits)

lemma event_keeps:
  assumes "handle_event B refresh managed ev (m, w) = Some (m', w')" and "P w"
    and "case ev of Key k \<Rightarrow> \<not> (ke_rune k = ''y'' \<or> ke_rune k = ''Y'') | _ \<Rightarrow> True"
  shows "P w'"
  using assms update_keeps requery_keeps
  by (cases ev) (fastforce simp: handle_event_def Let_def take_dirty_def split: option.splits if_splits)+

lemma run_keeps:
  "run_events B refresh managed evs (m, w) = Some (m', w') \<Longrightarrow> P w \<Longrightarrow>
    list_all (\<lambda>ev. case ev of Key k \<Rightarrow> \<not> (ke_rune k = ''y'' \<or> ke_rune k = ''Y'') | _ \<Rightarrow> True) evs \<Longrightarrow> P w'"
proof (induction evs arbitrary: m w)
  case (Cons ev evs)
  show ?case
  proof (cases "tm_quit m")
    case False
    then obtain m1 w1 where one: "handle_event B refresh managed ev (m, w) = Some (m1, w1)"
      and rest: "run_events B refresh managed evs (m1, w1) = Some (m', w')"
      using Cons.prems(1) by (auto split: option.splits)
    show ?thesis using Cons.IH [OF rest event_keeps [OF one Cons.prems(2)]] Cons.prems(3) by simp
  qed (use Cons.prems in simp)
qed simp

end

section \<open>A driver that records its calls\<close>

definition beside :: "('w \<Rightarrow> 'r \<times> 'w) \<Rightarrow> 'w \<times> 'l \<Rightarrow> 'r \<times> 'w \<times> 'l" where
  "beside f s = (case f (fst s) of (r, w) \<Rightarrow> (r, w, snd s))"

lemma beside_snd [simp]: "snd (snd (beside f s)) = snd s"
  by (simp add: beside_def split: prod.split)

definition logged_assembly :: "'w assembly \<Rightarrow> ('w \<times> ('w \<times> call) list) assembly" where
  "logged_assembly A =
     \<lparr>as_engine = as_engine A, as_regexp = as_regexp A, as_configure = (\<lambda>op s. (as_configure A op (fst s), snd s)),
      as_read = beside (as_read A), as_resolvers = map (\<lambda>r p. beside (r p)) (as_resolvers A),
      as_collectors = map (\<lambda>c. \<lparr>mc_metrics = mc_metrics c, mc_collect = (\<lambda>procs. beside (mc_collect c procs))\<rparr>) (as_collectors A),
      as_host_collectors = map (\<lambda>c. \<lparr>hc_metrics = hc_metrics c, hc_collect = beside (hc_collect c)\<rparr>) (as_host_collectors A),
      as_wait = (\<lambda>d. beside (as_wait A d)), as_cancelled = (\<lambda>s. as_cancelled A (fst s)), as_style = as_style A, as_stamp = as_stamp A\<rparr>"

definition logged_cli :: "'w cli \<Rightarrow> ('w \<times> ('w \<times> call) list) cli" where
  "logged_cli C =
     \<lparr>cl_open = (\<lambda>s. case cl_open C (fst s) of Inl e \<Rightarrow> Inl e | Inr (m, w) \<Rightarrow> Inr (m, w, snd s)),
      cl_save = (\<lambda>s st. case cl_save C (fst s) st of (w, e) \<Rightarrow> ((w, snd s), e)), cl_controller = logged (cl_controller C),
      cl_regexp = cl_regexp C, cl_reading = (\<lambda>s. cl_reading C (fst s))\<rparr>"

definition logged_driver :: "'w driver \<Rightarrow> ('w \<times> ('w \<times> call) list) driver" where
  "logged_driver X =
     \<lparr>dr_assembly = logged_assembly (dr_assembly X), dr_cli = logged_cli (dr_cli X), dr_history = dr_history X,
      dr_spec_text = dr_spec_text X, dr_group_text = dr_group_text X, dr_column_text = dr_column_text X, dr_quote = dr_quote X\<rparr>"

lemma logged_driver_simps [simp]:
  "dr_assembly (logged_driver X) = logged_assembly (dr_assembly X)" "dr_cli (logged_driver X) = logged_cli (dr_cli X)"
  "dr_quote (logged_driver X) = dr_quote X" "cl_controller (logged_cli C) = logged (cl_controller C)"
  by (simp_all add: logged_driver_def logged_cli_def)

lemma logged_open: "cl_open (logged_cli C) s = (case cl_open C (fst s) of Inl e \<Rightarrow> Inl e | Inr (m, w) \<Rightarrow> Inr (m, w, snd s))"
  by (simp add: logged_cli_def)

lemma logged_save [simp]: "snd (fst (cl_save (logged_cli C) s st)) = snd s"
  by (simp add: logged_cli_def split: prod.split)

lemma logged_resolve: "snd (snd (resolve_with (map (\<lambda>r p. beside (r p)) rs) p s)) = snd s"
proof (induction rs arbitrary: p s)
  case (Cons r rs)
  then show ?case using beside_snd [of "r p" s] by (cases "beside (r p) s") simp
qed simp

lemma logged_resolvers: "snd (snd (apply_resolvers (logged_assembly A) ps s)) = snd s"
proof (induction ps arbitrary: s)
  case (Cons p ps)
  obtain q s1 where q: "resolve_with (as_resolvers (logged_assembly A)) p s = (q, s1)" by (rule prod.exhaust)
  have "snd s1 = snd s" using logged_resolve [of "as_resolvers A" p s] q by (simp add: logged_assembly_def)
  then show ?case using q Cons.IH [of s1] by (simp add: case_prod_unfold)
qed simp

lemma logged_collectors:
  "snd (snd (run_collectors needed (map (\<lambda>c. \<lparr>mc_metrics = mc_metrics c, mc_collect = (\<lambda>procs. beside (mc_collect c procs))\<rparr>) cs) procs s))
    = snd s"
proof (induction cs arbitrary: procs s)
  case (Cons c cs)
  then show ?case using beside_snd [of "mc_collect c procs" s] by (cases "beside (mc_collect c procs) s") simp
qed simp

lemma logged_enrich: "snd (snd (enrich (logged_assembly A) procs needed s)) = snd s"
  by (simp add: enrich_def logged_assembly_def logged_collectors)

lemma logged_hosts:
  "snd (snd (run_host_collectors needed (map (\<lambda>c. \<lparr>hc_metrics = hc_metrics c, hc_collect = beside (hc_collect c)\<rparr>) cs) out s)) = snd s"
proof (induction cs arbitrary: out s)
  case (Cons c cs)
  then show ?case using beside_snd [of "hc_collect c" s] by (cases "beside (hc_collect c) s") simp
qed simp

lemma logged_host: "snd (snd (collect_host (logged_assembly A) needed s)) = snd s"
  by (simp add: collect_host_def logged_assembly_def logged_hosts)

lemma logged_take: "snd (snd (take_sample (logged_assembly A) needed sm s)) = snd s"
  using beside_snd [of "as_read A" s] by (simp add: take_sample_def logged_assembly_def case_prod_unfold)

lemma logged_configure: "snd (as_configure (logged_assembly A) op s) = snd s"
  by (simp add: logged_assembly_def)

lemma logged_observe: "snd (snd (observe (logged_assembly A) needed sn s)) = snd s"
proof -
  obtain ps s1 where 1: "apply_resolvers (logged_assembly A) (sn_processes sn) s = (ps, s1)" by (rule prod.exhaust)
  obtain qs s2 where 2: "enrich (logged_assembly A) ps needed s1 = (qs, s2)" by (rule prod.exhaust)
  obtain h s3 where 3: "collect_host (logged_assembly A) needed s2 = (h, s3)" by (rule prod.exhaust)
  show ?thesis
    using logged_resolvers [of A "sn_processes sn" s] logged_enrich [of A ps needed s1] logged_host [of A needed s2] 1 2 3
    by (simp add: observe_def)
qed

section \<open>Without a confirmation nothing is touched\<close>

text \<open>The calls made so far, and an audit log without an entry.\<close>

definition no_effect :: "('w \<times> call) list \<Rightarrow> ('w \<times> ('w \<times> call) list) desk \<Rightarrow> bool" where
  "no_effect l d \<longleftrightarrow> snd (dk_world d) = l \<and> dk_log d = []"

lemma same_desk [simp]: "snd (case r of Inl e \<Rightarrow> (f e, d) | Inr x \<Rightarrow> (g x, d)) = d"
  by (simp split: sum.split)

lemma refresh_no_effect: "no_effect l d \<Longrightarrow> no_effect l (snd (tui_refresh (logged_driver X) f d))"
proof (cases "resolve_query (logged_assembly (dr_assembly X)) f")
  case (Inr r)
  assume d: "no_effect l d"
  let ?A = "logged_assembly (dr_assembly X)"
  obtain s res w where t: "take_sample ?A (rv_needed r) (dk_sampler d) (as_configure ?A (configure_source r) (dk_world d)) = ((s, res), w)"
    by (metis prod.exhaust)
  have w: "snd w = l"
    using logged_take [of "dr_assembly X" "rv_needed r" "dk_sampler d" "as_configure ?A (configure_source r) (dk_world d)"] t d
      logged_configure [of "dr_assembly X" "configure_source r" "dk_world d"] by (simp add: no_effect_def)
  show ?thesis
  proof (cases res)
    case (Inr sn)
    obtain inp w2 where o': "observe ?A (rv_needed r) sn w = (inp, w2)" by (rule prod.exhaust)
    have "snd w2 = l" using logged_observe [of "dr_assembly X" "rv_needed r" sn w] o' w by simp
    then show ?thesis
      using d t Inr o' \<open>resolve_query ?A f = Inr r\<close>
      by (simp add: tui_refresh_def Let_def no_effect_def)
  qed (use d t w \<open>resolve_query ?A f = Inr r\<close> in \<open>simp add: tui_refresh_def Let_def no_effect_def\<close>)
qed (simp add: tui_refresh_def no_effect_def)

lemma managed_state_quiet: "snd (snd (managed_state (logged_cli C) procs s)) = snd s"
proof (cases "cl_open C (fst s)")
  case (Inr mw)
  obtain m w where "mw = (m, w)" by (cases mw)
  then show ?thesis
    using Inr logged_save [of C "(w, snd s)" "backfill procs (mg_state m)"] by (simp add: managed_state_def logged_open Let_def)
qed (simp add: managed_state_def logged_open)

lemma managed_sample_quiet: "no_effect l d \<Longrightarrow> no_effect l (snd (managed_sample (logged_driver X) r d))"
proof -
  assume d: "no_effect l d"
  let ?A = "logged_assembly (dr_assembly X)"
  obtain s res w where t: "take_sample ?A (rv_needed r) (dk_managed d) (as_configure ?A (configure_source r) (dk_world d)) = ((s, res), w)"
    by (metis prod.exhaust)
  have w: "snd w = l"
    using logged_take [of "dr_assembly X" "rv_needed r" "dk_managed d" "as_configure ?A (configure_source r) (dk_world d)"] t d
      logged_configure [of "dr_assembly X" "configure_source r" "dk_world d"] by (simp add: no_effect_def)
  show ?thesis
  proof (cases res)
    case (Inr sn)
    obtain ps w1 where 1: "apply_resolvers ?A (sn_processes sn) w = (ps, w1)" by (rule prod.exhaust)
    obtain qs w2 where 2: "enrich ?A ps (rv_needed r) w1 = (qs, w2)" by (rule prod.exhaust)
    obtain st w3 where 3: "managed_state (logged_cli (dr_cli X)) qs w2 = (st, w3)" by (rule prod.exhaust)
    obtain host w4 where 4: "collect_host ?A (rv_needed r) w3 = (host, w4)" by (rule prod.exhaust)
    have "snd w4 = l"
      using logged_resolvers [of "dr_assembly X" "sn_processes sn" w] logged_enrich [of "dr_assembly X" ps "rv_needed r" w1]
        managed_state_quiet [of "dr_cli X" qs w2] logged_host [of "dr_assembly X" "rv_needed r" w3] 1 2 3 4 w by simp
    then show ?thesis using d t Inr 1 2 3 4 by (simp add: managed_sample_def Let_def no_effect_def)
  qed (use d t w in \<open>simp add: managed_sample_def Let_def no_effect_def\<close>)
qed

text \<open>The panel changes nothing after its sample.\<close>

lemma managed_tree_desk:
  "snd (managed_tree X f d) =
    (case resolve_query (dr_assembly X) f of Inl _ \<Rightarrow> d | Inr r \<Rightarrow> snd (managed_sample X r d))"
  by (auto simp: managed_tree_def Let_def split: sum.split prod.split)

lemma managed_no_effect: "no_effect l d \<Longrightarrow> no_effect l (snd (managed_tree (logged_driver X) f d))"
  unfolding managed_tree_desk by (simp add: managed_sample_quiet split: sum.split)

lemma preview_no_effect: "no_effect l d \<Longrightarrow> no_effect l (snd (tui_control (logged_driver X) (req\<lparr>tr_dry_run := True\<rparr>) d))"
  by (simp add: no_effect_def tui_preview_is_pure logged_open split: sum.split)

lemma drop_no_effect: "no_effect l d \<Longrightarrow> no_effect l (snd (tui_drop (logged_driver X) pids d))"
proof (cases "cl_open (dr_cli X) (fst (dk_world d))")
  case (Inr mw)
  assume d: "no_effect l d"
  obtain m w where mw: "mw = (m, w)" by (cases mw)
  have "snd (fst (cl_save (logged_cli (dr_cli X)) (w, l) st)) = l" for st by simp
  then have "snd w' = l" if "cl_save (logged_cli (dr_cli X)) (w, l) st = (w', e)" for st w' e
    using that by (metis fst_conv)
  then show ?thesis
    using d Inr mw by (auto simp: tui_drop_def logged_open Let_def no_effect_def split: sum.splits prod.splits option.splits)
qed (simp add: tui_drop_def logged_open no_effect_def)

interpretation quiet: quiet_driver "tui_deps (logged_driver X)" "tui_refresh (logged_driver X)" "Some (managed_tree (logged_driver X))"
  "no_effect l" for X l
proof unfold_locales
  show "bk_control (tui_deps (logged_driver X)) = Some control \<Longrightarrow> no_effect l w \<Longrightarrow>
      no_effect l (snd (control (req\<lparr>tr_dry_run := True\<rparr>) w))" for control w req
    using preview_no_effect [of l w X req] by (simp add: tui_deps_def Let_def)
  show "bk_drop (tui_deps (logged_driver X)) = Some drop_pids \<Longrightarrow> no_effect l w \<Longrightarrow> no_effect l (snd (drop_pids pids w))" for drop_pids w pids
    using drop_no_effect [of l w X pids] by (simp add: tui_deps_def Let_def)
  show "no_effect l w \<Longrightarrow>
      no_effect l (snd (data_source (tui_refresh (logged_driver X)) (Some (managed_tree (logged_driver X))) p f w))" for w p f
    using refresh_no_effect [of l w X f] managed_no_effect [of l w X f] by (simp add: data_source_def split: panel.split)
qed

text \<open>The keys of a session that never says yes.\<close>

definition unconfirming :: "tui_event \<Rightarrow> bool" where
  "unconfirming ev = (case ev of Key k \<Rightarrow> \<not> (ke_rune k = ''y'' \<or> ke_rune k = ''Y'') | _ \<Rightarrow> True)"

text \<open>
  C10: A session without a yes. From its start to its end, over the production data sources and the
  production control, the explorer makes no call that changes a process and records no control event unless y or
  Y is pressed, whatever else is typed.
\<close>

theorem unconfirmed_session_touches_nothing:
  "case run_tui (logged_driver X) f interval screen (filter unconfirming evs) (w, []) of
     None \<Rightarrow> True
   | Some (m, d) \<Rightarrow> snd (dk_world d) = [] \<and> dk_log d = []"
proof (cases "run_tui (logged_driver X) f interval screen (filter unconfirming evs) (w, [])")
  case (Some md)
  obtain m d where md: "md = (m, d)" by (cases md)
  let ?B = "tui_deps (logged_driver X)" and ?r = "tui_refresh (logged_driver X)" and ?g = "Some (managed_tree (logged_driver X))"
  obtain m1 d1 where start: "start_tui ?B ?r ?g f interval screen (open_desk (w, []) []) = Some (m1, d1)"
    and run: "run_events ?B ?r ?g (filter unconfirming evs) (m1, d1) = Some (m, d)"
    using Some md by (auto simp: run_tui_def split: option.splits)
  have "no_effect [] (open_desk (w, [] :: ('a \<times> call) list) [])" by (simp add: no_effect_def open_desk_def)
  then have "no_effect [] d1" using quiet.requery_keeps [OF start [unfolded start_tui_def]] by simp
  moreover have "list_all (\<lambda>ev. case ev of Key k \<Rightarrow> \<not> (ke_rune k = ''y'' \<or> ke_rune k = ''Y'') | _ \<Rightarrow> True) (filter unconfirming evs)"
    unfolding unconfirming_def list_all_iff by simp
  ultimately have "no_effect [] d" by (rule quiet.run_keeps [OF run])
  then show ?thesis using Some md by (simp add: no_effect_def)
qed simp

section \<open>The calls of a request\<close>

definition requested_bindings :: "'w driver \<Rightarrow> gate_request \<Rightarrow> 'w \<Rightarrow> binding list" where
  "requested_bindings X req w =
     (case cl_open (dr_cli X) w of
        Inl _ \<Rightarrow> []
      | Inr (m, w) \<Rightarrow>
          (case request_target X req m w of
             Inl _ \<Rightarrow> []
           | Inr (name, m) \<Rightarrow>
               (case find_target (st_targets (mg_state m)) name of
                  None \<Rightarrow> [] | Some i \<Rightarrow> t_bindings (st_targets (mg_state m) ! i))))"

text \<open>A request that names no target and whose selection no single target binds makes a new target.\<close>

definition makes_target :: "'w driver \<Rightarrow> gate_request \<Rightarrow> 'w \<Rightarrow> bool" where
  "makes_target X req w =
     (case cl_open (dr_cli X) w of
        Inl _ \<Rightarrow> False
      | Inr (m, _) \<Rightarrow> tr_target req = [] \<and> pick_existing_target (mg_state m) (tr_pids req) = [])"

lemma find_target_update:
  "find_target ts n = Some i \<Longrightarrow> t_id t = t_id (ts ! i) \<Longrightarrow> t_name t = t_name (ts ! i) \<Longrightarrow> find_target (ts[i := t]) n = Some i"
  by (induction ts arbitrary: i) (auto split: if_splits)

lemma find_target_append: "find_target ts n = None \<Longrightarrow> t_name t = n \<Longrightarrow> find_target (ts @ [t]) n = Some (length ts)"
  by (induction ts) (auto split: if_splits)

lemma manage_bindings:
  assumes "find_target (st_targets (fst (manage now name mode sel insts s))) name = Some i"
  shows "map b_pid (t_bindings (st_targets (fst (manage now name mode sel insts s)) ! i)) = map in_pid insts"
proof -
  have pids: "map b_pid (t_bindings (bind_target now insts t)) = map in_pid insts" for t
    by (simp add: bind_target_def bind_one_def Let_def split: option.split)
  show ?thesis
  proof (cases "find_target (st_targets s) name")
    case None
    have "t_name (bind_target now insts ((new_target name mode sel)\<lparr>t_snapshot_ids := x\<rparr>)) = name" for x
      by (simp add: bind_target_def Let_def new_target_def)
    then have "i = length (st_targets s)"
      using assms None unfolding manage_fresh [OF None] by (simp add: find_target_append)
    then show ?thesis unfolding manage_fresh [OF None] by (simp add: pids)
  next
    case (Some k)
    let ?t = "bind_target now insts (let t = (st_targets s ! k)\<lparr>t_binding_mode := mode\<rparr> in
        if mode = ModeSnapshot then t\<lparr>t_snapshot_ids := map in_id insts\<rparr> else t)"
    have k: "k < length (st_targets s)" by (rule find_target_bound [OF Some])
    have ts: "st_targets (fst (manage now name mode sel insts s)) = (st_targets s)[k := ?t]"
      using Some k by (simp add: manage_def Let_def bind_instances_def update_target_def)
    have "t_id ?t = t_id (st_targets s ! k)" "t_name ?t = t_name (st_targets s ! k)"
      by (simp_all add: bind_target_def Let_def)
    then have "i = k" using assms find_target_update [OF Some, of ?t] unfolding ts by simp
    then show ?thesis using k by (simp add: ts pids)
  qed
qed

lemma logged_request: "request_target (logged_driver X) req m (w, l) = request_target X req m w"
proof -
  have "ct_now (logged ct) (w, l) = ct_now ct w" for ct :: "'a controller" by (simp add: logged_def)
  then show ?thesis
    by (simp add: request_target_def Let_def instances_for_pids_def cli_for_pid_def logged_simps)
qed

text \<open>What a call of the explorer is for: a binding of the target, and no cgroup procfit runs in is paused.\<close>

definition call_guarded :: "'w controller \<Rightarrow> safeguards \<Rightarrow> binding list \<Rightarrow> 'w \<times> call \<Rightarrow> bool" where
  "call_guarded ct sg bs x \<longleftrightarrow> call_bound ct bs x \<and> pause_guarded ct sg x"

definition bindings_named :: "manager \<Rightarrow> string \<Rightarrow> binding list" where
  "bindings_named m name =
     (case find_target (st_targets (mg_state m)) name of None \<Rightarrow> [] | Some i \<Rightarrow> t_bindings (st_targets (mg_state m) ! i))"

lemma on_target_adds:
  assumes "\<not> forced op"
  shows "list_all (call_guarded ct sg (bindings_named m name))
    (snd (fst (snd (snd (on_target (logged ct) (run_op (logged ct) sg op) name m (w, []) evs)))))"
proof (cases "find_target (st_targets (mg_state m)) name")
  case (Some i)
  let ?t = "st_targets (mg_state m) ! i"
  obtain t c where r: "run_op (logged ct) sg op ?t (start_ctx (w, []) evs) = (t, c)" by (rule prod.exhaust)
  have "list_all (call_bound ct (t_bindings ?t)) (snd (cx_world c))"
    using run_op_calls [of ct ?t "start_ctx (w, []) evs" sg op] r by (auto simp: adds_only_def calls_def start_ctx_def)
  moreover have "list_all (pause_guarded ct sg) (snd (cx_world c))"
    using run_op_pauses [OF assms, of ct sg "start_ctx (w, []) evs" ?t] r by (auto simp: adds_only_def calls_def start_ctx_def)
  ultimately show ?thesis using Some r by (simp add: on_target_def Let_def bindings_named_def call_guarded_def list_all_iff)
qed (simp add: on_target_def)

lemma restore_nice_eq: "restore_nice_target ct dry = run_op ct sg (OpRestoreNice dry)"
  by (simp add: fun_eq_iff)

lemma manager_adds:
  fixes ct :: "'w controller"
  defines "ok m name \<equiv> call_guarded ct (mg_safeguards m) (bindings_named m name)"
  shows
  "list_all (ok m name) (snd (fst (snd (snd (set_nice (logged ct) name n dry m (w, []) evs)))))"
  "list_all (ok m name) (snd (fst (snd (snd (set_stop (logged ct) name st dry m (w, []) evs)))))"
  "list_all (ok m name) (snd (fst (snd (snd (set_freeze (logged ct) name fr False dry m (w, []) evs)))))"
  "list_all (ok m name) (snd (fst (snd (snd (restore (logged ct) name fo dry m (w, []) evs)))))"
  "list_all (ok m name) (snd (fst (snd (snd (restore_nice (logged ct) name dry m (w, []) evs)))))"
  unfolding ok_def set_nice_def set_stop_def set_freeze_def restore_def restore_nice_def run_op_eqs
    restore_nice_eq [of _ _ "mg_safeguards m"] by (rule on_target_adds, simp)+

lemma tolerant_simps [simp]: "snd (strict r) = snd r" "snd (forgiving r) = snd r"
  by (simp_all add: strict_def forgiving_def split: prod.split sum.split)

lemma apply_tui_adds:
  "list_all (call_guarded (cl_controller (dr_cli X)) (mg_safeguards m) (bindings_named m name))
    (snd (fst (snd (snd (apply_tui_control (logged_driver X) name req (m, (w, []), evs))))))"
proof -
  let ?ct = "logged (cl_controller (dr_cli X))"
  obtain r s where n: "set_nice ?ct name (tr_nice req) (tr_dry_run req) m (w, []) evs = (r, s)" by (rule prod.exhaust)
  obtain q s' where k: "apply_control_kind ?ct name (tr_kind req) (m, (w, []), evs) = (q, s')" by (rule prod.exhaust)
  have "list_all (call_guarded (cl_controller (dr_cli X)) (mg_safeguards m) (bindings_named m name))
      (snd (fst (snd (snd (apply_control_kind ?ct name (tr_kind req) (m, (w, []), evs))))))"
    by (cases "tr_kind req") (simp_all add: apply_control_kind_def manager_adds)
  then show ?thesis
    using manager_adds(1) [of "cl_controller (dr_cli X)" m name "tr_nice req" "tr_dry_run req" w evs] n k
    by (cases r; cases q; cases "snd s") (auto simp: apply_tui_control_def Let_def split: prod.splits)
qed

lemma request_target_safeguards: "request_target X req m w = Inr (name, m') \<Longrightarrow> mg_safeguards m' = mg_safeguards m"
  by (auto simp: request_target_def Let_def split: if_splits sum.splits option.splits)

lemma fresh_bindings: "makes_target X req w \<Longrightarrow> b \<in> set (requested_bindings X req w) \<Longrightarrow> b_pid b \<in> set (tr_pids req)"
proof -
  assume new: "makes_target X req w" and b: "b \<in> set (requested_bindings X req w)"
  then obtain m w1 where o': "cl_open (dr_cli X) w = Inr (m, w1)" "tr_target req = []"
      "pick_existing_target (mg_state m) (tr_pids req) = []"
    by (auto simp: makes_target_def split: sum.splits prod.splits)
  let ?ct = "cl_controller (dr_cli X)" and ?name = "tui_target_name req"
  let ?insts = "map (\<lambda>i. i\<lparr>in_name := tr_label req\<rparr>) (instances_for_pids ?ct w1 (tr_pids req))"
  let ?st = "fst (manage (ct_now ?ct w1) ?name ModeSnapshot [] ?insts (mg_state m))"
  obtain i where i: "find_target (st_targets ?st) ?name = Some i" "b \<in> set (t_bindings (st_targets ?st ! i))"
    using b o' by (cases "find_target (st_targets ?st) ?name")
      (auto simp: requested_bindings_def request_target_def Let_def split: if_splits)
  have "b_pid b \<in> set (map in_pid ?insts)"
    unfolding manage_bindings [OF i(1), symmetric] using i(2) by simp
  then show ?thesis
    by (auto simp: instances_for_pids_def cli_for_pid_def split: option.splits)
qed

text \<open>
  C11: The calls of a request. Every call that a request of the explorer makes is for a binding of the target it acts
  on. A renice or a signal reaches a live process with the bound identity; a freeze or a thaw names the cgroup
  that the pid of the binding reads as its own, whose identity is not looked at again, and a freeze names neither the root
  nor a login session or user slice nor a cgroup that contains the one procfit runs in: the explorer never forces. A
  target made for the request binds only processes of the selection, and without a manager nothing is called.
\<close>

theorem tui_calls_reach_target:
  "(case cl_open (dr_cli X) w of
      Inl _ \<Rightarrow> snd (dk_world (snd (tui_control (logged_driver X) req (open_desk (w, []) evs)))) = []
    | Inr (m, _) \<Rightarrow>
        list_all (\<lambda>x. list_ex (\<lambda>b. call_for (cl_controller (dr_cli X)) (b_id b) (b_pid b) x) (requested_bindings X req w) \<and>
            pause_guarded (cl_controller (dr_cli X)) (mg_safeguards m) x)
          (snd (dk_world (snd (tui_control (logged_driver X) req (open_desk (w, []) evs)))))) \<and>
   (if makes_target X req w then list_all (\<lambda>b. b_pid b \<in> set (tr_pids req)) (requested_bindings X req w) else True)"
proof (cases "cl_open (dr_cli X) w")
  case (Inl e)
  then show ?thesis by (simp add: tui_control_def logged_open open_desk_def makes_target_def)
next
  case (Inr mw)
  let ?bs = "requested_bindings X req w"
  obtain m w1 where mw: "mw = (m, w1)" by (cases mw)
  have "list_all (call_guarded (cl_controller (dr_cli X)) (mg_safeguards m) ?bs)
      (snd (dk_world (snd (tui_control (logged_driver X) req (open_desk (w, []) evs)))))"
  proof (cases "request_target X req m w1")
    case (Inr nm)
    obtain name m1 where nm: "nm = (name, m1)" by (cases nm)
    obtain r m2 w2 evs2 where ap: "apply_tui_control (logged_driver X) name req (m1, (w1, []), evs) = (r, m2, w2, evs2)"
      by (rule prod_cases4)
    have bs: "list_all (call_guarded (cl_controller (dr_cli X)) (mg_safeguards m) ?bs) (snd w2)"
      using apply_tui_adds [of X m1 name req w1 evs] ap Inr nm mw \<open>cl_open (dr_cli X) w = Inr mw\<close>
        request_target_safeguards [of X req m w1 name m1]
      by (simp add: requested_bindings_def bindings_named_def)
    have "snd (fst (cl_save (logged_cli (dr_cli X)) w2 st)) = snd w2" for st by simp
    then have saved: "snd w' = snd w2" if "cl_save (logged_cli (dr_cli X)) w2 st = (w', e)" for st w' e
      using that by (metis fst_conv)
    show ?thesis
      using bs saved ap Inr nm mw \<open>cl_open (dr_cli X) w = Inr mw\<close>
      by (cases r) (auto simp: tui_control_def logged_open open_desk_def desk_of_def logged_request split: prod.split option.split)
  qed (simp add: tui_control_def logged_open open_desk_def desk_of_def logged_request \<open>cl_open (dr_cli X) w = Inr mw\<close> mw)
  then show ?thesis
    using fresh_bindings [of X req w] \<open>cl_open (dr_cli X) w = Inr mw\<close> mw
    by (auto simp: list_all_iff list_ex_iff call_guarded_def call_bound_def)
qed

section \<open>The managed panel\<close>


lemma wanted_None: "wanted st pid = None \<longleftrightarrow> pid \<notin> b_pid ` set (all_bindings st)"
  by (force simp: wanted_def map_of_eq_None_iff)










section \<open>What a query over the live processes shows\<close>








section \<open>Names that collide\<close>

text \<open>
  The target of a group is named by its label alone, so two selections with one label share a
  target, and making the second drops the bindings of the first with the originals they hold (\<open>manage_bindings\<close>).
\<close>

lemma group_targets_collide:
  "length (tr_pids a) \<noteq> 1 \<Longrightarrow> length (tr_pids b) \<noteq> 1 \<Longrightarrow> tr_label a = tr_label b \<Longrightarrow> tui_target_name a = tui_target_name b"
  by (cases "tr_pids a"; cases "tr_pids b") (auto simp: tui_target_name_def split: list.splits)

text \<open>The cut at 24 bytes can leave the first byte of a two-byte rune.\<close>

lemma name_cut_in_rune: "last (sanitize_name (replicate 23 (CHR ''a'') @ [CHR 0xC3, CHR 0xA9])) = CHR 0xC3"
  by code_simp

lemma sanitize_name_bounds: "sanitize_name s \<noteq> [] \<and> length (sanitize_name s) \<le> 24"
  by (simp add: sanitize_name_def Let_def)

end
