(* ===== verification/App_Introspect.thy ===== *)
theory App_Introspect
  imports App_Machine
begin

text \<open>
  What the program says about itself, \<open>internal/app/introspect.go\<close>: the catalog of the fields a user may
  name, with the live availability of every metric, and the capabilities of the host. JSON documents are
  lists of keys and values; their encoding is outside.
\<close>

section \<open>Availability (\<open>metrics list --check\<close>)\<close>

fun availability_name :: "availability \<Rightarrow> string" where
  "availability_name AvUnset = []"
| "availability_name Available = ''available''"
| "availability_name WarmingUp = ''warming_up''"
| "availability_name Disabled = ''disabled''"
| "availability_name Unsupported = ''unsupported''"
| "availability_name PermissionDenied = ''permission_denied''"
| "availability_name Vanished = ''vanished''"
| "availability_name ReadError = ''read_error''"

definition status_str :: "metric_value option \<Rightarrow> string" where
  "status_str v =
     (case v of
        None \<Rightarrow> ''no-source''
      | Some v \<Rightarrow> if present v then ''yes'' else if rd_avail v = AvUnset then ''no-source'' else availability_name (rd_avail v))"

fun first_reason :: "metric_value list \<Rightarrow> availability" where
  "first_reason [] = AvUnset"
| "first_reason (v # vs) = (if rd_avail v \<noteq> AvUnset then rd_avail v else first_reason vs)"

definition availability_of :: "descriptor \<Rightarrow> query_input \<Rightarrow> string" where
  "availability_of d inp =
     (if d_scope d = ScopeHost then status_str (in_host_metrics inp (d_id d))
      else let vs = map (\<lambda>p. metric p (d_id d)) (in_processes inp) in
        if list_ex present vs then ''yes''
        else if first_reason vs = AvUnset then ''no-source''
        else availability_name (first_reason vs))"

definition probe_query :: "registry \<Rightarrow> resolved" where
  "probe_query reg =
     \<lparr>rv_spec = \<lparr>q_metrics = [], q_select = None, q_group_by = [], q_leaf = LeafProcess, q_having = None, q_sort = [],
        q_columns = [], q_limit = 0\<rparr>, rv_needed = map d_id (reg_all reg), rv_columns = [], rv_format = [], rv_human = False,
      rv_target_width = 0, rv_expr_fields = []\<rparr>"

definition probe_metric_availability ::
  "'w assembly \<Rightarrow> registry \<Rightarrow> 'w \<Rightarrow> (string, metric_id \<rightharpoonup> string) result \<times> 'w" where
  "probe_metric_availability A reg w =
     (case sample_for_result A (probe_query reg) False w of
        (Inl e, w) \<Rightarrow> (Inl e, w)
      | (Inr inp, w) \<Rightarrow> (Inr (map_of (rev (map (\<lambda>d. (d_id d, availability_of d inp)) (reg_all reg)))), w))"

section \<open>The catalog\<close>

record field_row =
  fw_id :: string
  fw_column :: bool
  fw_group :: bool
  fw_sortable :: bool
  fw_filterable :: bool
  fw_metric :: bool
  fw_unit :: string
  fw_cost :: int
  fw_desc :: string
  fw_avail :: string

definition new_field :: "string \<Rightarrow> field_row" where
  "new_field i = \<lparr>fw_id = i, fw_column = False, fw_group = False, fw_sortable = False, fw_filterable = False, fw_metric = False,
     fw_unit = [], fw_cost = 0, fw_desc = [], fw_avail = []\<rparr>"

definition at_field :: "string \<Rightarrow> (field_row \<Rightarrow> field_row) \<Rightarrow> (string \<rightharpoonup> field_row) \<Rightarrow> (string \<rightharpoonup> field_row)" where
  "at_field i f rows = rows(i \<mapsto> f (case rows i of Some r \<Rightarrow> r | None \<Rightarrow> new_field i))"

fun cost_number :: "cost \<Rightarrow> int" where
  "cost_number Cost0Light = 0"
| "cost_number Cost1FD = 1"
| "cost_number Cost2Event = 2"
| "cost_number Cost3Perf = 3"

definition metric_field_row :: "descriptor \<Rightarrow> field_row \<Rightarrow> field_row" where
  "metric_field_row d r = r\<lparr>fw_column := True, fw_sortable := True, fw_metric := True, fw_unit := unit_name (d_unit d),
     fw_cost := cost_number (d_cost d), fw_desc := d_desc d\<rparr>"

definition column_field_row :: "column \<Rightarrow> field_row \<Rightarrow> field_row" where
  "column_field_row c r =
     (let r = r\<lparr>fw_column := True, fw_sortable := (fw_sortable r \<or> co_sortable c)\<rparr>
      in if fw_desc r = [] then r\<lparr>fw_desc := co_desc c\<rparr> else r)"

definition dim_field_row :: "dimensions \<Rightarrow> string \<Rightarrow> field_row \<Rightarrow> field_row" where
  "dim_field_row ds i r =
     (let r = r\<lparr>fw_group := True\<rparr>
      in case dims_get ds i of None \<Rightarrow> r | Some d \<Rightarrow> if fw_desc r = [] then r\<lparr>fw_desc := dim_desc d\<rparr> else r)"

definition filterable_fields :: "registry \<Rightarrow> string \<Rightarrow> bool" where
  "filterable_fields reg f \<longleftrightarrow> allowed_entity_fields reg f \<or> allowed_row_fields reg f"

definition catalog_rows :: "registry \<Rightarrow> dimensions \<Rightarrow> string \<rightharpoonup> field_row" where
  "catalog_rows reg ds =
     fold (\<lambda>i. at_field i (dim_field_row ds i)) (dims_ids ds)
       (fold (\<lambda>c. at_field (co_id c) (column_field_row c)) structural_columns
         (fold (\<lambda>d. at_field (d_id d) (metric_field_row d)) (reg_all reg) Map.empty))"

definition catalog_ids :: "registry \<Rightarrow> dimensions \<Rightarrow> string list" where
  "catalog_ids reg ds = sort (remdups (map d_id (reg_all reg) @ map co_id structural_columns @ dims_ids ds))"

definition build_field_catalog :: "registry \<Rightarrow> dimensions \<Rightarrow> field_row list" where
  "build_field_catalog reg ds =
     map (\<lambda>i. (the (catalog_rows reg ds i))\<lparr>fw_filterable := filterable_fields reg i\<rparr>) (catalog_ids reg ds)"

section \<open>Printing it\<close>

definition use_flags :: "field_row \<Rightarrow> string" where
  "use_flags r = [if fw_column r then CHR ''c'' else CHR ''-'', if fw_group r then CHR ''g'' else CHR ''-'',
     if fw_sortable r then CHR ''s'' else CHR ''-'', if fw_filterable r then CHR ''f'' else CHR ''-'']"

definition or_dash :: "string \<Rightarrow> string" where
  "or_dash s = (if s = [] then ''-'' else s)"

definition cost_cell :: "field_row \<Rightarrow> string" where
  "cost_cell r = (if \<not> fw_metric r then ''-'' else show_int (fw_cost r))"

definition avail_cell :: "field_row \<Rightarrow> string" where
  "avail_cell r = (if \<not> fw_metric r \<or> fw_avail r = [] then ''-'' else fw_avail r)"

definition catalog_line :: "bool \<Rightarrow> string \<Rightarrow> string \<Rightarrow> string \<Rightarrow> string \<Rightarrow> string \<Rightarrow> string \<Rightarrow> string" where
  "catalog_line show_avail i uses unit costs avail desc =
     pad_right 22 i @ '' '' @ pad_right 4 uses @ '' '' @ pad_right 16 unit @ '' '' @ pad_right 4 costs @ '' '' @
     (if show_avail then pad_right 18 avail @ '' '' else []) @ desc @ newline"

definition print_field_catalog :: "field_row list \<Rightarrow> bool \<Rightarrow> string" where
  "print_field_catalog rows show_avail =
     ''USE flags: c=column  g=group-by  s=sort  f=filter'' @ newline @
     (if show_avail then
        ''AVAIL: yes, or the reason unavailable here (no-source = nothing produces it on this build)'' @ newline else []) @
     catalog_line show_avail ''ID'' ''USE'' ''UNIT'' ''COST'' ''AVAIL'' ''DESCRIPTION'' @
     concat (map (\<lambda>r. catalog_line show_avail (fw_id r) (use_flags r) (or_dash (fw_unit r)) (cost_cell r) (avail_cell r) (fw_desc r)) rows)"

datatype json_member = JsonBool bool | JsonInt int | JsonString string

text \<open>A member marked \<open>omitempty\<close> is left out when it is empty.\<close>

definition omit_empty :: "string \<Rightarrow> string \<Rightarrow> (string \<times> json_member) list" where
  "omit_empty key v = (if v = [] then [] else [(key, JsonString v)])"

definition field_json :: "field_row \<Rightarrow> (string \<times> json_member) list" where
  "field_json r =
     [(''id'', JsonString (fw_id r)), (''column'', JsonBool (fw_column r)), (''group_by'', JsonBool (fw_group r)),
      (''sortable'', JsonBool (fw_sortable r)), (''filterable'', JsonBool (fw_filterable r)), (''metric'', JsonBool (fw_metric r))] @
     omit_empty ''unit'' (fw_unit r) @ (if fw_cost r = 0 then [] else [(''cost'', JsonInt (fw_cost r))]) @
     omit_empty ''available'' (fw_avail r) @ omit_empty ''description'' (fw_desc r)"

datatype listing = Listing string | ListingJson "(string \<times> json_member) list list"

text \<open>The arguments after the optional word \<open>list\<close>; \<open>None\<close> is a usage error.\<close>

definition metrics_args :: "string list \<Rightarrow> string list option" where
  "metrics_args args =
     (case args of [] \<Rightarrow> Some [] | a # rest \<Rightarrow>
        if \<not> has_prefix a ''-'' then (if a \<noteq> ''list'' then None else Some rest) else Some args)"

definition with_avail :: "(metric_id \<rightharpoonup> string) \<Rightarrow> field_row \<Rightarrow> field_row" where
  "with_avail avail r =
     (if fw_metric r then r\<lparr>fw_avail := (case avail (fw_id r) of None \<Rightarrow> [] | Some a \<Rightarrow> a)\<rparr> else r)"

definition field_listing :: "string \<Rightarrow> bool \<Rightarrow> field_row list \<Rightarrow> listing" where
  "field_listing fmt check rows =
     (if fmt = ''json'' then ListingJson (map field_json rows) else Listing (print_field_catalog rows check))"

text \<open>The command, for parsed flags. A check needs an assembly, which may not come up; a registry panic is \<open>None\<close>.\<close>

definition cmd_metrics ::
  "'w machine \<Rightarrow> string \<Rightarrow> bool \<Rightarrow> 'w \<Rightarrow> (listing option \<times> int) option" where
  "cmd_metrics M fmt check w =
     (case new_default of
        None \<Rightarrow> None
      | Some reg \<Rightarrow>
          let rows = build_field_catalog reg new_dimensions in
          if \<not> check then Some (Some (field_listing fmt False rows), exit_ok)
          else (case new_assembly M w of
              None \<Rightarrow> None
            | Some (A, s) \<Rightarrow>
                (case fst (probe_metric_availability A reg s) of
                   Inl e \<Rightarrow> Some (None, exit_runtime)
                 | Inr avail \<Rightarrow> Some (Some (field_listing fmt True (map (with_avail avail) rows)), exit_ok))))"

section \<open>Capabilities\<close>

record capability =
  cy_name :: string
  cy_status :: string
  cy_detail :: string

definition capability_of :: "string \<Rightarrow> string \<Rightarrow> string \<Rightarrow> capability" where
  "capability_of name status detail = \<lparr>cy_name = name, cy_status = status, cy_detail = detail\<rparr>"

text \<open>The first process whose counters can be read decides; a refusal is remembered until then.\<close>

fun io_status :: "string \<times> string \<Rightarrow> proc_stat list \<Rightarrow> string \<times> string" where
  "io_status s [] = s"
| "io_status s (p # ps) =
     (if ps_io_avail p = Available then (''available'', ''per-process io counters readable'')
      else if ps_io_avail p = PermissionDenied then
        io_status (''permission_denied'', ''io counters restricted for some processes'') ps
      else io_status s ps)"

definition probe_psi :: "file_tree \<Rightarrow> capability" where
  "probe_psi fs =
     (if ft_exists fs ''/proc/pressure/cpu''
      then capability_of ''psi'' ''available'' ''pressure-stall info at /proc/pressure/{cpu,io,memory}''
      else capability_of ''psi'' ''unsupported'' ''/proc/pressure absent (CONFIG_PSI off)'')"

definition probe_power :: "file_tree \<Rightarrow> capability" where
  "probe_power fs =
     (let backends = map pws_id (new_power_sources fs ''/sys'') in
      if length backends = 0 then capability_of ''power'' ''unsupported'' ''no RAPL/hwmon/battery power source on this host''
      else capability_of ''power'' ''available'' (''power draw via '' @ join '', '' backends))"

definition probe_sched_wakeups :: "file_tree \<Rightarrow> capability" where
  "probe_sched_wakeups fs =
     (case ft_read fs ''/proc/self/sched'' of
        Inl _ \<Rightarrow> capability_of ''wakeups-procfs'' ''unsupported'' ''/proc/PID/sched not readable''
      | Inr data \<Rightarrow>
          if contains data ''nr_wakeups''
          then capability_of ''wakeups-procfs'' ''available'' ''per-process wakeups via /proc/PID/sched (used unless eBPF is active)''
          else capability_of ''wakeups-procfs'' ''unsupported'' ''nr_wakeups absent (CONFIG_SCHEDSTATS off)'')"

definition probe_cgroup :: "file_tree \<Rightarrow> capability" where
  "probe_cgroup fs =
     (if ft_exists fs ''/sys/fs/cgroup/cgroup.controllers''
      then capability_of ''cgroup-v2'' ''available'' ''unified hierarchy present; freeze/CPU/IO need delegation''
      else capability_of ''cgroup-v2'' ''unsupported'' ''unified cgroup v2 hierarchy not found'')"

definition probe_perf :: "file_tree \<Rightarrow> capability" where
  "probe_perf fs =
     (case ft_read fs ''/proc/sys/kernel/perf_event_paranoid'' of
        Inl _ \<Rightarrow> capability_of ''perf-counters'' ''unsupported'' ''perf_event_paranoid not readable''
      | Inr data \<Rightarrow>
          let level = trim_space data in
          if level = ''-1'' \<or> level = ''0'' \<or> level = ''1''
          then capability_of ''perf-counters'' ''available'' (''perf_event_paranoid='' @ level)
          else capability_of ''perf-counters'' ''permission_denied''
            (''perf_event_paranoid='' @ level @ '' (lower it or grant CAP_PERFMON)''))"

definition probe_ebpf :: capability where
  "probe_ebpf = capability_of ''ebpf'' ''unsupported'' ''no eBPF backend in this build; wakeups/net metrics unavailable''"

definition procfs_capability :: "(string, proc_stat list) result \<Rightarrow> capability" where
  "procfs_capability r =
     (case r of
        Inl e \<Rightarrow> capability_of ''procfs'' ''permission_denied'' e
      | Inr sts \<Rightarrow> capability_of ''procfs'' ''available'' (show_int (int (length sts)) @ '' processes visible''))"

definition probe_capabilities :: "'w machine \<Rightarrow> 'w \<Rightarrow> capability list option" where
  "probe_capabilities M w =
     map_option (\<lambda>(A, s).
       (let fs = mn_tree M w; r = sr_list (fst (as_read A s));
            (status, detail) = io_status (''unsupported'', ''no io counters readable'') (case r of Inl _ \<Rightarrow> [] | Inr sts \<Rightarrow> sts)
        in [procfs_capability r, capability_of ''proc-io'' status detail, probe_cgroup fs, probe_perf fs, probe_ebpf,
            probe_sched_wakeups fs, probe_power fs, probe_psi fs])) (new_assembly M w)"

definition capability_line :: "capability \<Rightarrow> string" where
  "capability_line c = pad_right 16 (cy_name c) @ '' '' @ pad_right 14 (cy_status c) @ '' '' @ cy_detail c @ newline"

definition capability_json :: "capability \<Rightarrow> (string \<times> json_member) list" where
  "capability_json c = [(''name'', JsonString (cy_name c)), (''status'', JsonString (cy_status c)), (''detail'', JsonString (cy_detail c))]"

definition cmd_capabilities :: "'w machine \<Rightarrow> string \<Rightarrow> 'w \<Rightarrow> (listing \<times> int) option" where
  "cmd_capabilities M fmt w =
     map_option (\<lambda>caps.
       (if fmt = ''json'' then ListingJson (map capability_json caps) else Listing (concat (map capability_line caps)), exit_ok))
       (probe_capabilities M w)"

section \<open>What the catalog lists\<close>

text \<open>A mark of a row, and what a pass over one registry does to it.\<close>

definition marked :: "(field_row \<Rightarrow> bool) \<Rightarrow> (string \<rightharpoonup> field_row) \<Rightarrow> string \<Rightarrow> bool" where
  "marked g rows i \<longleftrightarrow> (case rows i of None \<Rightarrow> False | Some r \<Rightarrow> g r)"

lemma marked_pass:
  assumes "\<And>x r. g (F x r) \<longleftrightarrow> g r \<or> c" and "\<And>i. \<not> g (new_field i)"
  shows "marked g (fold (\<lambda>x. at_field (k x) (F x)) xs rows) i \<longleftrightarrow> marked g rows i \<or> (c \<and> i \<in> k ` set xs)"
  using assms by (induction xs arbitrary: rows) (auto simp: marked_def at_field_def split: option.splits)

lemma rows_pass:
  "fold (\<lambda>x. at_field (k x) (F x)) xs rows i = None \<longleftrightarrow> rows i = None \<and> i \<notin> k ` set xs"
  by (induction xs arbitrary: rows) (auto simp: at_field_def)

lemma ids_pass:
  assumes "\<And>x r. fw_id (F x r) = fw_id r"
  shows "(\<And>j r. rows j = Some r \<Longrightarrow> fw_id r = j) \<Longrightarrow> fold (\<lambda>x. at_field (k x) (F x)) xs rows i = Some r \<Longrightarrow> fw_id r = i"
proof (induction xs arbitrary: rows)
  case (Cons x xs)
  show ?case
  proof (rule Cons.IH)
    show "fold (\<lambda>x. at_field (k x) (F x)) xs (at_field (k x) (F x) rows) i = Some r" using Cons.prems(2) by simp
    show "at_field (k x) (F x) rows j = Some r' \<Longrightarrow> fw_id r' = j" for j r'
      using Cons.prems(1) assms by (auto simp: at_field_def new_field_def split: if_splits option.splits)
  qed
qed simp

lemma row_steps [simp]:
  "fw_id (metric_field_row d r) = fw_id r" "fw_id (column_field_row c r) = fw_id r" "fw_id (dim_field_row ds i r) = fw_id r"
  "fw_column (metric_field_row d r)" "fw_column (column_field_row c r)" "fw_column (dim_field_row ds i r) = fw_column r"
  "fw_group (metric_field_row d r) = fw_group r" "fw_group (column_field_row c r) = fw_group r" "fw_group (dim_field_row ds i r)"
  by (simp_all add: metric_field_row_def column_field_row_def dim_field_row_def Let_def split: option.split)

lemma new_field_marks [simp]: "\<not> fw_column (new_field i)" "\<not> fw_group (new_field i)" "fw_id (new_field i) = i"
  by (simp_all add: new_field_def)

lemma catalog_marks:
  "marked fw_column (catalog_rows reg ds) i \<longleftrightarrow> i \<in> d_id ` set (reg_all reg) \<or> i \<in> co_id ` set structural_columns"
  "marked fw_group (catalog_rows reg ds) i \<longleftrightarrow> i \<in> set (dims_ids ds)"
  "catalog_rows reg ds i \<noteq> None \<longleftrightarrow> i \<in> set (catalog_ids reg ds)"
proof -
  note pass = marked_pass [where g = fw_column and F = metric_field_row and c = True]
    marked_pass [where g = fw_column and F = column_field_row and c = True]
    marked_pass [where g = fw_column and F = "dim_field_row ds" and c = False]
  show "marked fw_column (catalog_rows reg ds) i \<longleftrightarrow> i \<in> d_id ` set (reg_all reg) \<or> i \<in> co_id ` set structural_columns"
    unfolding catalog_rows_def by (simp add: pass) (simp add: marked_def)
  note pass = marked_pass [where g = fw_group and F = metric_field_row and c = False]
    marked_pass [where g = fw_group and F = column_field_row and c = False]
    marked_pass [where g = fw_group and F = "dim_field_row ds" and c = True]
  show "marked fw_group (catalog_rows reg ds) i \<longleftrightarrow> i \<in> set (dims_ids ds)"
    unfolding catalog_rows_def by (simp add: pass) (simp add: marked_def)
  show "catalog_rows reg ds i \<noteq> None \<longleftrightarrow> i \<in> set (catalog_ids reg ds)"
    unfolding catalog_rows_def catalog_ids_def by (auto simp: rows_pass)
qed

lemma catalog_row_id: "catalog_rows reg ds i = Some r \<Longrightarrow> fw_id r = i"
  unfolding catalog_rows_def
  by (erule ids_pass [rotated 2], simp, (erule ids_pass [rotated 2], simp)+) simp

lemma catalog_fields: "map fw_id (build_field_catalog reg ds) = catalog_ids reg ds"
proof -
  have "fw_id (the (catalog_rows reg ds i)) = i" if "i \<in> set (catalog_ids reg ds)" for i
    using that catalog_row_id [of reg ds i] by (auto simp: catalog_marks(3) [symmetric])
  then show ?thesis by (simp add: build_field_catalog_def map_idI)
qed

lemma catalog_lists:
  assumes "\<And>r b. g (r\<lparr>fw_filterable := b\<rparr>) = g r"
  shows "list_ex (\<lambda>r. g r \<and> fw_id r = i) (build_field_catalog reg ds) \<longleftrightarrow> marked g (catalog_rows reg ds) i"
proof -
  have "fw_id (the (catalog_rows reg ds j)) = j" if "j \<in> set (catalog_ids reg ds)" for j
    using that catalog_row_id [of reg ds j] by (auto simp: catalog_marks(3) [symmetric])
  then show ?thesis
    using assms catalog_marks(3) [of reg ds i]
    by (auto simp: build_field_catalog_def list_ex_iff marked_def split: option.splits)
qed

lemma new_dimensions_ids: "set (dims_ids new_dimensions) = {i. dims_has new_dimensions i}"
  by (auto simp: dims_ids_def dims_has_def new_dimensions_def dims_fold map_of_eq_None_iff image_iff)

lemma resolve_one: "is_ok (resolve_columns reg [i] human) \<longleftrightarrow> i \<in> co_id ` set structural_columns \<or> reg_get reg i \<noteq> None"
proof -
  have "structural_column i \<noteq> None \<longleftrightarrow> i \<in> co_id ` set structural_columns"
    by (auto simp: structural_column_def find_None_iff)
  then show ?thesis
    by (auto simp: resolve_columns_def is_ok_def split: option.splits)
qed

text \<open>
  The catalog of \<open>metrics list\<close>. Its rows are sorted by distinct ids; a name is accepted in \<open>--columns\<close> exactly when the
  catalog lists it, or the metric it is an alias of, as a column; and the names it lists as groups are exactly those \<open>--group-by\<close> knows.
\<close>

theorem catalog_matches_columns:
  "case new_default of
     None \<Rightarrow> False
   | Some reg \<Rightarrow>
       let cat = build_field_catalog reg new_dimensions in
         sorted (map fw_id cat) \<and> distinct (map fw_id cat) \<and>
         (is_ok (resolve_columns reg [i] human) \<longleftrightarrow>
           list_ex (\<lambda>r. fw_column r \<and> fw_id r = (case resolve_id reg i of None \<Rightarrow> i | Some c \<Rightarrow> c)) cat) \<and>
         (dims_has new_dimensions i \<longleftrightarrow> list_ex (\<lambda>r. fw_group r \<and> fw_id r = i) cat)"
proof -
  obtain reg where reg: "new_default = Some reg" "reg_wf reg" "reg_order reg = map d_id builtin_metrics" "reg_all reg = builtin_metrics"
    using new_default_ok by blast
  let ?cat = "build_field_catalog reg new_dimensions"
  have "dom (by_id reg) = d_id ` set builtin_metrics"
    using register_all_result(3) [of new_registry builtin_metrics reg] reg(1)
    by (simp add: new_default_def new_registry_def dom_map_of_conv_image_fst image_image)
  then have known: "resolve_id reg i = Some c \<Longrightarrow> c \<in> d_id ` set (reg_all reg)" for i c
    using reg(4) resolve_id_known [OF reg(2), of i c] by auto
  have col: "list_ex (\<lambda>r. fw_column r \<and> fw_id r = j) ?cat \<longleftrightarrow> j \<in> d_id ` set (reg_all reg) \<or> j \<in> co_id ` set structural_columns" for j
    using catalog_lists [of fw_column j reg new_dimensions] catalog_marks(1) [of reg new_dimensions j] by simp
  have grp: "list_ex (\<lambda>r. fw_group r \<and> fw_id r = j) ?cat \<longleftrightarrow> dims_has new_dimensions j" for j
    using catalog_lists [of fw_group j reg new_dimensions] catalog_marks(2) [of reg new_dimensions j] by (simp add: new_dimensions_ids)
  have get: "reg_get reg i \<noteq> None \<longleftrightarrow> resolve_id reg i \<noteq> None"
    by (simp add: reg_get_def resolve_id_def split: option.split)
  have "(is_ok (resolve_columns reg [i] human) \<longleftrightarrow>
      list_ex (\<lambda>r. fw_column r \<and> fw_id r = (case resolve_id reg i of None \<Rightarrow> i | Some c \<Rightarrow> c)) ?cat)"
  proof (cases "resolve_id reg i")
    case None
    have "by_alias reg j = Some j" if "j \<in> set (reg_order reg)" for j
      using reg(2) that unfolding reg_wf_def by blast
    then have "i \<notin> set (map d_id (reg_all reg))"
      using None unfolding reg_all_ids [OF reg(2)] resolve_id_def by auto
    then have "i \<notin> d_id ` set (reg_all reg)" by simp
    then show ?thesis
      using None get by (simp only: resolve_one col option.case simp_thms)
  next
    case (Some c)
    then show ?thesis
      using known [OF Some] get by (simp only: resolve_one col option.case simp_thms option.distinct)
  qed
  moreover have "sorted (map fw_id ?cat) \<and> distinct (map fw_id ?cat)"
    unfolding catalog_fields catalog_ids_def by simp
  ultimately show ?thesis
    unfolding reg(1) option.case Let_def grp by blast
qed

text \<open>
  Some names that filters accept are in no row: the catalog marks what can be filtered, but only among the names of
  its three registries.
\<close>

lemma filterable_not_listed:
  "list_all (\<lambda>f. filterable_fields reg f) [''pgid'', ''sid'', ''gid'', ''nice'', ''children'', ''leaves'']"
  "list_all (\<lambda>f. f \<notin> set (map d_id builtin_metrics @ map co_id structural_columns @ map dim_id default_dims))
     [''pgid'', ''sid'', ''gid'', ''nice'', ''children'', ''leaves'']"
  by (simp add: filterable_fields_def allowed_entity_fields_def allowed_row_fields_def entity_fields_def row_fields_def) code_simp

text \<open>
  \<open>no-source\<close> is never the answer for a metric of processes while a process is seen: a metric that no
  collector set reads as disabled.
\<close>

lemma first_reason_metric: "ps \<noteq> [] \<Longrightarrow> list_all (\<lambda>p. rd_avail (metric p i) \<noteq> AvUnset) ps \<Longrightarrow> first_reason (map (\<lambda>p. metric p i) ps) \<noteq> AvUnset"
  by (cases ps) auto

lemma unset_metric_reads_disabled:
  "d_scope d \<noteq> ScopeHost \<Longrightarrow> in_processes inp \<noteq> [] \<Longrightarrow> list_all (\<lambda>p. p_metrics p (d_id d) = None) (in_processes inp) \<Longrightarrow>
    availability_of d inp = ''disabled''"
proof -
  assume a: "d_scope d \<noteq> ScopeHost" "in_processes inp \<noteq> []" "list_all (\<lambda>p. p_metrics p (d_id d) = None) (in_processes inp)"
  have "metric p (d_id d) = unavailable Disabled []" if "p \<in> set (in_processes inp)" for p
    using a(3) that by (simp add: metric_def list_all_iff)
  then have vs: "map (\<lambda>p. metric p (d_id d)) (in_processes inp) = map (\<lambda>_. unavailable Disabled []) (in_processes inp)"
    by simp
  have "first_reason (map (\<lambda>_. unavailable Disabled []) ps) = Disabled" if "ps \<noteq> []" for ps :: "process list"
    using that by (cases ps) (simp_all add: unavailable_def)
  then show ?thesis using a by (simp add: availability_of_def vs Let_def list_ex_iff)
qed

end
