(* ===== verification/App_Commands.thy ===== *)
theory App_Commands
  imports Config_Examples App_Settings App_Control Go_Format Procfs_Source
begin

text \<open>
  Commands about the program itself: \<open>config check\<close>, \<open>convert\<close> and \<open>dump\<close> (\<open>app/config.go\<close>) with the loading of files
  (\<open>config/load.go\<close>), the listing of \<open>--show-config\<close> (\<open>app/settings.go\<close>), the user service (\<open>app/service.go\<close>) and
  \<open>daemon status\<close> (\<open>app/daemon.go\<close>, \<open>daemon/client.go\<close>). Flags arrive parsed; the text of help is left out.
\<close>

section \<open>Loading a file (\<open>config/load.go\<close>)\<close>

datatype file_failure = BadExtension string | FileUnread file_error | FileRefused config_error

text \<open>\<open>filepath.Ext\<close>: from the last dot, if no slash comes after it.\<close>

definition path_ext :: "string \<Rightarrow> string" where
  "path_ext p =
     (case str_cut_last (CHR ''.'') p of
        None \<Rightarrow> []
      | Some (a, b) \<Rightarrow> if CHR ''/'' \<in> set b then [] else CHR ''.'' # b)"

definition load_file ::
  "(format \<Rightarrow> string \<Rightarrow> (string, raw_config) result) \<Rightarrow> file_tree \<Rightarrow> string \<Rightarrow> validator \<Rightarrow> (file_failure, config) result" where
  "load_file decode fs path v =
     (case format_from_ext (path_ext path) of
        None \<Rightarrow> Inl (BadExtension path)
      | Some fmt \<Rightarrow>
          (case ft_read fs path of
             Inl e \<Rightarrow> Inl (FileUnread e)
           | Inr data \<Rightarrow> (case load decode data fmt v of Inl e \<Rightarrow> Inl (FileRefused e) | Inr c \<Rightarrow> Inr c)))"

text \<open>\<open>DefaultConfigDir\<close>; the home directory may be unknown.\<close>

definition default_config_dir :: "(string \<Rightarrow> string) \<Rightarrow> string option \<Rightarrow> string" where
  "default_config_dir getenv home =
     (if getenv ''XDG_CONFIG_HOME'' \<noteq> [] then path_join (getenv ''XDG_CONFIG_HOME'') ''procfit''
      else (case home of None \<Rightarrow> [] | Some h \<Rightarrow> path_join (path_join h ''.config'') ''procfit''))"

section \<open>The configuration commands (\<open>app/config.go\<close>)\<close>

definition config_validator :: "regexp_compile \<Rightarrow> registry \<Rightarrow> validator" where
  "config_validator rx reg =
     \<lparr>vd_regexp = rx, vd_has_metric = Some (reg_has reg), vd_has_dimension = Some (dims_has new_dimensions),
      vd_is_rate_field = Some (\<lambda>s. case reg_get reg s of None \<Rightarrow> False | Some d \<Rightarrow> is_rate d),
      vd_entity_fields = Some (allowed_entity_fields reg), vd_known_profile = Some is_known_profile\<rparr>"

text \<open>What the commands read: the files, the environment, the home directory, the codecs and the validator.\<close>

record config_port =
  cp_decode :: "format \<Rightarrow> string \<Rightarrow> (string, raw_config) result"
  cp_marshal :: "format \<Rightarrow> out_config \<Rightarrow> string"
  cp_files :: file_tree
  cp_getenv :: "string \<Rightarrow> string"
  cp_home :: "string option"
  cp_validator :: validator

definition discover_config_path :: "config_port \<Rightarrow> string list \<Rightarrow> (config_error, string) result" where
  "discover_config_path P args =
     discover (ft_exists (cp_files P)) \<lparr>di_no_config = False, di_explicit = (case args of [] \<Rightarrow> [] | a # _ \<Rightarrow> a),
       di_env_value = [], di_config_dir = default_config_dir (cp_getenv P) (cp_home P)\<rparr>"

definition config_check :: "config_port \<Rightarrow> string list \<Rightarrow> outcome" where
  "config_check P args =
     (if args \<noteq> [] \<and> (hd args = ''-h'' \<or> hd args = ''--help'') then
        outcome_of exit_ok (''Usage: procfit config check [file]'' @ newline @ newline @
          ''Validate a config file (or the discovered one). Exit 2 on error.'' @ newline)
      else (case discover_config_path P args of
          Inl e \<Rightarrow> outcome_of exit_usage []
        | Inr path \<Rightarrow>
            if path = [] then outcome_of exit_ok (''no config file found; built-in defaults are valid'' @ newline)
            else (case load_file (cp_decode P) (cp_files P) path (cp_validator P) of
                Inl e \<Rightarrow> outcome_of exit_usage []
              | Inr c \<Rightarrow> outcome_of exit_ok (path @ '': OK'' @ newline))))"

definition config_convert :: "config_port \<Rightarrow> string \<Rightarrow> string \<Rightarrow> outcome" where
  "config_convert P file to_fmt =
     (if file = [] then outcome_of exit_usage []
      else (case format_from_ext (''.'' @ to_fmt) of
          None \<Rightarrow> outcome_of exit_usage []
        | Some fmt \<Rightarrow>
            (case load_file (cp_decode P) (cp_files P) file (cp_validator P) of
               Inl e \<Rightarrow> outcome_of exit_usage []
             | Inr c \<Rightarrow> outcome_of exit_ok (encode (cp_marshal P) c fmt))))"

definition load_effective_config :: "config_port \<Rightarrow> string \<Rightarrow> (file_failure, config) result" where
  "load_effective_config P explicit =
     (case discover (ft_exists (cp_files P)) \<lparr>di_no_config = False, di_explicit = explicit,
          di_env_value = cp_getenv P ''PROCFIT_CONFIG'', di_config_dir = default_config_dir (cp_getenv P) (cp_home P)\<rparr> of
        Inl e \<Rightarrow> Inl (FileRefused e)
      | Inr path \<Rightarrow>
          if path = [] then
            (case load (cp_decode P) (''version = 1'' @ newline) TOML (cp_validator P) of
               Inl e \<Rightarrow> Inl (FileRefused e) | Inr c \<Rightarrow> Inr c)
          else load_file (cp_decode P) (cp_files P) path (cp_validator P))"

definition config_dump :: "config_port \<Rightarrow> string \<Rightarrow> string \<Rightarrow> outcome" where
  "config_dump P fmt_name explicit =
     (case format_from_ext (''.'' @ fmt_name) of
        None \<Rightarrow> outcome_of exit_usage []
      | Some fmt \<Rightarrow>
          (case load_effective_config P explicit of
             Inl e \<Rightarrow> outcome_of exit_usage []
           | Inr c \<Rightarrow> outcome_of exit_ok (encode (cp_marshal P) c fmt)))"

text \<open>A flag set that cannot be parsed ends a command: asking for help is no error.\<close>

definition parse_exit :: "bool \<Rightarrow> int" where
  "parse_exit asked_help = (if asked_help then exit_ok else exit_usage)"

section \<open>Where a setting came from (\<open>--show-config\<close>)\<close>

fun source_name :: "source \<Rightarrow> string" where
  "source_name SourceDefault = ''default''"
| "source_name SourceConfig = ''config''"
| "source_name SourceEnv = ''env''"
| "source_name SourceArgs = ''args''"

definition setting_line :: "string \<Rightarrow> string \<Rightarrow> string \<Rightarrow> string \<Rightarrow> string" where
  "setting_line name val src env_var = pad_right 14 name @ '' '' @ pad_right 28 val @ '' '' @ pad_right 8 src @ '' '' @ env_var @ newline"

definition print_effective_settings :: "flag_set \<Rightarrow> (string \<rightharpoonup> source) \<Rightarrow> string" where
  "print_effective_settings fs sources =
     setting_line ''SETTING'' ''VALUE'' ''SOURCE'' ''ENV'' @
     concat (map (\<lambda>s. setting_line (se_flag s) (fl_value (fs (se_flag s)))
       (case sources (se_flag s) of None \<Rightarrow> [] | Some src \<Rightarrow> source_name src) (env_name (se_flag s))) view_settings)"

section \<open>The user service (\<open>app/service.go\<close>)\<close>

definition user_unit_path :: "(string \<Rightarrow> string) \<Rightarrow> string option \<Rightarrow> string option" where
  "user_unit_path getenv home =
     (let base = (if getenv ''XDG_CONFIG_HOME'' \<noteq> [] then Some (getenv ''XDG_CONFIG_HOME'')
        else map_option (\<lambda>h. path_join h ''.config'') home)
      in map_option (\<lambda>b. path_join (path_join (path_join b ''systemd'') ''user'') ''procfit.service'') base)"

definition unit_contents :: "string \<Rightarrow> string" where
  "unit_contents exe =
     ''[Unit]'' @ newline @
     ''Description=procfit per-user process observer and workload controller daemon'' @ newline @
     ''After=default.target'' @ newline @ newline @
     ''[Service]'' @ newline @ ''Type=simple'' @ newline @
     ''ExecStart='' @ exe @ '' daemon run'' @ newline @
     ''ExecReload=/bin/kill -HUP $MAINPID'' @ newline @ ''Restart=on-failure'' @ newline @ newline @
     ''[Install]'' @ newline @ ''WantedBy=default.target'' @ newline"

text \<open>Making a directory, writing a file and removing one, over a world.\<close>

record 'w unit_port =
  up_mkdir :: "string \<Rightarrow> 'w \<Rightarrow> file_error option \<times> 'w"
  up_write :: "string \<Rightarrow> string \<Rightarrow> 'w \<Rightarrow> file_error option \<times> 'w"
  up_remove :: "string \<Rightarrow> 'w \<Rightarrow> file_error option \<times> 'w"

definition unit_dir :: "string \<Rightarrow> string" where
  "unit_dir path = (case str_cut_last (CHR ''/'') path of None \<Rightarrow> ''.'' | Some (d, _) \<Rightarrow> d)"

definition service_install :: "'w unit_port \<Rightarrow> string option \<Rightarrow> string option \<Rightarrow> 'w \<Rightarrow> outcome \<times> 'w" where
  "service_install U unit exe w =
     (case unit of
        None \<Rightarrow> (outcome_of exit_runtime [], w)
      | Some path \<Rightarrow>
          (case up_mkdir U (unit_dir path) w of
             (Some e, w) \<Rightarrow> (outcome_of exit_runtime [], w)
           | (None, w) \<Rightarrow>
               (case up_write U path (unit_contents (case exe of None \<Rightarrow> ''procfit'' | Some x \<Rightarrow> x)) w of
                  (Some e, w) \<Rightarrow> (outcome_of exit_runtime [], w)
                | (None, w) \<Rightarrow>
                    (outcome_of exit_ok (''wrote '' @ path @ newline @ ''to enable it (not done automatically):'' @ newline @
                      ''  systemctl --user daemon-reload && systemctl --user enable --now procfit'' @ newline), w))))"

definition service_uninstall :: "'w unit_port \<Rightarrow> string option \<Rightarrow> 'w \<Rightarrow> outcome \<times> 'w" where
  "service_uninstall U unit w =
     (case unit of
        None \<Rightarrow> (outcome_of exit_runtime [], w)
      | Some path \<Rightarrow>
          (case up_remove U path w of
             (e, w) \<Rightarrow>
               if e \<noteq> None \<and> e \<noteq> Some NotExist then (outcome_of exit_runtime [], w)
               else (outcome_of exit_ok (''removed '' @ path @ '' (disable it with: systemctl --user disable procfit)'' @ newline), w)))"

section \<open>Asking the daemon (\<open>app/daemon.go\<close>, \<open>daemon/client.go\<close>)\<close>

definition exit_daemon :: int where "exit_daemon = 10"

definition daemon_sock_path :: "string \<Rightarrow> string \<Rightarrow> string" where
  "daemon_sock_path dir override = (if override \<noteq> [] then override else path_join dir ''procfit.sock'')"

record hello_reply =
  hl_version :: int
  hl_name :: string
  hl_nice :: bool
  hl_signal :: bool

record health_reply =
  hh_uptime :: f64
  hh_generation :: int
  hh_clients :: int
  hh_last_scan :: f64
  hh_processes :: int

text \<open>A decoded answer; what is absent in the document is nil.\<close>

record wire_reply =
  wr_error :: string
  wr_hello :: "hello_reply option"
  wr_health :: "health_reply option"

text \<open>\<open>Do\<close>: one exchange, which fails on the connection or with the daemon's error.\<close>

definition client_do :: "(string \<Rightarrow> (string, wire_reply) result) \<Rightarrow> string \<Rightarrow> (string, wire_reply) result" where
  "client_do exchange typ =
     (case exchange typ of
        Inl e \<Rightarrow> Inl e
      | Inr r \<Rightarrow> if wr_error r \<noteq> [] then Inl (''daemon: '' @ wr_error r) else Inr r)"

definition client_hello :: "(string \<Rightarrow> (string, wire_reply) result) \<Rightarrow> (string, hello_reply option) result" where
  "client_hello exchange = (case client_do exchange ''hello'' of Inl e \<Rightarrow> Inl e | Inr r \<Rightarrow> Inr (wr_hello r))"

definition show_bool :: "bool \<Rightarrow> string" where
  "show_bool b = (if b then ''true'' else ''false'')"

definition status_lines :: "hello_reply \<Rightarrow> health_reply \<Rightarrow> string" where
  "status_lines g h =
     ''daemon: '' @ hl_name g @ '' v'' @ show_int (hl_version g) @ '' (nice='' @ show_bool (hl_nice g) @
       '' signal='' @ show_bool (hl_signal g) @ '')'' @ newline @
     ''uptime='' @ format_fixed 0 (hh_uptime h) @ ''s generation='' @ show_int (hh_generation h) @ '' clients='' @
       show_int (hh_clients h) @ '' processes='' @ show_int (hh_processes h) @ '' last-scan='' @ format_fixed 2 (hh_last_scan h) @
       ''ms'' @ newline"

text \<open>\<open>dial\<close> is the exchange of a connection, if there is one; a nil dereference is \<open>None\<close>.\<close>

definition daemon_status :: "(string \<Rightarrow> (string, wire_reply) result) option \<Rightarrow> outcome option" where
  "daemon_status dial =
     (case dial of
        None \<Rightarrow> Some (outcome_of exit_daemon [])
      | Some exchange \<Rightarrow>
          (case client_hello exchange of
             Inl e \<Rightarrow> Some (outcome_of exit_daemon [])
           | Inr greeting \<Rightarrow>
               (case client_do exchange ''health'' of
                  Inl e \<Rightarrow> Some (outcome_of exit_daemon [])
                | Inr r \<Rightarrow>
                    (case (wr_health r, greeting) of
                       (None, _) \<Rightarrow> Some (outcome_of exit_daemon [])
                     | (Some h, None) \<Rightarrow> None
                     | (Some h, Some hl) \<Rightarrow> Some (outcome_of exit_ok (status_lines hl h))))))"

text \<open>A peer that answers hello without a body makes the command dereference a nil pointer.\<close>

lemma status_can_panic:
  "daemon_status (Some (\<lambda>typ. Inr \<lparr>wr_error = [], wr_hello = None, wr_health =
     (if typ = ''health'' then Some \<lparr>hh_uptime = Fin 0, hh_generation = 0, hh_clients = 0, hh_last_scan = Fin 0, hh_processes = 0\<rparr>
      else None)\<rparr>)) = None"
  by (simp add: daemon_status_def client_hello_def client_do_def)

section \<open>A converted file is accepted\<close>

text \<open>The file a conversion is written to, added to the files.\<close>

definition with_file :: "string \<Rightarrow> string \<Rightarrow> file_tree \<Rightarrow> file_tree" where
  "with_file path data fs = fs\<lparr>ft_read := (\<lambda>p. if p = path then Inr data else ft_read fs p)\<rparr>"

text \<open>
  C37: Converting. When \<open>config convert\<close> succeeds and its output is stored in a file with the extension
  of the target format, \<open>config check\<close> accepts that file, and what it loads is the converted
  configuration up to the fields that writing drops. The decoder is required to read back what the encoder was given of it.
\<close>

theorem converted_config_checks:
  assumes codec: "cp_decode P fmt (cp_marshal P fmt (to_out c)) = Inr (read_back (to_out c))"
    and target: "format_from_ext (''.'' @ to_fmt) = Some fmt" and ext: "path_ext path = ''.'' @ to_fmt"
    and source: "load_file (cp_decode P) (cp_files P) file (cp_validator P) = Inr c" and given: "file \<noteq> []"
  shows "let written = P\<lparr>cp_files := with_file path (oc_out (config_convert P file to_fmt)) (cp_files P)\<rparr> in
    oc_exit (config_convert P file to_fmt) = exit_ok \<and>
    config_check written [path] = outcome_of exit_ok (path @ '': OK'' @ newline) \<and>
    load_effective_config written path = Inr (strip c)"
proof -
  obtain data fmt0 where "load (cp_decode P) data fmt0 (cp_validator P) = Inr c"
    using source by (auto simp: load_file_def split: option.splits sum.splits)
  then have reload: "load (cp_decode P) (encode (cp_marshal P) c fmt) fmt (cp_validator P) = Inr (strip c)"
    by (rule encode_load_round) (rule codec)
  have conv: "config_convert P file to_fmt = outcome_of exit_ok (encode (cp_marshal P) c fmt)"
    using target source given by (simp add: config_convert_def)
  let ?P = "P\<lparr>cp_files := with_file path (encode (cp_marshal P) c fmt) (cp_files P)\<rparr>"
  have lf: "load_file (cp_decode ?P) (cp_files ?P) path (cp_validator ?P) = Inr (strip c)"
    using ext target reload by (simp add: load_file_def with_file_def)
  have "path \<noteq> []" "path \<noteq> ''-h''" "path \<noteq> ''--help''"
    using ext by (auto simp: path_ext_def str_cut_last_def)
  then show ?thesis
    using lf conv by (simp add: Let_def outcome_of_def config_check_def discover_config_path_def discover_def load_effective_config_def)
qed

definition ex_port :: config_port where
  "ex_port = \<lparr>cp_decode = (\<lambda>fmt _. if fmt = TOML then Inr ex_raw else Inr (read_back (to_out ex_config))), cp_marshal = (\<lambda>_ _. []),
     cp_files = \<lparr>ft_read = (\<lambda>_. Inr []), ft_link = (\<lambda>_. Inl NotExist), ft_dir = (\<lambda>_. Inl NotExist), ft_exists = (\<lambda>_. True)\<rparr>,
     cp_getenv = (\<lambda>_. []), cp_home = None, cp_validator = ex_validator\<rparr>"

lemma ex_port_loads: "load_file (cp_decode ex_port) (cp_files ex_port) ''a.toml'' (cp_validator ex_port) = Inr ex_config"
proof -
  have "format_from_ext (path_ext ''a.toml'') = Some TOML" by code_simp
  then show ?thesis by (simp add: load_file_def ex_port_def load_def ex_normalize ex_valid)
qed

theorem converted_config_checks_witness:
  "config_check (ex_port\<lparr>cp_files := with_file ''b.json'' (oc_out (config_convert ex_port ''a.toml'' ''json'')) (cp_files ex_port)\<rparr>) [''b.json'']
    = outcome_of exit_ok (''b.json: OK'' @ newline)"
proof -
  have "format_from_ext (''.'' @ ''json'') = Some JSON" "path_ext ''b.json'' = ''.'' @ ''json''" by code_simp+
  from converted_config_checks [OF _ this ex_port_loads] show ?thesis by (simp add: Let_def ex_port_def)
qed

end
