(* ===== verification/Daemon_Run.thy ===== *)
theory Daemon_Run
  imports State_Restart Config_Daemon App_Commands
begin

text \<open>
  A daemon from its start to its shutdown (\<open>daemon/run.go\<close>, the loops of \<open>engine.go\<close> and \<open>server.go\<close>): what \<open>New\<close>
  makes of the state and the configuration it finds, and \<open>Run\<close> as a sequence of the events that its goroutines
  wait for. Each event is handled as a whole, in the order in which they are taken; the removal of the socket
  file is left out.
\<close>

section \<open>Starting (\<open>daemon/run.go\<close>, \<open>state/store.go\<close>, \<open>history/history.go\<close>)\<close>

definition open_store :: "string \<Rightarrow> string option \<Rightarrow> (string, string) result" where
  "open_store dir mkdir_error =
     (if dir = [] then Inl ''state: empty directory''
      else (case mkdir_error of Some e \<Rightarrow> Inl (''state: mkdir: '' @ e) | None \<Rightarrow> Inr dir))"

definition open_history :: "string \<Rightarrow> string option \<Rightarrow> (string, string) result" where
  "open_history dir mkdir_error =
     (case mkdir_error of Some e \<Rightarrow> Inl e | None \<Rightarrow> Inr (path_join dir ''events.ndjson''))"

text \<open>\<open>loadConfig\<close> looks only into the default directory.\<close>

definition daemon_config :: "config_port \<Rightarrow> (file_failure, config option) result" where
  "daemon_config C =
     (case discover (ft_exists (cp_files C)) \<lparr>di_no_config = False, di_explicit = [], di_env_value = [],
          di_config_dir = default_config_dir (cp_getenv C) (cp_home C)\<rparr> of
        Inl e \<Rightarrow> Inl (FileRefused e)
      | Inr path \<Rightarrow>
          if path = [] then Inr None
          else (case load_file (cp_decode C) (cp_files C) path (cp_validator C) of
              Inl e \<Rightarrow> Inl e
            | Inr c \<Rightarrow> Inr (Some c)))"

definition daemon_policies :: "config_port \<Rightarrow> (file_failure, policy_spec list) result" where
  "daemon_policies C =
     (case daemon_config C of
        Inl e \<Rightarrow> Inl e
      | Inr None \<Rightarrow> Inr []
      | Inr (Some c) \<Rightarrow> Inr (to_policies (cf_managed c)))"

text \<open>What \<open>New\<close> finds: failures of the sources and directories, the boot, the pids and the stored state.\<close>

record boot =
  bt_source_error :: "string option"
  bt_state_dir :: string
  bt_mkdir_error :: "string option"
  bt_history_error :: "string option"
  bt_boot_id :: string
  bt_pid :: int
  bt_ppid :: int
  bt_faults :: faults
  bt_dir :: dir
  bt_decode :: "string \<Rightarrow> (string, control_state) result"

record daemon =
  dm_engine :: dengine
  dm_history :: "string option"
  dm_dir :: dir

definition new_daemon ::
  "boot \<Rightarrow> config_port \<Rightarrow> registry \<Rightarrow> dimensions \<Rightarrow> (process \<Rightarrow> process) list \<Rightarrow> (string, daemon) result" where
  "new_daemon B C reg ds resolvers =
     (case bt_source_error B of
        Some e \<Rightarrow> Inl e
      | None \<Rightarrow> rbind (open_store (bt_state_dir B) (bt_mkdir_error B)) (\<lambda>store_dir.
          let (mgr, dir) = start_manager (bt_decode B) (bt_faults B) (bt_dir B)
                (new_manager (new_safeguards (bt_pid B) (bt_ppid B)) (bt_boot_id B));
              d = new_dengine reg ds mgr resolvers
          in Inr (case daemon_config C of
               Inr (Some c) \<Rightarrow>
                 \<lparr>dm_engine = install_policies (to_policies (cf_managed c)) d,
                  dm_history = (if cf_history c then
                      (case open_history (path_join (bt_state_dir B) ''history'') (bt_history_error B) of
                         Inr file \<Rightarrow> Some file | Inl e \<Rightarrow> None)
                    else None),
                  dm_dir = dir\<rparr>
             | _ \<Rightarrow> \<lparr>dm_engine = d, dm_history = None, dm_dir = dir\<rparr>)))"

section \<open>Running (\<open>daemon/run.go\<close>, \<open>engine.go\<close>, \<open>server.go\<close>)\<close>

text \<open>
  What the goroutines of a daemon wait for: the ticker, the signal to reload, a connection, a line of
  one or its end; and any change of the world around the daemon.
\<close>

datatype 'w live_event =
    Ticked source_reading
  | Hung_up "(string, policy_spec list) result"
  | Accepted nat "int option"
  | Received nat "(string, request) result"
  | Hung_off nat
  | Outside "'w \<Rightarrow> 'w"

record 'w live =
  lv_state :: "'w dstate"
  lv_sampling :: bool
  lv_open :: "nat list"
  lv_replies :: "(nat \<times> response) list"

definition start_live :: "'w dstate \<Rightarrow> 'w live" where
  "start_live s = \<lparr>lv_state = s, lv_sampling = True, lv_open = [], lv_replies = []\<rparr>"

text \<open>A tick of \<open>Engine.Run\<close>: an error ends the loop, and nobody looks at it.\<close>

definition engine_tick :: "'w ports \<Rightarrow> source_reading \<Rightarrow> 'w live \<Rightarrow> 'w live" where
  "engine_tick P r l =
     (if \<not> lv_sampling l then l
      else (let (s, e) = tick P r (lv_state l) in l\<lparr>lv_state := s, lv_sampling := (e = None)\<rparr>))"

definition watch_reload :: "(string, policy_spec list) result \<Rightarrow> 'w live \<Rightarrow> 'w live" where
  "watch_reload loaded l = (let (d, w, evs) = lv_state l in l\<lparr>lv_state := (fst (reload loaded d), w, evs)\<rparr>)"

definition accept_client :: "'w ports \<Rightarrow> nat \<Rightarrow> int option \<Rightarrow> 'w live \<Rightarrow> 'w live" where
  "accept_client P c peer l =
     (if peer \<noteq> Some (pt_owner_uid P) then l\<lparr>lv_replies := lv_replies l @ [(c, RespError Unauthorized)]\<rparr>
      else l\<lparr>lv_open := lv_open l @ [c]\<rparr>)"

definition client_line :: "'w ports \<Rightarrow> nat \<Rightarrow> (string, request) result \<Rightarrow> 'w live \<Rightarrow> 'w live" where
  "client_line P c line l =
     (if c \<notin> set (lv_open l) then l
      else (let (resp, s) = (case line of
                Inl e \<Rightarrow> (RespError (BadRequest e), lv_state l)
              | Inr req \<Rightarrow> dispatch P (int (length (lv_open l))) req (lv_state l))
            in l\<lparr>lv_state := s, lv_replies := lv_replies l @ [(c, resp)]\<rparr>))"

fun live_step :: "'w ports \<Rightarrow> 'w live_event \<Rightarrow> 'w live \<Rightarrow> 'w live" where
  "live_step P (Ticked r) l = engine_tick P r l"
| "live_step P (Hung_up loaded) l = watch_reload loaded l"
| "live_step P (Accepted c peer) l = accept_client P c peer l"
| "live_step P (Received c line) l = client_line P c line l"
| "live_step P (Hung_off c) l = l\<lparr>lv_open := remove1 c (lv_open l)\<rparr>"
| "live_step P (Outside f) l = (let (d, w, evs) = lv_state l in l\<lparr>lv_state := (d, f w, evs)\<rparr>)"

definition run_live :: "'w ports \<Rightarrow> 'w live_event list \<Rightarrow> 'w live \<Rightarrow> 'w live" where
  "run_live P es l = fold (live_step P) es l"

text \<open>
  \<open>Run\<close> up to the end of its context: without a listener it returns before anything is started or saved;
  otherwise the state is saved when it ends, whatever that save returns.
\<close>

definition run_daemon ::
  "'w ports \<Rightarrow> string option \<Rightarrow> ('w \<Rightarrow> control_state \<Rightarrow> 'w \<times> string option) \<Rightarrow> 'w live_event list \<Rightarrow> 'w dstate \<Rightarrow>
    string option \<times> 'w live" where
  "run_daemon P listen_error save es s =
     (case listen_error of
        Some e \<Rightarrow> (Some e, start_live s)
      | None \<Rightarrow>
          let l = run_live P es (start_live s); (d, w, evs) = lv_state l
          in (None, l\<lparr>lv_state := (d, fst (save w (mg_state (de_mgr d))), evs)\<rparr>))"

section \<open>The command (\<open>app/daemon.go\<close>)\<close>

text \<open>
  How \<open>daemon run\<close> ends. The loop of \<open>Engine.Run\<close> takes one sample before it makes its ticker, and \<open>NewTicker\<close> panics when
  the interval is not positive; a panic ends the program, without the save.
\<close>

datatype 'w daemon_end = NotStarted int | Ended int "'w live" | Crashed "'w live"

fun good_tick :: "'w live_event \<Rightarrow> bool" where
  "good_tick (Ticked r) = is_ok (sr_list r)"
| "good_tick _ = False"

fun is_sample :: "'w live_event \<Rightarrow> bool" where
  "is_sample (Ticked r) = True"
| "is_sample _ = False"

definition daemon_run ::
  "'w ports \<Rightarrow> int \<Rightarrow> (string, daemon) result \<Rightarrow> string option \<Rightarrow> ('w \<Rightarrow> control_state \<Rightarrow> 'w \<times> string option) \<Rightarrow>
    'w live_event list \<Rightarrow> 'w \<Rightarrow> 'w daemon_end" where
  "daemon_run P interval new listen_error save es w =
     (case new of
        Inl e \<Rightarrow> NotStarted exit_runtime
      | Inr dm \<Rightarrow>
          let s = (dm_engine dm, w, []) in
          (case run_daemon P listen_error save es s of
             (Some e, l) \<Rightarrow> Ended exit_runtime l
           | (None, l) \<Rightarrow>
               (case dropWhile (\<lambda>e. \<not> is_sample e) es of
                  first # _ \<Rightarrow>
                    if interval \<le> 0 \<and> good_tick first
                    then Crashed (run_live P (takeWhile (\<lambda>e. \<not> is_sample e) es @ [first]) (start_live s))
                    else Ended exit_ok l
                | [] \<Rightarrow> Ended exit_ok l)))"

lemma run_live_simps [simp]:
  "run_live P [] l = l" "run_live P (e # es) l = run_live P es (live_step P e l)"
  "run_live P (es @ es') l = run_live P es' (run_live P es l)"
  by (simp_all add: run_live_def)

section \<open>The steps of the abstract daemon\<close>

lemma one_step: "daemon_step P s s' \<Longrightarrow> daemon_reaches P s s'"
  by (simp add: daemon_reaches_def)

lemma no_step: "daemon_reaches P s s"
  by (simp add: daemon_reaches_def)

lemma dispatch_reaches: "daemon_reaches P s (snd (dispatch P clients req s))"
  by (cases "dispatch P clients req s") (auto intro: one_step step_request)

lemma engine_tick_reaches: "daemon_reaches P (lv_state l) (lv_state (engine_tick P r l))"
  by (cases "tick P r (lv_state l)") (auto simp: engine_tick_def no_step intro!: one_step step_tick)

lemma watch_reload_reaches: "daemon_reaches P (lv_state l) (lv_state (watch_reload loaded l))"
proof -
  obtain d w evs where s: "lv_state l = (d, w, evs)" by (cases "lv_state l")
  obtain d' e where "reload loaded d = (d', e)" by (cases "reload loaded d")
  from step_reload [OF this, of P w evs] this show ?thesis by (auto simp: watch_reload_def s intro: one_step)
qed

lemma client_line_reaches: "daemon_reaches P (lv_state l) (lv_state (client_line P c line l))"
  by (cases line) (auto simp: client_line_def no_step case_prod_beta dispatch_reaches)

lemma live_step_reaches: "daemon_reaches P (lv_state l) (lv_state (live_step P e l))"
proof (cases e)
  case (Outside f)
  obtain d w evs where "lv_state l = (d, w, evs)" by (cases "lv_state l")
  then show ?thesis by (auto simp: Outside intro!: one_step step_world)
qed (simp_all add: engine_tick_reaches watch_reload_reaches client_line_reaches accept_client_def no_step)

lemma run_live_reaches: "daemon_reaches P (lv_state l) (lv_state (run_live P es l))"
proof (induction es arbitrary: l)
  case (Cons e es)
  show ?case
    using live_step_reaches [of P l e] Cons [of "live_step P e l"] by (simp add: daemon_reaches_def)
qed (simp add: no_step)

text \<open>
  The goroutines are steps. Whatever ticks, reloads, connections, lines and changes of the world a run consists
  of, and whether the listener could be created, its state is reached by steps of the abstract daemon, so every
  invariant of those steps holds during the run; and its end adds nothing to them but one save.
\<close>

theorem run_refines_steps:
  "let l = snd (run_daemon P listen_error save es s) in
   \<exists>w. daemon_reaches P s (fst (lv_state l), w, snd (snd (lv_state l))) \<and>
     fst (snd (lv_state l)) = (if listen_error = None then fst (save w (mg_state (de_mgr (fst (lv_state l))))) else w)"
proof (cases listen_error)
  case None
  obtain d w evs where l: "lv_state (run_live P es (start_live s)) = (d, w, evs)"
    by (cases "lv_state (run_live P es (start_live s))")
  have "daemon_reaches P s (d, w, evs)" using run_live_reaches [of P "start_live s" es] l by (simp add: start_live_def)
  then show ?thesis by (auto simp: run_daemon_def None l)
next
  case (Some e)
  show ?thesis by (cases s) (auto simp: run_daemon_def Some start_live_def no_step)
qed

section \<open>One connection at a time\<close>

lemma lines_alone:
  "lv_open l = [c] \<Longrightarrow> run_live P (map (Received c) lines) l =
    l\<lparr>lv_state := snd (serve_lines P 1 lines (lv_state l)),
      lv_replies := lv_replies l @ map (Pair c) (fst (serve_lines P 1 lines (lv_state l)))\<rparr>"
proof (induction lines arbitrary: l)
  case (Cons line lines)
  then show ?case by (cases line) (simp_all add: client_line_def case_prod_beta Let_def)
qed simp

text \<open>
  A client that is alone is served by the handler of its connection: the same answers in the same order and the same
  state, whoever it is.
\<close>

theorem connection_alone_is_handle:
  "let l = run_live P (Accepted c peer # map (Received c) lines @ [Hung_off c]) (start_live s) in
   lv_state l = snd (handle P peer 0 lines s) \<and> lv_replies l = map (Pair c) (fst (handle P peer 0 lines s)) \<and>
   lv_open l = []"
proof (cases "peer = Some (pt_owner_uid P)")
  case True
  then show ?thesis
    by (simp add: accept_client_def lines_alone start_live_def handle_def)
next
  case False
  have "run_live P (map (Received c) lines) l = l" if "lv_open l = []" for l
    using that by (induction lines) (simp_all add: client_line_def)
  then show ?thesis using False by (simp add: accept_client_def start_live_def handle_def)
qed

section \<open>Samples and generations\<close>

text \<open>What the sampling loop of an engine owns; a request or a reload leaves it alone.\<close>

definition sampled :: "dengine \<Rightarrow> sampler \<times> query_input" where
  "sampled d = (de_sampler d, snapshot_input d)"

lemma sampled_update [simp]: "sampled (d\<lparr>de_mgr := m\<rparr>) = sampled d"
  by (simp add: sampled_def snapshot_input_def)

lemma sampled_on_manager: "sampled (fst (snd (on_manager f s))) = sampled (fst s)"
  by (cases s) (simp add: on_manager_def case_prod_beta)

lemma sampled_run_named: "sampled (fst (snd (run_named P c name s))) = sampled (fst s)"
  by (simp add: run_named_def Let_def sampled_on_manager split: option.split)

lemma sampled_ensure_target: "sampled (snd (ensure_target P spec d w)) = sampled d"
  by (simp add: ensure_target_def Let_def case_prod_beta split: sum.split)

lemma sampled_run_control: "sampled (fst (snd (run_control P c s))) = sampled (fst s)"
proof -
  obtain d w evs where s: "s = (d, w, evs)" by (cases s)
  show ?thesis
    using sampled_ensure_target [of P "cr_target c" d w]
    by (auto simp: s run_control_def Let_def case_prod_beta sampled_on_manager sampled_run_named split: sum.split prod.split)
qed

lemma sampled_dispatch: "sampled (fst (snd (dispatch P clients req s))) = sampled (fst s)"
  using sampled_run_control [of P _ s]
  by (cases s) (auto simp: dispatch_def control_request_def Let_def case_prod_beta split: option.splits sum.splits prod.splits)

lemma sampled_reload: "sampled (fst (reload loaded d)) = sampled d"
  by (simp add: reload_def install_policies_def split: sum.split)

lemma tick_sampled:
  "tick P r (d, w, evs) = (s', e) \<Longrightarrow> (e = None \<longleftrightarrow> is_ok (sr_list r)) \<and>
    (if e = None then sm_gen (de_sampler (fst s')) = sm_gen (de_sampler d) + 1 \<and>
        de_generation (fst s') = sm_gen (de_sampler d) + 1
     else sampled (fst s') = sampled d)"
  by (cases "sr_list r") (auto simp: tick_def sample_def Let_def case_prod_beta)

fun readings :: "'w live_event list \<Rightarrow> source_reading list" where
  "readings [] = []"
| "readings (Ticked r # es) = r # readings es"
| "readings (_ # es) = readings es"

text \<open>The generations still to come: one for each reading up to the first that fails.\<close>

definition fresh :: "'w live \<Rightarrow> 'w live_event list \<Rightarrow> nat" where
  "fresh l es = (if lv_sampling l then length (takeWhile (\<lambda>r. is_ok (sr_list r)) (readings es)) else 0)"

lemma step_not_tick:
  "readings [e] = [] \<Longrightarrow> sampled (fst (lv_state (live_step P e l))) = sampled (fst (lv_state l)) \<and>
    lv_sampling (live_step P e l) = lv_sampling l"
  by (cases e; cases "lv_state l")
    (auto simp: watch_reload_def sampled_reload accept_client_def client_line_def sampled_dispatch case_prod_beta Let_def
      split: sum.split)

lemma generations:
  "de_generation (fst (lv_state l)) = sm_gen (de_sampler (fst (lv_state l))) \<Longrightarrow>
    de_generation (fst (lv_state (run_live P es l))) = de_generation (fst (lv_state l)) + int (fresh l es)"
proof (induction es arbitrary: l)
  case (Cons e es)
  show ?case
  proof (cases "\<exists>r. e = Ticked r \<and> lv_sampling l")
    case True
    then obtain r where r: "e = Ticked r" "lv_sampling l" by blast
    obtain d w evs where "lv_state l = (d, w, evs)" by (cases "lv_state l")
    moreover obtain s' err where "tick P r (d, w, evs) = (s', err)" by (cases "tick P r (d, w, evs)")
    ultimately have e: "e = Ticked r" "lv_sampling l" "lv_state l = (d, w, evs)" "tick P r (d, w, evs) = (s', err)"
      using r by blast+
    have "de_generation (fst s') = sm_gen (de_sampler (fst s'))"
      using tick_sampled [OF e(4)] Cons.prems e(3) by (auto simp: sampled_def snapshot_input_def split: if_splits)
    then show ?thesis
      using Cons.IH [of "live_step P e l"] Cons.prems tick_sampled [OF e(4)] e
      by (auto simp: engine_tick_def fresh_def sampled_def snapshot_input_def split: if_splits)
  next
    case False
    then have "sampled (fst (lv_state (live_step P e l))) = sampled (fst (lv_state l)) \<and> lv_sampling (live_step P e l) = lv_sampling l
        \<and> fresh l (e # es) = fresh l es"
      using step_not_tick [of e P l] by (cases e) (auto simp: engine_tick_def fresh_def)
    then show ?thesis
      using Cons.IH [of "live_step P e l"] Cons.prems by (auto simp: sampled_def snapshot_input_def fresh_def)
  qed
qed (simp add: fresh_def)

text \<open>
  C17: How long a daemon observes. Whatever else happens, the generation that a daemon has reached, and reports as its
  health, is the number of readings that were listed before the first that could not be: from that one
  on it goes on answering from what it has, and samples no more.
\<close>

theorem generation_counts_samples:
  "de_generation (fst (lv_state (run_live P es (start_live (new_dengine reg ds mgr resolvers, w, evs))))) =
     int (length (takeWhile (\<lambda>r. is_ok (sr_list r)) (readings es)))"
  using generations [of "start_live (new_dengine reg ds mgr resolvers, w, evs)" P es]
  by (simp add: start_live_def new_dengine_def new_sampler_def fresh_def)

section \<open>Shutdown and restart\<close>

lemma runtime_kept: "runtime (st_targets (set_policies specs st)) = runtime (st_targets st)"
proof -
  have "filter (\<lambda>t. t_origin t = OriginRuntime) (map (policy_target prev) specs) = []" for prev
    by (rule filter_False) (auto simp: policy_target_def)
  then show ?thesis
    by (auto simp: set_policies_def runtime_def Let_def intro!: filter_cong)
qed

lemma new_daemon_runtime:
  assumes "new_daemon B C reg ds resolvers = Inr dm"
  shows "runtime (st_targets (mg_state (de_mgr (dm_engine dm)))) =
    runtime (st_targets (mg_state (fst (start_manager (bt_decode B) (bt_faults B) (bt_dir B)
      (new_manager (new_safeguards (bt_pid B) (bt_ppid B)) (bt_boot_id B))))))"
  using assms
  by (auto simp: new_daemon_def rbind_eq_Inr Let_def case_prod_beta install_policies_def runtime_kept new_dengine_def
      split: option.splits sum.splits)

lemma new_daemon_policies:
  assumes "new_daemon B C reg ds resolvers = Inr dm" and "daemon_config C = Inr None"
  shows "st_targets (mg_state (de_mgr (dm_engine dm))) =
    st_targets (mg_state (fst (start_manager (bt_decode B) (bt_faults B) (bt_dir B)
      (new_manager (new_safeguards (bt_pid B) (bt_ppid B)) (bt_boot_id B)))))"
  using assms
  by (auto simp: new_daemon_def rbind_eq_Inr Let_def case_prod_beta new_dengine_def split: option.splits)

text \<open>The policies of a file that has gone are dropped by a reload and kept by a restart.\<close>

lemma policies_without_a_file:
  assumes "new_daemon B C reg ds resolvers = Inr dm" and "daemon_config C = Inr None"
  shows "policies (fst (reload (daemon_policies C) (dm_engine dm))) = []" and
    "policies (dm_engine dm) = filter (\<lambda>t. t_origin t = OriginConfig)
       (st_targets (mg_state (fst (start_manager (bt_decode B) (bt_faults B) (bt_dir B)
          (new_manager (new_safeguards (bt_pid B) (bt_ppid B)) (bt_boot_id B))))))"
  using new_daemon_policies [OF assms] assms(2)
  by (simp_all add: policies_def daemon_policies_def reload_def install_policies_def set_policies_def)

text \<open>
  C16: From a shutdown to the next start. When the save at the end of a run succeeds and the next daemon of the same boot
  reads it, it starts, and has every target that clients had created, with its bindings and the originals
  captured in them, in the same order, whatever configuration it finds; the directory is left alone.
\<close>

theorem runtime_targets_survive_restart:
  assumes "snd (store_saver F enc get put (fst (snd (lv_state (run_live P es (start_live s)))))
      (mg_state (de_mgr (fst (lv_state (run_live P es (start_live s))))))) = None"
    and "\<And>d w. get (put d w) = d"
    and "\<And>data. enc (mg_state (de_mgr (fst (lv_state l)))) = Inr data \<Longrightarrow> dec data = Inr (mg_state (de_mgr (fst (lv_state l))))"
    and "l = snd (run_daemon P None (store_saver F enc get put) es s)"
    and "bt_source_error B = None" and "bt_state_dir B \<noteq> []" and "bt_mkdir_error B = None"
    and "fa_read (bt_faults B) = None" and "bt_decode B = dec" and "bt_dir B = get (fst (snd (lv_state l)))"
    and "bt_boot_id B = st_boot_id (mg_state (de_mgr (fst (lv_state l))))"
  shows "case new_daemon B C reg ds resolvers of
      Inl e \<Rightarrow> False
    | Inr dm \<Rightarrow> runtime (st_targets (mg_state (de_mgr (dm_engine dm)))) =
          runtime (st_targets (mg_state (de_mgr (fst (lv_state l))))) \<and> dm_dir dm = bt_dir B"
proof -
  obtain d w evs where run: "lv_state (run_live P es (start_live s)) = (d, w, evs)"
    by (cases "lv_state (run_live P es (start_live s))")
  obtain w' where saved: "store_saver F enc get put w (mg_state (de_mgr d)) = (w', None)"
    using assms(1) run by (cases "store_saver F enc get put w (mg_state (de_mgr d))") auto
  have l: "lv_state l = (d, w', evs)" using saved run by (simp add: assms(4) run_daemon_def)
  from saved_None [OF saved assms(2)]
  obtain data where data: "enc (mg_state (de_mgr d)) = Inr data" "get w' = (get w)(state_file \<mapsto> new_file data)" by blast
  have "get w' state_file = Some (new_file data)" by (simp add: data(2))
  from start_saved [of "bt_faults B" "get w'" data dec, OF assms(8) this]
  have start: "start_manager (bt_decode B) (bt_faults B) (bt_dir B) (new_manager sg (bt_boot_id B)) =
      ((new_manager sg (bt_boot_id B))\<lparr>mg_state := mg_state (de_mgr d)\<rparr>, get w')" for sg
    using assms(3,9-11) l data(1) by simp
  obtain dm where dm: "new_daemon B C reg ds resolvers = Inr dm"
    using assms(5-7) by (cases "new_daemon B C reg ds resolvers")
      (auto simp: new_daemon_def open_store_def rbind_eq_Inl Let_def split: prod.splits)
  have "dm_dir dm = bt_dir B"
    using dm start assms(10) l by (auto simp: new_daemon_def rbind_eq_Inr Let_def split: option.splits sum.splits)
  then show ?thesis using new_daemon_runtime [OF dm] start dm l by simp
qed

definition ex_boot :: "control_state \<Rightarrow> dir \<Rightarrow> boot" where
  "ex_boot st dir = \<lparr>bt_source_error = None, bt_state_dir = ''/run/procfit'', bt_mkdir_error = None, bt_history_error = None,
     bt_boot_id = st_boot_id st, bt_pid = 70, bt_ppid = 60, bt_faults = no_faults [], bt_dir = dir,
     bt_decode = ex_decode [mg_state (de_mgr ex_daemon), st]\<rparr>"

definition ex_live :: "dir live" where
  "ex_live = run_live ex_disk_ports [Accepted 1 (Some 1000), Received 1 (Inr (ex_request False)), Hung_off 1]
     (start_live (ex_daemon, Map.empty, []))"

lemma ex_live_targets:
  "map t_name (runtime (st_targets (mg_state (de_mgr (fst (lv_state ex_live)))))) = [''jobs'']"
  "length (lv_replies ex_live) = 1"
  "ex_encode (mg_state (de_mgr ex_daemon)) \<noteq> ex_encode (mg_state (de_mgr (fst (lv_state ex_live))))"
  by code_simp+

theorem runtime_targets_survive_restart_witness:
  "let l = snd (run_daemon ex_disk_ports None (store_saver (\<lambda>_. no_faults ''1'') ex_encode id (\<lambda>d _. d))
         [Accepted 1 (Some 1000), Received 1 (Inr (ex_request False)), Hung_off 1] (ex_daemon, Map.empty, []));
       st = mg_state (de_mgr (fst (lv_state l)))
   in case new_daemon (ex_boot st (fst (snd (lv_state l)))) ex_port new_registry new_dimensions [] of
        Inl e \<Rightarrow> False
      | Inr dm \<Rightarrow> map t_name (runtime (st_targets (mg_state (de_mgr (dm_engine dm))))) = [''jobs'']"
proof -
  let ?es = "[Accepted 1 (Some 1000), Received 1 (Inr (ex_request False)), Hung_off 1] :: dir live_event list"
  let ?save = "store_saver (\<lambda>_. no_faults ''1'') ex_encode id (\<lambda>d _. d) :: dir \<Rightarrow> control_state \<Rightarrow> dir \<times> string option"
  let ?l = "snd (run_daemon ex_disk_ports None ?save ?es (ex_daemon, Map.empty, []))"
  let ?st = "mg_state (de_mgr (fst (lv_state ?l)))"
  have ok: "snd (?save (fst (snd (lv_state ex_live))) (mg_state (de_mgr (fst (lv_state ex_live))))) = None"
    by code_simp
  have st: "?st = mg_state (de_mgr (fst (lv_state ex_live)))"
    unfolding run_daemon_def ex_live_def by (simp add: case_prod_beta Let_def)
  have dec: "ex_encode ?st = Inr data \<Longrightarrow> ex_decode [mg_state (de_mgr ex_daemon), ?st] data = Inr ?st" for data
    by (rule ex_decode_encode) (use ex_live_targets(3) st in simp_all)
  have "case new_daemon (ex_boot ?st (fst (snd (lv_state ?l)))) ex_port new_registry new_dimensions [] of
      Inl e \<Rightarrow> False
    | Inr dm \<Rightarrow> runtime (st_targets (mg_state (de_mgr (dm_engine dm)))) = runtime (st_targets ?st) \<and>
        dm_dir dm = bt_dir (ex_boot ?st (fst (snd (lv_state ?l))))"
    by (rule runtime_targets_survive_restart [where dec = "ex_decode [mg_state (de_mgr ex_daemon), ?st]", OF ok [unfolded ex_live_def] _ _ refl])
      ((erule dec | simp add: ex_boot_def no_faults_def)+)
  then show ?thesis
    using ex_live_targets(1) st unfolding Let_def by (auto split: sum.splits)
qed

section \<open>What a client was told\<close>

lemma new_daemon_start:
  assumes "bt_source_error B = None" and "bt_state_dir B \<noteq> []" and "bt_mkdir_error B = None"
    and "start_manager (bt_decode B) (bt_faults B) (bt_dir B)
      (new_manager (new_safeguards (bt_pid B) (bt_ppid B)) (bt_boot_id B)) = (m, dir)"
  obtains dm where "new_daemon B C reg ds resolvers = Inr dm" and "dm_dir dm = dir"
    and "mg_state (de_mgr (dm_engine dm)) =
      (case daemon_config C of Inr (Some c) \<Rightarrow> set_policies (to_policies (cf_managed c)) (mg_state m) | _ \<Rightarrow> mg_state m)"
proof -
  obtain dm where dm: "new_daemon B C reg ds resolvers = Inr dm"
    using assms by (cases "new_daemon B C reg ds resolvers")
      (auto simp: new_daemon_def open_store_def rbind_eq_Inl Let_def split: prod.splits)
  show ?thesis
    using dm assms by (intro that [OF dm])
      (auto simp: new_daemon_def rbind_eq_Inr Let_def new_dengine_def install_policies_def split: option.splits sum.splits)
qed

text \<open>
  C15: what a client was told is on disk. When the daemon answers a control request that was not a dry run with a
  result, a daemon that starts on that disk has the state of the running one, or in another boot that state with
  its targets inactive and without bindings, and then installs the policies of its configuration, if it loads one. These replace the
  targets that came from a configuration and no others: the targets that clients created are all there, with their bindings and
  captured originals, in the same order. The directory is left as it was.
\<close>

theorem acknowledged_survives_restart:
  assumes "control_request P (Some c) s = (RespControl res, d', w', evs')" and "\<not> cr_dry_run c"
    and "pt_saver P = Some (store_saver F enc get put)" and "\<And>d w. get (put d w) = d"
    and "\<And>data. enc (mg_state (de_mgr d')) = Inr data \<Longrightarrow> bt_decode B data = Inr (mg_state (de_mgr d'))"
    and "bt_source_error B = None" and "bt_state_dir B \<noteq> []" and "bt_mkdir_error B = None"
    and "fa_read (bt_faults B) = None" and "bt_dir B = get w'"
  shows "let st = mg_state (de_mgr d'); found = (if bt_boot_id B = st_boot_id st then st else unbound (bt_boot_id B) st) in
    case new_daemon B C reg ds resolvers of
      Inl e \<Rightarrow> False
    | Inr dm \<Rightarrow>
        mg_state (de_mgr (dm_engine dm)) =
          (case daemon_config C of Inr (Some c) \<Rightarrow> set_policies (to_policies (cf_managed c)) found | _ \<Rightarrow> found) \<and>
        runtime (st_targets (mg_state (de_mgr (dm_engine dm)))) = runtime (st_targets found) \<and> dm_dir dm = get w'"
proof -
  from acknowledged_saved [OF assms(1,3,2)]
  obtain w where "store_saver F enc get put w (mg_state (de_mgr d')) = (w', None)" by blast
  from saved_None [OF this assms(4)]
  obtain data where data: "enc (mg_state (de_mgr d')) = Inr data" "get w' = (get w)(state_file \<mapsto> new_file data)" by blast
  have "bt_dir B state_file = Some (new_file data)" by (simp add: assms(10) data(2))
  note start = start_saved [of "bt_faults B" "bt_dir B" data "bt_decode B", OF assms(9) this assms(5) [OF data(1)],
      of "new_safeguards (bt_pid B) (bt_ppid B)" "bt_boot_id B"]
  show ?thesis
    by (rule new_daemon_start [OF assms(6-8) start, of C reg ds resolvers])
      (use assms(10) in \<open>simp add: Let_def runtime_kept split: sum.split option.split\<close>)
qed

definition ex_acknowledged where
  "ex_acknowledged = control_request ex_disk_ports (Some (ex_control False)) (ex_daemon, Map.empty, [])"

definition originals_of :: "control_state \<Rightarrow> (string \<times> (int \<times> int option) list) list" where
  "originals_of st = map (\<lambda>t. (t_name t, map (\<lambda>b. (b_pid b, map_option nf_original (b_nice b))) (t_bindings t))) (runtime (st_targets st))"

lemma ex_acknowledged_ok:
  "case fst ex_acknowledged of RespControl res \<Rightarrow> True | _ \<Rightarrow> False"
  "originals_of (mg_state (de_mgr (fst (snd ex_acknowledged)))) = [(''jobs'', [(100, Some 0), (101, Some 1)])]"
  "ex_encode (mg_state (de_mgr ex_daemon)) \<noteq> ex_encode (mg_state (de_mgr (fst (snd ex_acknowledged))))"
  by code_simp+

theorem acknowledged_survives_restart_witness:
  "let st = mg_state (de_mgr (fst (snd ex_acknowledged)))
   in case new_daemon (ex_boot st (fst (snd (snd ex_acknowledged)))) ex_port new_registry new_dimensions [] of
        Inl e \<Rightarrow> False
      | Inr dm \<Rightarrow> originals_of (mg_state (de_mgr (dm_engine dm))) = [(''jobs'', [(100, Some 0), (101, Some 1)])]"
proof -
  obtain res where res: "fst ex_acknowledged = RespControl res"
    using ex_acknowledged_ok(1) by (cases "fst ex_acknowledged") auto
  let ?st = "mg_state (de_mgr (fst (snd ex_acknowledged)))"
  let ?B = "ex_boot ?st (fst (snd (snd ex_acknowledged)))"
  have "control_request ex_disk_ports (Some (ex_control False)) (ex_daemon, Map.empty, []) =
      (RespControl res, fst (snd ex_acknowledged), fst (snd (snd ex_acknowledged)), snd (snd (snd ex_acknowledged)))"
    using res by (simp add: ex_acknowledged_def prod_eq_iff)
  note kept = acknowledged_survives_restart [OF this, of "\<lambda>_. no_faults ''1''" ex_encode id "\<lambda>d _. d" ?B ex_port new_registry new_dimensions "[]"]
  have boot: "bt_source_error ?B = None" "bt_state_dir ?B \<noteq> []" "bt_mkdir_error ?B = None" "fa_read (bt_faults ?B) = None"
    "bt_boot_id ?B = st_boot_id ?st" "bt_dir ?B = id (fst (snd (snd ex_acknowledged)))"
    "bt_decode ?B = ex_decode [mg_state (de_mgr ex_daemon), ?st]"
    by (simp_all add: ex_boot_def no_faults_def)
  have "case new_daemon ?B ex_port new_registry new_dimensions [] of
      Inl e \<Rightarrow> False | Inr dm \<Rightarrow> runtime (st_targets (mg_state (de_mgr (dm_engine dm)))) = runtime (st_targets ?st)"
    using kept [unfolded Let_def boot simp_thms(6) if_True] boot(2) ex_decode_encode [OF ex_acknowledged_ok(3)]
    by (cases "new_daemon ?B ex_port new_registry new_dimensions []") (auto simp: ex_control_def ex_disk_ports_def)
  then show ?thesis
    using ex_acknowledged_ok(2) by (auto simp: Let_def originals_of_def split: sum.splits)
qed

section \<open>An interval that is not positive\<close>

text \<open>The flag is not checked: a daemon that is asked for an interval of zero crashes after its first sample.\<close>

lemma zero_interval_crashes:
  assumes "interval \<le> 0" and "is_ok (sr_list r)"
  shows "daemon_run P interval (Inr dm) None save (Ticked r # es) w =
    Crashed (engine_tick P r (start_live (dm_engine dm, w, [])))"
  using assms by (cases "run_daemon P None save (Ticked r # es) (dm_engine dm, w, [])")
    (auto simp: daemon_run_def Let_def run_daemon_def case_prod_beta)

end
