(* ===== verification/Config_Json.thy ===== *)
theory Config_Json
  imports Config_Correct
begin

text \<open>
  Decoding a configuration file, \<open>internal/config/decode.go\<close>: the strict decoders of the three formats and the check
  for repeated keys that is made before a JSON document is decoded. The decoders are parameters; of
  \<open>json.Decoder\<close> the check uses \<open>Token\<close> and \<open>More\<close>, modelled over the tokens of the document.
\<close>

section \<open>The check for duplicate keys\<close>

text \<open>The tokens of a document, without its commas and colons; numbers, booleans and null are all scalars here.\<close>

datatype json_token = BraceOpen | BraceClose | BracketOpen | BracketClose | StringToken string | ScalarToken

datatype json_error = UnexpectedEnd | UnexpectedToken json_token | DuplicateKey string | OutOfSteps

text \<open>\<open>More\<close>: another element of the object or array that is open.\<close>

fun json_more :: "json_token list \<Rightarrow> bool" where
  "json_more [] = False"
| "json_more (t # ts) = (t \<noteq> BraceClose \<and> t \<noteq> BracketClose)"

text \<open>\<open>Token\<close> after \<open>More\<close> has denied: it refuses a delimiter that does not match.\<close>

definition json_close :: "json_token \<Rightarrow> json_token list \<Rightarrow> (json_error, json_token list) result" where
  "json_close expected ts =
     (case ts of [] \<Rightarrow> Inl UnexpectedEnd | t # rest \<Rightarrow> if t = expected then Inr rest else Inl (UnexpectedToken t))"

text \<open>
  The walk over the tokens still to read, the keys of an object seen so far as a set. As a key, \<open>Token\<close> returns only strings.
  The fuel bounds the calls: more than twice the number of tokens is enough (\<open>walk_bounds\<close>).
\<close>

fun walk_json_value :: "nat \<Rightarrow> json_token list \<Rightarrow> (json_error, json_token list) result"
  and walk_json_object :: "nat \<Rightarrow> string set \<Rightarrow> json_token list \<Rightarrow> (json_error, json_token list) result"
  and walk_json_array :: "nat \<Rightarrow> json_token list \<Rightarrow> (json_error, json_token list) result" where
  "walk_json_value 0 ts = Inl OutOfSteps"
| "walk_json_value (Suc n) ts =
     (case ts of
        [] \<Rightarrow> Inl UnexpectedEnd
      | BraceOpen # rest \<Rightarrow> walk_json_object n {} rest
      | BracketOpen # rest \<Rightarrow> walk_json_array n rest
      | BraceClose # rest \<Rightarrow> Inl (UnexpectedToken BraceClose)
      | BracketClose # rest \<Rightarrow> Inl (UnexpectedToken BracketClose)
      | t # rest \<Rightarrow> Inr rest)"
| "walk_json_object 0 seen ts = Inl OutOfSteps"
| "walk_json_object (Suc n) seen ts =
     (if \<not> json_more ts then json_close BraceClose ts
      else (case hd ts of
          StringToken key \<Rightarrow>
            if key \<in> seen then Inl (DuplicateKey key)
            else rbind (walk_json_value n (tl ts)) (\<lambda>rest. walk_json_object n (insert key seen) rest)
        | t \<Rightarrow> Inl (UnexpectedToken t)))"
| "walk_json_array 0 ts = Inl OutOfSteps"
| "walk_json_array (Suc n) ts =
     (if \<not> json_more ts then json_close BracketClose ts
      else rbind (walk_json_value n ts) (\<lambda>rest. walk_json_array n rest))"

definition check_json_duplicates :: "json_token list \<Rightarrow> json_error option" where
  "check_json_duplicates ts =
     (case walk_json_value (2 * length ts + 1) ts of Inl e \<Rightarrow> Some e | Inr rest \<Rightarrow> None)"

section \<open>Decoding\<close>

record decoders =
  dc_toml :: "string \<Rightarrow> (string, raw_config) result"
  dc_yaml :: "string \<Rightarrow> (string, raw_config) result"
  dc_json :: "string \<Rightarrow> (string, raw_config) result"
  dc_tokens :: "string \<Rightarrow> json_token list"
  dc_message :: "json_error \<Rightarrow> string"

definition prefixed :: "string \<Rightarrow> (string, 'a) result \<Rightarrow> (string, 'a) result" where
  "prefixed p r = (case r of Inl e \<Rightarrow> Inl (p @ e) | Inr x \<Rightarrow> Inr x)"

fun decode_raw :: "decoders \<Rightarrow> format \<Rightarrow> string \<Rightarrow> (string, raw_config) result" where
  "decode_raw D TOML data = prefixed ''toml: '' (dc_toml D data)"
| "decode_raw D YAML data = prefixed ''yaml: '' (dc_yaml D data)"
| "decode_raw D JSON data =
     (case check_json_duplicates (dc_tokens D data) of
        Some e \<Rightarrow> Inl (''json: '' @ dc_message D e)
      | None \<Rightarrow> prefixed ''json: '' (dc_json D data))"

section \<open>The walk ends\<close>

lemma close_shrinks: "json_close c ts = Inr rest \<Longrightarrow> length rest < length ts"
  by (auto simp: json_close_def split: list.splits if_splits)

lemma close_fuel: "json_close c ts \<noteq> Inl OutOfSteps"
  by (auto simp: json_close_def split: list.splits)

lemma more_cons: "json_more ts \<Longrightarrow> \<exists>t rest. ts = t # rest"
  by (cases ts) auto

lemma walk_bounds:
  shows "2 * length ts < n \<Longrightarrow> (case walk_json_value n ts of Inl e \<Rightarrow> e \<noteq> OutOfSteps | Inr rest \<Rightarrow> length rest < length ts)"
    and "2 * length ts + 1 < n \<Longrightarrow> (case walk_json_object n seen ts of Inl e \<Rightarrow> e \<noteq> OutOfSteps | Inr rest \<Rightarrow> length rest < length ts)"
    and "2 * length ts + 1 < n \<Longrightarrow> (case walk_json_array n ts of Inl e \<Rightarrow> e \<noteq> OutOfSteps | Inr rest \<Rightarrow> length rest < length ts)"
proof (induction n ts and n seen ts and n ts rule: walk_json_value_walk_json_object_walk_json_array.induct)
  case (2 n ts)
  then show ?case
    by (auto split: list.splits json_token.splits sum.splits)
next
  case (4 n seen ts)
  show ?case
  proof (cases "json_more ts")
    case True
    then obtain t rest where ts: "ts = t # rest" using more_cons by blast
    show ?thesis
    proof (cases "\<exists>k b. t = StringToken k \<and> k \<notin> seen \<and> walk_json_value n rest = Inr b")
      case True
      then obtain k b where kb: "t = StringToken k" "k \<notin> seen" "walk_json_value n rest = Inr b" by blast
      moreover have "length b < length rest" using "4.IH"(1) [of k] kb ts \<open>json_more ts\<close> "4.prems" by simp
      moreover from this have "case walk_json_object n (insert k seen) b of
          Inl e \<Rightarrow> e \<noteq> OutOfSteps | Inr rest \<Rightarrow> length rest < length b"
        using "4.IH"(2) [of k b] kb ts \<open>json_more ts\<close> "4.prems" by simp
      ultimately show ?thesis using ts \<open>json_more ts\<close> by (auto split: sum.splits)
    next
      case False
      then show ?thesis using 4 \<open>json_more ts\<close> ts by (cases t; cases "walk_json_value n rest") auto
    qed
  qed (use close_fuel close_shrinks in \<open>auto split: sum.splits\<close>)
next
  case (6 n ts)
  show ?case
  proof (cases "json_more ts")
    case True
    then show ?thesis using 6 by (cases "walk_json_value n ts") (auto split: sum.splits)
  qed (use close_fuel close_shrinks in \<open>auto split: sum.splits\<close>)
qed simp_all

section \<open>Documents\<close>

text \<open>A document as a tree, its tokens, and what the check is for: no object of it has a key twice.\<close>

datatype json = JScalar | JString string | JArray "json list" | JObject "(string \<times> json) list"

fun json_tokens :: "json \<Rightarrow> json_token list" where
  "json_tokens JScalar = [ScalarToken]"
| "json_tokens (JString s) = [StringToken s]"
| "json_tokens (JArray vs) = BracketOpen # concat (map json_tokens vs) @ [BracketClose]"
| "json_tokens (JObject kvs) = BraceOpen # concat (map (\<lambda>(k, v). StringToken k # json_tokens v) kvs) @ [BraceClose]"

fun keys_once :: "json \<Rightarrow> bool" where
  "keys_once (JArray vs) \<longleftrightarrow> list_all keys_once vs"
| "keys_once (JObject kvs) \<longleftrightarrow> distinct (map fst kvs) \<and> list_all (\<lambda>(k, v). keys_once v) kvs"
| "keys_once _ \<longleftrightarrow> True"

definition walked :: "bool \<Rightarrow> json_token list \<Rightarrow> (json_error, json_token list) result \<Rightarrow> bool" where
  "walked ok rest r \<longleftrightarrow> (case r of Inr ts \<Rightarrow> ok \<and> ts = rest | Inl (DuplicateKey k) \<Rightarrow> \<not> ok | Inl _ \<Rightarrow> False)"

lemma walked_cases:
  assumes "walked ok rest r"
  obtains "ok" "r = Inr rest" | k where "\<not> ok" "r = Inl (DuplicateKey k)"
  using assms by (auto simp: walked_def split: sum.splits json_error.splits)

lemma walked_simps [simp]:
  "walked ok rest (Inr ts) \<longleftrightarrow> ok \<and> ts = rest" "walked ok rest (Inl (DuplicateKey k)) \<longleftrightarrow> \<not> ok"
  by (simp_all add: walked_def)

lemma tokens_cons: "\<exists>t ts. json_tokens v = t # ts \<and> json_more (t # ts @ rest)"
  by (cases v) auto

lemma walk_array:
  assumes "\<And>v n rest. v \<in> set vs \<Longrightarrow> 2 * length (json_tokens v @ rest) < n \<Longrightarrow>
      walked (keys_once v) rest (walk_json_value n (json_tokens v @ rest))"
    and "2 * length (concat (map json_tokens vs) @ BracketClose # rest) + 1 < n"
  shows "walked (list_all keys_once vs) rest (walk_json_array n (concat (map json_tokens vs) @ BracketClose # rest))"
  using assms
proof (induction vs arbitrary: n)
  case Nil
  then show ?case by (cases n) (auto simp: walked_def json_close_def)
next
  case (Cons v vs)
  let ?more = "concat (map json_tokens vs) @ BracketClose # rest"
  obtain m where n: "n = Suc m" using Cons.prems(2) by (cases n) auto
  obtain t ts where t: "json_tokens v = t # ts" "json_more (t # ts @ ?more)" using tokens_cons by blast
  have "walked (keys_once v) ?more (walk_json_value m (json_tokens v @ ?more))"
    using Cons.prems(2) t(1) n by (intro Cons.prems(1)) auto
  moreover have "walked (list_all keys_once vs) rest (walk_json_array m ?more)"
    using Cons.prems t(1) n by (intro Cons.IH) auto
  ultimately show ?case
    using t n by (auto elim!: walked_cases)
qed

lemma walk_object:
  assumes "\<And>k v n rest. (k, v) \<in> set kvs \<Longrightarrow> 2 * length (json_tokens v @ rest) < n \<Longrightarrow>
      walked (keys_once v) rest (walk_json_value n (json_tokens v @ rest))"
    and "2 * length (concat (map (\<lambda>(k, v). StringToken k # json_tokens v) kvs) @ BraceClose # rest) + 1 < n"
  shows "walked (distinct (map fst kvs) \<and> (\<forall>k \<in> set (map fst kvs). k \<notin> seen) \<and> list_all (\<lambda>(k, v). keys_once v) kvs) rest
    (walk_json_object n seen (concat (map (\<lambda>(k, v). StringToken k # json_tokens v) kvs) @ BraceClose # rest))"
  using assms
proof (induction kvs arbitrary: n seen)
  case Nil
  then show ?case by (cases n) (auto simp: walked_def json_close_def)
next
  case (Cons kv kvs)
  let ?more = "concat (map (\<lambda>(k, v). StringToken k # json_tokens v) kvs) @ BraceClose # rest"
  obtain k v where kv: "kv = (k, v)" by (cases kv)
  obtain m where n: "n = Suc m" using Cons.prems(2) by (cases n) auto
  have "walked (keys_once v) ?more (walk_json_value m (json_tokens v @ ?more))"
    using Cons.prems(2) kv n by (intro Cons.prems(1) [of k]) auto
  moreover have "walked (distinct (map fst kvs) \<and> (\<forall>x \<in> set (map fst kvs). x \<notin> insert k seen) \<and>
      list_all (\<lambda>(k, v). keys_once v) kvs) rest (walk_json_object m (insert k seen) ?more)"
    using Cons.prems kv n by (intro Cons.IH) auto
  ultimately show ?case
    using kv n by (cases "k \<in> seen") (auto elim!: walked_cases, force+)
qed

lemma walk_value: "2 * length (json_tokens v @ rest) < n \<Longrightarrow> walked (keys_once v) rest (walk_json_value n (json_tokens v @ rest))"
proof (induction v arbitrary: n rest)
  case (JArray vs)
  then obtain m where "n = Suc m" by (cases n) auto
  then show ?case using JArray walk_array [of vs rest m] by auto
next
  case (JObject kvs)
  then obtain m where n: "n = Suc m" by (cases n) auto
  have "walked (keys_once v) rest (walk_json_value n (json_tokens v @ rest))"
    if "(k, v) \<in> set kvs" "2 * length (json_tokens v @ rest) < n" for k v n rest
    using JObject.IH [of "(k, v)" v] that by auto
  then show ?case using n JObject.prems walk_object [of kvs rest m "{}"] by auto
next
  case JScalar
  then show ?case by (cases n) (auto simp: walked_def)
next
  case (JString s)
  then show ?case by (cases n) (auto simp: walked_def)
qed

text \<open>
  C38: Repeated keys. A JSON document is let through by the check exactly when no object in it, at any depth, has the same key
  twice, and otherwise it is refused for a repeated key; the walk always ends. What comes after the document is
  not looked at.
\<close>

theorem json_duplicates_refused:
  "case check_json_duplicates (json_tokens v @ rest) of
     None \<Rightarrow> keys_once v
   | Some e \<Rightarrow> \<not> keys_once v \<and> (case e of DuplicateKey k \<Rightarrow> True | _ \<Rightarrow> False)"
proof -
  have "walked (keys_once v) rest (walk_json_value (2 * length (json_tokens v @ rest) + 1) (json_tokens v @ rest))"
    by (rule walk_value) simp
  then show ?thesis unfolding check_json_duplicates_def by (elim walked_cases) simp_all
qed

text \<open>The keys are compared as they are written, although the decoder of the standard library takes a field's name in any case.\<close>

lemma check_is_case_sensitive:
  "check_json_duplicates (json_tokens (JObject [(''version'', JScalar), (''VERSION'', JScalar)])) = None"
  by code_simp

text \<open>What is decoded from a JSON file has no repeated key.\<close>

lemma decoded_keys_once:
  assumes "decode_raw D JSON data = Inr raw" and "dc_tokens D data = json_tokens v @ rest"
  shows "keys_once v"
  using assms walk_value [of v rest "2 * length (json_tokens v @ rest) + 1"]
  by (auto simp: check_json_duplicates_def elim!: walked_cases split: option.splits)

end
