(* ===== verification/Spec2Isabelle.thy ===== *)
theory Spec2Isabelle
  imports Expr_Correct Query_Spec Collect Control_Examples Metrics_Selection Settings_Examples
    Procfs_Examples Procfs_Host Procfs_Control Resolve App_Examples Render_Correct Tui_Examples
    App_Stream App_Tui_Correct App_Introspect App_Commands Daemon_Run Config_Json
begin

text \<open>
  A model of procfit (\<open>src/internal\<close>), a program that watches and controls Linux processes.

  How the program works. A process source reads \<open>/proc\<close>; the sampler turns two readings into a snapshot with rates; the
  resolvers and the optional collectors add users, units and costly metrics; a query groups, aggregates, filters and sorts the
  snapshot; the renderers and the explorer show the result. Beside that the control plane binds named targets to process
  instances, changes their nice value, stops, freezes and restores them through a controller port, and keeps what it did in a
  state file. The command line, the explorer and the daemon all drive these two halves.

  Conventions. Go structs are records, enumerations datatypes, maps functions to options, errors values of \<open>result\<close>; a panic is
  \<open>None\<close> where code can panic. Text is a list of bytes; \<open>f64\<close> of Go_Float is an IEEE double without the sign of zero, sizes
  and counters are words. Effects take and return the world, a type parameter, behind the ports of the code.

  Prelude, Go_Strings, Go_Float, Go_Duration, Go_Format: shared lemmas, \<open>result\<close>, and what the code uses of the Go
  library on text, floats, durations and formatting.

  Expr_Lexer, Expr_Eval, Expr_Parser, Expr_Correct (\<open>expr\<close>): the filter language from text to evaluation. The lemmas give
  the round trip through printing, totality of parsing, and that a compiled program only reads validated fields.

  Model_Core, Model_Process (\<open>model\<close>): readings with availability and quality, identities, processes, names.

  Metrics_Registry, Metrics_Builtin, Metrics_Selection (\<open>metrics\<close>): descriptors and the registry, all built-in metrics,
  profiles and selections.

  Query_Group, Query_Sort, Query_Engine, Query_Spec (\<open>query\<close>, \<open>queryspec\<close>): the engine and the compilation of flags into a query.
  The rows are shown to be those of a specification by keys, sorted, limited, filtered, with aggregates over present readings only.

  Collect (\<open>collect\<close>): the sampler. Rates exist only between two readable samples of the same instance and are never negative.

  Control_Model, Control_Manager (\<open>control\<close>), Control_Fake (\<open>testutil\<close>), Control_Safety, Control_Originals, Control_Restore,
  Control_Examples: the manager over the controller port, whose laws are the locale \<open>controller_laws\<close>, interpreted on the fake
  controller. The theorems: renices and signals reach only instances whose identity was just read and never a protected pid, a
  freeze that is not forced names no cgroup procfit runs in, dry runs reach nothing, the original is captured once, a restore never
  overwrites drift and undoes a renice.

  Config, Config_Correct, Config_Encode, Config_Examples (\<open>config\<close>), Config_Daemon (\<open>daemon/config.go\<close>), App_Settings,
  Config_Query, Settings_Examples (\<open>app/settings.go\<close>, \<open>configmerge.go\<close>): the configuration file, its validation, precedence of
  the layers, and that a loaded file, taken through the settings layer, builds the query it describes. Config_Json (\<open>config/decode.go\<close>): the check for repeated keys, shown to
  refuse exactly the documents that have one.

  Procfs_Parse, Procfs_Source, Procfs_Collect, Procfs_Readings, Procfs_Host, Procfs_Control, Procfs_Correct, Procfs_Examples
  (\<open>procfs\<close>), Resolve (\<open>resolve\<close>): parsers and readers of the kernel's files, collectors of processes and of the host, the Linux controller.

  Daemon, Daemon_Invariant, Daemon_Requests, Daemon_Examples (\<open>daemon\<close>): the engine, its tick, the requests and what they reach.
  Daemon_Run (\<open>daemon/run.go\<close>, \<open>app/daemon.go\<close>): a daemon from its start to its shutdown, its goroutines as a sequence of events.
  Every run is made of the steps of Daemon_Invariant; a client that is alone sees the handler of its connection; the generation
  counts the samples up to the first failure; the targets of clients, as an acknowledged
  request or a shutdown left them, are there again in a daemon that starts on that disk, whatever configuration it finds.

  State_Store, State_Restart (\<open>state/store.go\<close>, \<open>daemon/run.go\<close>), History (\<open>history\<close>): the state file with a failure at any call, the
  audit log, and what a start makes of the file.

  App_Control, App_Control_Correct, App_Examples (\<open>app/control.go\<close>, \<open>control_cmds.go\<close>): the control commands, their exit codes,
  that they return, what previews leave alone, and that they resolve targets as the daemon does.

  App_Assembly, App_Machine, App_Assembly_Correct, App_Stream (\<open>app/assembly.go\<close>, \<open>ps.go\<close>, \<open>stat.go\<close>, \<open>export.go\<close>, \<open>app.go\<close>): the
  ports wired over one machine, one sample for one result, and the commands that print samples. The contracts of the two kinds of
  collectors are locales, interpreted on every collector of the program. The theorems: exactly the collectors a query needs are
  run, each once, which a tally of the runs observes; optional files are read only when a query uses them; collectors write their own
  metrics only; an instant sample has no rate but those that collectors measure in a window of their own; a counted stream ends.

  Procfs_Gpu, Procfs_Sensors, Procfs_Counters (\<open>gpu.go\<close>, \<open>psi.go\<close>, \<open>loadavg.go\<close>, \<open>temp.go\<close>, \<open>perf_linux.go\<close>, \<open>ebpf_linux.go\<close>):
  the collectors of graphics use, pressure, load, sensors, hardware counters and wakeups. Clients are counted once, every descriptor
  of a counter is closed again, a measured wakeup is not overwritten by the fallback.

  App_Tui, App_Tui_Correct (\<open>app/tui.go\<close>): the data sources and callbacks the explorer runs on, over the assembly and the control
  plane. The theorems join them with the key handling of \<open>tui\<close>: a session in which y is never pressed changes no process, the calls
  of a confirmed request are for bound instances and pause no cgroup procfit runs in, and the managed panel shows the live managed
  processes that its filters keep and, whatever they are, the bindings that are gone.

  App_Introspect (\<open>app/introspect.go\<close>), App_Commands (\<open>app/config.go\<close>, \<open>service.go\<close>, \<open>daemon.go\<close>): the catalog of fields against what
  the flags accept, availability, capabilities, the configuration commands and a conversion that checks.

  Render_Format, Render_Output, Render_Correct (\<open>render\<close>, \<open>app/hostsection.go\<close>, \<open>app/render.go\<close>): cells, columns and every output format.

  Tui_Model, Tui_Filter, Tui_Update, Tui_Frame (\<open>tui\<close>), Tui_Gate, Tui_Correct, Tui_Examples: the explorer as a state, its keys in every
  mode, its frames and its loop. The theorems: every request is previewed and confirmed, an invariant of all runs, the one key that
  can panic, and that it can always be left.

  Bounds and fuel. Most loops are structural recursions. The parser carries fuel, a multiple of the number of tokens, which
  Expr_Correct shows is never used up; the lexer, the walk over inherited presets, the filtering and the sorting of trees have
  termination proofs. Integers of the kernel are words of their width; times are integers of nanoseconds.

  Three more bounds: the walk over the tokens of a JSON document carries fuel, for which twice their number and one more is
  enough; the stream of \<open>stat\<close> carries fuel for its rounds, which a positive count makes enough; and the batches of hardware
  counters get shorter.

  Not modelled: sockets, the HTTP server, JSON, TOML and YAML encodings (parameters), the terminal library and drawing, command-line
  parsing by the flag package, texts of help and messages on standard error, concurrency inside the daemon (steps are atomic), loading
  an eBPF program into the kernel, cancellation of scans.
\<close>

end
